(* ===== verification/Prelude.thy ===== *)
theory Prelude
  imports Complex_Main "HOL-Library.AList"
begin

text \<open>
  Shared vocabulary of the development: Python's exceptions as a datatype, Python's
  \<open>int()\<close> and \<open>round()\<close> on floats, dictionaries that keep their insertion order,
  \<open>max\<close> over a dictionary by value, and the string operations the services use.

  A Python float is a rational number here: the arithmetic of the model is exact, the
  rounding of IEEE doubles and the values \<open>nan\<close> and \<open>inf\<close> are outside it (where the
  code tests for \<open>nan\<close> explicitly, the model has a separate constructor for it).
  A Python int is an \<open>int\<close>. A text is a \<open>string\<close>; log messages and the wording of
  human readable reasons are not modelled, a reason is a constructor of a datatype.
\<close>

section \<open>Lemma collections\<close>

named_theorems pynum "arithmetic of Python numbers in the model"
named_theorems frames "what an operation leaves unchanged"

section \<open>Exceptions and results\<close>

datatype py_exc =
    TypeError | ValueError | ZeroDivisionError | NameError | KeyError | IndexError
  | AttributeError | RuntimeError | DbError | ApiError | ImportError

type_synonym 'a res = "py_exc + 'a"

definition rbind :: "'a res \<Rightarrow> ('a \<Rightarrow> 'b res) \<Rightarrow> 'b res" where
  "rbind r f = (case r of Inl e \<Rightarrow> Inl e | Inr x \<Rightarrow> f x)"

lemma rbind_simps [simp]:
  "rbind (Inl e) f = Inl e"
  "rbind (Inr x) f = f x"
  by (simp_all add: rbind_def)

lemma rbind_eq_Inr_iff: "rbind r f = Inr y \<longleftrightarrow> (\<exists>x. r = Inr x \<and> f x = Inr y)"
  by (cases r) auto

definition py_div :: "rat \<Rightarrow> rat \<Rightarrow> rat res" where
  "py_div a b = (if b = 0 then Inl ZeroDivisionError else Inr (a / b))"

lemma py_div_nonzero [simp]: "b \<noteq> 0 \<Longrightarrow> py_div a b = Inr (a / b)"
  by (simp add: py_div_def)

lemma py_div_zero [simp]: "py_div a 0 = Inl ZeroDivisionError"
  by (simp add: py_div_def)

section \<open>Numbers\<close>

text \<open>\<open>int(x)\<close> of a float truncates towards zero.\<close>

definition py_int :: "rat \<Rightarrow> int" where
  "py_int x = (if 0 \<le> x then \<lfloor>x\<rfloor> else \<lceil>x\<rceil>)"

lemma py_int_of_int [simp]: "py_int (of_int i) = i"
  by (simp add: py_int_def)

lemma py_int_numeral [simp]: "py_int 0 = 0" "py_int 1 = 1" "py_int (numeral n) = numeral n"
  by (simp_all add: py_int_def)

lemma floor_rat_fraction [simp]:
  "\<lfloor>(numeral a / numeral b :: rat)\<rfloor> = numeral a div numeral b"
  "\<lfloor>(1 / numeral b :: rat)\<rfloor> = 1 div numeral b"
  "\<lfloor>(- (numeral a / numeral b) :: rat)\<rfloor> = - numeral a div numeral b"
  using floor_divide_of_int_eq [of "numeral a" "numeral b", where 'a = rat]
    floor_divide_of_int_eq [of 1 "numeral b", where 'a = rat]
    floor_divide_of_int_eq [of "- numeral a" "numeral b", where 'a = rat]
  by simp_all

lemma py_int_nonneg [pynum]: "0 \<le> x \<Longrightarrow> 0 \<le> py_int x"
  by (simp add: py_int_def)

lemma py_int_nonpos [pynum]: "x \<le> 0 \<Longrightarrow> py_int x \<le> 0"
  by (auto simp: py_int_def ceiling_le_iff)

lemma py_int_le [pynum]: "0 \<le> x \<Longrightarrow> of_int (py_int x) \<le> x"
  by (simp add: py_int_def)

lemma py_int_gt [pynum]: "x < of_int (py_int x) + 1"
proof (cases "0 \<le> x")
  case True
  have "x < of_int \<lfloor>x\<rfloor> + 1" by linarith
  with True show ?thesis by (simp add: py_int_def)
next
  case False
  have "x < of_int \<lceil>x\<rceil> + 1" using le_of_int_ceiling [of x] by linarith
  with False show ?thesis by (simp add: py_int_def)
qed

lemma py_int_mono [pynum]: "x \<le> y \<Longrightarrow> py_int x \<le> py_int y"
proof (cases "0 \<le> x")
  case True
  assume "x \<le> y"
  with True show ?thesis by (simp add: py_int_def floor_mono)
next
  case False
  assume xy: "x \<le> y"
  show ?thesis
  proof (cases "0 \<le> y")
    case True
    with False have "py_int x \<le> 0" "0 \<le> py_int y" by (auto intro: pynum)
    then show ?thesis by simp
  next
    case y: False
    with False xy show ?thesis by (simp add: py_int_def ceiling_mono)
  qed
qed

lemma py_int_pos_iff [pynum]: "0 < py_int x \<longleftrightarrow> 1 \<le> x"
  by (auto simp: py_int_def zero_less_floor)

text \<open>
  Buying \<open>int(cap / price)\<close> shares never costs more than \<open>cap\<close>: the step every
  sizing rule of the services rests on.
\<close>

lemma py_int_div_cost:
  assumes "0 < p" "0 \<le> cap"
  shows "of_int (py_int (cap / p)) * p \<le> cap"
proof -
  have "of_int (py_int (cap / p)) \<le> cap / p"
    using assms by (intro pynum) simp
  with assms(1) show ?thesis
    by (simp add: pos_le_divide_eq)
qed

text \<open>\<open>round(x)\<close> rounds halves to even; \<open>round(x, n)\<close> does so after scaling.\<close>

definition py_round :: "rat \<Rightarrow> int" where
  "py_round x =
     (let f = \<lfloor>x\<rfloor>; d = x - of_int f
      in if d < 1/2 then f else if 1/2 < d then f + 1 else if even f then f else f + 1)"

definition py_round_digits :: "nat \<Rightarrow> rat \<Rightarrow> rat" where
  "py_round_digits n x = of_int (py_round (x * 10 ^ n)) / 10 ^ n"

lemma py_round_near: "\<bar>of_int (py_round x) - x\<bar> \<le> 1/2"
proof -
  have "of_int \<lfloor>x\<rfloor> \<le> x" "x < of_int \<lfloor>x\<rfloor> + 1" by linarith+
  then show ?thesis by (simp add: py_round_def Let_def abs_le_iff)
qed

lemma py_round_of_int [simp]: "py_round (of_int i) = i"
  by (simp add: py_round_def)

lemma py_round_mono: "x \<le> y \<Longrightarrow> py_round x \<le> py_round y"
proof -
  assume xy: "x \<le> y"
  have fl: "\<lfloor>x\<rfloor> \<le> \<lfloor>y\<rfloor>" using xy by (rule floor_mono)
  show ?thesis
  proof (cases "\<lfloor>x\<rfloor> = \<lfloor>y\<rfloor>")
    case True
    with xy show ?thesis by (auto simp: py_round_def Let_def)
  next
    case False
    with fl have "\<lfloor>x\<rfloor> + 1 \<le> \<lfloor>y\<rfloor>" by simp
    then show ?thesis by (auto simp: py_round_def Let_def)
  qed
qed

lemma py_round_digits_near: "\<bar>py_round_digits n x - x\<bar> \<le> 1 / (2 * 10 ^ n)"
proof -
  have "\<bar>of_int (py_round (x * 10 ^ n)) - x * 10 ^ n\<bar> / 10 ^ n \<le> (1/2) / (10::rat) ^ n"
    by (intro divide_right_mono py_round_near) simp
  moreover have "py_round_digits n x - x = (of_int (py_round (x * 10 ^ n)) - x * 10 ^ n) / 10 ^ n"
    by (simp add: py_round_digits_def diff_divide_distrib)
  ultimately show ?thesis by (simp add: abs_divide)
qed

lemma py_round_digits_bounds:
  assumes "of_int a \<le> x" "x \<le> of_int b"
  shows "of_int a \<le> py_round_digits n x" "py_round_digits n x \<le> of_int b"
proof -
  have p: "(0::rat) < 10 ^ n" by simp
  have "of_int (a * 10 ^ n) \<le> x * 10 ^ n" "x * 10 ^ n \<le> of_int (b * 10 ^ n)"
    using assms by (simp_all add: mult_right_mono)
  then have "a * 10 ^ n \<le> py_round (x * 10 ^ n)" "py_round (x * 10 ^ n) \<le> b * 10 ^ n"
    using py_round_mono py_round_of_int by metis+
  then have "(of_int (a * 10 ^ n) :: rat) \<le> of_int (py_round (x * 10 ^ n))"
    "(of_int (py_round (x * 10 ^ n)) :: rat) \<le> of_int (b * 10 ^ n)"
    by (simp_all only: of_int_le_iff)
  with p show "of_int a \<le> py_round_digits n x" "py_round_digits n x \<le> of_int b"
    by (simp_all add: py_round_digits_def pos_le_divide_eq pos_divide_le_eq)
qed

text \<open>A percentage of an amount, \<open>amount * (pct / 100.0)\<close>.\<close>

definition pct_of :: "rat \<Rightarrow> rat \<Rightarrow> rat" where
  "pct_of pct amount = amount * (pct / 100)"

lemma pct_of_nonneg [pynum]: "0 \<le> pct \<Longrightarrow> 0 \<le> amount \<Longrightarrow> 0 \<le> pct_of pct amount"
  by (simp add: pct_of_def)

lemma pct_of_mono [pynum]: "p \<le> q \<Longrightarrow> 0 \<le> amount \<Longrightarrow> pct_of p amount \<le> pct_of q amount"
  by (simp add: pct_of_def mult_left_mono divide_right_mono)

text \<open>What percentage of a total an amount is, \<open>(v / total) * 100\<close>.\<close>

definition share_pct :: "rat \<Rightarrow> rat \<Rightarrow> rat" where
  "share_pct v ta = v / ta * 100"

lemma share_pct_zero [simp]: "share_pct 0 ta = 0"
  by (simp add: share_pct_def)

lemma share_pct_add: "share_pct (u + v) ta = share_pct u ta + share_pct v ta"
  by (simp add: share_pct_def add_divide_distrib)

lemma share_pct_le_iff:
  assumes "0 < ta"
  shows "share_pct v ta \<le> pct \<longleftrightarrow> v \<le> pct_of pct ta"
  using assms by (simp add: share_pct_def pct_of_def field_simps)

lemma pct_of_share_pct: "ta \<noteq> 0 \<Longrightarrow> pct_of (share_pct v ta) ta = v"
  by (simp add: share_pct_def pct_of_def)

section \<open>Dictionaries in insertion order\<close>

text \<open>
  \<open>d[k] = v\<close> on a dict whose order matters: an association list, updated in place when
  the key is present and extended at the end otherwise (\<open>AList.update\<close>).
\<close>

definition dict_get :: "'k \<Rightarrow> 'v \<Rightarrow> ('k \<times> 'v) list \<Rightarrow> 'v" where
  "dict_get k d xs = (case map_of xs k of None \<Rightarrow> d | Some v \<Rightarrow> v)"

definition dict_add :: "'k \<Rightarrow> rat \<Rightarrow> ('k \<times> rat) list \<Rightarrow> ('k \<times> rat) list" where
  "dict_add k v xs = AList.update k (dict_get k 0 xs + v) xs"

definition dict_sum :: "('k \<times> rat) list \<Rightarrow> rat" where
  "dict_sum xs = sum_list (map snd xs)"

lemma dict_get_update [simp]:
  "dict_get k d (AList.update k' v xs) = (if k = k' then v else dict_get k d xs)"
  by (simp add: dict_get_def update_conv')

lemma dict_get_add [simp]:
  "dict_get k 0 (dict_add k' v xs) = dict_get k 0 xs + (if k = k' then v else 0)"
  by (simp add: dict_add_def)

lemma dict_sum_update:
  "distinct (map fst xs) \<Longrightarrow>
   dict_sum (AList.update k v xs) = dict_sum xs - dict_get k 0 xs + v"
proof (induction xs)
  case Nil
  then show ?case by (simp add: dict_sum_def dict_get_def)
next
  case (Cons x xs)
  obtain a b where x: "x = (a, b)" by (cases x)
  show ?case
  proof (cases "a = k")
    case True
    with x show ?thesis by (simp add: dict_sum_def dict_get_def)
  next
    case False
    have "distinct (map fst xs)" using Cons.prems by simp
    note IH = Cons.IH [OF this]
    show ?thesis using False x IH by (simp add: dict_sum_def dict_get_def)
  qed
qed

lemma dict_sum_add:
  "distinct (map fst xs) \<Longrightarrow> dict_sum (dict_add k v xs) = dict_sum xs + v"
  by (simp add: dict_add_def dict_sum_update)

lemma distinct_dict_add: "distinct (map fst xs) \<Longrightarrow> distinct (map fst (dict_add k v xs))"
  by (simp add: dict_add_def distinct_update)

text \<open>
  \<open>max(d, key=d.get)\<close>: the first key, in insertion order, that has the largest value.
\<close>

fun argmax_from :: "'k \<Rightarrow> rat \<Rightarrow> ('k \<times> rat) list \<Rightarrow> 'k" where
  "argmax_from k v [] = k"
| "argmax_from k v ((k', v') # xs) =
     (if v < v' then argmax_from k' v' xs else argmax_from k v xs)"

fun dict_argmax :: "('k \<times> rat) list \<Rightarrow> 'k option" where
  "dict_argmax [] = None"
| "dict_argmax ((k, v) # xs) = Some (argmax_from k v xs)"

lemma argmax_from_in: "argmax_from k v xs \<in> insert k (fst ` set xs)"
  by (induction k v xs rule: argmax_from.induct) auto

lemma argmax_from_greatest:
  "\<exists>w. (argmax_from k v xs, w) \<in> insert (k, v) (set xs) \<and> v \<le> w \<and> (\<forall>(k', v') \<in> set xs. v' \<le> w)"
proof (induction k v xs rule: argmax_from.induct)
  case (1 k v)
  then show ?case by auto
next
  case (2 k v k' v' xs)
  show ?case
  proof (cases "v < v'")
    case True
    from 2(1) [OF True] obtain w where
      "(argmax_from k' v' xs, w) \<in> insert (k', v') (set xs)" "v' \<le> w" "\<forall>(k', v') \<in> set xs. v' \<le> w"
      by blast
    with True show ?thesis by (intro exI [of _ w]) auto
  next
    case False
    from 2(2) [OF False] obtain w where
      "(argmax_from k v xs, w) \<in> insert (k, v) (set xs)" "v \<le> w" "\<forall>(k', v') \<in> set xs. v' \<le> w"
      by blast
    with False show ?thesis by (intro exI [of _ w]) auto
  qed
qed

lemma find_append: "find P (xs @ ys) = (case find P xs of None \<Rightarrow> find P ys | Some x \<Rightarrow> Some x)"
  by (induction xs) auto

lemma find_filter: "find P xs = (case filter P xs of [] \<Rightarrow> None | x # _ \<Rightarrow> Some x)"
  by (induction xs) auto

section \<open>Sorting\<close>

text \<open>
  \<open>xs.sort(key=f, reverse=True)\<close> is stable: elements with equal keys keep their order.
\<close>

definition sort_desc :: "('a \<Rightarrow> rat) \<Rightarrow> 'a list \<Rightarrow> 'a list" where
  "sort_desc f xs = sort_key (\<lambda>x. - f x) xs"

lemma set_sort_desc [simp]: "set (sort_desc f xs) = set xs"
  by (simp add: sort_desc_def)

lemma length_sort_desc [simp]: "length (sort_desc f xs) = length xs"
  by (simp add: sort_desc_def)

lemma sort_desc_empty [simp]: "sort_desc f xs = [] \<longleftrightarrow> xs = []"
  by (metis length_sort_desc length_0_conv)

lemma sort_desc_hd_max:
  assumes "sort_desc f xs = y # ys" "x \<in> set xs"
  shows "f x \<le> f y"
proof -
  have srt: "sorted (map (\<lambda>x. - f x) (y # ys))"
    using assms(1) sorted_sort_key [of "\<lambda>x. - f x" xs] by (simp add: sort_desc_def)
  have "x \<in> set (y # ys)" using assms by (metis set_sort_desc)
  with srt show ?thesis by auto
qed

section \<open>Handlers\<close>

text \<open>
  A request handler runs through a sequence of steps on its state. A step goes on with a
  value, returns the handler's answer early, or raises.
\<close>

datatype ('r, 'a) flow = Next 'a | Return 'r | Raise py_exc

type_synonym ('s, 'r, 'a) prog = "'s \<Rightarrow> ('r, 'a) flow \<times> 's"

definition next_with :: "'a \<Rightarrow> ('s, 'r, 'a) prog" where
  "next_with a s = (Next a, s)"

definition return_with :: "'r \<Rightarrow> ('s, 'r, 'a) prog" where
  "return_with r s = (Return r, s)"

definition seq :: "('s, 'r, 'a) prog \<Rightarrow> ('a \<Rightarrow> ('s, 'r, 'b) prog) \<Rightarrow> ('s, 'r, 'b) prog" where
  "seq p f s =
     (case p s of
        (Next a, s') \<Rightarrow> f a s'
      | (Return r, s') \<Rightarrow> (Return r, s')
      | (Raise e, s') \<Rightarrow> (Raise e, s'))"

definition return_if :: "bool \<Rightarrow> 'r \<Rightarrow> ('s, 'r, unit) prog" where
  "return_if b r s = ((if b then Return r else Next ()), s)"

definition of_res :: "'a res \<Rightarrow> ('s, 'r, 'a) prog" where
  "of_res x s = ((case x of Inl e \<Rightarrow> Raise e | Inr a \<Rightarrow> Next a), s)"

lemma prog_simps [simp]:
  "seq (next_with a) f = f a"
  "seq (return_with r) f = return_with r"
  "seq (return_if b r) g s = (if b then (Return r, s) else g () s)"
  "seq (of_res x) h s = (case x of Inl e \<Rightarrow> (Raise e, s) | Inr a \<Rightarrow> h a s)"
  by (auto simp: seq_def next_with_def return_with_def return_if_def of_res_def fun_eq_iff split: sum.splits)

text \<open>What every step keeps, the sequence keeps.\<close>

definition keeps :: "('s \<Rightarrow> 's \<Rightarrow> bool) \<Rightarrow> ('s, 'r, 'a) prog \<Rightarrow> bool" where
  "keeps R p \<longleftrightarrow> (\<forall>s. R s (snd (p s)))"

lemma keeps_seq:
  "transp R \<Longrightarrow> keeps R p \<Longrightarrow> (\<And>a. keeps R (f a)) \<Longrightarrow> keeps R (seq p f)"
  unfolding keeps_def seq_def by (auto split: prod.splits flow.splits elim: transpE) (metis snd_conv transpD)+

lemma keeps_pure:
  "reflp R \<Longrightarrow> keeps R (next_with a)" "reflp R \<Longrightarrow> keeps R (return_with r)"
  "reflp R \<Longrightarrow> keeps R (return_if b r)" "reflp R \<Longrightarrow> keeps R (of_res x)"
  by (simp_all add: keeps_def next_with_def return_with_def return_if_def of_res_def reflpD)

end
