(* ===== verification/Interfaces.thy ===== *)
theory Interfaces
  imports Prelude
begin

text \<open>
  The contracts the components rely on, as locales. A locale fixes the operations a client
  calls and assumes the laws their provider promises; what follows from the laws alone is
  proved here, once, and every provider of the model interprets its locale in its own
  theory.
\<close>

section \<open>Stores whose entries expire\<close>

text \<open>
  A store with one lifetime for all entries: \<open>put t k v\<close> writes at time \<open>t\<close>,
  \<open>fetch t k\<close> reads at time \<open>t\<close> and finds an entry while it is younger than \<open>life\<close>.
\<close>

locale expiring_store =
  fixes put :: "rat \<Rightarrow> 'k \<Rightarrow> 'v \<Rightarrow> 's \<Rightarrow> 's"
    and fetch :: "rat \<Rightarrow> 'k \<Rightarrow> 's \<Rightarrow> 'v option"
    and life :: "'s \<Rightarrow> rat"
  assumes fetch_put_same: "fetch t k (put t0 k v s) = (if t - t0 < life s then Some v else None)"
    and fetch_put_other: "k \<noteq> k' \<Longrightarrow> fetch t k' (put t0 k v s) = fetch t k' s"
    and life_put: "life (put t0 k v s) = life s"
begin

lemma life_puts: "life (fold (\<lambda>(k, v). put t0 k v) kvs s) = life s"
  by (induction kvs arbitrary: s) (auto simp: life_put)

text \<open>After a batch of writes the last write of each key counts, and only its keys change.\<close>

lemma fetch_puts:
  "fetch t k (fold (\<lambda>(k, v). put t0 k v) kvs s) =
     (case map_of (rev kvs) k of
        Some v \<Rightarrow> if t - t0 < life s then Some v else None
      | None \<Rightarrow> fetch t k s)"
proof (induction kvs arbitrary: s)
  case Nil
  then show ?case by simp
next
  case (Cons x kvs)
  obtain k' v' where x: "x = (k', v')" by (cases x)
  show ?case
    unfolding x
    by (auto simp: Cons.IH life_put fetch_put_same fetch_put_other map_add_def split: option.splits)
qed

lemma fetch_puts_distinct:
  assumes "distinct (map fst kvs)" "(k, v) \<in> set kvs" "t - t0 < life s"
  shows "fetch t k (fold (\<lambda>(k, v). put t0 k v) kvs s) = Some v"
proof -
  have "map_of (rev kvs) k = Some v"
    using assms(1,2) by (intro map_of_is_SomeI) (simp_all add: rev_map [symmetric])
  with assms(3) show ?thesis by (simp add: fetch_puts)
qed

lemma fetch_puts_frame:
  assumes "k \<notin> fst ` set kvs"
  shows "fetch t k (fold (\<lambda>(k, v). put t0 k v) kvs s) = fetch t k s"
proof -
  have "map_of (rev kvs) k = None" using assms by (simp add: map_of_eq_None_iff)
  then show ?thesis by (simp add: fetch_puts)
qed

end

section \<open>Memoised lookups\<close>

text \<open>
  A lookup that may fail and remembers every answer: \<open>run k a s\<close> looks \<open>k\<close> up (with a
  hint \<open>a\<close>), \<open>known s\<close> is what is remembered. A failure remembers nothing.
\<close>

locale memo_lookup =
  fixes run :: "'k \<Rightarrow> 'a \<Rightarrow> 's \<Rightarrow> 'v res \<times> 's"
    and known :: "'s \<Rightarrow> 'k \<rightharpoonup> 'v"
  assumes run_hit: "known s k = Some v \<Longrightarrow> run k a s = (Inr v, s)"
    and run_learn: "run k a s = (Inr v, s') \<Longrightarrow> known s' = (known s)(k \<mapsto> v)"
    and run_fail: "run k a s = (Inl e, s') \<Longrightarrow> known s' = known s"
begin

lemma run_known: "run k a s = (Inr v, s') \<Longrightarrow> known s' k = Some v"
  by (simp add: run_learn)

lemma run_mono: "run k a s = (r, s') \<Longrightarrow> known s \<subseteq>\<^sub>m known s'"
proof (cases r)
  case (Inl e)
  assume "run k a s = (r, s')"
  with Inl show ?thesis by (simp add: run_fail)
next
  case (Inr v)
  assume run: "run k a s = (r, s')"
  show ?thesis
  proof (cases "known s k")
    case None
    with run Inr show ?thesis by (auto simp: run_learn map_le_def)
  next
    case (Some v')
    with run Inr show ?thesis by (auto simp: run_hit)
  qed
qed

text \<open>Once answered, a key keeps its answer, in every state that knows at least as much.\<close>

lemma run_stable:
  assumes "run k a s = (Inr v, s')" "known s' \<subseteq>\<^sub>m known s''"
  shows "run k b s'' = (Inr v, s'')"
proof -
  have "known s' k = Some v" using assms(1) by (rule run_known)
  with assms(2) have "known s'' k = Some v" by (auto simp: map_le_def dom_def)
  then show ?thesis by (rule run_hit)
qed

end

section \<open>Weighted means\<close>

text \<open>
  What the indicators use of pandas' \<open>ewm(com=period - 1).mean()\<close>: its last value is a
  weighted mean of the series, so it lies between the bounds of the series.
\<close>

locale ewm_mean =
  fixes ewm :: "nat \<Rightarrow> rat list \<Rightarrow> rat"
  assumes ewm_ge: "1 \<le> period \<Longrightarrow> xs \<noteq> [] \<Longrightarrow> \<forall>x \<in> set xs. lo \<le> x \<Longrightarrow> lo \<le> ewm period xs"
    and ewm_le: "1 \<le> period \<Longrightarrow> xs \<noteq> [] \<Longrightarrow> \<forall>x \<in> set xs. x \<le> hi \<Longrightarrow> ewm period xs \<le> hi"
begin

lemma ewm_nonneg: "1 \<le> period \<Longrightarrow> xs \<noteq> [] \<Longrightarrow> \<forall>x \<in> set xs. 0 \<le> x \<Longrightarrow> 0 \<le> ewm period xs"
  by (rule ewm_ge)

lemma ewm_const: "1 \<le> period \<Longrightarrow> xs \<noteq> [] \<Longrightarrow> \<forall>x \<in> set xs. x = c \<Longrightarrow> ewm period xs = c"
  using ewm_ge [of period xs c] ewm_le [of period xs c] by (simp add: order_antisym)

end

section \<open>Refinement\<close>

text \<open>
  A concrete step refines an abstract one through \<open>abs\<close>, on the states that satisfy the
  invariant \<open>ok\<close> and for the requests that are \<open>legal\<close> there. What holds of one step
  holds of every run of legal requests.
\<close>

locale step_refinement =
  fixes step :: "'r \<Rightarrow> 's \<Rightarrow> 's"
    and astep :: "'r \<Rightarrow> 'a \<Rightarrow> 'a"
    and abs :: "'s \<Rightarrow> 'a"
    and ok :: "'s \<Rightarrow> bool"
    and legal :: "'s \<Rightarrow> 'r \<Rightarrow> bool"
  assumes step_ok: "ok s \<Longrightarrow> legal s r \<Longrightarrow> ok (step r s)"
    and step_abs: "ok s \<Longrightarrow> legal s r \<Longrightarrow> abs (step r s) = astep r (abs s)"
begin

fun legal_run :: "'s \<Rightarrow> 'r list \<Rightarrow> bool" where
  "legal_run s [] = True"
| "legal_run s (r # rs) = (legal s r \<and> legal_run (step r s) rs)"

lemma run_ok: "ok s \<Longrightarrow> legal_run s rs \<Longrightarrow> ok (fold step rs s)"
  by (induction rs arbitrary: s) (auto simp: step_ok)

lemma run_abs: "ok s \<Longrightarrow> legal_run s rs \<Longrightarrow> abs (fold step rs s) = fold astep rs (abs s)"
  by (induction rs arbitrary: s) (auto simp: step_ok step_abs)

end

section \<open>Keys with their own lifetime\<close>

text \<open>
  What the services use of Redis: \<open>setex t k ttl v\<close> writes at time \<open>t\<close> an entry that lives
  for \<open>ttl\<close>, \<open>get t k\<close> reads at time \<open>t\<close>, \<open>del k\<close> removes.
\<close>

locale ttl_store =
  fixes setex :: "rat \<Rightarrow> 'k \<Rightarrow> rat \<Rightarrow> 'v \<Rightarrow> 's \<Rightarrow> 's"
    and get :: "rat \<Rightarrow> 'k \<Rightarrow> 's \<Rightarrow> 'v option"
    and del :: "'k \<Rightarrow> 's \<Rightarrow> 's"
  assumes get_setex_same: "get t k (setex t0 k ttl v s) = (if t < t0 + ttl then Some v else None)"
    and get_setex_other: "k \<noteq> k' \<Longrightarrow> get t k' (setex t0 k ttl v s) = get t k' s"
    and get_del_same: "get t k (del k s) = None"
    and get_del_other: "k \<noteq> k' \<Longrightarrow> get t k' (del k s) = get t k' s"
begin

lemma get_setex: "get t k' (setex t0 k ttl v s) = (if k = k' then if t < t0 + ttl then Some v else None else get t k' s)"
  by (simp add: get_setex_same get_setex_other)

text \<open>Reading, changing and writing back: while the entry lives, a run of updates is a fold.\<close>

definition update :: "rat \<Rightarrow> 'k \<Rightarrow> rat \<Rightarrow> ('v option \<Rightarrow> 'v) \<Rightarrow> 's \<Rightarrow> 's" where
  "update t k ttl f s = setex t k ttl (f (get t k s)) s"

lemma get_update: "0 < ttl \<Longrightarrow> get t k (update t k ttl f s) = Some (f (get t k s))"
  by (simp add: update_def get_setex_same)

lemma get_updates:
  assumes "0 < ttl" "fs \<noteq> []"
  shows "get t k (fold (\<lambda>f. update t k ttl f) fs s) = fold (\<lambda>f v. Some (f v)) fs (get t k s)"
  using assms(2)
proof (induction fs arbitrary: s)
  case (Cons f fs)
  then show ?case using assms(1) by (cases fs) (simp_all add: get_update)
qed simp

lemma update_other: "k \<noteq> k' \<Longrightarrow> get t' k' (update t k ttl f s) = get t' k' s"
  by (simp add: update_def get_setex_other)

end

section \<open>Tables with a key\<close>

text \<open>
  \<open>row_of\<close> is a select by key, \<open>put_row\<close> an upsert: \<open>merge old new\<close> is what the row becomes when
  its key is there already.
\<close>

definition row_of :: "('r \<Rightarrow> 'k) \<Rightarrow> 'k \<Rightarrow> 'r list \<Rightarrow> 'r option" where
  "row_of key k rows = find (\<lambda>r. key r = k) rows"

definition put_row :: "('r \<Rightarrow> 'k) \<Rightarrow> ('r \<Rightarrow> 'r \<Rightarrow> 'r) \<Rightarrow> 'r \<Rightarrow> 'r list \<Rightarrow> 'r list" where
  "put_row key merge r rows =
     (if list_ex (\<lambda>x. key x = key r) rows then map (\<lambda>x. if key x = key r then merge x r else x) rows
      else rows @ [r])"

lemma row_of_simps [simp]:
  "row_of key k [] = None"
  "row_of key k (r # rows) = (if key r = k then Some r else row_of key k rows)"
  by (simp_all add: row_of_def)

lemma has_key: "list_ex (\<lambda>x. key x = k) rows \<longleftrightarrow> k \<in> key ` set rows"
  by (force simp: list_ex_iff)

lemma row_of_append: "row_of key k (xs @ ys) = (case row_of key k xs of None \<Rightarrow> row_of key k ys | Some r \<Rightarrow> Some r)"
  by (induction xs) simp_all

lemma row_of_None_iff: "row_of key k rows = None \<longleftrightarrow> k \<notin> key ` set rows"
  by (induction rows) auto

lemma row_of_Some: "row_of key k rows = Some r \<Longrightarrow> r \<in> set rows \<and> key r = k"
  by (induction rows) (auto split: if_splits)

lemma row_of_distinct: "distinct (map key rows) \<Longrightarrow> r \<in> set rows \<Longrightarrow> row_of key (key r) rows = Some r"
  by (induction rows) force+

lemma row_of_filter:
  assumes "distinct (map key rows)"
  shows "row_of key k (filter P rows) = (case row_of key k rows of None \<Rightarrow> None | Some r \<Rightarrow> if P r then Some r else None)"
  using assms
proof (induction rows)
  case (Cons a rows)
  then have "row_of key (key a) rows = None" by (simp add: row_of_None_iff)
  with Cons show ?case by (auto split: option.splits)
qed simp

locale keyed_rows =
  fixes key :: "'r \<Rightarrow> 'k"
    and merge :: "'r \<Rightarrow> 'r \<Rightarrow> 'r"
  assumes key_merge: "key (merge old new) = key new"
begin

lemma keys_put: "map key (put_row key merge r rows) = (if key r \<in> key ` set rows then map key rows else map key rows @ [key r])"
  by (auto simp: put_row_def has_key key_merge)

lemma distinct_put: "distinct (map key rows) \<Longrightarrow> distinct (map key (put_row key merge r rows))"
  by (simp only: keys_put) auto

lemma distinct_puts: "distinct (map key rows) \<Longrightarrow> distinct (map key (fold (put_row key merge) new rows))"
  by (induction new arbitrary: rows) (simp_all add: distinct_put)

lemma row_of_put:
  "row_of key k (put_row key merge r rows) =
     (if k = key r then Some (case row_of key k rows of None \<Rightarrow> r | Some x \<Rightarrow> merge x r) else row_of key k rows)"
proof (cases "key r \<in> key ` set rows")
  case True
  have "row_of key k (map (\<lambda>x. if key x = key r then merge x r else x) xs) =
      (if k = key r then map_option (\<lambda>x. merge x r) (row_of key k xs) else row_of key k xs)" for xs
    by (induction xs) (auto simp: key_merge)
  moreover have "row_of key (key r) rows \<noteq> None" using True by (simp add: row_of_None_iff)
  ultimately show ?thesis using True by (auto simp: put_row_def has_key)
next
  case False
  then have "row_of key (key r) rows = None" by (simp add: row_of_None_iff)
  with False show ?thesis by (auto simp: put_row_def has_key row_of_append split: option.splits)
qed

text \<open>A batch with distinct keys writes each of its rows and leaves the others alone.\<close>

lemma row_of_puts:
  assumes "distinct (map key new)"
  shows "row_of key k (fold (put_row key merge) new rows) =
     (case row_of key k new of
        None \<Rightarrow> row_of key k rows
      | Some r \<Rightarrow> Some (case row_of key k rows of None \<Rightarrow> r | Some x \<Rightarrow> merge x r))"
  using assms
proof (induction new arbitrary: rows)
  case (Cons r new)
  then have "row_of key (key r) new = None" by (simp add: row_of_None_iff)
  with Cons show ?case by (auto simp: row_of_put split: option.splits)
qed simp

end

end
