(* ===== verification/Indicators.thy ===== *)
theory Indicators
  imports Interfaces
begin

text \<open>
  \<open>shared/strategy.py\<close>: the technical indicators, with the Rust implementation of three of
  them (\<open>shared/strategy_core/src/lib.rs\<close>) that the Python functions prefer when it is
  enabled, and the pandas code they fall back to.

  A price list holds numbers only (no nan). A result of \<open>None\<close> stands for Python's None or
  a float nan, which the callers treat alike. The two pandas reductions that are not plain
  sums, the exponentially weighted mean and the standard deviation, are fields of the record
  \<open>backend\<close>; what is used of them is in the locale \<open>ewm_mean\<close>.
\<close>

section \<open>Data\<close>

record bar =
  open_price :: rat
  high_price :: rat
  low_price :: rat
  close_price :: rat

record backend =
  rust_enabled :: bool
  ewm_last :: "nat \<Rightarrow> rat list \<Rightarrow> rat"
  std_last :: "rat list \<Rightarrow> rat"

abbreviation closes :: "bar list \<Rightarrow> rat list" where
  "closes \<equiv> map close_price"

definition mean :: "rat list \<Rightarrow> rat option" where
  "mean xs = (if xs = [] then None else Some (sum_list xs / of_nat (length xs)))"

text \<open>Reading a list from its end, \<open>xs[-k]\<close> for \<open>1 \<le> k\<close>.\<close>

definition from_end :: "'a list \<Rightarrow> nat \<Rightarrow> 'a res" where
  "from_end xs k = (if 1 \<le> k \<and> k \<le> length xs then Inr (xs ! (length xs - k)) else Inl IndexError)"

definition last_n :: "nat \<Rightarrow> 'a list \<Rightarrow> 'a list" where
  "last_n n xs = drop (length xs - n) xs"

lemma length_last_n [simp]: "length (last_n n xs) = min n (length xs)"
  by (simp add: last_n_def)

lemma set_last_n: "set (last_n n xs) \<subseteq> set xs"
  unfolding last_n_def by (rule set_drop_subset)

section \<open>The Rust core\<close>

definition validate_period :: "nat \<Rightarrow> unit res" where
  "validate_period period = (if period = 0 then Inl ValueError else Inr ())"

definition rust_moving_average :: "rat list \<Rightarrow> nat \<Rightarrow> rat option res" where
  "rust_moving_average prices period =
     rbind (validate_period period) (\<lambda>_.
       Inr (if length prices < period then None
            else Some (sum_list (last_n period prices) / of_nat period)))"

definition deltas :: "rat list \<Rightarrow> rat list" where
  "deltas xs = map2 (-) (tl xs) xs"

fun seed_gain_loss :: "rat list \<Rightarrow> rat \<times> rat \<Rightarrow> rat \<times> rat" where
  "seed_gain_loss [] gl = gl"
| "seed_gain_loss (d # ds) (g, l) =
     seed_gain_loss ds (if 0 \<le> d then (g + d, l) else (g, l - d))"

definition wilder :: "nat \<Rightarrow> rat \<Rightarrow> rat \<Rightarrow> rat" where
  "wilder period avg x = ((of_nat period - 1) * avg + x) / of_nat period"

fun smooth_gain_loss :: "nat \<Rightarrow> rat list \<Rightarrow> rat \<times> rat \<Rightarrow> rat \<times> rat" where
  "smooth_gain_loss period [] gl = gl"
| "smooth_gain_loss period (d # ds) (g, l) =
     smooth_gain_loss period ds (wilder period g (max d 0), wilder period l (max (- d) 0))"

definition rsi_of :: "rat \<Rightarrow> rat \<Rightarrow> rat" where
  "rsi_of avg_gain avg_loss =
     (if avg_loss = 0 then (if avg_gain = 0 then 50 else 100)
      else 100 - 100 / (1 + avg_gain / avg_loss))"

definition rust_rsi :: "rat list \<Rightarrow> nat \<Rightarrow> rat option res" where
  "rust_rsi prices period =
     rbind (validate_period period) (\<lambda>_.
       Inr (if length prices < period + 1 then None
            else
              (let ds = deltas prices;
                   (g0, l0) = seed_gain_loss (take period ds) (0, 0);
                   (g, l) = smooth_gain_loss period (drop period ds)
                              (g0 / of_nat period, l0 / of_nat period)
               in Some (rsi_of g l))))"

text \<open>True ranges of the bars from the second on; the first has no previous close.\<close>

definition true_range :: "rat \<Rightarrow> rat \<Rightarrow> rat \<Rightarrow> rat" where
  "true_range high low prev_close =
     \<bar>max (max (high - low) \<bar>high - prev_close\<bar>) \<bar>low - prev_close\<bar>\<bar>"

fun true_ranges :: "rat list \<Rightarrow> rat list \<Rightarrow> rat list \<Rightarrow> rat list" where
  "true_ranges (h0 # h # hs) (l0 # l # ls) (c0 # cs) = true_range h l c0 # true_ranges (h # hs) (l # ls) cs"
| "true_ranges _ _ _ = []"

definition rust_atr :: "rat list \<Rightarrow> rat list \<Rightarrow> rat list \<Rightarrow> nat \<Rightarrow> rat option res" where
  "rust_atr high low close period =
     rbind (validate_period period) (\<lambda>_.
       let len = length high in
       if len = 0 \<or> length low \<noteq> len \<or> length close \<noteq> len then Inl ValueError
       else if len < period + 1 then Inr None
       else
         let trs = true_ranges high low close in
         if length trs < period then Inr None
         else Inr (Some (fold (\<lambda>tr atr. wilder period atr tr) (drop period trs)
                     (sum_list (take period trs) / of_nat period))))"

section \<open>The Python functions\<close>

text \<open>\<open>_prepare_sequence\<close> on a list of numbers: None when it is empty.\<close>

definition prepare_sequence :: "rat list \<Rightarrow> bool \<Rightarrow> rat list option" where
  "prepare_sequence xs reverse = (if xs = [] then None else Some (if reverse then rev xs else xs))"

definition calculate_cumulative_return :: "rat list option \<Rightarrow> rat option" where
  "calculate_cumulative_return prices =
     (case prices of
        None \<Rightarrow> None
      | Some ps \<Rightarrow>
          if length ps < 7 then None
          else if ps ! 6 = 0 then Some 0
          else Some ((ps ! 0 - ps ! 6) / (ps ! 6) * 100))"

text \<open>
  \<open>calculate_moving_average\<close> (newest price first). The debug message of the first branch
  takes \<open>len\<close> of the list, so a None list raises TypeError instead of returning None.
\<close>

definition calculate_moving_average :: "backend \<Rightarrow> rat list option \<Rightarrow> nat \<Rightarrow> rat option res" where
  "calculate_moving_average b prices period =
     (case prices of
        None \<Rightarrow> Inl TypeError
      | Some ps \<Rightarrow>
          if length ps < period then Inr None
          else
            (let fallback = mean (take period ps) in
             if rust_enabled b then
               (case prepare_sequence ps True of
                  None \<Rightarrow> Inr fallback
                | Some ready \<Rightarrow>
                    if length ready < period then Inr fallback
                    else
                      (case rust_moving_average ready period of
                         Inr (Some r) \<Rightarrow> Inr (Some r)
                       | _ \<Rightarrow> Inr fallback))
             else Inr fallback))"

text \<open>The pandas branch of \<open>calculate_rsi\<close> on a series in ascending order of dates.\<close>

definition pandas_rsi :: "backend \<Rightarrow> rat list \<Rightarrow> nat \<Rightarrow> rat" where
  "pandas_rsi b series period =
     (let ds = deltas series;
          avg_gain = ewm_last b period (map (\<lambda>d. if 0 < d then d else 0) ds);
          avg_loss = ewm_last b period (map (\<lambda>d. - (if d < 0 then d else 0)) ds)
      in if avg_loss = 0 then (if 0 < avg_gain then 100 else 50)
         else 100 - 100 / (1 + avg_gain / avg_loss))"

text \<open>Both backends refuse the period 0, and the exception becomes None.\<close>

definition rsi_of_series :: "backend \<Rightarrow> rat list \<Rightarrow> nat \<Rightarrow> rat option" where
  "rsi_of_series b series period =
     (if period = 0 then None
      else if rust_enabled b then
        (case prepare_sequence series False of
           None \<Rightarrow> Some (pandas_rsi b series period)
         | Some ready \<Rightarrow>
             if length ready < period + 1 then Some (pandas_rsi b series period)
             else
               (case rust_rsi ready period of
                  Inl _ \<Rightarrow> None
                | Inr (Some r) \<Rightarrow> Some r
                | Inr None \<Rightarrow> Some (pandas_rsi b series period)))
      else Some (pandas_rsi b series period))"

text \<open>A data frame is in ascending order of dates, a list has the newest price first.\<close>

datatype rsi_data = Frame "bar list" | PriceList "rat list" | OtherData

definition calculate_rsi :: "backend \<Rightarrow> rsi_data \<Rightarrow> nat \<Rightarrow> rat option" where
  "calculate_rsi b data period =
     (case data of
        Frame df \<Rightarrow> if length df < period + 1 then None else rsi_of_series b (closes df) period
      | PriceList ps \<Rightarrow> if length ps < period + 1 then None else rsi_of_series b (rev ps) period
      | OtherData \<Rightarrow> None)"

text \<open>The pandas branch of \<open>calculate_atr\<close>: the first true range is high minus low.\<close>

definition pandas_true_ranges :: "bar list \<Rightarrow> rat list" where
  "pandas_true_ranges df =
     (case df of
        [] \<Rightarrow> []
      | x # _ \<Rightarrow> (high_price x - low_price x) #
          map2 (\<lambda>y prev. max (max (high_price y - low_price y) \<bar>high_price y - close_price prev\<bar>)
                              \<bar>low_price y - close_price prev\<bar>) (tl df) df)"

definition calculate_atr :: "backend \<Rightarrow> bar list option \<Rightarrow> nat \<Rightarrow> rat option res" where
  "calculate_atr b frame period =
     (case frame of
        None \<Rightarrow> Inl TypeError
      | Some df \<Rightarrow>
          if length df < period \<or> period = 0 then Inr None
          else
            (let fallback = (if df = [] then None else Some (ewm_last b period (pandas_true_ranges df))) in
             if rust_enabled b \<and> df \<noteq> [] then
               (case rust_atr (map high_price df) (map low_price df) (closes df) period of
                  Inl _ \<Rightarrow> Inr None
                | Inr (Some r) \<Rightarrow> Inr (Some r)
                | Inr None \<Rightarrow> Inr fallback)
             else Inr fallback))"

definition calculate_bollinger_bands :: "backend \<Rightarrow> bar list \<Rightarrow> nat \<Rightarrow> rat \<Rightarrow> rat option" where
  "calculate_bollinger_bands b df period k =
     (if length df < period then None
      else map_option (\<lambda>m. m - std_last b (last_n period (closes df)) * k) (mean (last_n period (closes df))))"

text \<open>
  \<open>series.rolling(window=n).mean().iloc[-1-k]\<close>: None (nan) while fewer than \<open>n\<close> prices
  precede that position.
\<close>

definition rolling_mean_at :: "nat \<Rightarrow> nat \<Rightarrow> rat list \<Rightarrow> rat option" where
  "rolling_mean_at k n xs =
     (let ys = take (length xs - k) xs in if length ys < n then None else mean (last_n n ys))"

definition nan_le :: "rat option \<Rightarrow> rat option \<Rightarrow> bool" where
  "nan_le a b = (case (a, b) of (Some x, Some y) \<Rightarrow> x \<le> y | _ \<Rightarrow> False)"

definition nan_less :: "rat option \<Rightarrow> rat option \<Rightarrow> bool" where
  "nan_less a b = (case (a, b) of (Some x, Some y) \<Rightarrow> x < y | _ \<Rightarrow> False)"

definition check_golden_cross :: "bar list \<Rightarrow> nat \<Rightarrow> nat \<Rightarrow> bool" where
  "check_golden_cross df short_period long_period =
     (if length df < long_period then False
      else
        let s = closes df in
        nan_le (rolling_mean_at 1 short_period s) (rolling_mean_at 1 long_period s) \<and>
        nan_less (rolling_mean_at 0 long_period s) (rolling_mean_at 0 short_period s))"

definition check_death_cross :: "bar list \<Rightarrow> nat \<Rightarrow> nat \<Rightarrow> bool" where
  "check_death_cross df short_period long_period =
     (if length df < long_period then False
      else
        let s = closes df in
        nan_le (rolling_mean_at 1 long_period s) (rolling_mean_at 1 short_period s) \<and>
        nan_less (rolling_mean_at 0 short_period s) (rolling_mean_at 0 long_period s))"

text \<open>\<open>if rsi and rsi >= threshold\<close>: an RSI of 0 counts as absent.\<close>

definition check_rsi_overbought :: "backend \<Rightarrow> rat list \<Rightarrow> nat \<Rightarrow> rat \<Rightarrow> rat option" where
  "check_rsi_overbought b prices period threshold =
     (case calculate_rsi b (PriceList prices) period of
        None \<Rightarrow> None
      | Some r \<Rightarrow> if r \<noteq> 0 \<and> threshold \<le> r then Some r else None)"

definition calculate_momentum :: "bar list \<Rightarrow> nat \<Rightarrow> rat option" where
  "calculate_momentum df period =
     (if length df < period + 1 then None
      else
        let prices = closes df;
            current = prices ! (length prices - 1);
            past = prices ! (length prices - period - 1)
        in if past = 0 then None else Some ((current - past) / past * 100))"

definition period_return :: "rat list \<Rightarrow> nat \<Rightarrow> rat" where
  "period_return prices period =
     (let current = prices ! (length prices - 1);
          past = prices ! (length prices - period - 1)
      in if 0 < past then (current - past) / past * 100 else 0)"

definition calculate_relative_strength :: "bar list \<Rightarrow> bar list \<Rightarrow> nat \<Rightarrow> rat option" where
  "calculate_relative_strength stock kospi period =
     (if length stock < period + 1 \<or> length kospi < period + 1 then None
      else Some (period_return (closes stock) period - period_return (closes kospi) period))"

definition check_resistance_breakout :: "bar list \<Rightarrow> nat \<Rightarrow> bool \<times> rat option" where
  "check_resistance_breakout df period =
     (if length df < period \<or> df = [] \<or> period = 0 then (False, None)
      else
        let resistance = Max (set (map high_price (last_n period df)))
        in (resistance < close_price (last df), Some resistance))"

definition check_volume_spike :: "rat \<Rightarrow> rat option \<Rightarrow> rat \<Rightarrow> bool" where
  "check_volume_spike current_vol ma_vol multiplier =
     (case ma_vol of None \<Rightarrow> False | Some v \<Rightarrow> v \<noteq> 0 \<and> v * multiplier \<le> current_vol)"

definition check_long_term_trend :: "rat \<Rightarrow> rat option \<Rightarrow> bool" where
  "check_long_term_trend current_price ma_value =
     (case ma_value of None \<Rightarrow> False | Some v \<Rightarrow> v \<noteq> 0 \<and> v \<le> current_price)"

section \<open>The documented weighted mean\<close>

text \<open>
  pandas documents the adjusted mean: weights \<open>(1 - 1/period)^i\<close> for the value \<open>i\<close> steps
  back, divided by their sum. It satisfies the law the indicators rely on.
\<close>

fun ewm_sums :: "rat \<Rightarrow> rat list \<Rightarrow> rat \<times> rat" where
  "ewm_sums q [] = (0, 0)"
| "ewm_sums q (x # xs) = (case ewm_sums q xs of (s, w) \<Rightarrow> (x + q * s, 1 + q * w))"

definition ewm_adjusted :: "nat \<Rightarrow> rat list \<Rightarrow> rat" where
  "ewm_adjusted period xs = (case ewm_sums (1 - 1 / of_nat period) (rev xs) of (s, w) \<Rightarrow> s / w)"

lemma ewm_sums_weight:
  assumes "0 \<le> q" shows "0 \<le> snd (ewm_sums q xs)" "xs \<noteq> [] \<Longrightarrow> 1 \<le> snd (ewm_sums q xs)"
proof -
  show nn: "0 \<le> snd (ewm_sums q xs)" for xs
    using assms by (induction xs) (auto split: prod.splits)
  show "1 \<le> snd (ewm_sums q xs)" if "xs \<noteq> []"
    using that nn [of "tl xs"] assms by (cases xs) (auto split: prod.splits)
qed

lemma ewm_sums_bounds:
  assumes "0 \<le> q"
  shows "\<forall>x \<in> set xs. lo \<le> x \<Longrightarrow> lo * snd (ewm_sums q xs) \<le> fst (ewm_sums q xs)"
    and "\<forall>x \<in> set xs. x \<le> hi \<Longrightarrow> fst (ewm_sums q xs) \<le> hi * snd (ewm_sums q xs)"
proof (induction xs)
  case Nil
  { case 1 show ?case by simp next case 2 show ?case by simp }
next
  case (Cons x xs)
  obtain s w where sw: "ewm_sums q xs = (s, w)" by (cases "ewm_sums q xs")
  { case 1
    then have "lo * w \<le> s" "lo \<le> x" using Cons.IH(1) sw by auto
    then have "q * (lo * w) \<le> q * s" using assms by (intro mult_left_mono)
    then have "lo + q * (lo * w) \<le> x + q * s" using \<open>lo \<le> x\<close> by linarith
    then show ?case by (simp add: sw algebra_simps)
  next
    case 2
    then have "s \<le> hi * w" "x \<le> hi" using Cons.IH(2) sw by auto
    then have "q * s \<le> q * (hi * w)" using assms by (intro mult_left_mono)
    then have "x + q * s \<le> hi + q * (hi * w)" using \<open>x \<le> hi\<close> by linarith
    then show ?case by (simp add: sw algebra_simps) }
qed

interpretation pandas: ewm_mean ewm_adjusted
proof unfold_locales
  fix period :: nat and xs :: "rat list" and lo hi :: rat
  assume p: "1 \<le> period" and ne: "xs \<noteq> []"
  let ?q = "1 - 1 / of_nat period :: rat"
  have q: "0 \<le> ?q" using p by simp
  have w: "0 < snd (ewm_sums ?q (rev xs))"
    using ewm_sums_weight(2) [OF q, of "rev xs"] ne by simp
  show "lo \<le> ewm_adjusted period xs" if "\<forall>x \<in> set xs. lo \<le> x"
    using ewm_sums_bounds(1) [OF q, of "rev xs" lo] that w
    by (simp add: ewm_adjusted_def case_prod_beta pos_le_divide_eq)
  show "ewm_adjusted period xs \<le> hi" if "\<forall>x \<in> set xs. x \<le> hi"
    using ewm_sums_bounds(2) [OF q, of "rev xs" hi] that w
    by (simp add: ewm_adjusted_def case_prod_beta pos_divide_le_eq)
qed

section \<open>Bounds of the smoothing\<close>

lemma wilder_bounds:
  assumes "1 \<le> period" "lo \<le> a" "a \<le> hi" "lo \<le> x" "x \<le> hi"
  shows "lo \<le> wilder period a x" "wilder period a x \<le> hi"
proof -
  have n: "(0::rat) < of_nat period" "(0::rat) \<le> of_nat period - 1" using assms(1) by simp_all
  have "(of_nat period - 1) * lo + lo \<le> (of_nat period - 1) * a + x"
    using assms n by (intro add_mono mult_left_mono)
  moreover have "(of_nat period - 1) * a + x \<le> (of_nat period - 1) * hi + hi"
    using assms n by (intro add_mono mult_left_mono)
  ultimately show "lo \<le> wilder period a x" "wilder period a x \<le> hi"
    using n(1) by (simp_all add: wilder_def pos_le_divide_eq pos_divide_le_eq algebra_simps)
qed

lemma sum_list_bounds:
  "\<forall>x \<in> set xs. lo \<le> (x::rat) \<Longrightarrow> of_nat (length xs) * lo \<le> sum_list xs"
  "\<forall>x \<in> set xs. (x::rat) \<le> hi \<Longrightarrow> sum_list xs \<le> of_nat (length xs) * hi"
  by (induction xs) (auto simp: algebra_simps)

lemma average_bounds:
  assumes "xs \<noteq> []"
  shows "\<forall>x \<in> set xs. lo \<le> (x::rat) \<Longrightarrow> lo \<le> sum_list xs / of_nat (length xs)"
    and "\<forall>x \<in> set xs. (x::rat) \<le> hi \<Longrightarrow> sum_list xs / of_nat (length xs) \<le> hi"
proof -
  have n: "(0::rat) < of_nat (length xs)" using assms by simp
  show "\<forall>x \<in> set xs. lo \<le> (x::rat) \<Longrightarrow> lo \<le> sum_list xs / of_nat (length xs)"
    using sum_list_bounds(1) [of xs lo] n by (simp add: pos_le_divide_eq mult.commute)
  show "\<forall>x \<in> set xs. (x::rat) \<le> hi \<Longrightarrow> sum_list xs / of_nat (length xs) \<le> hi"
    using sum_list_bounds(2) [of xs hi] n by (simp add: pos_divide_le_eq mult.commute)
qed

lemma fold_wilder_bounds:
  assumes "1 \<le> period" "\<forall>x \<in> set xs. lo \<le> x \<and> x \<le> hi" "lo \<le> a" "a \<le> hi"
  shows "lo \<le> fold (\<lambda>x a. wilder period a x) xs a \<and> fold (\<lambda>x a. wilder period a x) xs a \<le> hi"
  using assms(2-) by (induction xs arbitrary: a) (auto simp: wilder_bounds [OF assms(1)])

lemma seed_nonneg:
  "0 \<le> g \<Longrightarrow> 0 \<le> l \<Longrightarrow> seed_gain_loss ds (g, l) = (g', l') \<Longrightarrow> 0 \<le> g' \<and> 0 \<le> l'"
proof (induction ds arbitrary: g l)
  case Nil
  then show ?case by simp
next
  case (Cons d ds)
  show ?case
    using Cons.IH [of "g + d" l] Cons.IH [of g "l - d"] Cons.prems by (auto split: if_splits)
qed

lemma smooth_nonneg:
  "1 \<le> period \<Longrightarrow> 0 \<le> g \<Longrightarrow> 0 \<le> l \<Longrightarrow> smooth_gain_loss period ds (g, l) = (g', l') \<Longrightarrow> 0 \<le> g' \<and> 0 \<le> l'"
proof (induction ds arbitrary: g l)
  case Nil
  then show ?case by simp
next
  case (Cons d ds)
  have nn: "0 \<le> x \<Longrightarrow> 0 \<le> y \<Longrightarrow> 0 \<le> wilder period x y" for x y
    using Cons.prems(1) by (intro wilder_bounds(1) [where hi = "max x y"]) auto
  show ?case
    using Cons.IH [of "wilder period g (max d 0)" "wilder period l (max (- d) 0)"]
      nn [of g "max d 0"] nn [of l "max (- d) 0"] Cons.prems by simp
qed

lemma rsi_of_bounds:
  assumes "0 \<le> g" "0 \<le> l" shows "0 \<le> rsi_of g l \<and> rsi_of g l \<le> 100"
proof (cases "l = 0")
  case True
  then show ?thesis by (simp add: rsi_of_def)
next
  case False
  with assms have "0 \<le> g / l" by simp
  then have "0 \<le> 100 / (1 + g / l)" "100 / (1 + g / l) \<le> 100"
    by (simp_all add: pos_divide_le_eq)
  with False show ?thesis by (simp add: rsi_of_def)
qed

lemma rust_rsi_bounds: "rust_rsi prices period = Inr (Some r) \<Longrightarrow> 0 \<le> r \<and> r \<le> 100"
proof -
  assume r: "rust_rsi prices period = Inr (Some r)"
  then have p: "1 \<le> period"
    by (cases period) (simp_all add: rust_rsi_def validate_period_def)
  obtain g0 l0 where s: "seed_gain_loss (take period (deltas prices)) (0, 0) = (g0, l0)"
    by (cases "seed_gain_loss (take period (deltas prices)) (0, 0)")
  obtain g l where t: "smooth_gain_loss period (drop period (deltas prices))
      (g0 / of_nat period, l0 / of_nat period) = (g, l)"
    by (cases "smooth_gain_loss period (drop period (deltas prices)) (g0 / of_nat period, l0 / of_nat period)")
  from seed_nonneg [OF _ _ s] have "0 \<le> g0" "0 \<le> l0" by simp_all
  with smooth_nonneg [OF p _ _ t] have "0 \<le> g" "0 \<le> l" by simp_all
  moreover have "r = rsi_of g l"
    using r p by (auto simp: rust_rsi_def validate_period_def s t Let_def split: if_splits)
  ultimately show ?thesis by (simp add: rsi_of_bounds)
qed

context ewm_mean
begin

lemma pandas_rsi_bounds:
  assumes "ewm_last b = ewm" "1 \<le> period" "period + 1 \<le> length series"
  shows "0 \<le> pandas_rsi b series period \<and> pandas_rsi b series period \<le> 100"
proof -
  have ne: "deltas series \<noteq> []" using assms(2,3) by (cases series; cases "tl series") (auto simp: deltas_def)
  define g where "g = ewm period (map (\<lambda>d. if 0 < d then d else 0) (deltas series))"
  define l where "l = ewm period (map (\<lambda>d. - (if d < 0 then d else 0)) (deltas series))"
  have "0 \<le> g" "0 \<le> l"
    unfolding g_def l_def using assms(2) ne by (intro ewm_nonneg; force)+
  moreover have "pandas_rsi b series period = (if l = 0 then (if 0 < g then 100 else 50) else 100 - 100 / (1 + g / l))"
    by (simp add: pandas_rsi_def assms(1) g_def l_def Let_def)
  ultimately show ?thesis using rsi_of_bounds [of g l] by (auto simp: rsi_of_def)
qed

lemma rsi_of_series_bounds:
  assumes "ewm_last b = ewm" "period + 1 \<le> length series" "rsi_of_series b series period = Some r"
  shows "0 \<le> r \<and> r \<le> 100"
proof -
  have "1 \<le> period" using assms(3) by (simp add: rsi_of_series_def split: if_splits)
  from pandas_rsi_bounds [OF assms(1) this assms(2)] assms(3) show ?thesis
    by (auto simp: rsi_of_series_def rust_rsi_bounds split: option.splits if_splits sum.splits)
qed

end

text \<open>
  The moving average does not depend on the backend: the Rust routine, which wants the
  oldest price first, and the pandas mean of the newest prices give the same number, the
  mean of the newest \<open>period\<close> prices.
\<close>

lemma moving_average_value:
  assumes "0 < period"
  shows "calculate_moving_average b (Some ps) period =
    Inr (if length ps < period then None else Some (sum_list (take period ps) / of_nat period))"
proof -
  have "last_n period (rev ps) = rev (take period ps)"
    by (simp add: last_n_def rev_take)
  then have rust: "rust_moving_average (rev ps) period =
      Inr (if length ps < period then None else Some (sum_list (take period ps) / of_nat period))"
    using assms by (simp add: rust_moving_average_def validate_period_def)
  show ?thesis
  proof (cases "length ps < period")
    case True
    then show ?thesis by (simp add: calculate_moving_average_def)
  next
    case False
    with assms have "ps \<noteq> []" "mean (take period ps) = Some (sum_list (take period ps) / of_nat period)"
      by (auto simp: mean_def)
    with False rust show ?thesis
      by (simp add: calculate_moving_average_def prepare_sequence_def Let_def)
  qed
qed

section \<open>Properties\<close>

text \<open>
  Whatever the backend, an RSI is a number between 0 and 100.
\<close>

theorem rsi_bounds:
  assumes "ewm_mean (ewm_last b)" "calculate_rsi b data period = Some r"
  shows "0 \<le> r \<and> r \<le> 100"
proof -
  have law: "period + 1 \<le> length series \<Longrightarrow> rsi_of_series b series period = Some r \<Longrightarrow> 0 \<le> r \<and> r \<le> 100" for series
    by (rule ewm_mean.rsi_of_series_bounds [OF assms(1) refl])
  show ?thesis
  proof (cases data)
    case (Frame df)
    with assms(2) law [of "closes df"] show ?thesis by (simp add: calculate_rsi_def split: if_splits)
  next
    case (PriceList ps)
    with assms(2) law [of "rev ps"] show ?thesis by (simp add: calculate_rsi_def split: if_splits)
  next
    case OtherData
    with assms(2) show ?thesis by (simp add: calculate_rsi_def)
  qed
qed

definition pandas_backend :: backend where
  "pandas_backend = \<lparr>rust_enabled = False, ewm_last = ewm_adjusted, std_last = (\<lambda>_. 0)\<rparr>"

definition rust_backend :: backend where
  "rust_backend = pandas_backend\<lparr>rust_enabled := True\<rparr>"

theorem rsi_bounds_witness:
  "\<exists>r. calculate_rsi pandas_backend (PriceList [104, 103, 105, 102]) 3 = Some r \<and> 0 \<le> r \<and> r \<le> 100"
proof -
  have law: "ewm_mean (ewm_last pandas_backend)"
    by (simp add: pandas_backend_def pandas.ewm_mean_axioms)
  obtain r where r: "calculate_rsi pandas_backend (PriceList [104, 103, 105, 102]) 3 = Some r"
    by (simp add: calculate_rsi_def rsi_of_series_def pandas_backend_def)
  from rsi_bounds [OF law r] r show ?thesis by blast
qed

definition bars_within :: "rat \<Rightarrow> rat \<Rightarrow> bar list \<Rightarrow> bool" where
  "bars_within lo hi df \<longleftrightarrow>
     list_all (\<lambda>x. lo \<le> low_price x \<and> low_price x \<le> high_price x \<and> high_price x \<le> hi \<and>
                   lo \<le> close_price x \<and> close_price x \<le> hi) df"

lemma true_ranges_bounds:
  assumes "bars_within lo hi df"
  shows "\<forall>t \<in> set (true_ranges (map high_price df) (map low_price df) (closes df)). 0 \<le> t \<and> t \<le> hi - lo"
  using assms
proof (induction df rule: induct_list012)
  case (3 x y df)
  then have "\<forall>t \<in> set (true_ranges (map high_price (y # df)) (map low_price (y # df)) (closes (y # df))).
      0 \<le> t \<and> t \<le> hi - lo"
    by (simp add: bars_within_def)
  moreover have "0 \<le> true_range (high_price y) (low_price y) (close_price x) \<and>
      true_range (high_price y) (low_price y) (close_price x) \<le> hi - lo"
    using "3.prems" by (auto simp: bars_within_def true_range_def)
  ultimately show ?case by (cases df) auto
qed (auto simp: bars_within_def)

lemma length_true_ranges: "length (true_ranges (map f xs) (map g xs) (map h xs)) = length xs - 1"
proof (induction xs rule: induct_list012)
  case (3 x y xs)
  then show ?case by (cases xs) auto
qed auto

lemma pandas_true_ranges_bounds:
  assumes "bars_within lo hi df"
  shows "\<forall>t \<in> set (pandas_true_ranges df). 0 \<le> t \<and> t \<le> hi - lo"
proof (cases df)
  case (Cons x xs)
  have "0 \<le> t \<and> t \<le> hi - lo"
    if "t \<in> set (map2 (\<lambda>y prev. max (max (high_price y - low_price y) \<bar>high_price y - close_price prev\<bar>)
         \<bar>low_price y - close_price prev\<bar>) xs df)" for t
  proof -
    from that obtain y prev where "y \<in> set xs" "prev \<in> set df"
      and t: "t = max (max (high_price y - low_price y) \<bar>high_price y - close_price prev\<bar>) \<bar>low_price y - close_price prev\<bar>"
      by (auto dest: set_zip_leftD set_zip_rightD)
    moreover have "y \<in> set df" using \<open>y \<in> set xs\<close> Cons by simp
    ultimately have "low_price y \<le> high_price y" "lo \<le> low_price y" "high_price y \<le> hi"
      "lo \<le> close_price prev" "close_price prev \<le> hi"
      using assms by (simp_all add: bars_within_def list_all_iff)
    then show ?thesis unfolding t by (simp add: abs_le_iff le_max_iff_disj)
  qed
  moreover have "0 \<le> high_price x - low_price x" "high_price x - low_price x \<le> hi - lo"
    using assms Cons by (auto simp: bars_within_def)
  ultimately show ?thesis using Cons by (simp add: pandas_true_ranges_def)
qed (simp add: pandas_true_ranges_def)

lemma rust_atr_bounds:
  assumes "rust_atr (map high_price df) (map low_price df) (closes df) period = Inr (Some a)"
    and "bars_within lo hi df"
  shows "0 \<le> a \<and> a \<le> hi - lo"
proof -
  let ?trs = "true_ranges (map high_price df) (map low_price df) (closes df)"
  from assms(1) have p: "1 \<le> period" and len: "period \<le> length ?trs"
    and a: "a = fold (\<lambda>tr atr. wilder period atr tr) (drop period ?trs) (sum_list (take period ?trs) / of_nat period)"
    by (auto simp: rust_atr_def validate_period_def Let_def split: if_splits)
  have b: "\<forall>t \<in> set ?trs. 0 \<le> t \<and> t \<le> hi - lo" using assms(2) by (rule true_ranges_bounds)
  have ne: "take period ?trs \<noteq> []" and n: "length (take period ?trs) = period" using p len by auto
  have "\<forall>t \<in> set (take period ?trs). 0 \<le> t" "\<forall>t \<in> set (take period ?trs). t \<le> hi - lo"
    using b by (auto dest: in_set_takeD)
  with average_bounds [OF ne] n
  have "0 \<le> sum_list (take period ?trs) / of_nat period" "sum_list (take period ?trs) / of_nat period \<le> hi - lo"
    by metis+
  moreover have "\<forall>t \<in> set (drop period ?trs). 0 \<le> t \<and> t \<le> hi - lo"
    using b by (auto dest: in_set_dropD)
  ultimately show ?thesis unfolding a using p by (intro fold_wilder_bounds)
qed

text \<open>
  With consistent bars (low, close and high inside a price range, low at most high) an
  ATR lies between 0 and the width of the range, on either backend.
\<close>

theorem atr_bounds:
  assumes "ewm_mean (ewm_last b)" "bars_within lo hi df"
    and "calculate_atr b (Some df) period = Inr (Some a)"
  shows "0 \<le> a \<and> a \<le> hi - lo"
proof -
  have p: "1 \<le> period" using assms(3) by (simp add: calculate_atr_def split: if_splits)
  have pandas: "0 \<le> ewm_last b period (pandas_true_ranges df) \<and>
      ewm_last b period (pandas_true_ranges df) \<le> hi - lo" if "df \<noteq> []"
  proof -
    have "pandas_true_ranges df \<noteq> []" using that by (cases df) (simp_all add: pandas_true_ranges_def)
    with pandas_true_ranges_bounds [OF assms(2)] show ?thesis
      using p by (intro conjI ewm_mean.ewm_nonneg [OF assms(1)] ewm_mean.ewm_le [OF assms(1)]) auto
  qed
  show ?thesis
    using assms(3) pandas rust_atr_bounds [OF _ assms(2), of period]
    by (fastforce simp: calculate_atr_def Let_def split: if_splits sum.splits option.splits)
qed

definition demo_bars :: "bar list" where
  "demo_bars =
     [\<lparr>open_price = 100, high_price = 110, low_price = 95, close_price = 105\<rparr>,
      \<lparr>open_price = 105, high_price = 112, low_price = 101, close_price = 102\<rparr>,
      \<lparr>open_price = 102, high_price = 108, low_price = 99, close_price = 107\<rparr>,
      \<lparr>open_price = 107, high_price = 115, low_price = 104, close_price = 114\<rparr>]"

theorem atr_bounds_witness:
  "\<exists>a. calculate_atr pandas_backend (Some demo_bars) 3 = Inr (Some a) \<and> 0 \<le> a \<and> a \<le> 20"
proof -
  have law: "ewm_mean (ewm_last pandas_backend)"
    by (simp add: pandas_backend_def pandas.ewm_mean_axioms)
  have w: "bars_within 95 115 demo_bars" by (simp add: bars_within_def demo_bars_def)
  obtain a where a: "calculate_atr pandas_backend (Some demo_bars) 3 = Inr (Some a)"
    by (simp add: calculate_atr_def pandas_backend_def demo_bars_def)
  from atr_bounds [OF law w a] a show ?thesis by auto
qed

text \<open>
  A golden and a death cross exclude each other, and neither is ever reported on
  exactly the \<open>long_period\<close> rows that the length test lets through: the moving average of the
  day before is nan there.
\<close>

lemma crosses_exclusive:
  "\<not> (check_golden_cross df s l \<and> check_death_cross df s l)"
  by (auto simp: check_golden_cross_def check_death_cross_def nan_less_def Let_def
      split: if_splits option.splits)

theorem no_cross_on_minimum_rows:
  assumes "length df = l" "0 < l"
  shows "\<not> check_golden_cross df s l \<and> \<not> check_death_cross df s l"
  using assms
  by (auto simp: check_golden_cross_def check_death_cross_def nan_le_def rolling_mean_at_def Let_def
      split: option.splits)

theorem no_cross_on_minimum_rows_witness:
  "\<not> check_golden_cross demo_bars 2 4 \<and> \<not> check_death_cross demo_bars 2 4"
  by (rule no_cross_on_minimum_rows) (simp_all add: demo_bars_def)

text \<open>
  A breakout is never reported on consistent data: the resistance is the highest high
  of a window that contains the current bar, whose close is at most its own high.
\<close>

theorem breakout_never_fires:
  assumes "list_all (\<lambda>x. close_price x \<le> high_price x) df"
  shows "\<not> fst (check_resistance_breakout df period)"
proof (cases "length df < period \<or> df = [] \<or> period = 0")
  case True
  then show ?thesis by (auto simp: check_resistance_breakout_def)
next
  case False
  then have "last df \<in> set (last_n period df)"
    by (simp add: last_n_def) (metis diff_less drop_eq_Nil last_drop last_in_set length_greater_0_conv
        linorder_not_le not_gr_zero)
  then have "high_price (last df) \<le> Max (set (map high_price (last_n period df)))"
    by (intro Max_ge) auto
  moreover have "close_price (last df) \<le> high_price (last df)"
    using assms False by (simp add: list_all_iff)
  ultimately show ?thesis using False by (auto simp: check_resistance_breakout_def Let_def)
qed

theorem breakout_never_fires_witness: "\<not> fst (check_resistance_breakout demo_bars 3)"
  by (rule breakout_never_fires) (simp add: demo_bars_def)

end
