(* ===== verification/Factor_Scoring.thy ===== *)
theory Factor_Scoring
  imports Indicators
begin

text \<open>
  \<open>shared/factor_scoring.py\<close>: the four factor scores of a stock, each meant to lie between 0
  and 100, and their weighted sum up to 1000. Only the scores are modelled; the dictionary
  of details beside them goes to the log and the message.

  Prices taken from a data frame are numpy floats, whose division by zero gives an infinity
  or nan instead of an exception; \<open>ieee\<close> has these values. Where the code converts with
  \<open>float()\<close> first, the division raises.
\<close>

section \<open>Data\<close>

text \<open>A row of the price table; a missing volume (nan) is None.\<close>

record price_row =
  row_day :: int
  row_bar :: bar
  row_volume :: "rat option"

abbreviation row_closes :: "price_row list \<Rightarrow> rat list" where
  "row_closes rows \<equiv> map (\<lambda>r. close_price (row_bar r)) rows"

abbreviation row_bars :: "price_row list \<Rightarrow> bar list" where
  "row_bars rows \<equiv> map row_bar rows"

datatype ieee = Fin rat | PInf | NInf | NaN

definition np_div :: "rat \<Rightarrow> rat \<Rightarrow> ieee" where
  "np_div a b =
     (if b \<noteq> 0 then Fin (a / b) else if a = 0 then NaN else if 0 < a then PInf else NInf)"

text \<open>\<open>x * k + c\<close> for a positive k, and the difference of two values.\<close>

fun ieee_affine :: "rat \<Rightarrow> rat \<Rightarrow> ieee \<Rightarrow> ieee" where
  "ieee_affine k c (Fin x) = Fin (x * k + c)"
| "ieee_affine k c x = x"

fun ieee_sub :: "ieee \<Rightarrow> ieee \<Rightarrow> ieee" where
  "ieee_sub (Fin x) (Fin y) = Fin (x - y)"
| "ieee_sub (Fin x) PInf = NInf"
| "ieee_sub (Fin x) NInf = PInf"
| "ieee_sub PInf (Fin y) = PInf"
| "ieee_sub PInf NInf = PInf"
| "ieee_sub NInf (Fin y) = NInf"
| "ieee_sub NInf PInf = NInf"
| "ieee_sub _ _ = NaN"

fun ieee_pos :: "ieee \<Rightarrow> bool" where
  "ieee_pos (Fin x) = (0 < x)"
| "ieee_pos PInf = True"
| "ieee_pos _ = False"

text \<open>
  \<open>max(lo, min(hi, x))\<close>: Python's \<open>min\<close> and \<open>max\<close> keep the first argument unless the second
  one compares smaller or greater, so nan becomes the upper limit.
\<close>

fun clamp :: "rat \<Rightarrow> rat \<Rightarrow> ieee \<Rightarrow> rat" where
  "clamp lo hi (Fin x) = max lo (min hi x)"
| "clamp lo hi PInf = max lo hi"
| "clamp lo hi NaN = max lo hi"
| "clamp lo hi NInf = lo"

text \<open>\<open>series.iloc[-k]\<close> on a series that has at least k values.\<close>

definition iloc_end :: "rat list \<Rightarrow> nat \<Rightarrow> rat" where
  "iloc_end xs k = xs ! (length xs - k)"

definition np_return :: "rat \<Rightarrow> rat \<Rightarrow> ieee" where
  "np_return newest oldest = ieee_affine 100 (- 100) (np_div newest oldest)"

section \<open>Momentum\<close>

definition float_return :: "rat \<Rightarrow> rat \<Rightarrow> rat res" where
  "float_return newest oldest = rbind (py_div newest oldest) (\<lambda>q. Inr ((q - 1) * 100))"

definition momentum_6m :: "rat list \<Rightarrow> rat list option \<Rightarrow> rat res" where
  "momentum_6m stock kospi =
     (case kospi of
        Some ks \<Rightarrow>
          if 120 \<le> length ks \<and> 120 \<le> length stock then
            rbind (float_return (iloc_end stock 1) (iloc_end stock 120)) (\<lambda>stock_return.
            rbind (float_return (iloc_end ks 1) (iloc_end ks 120)) (\<lambda>kospi_return.
              Inr (max 0 (min 60 (30 + (stock_return - kospi_return))))))
          else Inr 30
      | None \<Rightarrow> Inr 30)"

definition momentum_1m :: "rat list \<Rightarrow> rat list option \<Rightarrow> rat" where
  "momentum_1m stock kospi =
     (case kospi of
        Some ks \<Rightarrow>
          if 20 \<le> length ks \<and> 20 \<le> length stock then
            clamp 0 20 (ieee_affine 1 10
              (ieee_sub (np_return (iloc_end stock 1) (iloc_end stock 20))
                        (np_return (iloc_end ks 1) (iloc_end ks 20))))
          else 10
      | None \<Rightarrow> 10)"

text \<open>The positions, from the end, of the first and the last price of month i.\<close>

definition month_span :: "nat \<Rightarrow> nat \<times> nat" where
  "month_span i = (120 - i * 20, if i < 5 then 120 - (i + 1) * 20 else 1)"

definition monthly_returns :: "rat list \<Rightarrow> ieee list" where
  "monthly_returns stock =
     map (\<lambda>(a, z). np_return (iloc_end stock z) (iloc_end stock a))
       (filter (\<lambda>(a, z). a \<le> length stock \<and> z \<le> length stock) (map month_span [0..<6]))"

definition momentum_stability :: "rat list \<Rightarrow> rat" where
  "momentum_stability stock =
     (if 120 \<le> length stock then
        let ms = monthly_returns stock in
        if ms \<noteq> [] then of_nat (length (filter ieee_pos ms)) / of_nat (length ms) * 20 else 10
      else 10)"

definition momentum_score :: "rat list \<Rightarrow> rat list option \<Rightarrow> rat" where
  "momentum_score stock kospi =
     (case momentum_6m stock kospi of
        Inl _ \<Rightarrow> 50
      | Inr m6 \<Rightarrow> m6 + momentum_1m stock kospi + momentum_stability stock)"

section \<open>Quality and value\<close>

text \<open>
  \<open>pct_change().dropna()\<close> keeps infinities, with which (as with fewer than two values) the
  standard deviation is nan and \<open>max(0, nan)\<close> is 0.
\<close>

definition daily_returns :: "rat list \<Rightarrow> ieee list" where
  "daily_returns xs = filter (\<lambda>r. r \<noteq> NaN) (map2 (\<lambda>x prev. ieee_affine 1 (- 1) (np_div x prev)) (tl xs) xs)"

fun finite_values :: "ieee list \<Rightarrow> rat list option" where
  "finite_values [] = Some []"
| "finite_values (Fin x # rs) = map_option ((#) x) (finite_values rs)"
| "finite_values (_ # rs) = None"

definition stability_score :: "backend \<Rightarrow> rat list \<Rightarrow> rat" where
  "stability_score b xs =
     (if 60 \<le> length xs then
        (case finite_values (daily_returns xs) of
           None \<Rightarrow> 0
         | Some rs \<Rightarrow> if length rs < 2 then 0 else max 0 (20 - std_last b rs * 100 * 4))
      else 10)"

definition or_neutral :: "rat \<Rightarrow> (rat \<Rightarrow> rat) \<Rightarrow> rat option \<Rightarrow> rat" where
  "or_neutral neutral f v = (case v of None \<Rightarrow> neutral | Some x \<Rightarrow> f x)"

definition quality_score :: "backend \<Rightarrow> rat option \<Rightarrow> rat option \<Rightarrow> rat option \<Rightarrow> rat list \<Rightarrow> rat" where
  "quality_score b roe sales_growth eps_growth xs =
     or_neutral 20 (\<lambda>r. max 0 (min 40 (20 + r * (67 / 100)))) roe
     + (or_neutral 10 (\<lambda>g. max 0 (min 20 (5 + g * (1 / 2)))) sales_growth
        + or_neutral 10 (\<lambda>g. max 0 (min 20 (7 + g * (33 / 100)))) eps_growth)
     + stability_score b xs"

definition value_score :: "rat option \<Rightarrow> rat option \<Rightarrow> rat" where
  "value_score pbr per =
     (case pbr of None \<Rightarrow> 25 | Some x \<Rightarrow> if 0 < x then max 0 (min 50 (50 - (x - 1 / 2) * 20)) else 25)
     + (case per of None \<Rightarrow> 0 | Some x \<Rightarrow> if 0 < x then max 0 (min 50 (50 - (x - 5) * 2)) else 0)"

section \<open>Technical score\<close>

text \<open>\<open>series.mean()\<close> skips missing values; of none it is nan.\<close>

definition np_mean :: "rat option list \<Rightarrow> rat option" where
  "np_mean vs = (let xs = map the (filter (\<lambda>v. v \<noteq> None) vs) in mean xs)"

definition volume_score :: "price_row list \<Rightarrow> rat" where
  "volume_score rows =
     (let vs = map row_volume rows in
      if 25 \<le> length vs then
        (case np_mean (take 20 (last_n 25 vs)) of
           None \<Rightarrow> 20
         | Some past \<Rightarrow>
             if 0 < past then
               clamp 0 40 (case np_mean (last_n 5 vs) of
                             None \<Rightarrow> NaN
                           | Some recent \<Rightarrow> Fin ((recent / past - 1 / 2) * 16))
             else 20)
      else 20)"

definition rsi_score :: "rat option \<Rightarrow> rat" where
  "rsi_score rsi =
     (case rsi of
        None \<Rightarrow> 15
      | Some r \<Rightarrow>
          if r \<le> 30 then 30
          else if r \<le> 50 then 30 - (r - 30) * (75 / 100)
          else if r \<le> 70 then 15 - (r - 50) * (1 / 2)
          else max 0 (5 - (r - 70) * (25 / 100)))"

definition band_score :: "backend \<Rightarrow> rat list \<Rightarrow> rat" where
  "band_score b xs =
     (if 20 \<le> length xs then
        let ma20 = sum_list (last_n 20 xs) / 20;
            std20 = std_last b (last_n 20 xs);
            bb_upper = ma20 + 2 * std20;
            bb_lower = ma20 - 2 * std20;
            current_price = last xs
        in if bb_lower < bb_upper
           then max 0 (30 - (current_price - bb_lower) / (bb_upper - bb_lower) * 30) else 15
      else 15)"

definition technical_score :: "backend \<Rightarrow> price_row list \<Rightarrow> rat" where
  "technical_score b rows =
     volume_score rows + rsi_score (calculate_rsi b (Frame (row_bars rows)) 14) + band_score b (row_closes rows)"

section \<open>The final score\<close>

record weights =
  w_momentum :: rat
  w_quality :: rat
  w_value :: rat
  w_technical :: rat

definition regime_weights :: "string \<Rightarrow> weights" where
  "regime_weights regime =
     (if regime = ''STRONG_BULL'' then
        \<lparr>w_momentum = 40 / 100, w_quality = 25 / 100, w_value = 15 / 100, w_technical = 20 / 100\<rparr>
      else if regime = ''BEAR'' then
        \<lparr>w_momentum = 20 / 100, w_quality = 35 / 100, w_value = 30 / 100, w_technical = 15 / 100\<rparr>
      else
        \<lparr>w_momentum = 30 / 100, w_quality = 30 / 100, w_value = 20 / 100, w_technical = 20 / 100\<rparr>)"

definition final_score :: "rat \<Rightarrow> rat \<Rightarrow> rat \<Rightarrow> rat \<Rightarrow> string \<Rightarrow> rat" where
  "final_score m q v t regime =
     (let w = regime_weights regime in
      m * w_momentum w * 10 + q * w_quality w * 10 + v * w_value w * 10 + t * w_technical w * 10)"

section \<open>Lemmas\<close>

lemma clamp_bounds: "lo \<le> hi \<Longrightarrow> lo \<le> clamp lo hi x \<and> clamp lo hi x \<le> hi"
  by (cases x) auto

lemma momentum_6m_bounds: "momentum_6m s k = Inr m \<Longrightarrow> 0 \<le> m \<and> m \<le> 60"
  by (auto simp: momentum_6m_def rbind_eq_Inr_iff split: option.splits if_splits)

lemma momentum_1m_bounds: "0 \<le> momentum_1m s k \<and> momentum_1m s k \<le> 20"
  using clamp_bounds [of 0 20] by (auto simp: momentum_1m_def split: option.split)

lemma momentum_stability_bounds: "0 \<le> momentum_stability s \<and> momentum_stability s \<le> 20"
proof -
  have "(of_nat (length (filter ieee_pos ms)) * 20 / of_nat (length ms) :: rat) \<le> 20" if "ms \<noteq> []" for ms
    using that length_filter_le [of ieee_pos ms] by (simp add: pos_divide_le_eq)
  then show ?thesis by (auto simp: momentum_stability_def Let_def)
qed

lemma momentum_score_bounds: "0 \<le> momentum_score s k \<and> momentum_score s k \<le> 100"
proof (cases "momentum_6m s k")
  case (Inr m)
  with momentum_6m_bounds [OF Inr] momentum_1m_bounds [of s k] momentum_stability_bounds [of s]
  show ?thesis by (simp add: momentum_score_def)
qed (simp add: momentum_score_def)

lemma quality_score_bounds:
  assumes "\<forall>rs. 0 \<le> std_last b rs"
  shows "0 \<le> quality_score b roe sg eg xs \<and> quality_score b roe sg eg xs \<le> 100"
proof -
  have "0 \<le> stability_score b xs \<and> stability_score b xs \<le> 20"
    using assms by (auto simp: stability_score_def split: option.split)
  moreover have "0 \<le> or_neutral 20 (\<lambda>r. max 0 (min 40 (20 + r * (67 / 100)))) roe \<and>
      or_neutral 20 (\<lambda>r. max 0 (min 40 (20 + r * (67 / 100)))) roe \<le> 40"
    "0 \<le> or_neutral 10 (\<lambda>g. max 0 (min 20 (5 + g * (1 / 2)))) sg \<and>
      or_neutral 10 (\<lambda>g. max 0 (min 20 (5 + g * (1 / 2)))) sg \<le> 20"
    "0 \<le> or_neutral 10 (\<lambda>g. max 0 (min 20 (7 + g * (33 / 100)))) eg \<and>
      or_neutral 10 (\<lambda>g. max 0 (min 20 (7 + g * (33 / 100)))) eg \<le> 20"
    by (auto simp: or_neutral_def split: option.split)
  ultimately show ?thesis unfolding quality_score_def by linarith
qed

lemma value_score_bounds: "0 \<le> value_score pbr per \<and> value_score pbr per \<le> 100"
proof -
  have "0 \<le> (case pbr of None \<Rightarrow> 25 | Some x \<Rightarrow> if 0 < x then max 0 (min 50 (50 - (x - 1 / 2) * 20)) else 25) \<and>
      (case pbr of None \<Rightarrow> 25 | Some x \<Rightarrow> if 0 < x then max 0 (min 50 (50 - (x - 1 / 2) * 20)) else 25) \<le> (50 :: rat)"
    by (auto split: option.split)
  moreover have "0 \<le> (case per of None \<Rightarrow> 0 | Some x \<Rightarrow> if 0 < x then max 0 (min 50 (50 - (x - 5) * 2)) else 0) \<and>
      (case per of None \<Rightarrow> 0 | Some x \<Rightarrow> if 0 < x then max 0 (min 50 (50 - (x - 5) * 2)) else 0) \<le> (50 :: rat)"
    by (auto split: option.split)
  ultimately show ?thesis unfolding value_score_def by linarith
qed

lemma volume_score_bounds: "0 \<le> volume_score rows \<and> volume_score rows \<le> 40"
  using clamp_bounds [of 0 40] by (auto simp: volume_score_def Let_def split: option.split)

lemma rsi_score_bounds: "0 \<le> rsi_score r \<and> rsi_score r \<le> 30"
  by (cases r) (auto simp: rsi_score_def max_def field_simps)

definition below_band :: "backend \<Rightarrow> rat list \<Rightarrow> bool" where
  "below_band b xs \<longleftrightarrow> 20 \<le> length xs \<and> last xs < sum_list (last_n 20 xs) / 20 - 2 * std_last b (last_n 20 xs)"

lemma band_score_bounds: "0 \<le> band_score b xs \<and> (\<not> below_band b xs \<longrightarrow> band_score b xs \<le> 30)"
proof -
  have "30 - (c - l) / (u - l) * 30 \<le> 30" if "l < u" "l \<le> c" for c l u :: rat
    using that by simp
  then show ?thesis
    by (auto simp: band_score_def below_band_def Let_def)
qed

lemma final_score_bounds:
  assumes "0 \<le> m" "m \<le> 100" "0 \<le> q" "q \<le> 100" "0 \<le> v" "v \<le> 100" "0 \<le> t" "t \<le> 100"
  shows "0 \<le> final_score m q v t regime \<and> final_score m q v t regime \<le> 1000"
  using assms by (simp add: final_score_def regime_weights_def Let_def)

section \<open>Properties\<close>

text \<open>
  The factor scores keep their scales: momentum, quality and value lie between 0 and 100 for
  every input, zero prices included; the technical score does unless the price is below the
  lower Bollinger band, and then the weighted sum lies between 0 and 1000 in every regime.
\<close>

theorem factor_scores_on_scale:
  assumes "\<forall>rs. 0 \<le> std_last b rs" "\<not> below_band b (row_closes rows)"
  shows "0 \<le> momentum_score xs kospi \<and> momentum_score xs kospi \<le> 100 \<and>
    0 \<le> quality_score b roe sg eg xs \<and> quality_score b roe sg eg xs \<le> 100 \<and>
    0 \<le> value_score pbr per \<and> value_score pbr per \<le> 100 \<and>
    0 \<le> technical_score b rows \<and> technical_score b rows \<le> 100 \<and>
    0 \<le> final_score (momentum_score xs kospi) (quality_score b roe sg eg xs) (value_score pbr per)
           (technical_score b rows) regime \<and>
    final_score (momentum_score xs kospi) (quality_score b roe sg eg xs) (value_score pbr per)
      (technical_score b rows) regime \<le> 1000"
proof -
  note band = band_score_bounds [of b "row_closes rows"]
  have t: "0 \<le> technical_score b rows" "technical_score b rows \<le> 100"
    using volume_score_bounds [of rows] rsi_score_bounds [of "calculate_rsi b (Frame (row_bars rows)) 14"] band assms(2)
    unfolding technical_score_def by linarith+
  note m = momentum_score_bounds [of xs kospi] and v = value_score_bounds [of pbr per]
    and q = quality_score_bounds [OF assms(1), of roe sg eg xs]
  with t final_score_bounds [of "momentum_score xs kospi" "quality_score b roe sg eg xs" "value_score pbr per"
      "technical_score b rows" regime] show ?thesis by blast
qed

definition demo_row :: "rat \<Rightarrow> rat \<Rightarrow> price_row" where
  "demo_row p v = \<lparr>row_day = 0, row_bar = \<lparr>open_price = p, high_price = p, low_price = p, close_price = p\<rparr>,
     row_volume = Some v\<rparr>"

theorem factor_scores_on_scale_witness:
  "technical_score pandas_backend (replicate 30 (demo_row 100 1000)) \<le> 100 \<and>
   final_score (momentum_score [0, 0] None) (quality_score pandas_backend None None None [0, 0]) (value_score None None)
     (technical_score pandas_backend (replicate 30 (demo_row 100 1000))) ''BULL'' \<le> 1000"
proof -
  have std: "\<forall>rs. 0 \<le> std_last pandas_backend rs" by (simp add: pandas_backend_def)
  have band: "\<not> below_band pandas_backend (row_closes (replicate 30 (demo_row 100 1000)))"
    by (simp add: below_band_def last_n_def demo_row_def pandas_backend_def sum_list_replicate)
  from factor_scores_on_scale [OF std band, where xs = "[0, 0]" and kospi = None and roe = None and sg = None
      and eg = None and pbr = None and per = None and regime = "''BULL''"]
  show ?thesis by blast
qed

text \<open>A stock that drifts down, and then falls by six percent on three times its volume.\<close>

definition falling_rows :: "price_row list" where
  "falling_rows =
     map (\<lambda>p. demo_row p 100) (replicate 5 103 @ replicate 3 102 @ replicate 8 101 @ [100] @ replicate 3 99)
     @ map (\<lambda>p. demo_row p 300) (replicate 4 99 @ [93])"

definition deviation_two :: backend where
  "deviation_two = rust_backend\<lparr>std_last := (\<lambda>_. 2)\<rparr>"

lemma falling_parts:
  "volume_score falling_rows = 40"
  "calculate_rsi deviation_two (Frame (row_bars falling_rows)) 14 = Some 0"
  "last_n 20 (row_closes falling_rows) = [102, 102, 102, 101, 101, 101, 101, 101, 101, 101, 101, 100, 99, 99, 99, 99, 99, 99, 99, 93]"
  subgoal by code_simp
  subgoal by code_simp
  subgoal by code_simp
  done

text \<open>
  The technical score passes its scale of 100 when the price breaks through the lower band:
  for a stock that drifts down and then falls by six percent on three times its volume it is
  more than 111. The deviation of the twenty closes is exactly 2.
\<close>

theorem technical_score_off_scale:
  "(let xs = last_n 20 (row_closes falling_rows); m = sum_list xs / 20 in
      sum_list (map (\<lambda>x. (x - m) * (x - m)) xs) / 19 = 2 * 2) \<and>
   111 < technical_score deviation_two falling_rows"
proof -
  have l: "last (row_closes falling_rows) = 93" "length falling_rows = 25"
    "std_last deviation_two xs = 2" for xs
    by (simp_all add: falling_rows_def demo_row_def deviation_two_def)
  have "band_score deviation_two (row_closes falling_rows) = 165 / 4"
    unfolding band_score_def by (simp add: falling_parts(3) l Let_def)
  then show ?thesis
    by (simp add: technical_score_def falling_parts rsi_score_def Let_def)
qed

end
