(* ===== verification/Config.thy ===== *)
theory Config
  imports Interfaces
begin

text \<open>
  \<open>shared/config.py\<close>: the \<open>ConfigManager\<close> with its two caches, and
  \<open>shared/strategy_presets.py\<close>, which injects a preset into it.

  A configuration value is a Python object: \<open>cval\<close> has one constructor per type the
  code distinguishes. What is outside the process (clock, CONFIG table, process
  environment, whether a database session opens, whether a statement succeeds) is the
  record \<open>cfg_world\<close>, an argument of every operation.
\<close>

section \<open>Values and their conversions\<close>

datatype cval = CNone | CInt int | CFloat rat | CBool bool | CStr string

definition is_digit :: "char \<Rightarrow> bool" where
  "is_digit c \<longleftrightarrow> c \<in> set ''0123456789''"

definition digit_val :: "char \<Rightarrow> int" where
  "digit_val c = of_char c - 48"

definition is_space :: "char \<Rightarrow> bool" where
  "is_space c \<longleftrightarrow> (let n = (of_char c :: nat) in (9 \<le> n \<and> n \<le> 13) \<or> (28 \<le> n \<and> n \<le> 32))"

definition py_strip :: "string \<Rightarrow> string" where
  "py_strip s = rev (dropWhile is_space (rev (dropWhile is_space s)))"

text \<open>A run of digits, with single underscores between digits, and what is left.\<close>

fun scan_digits :: "int \<Rightarrow> nat \<Rightarrow> string \<Rightarrow> int \<times> nat \<times> string" where
  "scan_digits acc n [] = (acc, n, [])"
| "scan_digits acc n (c # cs) =
     (if is_digit c then scan_digits (acc * 10 + digit_val c) (n + 1) cs
      else if c = CHR ''_'' \<and> 0 < n \<and> cs \<noteq> [] \<and> is_digit (hd cs) then scan_digits acc n cs
      else (acc, n, c # cs))"

definition signed :: "(string \<Rightarrow> 'a::uminus option) \<Rightarrow> string \<Rightarrow> 'a option" where
  "signed f s =
     (case s of
        [] \<Rightarrow> f []
      | c # cs \<Rightarrow>
          if c = CHR ''-'' then map_option uminus (f cs)
          else if c = CHR ''+'' then f cs else f (c # cs))"

definition int_body :: "string \<Rightarrow> int option" where
  "int_body s = (case scan_digits 0 0 s of (v, n, r) \<Rightarrow> if 0 < n \<and> r = [] then Some v else None)"

text \<open>\<open>int(s)\<close> of a text, \<open>None\<close> where Python raises ValueError.\<close>

definition parse_int :: "string \<Rightarrow> int option" where
  "parse_int s = signed int_body (py_strip s)"

definition float_exponent :: "rat \<Rightarrow> string \<Rightarrow> rat option" where
  "float_exponent m s =
     (case s of
        [] \<Rightarrow> Some m
      | c # cs \<Rightarrow>
          if c = CHR ''e'' \<or> c = CHR ''E'' then
            map_option (\<lambda>k. if 0 \<le> k then m * 10 ^ nat k else m / 10 ^ nat (- k)) (signed int_body cs)
          else None)"

definition float_body :: "string \<Rightarrow> rat option" where
  "float_body s =
     (case scan_digits 0 0 s of (v, n, r) \<Rightarrow>
        if r \<noteq> [] \<and> hd r = CHR ''.'' then
          (case scan_digits v 0 (tl r) of (w, m, r') \<Rightarrow>
             if 0 < n + m then float_exponent (of_int w / 10 ^ m) r' else None)
        else if 0 < n then float_exponent (of_int v) r else None)"

text \<open>\<open>float(s)\<close> of a text in decimal or exponent notation.\<close>

definition parse_float :: "string \<Rightarrow> rat option" where
  "parse_float s = signed float_body (py_strip s)"

lemma float_body_int: "int_body s = Some i \<Longrightarrow> float_body s = Some (of_int i)"
  by (auto simp: int_body_def float_body_def float_exponent_def split: prod.splits if_splits)

lemma parse_float_int: "parse_int s = Some i \<Longrightarrow> parse_float s = Some (of_int i)"
  by (auto simp: parse_int_def parse_float_def signed_def float_body_int
      split: list.splits if_splits)

definition to_lower :: "string \<Rightarrow> string" where
  "to_lower = map (\<lambda>c. let n = (of_char c :: nat) in if 65 \<le> n \<and> n \<le> 90 then char_of (n + 32) else c)"

definition truthy_text :: "string \<Rightarrow> bool" where
  "truthy_text s \<longleftrightarrow> to_lower s \<in> {''true'', ''1'', ''yes'', ''on''}"

fun to_int :: "cval \<Rightarrow> int res" where
  "to_int CNone = Inl TypeError"
| "to_int (CInt i) = Inr i"
| "to_int (CFloat r) = Inr (py_int r)"
| "to_int (CBool b) = Inr (if b then 1 else 0)"
| "to_int (CStr s) = (case parse_int s of None \<Rightarrow> Inl ValueError | Some i \<Rightarrow> Inr i)"

fun to_float :: "cval \<Rightarrow> rat res" where
  "to_float CNone = Inl TypeError"
| "to_float (CInt i) = Inr (of_int i)"
| "to_float (CFloat r) = Inr r"
| "to_float (CBool b) = Inr (if b then 1 else 0)"
| "to_float (CStr s) = (case parse_float s of None \<Rightarrow> Inl ValueError | Some r \<Rightarrow> Inr r)"

fun truth :: "cval \<Rightarrow> bool" where
  "truth CNone = False"
| "truth (CInt i) = (i \<noteq> 0)"
| "truth (CFloat r) = (r \<noteq> 0)"
| "truth (CBool b) = b"
| "truth (CStr s) = (s \<noteq> [])"

section \<open>The manager and the world around it\<close>

record config_manager =
  cache_ttl :: rat
  memory_cache :: "string \<rightharpoonup> cval \<times> rat"
  db_cache :: "string \<rightharpoonup> string \<times> rat"

record cfg_world =
  now :: rat
  session_ok :: bool
  db_read_ok :: bool
  db_write_ok :: bool
  config_table :: "string \<rightharpoonup> string"
  environ :: "string \<rightharpoonup> string"

definition defaults_table :: "(string \<times> cval) list" where
  "defaults_table =
   [(''SCAN_INTERVAL_SEC'', CInt 600),
    (''MARKET_INDEX_MA_PERIOD'', CInt 20),
    (''BUY_BOLLINGER_PERIOD'', CInt 20),
    (''BUY_RSI_OVERSOLD_THRESHOLD'', CInt 30),
    (''BUY_GOLDEN_CROSS_SHORT'', CInt 5),
    (''BUY_GOLDEN_CROSS_LONG'', CInt 20),
    (''MAX_HOLDING_STOCKS'', CInt 50),
    (''DEFAULT_DAILY_BUY_LIMIT_AMOUNT'', CInt 10000000),
    (''BUY_QUANTITY_PER_TRADE'', CInt 1),
    (''ALLOW_BEAR_TRADING'', CBool False),
    (''MIN_LLM_CONFIDENCE_BEAR'', CInt 85),
    (''BEAR_POSITION_RATIO'', CFloat (1/5)),
    (''BEAR_STOP_LOSS_ATR_MULT'', CFloat 2),
    (''BEAR_FIRST_TP_PCT'', CFloat (3/100)),
    (''BEAR_PARTIAL_CLOSE_RATIO'', CFloat (1/2)),
    (''BEAR_VOLUME_SPIKE_MULTIPLIER'', CFloat (3/2)),
    (''ATR_PERIOD'', CInt 14),
    (''ATR_MULTIPLIER_INITIAL_STOP'', CFloat 2),
    (''ATR_MULTIPLIER_TRAILING_STOP'', CFloat (3/2)),
    (''SELL_RSI_THRESHOLD'', CInt 70),
    (''RSI_THRESHOLD_1'', CFloat 72),
    (''RSI_THRESHOLD_2'', CFloat 75),
    (''RSI_THRESHOLD_3'', CFloat 78),
    (''PROFIT_TARGET_FULL'', CFloat 8),
    (''PROFIT_TARGET_PARTIAL'', CFloat 6),
    (''TIME_BASED_BULL'', CInt 20),
    (''TIME_BASED_SIDEWAYS'', CInt 35),
    (''MAX_POSITION_PCT'', CInt 15),
    (''MAX_POSITION_VALUE_PCT'', CFloat 15),
    (''CASH_KEEP_PCT'', CInt 10),
    (''RISK_PER_TRADE_PCT'', CFloat 2)]"

definition cfg_defaults :: "string \<rightharpoonup> cval" where
  "cfg_defaults = map_of defaults_table"

definition config_init :: "rat \<Rightarrow> config_manager" where
  "config_init ttl = \<lparr>cache_ttl = ttl, memory_cache = Map.empty, db_cache = Map.empty\<rparr>"

text \<open>
  \<open>_convert_type\<close>: \<open>bool\<close> is a subclass of \<open>int\<close> in Python, so the first test
  catches boolean defaults too, and the branch written for them is never reached.
\<close>

definition convert_type :: "string \<Rightarrow> string \<Rightarrow> cval" where
  "convert_type key value =
     (case cfg_defaults key of
        Some (CInt _) \<Rightarrow> (case parse_int value of Some i \<Rightarrow> CInt i | None \<Rightarrow> CStr value)
      | Some (CBool _) \<Rightarrow> (case parse_int value of Some i \<Rightarrow> CInt i | None \<Rightarrow> CStr value)
      | Some (CFloat _) \<Rightarrow> (case parse_float value of Some r \<Rightarrow> CFloat r | None \<Rightarrow> CStr value)
      | _ \<Rightarrow> CStr value)"

text \<open>A cache entry counts while \<open>current_time - timestamp < cache_ttl\<close>.\<close>

definition fresh :: "rat \<Rightarrow> rat \<Rightarrow> ('v \<times> rat) option \<Rightarrow> 'v option" where
  "fresh t ttl e = (case e of None \<Rightarrow> None | Some (v, ts) \<Rightarrow> if t - ts < ttl then Some v else None)"

lemma fresh_simps [simp]:
  "fresh t ttl None = None"
  "fresh t ttl (Some (v, ts)) = (if t - ts < ttl then Some v else None)"
  by (simp_all add: fresh_def)

text \<open>
  \<open>db_lookup\<close> is the body of the \<open>try\<close> block of \<open>get\<close>: the database cache, then the
  CONFIG table; \<open>None\<close> when it falls through (no row, or an exception).
\<close>

definition db_lookup ::
  "cfg_world \<Rightarrow> string \<Rightarrow> bool \<Rightarrow> config_manager \<Rightarrow> (cval \<times> config_manager) option" where
  "db_lookup w key use_cache c =
     (case (if use_cache then fresh (now w) (cache_ttl c) (db_cache c key) else None) of
        Some v \<Rightarrow> Some (CStr v, c)
      | None \<Rightarrow>
          if session_ok w \<and> db_read_ok w then
            (case config_table w key of
               None \<Rightarrow> None
             | Some v \<Rightarrow> Some (convert_type key v, c\<lparr>db_cache := (db_cache c)(key \<mapsto> (v, now w))\<rparr>))
          else None)"

definition static_lookup :: "cfg_world \<Rightarrow> string \<Rightarrow> cval \<Rightarrow> cval" where
  "static_lookup w key dflt =
     (case environ w key of
        Some v \<Rightarrow> convert_type key v
      | None \<Rightarrow>
          if dflt \<noteq> CNone then dflt
          else (case cfg_defaults key of Some d \<Rightarrow> d | None \<Rightarrow> CNone))"

definition cfg_get ::
  "cfg_world \<Rightarrow> string \<Rightarrow> cval \<Rightarrow> bool \<Rightarrow> config_manager \<Rightarrow> cval \<times> config_manager" where
  "cfg_get w key dflt use_cache c =
     (case (if use_cache then fresh (now w) (cache_ttl c) (memory_cache c key) else None) of
        Some v \<Rightarrow> (v, c)
      | None \<Rightarrow>
          (case db_lookup w key use_cache c of
             Some r \<Rightarrow> r
           | None \<Rightarrow> (static_lookup w key dflt, c)))"

text \<open>
  \<open>set\<close>: the memory cache always; with \<open>persist_to_db\<close> also the CONFIG table.
  \<open>database.set_config\<close> swallows its own exceptions and returns False, and \<open>set\<close>
  ignores that result. \<open>str_of\<close> is Python's \<open>str\<close>.
\<close>

definition memory_put :: "rat \<Rightarrow> string \<Rightarrow> cval \<Rightarrow> config_manager \<Rightarrow> config_manager" where
  "memory_put t key v c = c\<lparr>memory_cache := (memory_cache c)(key \<mapsto> (v, t))\<rparr>"

definition memory_fetch :: "rat \<Rightarrow> string \<Rightarrow> config_manager \<Rightarrow> cval option" where
  "memory_fetch t key c = fresh t (cache_ttl c) (memory_cache c key)"

definition cfg_set ::
  "(cval \<Rightarrow> string) \<Rightarrow> string \<Rightarrow> cval \<Rightarrow> bool \<Rightarrow> cfg_world \<Rightarrow> config_manager \<Rightarrow>
   bool \<times> cfg_world \<times> config_manager" where
  "cfg_set str_of key value persist w c =
     (let c1 = memory_put (now w) key value c
      in if \<not> persist then (True, w, c1)
         else if \<not> session_ok w then (False, w, c1)
         else
           (True,
            (if db_write_ok w then w\<lparr>config_table := (config_table w)(key \<mapsto> str_of value)\<rparr> else w),
            c1\<lparr>db_cache := (db_cache c1)(key \<mapsto> (str_of value, now w))\<rparr>))"

definition clear_cache :: "string option \<Rightarrow> config_manager \<Rightarrow> config_manager" where
  "clear_cache key c =
     (case key of
        Some k \<Rightarrow>
          if k \<noteq> [] then c\<lparr>memory_cache := (memory_cache c)(k := None), db_cache := (db_cache c)(k := None)\<rparr>
          else c\<lparr>memory_cache := Map.empty, db_cache := Map.empty\<rparr>
      | None \<Rightarrow> c\<lparr>memory_cache := Map.empty, db_cache := Map.empty\<rparr>)"

definition get_int :: "cfg_world \<Rightarrow> string \<Rightarrow> int option \<Rightarrow> config_manager \<Rightarrow> int \<times> config_manager" where
  "get_int w key dflt c =
     (case cfg_get w key (case dflt of None \<Rightarrow> CNone | Some d \<Rightarrow> CInt d) True c of
        (v, c') \<Rightarrow>
          ((case to_int v of
              Inr i \<Rightarrow> i
            | Inl _ \<Rightarrow> (case dflt of Some d \<Rightarrow> d | None \<Rightarrow> 0)), c'))"

definition get_float :: "cfg_world \<Rightarrow> string \<Rightarrow> rat option \<Rightarrow> config_manager \<Rightarrow> rat \<times> config_manager" where
  "get_float w key dflt c =
     (case cfg_get w key (case dflt of None \<Rightarrow> CNone | Some d \<Rightarrow> CFloat d) True c of
        (v, c') \<Rightarrow>
          ((case to_float v of
              Inr r \<Rightarrow> r
            | Inl _ \<Rightarrow> (case dflt of Some d \<Rightarrow> d | None \<Rightarrow> 0)), c'))"

definition get_bool :: "cfg_world \<Rightarrow> string \<Rightarrow> bool option \<Rightarrow> config_manager \<Rightarrow> bool \<times> config_manager" where
  "get_bool w key dflt c =
     (case cfg_get w key (case dflt of None \<Rightarrow> CNone | Some d \<Rightarrow> CBool d) True c of
        (v, c') \<Rightarrow>
          ((case v of
              CNone \<Rightarrow> (case dflt of Some d \<Rightarrow> d | None \<Rightarrow> False)
            | CBool b \<Rightarrow> b
            | CStr s \<Rightarrow> truthy_text s
            | _ \<Rightarrow> truth v), c'))"

fun get_all_keys :: "cfg_world \<Rightarrow> string list \<Rightarrow> config_manager \<Rightarrow> (string \<times> cval) list \<times> config_manager" where
  "get_all_keys w [] c = ([], c)"
| "get_all_keys w (k # ks) c =
     (case cfg_get w k CNone True c of (v, c1) \<Rightarrow>
        (case get_all_keys w ks c1 of (rest, c2) \<Rightarrow> ((k, v) # rest, c2)))"

definition get_all :: "cfg_world \<Rightarrow> config_manager \<Rightarrow> (string \<times> cval) list \<times> config_manager" where
  "get_all w c = get_all_keys w (map fst defaults_table) c"

section \<open>The memory cache as an expiring store\<close>

interpretation mem: expiring_store memory_put memory_fetch cache_ttl
  by unfold_locales (auto simp: memory_put_def memory_fetch_def)

section \<open>Properties\<close>

lemma cfg_get_memory:
  "memory_fetch (now w) key c = Some v \<Longrightarrow> cfg_get w key d True c = (v, c)"
  by (simp add: cfg_get_def memory_fetch_def)

lemma cfg_get_frame [frames]:
  "cfg_get w key d u c = (v, c') \<Longrightarrow> memory_cache c' = memory_cache c \<and> cache_ttl c' = cache_ttl c"
  by (auto simp: cfg_get_def db_lookup_def split: option.splits if_splits)

lemma to_float_convert_type:
  "(case to_float (convert_type key s) of Inr r \<Rightarrow> r | Inl _ \<Rightarrow> d) =
   (case to_float (CStr s) of Inr r \<Rightarrow> r | Inl _ \<Rightarrow> d)"
  by (auto simp: convert_type_def parse_float_int split: option.splits cval.splits)

text \<open>
  A value set at run time is what every later read of its key returns while the cache
  entry lives, whatever the database and the environment hold, and setting one key leaves
  the cached values of all other keys alone.
\<close>

theorem set_then_get:
  assumes "cfg_set str_of key v persist w c = (ok, w1, c1)"
    and "now w2 - now w < cache_ttl c"
  shows "fst (cfg_get w2 key d True c1) = v \<and>
    (\<forall>k. k \<noteq> key \<longrightarrow> memory_fetch (now w2) k c1 = memory_fetch (now w2) k c)"
proof -
  have mem: "memory_cache c1 = memory_cache (memory_put (now w) key v c)" "cache_ttl c1 = cache_ttl c"
    using assms(1) by (auto simp: cfg_set_def Let_def memory_put_def split: if_splits)
  then have eq: "memory_fetch t k c1 = memory_fetch t k (memory_put (now w) key v c)" for t k
    by (simp add: memory_fetch_def memory_put_def)
  have "memory_fetch (now w2) key c1 = Some v"
    using assms(2) by (simp add: eq mem.fetch_put_same)
  then show ?thesis
    by (auto simp: cfg_get_memory eq mem.fetch_put_other)
qed

theorem set_then_get_witness:
  defines "w \<equiv> \<lparr>now = 100, session_ok = False, db_read_ok = True, db_write_ok = True,
     config_table = [''MIN_QUANTITY'' \<mapsto> ''7''], environ = Map.empty\<rparr>"
  shows "fst (cfg_get (w\<lparr>now := 350\<rparr>) ''MIN_QUANTITY'' (CInt 1) True
     (snd (snd (cfg_set (\<lambda>_. []) ''MIN_QUANTITY'' (CInt 3) False w (config_init 300))))) = CInt 3"
proof -
  obtain ok w1 c1 where r: "cfg_set (\<lambda>_. []) ''MIN_QUANTITY'' (CInt 3) False w (config_init 300) = (ok, w1, c1)"
    by (cases "cfg_set (\<lambda>_. []) ''MIN_QUANTITY'' (CInt 3) False w (config_init 300)")
  have "now (w\<lparr>now := 350\<rparr>) - now w < cache_ttl (config_init 300)"
    by (simp add: w_def config_init_def)
  from set_then_get [OF r this, of "CInt 1"] r show ?thesis by simp
qed

text \<open>
  Reading a number twice gives the same number: a CONFIG row is converted when it is
  first read and kept unconverted in the database cache, and \<open>get_float\<close> returns the same
  value from either form, for as long as the cached row lives and whatever the world does
  in between.
\<close>

theorem get_float_stable:
  assumes "fresh (now w) (cache_ttl c) (memory_cache c key) = None"
    and "fresh (now w) (cache_ttl c) (db_cache c key) = None"
    and "session_ok w" "db_read_ok w" "config_table w key = Some s"
    and "now w \<le> now w'" "now w' - now w < cache_ttl c"
  shows "fst (get_float w' key d (snd (get_float w key d c))) = fst (get_float w key d c)"
proof -
  let ?c' = "c\<lparr>db_cache := (db_cache c)(key \<mapsto> (s, now w))\<rparr>"
  have first: "cfg_get w key x True c = (convert_type key s, ?c')" for x
    using assms(1-5) by (simp add: cfg_get_def db_lookup_def)
  have "fresh (now w') (cache_ttl c) (memory_cache c key) = None"
    using assms(1,6) by (auto simp: fresh_def split: option.splits if_splits)
  then have second: "cfg_get w' key x True ?c' = (CStr s, ?c')" for x
    using assms(7) by (simp add: cfg_get_def db_lookup_def)
  show ?thesis
    by (simp only: get_float_def first second prod.case fst_conv snd_conv to_float_convert_type)
qed

definition demo_world :: cfg_world where
  "demo_world = \<lparr>now = 0, session_ok = True, db_read_ok = True, db_write_ok = True,
     config_table = [''MAX_POSITION_VALUE_PCT'' \<mapsto> ''12.5'', ''ALLOW_BEAR_TRADING'' \<mapsto> ''true''],
     environ = Map.empty\<rparr>"

theorem get_float_stable_witness:
  "fst (get_float (demo_world\<lparr>now := 10\<rparr>) ''MAX_POSITION_VALUE_PCT'' None
     (snd (get_float demo_world ''MAX_POSITION_VALUE_PCT'' None (config_init 300)))) =
   fst (get_float demo_world ''MAX_POSITION_VALUE_PCT'' None (config_init 300))"
  by (rule get_float_stable [where s = "''12.5''"]) (simp_all add: demo_world_def config_init_def)

text \<open>
  The same is false of \<open>get_int\<close>: with the row 12.5 for a key whose built-in default is
  a float, the first read gives 12 (the row was converted to a float and then truncated), and
  a second read one second later gives the caller's fallback 1, because \<open>int()\<close> of the cached
  text raises.
\<close>

theorem get_int_unstable:
  "fst (get_int demo_world ''MAX_POSITION_VALUE_PCT'' (Some 1) (config_init 300)) = 12 \<and>
   fst (get_int (demo_world\<lparr>now := 1\<rparr>) ''MAX_POSITION_VALUE_PCT'' (Some 1)
     (snd (get_int demo_world ''MAX_POSITION_VALUE_PCT'' (Some 1) (config_init 300)))) = 1"
  by code_simp

text \<open>
  The branch of \<open>_convert_type\<close> for boolean defaults is dead: no text converts to a
  boolean, and the text false for the one boolean key stays a non-empty text, which
  Python takes for true.
\<close>

theorem convert_type_never_bool:
  "(\<forall>key s b. convert_type key s \<noteq> CBool b) \<and> truth (convert_type ''ALLOW_BEAR_TRADING'' ''false'')"
proof
  show "\<forall>key s b. convert_type key s \<noteq> CBool b"
    by (auto simp: convert_type_def split: option.splits cval.splits)
  show "truth (convert_type ''ALLOW_BEAR_TRADING'' ''false'')" by code_simp
qed

text \<open>
  \<open>set\<close> with \<open>persist_to_db\<close> reports success although the row was not written (the
  write fails inside \<open>database.set_config\<close>, which returns False), and the CONFIG table keeps
  its old content.
\<close>

theorem persist_reports_success_on_failed_write:
  assumes "session_ok w" "\<not> db_write_ok w"
  shows "\<exists>c1. cfg_set str_of key v True w c = (True, w, c1) \<and> db_cache c1 key = Some (str_of v, now w)"
  using assms by (simp add: cfg_set_def Let_def)

theorem persist_reports_success_on_failed_write_witness:
  "\<exists>c1. cfg_set (\<lambda>_. ''8'') ''CASH_KEEP_PCT'' (CInt 8) True (demo_world\<lparr>db_write_ok := False\<rparr>) (config_init 300) =
     (True, demo_world\<lparr>db_write_ok := False\<rparr>, c1) \<and> db_cache c1 ''CASH_KEEP_PCT'' = Some (''8'', 0)"
  using persist_reports_success_on_failed_write
    [of "demo_world\<lparr>db_write_ok := False\<rparr>" "\<lambda>_. ''8''" "''CASH_KEEP_PCT''" "CInt 8" "config_init 300"]
  by (simp add: demo_world_def)

end
