(* ===== verification/Redis_Cache.thy ===== *)
theory Redis_Cache
  imports Interfaces Config
begin

text \<open>
  \<open>shared/redis_cache.py\<close>: the regime cache, the sentiment and competitor scores, the trading
  flags, the run-time settings, the notification mute and the price alerts, all of them keys
  of one Redis server with an expiry time.

  The server is a list of keys with their value and the end of their life. A value is the
  JSON document that was written (\<open>Doc\<close>), or a plain text (\<open>Text\<close>), which does not parse as
  a document. The clock is counted in seconds; a time in ISO format is \<open>JTime\<close>. Without a
  connection every writer answers False and every reader its default; a server that fails
  during an operation raises, which every function turns into the same answers.
\<close>

section \<open>The server\<close>

datatype jval =
    JNull
  | JBool bool
  | JNum rat
  | JStr string
  | JTime rat
  | JObj "(string \<times> jval) list"

datatype stored = Doc "(string \<times> jval) list" | Text string

type_synonym redis = "(string \<times> stored \<times> rat) list"

definition redis_setex :: "rat \<Rightarrow> string \<Rightarrow> rat \<Rightarrow> stored \<Rightarrow> redis \<Rightarrow> redis" where
  "redis_setex t k ttl v s = AList.update k (v, t + ttl) s"

definition redis_get :: "rat \<Rightarrow> string \<Rightarrow> redis \<Rightarrow> stored option" where
  "redis_get t k s = (case map_of s k of None \<Rightarrow> None | Some (v, e) \<Rightarrow> if t < e then Some v else None)"

definition redis_del :: "string \<Rightarrow> redis \<Rightarrow> redis" where
  "redis_del k s = AList.delete k s"

definition redis_keys :: "rat \<Rightarrow> string \<Rightarrow> redis \<Rightarrow> string list" where
  "redis_keys t prefix s =
     map fst (filter (\<lambda>(k, v, e). take (length prefix) k = prefix \<and> t < e) s)"

interpretation redis: ttl_store redis_setex redis_get redis_del
  by unfold_locales
    (auto simp: redis_setex_def redis_get_def redis_del_def update_conv' delete_conv split: option.splits)

text \<open>The connection as a function meets it: absent, failing, or working; and the clock.\<close>

record redis_link =
  connected :: bool
  link_fault :: bool
  clock :: rat

text \<open>\<open>r.setex\<close> takes whole seconds; it raises on a failing server and for a lifetime that is not positive.\<close>

definition try_setex :: "redis_link \<Rightarrow> string \<Rightarrow> int \<Rightarrow> stored \<Rightarrow> redis \<Rightarrow> bool \<times> redis" where
  "try_setex l k ttl v s =
     (if connected l \<and> \<not> link_fault l \<and> 0 < ttl then (True, redis_setex (clock l) k (of_int ttl) v s) else (False, s))"

text \<open>A document under a key: None when it is absent, unreadable or not a document.\<close>

definition try_doc :: "redis_link \<Rightarrow> string \<Rightarrow> redis \<Rightarrow> (string \<times> jval) list option" where
  "try_doc l k s =
     (if connected l \<and> \<not> link_fault l then
        (case redis_get (clock l) k s of Some (Doc d) \<Rightarrow> Some d | _ \<Rightarrow> None)
      else None)"

definition field :: "string \<Rightarrow> jval \<Rightarrow> (string \<times> jval) list \<Rightarrow> jval" where
  "field k d doc = (case map_of doc k of None \<Rightarrow> d | Some v \<Rightarrow> v)"

text \<open>A value as a number in a calculation or a comparison: a truth value counts as 0 or 1.\<close>

fun jnum :: "jval \<Rightarrow> rat option" where
  "jnum (JNum r) = Some r"
| "jnum (JBool b) = Some (if b then 1 else 0)"
| "jnum _ = None"

fun jtruth :: "jval \<Rightarrow> bool" where
  "jtruth JNull = False"
| "jtruth (JBool b) = b"
| "jtruth (JNum r) = (r \<noteq> 0)"
| "jtruth (JStr s) = (s \<noteq> [])"
| "jtruth (JTime _) = True"
| "jtruth (JObj d) = (d \<noteq> [])"

section \<open>The regime cache\<close>

definition market_regime_key :: string where
  "market_regime_key = ''market_regime_cache''"

definition set_market_regime_cache ::
  "redis_link \<Rightarrow> (string \<times> jval) list \<Rightarrow> int \<Rightarrow> redis \<Rightarrow> bool \<times> redis" where
  "set_market_regime_cache l payload ttl s =
     (if payload = [] then (False, s)
      else try_setex l market_regime_key ttl (Doc (AList.update ''_cached_at'' (JTime (clock l)) payload)) s)"

text \<open>A stamp that does not parse as a time is ignored.\<close>

definition get_market_regime_cache :: "redis_link \<Rightarrow> rat \<Rightarrow> redis \<Rightarrow> (string \<times> jval) list option" where
  "get_market_regime_cache l max_age s =
     (case try_doc l market_regime_key s of
        None \<Rightarrow> None
      | Some data \<Rightarrow>
          (case field ''_cached_at'' JNull data of
             JTime t \<Rightarrow> if max_age \<noteq> 0 \<and> max_age < clock l - t then None else Some data
           | _ \<Rightarrow> Some data))"

section \<open>Sentiment scores\<close>

text \<open>\<open>reason_text\<close> words the joint reason from the new score, its reason and the old score.\<close>

definition sentiment_key :: "string \<Rightarrow> string" where
  "sentiment_key code = ''sentiment:'' @ code"

text \<open>The old document; an unreadable one counts as a stored text with the neutral score.\<close>

definition old_sentiment :: "redis_link \<Rightarrow> string \<Rightarrow> redis \<Rightarrow> (string \<times> jval) list option" where
  "old_sentiment l code s =
     (if link_fault l then None
      else (case redis_get (clock l) (sentiment_key code) s of
              None \<Rightarrow> None
            | Some (Doc d) \<Rightarrow> Some d
            | Some (Text t) \<Rightarrow> if t = [] then None else Some []))"

definition set_sentiment_score ::
  "(rat \<Rightarrow> string \<Rightarrow> rat \<Rightarrow> string) \<Rightarrow> redis_link \<Rightarrow> string \<Rightarrow> rat \<Rightarrow> string \<Rightarrow> jval \<Rightarrow> jval \<Rightarrow> redis \<Rightarrow>
   (bool \<times> redis) res" where
  "set_sentiment_score reason_text l code score reason url name s =
     (if \<not> connected l then Inr (False, s)
      else
        let old = old_sentiment l code s;
            keep = (\<lambda>new key. if jtruth new then new
                              else (case old of None \<Rightarrow> JNull | Some d \<Rightarrow> field key JNull d));
            store = (\<lambda>final why. Inr (try_setex l (sentiment_key code) 604800
                       (Doc [(''score'', JNum (py_round_digits 1 final)), (''reason'', JStr why),
                             (''source_url'', keep url ''source_url''), (''stock_name'', keep name ''stock_name''),
                             (''updated_at'', JTime (clock l))]) s))
        in (case old of
              None \<Rightarrow> store score reason
            | Some d \<Rightarrow>
                (case jnum (field ''score'' (JNum 50) d) of
                   Some old_score \<Rightarrow>
                     store (old_score * (1 / 2) + score * (1 / 2)) (reason_text score reason old_score)
                 | None \<Rightarrow> Inl TypeError)))"

definition no_data_reason :: string where
  "no_data_reason =
     [CHR 0xEB, CHR 0x8D, CHR 0xB0, CHR 0xEC, CHR 0x9D, CHR 0xB4, CHR 0xED, CHR 0x84, CHR 0xB0,
     CHR 0x20, CHR 0xEC, CHR 0x97, CHR 0x86, CHR 0xEC, CHR 0x9D, CHR 0x8C, CHR 0x20, CHR
     0x28, CHR 0xEC, CHR 0xA4, CHR 0x91, CHR 0xEB, CHR 0xA6, CHR 0xBD, CHR 0x29]"

definition sentiment_default :: "(string \<times> jval) list" where
  "sentiment_default =
     [(''score'', JNum 50), (''reason'', JStr no_data_reason), (''source_url'', JNull), (''stock_name'', JNull)]"

definition get_sentiment_score :: "redis_link \<Rightarrow> string \<Rightarrow> redis \<Rightarrow> (string \<times> jval) list" where
  "get_sentiment_score l code s =
     (case try_doc l (sentiment_key code) s of None \<Rightarrow> sentiment_default | Some d \<Rightarrow> d)"

section \<open>General data\<close>

definition set_redis_data :: "redis_link \<Rightarrow> string \<Rightarrow> (string \<times> jval) list \<Rightarrow> int \<Rightarrow> redis \<Rightarrow> bool \<times> redis" where
  "set_redis_data l key data ttl s = try_setex l key ttl (Doc data) s"

definition get_redis_data :: "redis_link \<Rightarrow> string \<Rightarrow> redis \<Rightarrow> (string \<times> jval) list" where
  "get_redis_data l key s = (case try_doc l key s of None \<Rightarrow> [] | Some d \<Rightarrow> d)"

section \<open>Competitor benefit\<close>

definition competitor_prefix :: string where
  "competitor_prefix = ''competitor_benefit:''"

text \<open>An existing higher score is kept; its lifetime is not renewed. An old score that is no
  number makes the comparison raise.\<close>

definition set_competitor_benefit_score ::
  "redis_link \<Rightarrow> string \<Rightarrow> rat \<Rightarrow> string \<Rightarrow> string \<Rightarrow> string \<Rightarrow> int \<Rightarrow> redis \<Rightarrow> bool \<times> redis" where
  "set_competitor_benefit_score l code score reason affected event ttl s =
     (let key = competitor_prefix @ code;
          doc = Doc [(''score'', JNum score), (''reason'', JStr reason), (''affected_stock'', JStr affected),
                     (''event_type'', JStr event), (''updated_at'', JTime (clock l))]
      in if \<not> connected l \<or> link_fault l then (False, s)
         else (case redis_get (clock l) key s of
                 None \<Rightarrow> try_setex l key ttl doc s
               | Some (Text t) \<Rightarrow> if t = [] then try_setex l key ttl doc s else (False, s)
               | Some (Doc d) \<Rightarrow>
                   (case jnum (field ''score'' (JNum 0) d) of
                      Some old \<Rightarrow> if score < old then (True, s) else try_setex l key ttl doc s
                    | None \<Rightarrow> (False, s))))"

definition competitor_default :: "(string \<times> jval) list" where
  "competitor_default =
     [(''score'', JNum 0), (''reason'', JStr []), (''affected_stock'', JStr []), (''event_type'', JStr [])]"

definition get_competitor_benefit_score :: "redis_link \<Rightarrow> string \<Rightarrow> redis \<Rightarrow> (string \<times> jval) list" where
  "get_competitor_benefit_score l code s =
     (case try_doc l (competitor_prefix @ code) s of None \<Rightarrow> competitor_default | Some d \<Rightarrow> d)"

text \<open>\<open>key.replace(prefix, "")\<close> removes every occurrence; the second argument counts the
  characters still to skip.\<close>

fun remove_all :: "string \<Rightarrow> nat \<Rightarrow> string \<Rightarrow> string" where
  "remove_all p n [] = []"
| "remove_all p (Suc n) (c # cs) = remove_all p n cs"
| "remove_all p 0 (c # cs) =
     (if take (length p) (c # cs) = p then remove_all p (length p - 1) cs else c # remove_all p 0 cs)"

text \<open>All documents under a prefix; a value that is no document makes the whole answer empty.\<close>

fun collect_docs :: "redis_link \<Rightarrow> string \<Rightarrow> string list \<Rightarrow> redis \<Rightarrow>
  (string \<times> (string \<times> jval) list) list \<Rightarrow> (string \<times> (string \<times> jval) list) list" where
  "collect_docs l prefix [] s found = found"
| "collect_docs l prefix (k # ks) s found =
     (case redis_get (clock l) k s of
        None \<Rightarrow> collect_docs l prefix ks s found
      | Some (Doc d) \<Rightarrow> collect_docs l prefix ks s (AList.update (remove_all prefix 0 k) d found)
      | Some (Text t) \<Rightarrow> if t = [] then collect_docs l prefix ks s found else [])"

definition docs_under :: "redis_link \<Rightarrow> string \<Rightarrow> redis \<Rightarrow> (string \<times> (string \<times> jval) list) list" where
  "docs_under l prefix s =
     (if connected l \<and> \<not> link_fault l then collect_docs l prefix (redis_keys (clock l) prefix s) s [] else [])"

definition get_all_competitor_benefits :: "redis_link \<Rightarrow> redis \<Rightarrow> (string \<times> (string \<times> jval) list) list" where
  "get_all_competitor_benefits l s = docs_under l competitor_prefix s"

section \<open>Trading flags and settings\<close>

definition flag_key :: "string \<Rightarrow> string option" where
  "flag_key name =
     map_of [(''pause'', ''trading:pause''), (''stop'', ''trading:stop''), (''dryrun'', ''trading:dryrun'')]
       (to_lower name)"

definition set_trading_flag :: "redis_link \<Rightarrow> string \<Rightarrow> bool \<Rightarrow> string \<Rightarrow> int \<Rightarrow> redis \<Rightarrow> bool \<times> redis" where
  "set_trading_flag l name value reason ttl s =
     (case flag_key name of
        None \<Rightarrow> (False, s)
      | Some key \<Rightarrow>
          try_setex l key ttl
            (Doc [(''value'', JBool value), (''reason'', JStr reason), (''set_at'', JTime (clock l))]) s)"

definition flag_default :: "(string \<times> jval) list" where
  "flag_default = [(''value'', JBool False), (''reason'', JStr []), (''set_at'', JNull)]"

definition get_trading_flag :: "redis_link \<Rightarrow> string \<Rightarrow> redis \<Rightarrow> (string \<times> jval) list" where
  "get_trading_flag l name s =
     (case flag_key name of
        None \<Rightarrow> flag_default
      | Some key \<Rightarrow> (case try_doc l key s of None \<Rightarrow> flag_default | Some d \<Rightarrow> d))"

definition is_trading_paused :: "redis_link \<Rightarrow> redis \<Rightarrow> bool" where
  "is_trading_paused l s = jtruth (field ''value'' (JBool False) (get_trading_flag l ''pause'' s))"

definition is_trading_stopped :: "redis_link \<Rightarrow> redis \<Rightarrow> bool" where
  "is_trading_stopped l s = jtruth (field ''value'' (JBool False) (get_trading_flag l ''stop'' s))"

definition is_dryrun_enabled :: "redis_link \<Rightarrow> string option \<Rightarrow> redis \<Rightarrow> bool" where
  "is_dryrun_enabled l env s =
     (let flag = get_trading_flag l ''dryrun'' s in
      if jtruth (field ''set_at'' JNull flag) then jtruth (field ''value'' (JBool False) flag)
      else to_lower (case env of None \<Rightarrow> ''true'' | Some t \<Rightarrow> t) = ''true'')"

definition get_all_trading_flags :: "redis_link \<Rightarrow> redis \<Rightarrow> (string \<times> (string \<times> jval) list) list" where
  "get_all_trading_flags l s = map (\<lambda>n. (n, get_trading_flag l n s)) [''pause'', ''stop'', ''dryrun'']"

definition config_key :: "string \<Rightarrow> string option" where
  "config_key name =
     map_of [(''min_llm_score'', ''config:min_llm_score''), (''max_buy_per_day'', ''config:max_buy_per_day''),
             (''risk_level'', ''config:risk_level'')] (to_lower name)"

definition set_config_value :: "redis_link \<Rightarrow> string \<Rightarrow> jval \<Rightarrow> int \<Rightarrow> redis \<Rightarrow> bool \<times> redis" where
  "set_config_value l name v ttl s =
     (case config_key name of
        None \<Rightarrow> (False, s)
      | Some key \<Rightarrow> try_setex l key ttl (Doc [(''value'', v), (''set_at'', JTime (clock l))]) s)"

definition get_config_value :: "redis_link \<Rightarrow> string \<Rightarrow> jval \<Rightarrow> redis \<Rightarrow> jval" where
  "get_config_value l name dflt s =
     (case config_key name of
        None \<Rightarrow> dflt
      | Some key \<Rightarrow> (case try_doc l key s of None \<Rightarrow> dflt | Some d \<Rightarrow> field ''value'' dflt d))"

section \<open>Muting notifications\<close>

definition mute_key :: string where
  "mute_key = ''notification:mute''"

text \<open>The lifetime is the rest of the mute, 0 for a time in the past, which the server refuses.\<close>

definition set_notification_mute :: "redis_link \<Rightarrow> int \<Rightarrow> redis \<Rightarrow> bool \<times> redis" where
  "set_notification_mute l until s =
     (let ttl = max 0 (until - py_int (clock l)) in
      try_setex l mute_key ttl (Doc [(''until'', JNum (of_int until)), (''set_at'', JTime (clock l))]) s)"

definition is_notification_muted :: "redis_link \<Rightarrow> redis \<Rightarrow> bool" where
  "is_notification_muted l s =
     (case try_doc l mute_key s of
        None \<Rightarrow> False
      | Some d \<Rightarrow> (case jnum (field ''until'' (JNum 0) d) of Some u \<Rightarrow> of_int (py_int (clock l)) < u | None \<Rightarrow> False))"

definition clear_notification_mute :: "redis_link \<Rightarrow> redis \<Rightarrow> bool \<times> redis" where
  "clear_notification_mute l s =
     (if connected l \<and> \<not> link_fault l then (True, redis_del mute_key s) else (False, s))"

section \<open>Price alerts\<close>

definition alert_prefix :: string where
  "alert_prefix = ''price_alert:''"

definition set_price_alert ::
  "redis_link \<Rightarrow> string \<Rightarrow> rat \<Rightarrow> string \<Rightarrow> string \<Rightarrow> int \<Rightarrow> redis \<Rightarrow> bool \<times> redis" where
  "set_price_alert l code target name alert_type ttl s =
     try_setex l (alert_prefix @ code) ttl
       (Doc [(''stock_code'', JStr code), (''stock_name'', JStr name), (''target_price'', JNum target),
             (''alert_type'', JStr alert_type), (''created_at'', JTime (clock l)), (''triggered'', JBool False)]) s"

definition get_price_alerts :: "redis_link \<Rightarrow> redis \<Rightarrow> (string \<times> (string \<times> jval) list) list" where
  "get_price_alerts l s = docs_under l alert_prefix s"

definition delete_price_alert :: "redis_link \<Rightarrow> string \<Rightarrow> redis \<Rightarrow> bool \<times> redis" where
  "delete_price_alert l code s =
     (if connected l \<and> \<not> link_fault l \<and> redis_get (clock l) (alert_prefix @ code) s \<noteq> None
      then (True, redis_del (alert_prefix @ code) s) else (False, s))"

section \<open>Lemmas\<close>

lemma try_setex_True:
  "try_setex l k ttl v s = (True, s') \<longleftrightarrow>
     connected l \<and> \<not> link_fault l \<and> 0 < ttl \<and> s' = redis_setex (clock l) k (of_int ttl) v s"
  by (auto simp: try_setex_def)

lemma try_doc_setex:
  "try_doc l' k' (redis_setex t0 k ttl v s) =
     (if k = k' then
        (if connected l' \<and> \<not> link_fault l' \<and> clock l' < t0 + ttl then (case v of Doc d \<Rightarrow> Some d | Text _ \<Rightarrow> None) else None)
      else try_doc l' k' s)"
  by (auto simp: try_doc_def redis.get_setex split: stored.split)

lemma flag_names: "flag_key ''pause'' = Some ''trading:pause''" "flag_key ''stop'' = Some ''trading:stop''"
  "flag_key ''dryrun'' = Some ''trading:dryrun''"
  by code_simp+

definition sentiment_ok :: "string \<Rightarrow> redis \<Rightarrow> bool" where
  "sentiment_ok code s \<longleftrightarrow>
     (case map_of s (sentiment_key code) of
        None \<Rightarrow> True
      | Some (Doc d, e) \<Rightarrow> (case field ''score'' (JNum 50) d of JNum r \<Rightarrow> 0 \<le> r \<and> r \<le> 100 | _ \<Rightarrow> False)
      | Some (Text t, e) \<Rightarrow> False)"

lemma sentiment_ok_get:
  assumes "sentiment_ok code s" "redis_get t (sentiment_key code) s = Some v"
  shows "\<exists>d r. v = Doc d \<and> field ''score'' (JNum 50) d = JNum r \<and> 0 \<le> r \<and> r \<le> 100"
proof -
  from assms(2) obtain e where m: "map_of s (sentiment_key code) = Some (v, e)"
    by (auto simp: redis_get_def split: option.splits if_splits)
  with assms(1) obtain d where v: "v = Doc d" by (cases v) (auto simp: sentiment_ok_def)
  with assms(1) m show ?thesis
    by (cases "field ''score'' (JNum 50) d") (auto simp: sentiment_ok_def)
qed

lemma sentiment_ok_setex:
  assumes "0 \<le> x" "x \<le> 100"
  shows "sentiment_ok code (redis_setex t (sentiment_key code) ttl (Doc ((''score'', JNum (py_round_digits 1 x)) # d)) s)"
  using py_round_digits_bounds [of 0 x 100 1] assms
  by (simp add: sentiment_ok_def redis_setex_def update_conv' field_def)

text \<open>What a successful update has written.\<close>

lemma set_sentiment_cases:
  assumes "sentiment_ok code s" "set_sentiment_score txt l code score reason url name s = Inr (ok, s')" "ok"
  obtains x d where "s' = redis_setex (clock l) (sentiment_key code) 604800 (Doc ((''score'', JNum (py_round_digits 1 x)) # d)) s"
    "connected l" "\<not> link_fault l"
    "case redis_get (clock l) (sentiment_key code) s of None \<Rightarrow> x = score
     | Some v \<Rightarrow> (\<exists>old r. v = Doc old \<and> field ''score'' (JNum 50) old = JNum r \<and> 0 \<le> r \<and> r \<le> 100 \<and> x = (r + score) / 2)"
proof (cases "redis_get (clock l) (sentiment_key code) s")
  case None
  with assms(2,3) that [of score] show ?thesis
    by (auto simp: set_sentiment_score_def old_sentiment_def Let_def try_setex_True split: if_splits)
next
  case (Some v)
  from sentiment_ok_get [OF assms(1) Some] obtain old r where
    v: "v = Doc old" "field ''score'' (JNum 50) old = JNum r" "0 \<le> r" "r \<le> 100" by blast
  from assms(2,3) have link: "connected l" "\<not> link_fault l"
    by (auto simp: set_sentiment_score_def old_sentiment_def Let_def try_setex_def split: if_splits option.splits jval.splits)
  with assms(2,3) Some v that [of "(r + score) / 2"] show ?thesis
    by (auto simp: set_sentiment_score_def old_sentiment_def Let_def try_setex_True add_divide_distrib)
qed

lemma mute_lasts_until:
  assumes "set_notification_mute l until s = (True, s')" "0 \<le> clock l" "0 \<le> clock l'"
  shows "is_notification_muted l' s' \<longleftrightarrow>
    connected l' \<and> \<not> link_fault l' \<and> py_int (clock l') < until"
proof -
  from assms(1) have s': "s' = redis_setex (clock l) mute_key (of_int (until - py_int (clock l)))
      (Doc [(''until'', JNum (of_int until)), (''set_at'', JTime (clock l))]) s"
    by (auto simp: set_notification_mute_def try_setex_True Let_def max_def split: if_splits)
  have "clock l' < clock l + of_int (until - py_int (clock l))" if "py_int (clock l') < until"
  proof -
    have "(of_int (py_int (clock l') + 1) :: rat) \<le> of_int until"
      using that by (simp only: of_int_le_iff)
    then have "clock l' < of_int until" using py_int_gt [of "clock l'"] by simp
    also have "\<dots> \<le> clock l + of_int (until - py_int (clock l))" using py_int_le [OF assms(2)] by simp
    finally show ?thesis .
  qed
  then show ?thesis
    by (auto simp: is_notification_muted_def s' try_doc_setex field_def)
qed

section \<open>Properties\<close>

text \<open>
  The emergency stop holds exactly while its key lives and Redis answers: once the
  lifetime has passed, and whenever Redis is unreachable, trading is not stopped. Setting it
  leaves the pause flag alone.
\<close>

theorem stop_holds_exactly:
  assumes "set_trading_flag l ''stop'' True reason ttl s = (True, s')"
  shows "(is_trading_stopped l' s' \<longleftrightarrow> connected l' \<and> \<not> link_fault l' \<and> clock l' < clock l + of_int ttl) \<and>
    is_trading_paused l' s' = is_trading_paused l' s"
  using assms
  by (auto simp: set_trading_flag_def is_trading_stopped_def is_trading_paused_def get_trading_flag_def
      flag_names try_setex_True try_doc_setex flag_default_def field_def)

definition demo_link :: redis_link where
  "demo_link = \<lparr>connected = True, link_fault = False, clock = 0\<rparr>"

theorem stop_holds_exactly_witness:
  "is_trading_stopped (demo_link\<lparr>clock := 86399\<rparr>) (snd (set_trading_flag demo_link ''stop'' True [] 86400 [])) \<and>
   \<not> is_trading_stopped (demo_link\<lparr>clock := 86400\<rparr>) (snd (set_trading_flag demo_link ''stop'' True [] 86400 []))"
proof -
  obtain s' where s: "set_trading_flag demo_link ''stop'' True [] 86400 [] = (True, s')"
    by (simp add: set_trading_flag_def flag_names try_setex_def demo_link_def)
  from stop_holds_exactly [OF s, of "demo_link\<lparr>clock := 86399\<rparr>"] stop_holds_exactly [OF s, of "demo_link\<lparr>clock := 86400\<rparr>"] s
  show ?thesis by (simp add: demo_link_def)
qed

text \<open>
  Sentiment scores stay on their scale: an update with a score from 0 to 100 never
  raises, every score read afterwards is from 0 to 100, and a score that replaces a living
  one is their mean, rounded to one decimal.
\<close>

theorem sentiment_stays_on_scale:
  assumes "sentiment_ok code s" "0 \<le> score" "score \<le> 100"
  shows "\<exists>ok s'. set_sentiment_score txt l code score reason url name s = Inr (ok, s') \<and> sentiment_ok code s' \<and>
    (\<exists>r. field ''score'' (JNum 50) (get_sentiment_score l' code s') = JNum r \<and> 0 \<le> r \<and> r \<le> 100) \<and>
    (case redis_get (clock l) (sentiment_key code) s of
       Some (Doc d) \<Rightarrow>
         (if ok then \<exists>old new. field ''score'' (JNum 50) d = JNum old \<and>
            field ''score'' (JNum 50) (get_sentiment_score l code s') = JNum new \<and> \<bar>new - (old + score) / 2\<bar> \<le> 1 / 20
          else s' = s)
     | _ \<Rightarrow> True)"
proof -
  have "\<exists>ok s'. set_sentiment_score txt l code score reason url name s = Inr (ok, s')"
    using sentiment_ok_get [OF assms(1)]
    by (fastforce simp: set_sentiment_score_def old_sentiment_def Let_def try_setex_def split: option.splits)
  then obtain ok s' where run: "set_sentiment_score txt l code score reason url name s = Inr (ok, s')" by blast
  have unchanged: "s' = s" if "\<not> ok"
    using run that by (auto simp: set_sentiment_score_def Let_def try_setex_def split: if_splits option.splits jval.splits)
  have range: "\<exists>r. field ''score'' (JNum 50) (get_sentiment_score l' code s'') = JNum r \<and> 0 \<le> r \<and> r \<le> 100"
    if "sentiment_ok code s''" for s''
    using sentiment_ok_get [OF that]
    by (fastforce simp: get_sentiment_score_def try_doc_def sentiment_default_def field_def split: option.splits stored.splits)
  show ?thesis
  proof (cases ok)
    case False
    with unchanged run range [of s] assms(1) show ?thesis
      by (intro exI [of _ ok] exI [of _ s']) (auto split: option.splits stored.splits)
  next
    case True
    from set_sentiment_cases [OF assms(1) run True] obtain x d where
      s': "s' = redis_setex (clock l) (sentiment_key code) 604800 (Doc ((''score'', JNum (py_round_digits 1 x)) # d)) s"
      and link: "connected l" "\<not> link_fault l"
      and x: "case redis_get (clock l) (sentiment_key code) s of None \<Rightarrow> x = score
        | Some v \<Rightarrow> (\<exists>old r. v = Doc old \<and> field ''score'' (JNum 50) old = JNum r \<and> 0 \<le> r \<and> r \<le> 100 \<and> x = (r + score) / 2)"
      by blast
    from x assms(2,3) have "0 \<le> x" "x \<le> 100" by (auto split: option.splits)
    then have ok': "sentiment_ok code s'" unfolding s' by (rule sentiment_ok_setex)
    have new: "field ''score'' (JNum 50) (get_sentiment_score l code s') = JNum (py_round_digits 1 x)"
      by (simp add: s' get_sentiment_score_def try_doc_setex link field_def)
    show ?thesis
    proof (cases "redis_get (clock l) (sentiment_key code) s")
      case None
      with run True ok' range [OF ok'] show ?thesis by (intro exI [of _ ok] exI [of _ s']) simp
    next
      case (Some v)
      with x obtain old r where v: "v = Doc old" "field ''score'' (JNum 50) old = JNum r" "x = (r + score) / 2"
        by auto
      have "\<bar>py_round_digits 1 x - (r + score) / 2\<bar> \<le> 1 / 20"
        using py_round_digits_near [of 1 x] unfolding v(3) by simp
      with Some v(1,2) new run True ok' range [OF ok'] show ?thesis
        by (intro exI [of _ ok] exI [of _ s']) simp
    qed
  qed
qed

theorem sentiment_stays_on_scale_witness:
  "\<exists>ok s'. set_sentiment_score (\<lambda>_ r _. r) demo_link ''005930'' 75 [] JNull JNull [] = Inr (ok, s') \<and>
     (\<exists>r. field ''score'' (JNum 50) (get_sentiment_score demo_link ''005930'' s') = JNum r \<and> 0 \<le> r \<and> r \<le> 100)"
  using sentiment_stays_on_scale [of "''005930''" "[]" 75 "\<lambda>_ r _. r" demo_link "[]" JNull JNull demo_link]
  by (auto simp: sentiment_ok_def)

text \<open>
  A competitor benefit is never lowered while it lives: after a successful update the
  score read is the larger one of the old and the new score.
\<close>

theorem competitor_keeps_best:
  assumes "set_competitor_benefit_score l code score reason affected event ttl s = (True, s')" "0 < ttl"
  shows "field ''score'' (JNum 0) (get_competitor_benefit_score l code s') =
    (case try_doc l (competitor_prefix @ code) s of
       None \<Rightarrow> JNum score
     | Some d \<Rightarrow> (case jnum (field ''score'' (JNum 0) d) of
          Some old \<Rightarrow> if score < old then field ''score'' (JNum 0) d else JNum score
        | None \<Rightarrow> JNull))"
proof -
  let ?key = "competitor_prefix @ code"
  from assms(1) have link: "connected l" "\<not> link_fault l"
    by (simp_all add: set_competitor_benefit_score_def Let_def split: if_splits)
  have written: "field ''score'' (JNum 0) (get_competitor_benefit_score l code s') = JNum score"
    if "try_setex l ?key ttl (Doc ((''score'', JNum score) # d)) s = (True, s')" for d
    using that by (auto simp: try_setex_True get_competitor_benefit_score_def try_doc_setex field_def)
  show ?thesis
  proof (cases "redis_get (clock l) ?key s")
    case None
    with assms(1) link written show ?thesis
      by (simp add: set_competitor_benefit_score_def Let_def try_doc_def)
  next
    case (Some v)
    show ?thesis
    proof (cases v)
      case (Text t)
      with Some assms(1) link written show ?thesis
        by (simp add: set_competitor_benefit_score_def Let_def try_doc_def split: if_splits)
    next
      case (Doc d)
      with Some link have doc: "try_doc l ?key s = Some d" by (simp add: try_doc_def)
      from Doc Some assms(1) link obtain old where old: "jnum (field ''score'' (JNum 0) d) = Some old"
        by (cases "jnum (field ''score'' (JNum 0) d)") (simp_all add: set_competitor_benefit_score_def Let_def)
      show ?thesis
      proof (cases "score < old")
        case True
        with Doc Some assms(1) link old doc show ?thesis
          by (simp add: set_competitor_benefit_score_def Let_def get_competitor_benefit_score_def)
      next
        case False
        with Doc Some assms(1) link old doc written show ?thesis
          by (simp add: set_competitor_benefit_score_def Let_def max_def)
      qed
    qed
  qed
qed

theorem competitor_keeps_best_witness:
  "\<exists>s1 s2. set_competitor_benefit_score demo_link ''005930'' 10 [] [] [] 100 [] = (True, s1) \<and>
     set_competitor_benefit_score demo_link ''005930'' 7 [] [] [] 100 s1 = (True, s2) \<and>
     field ''score'' (JNum 0) (get_competitor_benefit_score demo_link ''005930'' s2) = JNum 10"
proof -
  obtain s1 where s1: "set_competitor_benefit_score demo_link ''005930'' 10 [] [] [] 100 [] = (True, s1)"
    by (simp add: set_competitor_benefit_score_def try_setex_def demo_link_def redis_get_def Let_def)
  then have e: "try_doc demo_link (competitor_prefix @ ''005930'') s1 =
      Some [(''score'', JNum 10), (''reason'', JStr []), (''affected_stock'', JStr []),
            (''event_type'', JStr []), (''updated_at'', JTime 0)]"
    by (auto simp: set_competitor_benefit_score_def try_setex_def demo_link_def redis_get_def Let_def try_doc_setex)
  then obtain s2 where s2: "set_competitor_benefit_score demo_link ''005930'' 7 [] [] [] 100 s1 = (True, s2)"
    by (auto simp: set_competitor_benefit_score_def demo_link_def try_doc_def field_def Let_def
        split: option.splits stored.splits)
  from competitor_keeps_best [OF s2] s1 s2 e show ?thesis by (simp add: field_def)
qed

end
