(* ===== verification/Trade_Store.thy ===== *)
theory Trade_Store
  imports Config Interfaces
begin

text \<open>
  The portfolio and the trade log: \<open>shared/database/trading.py\<close> (recording of trades, sales
  from the portfolio, queries of the log) and \<open>shared/db/repository.py\<close> (the queries the
  services use), on the tables of \<open>shared/db/models.py\<close>.

  A table is the list of its rows in the order of their ids. The clock is counted in hours,
  in UTC; \<open>db_offset\<close> is the time zone of the database server, whose \<open>NOW()\<close> the raw SQL
  statements use while the ORM writes \<open>datetime.utcnow\<close>. Whether the database fails during a
  transaction is an argument; a failed transaction is rolled back. Foreign keys are not
  enforced by the model, and the amounts of a row are never NULL.
\<close>

section \<open>Tables\<close>

abbreviation HOLDING :: string where "HOLDING \<equiv> ''HOLDING''"
abbreviation SOLD :: string where "SOLD \<equiv> ''SOLD''"

record holding =
  h_id :: int
  h_code :: string
  h_name :: string
  h_qty :: int
  h_avg :: rat
  h_total :: rat
  h_high :: "rat option"
  h_status :: string
  h_state :: string
  h_stop :: "rat option"
  h_created :: rat

record trade_row =
  log_id :: int
  log_portfolio :: "int option"
  log_code :: string
  log_type :: string
  log_qty :: int
  log_price :: rat
  log_reason :: string
  log_time :: rat
  log_signal :: "string option"
  log_metrics :: string
  log_context :: string

record trade_db =
  holdings :: "holding list"
  trades :: "trade_row list"
  next_holding :: int
  next_log :: int
  utc :: rat
  db_offset :: rat

definition db_now :: "trade_db \<Rightarrow> rat" where
  "db_now db = utc db + db_offset db"

text \<open>What a caller passes to \<open>execute_trade_and_log\<close>; the two dictionaries are JSON texts.\<close>

record stock_info =
  si_id :: "int option"
  si_code :: string
  si_name :: string

record trade_request =
  tr_type :: string
  tr_stock :: stock_info
  tr_qty :: int
  tr_price :: rat
  tr_reason :: "string option"
  tr_stop :: "rat option"
  tr_signal :: "string option"
  tr_metrics :: "string option"
  tr_context :: "string option"

definition starts_with :: "string \<Rightarrow> string \<Rightarrow> bool" where
  "starts_with p s \<longleftrightarrow> take (length p) s = p"

definition log_reason_text :: "string option \<Rightarrow> string" where
  "log_reason_text r =
     (let llm_reason = (case r of None \<Rightarrow> ''N/A'' | Some t \<Rightarrow> t)
      in if 1950 < length llm_reason then take 1947 llm_reason @ ''...'' else llm_reason)"

definition json_or_empty :: "string option \<Rightarrow> string" where
  "json_or_empty j = (case j of None \<Rightarrow> ''{}'' | Some t \<Rightarrow> t)"

text \<open>The row a query for the holding of a code finds: the first one that is still held.\<close>

definition active :: "string \<Rightarrow> holding \<Rightarrow> bool" where
  "active code h \<longleftrightarrow> h_code h = code \<and> h_status h = HOLDING"

definition holding_of :: "string \<Rightarrow> trade_db \<Rightarrow> holding option" where
  "holding_of code db = find (active code) (holdings db)"

definition replace_row :: "int \<Rightarrow> (holding \<Rightarrow> holding) \<Rightarrow> trade_db \<Rightarrow> trade_db" where
  "replace_row i f db = db\<lparr>holdings := map (\<lambda>h. if h_id h = i then f h else h) (holdings db)\<rparr>"

definition append_row :: "(int \<Rightarrow> holding) \<Rightarrow> trade_db \<Rightarrow> trade_db" where
  "append_row mk db =
     db\<lparr>holdings := holdings db @ [mk (next_holding db)], next_holding := next_holding db + 1\<rparr>"

definition append_log :: "rat \<Rightarrow> trade_request \<Rightarrow> int option \<Rightarrow> trade_db \<Rightarrow> trade_db" where
  "append_log tm tr pid db =
     db\<lparr>trades := trades db @
          [\<lparr>log_id = next_log db, log_portfolio = pid, log_code = si_code (tr_stock tr),
            log_type = tr_type tr, log_qty = tr_qty tr, log_price = tr_price tr,
            log_reason = log_reason_text (tr_reason tr), log_time = tm,
            log_signal = tr_signal tr, log_metrics = json_or_empty (tr_metrics tr),
            log_context = json_or_empty (tr_context tr)\<rparr>],
        next_log := next_log db + 1\<rparr>"

section \<open>Recording a trade through the ORM\<close>

definition orm_merge :: "int \<Rightarrow> rat \<Rightarrow> rat option \<Rightarrow> holding \<Rightarrow> holding" where
  "orm_merge quantity price stop existing =
     (let new_quantity = h_qty existing + quantity;
          new_total = h_total existing + of_int quantity * price;
          new_avg = (if 0 < new_quantity then new_total / of_int new_quantity else price);
          new_high = max (case h_high existing of None \<Rightarrow> price
                          | Some v \<Rightarrow> if v = 0 then price else v) price;
          initial_stop = (case stop of None \<Rightarrow> price * (93 / 100) | Some s \<Rightarrow> s);
          new_stop = min (case h_stop existing of None \<Rightarrow> initial_stop
                          | Some s \<Rightarrow> if 0 < s then s else initial_stop) initial_stop
      in existing\<lparr>h_qty := new_quantity, h_avg := new_avg, h_total := new_total,
                  h_high := Some new_high, h_stop := Some new_stop,
                  h_state := (if h_state existing = ''SECURED'' \<or> h_state existing = ''TRAILING''
                              then h_state existing else ''INITIAL'')\<rparr>)"

definition orm_new_row :: "trade_request \<Rightarrow> rat \<Rightarrow> int \<Rightarrow> holding" where
  "orm_new_row tr tm i =
     \<lparr>h_id = i, h_code = si_code (tr_stock tr), h_name = si_name (tr_stock tr),
      h_qty = tr_qty tr, h_avg = tr_price tr, h_total = of_int (tr_qty tr) * tr_price tr,
      h_high = Some (tr_price tr), h_status = HOLDING, h_state = ''INITIAL'',
      h_stop = Some (case tr_stop tr of None \<Rightarrow> tr_price tr * (93 / 100) | Some s \<Rightarrow> s),
      h_created = tm\<rparr>"

definition mark_sold :: "holding \<Rightarrow> holding" where
  "mark_sold h = h\<lparr>h_status := SOLD, h_state := SOLD\<rparr>"

text \<open>\<open>_execute_trade_and_log_sqlalchemy\<close>: the answer and the tables before the commit.\<close>

definition orm_trade :: "trade_request \<Rightarrow> trade_db \<Rightarrow> (bool \<times> trade_db) res" where
  "orm_trade tr db =
     (if tr_price tr \<le> 0 then Inr (False, db)
      else if starts_with ''BUY'' (tr_type tr) then
        (case holding_of (si_code (tr_stock tr)) db of
           Some h \<Rightarrow>
             Inr (True, append_log (utc db) tr (Some (h_id h))
               (replace_row (h_id h) (orm_merge (tr_qty tr) (tr_price tr) (tr_stop tr)) db))
         | None \<Rightarrow>
             Inr (True, append_log (utc db) tr (Some (next_holding db))
               (append_row (orm_new_row tr (db_now db)) db)))
      else if tr_type tr = ''SELL'' then
        (case si_id (tr_stock tr) of
           None \<Rightarrow> Inl KeyError
         | Some i \<Rightarrow>
             (case find (\<lambda>h. h_id h = i) (holdings db) of
                None \<Rightarrow> Inr (True, append_log (utc db) tr None db)
              | Some h \<Rightarrow> Inr (True, append_log (utc db) tr (Some (h_id h))
                            (replace_row (h_id h) mark_sold db))))
      else Inr (True, append_log (utc db) tr None db))"

section \<open>Recording a trade through raw SQL\<close>

definition legacy_merge :: "int \<Rightarrow> rat \<Rightarrow> rat option \<Rightarrow> holding \<Rightarrow> holding \<Rightarrow> holding" where
  "legacy_merge quantity price stop existing row =
     (let new_quantity = h_qty existing + quantity;
          new_total = h_total existing + of_int quantity * price;
          new_avg = (if 0 < new_quantity then new_total / of_int new_quantity else price);
          new_high = max (case h_high existing of None \<Rightarrow> price
                          | Some v \<Rightarrow> if v = 0 then price else v) price;
          initial_stop = (case stop of None \<Rightarrow> price * (93 / 100) | Some s \<Rightarrow> s);
          new_stop = min (case h_stop existing of None \<Rightarrow> initial_stop
                          | Some s \<Rightarrow> if 0 < s then s else initial_stop) initial_stop;
          new_state = (if h_state existing \<in> {''SECURED'', ''TRAILING''} then h_state existing
                       else ''INITIAL'')
      in row\<lparr>h_qty := new_quantity, h_avg := new_avg, h_total := new_total,
             h_high := Some new_high, h_stop := Some new_stop, h_state := new_state\<rparr>)"

text \<open>\<open>ORDER BY id ASC LIMIT 1\<close>.\<close>

definition legacy_find :: "string \<Rightarrow> trade_db \<Rightarrow> holding option" where
  "legacy_find code db =
     (case sort_key h_id (filter (active code) (holdings db)) of [] \<Rightarrow> None | h # _ \<Rightarrow> Some h)"

text \<open>The \<open>try\<close> block of \<open>_execute_trade_and_log_legacy\<close> on a connection that works.\<close>

definition legacy_trade :: "trade_request \<Rightarrow> trade_db \<Rightarrow> (bool \<times> trade_db) res" where
  "legacy_trade tr db =
     (if tr_price tr \<le> 0 then Inr (False, db)
      else if starts_with ''BUY'' (tr_type tr) then
        (case legacy_find (si_code (tr_stock tr)) db of
           Some h \<Rightarrow>
             Inr (True, append_log (db_now db) tr (Some (h_id h))
               (replace_row (h_id h) (legacy_merge (tr_qty tr) (tr_price tr) (tr_stop tr) h) db))
         | None \<Rightarrow>
             Inr (True, append_log (db_now db) tr (Some (next_holding db))
               (append_row (orm_new_row tr (db_now db)) db)))
      else if tr_type tr = ''SELL'' then
        (case si_id (tr_stock tr) of
           None \<Rightarrow> Inl KeyError
         | Some i \<Rightarrow> Inr (True, append_log (db_now db) tr (Some i) (replace_row i mark_sold db)))
      else Inr (True, append_log (db_now db) tr None db))"

text \<open>
  The whole legacy function. The services hand it their ORM session, which has no
  \<open>cursor()\<close>: the AttributeError is caught, rolled back and answered with False.
\<close>

datatype connection = RawConnection | OrmSession

definition execute_legacy ::
  "connection \<Rightarrow> py_exc option \<Rightarrow> trade_request \<Rightarrow> trade_db \<Rightarrow> bool \<times> trade_db" where
  "execute_legacy conn fault tr db =
     (if tr_price tr \<le> 0 then (False, db)
      else if conn = OrmSession \<or> fault \<noteq> None then (False, db)
      else (case legacy_trade tr db of Inl _ \<Rightarrow> (False, db) | Inr r \<Rightarrow> r))"

section \<open>The entry point\<close>

record trade_env =
  orm_ready :: bool
  orm_fault :: "py_exc option"
  raw_fault :: "py_exc option"

text \<open>\<open>session_scope\<close>: commit after the body, roll back when the body or the commit raises.\<close>

definition in_session :: "py_exc option \<Rightarrow> ('s \<Rightarrow> ('a \<times> 's) res) \<Rightarrow> 's \<Rightarrow> 'a res \<times> 's" where
  "in_session fault body s =
     (case body s of
        Inl e \<Rightarrow> (Inl e, s)
      | Inr (a, s') \<Rightarrow> (case fault of Some e \<Rightarrow> (Inl e, s) | None \<Rightarrow> (Inr a, s')))"

definition execute_trade_and_log ::
  "trade_env \<Rightarrow> connection \<Rightarrow> trade_request \<Rightarrow> trade_db \<Rightarrow> bool \<times> trade_db" where
  "execute_trade_and_log env conn tr db =
     (if orm_ready env then
        (case in_session (orm_fault env) (orm_trade tr) db of
           (Inr answer, db') \<Rightarrow> (answer, db')
         | (Inl _, db') \<Rightarrow> execute_legacy conn (raw_fault env) tr db')
      else execute_legacy conn (raw_fault env) tr db)"

section \<open>Selling from the portfolio\<close>

definition sell_part :: "int \<Rightarrow> holding \<Rightarrow> holding" where
  "sell_part quantity h =
     (if h_qty h \<le> quantity then h\<lparr>h_status := SOLD, h_state := SOLD, h_qty := 0\<rparr>
      else h\<lparr>h_qty := h_qty h - quantity, h_total := of_int (h_qty h - quantity) * h_avg h\<rparr>)"

definition remove_from_portfolio ::
  "py_exc option \<Rightarrow> string \<Rightarrow> int \<Rightarrow> trade_db \<Rightarrow> bool \<times> trade_db" where
  "remove_from_portfolio fault code quantity db =
     (case fault of
        Some _ \<Rightarrow> (False, db)
      | None \<Rightarrow>
          (case holding_of code db of
             None \<Rightarrow> (False, db)
           | Some h \<Rightarrow> (True, replace_row (h_id h) (sell_part quantity) db)))"

section \<open>Queries of the log\<close>

definition orm_traded_since :: "string \<Rightarrow> rat \<Rightarrow> trade_db \<Rightarrow> bool" where
  "orm_traded_since code hours db \<longleftrightarrow>
     list_ex (\<lambda>t. log_code t = code \<and> utc db - hours \<le> log_time t) (trades db)"

text \<open>\<open>was_traded_recently\<close> and the batch query, of the repository and of \<open>trading.py\<close>.\<close>

definition was_traded_recently :: "string \<Rightarrow> rat \<Rightarrow> trade_db \<Rightarrow> bool" where
  "was_traded_recently code hours db = orm_traded_since code hours db"

definition sql_traded_recently :: "py_exc option \<Rightarrow> string \<Rightarrow> rat \<Rightarrow> trade_db \<Rightarrow> bool" where
  "sql_traded_recently fault code hours db \<longleftrightarrow>
     fault = None \<and>
     list_ex (\<lambda>t. log_code t = code \<and> db_now db - hours \<le> log_time t) (trades db)"

definition traded_batch :: "string list \<Rightarrow> rat \<Rightarrow> trade_db \<Rightarrow> string set" where
  "traded_batch codes hours db =
     (if codes = [] then {}
      else log_code ` {t \<in> set (trades db). log_code t \<in> set codes \<and> utc db - hours \<le> log_time t})"

definition sql_traded_batch :: "py_exc option \<Rightarrow> string list \<Rightarrow> rat \<Rightarrow> trade_db \<Rightarrow> string set" where
  "sql_traded_batch fault codes hours db =
     (if codes = [] \<or> fault \<noteq> None then {}
      else log_code ` {t \<in> set (trades db). log_code t \<in> set codes \<and> db_now db - hours \<le> log_time t})"

definition check_duplicate_order :: "py_exc option \<Rightarrow> string \<Rightarrow> string \<Rightarrow> rat \<Rightarrow> trade_db \<Rightarrow> bool" where
  "check_duplicate_order fault code type minutes db \<longleftrightarrow>
     fault = None \<and>
     list_ex (\<lambda>t. log_code t = code \<and> log_type t = type \<and> db_now db - minutes / 60 \<le> log_time t)
       (trades db)"

definition get_trade_log :: "py_exc option \<Rightarrow> nat \<Rightarrow> trade_db \<Rightarrow> trade_row list option" where
  "get_trade_log fault limit db =
     (if fault \<noteq> None then None
      else case take limit (sort_desc log_time (trades db)) of [] \<Rightarrow> None | ts \<Rightarrow> Some ts)"

definition get_recent_trades :: "nat \<Rightarrow> nat \<Rightarrow> trade_db \<Rightarrow> trade_row list" where
  "get_recent_trades limit offset db = take limit (drop offset (sort_desc log_time (trades db)))"

text \<open>The day of the UTC clock.\<close>

definition day_start :: "trade_db \<Rightarrow> rat" where
  "day_start db = of_int \<lfloor>utc db / 24\<rfloor> * 24"

definition today_buys :: "trade_db \<Rightarrow> trade_row list" where
  "today_buys db =
     filter (\<lambda>t. log_type t = ''BUY'' \<and> day_start db \<le> log_time t \<and> log_time t < day_start db + 24)
       (trades db)"

definition get_today_total_buy_amount :: "trade_db \<Rightarrow> rat" where
  "get_today_total_buy_amount db =
     sum_list (map (\<lambda>t. log_price t * of_int (log_qty t)) (today_buys db))"

definition get_today_buy_count :: "trade_db \<Rightarrow> int" where
  "get_today_buy_count db = int (length (today_buys db))"

section \<open>Queries of the portfolio\<close>

record position =
  p_id :: int
  p_code :: string
  p_name :: string
  p_qty :: int
  p_avg :: rat
  p_high :: rat
  p_state :: string
  p_stop :: rat
  p_created :: rat

definition or_zero :: "rat option \<Rightarrow> rat" where
  "or_zero x = (case x of None \<Rightarrow> 0 | Some v \<Rightarrow> v)"

definition position_of :: "holding \<Rightarrow> position" where
  "position_of h =
     \<lparr>p_id = h_id h, p_code = h_code h, p_name = h_name h, p_qty = h_qty h, p_avg = h_avg h,
      p_high = or_zero (h_high h), p_state = h_state h, p_stop = or_zero (h_stop h),
      p_created = h_created h\<rparr>"

definition get_active_portfolio :: "trade_db \<Rightarrow> position list" where
  "get_active_portfolio db =
     map position_of (sort_key h_id (filter (\<lambda>h. h_status h = HOLDING) (holdings db)))"

text \<open>The answer of the KIS gateway for one code: its three price fields, 0 when missing.\<close>

record snapshot_reply =
  reply_status :: int
  reply_success :: bool
  stck_prpr :: rat
  reply_price :: rat
  reply_current :: rat

definition reply_value :: "snapshot_reply \<Rightarrow> rat option" where
  "reply_value r =
     (if reply_status r = 200 \<and> reply_success r then
        (let price = (if stck_prpr r \<noteq> 0 then stck_prpr r
                      else if reply_price r \<noteq> 0 then reply_price r else reply_current r)
         in if price = 0 then None else Some price)
      else None)"

definition fetch_current_prices :: "(string \<Rightarrow> snapshot_reply option) \<Rightarrow> string list \<Rightarrow> (string \<times> rat) list" where
  "fetch_current_prices gateway codes =
     fold (\<lambda>code prices. case Option.bind (gateway code) reply_value of
             None \<Rightarrow> prices | Some p \<Rightarrow> AList.update code p prices) codes []"

definition prices_for ::
  "(string \<Rightarrow> snapshot_reply option) \<Rightarrow> bool \<Rightarrow> position list \<Rightarrow> (string \<times> rat) list" where
  "prices_for gateway use_realtime ps =
     (if use_realtime then fetch_current_prices gateway (map p_code ps) else [])"

definition current_value :: "(string \<times> rat) list \<Rightarrow> position \<Rightarrow> rat" where
  "current_value prices p = dict_get (p_code p) (p_avg p) prices * of_int (p_qty p)"

definition invested_value :: "position \<Rightarrow> rat" where
  "invested_value p = p_avg p * of_int (p_qty p)"

record portfolio_summary =
  total_value :: rat
  total_invested :: rat
  total_profit :: rat
  profit_rate :: rat
  cash_balance :: rat
  positions_count :: int

definition cash_of_config :: "string option \<Rightarrow> rat" where
  "cash_of_config row =
     (case row of
        None \<Rightarrow> 0
      | Some t \<Rightarrow> if t = [] then 0 else (case parse_float t of None \<Rightarrow> 0 | Some v \<Rightarrow> v))"

definition get_portfolio_summary ::
  "(string \<Rightarrow> snapshot_reply option) \<Rightarrow> string option \<Rightarrow> bool \<Rightarrow> trade_db \<Rightarrow> portfolio_summary" where
  "get_portfolio_summary gateway cash_row use_realtime db =
     (let portfolio = get_active_portfolio db in
      if portfolio = [] then
        \<lparr>total_value = 0, total_invested = 0, total_profit = 0, profit_rate = 0,
         cash_balance = 0, positions_count = 0\<rparr>
      else
        let prices = prices_for gateway use_realtime portfolio;
            invested = sum_list (map invested_value portfolio);
            val = sum_list (map (current_value prices) portfolio);
            profit = val - invested;
            cash = cash_of_config cash_row
        in \<lparr>total_value = val + cash, total_invested = invested, total_profit = profit,
            profit_rate = (if 0 < invested then profit / invested * 100 else 0),
            cash_balance = cash, positions_count = int (length portfolio)\<rparr>)"

record position_report =
  rep_code :: string
  rep_name :: string
  rep_qty :: int
  rep_avg :: rat
  rep_current :: rat
  rep_profit :: rat
  rep_rate :: rat
  rep_weight :: rat

definition get_portfolio_with_current_prices ::
  "(string \<Rightarrow> snapshot_reply option) \<Rightarrow> bool \<Rightarrow> trade_db \<Rightarrow> position_report list" where
  "get_portfolio_with_current_prices gateway use_realtime db =
     (let portfolio = get_active_portfolio db;
          prices = prices_for gateway use_realtime portfolio;
          ta = sum_list (map (current_value prices) portfolio)
      in map (\<lambda>p.
           let invested = invested_value p; val = current_value prices p; profit = val - invested
           in \<lparr>rep_code = p_code p, rep_name = p_name p, rep_qty = p_qty p, rep_avg = p_avg p,
               rep_current = dict_get (p_code p) (p_avg p) prices, rep_profit = profit,
               rep_rate = (if 0 < invested then profit / invested * 100 else 0),
               rep_weight = (if 0 < ta then val / ta * 100 else 0)\<rparr>) portfolio)"

section \<open>Lemmas\<close>

text \<open>
  The invariant of the holdings: ids are increasing and below the next one, a code has at
  most one row that is held, and the average price of a held row times its quantity is
  its purchase total.
\<close>

definition consistent_row :: "holding \<Rightarrow> bool" where
  "consistent_row h \<longleftrightarrow> 0 < h_qty h \<and> h_avg h * of_int (h_qty h) = h_total h"

definition db_ok :: "trade_db \<Rightarrow> bool" where
  "db_ok db \<longleftrightarrow>
     sorted_wrt (<) (map h_id (holdings db)) \<and>
     list_all (\<lambda>h. h_id h < next_holding db) (holdings db) \<and>
     (\<forall>h \<in> set (holdings db). \<forall>h' \<in> set (holdings db).
        h_status h = HOLDING \<longrightarrow> h_status h' = HOLDING \<longrightarrow> h_code h = h_code h' \<longrightarrow> h_id h = h_id h') \<and>
     list_all (\<lambda>h. h_status h = HOLDING \<longrightarrow> consistent_row h) (holdings db)"

definition positions :: "trade_db \<Rightarrow> string \<rightharpoonup> int \<times> rat" where
  "positions db code = map_option (\<lambda>h. (h_qty h, h_total h)) (holding_of code db)"

lemma db_ok_ids_inj:
  assumes "db_ok db" "h \<in> set (holdings db)" "h' \<in> set (holdings db)" "h_id h = h_id h'"
  shows "h = h'"
proof -
  have "distinct (map h_id (holdings db))"
    using assms(1) by (auto simp: db_ok_def strict_sorted_iff)
  then show ?thesis using assms(2-4) by (auto simp: distinct_map dest: inj_onD)
qed

lemma holding_of_Some:
  "holding_of code db = Some h \<Longrightarrow> h \<in> set (holdings db) \<and> h_code h = code \<and> h_status h = HOLDING"
  by (auto simp: holding_of_def find_Some_iff active_def)

lemma holding_of_None: "holding_of code db = None \<longleftrightarrow> (\<forall>h \<in> set (holdings db). \<not> active code h)"
  by (auto simp: holding_of_def find_None_iff)

lemma holding_of_unique:
  assumes "db_ok db" "h \<in> set (holdings db)" "active code h"
  shows "holding_of code db = Some h"
proof (cases "holding_of code db")
  case None
  with assms show ?thesis by (auto simp: holding_of_None)
next
  case (Some h')
  note h' = holding_of_Some [OF this]
  from assms have "h_status h = HOLDING" "h_code h = code" by (simp_all add: active_def)
  with assms(1,2) h' have "h_id h' = h_id h" unfolding db_ok_def by metis
  with db_ok_ids_inj [OF assms(1)] assms(2) h' have "h' = h" by blast
  with Some show ?thesis by simp
qed

lemma positions_eqI:
  assumes "db_ok db"
    and "\<And>h. h \<in> set (holdings db) \<Longrightarrow> active code h \<Longrightarrow> v = Some (h_qty h, h_total h)"
    and "v \<noteq> None \<Longrightarrow> \<exists>h \<in> set (holdings db). active code h"
  shows "positions db code = v"
proof (cases "holding_of code db")
  case None
  with assms(3) show ?thesis by (cases v) (auto simp: positions_def holding_of_None)
next
  case (Some h)
  from holding_of_Some [OF this] assms(2) [of h] Some show ?thesis
    by (simp add: positions_def active_def)
qed

lemma set_replace_row:
  assumes "db_ok db" "h \<in> set (holdings db)"
  shows "set (holdings (replace_row (h_id h) f db)) =
    insert (f h) {x \<in> set (holdings db). h_id x \<noteq> h_id h}"
proof -
  have "x = h" if "x \<in> set (holdings db)" "h_id x = h_id h" for x
    using db_ok_ids_inj [OF assms(1)] assms(2) that by blast
  with assms(2) show ?thesis by (auto simp: replace_row_def)
qed

text \<open>The two ways the holdings change: one row is rewritten in place, one is appended.\<close>

lemma db_ok_replace:
  assumes db: "db_ok db" and h: "h \<in> set (holdings db)"
    and same: "h_id (f h) = h_id h" "h_code (f h) = h_code h"
    and held: "h_status (f h) = HOLDING \<Longrightarrow> h_status h = HOLDING \<and> consistent_row (f h)"
  shows "db_ok (replace_row (h_id h) f db)"
proof -
  let ?db = "replace_row (h_id h) f db"
  note rows = set_replace_row [OF db h, of f]
  have eqh: "x = h" if "x \<in> set (holdings db)" "h_id x = h_id h" for x
    using db_ok_ids_inj [OF db that(1) h that(2)] .
  have ids: "map h_id (holdings ?db) = map h_id (holdings db)"
    using eqh same(1) by (auto simp: replace_row_def)
  have unique: "h_id x = h_id y"
    if "x \<in> set (holdings ?db)" "y \<in> set (holdings ?db)" "h_status x = HOLDING" "h_status y = HOLDING"
      "h_code x = h_code y" for x y
  proof -
    have "\<exists>z \<in> set (holdings db). h_id z = h_id w \<and> h_code z = h_code w \<and> h_status z = HOLDING"
      if "w \<in> set (holdings ?db)" "h_status w = HOLDING" for w
      using that held h same unfolding rows by auto
    with that db show ?thesis unfolding db_ok_def by metis
  qed
  show ?thesis
    unfolding db_ok_def
  proof (intro conjI)
    show "sorted_wrt (<) (map h_id (holdings ?db))" using db by (simp add: ids db_ok_def)
    have "\<forall>i \<in> set (map h_id (holdings db)). i < next_holding db"
      using db by (simp add: db_ok_def list_all_iff)
    then have "\<forall>i \<in> set (map h_id (holdings ?db)). i < next_holding db" unfolding ids .
    then show "list_all (\<lambda>h. h_id h < next_holding ?db) (holdings ?db)"
      by (simp add: list_all_iff) (simp add: replace_row_def)
    show "\<forall>x \<in> set (holdings ?db). \<forall>y \<in> set (holdings ?db).
        h_status x = HOLDING \<longrightarrow> h_status y = HOLDING \<longrightarrow> h_code x = h_code y \<longrightarrow> h_id x = h_id y"
      using unique by blast
    show "list_all (\<lambda>h. h_status h = HOLDING \<longrightarrow> consistent_row h) (holdings ?db)"
      using db held unfolding list_all_iff rows by (auto simp: db_ok_def list_all_iff)
  qed
qed

lemma positions_replace:
  assumes db: "db_ok db" and h: "h \<in> set (holdings db)" "h_status h = HOLDING"
    and same: "h_id (f h) = h_id h" "h_code (f h) = h_code h"
    and held: "h_status (f h) = HOLDING \<Longrightarrow> consistent_row (f h)"
  shows "positions (replace_row (h_id h) f db) = (positions db)(h_code h :=
     if h_status (f h) = HOLDING then Some (h_qty (f h), h_total (f h)) else None)"
proof
  fix code
  let ?db = "replace_row (h_id h) f db"
  have ok: "db_ok ?db" using db h same held by (intro db_ok_replace) auto
  note rows = set_replace_row [OF db h(1), of f]
  have other: "x = h" if "x \<in> set (holdings db)" "active (h_code h) x" for x
    using holding_of_unique [OF db that] holding_of_unique [OF db h(1)] h(2) by (simp add: active_def)
  show "positions ?db code = ((positions db)(h_code h :=
     if h_status (f h) = HOLDING then Some (h_qty (f h), h_total (f h)) else None)) code"
  proof (cases "code = h_code h")
    case True
    show ?thesis unfolding True
      by (rule positions_eqI [OF ok]) (use other same in \<open>auto simp: rows active_def\<close>)
  next
    case False
    have pos: "positions db code = Some (h_qty x, h_total x)" if "x \<in> set (holdings db)" "active code x" for x
      using holding_of_unique [OF db that] by (simp add: positions_def)
    have "positions ?db code = positions db code"
    proof (rule positions_eqI [OF ok])
      fix x assume "x \<in> set (holdings ?db)" "active code x"
      with False same show "positions db code = Some (h_qty x, h_total x)"
        by (intro pos) (auto simp: rows active_def)
    next
      assume "positions db code \<noteq> None"
      then obtain x where x: "holding_of code db = Some x" by (auto simp: positions_def)
      from holding_of_Some [OF this] False have "x \<in> set (holdings db)" "active code x" "x \<noteq> h"
        by (auto simp: active_def)
      with db_ok_ids_inj [OF db _ h(1), of x]
      show "\<exists>x \<in> set (holdings ?db). active code x"
        by (intro bexI [of _ x]) (auto simp: rows active_def)
    qed
    with False show ?thesis by simp
  qed
qed

lemma db_ok_append:
  assumes db: "db_ok db" and new: "holding_of (h_code (mk (next_holding db))) db = None"
    and row: "h_id (mk (next_holding db)) = next_holding db" "consistent_row (mk (next_holding db))"
  shows "db_ok (append_row mk db)"
proof -
  let ?new = "mk (next_holding db)" and ?hs = "holdings db"
  have na: "h_status h \<noteq> HOLDING \<or> h_code h \<noteq> h_code ?new" if "h \<in> set ?hs" for h
    using new that by (auto simp: holding_of_None active_def)
  have lt: "h_id h < next_holding db" if "h \<in> set ?hs" for h
    using db that by (simp add: db_ok_def list_all_iff)
  have inset: "h \<in> set ?hs \<or> h = ?new" if "h \<in> set (holdings (append_row mk db))" for h
    using that by (auto simp: append_row_def)
  show ?thesis
    unfolding db_ok_def
  proof (intro conjI ballI impI)
    show "sorted_wrt (<) (map h_id (holdings (append_row mk db)))"
      using db lt row(1) by (auto simp: append_row_def db_ok_def sorted_wrt_append)
    show "list_all (\<lambda>h. h_id h < next_holding (append_row mk db)) (holdings (append_row mk db))"
      using lt row(1) by (auto simp: append_row_def list_all_iff less_Suc_eq dest: less_imp_le)
    show "list_all (\<lambda>h. h_status h = HOLDING \<longrightarrow> consistent_row h) (holdings (append_row mk db))"
      using db row(2) by (simp add: append_row_def db_ok_def)
    show "h_id x = h_id y"
      if "x \<in> set (holdings (append_row mk db))" "y \<in> set (holdings (append_row mk db))"
        "h_status x = HOLDING" "h_status y = HOLDING" "h_code x = h_code y" for x y
      using inset [OF that(1)] inset [OF that(2)] na [of x] na [of y] that(3-5) db
      unfolding db_ok_def by metis
  qed
qed

lemma positions_append:
  assumes "holding_of (h_code (mk (next_holding db))) db = None" "h_status (mk (next_holding db)) = HOLDING"
  shows "positions (append_row mk db) =
    (positions db)(h_code (mk (next_holding db)) \<mapsto>
       (h_qty (mk (next_holding db)), h_total (mk (next_holding db))))"
proof
  fix code
  note new = assms(1) [unfolded holding_of_def]
  show "positions (append_row mk db) code = ((positions db)(h_code (mk (next_holding db)) \<mapsto>
       (h_qty (mk (next_holding db)), h_total (mk (next_holding db))))) code"
  proof (cases "code = h_code (mk (next_holding db))")
    case True
    have "active (h_code (mk (next_holding db))) (mk (next_holding db))"
      using assms(2) by (simp add: active_def)
    with new True show ?thesis
      by (simp add: positions_def holding_of_def append_row_def find_append)
  next
    case False
    then have "\<not> active code (mk (next_holding db))" by (simp add: active_def)
    with False show ?thesis
      by (simp add: positions_def holding_of_def append_row_def find_append split: option.split)
  qed
qed

lemma append_log_frame [simp, frames]:
  "holdings (append_log tm tr pid db) = holdings db"
  "next_holding (append_log tm tr pid db) = next_holding db"
  "db_ok (append_log tm tr pid db) = db_ok db"
  "positions (append_log tm tr pid db) = positions db"
  by (auto simp: append_log_def db_ok_def positions_def holding_of_def fun_eq_iff)

section \<open>The ledger\<close>

text \<open>
  What recording a trade means for the positions: a purchase adds its quantity and its cost
  to the position of the code, a sale closes it, another type changes nothing.
\<close>

definition ledger_step :: "trade_request \<Rightarrow> (string \<rightharpoonup> int \<times> rat) \<Rightarrow> (string \<rightharpoonup> int \<times> rat)" where
  "ledger_step tr pos =
     (let code = si_code (tr_stock tr); q = tr_qty tr; cost = of_int q * tr_price tr in
      if starts_with ''BUY'' (tr_type tr) then
        pos(code \<mapsto> (case pos code of None \<Rightarrow> (q, cost) | Some (q0, c0) \<Rightarrow> (q0 + q, c0 + cost)))
      else if tr_type tr = ''SELL'' then pos(code := None)
      else pos)"

definition legal_trade :: "trade_db \<Rightarrow> trade_request \<Rightarrow> bool" where
  "legal_trade db tr \<longleftrightarrow>
     0 < tr_price tr \<and>
     (if starts_with ''BUY'' (tr_type tr) then 0 < tr_qty tr
      else if tr_type tr = ''SELL'' then
        (case holding_of (si_code (tr_stock tr)) db of
           None \<Rightarrow> False | Some h \<Rightarrow> si_id (tr_stock tr) = Some (h_id h))
      else True)"

lemma orm_merge_row:
  "h_id (orm_merge q p st h) = h_id h" "h_code (orm_merge q p st h) = h_code h"
  "h_status (orm_merge q p st h) = h_status h"
  "h_qty (orm_merge q p st h) = h_qty h + q"
  "h_total (orm_merge q p st h) = h_total h + of_int q * p"
  by (simp_all add: orm_merge_def Let_def)

lemma orm_merge_consistent: "0 < h_qty h \<Longrightarrow> 0 < q \<Longrightarrow> consistent_row (orm_merge q p st h)"
  by (simp add: orm_merge_def consistent_row_def Let_def)

lemma legacy_merge_eq: "legacy_merge q p st h h = orm_merge q p st h"
  by (simp add: legacy_merge_def orm_merge_def Let_def)

lemma orm_new_row_row:
  "h_id (orm_new_row tr tm i) = i" "h_code (orm_new_row tr tm i) = si_code (tr_stock tr)"
  "h_status (orm_new_row tr tm i) = HOLDING" "h_qty (orm_new_row tr tm i) = tr_qty tr"
  "h_total (orm_new_row tr tm i) = of_int (tr_qty tr) * tr_price tr"
  by (simp_all add: orm_new_row_def)

lemma orm_new_row_consistent: "0 < tr_qty tr \<Longrightarrow> consistent_row (orm_new_row tr tm i)"
  by (simp add: orm_new_row_def consistent_row_def mult.commute)

lemma mark_sold_row:
  "h_id (mark_sold h) = h_id h" "h_code (mark_sold h) = h_code h" "h_status (mark_sold h) = SOLD"
  by (simp_all add: mark_sold_def)

lemmas row_simps = orm_merge_row orm_new_row_row mark_sold_row

lemma find_id:
  assumes "db_ok db" "h \<in> set (holdings db)"
  shows "find (\<lambda>x. h_id x = h_id h) (holdings db) = Some h"
proof (cases "find (\<lambda>x. h_id x = h_id h) (holdings db)")
  case None
  with assms(2) show ?thesis by (auto simp: find_None_iff)
next
  case (Some x)
  then have "x \<in> set (holdings db)" "h_id x = h_id h" by (auto simp: find_Some_iff)
  with db_ok_ids_inj [OF assms(1) _ assms(2)] Some show ?thesis by simp
qed

lemma held_consistent: "db_ok db \<Longrightarrow> holding_of c db = Some h \<Longrightarrow> consistent_row h"
  using holding_of_Some [of c db h] by (auto simp: db_ok_def list_all_iff)

text \<open>One recorded trade keeps the invariant and does to the positions what the ledger says.\<close>

lemma orm_trade_step:
  assumes db: "db_ok db" and legal: "legal_trade db tr"
  shows "\<exists>db'. orm_trade tr db = Inr (True, db') \<and> db_ok db' \<and> positions db' = ledger_step tr (positions db)"
proof -
  from legal have price: "0 < tr_price tr" by (simp add: legal_trade_def)
  let ?code = "si_code (tr_stock tr)"
  consider (merge) h where "starts_with ''BUY'' (tr_type tr)" "holding_of ?code db = Some h"
    | (new) "starts_with ''BUY'' (tr_type tr)" "holding_of ?code db = None"
    | (sell) h where "\<not> starts_with ''BUY'' (tr_type tr)" "tr_type tr = ''SELL''" "holding_of ?code db = Some h"
        "si_id (tr_stock tr) = Some (h_id h)"
    | (other) "\<not> starts_with ''BUY'' (tr_type tr)" "tr_type tr \<noteq> ''SELL''"
    using legal by (cases "holding_of ?code db") (auto simp: legal_trade_def split: if_splits)
  then show ?thesis
  proof cases
    case merge
    from legal merge(1) have q: "0 < tr_qty tr" by (simp add: legal_trade_def)
    note h = holding_of_Some [OF merge(2)]
    have c: "consistent_row (orm_merge (tr_qty tr) (tr_price tr) (tr_stop tr) h)"
      using held_consistent [OF db merge(2)] q by (intro orm_merge_consistent) (simp_all add: consistent_row_def)
    have "positions db ?code = Some (h_qty h, h_total h)" using merge(2) by (simp add: positions_def)
    with merge price h c show ?thesis
      by (simp add: orm_trade_def ledger_step_def Let_def db_ok_replace [OF db] positions_replace [OF db] row_simps)
  next
    case new
    from legal new(1) have q: "0 < tr_qty tr" by (simp add: legal_trade_def)
    have "positions db ?code = None" using new(2) by (simp add: positions_def)
    with new price q show ?thesis
      by (simp add: orm_trade_def ledger_step_def Let_def db_ok_append [OF db] positions_append row_simps
          orm_new_row_consistent)
  next
    case sell
    note h = holding_of_Some [OF sell(3)]
    then have "db_ok (replace_row (h_id h) mark_sold db)"
      "positions (replace_row (h_id h) mark_sold db) = (positions db)(?code := None)"
      using db_ok_replace [OF db, of h mark_sold] positions_replace [OF db, of h mark_sold]
      by (simp_all add: row_simps)
    with sell price h find_id [OF db, of h] show ?thesis
      by (simp add: orm_trade_def ledger_step_def Let_def)
  next
    case other
    with price db show ?thesis by (simp add: orm_trade_def ledger_step_def Let_def)
  qed
qed

lemma legacy_find_eq: "db_ok db \<Longrightarrow> legacy_find code db = holding_of code db"
proof -
  assume "db_ok db"
  then have "sorted (map h_id (holdings db))" by (auto simp: db_ok_def strict_sorted_iff)
  then have "sorted (map h_id (filter (active code) (holdings db)))" by (rule sorted_filter)
  then show ?thesis
    by (simp add: legacy_find_def holding_of_def find_filter sort_key_id_if_sorted)
qed

text \<open>The raw SQL statements do the same, but for the time zone of the log entry.\<close>

lemma replace_row_cong:
  assumes "db_ok db" "h \<in> set (holdings db)" "f h = g h"
  shows "replace_row (h_id h) f db = replace_row (h_id h) g db"
proof -
  have "(if h_id x = h_id h then f x else x) = (if h_id x = h_id h then g x else x)"
    if "x \<in> set (holdings db)" for x
    using db_ok_ids_inj [OF assms(1) that assms(2)] assms(3) by auto
  then show ?thesis by (simp add: replace_row_def)
qed

lemma legacy_trade_step:
  assumes db: "db_ok db" and legal: "legal_trade db tr"
  shows "\<exists>db'' pid. orm_trade tr db = Inr (True, append_log (utc db) tr pid db'') \<and>
    legacy_trade tr db = Inr (True, append_log (db_now db) tr pid db'')"
proof -
  have merge: "replace_row (h_id h) (legacy_merge q p st h) db = replace_row (h_id h) (orm_merge q p st) db"
    if "holding_of code db = Some h" for code h q p st
    using holding_of_Some [OF that] by (intro replace_row_cong [OF db]) (simp_all add: legacy_merge_eq)
  show ?thesis
    using legal find_id [OF db] holding_of_Some [of "si_code (tr_stock tr)" db]
    by (auto simp: orm_trade_def legacy_trade_def legal_trade_def legacy_find_eq [OF db] merge
        split: option.splits if_splits) blast
qed





lemma legacy_trade_ok:
  assumes db: "db_ok db" and legal: "legal_trade db tr"
  shows "\<exists>db'. legacy_trade tr db = Inr (True, db') \<and> db_ok db' \<and> positions db' = ledger_step tr (positions db)"
  using orm_trade_step [OF assms] legacy_trade_step [OF assms] by auto

definition orm_env :: trade_env where
  "orm_env = \<lparr>orm_ready = True, orm_fault = None, raw_fault = None\<rparr>"

definition raw_env :: trade_env where
  "raw_env = \<lparr>orm_ready = False, orm_fault = None, raw_fault = None\<rparr>"

definition record_orm :: "trade_request \<Rightarrow> trade_db \<Rightarrow> trade_db" where
  "record_orm tr db = snd (execute_trade_and_log orm_env OrmSession tr db)"

definition record_raw :: "trade_request \<Rightarrow> trade_db \<Rightarrow> trade_db" where
  "record_raw tr db = snd (execute_trade_and_log raw_env RawConnection tr db)"

lemma record_orm_eq: "orm_trade tr db = Inr r \<Longrightarrow> record_orm tr db = snd r"
  by (cases r) (simp add: record_orm_def execute_trade_and_log_def orm_env_def in_session_def)

lemma record_raw_eq: "legacy_trade tr db = Inr r \<Longrightarrow> 0 < tr_price tr \<Longrightarrow> record_raw tr db = snd r"
  by (simp add: record_raw_def execute_trade_and_log_def raw_env_def execute_legacy_def)


interpretation orm: step_refinement record_orm ledger_step positions db_ok legal_trade
proof
  fix db tr assume "db_ok db" "legal_trade db tr"
  from orm_trade_step [OF this] obtain db' where "orm_trade tr db = Inr (True, db')"
    and "db_ok db'" "positions db' = ledger_step tr (positions db)" by blast
  then show "db_ok (record_orm tr db)" "positions (record_orm tr db) = ledger_step tr (positions db)"
    by (simp_all add: record_orm_eq)
qed

interpretation raw: step_refinement record_raw ledger_step positions db_ok legal_trade
proof
  fix db tr assume a: "db_ok db" "legal_trade db tr"
  from legacy_trade_ok [OF a] obtain db' where "legacy_trade tr db = Inr (True, db')"
    and "db_ok db'" "positions db' = ledger_step tr (positions db)" by blast
  moreover have "0 < tr_price tr" using a(2) by (simp add: legal_trade_def)
  ultimately show "db_ok (record_raw tr db)" "positions (record_raw tr db) = ledger_step tr (positions db)"
    by (simp_all add: record_raw_eq)
qed

lemma clock_frame [simp, frames]:
  "db_ok (db\<lparr>utc := t\<rparr>) = db_ok db" "positions (db\<lparr>utc := t\<rparr>) = positions db"
  by (simp_all add: db_ok_def positions_def holding_of_def fun_eq_iff)

text \<open>A sale from the portfolio keeps the invariant too, and takes its quantity only.\<close>

lemma remove_from_portfolio_effect:
  assumes db: "db_ok db" and h: "holding_of code db = Some h"
  shows "\<exists>db'. remove_from_portfolio None code quantity db = (True, db') \<and> db_ok db' \<and>
    positions db' = (positions db)(code :=
      if h_qty h \<le> quantity then None
      else Some (h_qty h - quantity, of_int (h_qty h - quantity) * h_avg h))"
proof -
  note held = holding_of_Some [OF h]
  have row: "h_id (sell_part quantity h) = h_id h" "h_code (sell_part quantity h) = h_code h"
    by (simp_all add: sell_part_def)
  have ok: "h_status h = HOLDING \<and> consistent_row (sell_part quantity h)"
    if "h_status (sell_part quantity h) = HOLDING"
    using that held by (auto simp: sell_part_def consistent_row_def mult.commute split: if_splits)
  from held row ok db_ok_replace [OF db, of h "sell_part quantity"]
    positions_replace [OF db, of h "sell_part quantity"]
  show ?thesis by (auto simp: remove_from_portfolio_def h sell_part_def)
qed

lemma length_log_reason: "length (log_reason_text r) \<le> 1950"
  by (auto simp: log_reason_text_def Let_def split: option.split)

text \<open>Every trade that is answered with True has appended one log entry.\<close>

definition logged :: "trade_request \<Rightarrow> trade_db \<Rightarrow> trade_db \<Rightarrow> bool" where
  "logged tr db db' \<longleftrightarrow>
     next_log db' = next_log db + 1 \<and>
     (\<exists>row. trades db' = trades db @ [row] \<and> log_id row = next_log db \<and>
        log_code row = si_code (tr_stock tr) \<and> log_type row = tr_type tr \<and>
        log_qty row = tr_qty tr \<and> log_price row = tr_price tr \<and> length (log_reason row) \<le> 1950)"

lemma logged_append [simp]:
  "logged tr db (append_log tm tr pid db)"
  "logged tr db (append_log tm tr pid (replace_row i f db))"
  "logged tr db (append_log tm tr pid (append_row mk db))"
  by (simp_all add: logged_def append_log_def replace_row_def append_row_def length_log_reason)

lemma orm_trade_logged: "orm_trade tr db = Inr (True, db') \<Longrightarrow> logged tr db db'"
  by (auto simp: orm_trade_def split: if_splits option.splits)

lemma orm_trade_refused: "orm_trade tr db = Inr (False, db') \<Longrightarrow> db' = db"
  by (auto simp: orm_trade_def split: if_splits option.splits)

lemma legacy_trade_logged: "legacy_trade tr db = Inr (True, db') \<Longrightarrow> logged tr db db'"
  by (auto simp: legacy_trade_def split: if_splits option.splits)

lemma legacy_trade_refused: "legacy_trade tr db = Inr (False, db') \<Longrightarrow> db' = db"
  by (auto simp: legacy_trade_def split: if_splits option.splits)

lemma execute_logged: "execute_trade_and_log env conn tr db = (True, db') \<Longrightarrow> logged tr db db'"
  by (auto simp: execute_trade_and_log_def in_session_def execute_legacy_def
      dest: orm_trade_logged legacy_trade_logged split: if_splits sum.splits option.splits)

lemma execute_refused: "execute_trade_and_log env conn tr db = (False, db') \<Longrightarrow> db' = db"
  by (auto simp: execute_trade_and_log_def in_session_def execute_legacy_def
      dest: orm_trade_refused legacy_trade_refused split: if_splits sum.splits option.splits)

text \<open>With a failing database the services, which pass their ORM session, record nothing.\<close>

lemma execute_orm_fault:
  "orm_fault env = Some e \<Longrightarrow> execute_trade_and_log env OrmSession tr db = (False, db)"
  by (auto simp: execute_trade_and_log_def in_session_def execute_legacy_def split: sum.splits)

lemma holding_of_active_portfolio:
  assumes "db_ok db" "holding_of code db = Some h"
  shows "find (\<lambda>p. p_code p = code) (get_active_portfolio db) = Some (position_of h)"
proof -
  let ?held = "filter (\<lambda>h. h_status h = HOLDING) (holdings db)"
  have "sorted (map h_id (holdings db))" using assms(1) by (auto simp: db_ok_def strict_sorted_iff)
  then have "sorted (map h_id ?held)" by (rule sorted_filter)
  then have "get_active_portfolio db = map position_of ?held"
    by (simp add: get_active_portfolio_def sort_key_id_if_sorted)
  moreover have "find (\<lambda>p. p_code p = code) (map position_of xs) = map_option position_of (find (\<lambda>h. h_code h = code) xs)" for xs
    by (induction xs) (simp_all add: position_of_def)
  moreover have "find (\<lambda>h. h_code h = code) ?held = holding_of code db"
    by (simp add: holding_of_def find_filter active_def [abs_def] conj_commute)
  ultimately show ?thesis using assms(2) by simp
qed

lemma active_portfolio_none:
  assumes "holding_of code db = None"
  shows "find (\<lambda>p. p_code p = code) (get_active_portfolio db) = None"
  using assms by (auto simp: holding_of_None find_None_iff get_active_portfolio_def position_of_def active_def)

section \<open>Properties\<close>

text \<open>
  C15. Recording trades through the ORM refines the ledger: after any sequence of well-formed trades
  (a positive price, a positive quantity of a purchase, a sale that names the held row of
  its code) the positions are what the ledger computes, every code has at most one held row, and
  the average price of a held row times its quantity is its purchase total.
\<close>

theorem ledger_refinement:
  assumes "db_ok db" "orm.legal_run db trs"
  shows "db_ok (fold record_orm trs db) \<and>
    positions (fold record_orm trs db) = fold ledger_step trs (positions db)"
  using assms by (simp add: orm.run_ok orm.run_abs)

definition demo_trade :: "string \<Rightarrow> int option \<Rightarrow> int \<Rightarrow> rat \<Rightarrow> trade_request" where
  "demo_trade type i q price =
     \<lparr>tr_type = type, tr_stock = \<lparr>si_id = i, si_code = ''005930'', si_name = ''S''\<rparr>, tr_qty = q,
      tr_price = price, tr_reason = None, tr_stop = None, tr_signal = None, tr_metrics = None,
      tr_context = None\<rparr>"

definition empty_db :: trade_db where
  "empty_db = \<lparr>holdings = [], trades = [], next_holding = 1, next_log = 1, utc = 0, db_offset = 9\<rparr>"

lemmas trade_eval = record_orm_def record_raw_def execute_trade_and_log_def orm_env_def raw_env_def
  in_session_def orm_trade_def demo_trade_def empty_db_def starts_with_def holding_of_def active_def
  append_row_def append_log_def replace_row_def orm_new_row_def orm_merge_def mark_sold_def Let_def

lemma empty_db_ok: "db_ok empty_db"
  by (simp add: db_ok_def empty_db_def)

theorem ledger_refinement_witness:
  "positions (fold record_orm [demo_trade ''BUY'' None 10 100, demo_trade ''BUY'' None 5 130] empty_db) =
     [''005930'' \<mapsto> (15, 1650)]"
proof -
  have "orm.legal_run empty_db [demo_trade ''BUY'' None 10 100, demo_trade ''BUY'' None 5 130]"
    by (simp add: legal_trade_def trade_eval)
  from ledger_refinement [OF empty_db_ok this]
  have "positions (fold record_orm [demo_trade ''BUY'' None 10 100, demo_trade ''BUY'' None 5 130] empty_db) =
    fold ledger_step [demo_trade ''BUY'' None 10 100, demo_trade ''BUY'' None 5 130] (positions empty_db)" by blast
  then show ?thesis
    by (simp add: ledger_step_def positions_def trade_eval fun_eq_iff)
qed



text \<open>
  A recorded SELL closes the whole position of its code whatever quantity it sold: the
  log shows the quantity, the holdings no longer show the rest.
\<close>

theorem sale_closes_position:
  assumes "db_ok db" "legal_trade db tr" "tr_type tr = ''SELL''"
  shows "positions (record_orm tr db) = (positions db)(si_code (tr_stock tr) := None) \<and>
    logged tr db (record_orm tr db)"
proof -
  from orm_trade_step [OF assms(1,2)] obtain db' where
    o: "orm_trade tr db = Inr (True, db')" and p: "positions db' = ledger_step tr (positions db)" by blast
  from p assms(3) orm_trade_logged [OF o] show ?thesis
    by (simp add: record_orm_eq [OF o] ledger_step_def starts_with_def)
qed

theorem sale_closes_position_witness:
  "positions (record_orm (demo_trade ''BUY'' None 10 100) empty_db) ''005930'' = Some (10, 1000) \<and>
   positions (record_orm (demo_trade ''SELL'' (Some 1) 5 120)
     (record_orm (demo_trade ''BUY'' None 10 100) empty_db)) ''005930'' = None"
proof -
  let ?db = "record_orm (demo_trade ''BUY'' None 10 100) empty_db"
  have ok: "db_ok ?db"
    by (rule orm.step_ok [OF empty_db_ok]) (simp add: legal_trade_def trade_eval)
  have "legal_trade ?db (demo_trade ''SELL'' (Some 1) 5 120)" "tr_type (demo_trade ''SELL'' (Some 1) 5 120) = ''SELL''"
    by (simp_all add: legal_trade_def trade_eval)
  from sale_closes_position [OF ok this] show ?thesis
    by (simp add: positions_def trade_eval)
qed

text \<open>
  Recording is all or nothing, whatever fails: an answer of True has appended exactly one
  log entry for the trade, with a reason of at most 1950 characters; an answer of False has
  left the tables as they were.
\<close>

theorem trade_all_or_nothing:
  "case execute_trade_and_log env conn tr db of
     (answer, db') \<Rightarrow> if answer then logged tr db db' else db' = db"
  by (auto dest: execute_logged execute_refused split: prod.split)

text \<open>
  The weights of the portfolio report add up to 100 percent whenever the holdings are
  worth anything, and the totals of the summary are the sums over the same positions.
\<close>

theorem portfolio_weights_total:
  "sum_list (map rep_weight (get_portfolio_with_current_prices gateway realtime db)) =
     (if 0 < sum_list (map (\<lambda>r. rep_current r * of_int (rep_qty r))
               (get_portfolio_with_current_prices gateway realtime db)) then 100 else 0)"
proof -
  define ps where "ps = get_active_portfolio db"
  define prices where "prices = prices_for gateway realtime ps"
  define ta where "ta = sum_list (map (current_value prices) ps)"
  have sums: "sum_list (map (\<lambda>p. if 0 < ta then current_value prices p / ta * 100 else 0) xs) =
      (if 0 < ta then sum_list (map (current_value prices) xs) / ta * 100 else 0)" for xs
    by (induction xs) (auto simp: add_divide_distrib distrib_right)
  have w: "map rep_weight (get_portfolio_with_current_prices gateway realtime db) =
      map (\<lambda>p. if 0 < ta then current_value prices p / ta * 100 else 0) ps"
    unfolding get_portfolio_with_current_prices_def Let_def ps_def [symmetric] prices_def [symmetric]
      ta_def [symmetric] by simp
  have v: "map (\<lambda>r. rep_current r * of_int (rep_qty r)) (get_portfolio_with_current_prices gateway realtime db) =
      map (current_value prices) ps"
    unfolding get_portfolio_with_current_prices_def Let_def ps_def [symmetric] prices_def [symmetric]
    by (simp add: current_value_def)
  show ?thesis unfolding w v sums ta_def [symmetric] by simp
qed

end
