(* ===== verification/Presets.thy ===== *)
theory Presets
  imports Config
begin

text \<open>
  \<open>shared/strategy_presets.py\<close>: the preset file, the choice of a preset for a market
  regime, and the injection of its parameters into the \<open>ConfigManager\<close>.

  A preset is a dictionary from parameter names to numbers. The file is read by
  \<open>load_strategy_presets\<close>; its parsed content is an argument (\<open>None\<close> when it is
  missing or not valid JSON), and \<open>shipped_presets\<close> is the content of
  \<open>configs/gpt_v2_strategy_presets.json\<close> in the repository.
\<close>

type_synonym params = "(string \<times> cval) list"
type_synonym preset_file = "(string \<times> params option) list"

definition param_defaults :: params where
  "param_defaults =
   [(''rsi_buy'', CInt 30), (''breakout_buffer_pct'', CFloat (1/2)), (''bb_buffer_pct'', CFloat (3/2)),
    (''llm_threshold'', CInt 70), (''max_position_allocation'', CFloat 12), (''max_stock_pct'', CFloat 15),
    (''max_sector_pct'', CFloat 30), (''cash_keep_pct'', CFloat 5), (''target_profit_pct'', CFloat 8),
    (''base_stop_loss_pct'', CFloat 5), (''stop_loss_atr_mult'', CFloat (9/5)), (''sell_rsi_1'', CFloat 70),
    (''sell_rsi_2'', CFloat 75), (''sell_rsi_3'', CFloat 80), (''max_buys_per_day'', CInt 3),
    (''max_hold_days'', CInt 30)]"

definition default_regime_presets :: "(string \<times> string) list" where
  "default_regime_presets =
   [(''BULL'', ''aggressive_swing''), (''SIDEWAYS'', ''balanced_champion''), (''BEAR'', ''iron_shield'')]"

definition config_key_map :: "(string \<times> string) list" where
  "config_key_map =
   [(''rsi_buy'', ''BUY_RSI_OVERSOLD_THRESHOLD''),
    (''target_profit_pct'', ''PROFIT_TARGET_FULL''),
    (''base_stop_loss_pct'', ''SELL_STOP_LOSS_PCT''),
    (''stop_loss_atr_mult'', ''ATR_MULTIPLIER_INITIAL_STOP''),
    (''sell_rsi_1'', ''RSI_THRESHOLD_1''),
    (''sell_rsi_2'', ''RSI_THRESHOLD_2''),
    (''sell_rsi_3'', ''RSI_THRESHOLD_3''),
    (''max_position_allocation'', ''MAX_POSITION_VALUE_PCT''),
    (''max_stock_pct'', ''MAX_STOCK_PCT''),
    (''max_sector_pct'', ''MAX_SECTOR_PCT''),
    (''cash_keep_pct'', ''CASH_KEEP_PCT''),
    (''max_buys_per_day'', ''MAX_BUY_COUNT_PER_DAY''),
    (''max_hold_days'', ''MAX_HOLDING_DAYS'')]"

definition load_strategy_presets :: "preset_file option \<Rightarrow> (string \<times> params) list" where
  "load_strategy_presets raw =
     (case raw of
        None \<Rightarrow> []
      | Some entries \<Rightarrow>
          List.map_filter
            (\<lambda>(key, ps). case ps of None \<Rightarrow> None | Some p \<Rightarrow> if p = [] then None else Some (key, p))
            entries)"

definition get_preset :: "preset_file option \<Rightarrow> string option \<Rightarrow> params" where
  "get_preset raw name =
     (case name of
        None \<Rightarrow> []
      | Some n \<Rightarrow> if n = [] then [] else (case map_of (load_strategy_presets raw) n of None \<Rightarrow> [] | Some p \<Rightarrow> p))"

definition get_param_defaults :: params where
  "get_param_defaults = param_defaults"

definition resolve_preset_for_regime ::
  "preset_file option \<Rightarrow> string option \<Rightarrow> string \<Rightarrow> string \<times> params" where
  "resolve_preset_for_regime raw regime fallback =
     (let preset_name =
            (case regime of
               None \<Rightarrow> fallback
             | Some r \<Rightarrow> (case map_of default_regime_presets r of None \<Rightarrow> fallback | Some n \<Rightarrow> n));
          preset = get_preset raw (Some preset_name)
      in if preset = [] then
           (fallback,
            let p = get_preset raw (Some fallback) in if p = [] then get_param_defaults else p)
         else (preset_name, preset))"

text \<open>
  \<open>apply_preset_to_config\<close> with its default \<open>persist_to_db=False\<close>, the only way the
  services call it: one \<open>config.set\<close> per mapped parameter that the preset contains.
\<close>

definition preset_entries :: "params \<Rightarrow> (string \<times> cval) list" where
  "preset_entries ps =
     List.map_filter
       (\<lambda>(param_key, config_key). map_option (\<lambda>v. (config_key, v)) (map_of ps param_key))
       config_key_map"

fun apply_entries :: "(string \<times> string) list \<Rightarrow> params \<Rightarrow> cfg_world \<Rightarrow> config_manager \<Rightarrow> config_manager" where
  "apply_entries [] ps w c = c"
| "apply_entries ((param_key, config_key) # rest) ps w c =
     apply_entries rest ps w
       (case map_of ps param_key of
          Some v \<Rightarrow> snd (snd (cfg_set (\<lambda>_. []) config_key v False w c))
        | None \<Rightarrow> c)"

definition apply_preset_to_config :: "params \<Rightarrow> cfg_world \<Rightarrow> config_manager \<Rightarrow> config_manager" where
  "apply_preset_to_config ps w c = (if ps = [] then c else apply_entries config_key_map ps w c)"

definition shipped_presets :: preset_file where
  "shipped_presets = [
     (''oos_validated_v1'', Some
        [(''rsi_buy'', CInt 30),
         (''breakout_buffer_pct'', CFloat (4/5)),
         (''bb_buffer_pct'', CFloat (3/2)),
         (''llm_threshold'', CInt 70),
         (''max_position_allocation'', CFloat 15),
         (''max_stock_pct'', CFloat 15),
         (''max_sector_pct'', CFloat 30),
         (''cash_keep_pct'', CFloat 3),
         (''target_profit_pct'', CFloat 8),
         (''base_stop_loss_pct'', CFloat 4),
         (''stop_loss_atr_mult'', CFloat 2),
         (''sell_rsi_1'', CFloat 70),
         (''sell_rsi_2'', CFloat 73),
         (''sell_rsi_3'', CFloat 78),
         (''max_buys_per_day'', CInt 3),
         (''max_hold_days'', CInt 35)]),
     (''balanced_champion'', Some
        [(''rsi_buy'', CInt 35),
         (''breakout_buffer_pct'', CFloat (4/5)),
         (''bb_buffer_pct'', CFloat 2),
         (''llm_threshold'', CInt 65),
         (''max_position_allocation'', CFloat 15),
         (''max_stock_pct'', CFloat 12),
         (''max_sector_pct'', CFloat 30),
         (''cash_keep_pct'', CFloat 5),
         (''target_profit_pct'', CFloat 8),
         (''base_stop_loss_pct'', CFloat 6),
         (''stop_loss_atr_mult'', CFloat 2),
         (''sell_rsi_1'', CFloat 70),
         (''sell_rsi_2'', CFloat 75),
         (''sell_rsi_3'', CFloat 78),
         (''max_buys_per_day'', CInt 3),
         (''max_hold_days'', CInt 25)]),
     (''aggressive_swing'', Some
        [(''rsi_buy'', CInt 30),
         (''breakout_buffer_pct'', CFloat (4/5)),
         (''bb_buffer_pct'', CFloat 1),
         (''llm_threshold'', CInt 65),
         (''max_position_allocation'', CFloat 15),
         (''max_stock_pct'', CFloat 15),
         (''max_sector_pct'', CFloat 35),
         (''cash_keep_pct'', CFloat 3),
         (''target_profit_pct'', CFloat 10),
         (''base_stop_loss_pct'', CFloat 6),
         (''stop_loss_atr_mult'', CFloat (9/5)),
         (''sell_rsi_1'', CFloat 68),
         (''sell_rsi_2'', CFloat 75),
         (''sell_rsi_3'', CFloat 78),
         (''max_buys_per_day'', CInt 4),
         (''max_hold_days'', CInt 30)]),
     (''iron_shield'', Some
        [(''rsi_buy'', CInt 35),
         (''breakout_buffer_pct'', CFloat (4/5)),
         (''bb_buffer_pct'', CFloat 2),
         (''llm_threshold'', CInt 75),
         (''max_position_allocation'', CFloat 15),
         (''max_stock_pct'', CFloat 15),
         (''max_sector_pct'', CFloat 35),
         (''cash_keep_pct'', CFloat 5),
         (''target_profit_pct'', CFloat 8),
         (''base_stop_loss_pct'', CFloat 4),
         (''stop_loss_atr_mult'', CFloat 2),
         (''sell_rsi_1'', CFloat 70),
         (''sell_rsi_2'', CFloat 75),
         (''sell_rsi_3'', CFloat 78),
         (''max_buys_per_day'', CInt 3),
         (''max_hold_days'', CInt 35)])]"

section \<open>The loop as a batch of writes\<close>

lemma apply_entries_fold:
  "apply_entries m ps w c =
   fold (\<lambda>(k, v). memory_put (now w) k v)
     (List.map_filter (\<lambda>(p, k). map_option (\<lambda>v. (k, v)) (map_of ps p)) m) c"
  by (induction m ps w c rule: apply_entries.induct)
    (auto simp: cfg_set_def Let_def map_filter_simps split: option.splits)

lemma preset_entries_keys: "fst ` set (preset_entries ps) \<subseteq> snd ` set config_key_map"
  by (force simp: preset_entries_def map_filter_def)

lemma distinct_map_filter_fst:
  "distinct (map snd m) \<Longrightarrow>
   distinct (map fst (List.map_filter (\<lambda>(p, k). map_option (\<lambda>v. (k, v)) (map_of ps p)) m))"
proof (induction m)
  case Nil
  then show ?case by (simp add: map_filter_simps)
next
  case (Cons x m)
  have "fst ` set (List.map_filter (\<lambda>(p, k). map_option (\<lambda>v. (k, v)) (map_of ps p)) m) \<subseteq> snd ` set m"
    by (force simp: map_filter_def)
  with Cons show ?case
    by (cases x) (auto simp: map_filter_simps split: option.splits)
qed

lemma config_keys_distinct: "distinct (map snd config_key_map)" "distinct (map fst config_key_map)"
  by code_simp+

lemma preset_entries_distinct: "distinct (map fst (preset_entries ps))"
  unfolding preset_entries_def by (rule distinct_map_filter_fst) (rule config_keys_distinct)

lemma apply_preset_fold:
  "apply_preset_to_config ps w c = fold (\<lambda>(k, v). memory_put (now w) k v) (preset_entries ps) c"
  by (auto simp: apply_preset_to_config_def preset_entries_def apply_entries_fold map_filter_def)

text \<open>A key no preset parameter maps to keeps its value in every read.\<close>

lemma apply_preset_cfg_get:
  assumes "k \<notin> snd ` set config_key_map"
  shows "fst (cfg_get w2 k d True (apply_preset_to_config ps w c)) = fst (cfg_get w2 k d True c)"
proof -
  let ?c = "apply_preset_to_config ps w c"
  have "k \<notin> fst ` set (preset_entries ps)" using assms preset_entries_keys by blast
  then have m: "memory_fetch t k ?c = memory_fetch t k c" for t
    unfolding apply_preset_fold by (rule mem.fetch_puts_frame)
  have "db_cache (fold (\<lambda>(k, v). memory_put t k v) kvs c) = db_cache c \<and>
      cache_ttl (fold (\<lambda>(k, v). memory_put t k v) kvs c) = cache_ttl c" for t kvs
    by (induction kvs arbitrary: c) (auto simp: memory_put_def)
  then have "db_cache ?c = db_cache c" "cache_ttl ?c = cache_ttl c"
    unfolding apply_preset_fold by blast+
  with m [of "now w2"] show ?thesis
    by (cases "config_table w2 k"; cases "fresh (now w2) (cache_ttl c) (db_cache c k)";
        cases "fresh (now w2) (cache_ttl c) (memory_cache c k)";
        auto simp: cfg_get_def db_lookup_def memory_fetch_def split: option.splits)
qed

section \<open>Properties\<close>

text \<open>
  Applying a preset makes every mapped parameter of the preset the value of its
  configuration key until the cache entry expires, over the database and the environment,
  and leaves the cached value of every other key as it was.
\<close>

theorem apply_preset_effect:
  assumes "now w2 - now w < cache_ttl c"
  shows "(\<forall>(p, k) \<in> set config_key_map. \<forall>v. map_of ps p = Some v \<longrightarrow>
            fst (cfg_get w2 k d True (apply_preset_to_config ps w c)) = v) \<and>
         (\<forall>k. k \<notin> snd ` set config_key_map \<longrightarrow>
            memory_fetch (now w2) k (apply_preset_to_config ps w c) = memory_fetch (now w2) k c)"
proof (intro conjI ballI allI impI, goal_cases)
  case (1 x)
  obtain p k where x: "x = (p, k)" by (cases x)
  show ?case unfolding x
  proof (clarify)
    fix v assume "map_of ps p = Some v"
    with 1 x have "(k, v) \<in> set (preset_entries ps)"
      by (force simp: preset_entries_def map_filter_def)
    with assms have "memory_fetch (now w2) k (apply_preset_to_config ps w c) = Some v"
      unfolding apply_preset_fold by (intro mem.fetch_puts_distinct preset_entries_distinct)
    then show "fst (cfg_get w2 k d True (apply_preset_to_config ps w c)) = v"
      by (simp add: cfg_get_memory)
  qed
next
  case (2 k)
  then have "k \<notin> fst ` set (preset_entries ps)"
    using preset_entries_keys by blast
  then show ?case unfolding apply_preset_fold by (rule mem.fetch_puts_frame)
qed

theorem apply_preset_effect_witness:
  "fst (cfg_get (demo_world\<lparr>now := 299\<rparr>) ''SELL_STOP_LOSS_PCT'' CNone True
     (apply_preset_to_config [(''base_stop_loss_pct'', CFloat 6)] demo_world (config_init 300))) = CFloat 6"
proof -
  have ttl: "now (demo_world\<lparr>now := 299\<rparr>) - now demo_world < cache_ttl (config_init 300)"
    by (simp add: demo_world_def config_init_def)
  have "(''base_stop_loss_pct'', ''SELL_STOP_LOSS_PCT'') \<in> set config_key_map"
    by (simp add: config_key_map_def)
  with conjunct1 [OF apply_preset_effect [OF ttl, of "[(''base_stop_loss_pct'', CFloat 6)]" CNone]]
  show ?thesis by fastforce
qed

text \<open>
  The parameters chosen for a regime are never empty, whatever the preset file holds
  and whether it can be read or not: \<open>apply_preset_to_config\<close> always has something to
  apply.
\<close>

theorem resolve_preset_nonempty: "snd (resolve_preset_for_regime raw regime fallback) \<noteq> []"
  by (auto simp: resolve_preset_for_regime_def Let_def get_param_defaults_def param_defaults_def)

text \<open>
  With the shipped preset file the three mapped regimes get their own preset, and a
  strong bull market, which the mapping does not contain, gets the balanced preset of a
  sideways market rather than the aggressive one of a bull market.
\<close>

theorem shipped_regime_presets:
  "fst (resolve_preset_for_regime (Some shipped_presets) (Some ''BULL'') ''balanced_champion'') = ''aggressive_swing'' \<and>
   fst (resolve_preset_for_regime (Some shipped_presets) (Some ''BEAR'') ''balanced_champion'') = ''iron_shield'' \<and>
   resolve_preset_for_regime (Some shipped_presets) (Some ''STRONG_BULL'') ''balanced_champion'' =
   resolve_preset_for_regime (Some shipped_presets) (Some ''SIDEWAYS'') ''balanced_champion'' \<and>
   list_all (\<lambda>(_, ps). case ps of None \<Rightarrow> False
      | Some p \<Rightarrow> list_all (\<lambda>k. map_of p k \<noteq> None) (map fst param_defaults)) shipped_presets"
  by code_simp

end
