(* ===== verification/Position_Sizing.thy ===== *)
theory Position_Sizing
  imports Config
begin

text \<open>
  \<open>shared/position_sizing.py\<close>: the \<open>PositionSizer\<close>, which turns the average true range
  of a stock, the cash of the account and the value of the portfolio into a number of
  shares to buy.
\<close>

section \<open>State and results\<close>

record position_sizer =
  risk_per_trade_pct :: rat
  atr_multiplier :: rat
  min_quantity :: int
  max_quantity :: int
  max_position_value_pct :: rat

text \<open>The \<open>atr\<close> argument: Python's None, a float nan, or a number.\<close>

datatype atr_arg = AtrNone | AtrNaN | Atr rat

datatype sizing_reason =
    NoAssets
  | SmartSkip int int
  | BelowMinimum
  | Sized
  | SizingError py_exc

record sizing_result =
  quantity :: int
  risk_amount :: rat
  position_value :: rat
  risk_pct :: rat
  position_pct :: rat
  reason :: sizing_reason

definition sizer_init :: "cfg_world \<Rightarrow> config_manager \<Rightarrow> position_sizer \<times> config_manager" where
  "sizer_init w c =
     (case get_float w ''RISK_PER_TRADE_PCT'' (Some 2) c of (risk, c1) \<Rightarrow>
      case get_float w ''ATR_MULTIPLIER'' (Some 2) c1 of (mult, c2) \<Rightarrow>
      case get_int w ''MIN_QUANTITY'' (Some 1) c2 of (qmin, c3) \<Rightarrow>
      case get_int w ''MAX_QUANTITY'' (Some 1000) c3 of (qmax, c4) \<Rightarrow>
      case get_float w ''MAX_POSITION_VALUE_PCT'' (Some 15) c4 of (mpv, c5) \<Rightarrow>
        (\<lparr>risk_per_trade_pct = risk, atr_multiplier = mult, min_quantity = qmin,
          max_quantity = qmax, max_position_value_pct = mpv\<rparr>, c5))"

definition refresh_from_config ::
  "cfg_world \<Rightarrow> position_sizer \<Rightarrow> config_manager \<Rightarrow> position_sizer \<times> config_manager" where
  "refresh_from_config w s c =
     (case get_float w ''RISK_PER_TRADE_PCT'' (Some (risk_per_trade_pct s)) c of (risk, c1) \<Rightarrow>
      case get_float w ''ATR_MULTIPLIER'' (Some (atr_multiplier s)) c1 of (mult, c2) \<Rightarrow>
      case get_int w ''MIN_QUANTITY'' (Some (min_quantity s)) c2 of (qmin, c3) \<Rightarrow>
      case get_int w ''MAX_QUANTITY'' (Some (max_quantity s)) c3 of (qmax, c4) \<Rightarrow>
      case get_float w ''MAX_POSITION_VALUE_PCT'' (Some (max_position_value_pct s)) c4 of (mpv, c5) \<Rightarrow>
        (\<lparr>risk_per_trade_pct = risk, atr_multiplier = mult, min_quantity = qmin,
          max_quantity = qmax, max_position_value_pct = mpv\<rparr>, c5))"

definition create_result :: "int \<Rightarrow> sizing_reason \<Rightarrow> sizing_result" where
  "create_result q why =
     \<lparr>quantity = q, risk_amount = 0, position_value = 0, risk_pct = 0, position_pct = 0, reason = why\<rparr>"

section \<open>The calculation\<close>

text \<open>Step 3: without a usable ATR, 2% of the price stands in for it.\<close>

definition effective_atr :: "atr_arg \<Rightarrow> rat \<Rightarrow> rat" where
  "effective_atr a price =
     (case a of
        AtrNone \<Rightarrow> price * (2/100)
      | AtrNaN \<Rightarrow> price * (2/100)
      | Atr x \<Rightarrow> if x \<le> 0 then price * (2/100) else x)"

text \<open>
  Steps 1 to 3, up to the unrounded number of shares: an exception, a result returned
  early, or the risk per share, the number of shares and the total assets. The log line
  at the top formats \<open>atr\<close> with \<open>:,.0f\<close>, which raises TypeError for None: the None
  test of step 3 is never reached with a None.
\<close>

definition sizing_target ::
  "position_sizer \<Rightarrow> rat \<Rightarrow> atr_arg \<Rightarrow> rat \<Rightarrow> rat \<Rightarrow> (sizing_result + rat \<times> rat \<times> rat) res" where
  "sizing_target s stock_price atr account_balance portfolio_value =
     (if atr = AtrNone then Inl TypeError
      else
        let total_assets = account_balance + portfolio_value in
        if total_assets \<le> 0 then Inr (Inl (create_result 0 NoAssets))
        else
          let budget = pct_of (risk_per_trade_pct s) total_assets;
              risk_per_share = effective_atr atr stock_price * atr_multiplier s
          in rbind (py_div budget risk_per_share)
               (\<lambda>quantity_raw. Inr (Inr (risk_per_share, quantity_raw, total_assets))))"

text \<open>Step 4-1: the configured minimum and maximum number of shares.\<close>

definition clamp_quantity :: "position_sizer \<Rightarrow> int \<Rightarrow> int" where
  "clamp_quantity s q =
     (if q < min_quantity s then min_quantity s
      else if max_quantity s < q then max_quantity s else q)"

text \<open>Steps 4-2 to 4-4: the largest amount one position may take, and the cash-based part of it.\<close>

definition max_by_cash :: "rat \<Rightarrow> rat \<Rightarrow> rat \<Rightarrow> rat" where
  "max_by_cash total_assets cash_keep_pct account_balance =
     max 0 (account_balance - pct_of cash_keep_pct total_assets)"

definition max_position_value :: "position_sizer \<Rightarrow> rat \<Rightarrow> rat \<Rightarrow> rat \<Rightarrow> rat" where
  "max_position_value s total_assets cash_keep_pct account_balance =
     min (pct_of (max_position_value_pct s) total_assets)
         (max_by_cash total_assets cash_keep_pct account_balance)"

text \<open>Step 5: the result for a quantity, or the rejection of one below the minimum.\<close>

definition finish_sizing :: "position_sizer \<Rightarrow> int \<Rightarrow> rat \<Rightarrow> rat \<Rightarrow> rat \<Rightarrow> sizing_result" where
  "finish_sizing s q value risk_per_share total_assets =
     (if q < min_quantity s then create_result 0 BelowMinimum
      else
        \<lparr>quantity = q, risk_amount = of_int q * risk_per_share, position_value = value,
         risk_pct = of_int q * risk_per_share / total_assets * 100,
         position_pct = value / total_assets * 100, reason = Sized\<rparr>)"

text \<open>
  Steps 4 and 5, with the Smart Skip of version 3.5: when the cash limit is the binding one
  and cuts the target by more than half, nothing is bought.
\<close>

definition sizing_limits ::
  "position_sizer \<Rightarrow> rat \<Rightarrow> rat \<Rightarrow> rat \<Rightarrow> rat \<Rightarrow> rat \<Rightarrow> rat \<Rightarrow> sizing_result res" where
  "sizing_limits s cash_keep_pct stock_price account_balance risk_per_share quantity_raw total_assets =
     (let q = clamp_quantity s (py_int quantity_raw);
          value = of_int q * stock_price;
          by_cash = max_by_cash total_assets cash_keep_pct account_balance;
          cap = max_position_value s total_assets cash_keep_pct account_balance in
      if cap < value then
        rbind (py_div cap stock_price) (\<lambda>room.
          let q' = py_int room;
              target = py_int quantity_raw in
          if cap = by_cash \<and> 0 < target \<and> of_int q' < of_int target * (1/2 :: rat)
          then Inr (create_result 0 (SmartSkip q' target))
          else Inr (finish_sizing s q' (of_int q' * stock_price) risk_per_share total_assets))
      else Inr (finish_sizing s q value risk_per_share total_assets))"

text \<open>
  \<open>calculate_quantity\<close>: \<open>CASH_KEEP_PCT\<close> is read from the configuration on every call
  that gets as far as step 4; any exception becomes a result of zero shares.
\<close>

definition calculate_quantity ::
  "cfg_world \<Rightarrow> position_sizer \<Rightarrow> rat \<Rightarrow> atr_arg \<Rightarrow> rat \<Rightarrow> rat \<Rightarrow> config_manager \<Rightarrow>
   sizing_result \<times> config_manager" where
  "calculate_quantity w s stock_price atr account_balance portfolio_value c =
     (case sizing_target s stock_price atr account_balance portfolio_value of
        Inl e \<Rightarrow> (create_result 0 (SizingError e), c)
      | Inr (Inl r) \<Rightarrow> (r, c)
      | Inr (Inr (risk_per_share, quantity_raw, total_assets)) \<Rightarrow>
          (case get_float w ''CASH_KEEP_PCT'' (Some 10) c of (keep, c') \<Rightarrow>
             ((case sizing_limits s keep stock_price account_balance risk_per_share quantity_raw total_assets of
                 Inl e \<Rightarrow> create_result 0 (SizingError e)
               | Inr r \<Rightarrow> r), c')))"

definition keep_pct :: "cfg_world \<Rightarrow> config_manager \<Rightarrow> rat" where
  "keep_pct w c = fst (get_float w ''CASH_KEEP_PCT'' (Some 10) c)"

section \<open>What a positive quantity went through\<close>

lemma create_result_simps [simp]:
  "quantity (create_result q why) = q" "reason (create_result q why) = why"
  "position_value (create_result q why) = 0" "risk_amount (create_result q why) = 0"
  by (simp_all add: create_result_def)

lemma finish_sizing_cases:
  obtains "finish_sizing s q v rps ta = create_result 0 BelowMinimum" "q < min_quantity s"
  | "quantity (finish_sizing s q v rps ta) = q" "position_value (finish_sizing s q v rps ta) = v"
    "risk_amount (finish_sizing s q v rps ta) = of_int q * rps" "min_quantity s \<le> q"
    "reason (finish_sizing s q v rps ta) = Sized"
  by (cases "q < min_quantity s") (auto simp: finish_sizing_def)

text \<open>
  A positive quantity was computed from the target: it is at least the minimum, at most the
  clamped target, and costs at most the cap.
\<close>

lemma sizing_limits_positive:
  assumes "sizing_limits s keep p bal rps raw ta = Inr r" "0 < quantity r" "0 < p"
  shows "min_quantity s \<le> quantity r"
    "quantity r \<le> clamp_quantity s (py_int raw)"
    "position_value r = of_int (quantity r) * p"
    "position_value r \<le> max_position_value s ta keep bal"
    "risk_amount r = of_int (quantity r) * rps"
    "reason r = Sized"
proof -
  define q where "q = clamp_quantity s (py_int raw)"
  define cap where "cap = max_position_value s ta keep bal"
  have "min_quantity s \<le> quantity r \<and> quantity r \<le> q \<and> position_value r = of_int (quantity r) * p \<and>
    position_value r \<le> cap \<and> risk_amount r = of_int (quantity r) * rps \<and> reason r = Sized"
  proof (cases "cap < of_int q * p")
    case False
    with assms(1) have r: "r = finish_sizing s q (of_int q * p) rps ta"
      by (simp add: sizing_limits_def Let_def q_def cap_def)
    show ?thesis
      by (rule finish_sizing_cases [of s q "of_int q * p" rps ta]) (use assms(2) False in \<open>auto simp: r\<close>)
  next
    case True
    define q' where "q' = py_int (cap / p)"
    from True assms have r: "r = finish_sizing s q' (of_int q' * p) rps ta"
      by (auto simp: sizing_limits_def Let_def q_def cap_def q'_def split: if_splits)
    have qr: "quantity r = q'" "min_quantity s \<le> q'"
      by (rule finish_sizing_cases [of s q' "of_int q' * p" rps ta]; use assms(2) in \<open>simp add: r\<close>)+
    with assms(2) have "1 \<le> cap / p" by (simp add: q'_def py_int_pos_iff)
    then have cap: "0 \<le> cap" using assms(3) by (simp add: field_simps)
    have "of_int q' \<le> cap / p" unfolding q'_def
      using \<open>1 \<le> cap / p\<close> by (intro py_int_le) linarith
    also have "cap / p < of_int q" using True assms(3) by (simp add: pos_divide_less_eq)
    finally have le: "q' \<le> q" by simp
    have cost: "of_int q' * p \<le> cap" unfolding q'_def using assms(3) cap by (rule py_int_div_cost)
    show ?thesis
      by (rule finish_sizing_cases [of s q' "of_int q' * p" rps ta])
        (use assms(2) qr le cost in \<open>auto simp: r\<close>)
  qed
  then show "min_quantity s \<le> quantity r" "quantity r \<le> clamp_quantity s (py_int raw)"
    "position_value r = of_int (quantity r) * p" "position_value r \<le> max_position_value s ta keep bal"
    "risk_amount r = of_int (quantity r) * rps" "reason r = Sized"
    by (simp_all add: q_def cap_def)
qed

lemma calculate_quantity_positive:
  assumes "calculate_quantity w s p a bal pv c = (r, c')" "0 < quantity r"
  obtains rps raw where
    "a \<noteq> AtrNone" "0 < bal + pv" "rps = effective_atr a p * atr_multiplier s" "rps \<noteq> 0"
    "raw = pct_of (risk_per_trade_pct s) (bal + pv) / rps"
    "sizing_limits s (keep_pct w c) p bal rps raw (bal + pv) = Inr r"
  using assms
  by (auto simp: calculate_quantity_def sizing_target_def keep_pct_def Let_def py_div_def
      split: if_splits sum.splits prod.splits)

section \<open>Properties\<close>

text \<open>
  C17. A purchase the sizer proposes respects both money limits: the position is worth at
  most the configured share of the total assets, and after paying for it the account still
  holds the cash reserve.
\<close>

theorem sizing_money_limits:
  assumes "calculate_quantity w s p a bal pv c = (r, c')" "0 < quantity r" "0 < p"
  shows "position_value r = of_int (quantity r) * p \<and>
    position_value r \<le> pct_of (max_position_value_pct s) (bal + pv) \<and>
    pct_of (keep_pct w c) (bal + pv) \<le> bal - position_value r"
proof -
  from assms(1,2) obtain rps raw where
    lim: "sizing_limits s (keep_pct w c) p bal rps raw (bal + pv) = Inr r"
    by (rule calculate_quantity_positive)
  note pos = sizing_limits_positive [OF lim assms(2,3)]
  have "0 < position_value r" using pos(3) assms(2,3) by simp
  with pos(4) have "0 < max_by_cash (bal + pv) (keep_pct w c) bal"
    "position_value r \<le> max_by_cash (bal + pv) (keep_pct w c) bal"
    by (auto simp: max_position_value_def)
  then have "pct_of (keep_pct w c) (bal + pv) \<le> bal - position_value r"
    by (auto simp: max_by_cash_def max_def split: if_splits)
  with pos(3,4) show ?thesis by (auto simp: max_position_value_def)
qed

definition default_sizer :: position_sizer where
  "default_sizer = \<lparr>risk_per_trade_pct = 2, atr_multiplier = 2, min_quantity = 1,
     max_quantity = 1000, max_position_value_pct = 15\<rparr>"

definition plain_world :: cfg_world where
  "plain_world = \<lparr>now = 0, session_ok = True, db_read_ok = True, db_write_ok = True,
     config_table = Map.empty, environ = Map.empty\<rparr>"

lemma plain_keep_pct: "get_float plain_world ''CASH_KEEP_PCT'' (Some 10) (config_init 300) = (10, config_init 300)"
  by (simp add: get_float_def cfg_get_def db_lookup_def static_lookup_def plain_world_def config_init_def)

lemmas sizing_eval = calculate_quantity_def sizing_target_def default_sizer_def effective_atr_def
  plain_keep_pct sizing_limits_def clamp_quantity_def max_by_cash_def max_position_value_def
  pct_of_def Let_def py_int_def finish_sizing_def

text \<open>
  A stock at 70,000 won with an ATR of 1,400 and ten million won in cash: the risk budget
  asks for 71 shares and the 15% limit allows 21.
\<close>

definition demo_sizing :: "sizing_result" where
  "demo_sizing = \<lparr>quantity = 21, risk_amount = 58800, position_value = 1470000,
     risk_pct = 147/250, position_pct = 147/10, reason = Sized\<rparr>"

lemma demo_calculation:
  "calculate_quantity plain_world default_sizer 70000 (Atr 1400) 10000000 0 (config_init 300) =
   (demo_sizing, config_init 300)"
  by (simp add: sizing_eval demo_sizing_def)

theorem sizing_money_limits_witness:
  "position_value demo_sizing \<le> pct_of 15 10000000 \<and> pct_of 10 10000000 \<le> 10000000 - position_value demo_sizing"
proof -
  have "0 < quantity demo_sizing" by (simp add: demo_sizing_def)
  from sizing_money_limits [OF demo_calculation this] show ?thesis
    by (simp add: keep_pct_def plain_keep_pct default_sizer_def)
qed

text \<open>
  With consistent limits a proposed quantity lies between the configured minimum and
  maximum, and a zero quantity is exactly a rejection: some reason other than a completed
  sizing.
\<close>

theorem sizing_quantity_range:
  assumes "calculate_quantity w s p a bal pv c = (r, c')" "0 < p"
    and "1 \<le> min_quantity s" "min_quantity s \<le> max_quantity s"
  shows "(quantity r = 0 \<or> (min_quantity s \<le> quantity r \<and> quantity r \<le> max_quantity s)) \<and>
    (reason r = Sized \<longleftrightarrow> quantity r \<noteq> 0)"
proof (cases "0 < quantity r")
  case True
  with assms(1) obtain rps raw where
    lim: "sizing_limits s (keep_pct w c) p bal rps raw (bal + pv) = Inr r"
    by (rule calculate_quantity_positive)
  note pos = sizing_limits_positive [OF lim True assms(2)]
  have "clamp_quantity s (py_int raw) \<le> max_quantity s"
    using assms(4) by (simp add: clamp_quantity_def)
  with pos True show ?thesis by auto
next
  case False
  have "reason r \<noteq> Sized \<and> quantity r = 0"
    using assms False
    by (auto simp: calculate_quantity_def sizing_target_def sizing_limits_def finish_sizing_def
        Let_def py_div_def split: if_splits sum.splits prod.splits)
  then show ?thesis by simp
qed

theorem sizing_quantity_range_witness:
  "quantity demo_sizing = 0 \<or> (1 \<le> quantity demo_sizing \<and> quantity demo_sizing \<le> 1000)"
  using sizing_quantity_range [OF demo_calculation] by (simp add: default_sizer_def)

text \<open>
  The risk rule: unless the minimum quantity was forced on a smaller target, the money
  at risk (shares times ATR times the multiplier) stays within the configured percentage of
  the total assets.
\<close>

theorem sizing_risk_budget:
  assumes "calculate_quantity w s p a bal pv c = (r, c')" "0 < quantity r" "0 < p"
    and "0 < atr_multiplier s" "0 \<le> risk_per_trade_pct s"
    and "min_quantity s \<le> py_int (pct_of (risk_per_trade_pct s) (bal + pv) / (effective_atr a p * atr_multiplier s))"
  shows "risk_amount r \<le> pct_of (risk_per_trade_pct s) (bal + pv)"
proof -
  from assms(1,2) obtain rps raw where
    ta: "0 < bal + pv" and rps: "rps = effective_atr a p * atr_multiplier s"
    and raw: "raw = pct_of (risk_per_trade_pct s) (bal + pv) / rps"
    and lim: "sizing_limits s (keep_pct w c) p bal rps raw (bal + pv) = Inr r"
    by (rule calculate_quantity_positive)
  note pos = sizing_limits_positive [OF lim assms(2,3)]
  have "0 < effective_atr a p"
    using assms(3) by (simp add: effective_atr_def split: atr_arg.splits)
  with assms(4) have rps0: "0 < rps" by (simp add: rps)
  have raw0: "0 \<le> raw"
    using ta rps0 assms(5) by (simp add: raw pct_of_nonneg)
  have "quantity r \<le> py_int raw"
    using pos(2) assms(6) by (auto simp: clamp_quantity_def rps raw split: if_splits)
  then have "of_int (quantity r) \<le> (of_int (py_int raw) :: rat)" by simp
  also have "\<dots> \<le> raw" using raw0 by (rule py_int_le)
  finally have "of_int (quantity r) * rps \<le> raw * rps"
    using rps0 by (intro mult_right_mono) simp_all
  with rps0 show ?thesis by (simp add: pos(5) raw)
qed

theorem sizing_risk_budget_witness: "risk_amount demo_sizing \<le> pct_of 2 10000000"
proof -
  have q: "0 < quantity demo_sizing" by (simp add: demo_sizing_def)
  have "min_quantity default_sizer \<le>
    py_int (pct_of (risk_per_trade_pct default_sizer) (10000000 + 0) /
      (effective_atr (Atr 1400) 70000 * atr_multiplier default_sizer))"
    by (simp add: default_sizer_def effective_atr_def pct_of_def py_int_def)
  from sizing_risk_budget [OF demo_calculation q _ _ _ this] show ?thesis
    by (simp add: default_sizer_def)
qed

text \<open>
  The Smart Skip rule: where the cash limit binds and the target does not exceed the
  maximum quantity, a purchase that is proposed at all covers at least half of the target.
\<close>

theorem sizing_smart_skip:
  assumes "calculate_quantity w s p a bal pv c = (r, c')" "0 < quantity r" "0 < p"
    and "target = py_int (pct_of (risk_per_trade_pct s) (bal + pv) / (effective_atr a p * atr_multiplier s))"
    and "target \<le> max_quantity s"
    and "max_by_cash (bal + pv) (keep_pct w c) bal \<le> pct_of (max_position_value_pct s) (bal + pv)"
  shows "target \<le> 2 * quantity r"
proof -
  from assms(1,2) obtain rps raw where
    tgt: "target = py_int raw"
    and lim: "sizing_limits s (keep_pct w c) p bal rps raw (bal + pv) = Inr r"
    by (rule calculate_quantity_positive) (simp add: assms(4))
  have cap: "max_position_value s (bal + pv) (keep_pct w c) bal = max_by_cash (bal + pv) (keep_pct w c) bal"
    using assms(6) by (simp add: max_position_value_def)
  define q where "q = clamp_quantity s target"
  have q: "target \<le> q" using assms(5) by (simp add: q_def clamp_quantity_def)
  have fin: "quantity (finish_sizing s n v k t) = n \<or> quantity (finish_sizing s n v k t) = 0" for n v k t
    by (simp add: finish_sizing_def)
  show ?thesis
  proof (cases "max_by_cash (bal + pv) (keep_pct w c) bal < of_int q * p")
    case False
    with lim have "r = finish_sizing s q (of_int q * p) rps (bal + pv)"
      by (simp add: sizing_limits_def Let_def q_def tgt cap)
    with fin [of q] assms(2) have "quantity r = q" by (metis less_irrefl)
    with q assms(2) show ?thesis by linarith
  next
    case True
    define q' where "q' = py_int (max_by_cash (bal + pv) (keep_pct w c) bal / p)"
    from True lim assms(2,3) have skip: "\<not> (0 < target \<and> of_int q' < of_int target * (1/2 :: rat))"
      and r: "r = finish_sizing s q' (of_int q' * p) rps (bal + pv)"
      by (auto simp: sizing_limits_def Let_def q_def q'_def tgt cap split: if_splits)
    from r fin [of q'] assms(2) have "quantity r = q'" by (metis less_irrefl)
    with skip assms(2) show ?thesis by (cases "0 < target") (auto simp: field_simps)
  qed
qed

definition cash_poor :: "sizing_result" where
  "cash_poor = \<lparr>quantity = 17, risk_amount = 190400, position_value = 1190000,
     risk_pct = 238/125, position_pct = 119/10, reason = Sized\<rparr>"

lemma cash_poor_calculation:
  "calculate_quantity plain_world default_sizer 70000 (Atr 5600) 2200000 7800000 (config_init 300) =
   (cash_poor, config_init 300)"
  by (simp add: sizing_eval cash_poor_def)

theorem sizing_smart_skip_witness: "17 \<le> 2 * quantity cash_poor"
proof -
  have "(17::int) = py_int (pct_of (risk_per_trade_pct default_sizer) (2200000 + 7800000) /
      (effective_atr (Atr 5600) 70000 * atr_multiplier default_sizer))"
    by (simp add: default_sizer_def effective_atr_def pct_of_def py_int_def)
  from sizing_smart_skip [OF cash_poor_calculation _ _ this] show ?thesis
    by (simp add: cash_poor_def default_sizer_def keep_pct_def plain_keep_pct max_by_cash_def pct_of_def)
qed

text \<open>
  A missing ATR (None) never gets the 2% fallback written for it: the log line that
  formats it raises, and the result is zero shares, while nan and non-positive values do get
  the fallback.
\<close>

theorem sizing_none_atr_is_error:
  "calculate_quantity w s p AtrNone bal pv c = (create_result 0 (SizingError TypeError), c) \<and>
   calculate_quantity w s p AtrNaN bal pv c = calculate_quantity w s p (Atr 0) bal pv c"
  by (simp add: calculate_quantity_def sizing_target_def effective_atr_def cong: if_cong)

end
