(* ===== verification/Sectors.thy ===== *)
theory Sectors
  imports Interfaces Config
begin

text \<open>
  \<open>shared/sector_classifier.py\<close> and \<open>shared/portfolio_diversification.py\<close>: the sector of
  a stock (memoised), and the check that a purchase keeps the portfolio spread over sectors
  and stocks.

  Korean texts are their UTF-8 bytes. \<open>keyword in name\<close> on code points and on UTF-8 bytes
  agree, since no character's encoding occurs inside another's.
\<close>

section \<open>Sector classification\<close>

definition sector_other :: string where
  "sector_other = [CHR 0xEA, CHR 0xB8, CHR 0xB0, CHR 0xED, CHR 0x83, CHR 0x80]"

definition sector_unclassified :: string where
  "sector_unclassified = [CHR 0xEB, CHR 0xAF, CHR 0xB8, CHR 0xEB, CHR 0xB6, CHR 0x84, CHR 0xEB, CHR 0xA5, CHR 0x98]"

definition sector_keywords :: "(string \<times> string list) list" where
  "sector_keywords =
   [([CHR 0xEC, CHR 0xA0, CHR 0x95, CHR 0xEB, CHR 0xB3, CHR 0xB4, CHR 0xED, CHR 0x86, CHR 0xB5, CHR 0xEC, CHR 0x8B, CHR 0xA0],
      [[CHR 0xEC, CHR 0x82, CHR 0xBC, CHR 0xEC, CHR 0x84, CHR 0xB1, CHR 0xEC, CHR 0xA0, CHR 0x84, CHR 0xEC, CHR 0x9E, CHR 0x90],
       [CHR 0x53, CHR 0x4B, CHR 0xED, CHR 0x95, CHR 0x98, CHR 0xEC, CHR 0x9D, CHR 0xB4, CHR 0xEB, CHR 0x8B, CHR 0x89, CHR 0xEC, CHR 0x8A, CHR 0xA4],
       ''NAVER'',
       [CHR 0xEC, CHR 0xB9, CHR 0xB4, CHR 0xEC, CHR 0xB9, CHR 0xB4, CHR 0xEC, CHR 0x98, CHR 0xA4],
       [CHR 0xEC, CHR 0x82, CHR 0xBC, CHR 0xEC, CHR 0x84, CHR 0xB1, CHR 0x53, CHR 0x44, CHR 0x49],
       [CHR 0x4C, CHR 0x47, CHR 0xEC, CHR 0xA0, CHR 0x84, CHR 0xEC, CHR 0x9E, CHR 0x90],
       [CHR 0xEC, CHR 0x82, CHR 0xBC, CHR 0xEC, CHR 0x84, CHR 0xB1, CHR 0xEC, CHR 0xA0, CHR 0x84, CHR 0xEA, CHR 0xB8, CHR 0xB0],
       [CHR 0x53, CHR 0x4B, CHR 0xED, CHR 0x85, CHR 0x94, CHR 0xEB, CHR 0xA0, CHR 0x88, CHR 0xEC, CHR 0xBD, CHR 0xA4],
       [CHR 0xED, CHR 0x95, CHR 0x98, CHR 0xEC, CHR 0x9D, CHR 0xB4, CHR 0xEB, CHR 0xB8, CHR 0x8C],
       [CHR 0xED, CHR 0x81, CHR 0xAC, CHR 0xEB, CHR 0x9E, CHR 0x98, CHR 0xED, CHR 0x94, CHR 0x84, CHR 0xED, CHR 0x86, CHR 0xA4],
       ''KT'',
       [CHR 0xEB, CHR 0x8C, CHR 0x80, CHR 0xEB, CHR 0x8D, CHR 0x95, CHR 0xEC, CHR 0xA0, CHR 0x84, CHR 0xEC, CHR 0x9E, CHR 0x90],
       [CHR 0xEC, CHR 0x9D, CHR 0xB4, CHR 0xEC, CHR 0x88, CHR 0x98, CHR 0xED, CHR 0x8E, CHR 0x98, CHR 0xED, CHR 0x83, CHR 0x80, CHR 0xEC, CHR 0x8B, CHR 0x9C, CHR 0xEC, CHR 0x8A, CHR 0xA4],
       [CHR 0xEB, CHR 0x94, CHR 0x94, CHR 0xEC, CHR 0x95, CHR 0x84, CHR 0xEC, CHR 0x9D, CHR 0xB4],
       [CHR 0xEC, CHR 0xBD, CHR 0x94, CHR 0xEB, CHR 0xA6, CHR 0xAC, CHR 0xEC, CHR 0x95, CHR 0x84, CHR 0xEC, CHR 0x8D, CHR 0xA8, CHR 0xED, CHR 0x82, CHR 0xA4, CHR 0xED, CHR 0x8A, CHR 0xB8],
       [CHR 0xED, CHR 0x95, CHR 0xB4, CHR 0xEC, CHR 0x84, CHR 0xB1, CHR 0xEB, CHR 0x94, CHR 0x94, CHR 0xEC, CHR 0x97, CHR 0x90, CHR 0xEC, CHR 0x8A, CHR 0xA4],
       [CHR 0xEC, CHR 0x82, CHR 0xBC, CHR 0xEC, CHR 0x98, CHR 0x81]]),
    ([CHR 0xEC, CHR 0x9E, CHR 0x90, CHR 0xEC, CHR 0x9C, CHR 0xA0, CHR 0xEC, CHR 0x86, CHR 0x8C, CHR 0xEB, CHR 0xB9, CHR 0x84, CHR 0xEC, CHR 0x9E, CHR 0xAC],
      [[CHR 0xED, CHR 0x98, CHR 0x84, CHR 0xEB, CHR 0x8C, CHR 0x80, CHR 0xEC, CHR 0xB0, CHR 0xA8],
       [CHR 0xEA, CHR 0xB8, CHR 0xB0, CHR 0xEC, CHR 0x95, CHR 0x84],
       [CHR 0xED, CHR 0x98, CHR 0x84, CHR 0xEB, CHR 0x8C, CHR 0x80, CHR 0xEB, CHR 0xAA, CHR 0xA8, CHR 0xEB, CHR 0xB9, CHR 0x84, CHR 0xEC, CHR 0x8A, CHR 0xA4],
       [CHR 0xEB, CHR 0xA7, CHR 0x8C, CHR 0xEB, CHR 0x8F, CHR 0x84],
       [CHR 0xED, CHR 0x95, CHR 0x9C, CHR 0xEC, CHR 0x98, CHR 0xA8, CHR 0xEC, CHR 0x8B, CHR 0x9C, CHR 0xEC, CHR 0x8A, CHR 0xA4, CHR 0xED, CHR 0x85, CHR 0x9C],
       [CHR 0x4C, CHR 0x47, CHR 0xEC, CHR 0x83, CHR 0x9D, CHR 0xED, CHR 0x99, CHR 0x9C, CHR 0xEA, CHR 0xB1, CHR 0xB4, CHR 0xEA, CHR 0xB0, CHR 0x95],
       [CHR 0xEC, CHR 0x95, CHR 0x84, CHR 0xEB, CHR 0xAA, CHR 0xA8, CHR 0xEB, CHR 0xA0, CHR 0x88, CHR 0xED, CHR 0x8D, CHR 0xBC, CHR 0xEC, CHR 0x8B, CHR 0x9C, CHR 0xED, CHR 0x94, CHR 0xBD],
       [CHR 0xEC, CHR 0x8B, CHR 0xA0, CHR 0xEC, CHR 0x84, CHR 0xB8, CHR 0xEA, CHR 0xB3, CHR 0x84],
       [CHR 0xEA, CHR 0xB8, CHR 0xB0, CHR 0xEC, CHR 0x95, CHR 0x84, CHR 0xEC, CHR 0xB0, CHR 0xA8],
       [CHR 0xEC, CHR 0xBD, CHR 0x94, CHR 0xEC, CHR 0x98, CHR 0xA4, CHR 0xEB, CHR 0xA1, CHR 0xB1, CHR 0xEB, CHR 0xAA, CHR 0xA8, CHR 0xEB, CHR 0xB9, CHR 0x8C, CHR 0xEB, CHR 0xA6, CHR 0xAC, CHR 0xED, CHR 0x8B, CHR 0xB0],
       [CHR 0xEC, CHR 0xA0, CHR 0x9C, CHR 0xEC, CHR 0x9D, CHR 0xB4, CHR 0xEC, CHR 0xA4, CHR 0x80, CHR 0xEC, CHR 0xBD, CHR 0x94, CHR 0xEC, CHR 0x8A, CHR 0xA4, CHR 0xEB, CHR 0xA9, CHR 0x94, CHR 0xED, CHR 0x8B, CHR 0xB1],
       [CHR 0xEC, CHR 0x9D, CHR 0xBC, CHR 0xEC, CHR 0xA0, CHR 0x95, CHR 0xEC, CHR 0x8B, CHR 0xA4, CHR 0xEC, CHR 0x97, CHR 0x85],
       [CHR 0xEB, CHR 0x8C, CHR 0x80, CHR 0xEC, CHR 0x9D, CHR 0xBC],
       [CHR 0xED, CHR 0x95, CHR 0x9C, CHR 0xEC, CHR 0x84, CHR 0xB8, CHR 0xEC, CHR 0x8B, CHR 0xA4, CHR 0xEC, CHR 0x97, CHR 0x85]]),
    ([CHR 0xEC, CHR 0x97, CHR 0x90, CHR 0xEB, CHR 0x84, CHR 0x88, CHR 0xEC, CHR 0xA7, CHR 0x80, CHR 0xED, CHR 0x99, CHR 0x94, CHR 0xED, CHR 0x95, CHR 0x99],
      [[CHR 0x4C, CHR 0x47, CHR 0xED, CHR 0x99, CHR 0x94, CHR 0xED, CHR 0x95, CHR 0x99],
       [CHR 0x53, CHR 0x4B, CHR 0xEC, CHR 0x9D, CHR 0xB4, CHR 0xEB, CHR 0x85, CHR 0xB8, CHR 0xEB, CHR 0xB2, CHR 0xA0, CHR 0xEC, CHR 0x9D, CHR 0xB4, CHR 0xEC, CHR 0x85, CHR 0x98],
       ''S-Oil'',
       [CHR 0xEB, CHR 0xA1, CHR 0xAF, CHR 0xEB, CHR 0x8D, CHR 0xB0, CHR 0xEC, CHR 0xBC, CHR 0x80, CHR 0xEB, CHR 0xAF, CHR 0xB8, CHR 0xEC, CHR 0xB9, CHR 0xBC],
       [CHR 0xED, CHR 0x8F, CHR 0xAC, CHR 0xEC, CHR 0x8A, CHR 0xA4, CHR 0xEC, CHR 0xBD, CHR 0x94, CHR 0xED, CHR 0x93, CHR 0xA8, CHR 0xEC, CHR 0xB2, CHR 0x98, CHR 0xEC, CHR 0x97, CHR 0xA0],
       [CHR 0x50, CHR 0x4F, CHR 0x53, CHR 0x43, CHR 0x4F, CHR 0xED, CHR 0x93, CHR 0xA8, CHR 0xEC, CHR 0xB2, CHR 0x98, CHR 0xEC, CHR 0x97, CHR 0xA0],
       [CHR 0xEB, CHR 0xA1, CHR 0xAF, CHR 0xEB, CHR 0x8D, CHR 0xB0, CHR 0xEC, CHR 0x97, CHR 0x90, CHR 0xEB, CHR 0x84, CHR 0x88, CHR 0xEC, CHR 0xA7, CHR 0x80, CHR 0xEB, CHR 0xA8, CHR 0xB8, CHR 0xED, CHR 0x8B, CHR 0xB0, CHR 0xEB, CHR 0xA6, CHR 0xAC, CHR 0xEC, CHR 0x96, CHR 0xBC, CHR 0xEC, CHR 0xA6, CHR 0x88],
       [CHR 0xEC, CHR 0x97, CHR 0x98, CHR 0xEC, CHR 0x95, CHR 0xA4, CHR 0xEC, CHR 0x97, CHR 0x90, CHR 0xED, CHR 0x94, CHR 0x84],
       [CHR 0xED, CHR 0x9A, CHR 0xA8, CHR 0xEC, CHR 0x84, CHR 0xB1],
       [CHR 0xEC, CHR 0x9D, CHR 0xB4, CHR 0xEC, CHR 0x88, CHR 0x98, CHR 0xED, CHR 0x99, CHR 0x94, CHR 0xED, CHR 0x95, CHR 0x99]]),
    ([CHR 0xEA, CHR 0xB8, CHR 0x88, CHR 0xEC, CHR 0x9C, CHR 0xB5],
      [[CHR 0x4B, CHR 0x42, CHR 0xEA, CHR 0xB8, CHR 0x88, CHR 0xEC, CHR 0x9C, CHR 0xB5],
       [CHR 0xEC, CHR 0x8B, CHR 0xA0, CHR 0xED, CHR 0x95, CHR 0x9C, CHR 0xEC, CHR 0xA7, CHR 0x80, CHR 0xEC, CHR 0xA3, CHR 0xBC],
       [CHR 0xED, CHR 0x95, CHR 0x98, CHR 0xEB, CHR 0x82, CHR 0x98, CHR 0xEA, CHR 0xB8, CHR 0x88, CHR 0xEC, CHR 0x9C, CHR 0xB5, CHR 0xEC, CHR 0xA7, CHR 0x80, CHR 0xEC, CHR 0xA3, CHR 0xBC],
       [CHR 0xEC, CHR 0x82, CHR 0xBC, CHR 0xEC, CHR 0x84, CHR 0xB1, CHR 0xEC, CHR 0x83, CHR 0x9D, CHR 0xEB, CHR 0xAA, CHR 0x85],
       [CHR 0xEC, CHR 0xB9, CHR 0xB4, CHR 0xEC, CHR 0xB9, CHR 0xB4, CHR 0xEC, CHR 0x98, CHR 0xA4, CHR 0xEB, CHR 0xB1, CHR 0x85, CHR 0xED, CHR 0x81, CHR 0xAC],
       [CHR 0xEA, CHR 0xB8, CHR 0xB0, CHR 0xEC, CHR 0x97, CHR 0x85, CHR 0xEC, CHR 0x9D, CHR 0x80, CHR 0xED, CHR 0x96, CHR 0x89],
       [CHR 0xEC, CHR 0x97, CHR 0x90, CHR 0xEC, CHR 0x9D, CHR 0xB4, CHR 0xED, CHR 0x94, CHR 0x8C, CHR 0xEB, CHR 0x9F, CHR 0xAC, CHR 0xEC, CHR 0x8A, CHR 0xA4, CHR 0xEC, CHR 0x97, CHR 0x90, CHR 0xEC, CHR 0x85, CHR 0x8B]]),
    ([CHR 0xED, CHR 0x95, CHR 0x84, CHR 0xEC, CHR 0x88, CHR 0x98, CHR 0xEC, CHR 0x86, CHR 0x8C, CHR 0xEB, CHR 0xB9, CHR 0x84, CHR 0xEC, CHR 0x9E, CHR 0xAC],
      [[CHR 0xEC, CHR 0x82, CHR 0xBC, CHR 0xEC, CHR 0x84, CHR 0xB1, CHR 0xEB, CHR 0xB0, CHR 0x94, CHR 0xEC, CHR 0x9D, CHR 0xB4, CHR 0xEC, CHR 0x98, CHR 0xA4, CHR 0xEB, CHR 0xA1, CHR 0x9C, CHR 0xEC, CHR 0xA7, CHR 0x81, CHR 0xEC, CHR 0x8A, CHR 0xA4],
       [CHR 0xEC, CHR 0x85, CHR 0x80, CHR 0xED, CHR 0x8A, CHR 0xB8, CHR 0xEB, CHR 0xA6, CHR 0xAC, CHR 0xEC, CHR 0x98, CHR 0xA8],
       [CHR 0x53, CHR 0x4B, CHR 0xEB, CHR 0xB0, CHR 0x94, CHR 0xEC, CHR 0x9D, CHR 0xB4, CHR 0xEC, CHR 0x98, CHR 0xA4, CHR 0xEC, CHR 0x82, CHR 0xAC, CHR 0xEC, CHR 0x9D, CHR 0xB4, CHR 0xEC, CHR 0x96, CHR 0xB8, CHR 0xEC, CHR 0x8A, CHR 0xA4],
       ''KT&G'',
       [CHR 0xEC, CHR 0x95, CHR 0x84, CHR 0xEB, CHR 0xAA, CHR 0xA8, CHR 0xEB, CHR 0xA0, CHR 0x88, CHR 0x47],
       [CHR 0xEC, CHR 0x9D, CHR 0xBC, CHR 0xEB, CHR 0x8F, CHR 0x99, CHR 0xED, CHR 0x99, CHR 0x80, CHR 0xEB, CHR 0x94, CHR 0xA9, CHR 0xEC, CHR 0x8A, CHR 0xA4],
       [CHR 0xED, CHR 0x8C, CHR 0x8C, CHR 0xEB, CHR 0xAF, CHR 0xB8, CHR 0xEC, CHR 0x85, CHR 0x80],
       [CHR 0xED, CHR 0x95, CHR 0x9C, CHR 0xEC, CHR 0x98, CHR 0xAC, CHR 0xEB, CHR 0xB0, CHR 0x94, CHR 0xEC, CHR 0x9D, CHR 0xB4, CHR 0xEC, CHR 0x98, CHR 0xA4, CHR 0xED, CHR 0x8C, CHR 0x8C, CHR 0xEB, CHR 0xA7, CHR 0x88],
       [CHR 0xED, CHR 0x95, CHR 0x9C, CHR 0xEB, CHR 0xAF, CHR 0xB8, CHR 0xEC, CHR 0x95, CHR 0xBD, CHR 0xED, CHR 0x92, CHR 0x88],
       [CHR 0xEC, CHR 0x9D, CHR 0xBC, CHR 0xEB, CHR 0x8F, CHR 0x99, CHR 0xEC, CHR 0xA0, CHR 0x9C, CHR 0xEC, CHR 0x95, CHR 0xBD],
       [CHR 0xEC, CHR 0x82, CHR 0xBC, CHR 0xEC, CHR 0x84, CHR 0xB1, CHR 0xEB, CHR 0xB0, CHR 0x94, CHR 0xEC, CHR 0x9D, CHR 0xB4, CHR 0xEC, CHR 0x98, CHR 0xA4]]),
    ([CHR 0xEC, CHR 0xB2, CHR 0xA0, CHR 0xEA, CHR 0xB0, CHR 0x95, CHR 0xEC, CHR 0x86, CHR 0x8C, CHR 0xEC, CHR 0x9E, CHR 0xAC],
      [[CHR 0x50, CHR 0x4F, CHR 0x53, CHR 0x43, CHR 0x4F, CHR 0xED, CHR 0x99, CHR 0x80, CHR 0xEB, CHR 0x94, CHR 0xA9, CHR 0xEC, CHR 0x8A, CHR 0xA4],
       [CHR 0xEA, CHR 0xB3, CHR 0xA0, CHR 0xEB, CHR 0xA0, CHR 0xA4, CHR 0xEC, CHR 0x95, CHR 0x84, CHR 0xEC, CHR 0x97, CHR 0xB0]]),
    ([CHR 0xEC, CHR 0xA1, CHR 0xB0, CHR 0xEC, CHR 0x84, CHR 0xA0, CHR 0xEC, CHR 0x9A, CHR 0xB4, CHR 0xEC, CHR 0x86, CHR 0xA1],
      [[CHR 0xED, CHR 0x95, CHR 0x9C, CHR 0xEA, CHR 0xB5, CHR 0xAD, CHR 0xEC, CHR 0xA1, CHR 0xB0, CHR 0xEC, CHR 0x84, CHR 0xA0, CHR 0xED, CHR 0x95, CHR 0xB4, CHR 0xEC, CHR 0x96, CHR 0x91],
       ''HMM'',
       [CHR 0xEB, CHR 0x8C, CHR 0x80, CHR 0xED, CHR 0x95, CHR 0x9C, CHR 0xED, CHR 0x95, CHR 0xAD, CHR 0xEA, CHR 0xB3, CHR 0xB5],
       [CHR 0xEB, CHR 0x8F, CHR 0x99, CHR 0xEC, CHR 0x96, CHR 0x91, CHR 0xEA, CHR 0xB3, CHR 0xA0, CHR 0xEC, CHR 0x86, CHR 0x8D]]),
    ([CHR 0xEA, CHR 0xB1, CHR 0xB4, CHR 0xEC, CHR 0x84, CHR 0xA4, CHR 0xEA, CHR 0xB8, CHR 0xB0, CHR 0xEA, CHR 0xB3, CHR 0x84],
      [[CHR 0xEC, CHR 0x82, CHR 0xBC, CHR 0xEC, CHR 0x84, CHR 0xB1, CHR 0xEB, CHR 0xAC, CHR 0xBC, CHR 0xEC, CHR 0x82, CHR 0xB0],
       [CHR 0xED, CHR 0x98, CHR 0x84, CHR 0xEB, CHR 0x8C, CHR 0x80, CHR 0xEA, CHR 0xB1, CHR 0xB4, CHR 0xEC, CHR 0x84, CHR 0xA4],
       [CHR 0xEB, CHR 0x91, CHR 0x90, CHR 0xEC, CHR 0x82, CHR 0xB0, CHR 0xEC, CHR 0x97, CHR 0x90, CHR 0xEB, CHR 0x84, CHR 0x88, CHR 0xEB, CHR 0xB9, CHR 0x8C, CHR 0xEB, CHR 0xA6, CHR 0xAC, CHR 0xED, CHR 0x8B, CHR 0xB0],
       ''LS ELECTRIC'',
       [CHR 0xEB, CHR 0x91, CHR 0x90, CHR 0xEC, CHR 0x82, CHR 0xB0],
       [CHR 0xEB, CHR 0x8C, CHR 0x80, CHR 0xED, CHR 0x95, CHR 0x9C, CHR 0xEC, CHR 0xA0, CHR 0x84, CHR 0xEC, CHR 0x84, CHR 0xA0],
       [CHR 0xEC, CHR 0x9D, CHR 0xBC, CHR 0xEC, CHR 0xA7, CHR 0x84, CHR 0xEC, CHR 0xA0, CHR 0x84, CHR 0xEA, CHR 0xB8, CHR 0xB0],
       [CHR 0xEC, CHR 0x9A, CHR 0xB0, CHR 0xEC, CHR 0xA7, CHR 0x84],
       [CHR 0xEA, CHR 0xB8, CHR 0x88, CHR 0xEA, CHR 0xB0, CHR 0x95, CHR 0xEA, CHR 0xB3, CHR 0xB5, CHR 0xEC, CHR 0x97, CHR 0x85]]),
    ([CHR 0xEA, CHR 0xB8, CHR 0xB0, CHR 0xED, CHR 0x83, CHR 0x80],
      [])]"

fun str_in :: "string \<Rightarrow> string \<Rightarrow> bool" where
  "str_in k [] = (k = [])"
| "str_in k (c # cs) = (take (length k) (c # cs) = k \<or> str_in k cs)"

fun infer_from_table :: "(string \<times> string list) list \<Rightarrow> string \<Rightarrow> string" where
  "infer_from_table [] name = sector_other"
| "infer_from_table ((sector, keywords) # rest) name =
     (if sector \<noteq> sector_other \<and> list_ex (\<lambda>k. str_in k name) keywords then sector
      else infer_from_table rest name)"

text \<open>A name of None raises TypeError at the first \<open>in\<close>.\<close>

definition infer_sector_from_name :: "string option \<Rightarrow> string res" where
  "infer_sector_from_name stock_name =
     (case stock_name of None \<Rightarrow> Inl TypeError | Some n \<Rightarrow> Inr (infer_from_table sector_keywords n))"

record sector_classifier =
  db_pool_initialized :: bool
  sector_cache :: "string \<rightharpoonup> string"

text \<open>
  \<open>get_sector\<close>: the memory cache, then \<open>STOCK_MASTER.SECTOR_KOSPI200\<close> (\<open>db\<close>, which may
  fail), then the name. Only an answer is stored in the cache.
\<close>

definition get_sector ::
  "(string \<Rightarrow> string option res) \<Rightarrow> string \<Rightarrow> string option \<Rightarrow> sector_classifier \<Rightarrow>
   string res \<times> sector_classifier" where
  "get_sector db stock_code stock_name sc =
     (case sector_cache sc stock_code of
        Some s \<Rightarrow> (Inr s, sc)
      | None \<Rightarrow>
          (case (if db_pool_initialized sc then
                   (case db stock_code of
                      Inr (Some r) \<Rightarrow>
                        if r \<noteq> [] \<and> r \<noteq> ''etc'' \<and> r \<noteq> sector_unclassified then Inr r
                        else infer_sector_from_name stock_name
                    | _ \<Rightarrow> infer_sector_from_name stock_name)
                 else infer_sector_from_name stock_name) of
             Inl e \<Rightarrow> (Inl e, sc)
           | Inr s \<Rightarrow> (Inr s, sc\<lparr>sector_cache := (sector_cache sc)(stock_code \<mapsto> s)\<rparr>)))"

interpretation sector: memo_lookup "get_sector db" sector_cache
  by unfold_locales (auto simp: get_sector_def split: option.splits sum.splits if_splits)

section \<open>Diversification\<close>

record candidate_stock =
  c_code :: string
  c_name :: "string option"
  c_price :: rat
  c_quantity :: int

text \<open>
  One value of \<open>portfolio_cache\<close>; \<open>i_current\<close> is None when the key \<open>current_price\<close> is
  missing, in which case \<open>avg_price\<close> is used.
\<close>

record cache_item =
  i_code :: string
  i_name :: "string option"
  i_quantity :: int
  i_avg :: rat
  i_current :: "rat option"

definition item_value :: "cache_item \<Rightarrow> rat" where
  "item_value it =
     of_int (i_quantity it) * (case i_current it of Some p \<Rightarrow> p | None \<Rightarrow> i_avg it)"

datatype div_reason =
    DivNoAssets
  | SectorExceeded string rat rat
  | StockExceeded rat rat
  | DivPassed string rat
  | DivError py_exc

datatype concentration = High | Low | Unknown

record div_result =
  approved :: bool
  div_reason :: div_reason
  sector_exposure :: "(string \<times> rat) list"
  current_sector_exposure :: "rat option"
  concentration_risk :: concentration

text \<open>The loop over the existing portfolio: the value of every item goes to its sector.\<close>

fun add_items ::
  "(string \<Rightarrow> string option res) \<Rightarrow> cache_item list \<Rightarrow> (string \<times> rat) list \<Rightarrow> sector_classifier \<Rightarrow>
   (string \<times> rat) list res \<times> sector_classifier" where
  "add_items db [] e sc = (Inr e, sc)"
| "add_items db (it # its) e sc =
     (case get_sector db (i_code it) (i_name it) sc of
        (Inl err, sc') \<Rightarrow> (Inl err, sc')
      | (Inr s, sc') \<Rightarrow> add_items db its (dict_add s (item_value it) e) sc')"

text \<open>Rules 1 and 2 and the approval, on the percentages after the purchase.\<close>

definition decide_diversification ::
  "string \<Rightarrow> rat \<Rightarrow> (string \<times> rat) list \<Rightarrow> rat \<Rightarrow> rat \<Rightarrow> rat \<Rightarrow> div_result" where
  "decide_diversification cand_sector cand_value exposure total_assets max_sector_pct max_stock_pct =
     (let sector_pct = map (\<lambda>(s, v). (s, share_pct v total_assets)) exposure;
          pct = dict_get cand_sector 0 sector_pct;
          before = share_pct (dict_get cand_sector 0 exposure - cand_value) total_assets;
          stock_pct = share_pct cand_value total_assets
      in if max_sector_pct < pct then
           \<lparr>approved = False, div_reason = SectorExceeded cand_sector pct max_sector_pct,
            sector_exposure = sector_pct, current_sector_exposure = Some before,
            concentration_risk = High\<rparr>
         else if max_stock_pct < stock_pct then
           \<lparr>approved = False, div_reason = StockExceeded stock_pct max_stock_pct,
            sector_exposure = sector_pct, current_sector_exposure = None,
            concentration_risk = High\<rparr>
         else
           \<lparr>approved = True, div_reason = DivPassed cand_sector pct,
            sector_exposure = sector_pct, current_sector_exposure = Some before,
            concentration_risk = Low\<rparr>)"

definition div_unknown :: "div_reason \<Rightarrow> div_result" where
  "div_unknown why =
     \<lparr>approved = True, div_reason = why, sector_exposure = [], current_sector_exposure = None,
      concentration_risk = Unknown\<rparr>"

text \<open>The limits: an override wins, otherwise the configuration is read.\<close>

definition div_limit ::
  "cfg_world \<Rightarrow> rat option \<Rightarrow> string \<Rightarrow> rat \<Rightarrow> config_manager \<Rightarrow> rat \<times> config_manager" where
  "div_limit w override key d c =
     (case override of Some x \<Rightarrow> (x, c) | None \<Rightarrow> get_float w key (Some d) c)"

definition portfolio_total :: "cache_item list \<Rightarrow> rat" where
  "portfolio_total items = sum_list (map item_value items)"

text \<open>The \<open>try\<close> block after the limits are known: the sectors, the exposure, the decision.\<close>

definition assess_diversification ::
  "(string \<Rightarrow> string option res) \<Rightarrow> candidate_stock \<Rightarrow> cache_item list \<Rightarrow> rat \<Rightarrow> rat \<Rightarrow> rat \<Rightarrow>
   sector_classifier \<Rightarrow> div_result res \<times> sector_classifier" where
  "assess_diversification db cand items account_balance max_sector_pct max_stock_pct sc =
     (let total_assets = account_balance + portfolio_total items in
      if total_assets \<le> 0 then (Inr (div_unknown DivNoAssets), sc)
      else
        (case get_sector db (c_code cand) (c_name cand) sc of
           (Inl e, sc1) \<Rightarrow> (Inl e, sc1)
         | (Inr cand_sector, sc1) \<Rightarrow>
             (case add_items db items [] sc1 of
                (Inl e, sc2) \<Rightarrow> (Inl e, sc2)
              | (Inr exposure, sc2) \<Rightarrow>
                  let cand_value = of_int (c_quantity cand) * c_price cand in
                  (Inr (decide_diversification cand_sector cand_value
                     (dict_add cand_sector cand_value exposure) total_assets
                     max_sector_pct max_stock_pct), sc2))))"

text \<open>\<open>check_diversification\<close>: any exception is turned into an approval.\<close>

definition check_diversification ::
  "cfg_world \<Rightarrow> (string \<Rightarrow> string option res) \<Rightarrow> candidate_stock \<Rightarrow> cache_item list \<Rightarrow> rat \<Rightarrow>
   rat option \<Rightarrow> rat option \<Rightarrow> config_manager \<Rightarrow> sector_classifier \<Rightarrow>
   div_result \<times> config_manager \<times> sector_classifier" where
  "check_diversification w db cand items account_balance o_sector o_stock c sc =
     (case div_limit w o_sector ''MAX_SECTOR_PCT'' 30 c of (max_sector_pct, c1) \<Rightarrow>
      case div_limit w o_stock ''MAX_POSITION_VALUE_PCT'' 10 c1 of (max_stock_pct, c2) \<Rightarrow>
      case assess_diversification db cand items account_balance max_sector_pct max_stock_pct sc of
        (Inl e, sc') \<Rightarrow> (div_unknown (DivError e), c2, sc')
      | (Inr r, sc') \<Rightarrow> (r, c2, sc'))"

section \<open>Exposure as a grouping by sector\<close>

definition item_sector :: "sector_classifier \<Rightarrow> cache_item \<Rightarrow> string option" where
  "item_sector sc it = sector_cache sc (i_code it)"

lemma add_items_known:
  "add_items db its e sc = (Inr e', sc') \<Longrightarrow>
   sector_cache sc \<subseteq>\<^sub>m sector_cache sc' \<and> (\<forall>it \<in> set its. item_sector sc' it \<noteq> None)"
proof (induction its arbitrary: e sc)
  case Nil
  then show ?case by simp
next
  case (Cons it its)
  then obtain s sc1 where g: "get_sector db (i_code it) (i_name it) sc = (Inr s, sc1)"
    and a: "add_items db its (dict_add s (item_value it) e) sc1 = (Inr e', sc')"
    by (auto split: prod.splits sum.splits)
  from g have m: "sector_cache sc \<subseteq>\<^sub>m sector_cache sc1" by (rule sector.run_mono)
  from g have k: "sector_cache sc1 (i_code it) = Some s" by (rule sector.run_known)
  from Cons.IH [OF a] have IH: "sector_cache sc1 \<subseteq>\<^sub>m sector_cache sc'"
    "\<forall>it \<in> set its. item_sector sc' it \<noteq> None" by auto
  from k IH(1) have "item_sector sc' it = Some s"
    by (auto simp: item_sector_def map_le_def dom_def)
  with IH m show ?case by (auto intro: map_le_trans)
qed

lemma add_items_exposure:
  "add_items db its e sc = (Inr e', sc') \<Longrightarrow>
   dict_get s 0 e' = dict_get s 0 e +
     sum_list (map item_value (filter (\<lambda>it. item_sector sc' it = Some s) its))"
proof (induction its arbitrary: e sc)
  case Nil
  then show ?case by simp
next
  case (Cons it its)
  then obtain s1 sc1 where g: "get_sector db (i_code it) (i_name it) sc = (Inr s1, sc1)"
    and a: "add_items db its (dict_add s1 (item_value it) e) sc1 = (Inr e', sc')"
    by (auto split: prod.splits sum.splits)
  from g have "sector_cache sc1 (i_code it) = Some s1" by (rule sector.run_known)
  with add_items_known [OF a] have "item_sector sc' it = Some s1"
    by (auto simp: item_sector_def map_le_def dom_def)
  with Cons.IH [OF a] show ?case by simp
qed

lemma add_items_sum:
  "add_items db its e sc = (Inr e', sc') \<Longrightarrow> distinct (map fst e) \<Longrightarrow>
   distinct (map fst e') \<and> dict_sum e' = dict_sum e + portfolio_total its"
proof (induction its arbitrary: e sc)
  case Nil
  then show ?case by (simp add: portfolio_total_def)
next
  case (Cons it its)
  then obtain s1 sc1 where
    a: "add_items db its (dict_add s1 (item_value it) e) sc1 = (Inr e', sc')"
    by (auto split: prod.splits sum.splits)
  from Cons.IH [OF a distinct_dict_add [OF Cons.prems(2)]] Cons.prems(2)
  show ?case by (simp add: dict_sum_add portfolio_total_def)
qed

lemma dict_get_map_share:
  "dict_get k 0 (map (\<lambda>(s, v). (s, share_pct v t)) xs) = share_pct (dict_get k 0 xs) t"
  by (induction xs) (auto simp: dict_get_def)

lemma dict_sum_map_share:
  "dict_sum (map (\<lambda>(s, v). (s, share_pct v t)) xs) = share_pct (dict_sum xs) t"
  by (induction xs) (auto simp: dict_sum_def share_pct_add)

lemma assess_diversification_cases:
  assumes "assess_diversification db cand items bal ms mk sc = (Inr r, sc')"
    and "0 < bal + portfolio_total items"
  obtains s sc1 e where
    "get_sector db (c_code cand) (c_name cand) sc = (Inr s, sc1)"
    "add_items db items [] sc1 = (Inr e, sc')"
    "r = decide_diversification s (of_int (c_quantity cand) * c_price cand)
       (dict_add s (of_int (c_quantity cand) * c_price cand) e) (bal + portfolio_total items) ms mk"
  using assms by (auto simp: assess_diversification_def Let_def split: prod.splits sum.splits)

section \<open>Properties\<close>

text \<open>
  The decision is exact: where it is made (positive total assets, every sector found),
  a purchase is approved if and only if, after it, the items that share the candidate's
  sector and the candidate together are worth at most the sector limit, and the candidate
  itself at most the stock limit, of the total assets.
\<close>

theorem diversification_decision:
  assumes "assess_diversification db cand items bal ms mk sc = (Inr r, sc')"
    and "0 < bal + portfolio_total items"
  shows "\<exists>s. sector_cache sc' (c_code cand) = Some s \<and>
    (approved r \<longleftrightarrow>
       sum_list (map item_value (filter (\<lambda>it. item_sector sc' it = Some s) items)) +
         of_int (c_quantity cand) * c_price cand \<le> pct_of ms (bal + portfolio_total items) \<and>
       of_int (c_quantity cand) * c_price cand \<le> pct_of mk (bal + portfolio_total items))"
proof -
  from assms obtain s sc1 e where
    g: "get_sector db (c_code cand) (c_name cand) sc = (Inr s, sc1)"
    and a: "add_items db items [] sc1 = (Inr e, sc')"
    and r: "r = decide_diversification s (of_int (c_quantity cand) * c_price cand)
       (dict_add s (of_int (c_quantity cand) * c_price cand) e) (bal + portfolio_total items) ms mk"
    by (rule assess_diversification_cases)
  from sector.run_known [OF g] add_items_known [OF a]
  have known: "sector_cache sc' (c_code cand) = Some s"
    by (auto simp: map_le_def dom_def)
  have get: "dict_get s 0 e = sum_list (map item_value (filter (\<lambda>it. item_sector sc' it = Some s) items))"
    using add_items_exposure [OF a, of s] by (simp add: dict_get_def)
  have "approved r \<longleftrightarrow>
      share_pct (dict_get s 0 e + of_int (c_quantity cand) * c_price cand) (bal + portfolio_total items) \<le> ms \<and>
      share_pct (of_int (c_quantity cand) * c_price cand) (bal + portfolio_total items) \<le> mk"
    by (auto simp: r decide_diversification_def Let_def dict_get_map_share)
  with known show ?thesis by (auto simp: get share_pct_le_iff [OF assms(2)])
qed

definition demo_items :: "cache_item list" where
  "demo_items =
     [\<lparr>i_code = ''000660'', i_name = Some ''SK'', i_quantity = 10, i_avg = 100000, i_current = Some 120000\<rparr>,
      \<lparr>i_code = ''105560'', i_name = Some ''KB'', i_quantity = 20, i_avg = 50000, i_current = None\<rparr>]"

definition demo_db :: "string \<Rightarrow> string option res" where
  "demo_db code = (if code = ''105560'' then Inr (Some ''Finance'') else Inr (Some ''IT''))"

definition demo_cand :: candidate_stock where
  "demo_cand = \<lparr>c_code = ''005930'', c_name = Some ''Samsung'', c_price = 70000, c_quantity = 20\<rparr>"

definition demo_classifier :: sector_classifier where
  "demo_classifier = \<lparr>db_pool_initialized = True, sector_cache = Map.empty\<rparr>"

lemma demo_total: "portfolio_total demo_items = 2200000"
  by (simp add: portfolio_total_def demo_items_def item_value_def)

theorem diversification_decision_witness:
  "\<exists>r sc'. assess_diversification demo_db demo_cand demo_items 7800000 30 15 demo_classifier = (Inr r, sc') \<and>
     (\<exists>s. sector_cache sc' ''005930'' = Some s) \<and> approved r"
proof -
  obtain r sc' where a: "assess_diversification demo_db demo_cand demo_items 7800000 30 15 demo_classifier = (Inr r, sc')"
    and r: "approved r"
    by (simp add: assess_diversification_def demo_items_def item_value_def portfolio_total_def
        get_sector_def demo_db_def demo_cand_def demo_classifier_def Let_def sector_unclassified_def
        decide_diversification_def dict_add_def dict_get_def share_pct_def)
  have "0 < 7800000 + portfolio_total demo_items" by (simp add: demo_total)
  from diversification_decision [OF a this] a r show ?thesis
    by (auto simp: demo_cand_def)
qed

text \<open>
  Nothing is lost in the grouping: the sector percentages reported with a decision sum
  to the share of the total assets that is invested after the purchase.
\<close>

theorem diversification_exposure_total:
  assumes "assess_diversification db cand items bal ms mk sc = (Inr r, sc')"
    and "0 < bal + portfolio_total items"
  shows "dict_sum (sector_exposure r) =
    share_pct (portfolio_total items + of_int (c_quantity cand) * c_price cand) (bal + portfolio_total items)"
proof -
  from assms obtain s sc1 e where
    a: "add_items db items [] sc1 = (Inr e, sc')"
    and r: "r = decide_diversification s (of_int (c_quantity cand) * c_price cand)
       (dict_add s (of_int (c_quantity cand) * c_price cand) e) (bal + portfolio_total items) ms mk"
    by (rule assess_diversification_cases)
  from add_items_sum [OF a] have "distinct (map fst e)" "dict_sum e = portfolio_total items"
    by (simp_all add: dict_sum_def)
  then show ?thesis
    by (simp add: r decide_diversification_def Let_def dict_sum_map_share dict_sum_add)
qed

theorem diversification_exposure_total_witness:
  "\<exists>r sc'. assess_diversification demo_db demo_cand demo_items 7800000 30 15 demo_classifier = (Inr r, sc') \<and>
     dict_sum (sector_exposure r) = 36"
proof -
  obtain r sc' where a: "assess_diversification demo_db demo_cand demo_items 7800000 30 15 demo_classifier = (Inr r, sc')"
    by (simp add: assess_diversification_def demo_items_def item_value_def portfolio_total_def
        get_sector_def demo_db_def demo_cand_def demo_classifier_def Let_def sector_unclassified_def)
  have "0 < 7800000 + portfolio_total demo_items" by (simp add: demo_total)
  from diversification_exposure_total [OF a this] a show ?thesis
    by (simp add: demo_total demo_cand_def share_pct_def)
qed

text \<open>
  The check fails open: an exception while it runs (here: a stock without a name whose
  sector must be inferred from it) approves the purchase, whatever its size.
\<close>

theorem diversification_fails_open:
  assumes "sector_cache sc (c_code cand) = None" "c_name cand = None"
    and "db (c_code cand) = Inl e \<or> db (c_code cand) = Inr None"
    and "0 < bal + portfolio_total items"
  shows "approved (fst (check_diversification w db cand items bal os ok c sc)) \<and>
    div_reason (fst (check_diversification w db cand items bal os ok c sc)) = DivError TypeError"
  using assms
  by (auto simp: check_diversification_def assess_diversification_def get_sector_def Let_def
      infer_sector_from_name_def div_unknown_def split: prod.splits)

theorem diversification_fails_open_witness:
  "approved (fst (check_diversification demo_world (\<lambda>_. Inr None) (demo_cand\<lparr>c_name := None, c_quantity := 1000000\<rparr>)
     [] 7800000 None None (config_init 300) demo_classifier))"
  using diversification_fails_open [of demo_classifier "demo_cand\<lparr>c_name := None, c_quantity := 1000000\<rparr>"
      "\<lambda>_. Inr None" TypeError 7800000 "[]" demo_world None None "config_init 300"]
  by (simp add: demo_classifier_def demo_cand_def portfolio_total_def)

end
