(* ===== verification/Market_Regime.thy ===== *)
theory Market_Regime
  imports Indicators
begin

text \<open>
  \<open>shared/market_regime.py\<close>: the market regime detector, which scores the four regimes of
  the KOSPI index and takes the best one, the risk settings of a regime and the buy
  strategies it enables. A regime is the text the program passes around, so that unknown
  texts reach the default branches as they do in the code.
\<close>

section \<open>Data\<close>

abbreviation REGIME_STRONG_BULL :: string where "REGIME_STRONG_BULL \<equiv> ''STRONG_BULL''"
abbreviation REGIME_BULL :: string where "REGIME_BULL \<equiv> ''BULL''"
abbreviation REGIME_SIDEWAYS :: string where "REGIME_SIDEWAYS \<equiv> ''SIDEWAYS''"
abbreviation REGIME_BEAR :: string where "REGIME_BEAR \<equiv> ''BEAR''"

record regime_context =
  kospi_current :: rat
  kospi_ma :: rat
  ma_distance_pct :: rat
  return_1d_pct :: rat
  return_5d_pct :: rat
  using_ma10 :: bool
  regime_scores :: "(string \<times> rat) list"
  ctx_regime :: string

datatype context_dict =
    TooFewRows
  | NoMovingAverage nat
  | Failed py_exc
  | Analysed regime_context

record risk_setting =
  stop_loss_pct :: rat
  target_profit_pct :: rat
  position_size_ratio :: rat

section \<open>The scores\<close>

definition strong_bull_score :: "bool \<Rightarrow> rat \<Rightarrow> rat \<Rightarrow> rat \<Rightarrow> rat \<Rightarrow> rat" where
  "strong_bull_score ma10 current ma_value return_1d return_5d =
     (if ma_value \<le> current then
        let threshold_1d = (if ma10 then 5 / 2 else 2);
            threshold_5d = (if ma10 then 5 else 4);
            s1 = (if 0 < return_1d then max 0 (min 50 (return_1d / threshold_1d * 50)) else 0);
            s5 = (if 0 < return_5d then max 0 (min 50 (return_5d / threshold_5d * 50)) else 0)
        in if ma10 then (s1 + s5) * (8 / 10) else s1 + s5
      else 0)"

definition bull_score :: "bool \<Rightarrow> rat \<Rightarrow> rat \<Rightarrow> rat \<Rightarrow> rat \<Rightarrow> rat" where
  "bull_score ma10 current ma_value return_5d ma_distance =
     (if ma_value \<le> current then
        let base = (if ma10 then 25 else 30);
            s5 = (if 0 < return_5d then min 40 (return_5d * 10) else 0);
            sd = (if 0 < ma_distance then min 30 (ma_distance * 2) else 0)
        in if ma10 then (base + s5 + sd) * (85 / 100) else base + s5 + sd
      else 0)"

definition bear_score :: "rat \<Rightarrow> rat \<Rightarrow> rat \<Rightarrow> rat \<Rightarrow> rat" where
  "bear_score current ma_value return_5d ma_distance =
     (if current < ma_value then
        40 + (if return_5d < 0 then min 40 (\<bar>return_5d\<bar> * 10) else 0)
           + (if ma_distance < 0 then min 20 (\<bar>ma_distance\<bar> * 2) else 0)
      else 0)"

definition sideways_score :: "rat \<Rightarrow> rat \<Rightarrow> rat \<Rightarrow> rat \<Rightarrow> rat" where
  "sideways_score ma_threshold ma_distance return_5d return_1d =
     (if \<bar>ma_distance\<bar> < ma_threshold then 30 else 0)
     + (if \<bar>return_5d\<bar> < 1 then 30 else 0)
     + (if \<bar>return_1d\<bar> < 1 / 2 then 40 else 0)"

text \<open>The dictionary \<open>regime_scores\<close>, in the order the code fills it.\<close>

definition score_regimes :: "bool \<Rightarrow> rat \<Rightarrow> rat \<Rightarrow> rat \<Rightarrow> rat \<Rightarrow> rat \<Rightarrow> (string \<times> rat) list" where
  "score_regimes ma10 current ma_value ma_distance return_1d return_5d =
     [(REGIME_STRONG_BULL, strong_bull_score ma10 current ma_value return_1d return_5d),
      (REGIME_BULL, bull_score ma10 current ma_value return_5d ma_distance),
      (REGIME_BEAR, bear_score current ma_value return_5d ma_distance),
      (REGIME_SIDEWAYS, sideways_score (if ma10 then 3 / 2 else 2) ma_distance return_5d return_1d)]"

section \<open>The detector\<close>

text \<open>\<open>(current - past) / past * 100\<close>, which raises for a zero price.\<close>

definition return_pct :: "rat \<Rightarrow> rat \<Rightarrow> rat res" where
  "return_pct current past = rbind (py_div (current - past) past) (\<lambda>r. Inr (r * 100))"

text \<open>The \<open>try\<close> block of \<open>detect_regime\<close>.\<close>

definition analyse_regime :: "backend \<Rightarrow> rat list \<Rightarrow> rat \<Rightarrow> (string \<times> context_dict) res" where
  "analyse_regime b prices_list current =
     (let ma_period = (if 20 \<le> length prices_list then 20 else 10) in
      rbind (calculate_moving_average b (Some (rev prices_list)) ma_period) (\<lambda>ma.
        case ma of
          None \<Rightarrow> Inr (REGIME_SIDEWAYS, NoMovingAverage ma_period)
        | Some ma_value \<Rightarrow>
            if ma_value = 0 then Inr (REGIME_SIDEWAYS, NoMovingAverage ma_period)
            else
              let ma10 = (ma_period = 10) in
              rbind (if 5 \<le> length prices_list
                     then rbind (from_end prices_list 5) (return_pct current) else Inr 0) (\<lambda>return_5d.
              rbind (if 2 \<le> length prices_list
                     then rbind (from_end prices_list 1) (return_pct current) else Inr 0) (\<lambda>return_1d.
              rbind (return_pct current ma_value) (\<lambda>ma_distance.
                let scores = score_regimes ma10 current ma_value ma_distance return_1d return_5d
                in case dict_argmax scores of
                     None \<Rightarrow> Inl ValueError
                   | Some regime \<Rightarrow>
                       Inr (regime, Analysed
                         \<lparr>kospi_current = current, kospi_ma = ma_value, ma_distance_pct = ma_distance,
                          return_1d_pct = return_1d, return_5d_pct = return_5d, using_ma10 = ma10,
                          regime_scores = scores, ctx_regime = regime\<rparr>))))))"

definition detect_regime :: "backend \<Rightarrow> bar list \<Rightarrow> rat \<Rightarrow> string \<times> context_dict" where
  "detect_regime b kospi current =
     (if length kospi < 10 then (REGIME_SIDEWAYS, TooFewRows)
      else case analyse_regime b (closes kospi) current of
             Inl e \<Rightarrow> (REGIME_SIDEWAYS, Failed e)
           | Inr r \<Rightarrow> r)"

definition get_dynamic_risk_setting :: "string \<Rightarrow> risk_setting" where
  "get_dynamic_risk_setting regime =
     (if regime = REGIME_STRONG_BULL then
        \<lparr>stop_loss_pct = - (5 / 100), target_profit_pct = 15 / 100, position_size_ratio = 1\<rparr>
      else if regime = REGIME_BULL then
        \<lparr>stop_loss_pct = - (5 / 100), target_profit_pct = 10 / 100, position_size_ratio = 1\<rparr>
      else if regime = REGIME_SIDEWAYS then
        \<lparr>stop_loss_pct = - (5 / 100), target_profit_pct = 10 / 100, position_size_ratio = 5 / 10\<rparr>
      else if regime = REGIME_BEAR then
        \<lparr>stop_loss_pct = - (2 / 100), target_profit_pct = 3 / 100, position_size_ratio = 3 / 10\<rparr>
      else
        \<lparr>stop_loss_pct = - (3 / 100), target_profit_pct = 5 / 100, position_size_ratio = 5 / 10\<rparr>)"

section \<open>The strategy selector\<close>

abbreviation MEAN_REVERSION :: string where "MEAN_REVERSION \<equiv> ''MEAN_REVERSION''"
abbreviation TREND_FOLLOWING :: string where "TREND_FOLLOWING \<equiv> ''TREND_FOLLOWING''"
abbreviation RESISTANCE_BREAKOUT :: string where "RESISTANCE_BREAKOUT \<equiv> ''RESISTANCE_BREAKOUT''"
abbreviation VOLUME_MOMENTUM :: string where "VOLUME_MOMENTUM \<equiv> ''VOLUME_MOMENTUM''"
abbreviation BEAR_SNIPE_DIP :: string where "BEAR_SNIPE_DIP \<equiv> ''BEAR_SNIPE_DIP''"
abbreviation BEAR_MOMENTUM_BREAKOUT :: string where
  "BEAR_MOMENTUM_BREAKOUT \<equiv> ''BEAR_MOMENTUM_BREAKOUT''"

definition strategy_map :: "(string \<times> string list) list" where
  "strategy_map =
     [(REGIME_STRONG_BULL, [VOLUME_MOMENTUM, RESISTANCE_BREAKOUT, TREND_FOLLOWING]),
      (REGIME_BULL, [VOLUME_MOMENTUM, TREND_FOLLOWING, MEAN_REVERSION]),
      (REGIME_SIDEWAYS, [MEAN_REVERSION, TREND_FOLLOWING]),
      (REGIME_BEAR, [])]"

definition select_strategies :: "string \<Rightarrow> string list" where
  "select_strategies regime = dict_get regime [MEAN_REVERSION] strategy_map"

definition map_llm_strategy :: "string \<Rightarrow> string option" where
  "map_llm_strategy strategy_type =
     map_of [(''SNIPE_DIP'', BEAR_SNIPE_DIP), (''MOMENTUM_BREAKOUT'', BEAR_MOMENTUM_BREAKOUT)]
       strategy_type"

section \<open>Lemmas\<close>

lemma strong_bull_score_bounds: "0 \<le> strong_bull_score m c a r1 r5 \<and> strong_bull_score m c a r1 r5 \<le> 100"
  by (auto simp: strong_bull_score_def Let_def min_def max_def)

lemma bull_score_bounds: "0 \<le> bull_score m c a r5 d \<and> bull_score m c a r5 d \<le> 100"
  by (auto simp: bull_score_def Let_def min_def)

lemma bear_score_bounds: "0 \<le> bear_score c a r5 d \<and> bear_score c a r5 d \<le> 100"
  by (auto simp: bear_score_def min_def)

lemma sideways_score_bounds: "0 \<le> sideways_score t d r5 r1 \<and> sideways_score t d r5 r1 \<le> 100"
  by (auto simp: sideways_score_def)

lemmas score_bounds = strong_bull_score_bounds bull_score_bounds bear_score_bounds sideways_score_bounds

lemma below_scores:
  assumes "c < a"
  shows "strong_bull_score m c a r1 r5 = 0" "bull_score m c a r5 d = 0" "40 \<le> bear_score c a r5 d"
  using assms by (auto simp: strong_bull_score_def bull_score_def bear_score_def)

lemma above_scores:
  assumes "a \<le> c"
  shows "0 < bull_score m c a r5 d" "bear_score c a r5 d = 0"
  using assms by (auto simp: bull_score_def bear_score_def Let_def)

text \<open>What an analysis that succeeds has computed.\<close>

lemma detect_regime_analysed:
  assumes "detect_regime b kospi current = (regime, Analysed ctx)"
  shows "10 \<le> length kospi"
    and "kospi_current ctx = current"
    and "using_ma10 ctx \<longleftrightarrow> length kospi < 20"
    and "kospi_ma ctx = sum_list (take (if length kospi < 20 then 10 else 20) (rev (closes kospi)))
           / of_nat (if length kospi < 20 then 10 else 20)"
    and "regime_scores ctx = score_regimes (using_ma10 ctx) current (kospi_ma ctx)
           (ma_distance_pct ctx) (return_1d_pct ctx) (return_5d_pct ctx)"
    and "dict_argmax (regime_scores ctx) = Some regime"
proof -
  have len: "10 \<le> length kospi"
    using assms by (simp add: detect_regime_def split: if_splits)
  then have "analyse_regime b (closes kospi) current = Inr (regime, Analysed ctx)"
    using assms by (simp add: detect_regime_def split: sum.splits)
  note a = this [unfolded analyse_regime_def Let_def]
  show "10 \<le> length kospi" by (rule len)
  show "kospi_current ctx = current"
    "using_ma10 ctx \<longleftrightarrow> length kospi < 20"
    "kospi_ma ctx = sum_list (take (if length kospi < 20 then 10 else 20) (rev (closes kospi)))
       / of_nat (if length kospi < 20 then 10 else 20)"
    "regime_scores ctx = score_regimes (using_ma10 ctx) current (kospi_ma ctx)
       (ma_distance_pct ctx) (return_1d_pct ctx) (return_5d_pct ctx)"
    "dict_argmax (regime_scores ctx) = Some regime"
    using a len
    by (auto simp: rbind_eq_Inr_iff moving_average_value split: option.splits if_splits)
qed

lemma scores_greatest:
  assumes "dict_argmax xs = Some k"
  shows "\<exists>w. (k, w) \<in> set xs \<and> (\<forall>(k', v') \<in> set xs. v' \<le> w)"
proof (cases xs)
  case (Cons x ys)
  obtain k0 v0 where x: "x = (k0, v0)" by (cases x)
  with assms Cons have k: "k = argmax_from k0 v0 ys" by simp
  from argmax_from_greatest [of k0 v0 ys] show ?thesis unfolding Cons x k by auto
qed (use assms in simp)

section \<open>Properties\<close>

text \<open>
  The detector always answers with one of the four regimes; when it could analyse the
  index, every score is between 0 and 100 and the answer is a regime with the best score.
\<close>

theorem regime_best_score:
  assumes "detect_regime b kospi current = (regime, Analysed ctx)"
  shows "\<exists>w. (regime, w) \<in> set (regime_scores ctx) \<and>
      (\<forall>(r, v) \<in> set (regime_scores ctx). 0 \<le> v \<and> v \<le> w \<and> w \<le> 100)"
proof -
  note d = detect_regime_analysed [OF assms]
  have bounds: "\<forall>(r, v) \<in> set (regime_scores ctx). 0 \<le> v \<and> v \<le> 100"
    unfolding d(5) by (simp add: score_regimes_def score_bounds)
  from scores_greatest [OF d(6)] bounds show ?thesis by fast
qed

text \<open>Index histories: flat, rising at the end, and one that fell five days ago.\<close>

definition index_days :: "rat list \<Rightarrow> bar list" where
  "index_days ps = map (\<lambda>p. \<lparr>open_price = p, high_price = p, low_price = p, close_price = p\<rparr>) ps"

definition fallen_index :: "bar list" where
  "fallen_index = index_days (replicate 15 110 @ replicate 5 90)"

definition jumping_index :: "bar list" where
  "jumping_index = index_days (replicate 10 104 @ replicate 10 100)"

lemma fallen_regime:
  "\<exists>ctx. detect_regime pandas_backend fallen_index 90 = (REGIME_SIDEWAYS, Analysed ctx) \<and>
      kospi_ma ctx = 105"
  by (simp add: detect_regime_def analyse_regime_def fallen_index_def index_days_def
      moving_average_value from_end_def return_pct_def score_regimes_def strong_bull_score_def
      bull_score_def bear_score_def sideways_score_def numeral_eq_Suc Let_def)

lemma jumping_regime:
  "\<exists>ctx. detect_regime pandas_backend jumping_index 104 = (REGIME_STRONG_BULL, Analysed ctx)"
  by (simp add: detect_regime_def analyse_regime_def jumping_index_def index_days_def
      moving_average_value from_end_def return_pct_def score_regimes_def strong_bull_score_def
      bull_score_def bear_score_def sideways_score_def numeral_eq_Suc Let_def)

theorem regime_best_score_witness:
  "\<exists>ctx w. (REGIME_SIDEWAYS, w) \<in> set (regime_scores ctx) \<and> w \<le> 100 \<and>
     detect_regime pandas_backend fallen_index 90 = (REGIME_SIDEWAYS, Analysed ctx)"
proof -
  from fallen_regime obtain ctx
    where c: "detect_regime pandas_backend fallen_index 90 = (REGIME_SIDEWAYS, Analysed ctx)" by blast
  from regime_best_score [OF c] c show ?thesis by fast
qed

text \<open>
  The moving average, the mean of the newest 20 closes (10 when there are fewer than
  20), splits the regimes: below it the market is never called a bull market, on or above
  it never a bear market.
\<close>

theorem regime_side_of_average:
  assumes "detect_regime b kospi current = (regime, Analysed ctx)"
  shows "kospi_ma ctx = (let n = if length kospi < 20 then 10 else 20
                         in sum_list (take n (rev (closes kospi))) / of_nat n)
    \<and> (if current < kospi_ma ctx then regime \<in> {REGIME_BEAR, REGIME_SIDEWAYS}
       else regime \<in> {REGIME_STRONG_BULL, REGIME_BULL, REGIME_SIDEWAYS})"
proof -
  note d = detect_regime_analysed [OF assms]
  let ?below = "current < kospi_ma ctx"
  have "if ?below then regime \<in> {REGIME_BEAR, REGIME_SIDEWAYS}
      else regime \<in> {REGIME_STRONG_BULL, REGIME_BULL, REGIME_SIDEWAYS}"
  proof (cases ?below)
    case True
    note sc = below_scores [OF True]
    have "0 < bear_score current (kospi_ma ctx) (return_5d_pct ctx) (ma_distance_pct ctx)"
      using sc(3) [of "return_5d_pct ctx" "ma_distance_pct ctx"] by linarith
    with d(6) True show ?thesis
      unfolding d(5) by (auto simp: score_regimes_def sc(1,2) split: if_splits)
  next
    case False
    then have le: "kospi_ma ctx \<le> current" by simp
    note sc = above_scores [OF le]
    from d(6) False show ?thesis
      unfolding d(5) using sc(1) [of "using_ma10 ctx" "return_5d_pct ctx" "ma_distance_pct ctx"]
        strong_bull_score_bounds [of "using_ma10 ctx" current "kospi_ma ctx" "return_1d_pct ctx" "return_5d_pct ctx"]
      by (auto simp: score_regimes_def sc(2) split: if_splits)
  qed
  with d(4) show ?thesis by (simp add: Let_def)
qed

theorem regime_side_of_average_witness:
  "\<exists>ctx. detect_regime pandas_backend fallen_index 90 = (REGIME_SIDEWAYS, Analysed ctx) \<and>
     kospi_ma ctx = 105 \<and> REGIME_SIDEWAYS \<in> {REGIME_BEAR, REGIME_SIDEWAYS}"
proof -
  from fallen_regime obtain ctx
    where c: "detect_regime pandas_backend fallen_index 90 = (REGIME_SIDEWAYS, Analysed ctx)"
      and "kospi_ma ctx = 105" by blast
  from regime_side_of_average [OF c] c this(2) show ?thesis by auto
qed

text \<open>
  The distance from the moving average does not decide the regime: 14% below it a
  market whose last five closes did not move is sideways, and 2% above it a market that
  rose by 4% is a strong bull market. The module's table (5%, 2%, -2%) describes neither.
\<close>

theorem regime_ignores_distance_table:
  "fst (detect_regime pandas_backend fallen_index 90) = REGIME_SIDEWAYS \<and>
   fst (detect_regime pandas_backend jumping_index 104) = REGIME_STRONG_BULL"
proof
  from fallen_regime show "fst (detect_regime pandas_backend fallen_index 90) = REGIME_SIDEWAYS"
    by force
  from jumping_regime show "fst (detect_regime pandas_backend jumping_index 104) = REGIME_STRONG_BULL"
    by force
qed

text \<open>Every risk setting has a loss limit of at most 5%, a profit target above it, a size up to 1.\<close>

lemma risk_setting_bounds:
  "- (5 / 100) \<le> stop_loss_pct (get_dynamic_risk_setting r)"
  "- stop_loss_pct (get_dynamic_risk_setting r) < target_profit_pct (get_dynamic_risk_setting r)"
  "0 < position_size_ratio (get_dynamic_risk_setting r)"
  "position_size_ratio (get_dynamic_risk_setting r) \<le> 1"
  by (simp_all add: get_dynamic_risk_setting_def)

lemma select_strategies_empty_iff: "select_strategies r = [] \<longleftrightarrow> r = REGIME_BEAR"
  by (simp add: select_strategies_def strategy_map_def dict_get_def)

end
