(* ===== verification/Buy_Executor.thy ===== *)
theory Buy_Executor
  imports Trade_Store Presets Position_Sizing Sectors Market_Regime
begin

text \<open>
  \<open>services/buy-executor/executor.py\<close>: a buy signal, from the candidates of the scanner to
  the order and the trade record. The state of the service is the record \<open>buy_state\<close>; the
  broker (KIS), the shared regime cache, the clock and the database faults are the record
  \<open>buy_world\<close>.

  \<open>process_buy_signal_with\<close> is the handler with its calls of \<open>_check_diversification\<close> as an
  argument. The program is \<open>process_buy_signal\<close>, whose calls name a variable \<open>db_conn\<close> that
  is defined nowhere, so that they raise NameError; \<open>process_intended\<close> calls the method with
  the arguments its signature has.
\<close>

section \<open>Data\<close>

type_synonym risk_dict = "(string \<times> rat) list"

record buy_candidate =
  bc_code :: string
  bc_name :: string
  bc_score :: rat
  bc_price :: rat
  bc_manual :: cval
  bc_risk :: risk_dict
  bc_signal :: string
  bc_factor :: rat
  bc_reason :: string

record regime_cache =
  rc_regime :: "string option"
  rc_preset_name :: "string option"
  rc_preset_params :: params
  rc_risk :: risk_dict
  rc_context :: string

record scan_result =
  sr_candidates :: "buy_candidate list"
  sr_regime :: "string option"
  sr_preset :: "(string option \<times> params) option"
  sr_risk :: risk_dict
  sr_manual :: cval

record kis_client =
  cash_of :: "rat res"
  snapshot_price :: "string \<Rightarrow> rat option res"
  order_answer :: "string \<Rightarrow> int \<Rightarrow> string option res"

record buy_world =
  bw_cfg :: cfg_world
  bw_cache :: "regime_cache option"
  bw_presets :: "preset_file option"
  bw_kis :: kis_client
  bw_sector_db :: "string \<Rightarrow> string option res"
  bw_db_fault :: "py_exc option"
  bw_trade_env :: trade_env
  bw_stamp :: string
  bw_metrics :: "rat \<Rightarrow> bool \<Rightarrow> risk_dict \<Rightarrow> string"

record buy_state =
  bs_config :: config_manager
  bs_sizer :: position_sizer
  bs_sectors :: sector_classifier
  bs_db :: trade_db
  bs_orders :: "(string \<times> int) list"

datatype safety_reason =
    DailyBuyLimit int int
  | PortfolioSizeLimit int int
  | SafetyError py_exc

datatype buy_skip =
    NoCandidates
  | SafetyStop safety_reason
  | AllHeld
  | DuplicateOrder string
  | LowScore rat int
  | InvalidManual
  | SizeTooSmall
  | SmartSkipSector
  | SmartSkipStock
  | DivFailed
  | DivFailedAfterResize
  | ResizedToZero
  | ResizedInvalid

datatype buy_error = NoPrice | InsufficientCash | OrderFailed

record buy_receipt =
  br_code :: string
  br_name :: string
  br_order :: string
  br_quantity :: int
  br_price :: rat
  br_total :: rat
  br_dry_run :: bool

datatype buy_response = BuySkipped buy_skip | BuyError buy_error | BuySuccess buy_receipt

type_synonym 'a buy_step = "(buy_state, buy_response, 'a) prog"

section \<open>Market regime and preset\<close>

text \<open>The regime cache is read only when the scan result lacks something.\<close>

definition needs_regime_cache :: "scan_result \<Rightarrow> bool" where
  "needs_regime_cache scan \<longleftrightarrow>
     sr_regime scan = None \<or> sr_regime scan = Some ''UNKNOWN'' \<or>
     sr_preset scan = None \<or> sr_risk scan = []"

definition shared_cache :: "buy_world \<Rightarrow> scan_result \<Rightarrow> regime_cache option" where
  "shared_cache w scan = (if needs_regime_cache scan then bw_cache w else None)"

definition market_regime_of :: "buy_world \<Rightarrow> scan_result \<Rightarrow> string option" where
  "market_regime_of w scan =
     (case shared_cache w scan of
        None \<Rightarrow> sr_regime scan
      | Some rc \<Rightarrow> (case rc_regime rc of None \<Rightarrow> sr_regime scan | Some r \<Rightarrow> Some r))"

definition preset_params_of :: "buy_world \<Rightarrow> scan_result \<Rightarrow> params" where
  "preset_params_of w scan =
     (let own = (case sr_preset scan of None \<Rightarrow> [] | Some (_, ps) \<Rightarrow> ps);
          shared = (case shared_cache w scan of None \<Rightarrow> [] | Some rc \<Rightarrow> rc_preset_params rc);
          ps = (if own \<noteq> [] then own else shared)
      in if ps \<noteq> [] then ps
         else snd (resolve_preset_for_regime (bw_presets w) (market_regime_of w scan) ''balanced_champion''))"

definition apply_preset_step :: "buy_world \<Rightarrow> scan_result \<Rightarrow> unit buy_step" where
  "apply_preset_step w scan s =
     (let c1 = apply_preset_to_config (preset_params_of w scan) (bw_cfg w) (bs_config s);
          (sizer, c2) = refresh_from_config (bw_cfg w) (bs_sizer s) c1
      in (Next (), s\<lparr>bs_config := c2, bs_sizer := sizer\<rparr>))"

section \<open>Safety checks\<close>

definition check_safety_constraints ::
  "buy_world \<Rightarrow> trade_db \<Rightarrow> config_manager \<Rightarrow> safety_reason option \<times> config_manager" where
  "check_safety_constraints w db c =
     (case get_int (bw_cfg w) ''MAX_BUY_COUNT_PER_DAY'' (Some 5) c of (max_count, c1) \<Rightarrow>
        (case bw_db_fault w of
           Some e \<Rightarrow> (Some (SafetyError e), c1)
         | None \<Rightarrow>
             if max_count \<le> get_today_buy_count db
             then (Some (DailyBuyLimit (get_today_buy_count db) max_count), c1)
             else
               (case get_int (bw_cfg w) ''MAX_PORTFOLIO_SIZE'' (Some 10) c1 of (max_size, c2) \<Rightarrow>
                  let n = int (length (get_active_portfolio db)) in
                  if max_size \<le> n then (Some (PortfolioSizeLimit n max_size), c2) else (None, c2))))"

definition safety_step :: "buy_world \<Rightarrow> unit buy_step" where
  "safety_step w s =
     (case check_safety_constraints w (bs_db s) (bs_config s) of
        (verdict, c) \<Rightarrow>
          ((case verdict of None \<Rightarrow> Next () | Some r \<Rightarrow> Return (BuySkipped (SafetyStop r))),
           s\<lparr>bs_config := c\<rparr>))"

section \<open>Choice of the candidate\<close>

definition not_held :: "trade_db \<Rightarrow> buy_candidate list \<Rightarrow> buy_candidate list" where
  "not_held db cs = filter (\<lambda>c. bc_code c \<notin> set (map p_code (get_active_portfolio db))) cs"

definition min_llm_score :: "buy_world \<Rightarrow> int res" where
  "min_llm_score w =
     (case environ (bw_cfg w) ''MIN_LLM_SCORE'' of
        None \<Rightarrow> Inr 70
      | Some t \<Rightarrow> (case parse_int t of None \<Rightarrow> Inl ValueError | Some i \<Rightarrow> Inr i))"

definition select_candidate :: "buy_world \<Rightarrow> scan_result \<Rightarrow> buy_candidate buy_step" where
  "select_candidate w scan s =
     (let candidates = not_held (bs_db s) (sr_candidates scan) in
      case sort_desc bc_score candidates of
        [] \<Rightarrow> (Return (BuySkipped AllHeld), s)
      | best # _ \<Rightarrow>
          (case find (\<lambda>c. was_traded_recently (bc_code c) (17 / 100) (bs_db s)) candidates of
             Some c \<Rightarrow> (Return (BuySkipped (DuplicateOrder (bc_code c))), s)
           | None \<Rightarrow>
               (case min_llm_score w of
                  Inl e \<Rightarrow> (Raise e, s)
                | Inr least \<Rightarrow>
                    if bc_score best < of_int least
                    then (Return (BuySkipped (LowScore (bc_score best) least)), s)
                    else (Next best, s))))"

section \<open>Price, risk and qty\<close>

definition risk_setting_of :: "buy_world \<Rightarrow> scan_result \<Rightarrow> buy_candidate \<Rightarrow> risk_dict" where
  "risk_setting_of w scan cand =
     (if bc_risk cand \<noteq> [] then bc_risk cand
      else if sr_risk scan \<noteq> [] then sr_risk scan
      else (case shared_cache w scan of None \<Rightarrow> [] | Some rc \<Rightarrow> rc_risk rc))"

definition price_step :: "buy_world \<Rightarrow> buy_candidate \<Rightarrow> rat buy_step" where
  "price_step w cand s =
     (if bc_price cand \<noteq> 0 then (Next (bc_price cand), s)
      else (case snapshot_price (bw_kis w) (bc_code cand) of
              Inl e \<Rightarrow> (Raise e, s)
            | Inr None \<Rightarrow> (Return (BuyError NoPrice), s)
            | Inr (Some p) \<Rightarrow> (Next p, s)))"

definition held_value :: "trade_db \<Rightarrow> rat" where
  "held_value db = sum_list (map (\<lambda>p. of_int (p_qty p) * p_avg p) (get_active_portfolio db))"

text \<open>The risk setting scales the quantity of the sizer, but not below one share.\<close>

definition scaled_quantity :: "int \<Rightarrow> rat \<Rightarrow> int" where
  "scaled_quantity base ratio =
     (let n = py_int (of_int base * ratio) in if n < 1 \<and> 1 \<le> base then 1 else n)"

definition size_step ::
  "buy_world \<Rightarrow> scan_result \<Rightarrow> buy_candidate \<Rightarrow> bool \<Rightarrow> rat \<Rightarrow> rat \<Rightarrow> int buy_step" where
  "size_step w scan cand dry_run cash price s =
     (let manual = (if truth (sr_manual scan) then sr_manual scan else bc_manual cand) in
      if truth manual then
        (case to_int manual of
           Inl e \<Rightarrow> (Raise e, s)
         | Inr n \<Rightarrow>
             if n \<le> 0 then (Return (BuySkipped InvalidManual), s)
             else if \<not> dry_run \<and> cash < of_int n * price then (Return (BuyError InsufficientCash), s)
             else (Next n, s))
      else
        (case calculate_quantity (bw_cfg w) (bs_sizer s) price (Atr (price * (2 / 100))) cash
                (held_value (bs_db s)) (bs_config s) of
           (sizing, c) \<Rightarrow>
             let n = scaled_quantity (quantity sizing)
                       (dict_get ''position_size_ratio'' 1 (risk_setting_of w scan cand))
             in (if n \<le> 0 then Return (BuySkipped SizeTooSmall) else Next n, s\<lparr>bs_config := c\<rparr>)))"

section \<open>Diversification and resizing\<close>

definition limits_step :: "buy_world \<Rightarrow> scan_result \<Rightarrow> (rat \<times> rat) buy_step" where
  "limits_step w scan s =
     (case get_float (bw_cfg w) ''MAX_SECTOR_PCT'' (Some 30) (bs_config s) of (ms, c1) \<Rightarrow>
      case get_float (bw_cfg w) ''MAX_POSITION_VALUE_PCT'' (Some 10) c1 of (mk, c2) \<Rightarrow>
        (Next (if market_regime_of w scan = Some REGIME_STRONG_BULL then (50, 20) else (ms, mk)),
         s\<lparr>bs_config := c2\<rparr>))"

text \<open>\<open>_check_diversification\<close>: the portfolio in the checker's form, then the checker.\<close>

fun classify_positions ::
  "(string \<Rightarrow> string option res) \<Rightarrow> position list \<Rightarrow> sector_classifier \<Rightarrow> unit res \<times> sector_classifier" where
  "classify_positions db [] sc = (Inr (), sc)"
| "classify_positions db (p # ps) sc =
     (if p_code p = [] then classify_positions db ps sc
      else (case get_sector db (p_code p) (Some (p_name p)) sc of
              (Inl e, sc') \<Rightarrow> (Inl e, sc')
            | (Inr _, sc') \<Rightarrow> classify_positions db ps sc'))"

definition item_of_position :: "position \<Rightarrow> cache_item" where
  "item_of_position p =
     \<lparr>i_code = p_code p, i_name = Some (p_name p), i_quantity = p_qty p, i_avg = p_avg p,
      i_current = Some (p_avg p)\<rparr>"

definition portfolio_cache :: "position list \<Rightarrow> cache_item list" where
  "portfolio_cache ps =
     map snd (fold (\<lambda>p d. if p_code p = [] then d else AList.update (p_code p) (item_of_position p) d) ps [])"

datatype div_verdict = Checked div_result | CheckFailed py_exc

definition check_diversification_method ::
  "buy_world \<Rightarrow> buy_candidate \<Rightarrow> position list \<Rightarrow> rat \<Rightarrow> rat \<Rightarrow> rat \<Rightarrow> rat \<Rightarrow> int \<Rightarrow>
   buy_state \<Rightarrow> (bool \<times> div_verdict) \<times> buy_state" where
  "check_diversification_method w cand portfolio cash price ms mk qty s =
     (case get_sector (bw_sector_db w) (bc_code cand) (Some (bc_name cand)) (bs_sectors s) of
        (Inl e, sc1) \<Rightarrow> ((False, CheckFailed e), s\<lparr>bs_sectors := sc1\<rparr>)
      | (Inr _, sc1) \<Rightarrow>
          (case classify_positions (bw_sector_db w) portfolio sc1 of
             (Inl e, sc2) \<Rightarrow> ((False, CheckFailed e), s\<lparr>bs_sectors := sc2\<rparr>)
           | (Inr _, sc2) \<Rightarrow>
               (case check_diversification (bw_cfg w) (bw_sector_db w)
                       \<lparr>c_code = bc_code cand, c_name = Some (bc_name cand), c_price = price, c_quantity = qty\<rparr>
                       (portfolio_cache portfolio) cash (Some ms) (Some mk) (bs_config s) sc2 of
                  (r, c, sc3) \<Rightarrow>
                    ((approved r, Checked r), s\<lparr>bs_config := c, bs_sectors := sc3\<rparr>))))"

type_synonym div_call =
  "buy_world \<Rightarrow> buy_candidate \<Rightarrow> position list \<Rightarrow> rat \<Rightarrow> rat \<Rightarrow> rat \<Rightarrow> rat \<Rightarrow> int \<Rightarrow>
   buy_state \<Rightarrow> (bool \<times> div_verdict) res \<times> buy_state"

definition call_as_written :: div_call where
  "call_as_written w cand portfolio cash price ms mk qty s = (Inl NameError, s)"

definition call_as_declared :: div_call where
  "call_as_declared w cand portfolio cash price ms mk qty s =
     (case check_diversification_method w cand portfolio cash price ms mk qty s of
        (r, s') \<Rightarrow> (Inr r, s'))"

text \<open>The new quantity after a refusal, or the reason to give up.\<close>

definition resize_sector :: "rat \<Rightarrow> rat \<Rightarrow> rat \<Rightarrow> int \<Rightarrow> rat \<Rightarrow> (buy_skip + int) res" where
  "resize_sector max_sector_pct total_assets price original exposure_now =
     (let room = max_sector_pct - exposure_now in
      if room \<le> 1 / 2 then Inr (Inl DivFailed)
      else
        rbind (py_div (pct_of (max 0 (room - 1 / 10)) total_assets) price) (\<lambda>x.
          let new_qty = py_int x in
          if new_qty \<le> 0 then Inr (Inl ResizedToZero)
          else if (of_int new_qty / of_int original :: rat) < 1 / 2 then Inr (Inl SmartSkipSector)
          else Inr (Inr new_qty)))"

definition resize_stock :: "rat \<Rightarrow> rat \<Rightarrow> rat \<Rightarrow> int \<Rightarrow> (buy_skip + int) res" where
  "resize_stock max_stock_pct total_assets price original =
     rbind (py_div (pct_of (max 0 (max_stock_pct - 1 / 10)) total_assets) price) (\<lambda>x.
       let new_qty = py_int x in
       if 0 < new_qty \<and> new_qty < original then
         (if (of_int new_qty / of_int original :: rat) < 1 / 2 then Inr (Inl SmartSkipStock)
          else Inr (Inr new_qty))
       else Inr (Inl ResizedInvalid))"

definition resize_for :: "rat \<Rightarrow> rat \<Rightarrow> rat \<Rightarrow> rat \<Rightarrow> int \<Rightarrow> div_verdict \<Rightarrow> (buy_skip + int) res" where
  "resize_for ms mk total_assets price original verdict =
     (case verdict of
        Checked r \<Rightarrow>
          (case div_reason r of
             SectorExceeded _ _ _ \<Rightarrow>
               resize_sector ms total_assets price original
                 (case current_sector_exposure r of None \<Rightarrow> 0 | Some x \<Rightarrow> x)
           | StockExceeded _ _ \<Rightarrow> resize_stock mk total_assets price original
           | _ \<Rightarrow> Inr (Inl DivFailed))
      | CheckFailed _ \<Rightarrow> Inr (Inl DivFailed))"

definition diversify_step ::
  "div_call \<Rightarrow> buy_world \<Rightarrow> buy_candidate \<Rightarrow> position list \<Rightarrow> rat \<Rightarrow> rat \<Rightarrow> rat \<times> rat \<Rightarrow> int \<Rightarrow> int buy_step" where
  "diversify_step call w cand portfolio cash price limits qty s =
     (case limits of (ms, mk) \<Rightarrow>
      case call w cand portfolio cash price ms mk qty s of
        (Inl e, s1) \<Rightarrow> (Raise e, s1)
      | (Inr (True, _), s1) \<Rightarrow> (Next qty, s1)
      | (Inr (False, verdict), s1) \<Rightarrow>
          (case resize_for ms mk (cash + held_value (bs_db s)) price qty verdict of
             Inl e \<Rightarrow> (Raise e, s1)
           | Inr (Inl why) \<Rightarrow> (Return (BuySkipped why), s1)
           | Inr (Inr new_qty) \<Rightarrow>
               (case call w cand portfolio cash price ms mk new_qty s1 of
                  (Inl e, s2) \<Rightarrow> (Raise e, s2)
                | (Inr (ok, _), s2) \<Rightarrow>
                    (if ok then Next new_qty else Return (BuySkipped DivFailedAfterResize), s2))))"

section \<open>Order and record\<close>

definition order_step :: "buy_world \<Rightarrow> buy_candidate \<Rightarrow> bool \<Rightarrow> int \<Rightarrow> string buy_step" where
  "order_step w cand dry_run qty s =
     (if dry_run then (Next (''DRY_RUN_'' @ bw_stamp w), s)
      else
        let s' = s\<lparr>bs_orders := bs_orders s @ [(bc_code cand, qty)]\<rparr> in
        (case order_answer (bw_kis w) (bc_code cand) qty of
           Inl e \<Rightarrow> (Raise e, s')
         | Inr None \<Rightarrow> (Return (BuyError OrderFailed), s')
         | Inr (Some no) \<Rightarrow>
             (if no = [] then Return (BuyError OrderFailed) else Next no, s')))"

definition buy_request :: "buy_world \<Rightarrow> buy_candidate \<Rightarrow> bool \<Rightarrow> risk_dict \<Rightarrow> int \<Rightarrow> rat \<Rightarrow> trade_request" where
  "buy_request w cand dry_run risk qty price =
     \<lparr>tr_type = ''BUY'', tr_stock = \<lparr>si_id = None, si_code = bc_code cand, si_name = bc_name cand\<rparr>,
      tr_qty = qty, tr_price = price, tr_reason = Some (bc_reason cand), tr_stop = None,
      tr_signal = Some (bc_signal cand), tr_metrics = Some (bw_metrics w (bc_factor cand) dry_run risk),
      tr_context = None\<rparr>"

text \<open>\<open>_record_trade\<close> ignores the answer of \<open>execute_trade_and_log\<close>.\<close>

definition record_step :: "buy_world \<Rightarrow> trade_request \<Rightarrow> unit buy_step" where
  "record_step w tr s =
     (Next (), s\<lparr>bs_db := snd (execute_trade_and_log (bw_trade_env w) OrmSession tr (bs_db s))\<rparr>)"

definition receipt :: "buy_candidate \<Rightarrow> string \<Rightarrow> int \<Rightarrow> rat \<Rightarrow> bool \<Rightarrow> buy_response" where
  "receipt cand order_no qty price dry_run =
     BuySuccess \<lparr>br_code = bc_code cand, br_name = bc_name cand, br_order = order_no,
       br_quantity = qty, br_price = price, br_total = of_int qty * price, br_dry_run = dry_run\<rparr>"

section \<open>The handler\<close>

definition process_buy_signal_with :: "div_call \<Rightarrow> buy_world \<Rightarrow> scan_result \<Rightarrow> bool \<Rightarrow> buy_response buy_step" where
  "process_buy_signal_with call w scan dry_run =
     seq (return_if (sr_candidates scan = []) (BuySkipped NoCandidates)) (\<lambda>_.
     seq (apply_preset_step w scan) (\<lambda>_.
     seq (safety_step w) (\<lambda>_.
     seq (\<lambda>s. (Next (get_active_portfolio (bs_db s)), s)) (\<lambda>portfolio.
     seq (select_candidate w scan) (\<lambda>cand.
     seq (of_res (cash_of (bw_kis w))) (\<lambda>cash.
     seq (price_step w cand) (\<lambda>price.
     seq (size_step w scan cand dry_run cash price) (\<lambda>qty.
     seq (limits_step w scan) (\<lambda>limits.
     seq (diversify_step call w cand portfolio cash price limits qty) (\<lambda>final_size.
     seq (order_step w cand dry_run final_size) (\<lambda>order_no.
     seq (record_step w (buy_request w cand dry_run (risk_setting_of w scan cand) final_size price)) (\<lambda>_.
       next_with (receipt cand order_no final_size price dry_run)))))))))))))"

definition process_buy_signal :: "buy_world \<Rightarrow> scan_result \<Rightarrow> bool \<Rightarrow> buy_response buy_step" where
  "process_buy_signal = process_buy_signal_with call_as_written"

definition process_intended :: "buy_world \<Rightarrow> scan_result \<Rightarrow> bool \<Rightarrow> buy_response buy_step" where
  "process_intended = process_buy_signal_with call_as_declared"

section \<open>Steps that send no order\<close>

definition quiet :: "buy_state \<Rightarrow> buy_state \<Rightarrow> bool" where
  "quiet s s' \<longleftrightarrow> bs_orders s' = bs_orders s \<and> bs_db s' = bs_db s"

lemma quiet_refl [simp]: "quiet s s" and quiet_transp: "transp quiet" and quiet_reflp: "reflp quiet"
  by (auto simp: quiet_def transp_def reflp_def)

definition quiet_call :: "div_call \<Rightarrow> bool" where
  "quiet_call call \<longleftrightarrow> (\<forall>w cand ps cash price ms mk q s. quiet s (snd (call w cand ps cash price ms mk q s)))"

lemma quiet_call_as_written: "quiet_call call_as_written"
  by (simp add: quiet_call_def call_as_written_def)

lemma quiet_call_as_declared: "quiet_call call_as_declared"
  by (auto simp: quiet_call_def call_as_declared_def check_diversification_method_def quiet_def
      split: prod.splits sum.splits)

lemma quiet_steps [frames]:
  "keeps quiet (apply_preset_step w scan)"
  "keeps quiet (safety_step w)"
  "keeps quiet (select_candidate w scan)"
  "keeps quiet (price_step w cand)"
  "keeps quiet (size_step w scan cand dry cash price)"
  "keeps quiet (limits_step w scan)"
  "keeps quiet (of_res x)"
  "keeps quiet (return_if b r)"
  "keeps quiet (\<lambda>s. (Next (f s), s))"
  by (auto simp: keeps_def quiet_def apply_preset_step_def safety_step_def select_candidate_def
      price_step_def size_step_def limits_step_def of_res_def return_if_def Let_def
      split: prod.splits option.splits sum.splits list.splits)

lemma quiet_diversify [frames]:
  assumes "quiet_call call"
  shows "keeps quiet (diversify_step call w cand ps cash price limits q)"
proof -
  have q: "quiet s s1" if "call w cand ps cash price ms mk n s = (r, s1)" for ms mk n s r s1
    using assms that unfolding quiet_call_def by (metis snd_conv)
  have "quiet s s2" if "call w cand ps cash price ms mk n s = (r, s1)" "call w cand ps cash price ms mk n' s1 = (r', s2)"
    for ms mk n n' s r s1 r' s2
    using q [OF that(1)] q [OF that(2)] by (simp add: quiet_def)
  with q show ?thesis
    unfolding keeps_def diversify_step_def
    by (auto split: prod.splits sum.splits bool.splits)
qed

text \<open>When an order went out, every quiet step before it went on with a value.\<close>

lemma seq_orderE:
  assumes "seq p f s = (r, s')" "keeps quiet p" "bs_orders s' \<noteq> bs_orders s"
  obtains a s1 where "p s = (Next a, s1)" "quiet s s1" "f a s1 = (r, s')" "bs_orders s' \<noteq> bs_orders s1"
proof -
  obtain v s1 where p: "p s = (v, s1)" by (cases "p s")
  with assms(2) have q: "quiet s s1" unfolding keeps_def by (metis snd_conv)
  with p assms that show ?thesis
    by (cases v) (auto simp: seq_def quiet_def)
qed

section \<open>What an order went through\<close>

lemma size_step_positive: "size_step w scan cand dry cash price s = (Next q, s1) \<Longrightarrow> 0 < q"
  by (auto simp: size_step_def Let_def split: if_splits sum.splits prod.splits)

lemma resize_for_positive: "resize_for ms mk ta price q v = Inr (Inr n) \<Longrightarrow> 0 < n"
  by (auto simp: resize_for_def resize_sector_def resize_stock_def Let_def rbind_eq_Inr_iff
      split: div_verdict.splits div_reason.splits if_splits)

lemma diversify_step_positive:
  "diversify_step call w cand ps cash price limits q s = (Next n, s1) \<Longrightarrow> 0 < q \<Longrightarrow> 0 < n"
  by (auto simp: diversify_step_def split: prod.splits sum.splits bool.splits if_splits
      dest: resize_for_positive)

lemma select_candidate_Next:
  assumes "select_candidate w scan s = (Next cand, s1)"
  shows "cand \<in> set (sr_candidates scan)"
    "bc_code cand \<notin> set (map p_code (get_active_portfolio (bs_db s)))"
    "\<not> was_traded_recently (bc_code cand) (17 / 100) (bs_db s)"
    "\<exists>least. min_llm_score w = Inr least \<and> of_int least \<le> bc_score cand"
    "\<forall>c \<in> set (sr_candidates scan). bc_code c \<notin> set (map p_code (get_active_portfolio (bs_db s))) \<longrightarrow>
       bc_score c \<le> bc_score cand"
proof -
  from assms obtain rest least where sd: "sort_desc bc_score (not_held (bs_db s) (sr_candidates scan)) = cand # rest"
    and tr: "find (\<lambda>c. was_traded_recently (bc_code c) (17 / 100) (bs_db s)) (not_held (bs_db s) (sr_candidates scan)) = None"
    and sc: "min_llm_score w = Inr least" "of_int least \<le> bc_score cand"
    by (auto simp: select_candidate_def Let_def split: list.splits option.splits sum.splits if_splits)
  have "cand \<in> set (not_held (bs_db s) (sr_candidates scan))"
    using sd by (metis list.set_intros(1) set_sort_desc)
  then show "cand \<in> set (sr_candidates scan)"
    "bc_code cand \<notin> set (map p_code (get_active_portfolio (bs_db s)))"
    "\<not> was_traded_recently (bc_code cand) (17 / 100) (bs_db s)"
    using tr by (auto simp: not_held_def find_None_iff)
  show "\<exists>least. min_llm_score w = Inr least \<and> of_int least \<le> bc_score cand" using sc by blast
  show "\<forall>c \<in> set (sr_candidates scan). bc_code c \<notin> set (map p_code (get_active_portfolio (bs_db s))) \<longrightarrow>
      bc_score c \<le> bc_score cand"
    using sort_desc_hd_max [OF sd] by (auto simp: not_held_def)
qed

text \<open>The limits of the day, read after the preset has been applied.\<close>

definition daily_buy_limit :: "buy_world \<Rightarrow> config_manager \<Rightarrow> int" where
  "daily_buy_limit w c = fst (get_int (bw_cfg w) ''MAX_BUY_COUNT_PER_DAY'' (Some 5) c)"

definition portfolio_limit :: "buy_world \<Rightarrow> config_manager \<Rightarrow> int" where
  "portfolio_limit w c =
     fst (get_int (bw_cfg w) ''MAX_PORTFOLIO_SIZE'' (Some 10)
            (snd (get_int (bw_cfg w) ''MAX_BUY_COUNT_PER_DAY'' (Some 5) c)))"

lemma safety_step_Next:
  assumes "safety_step w s = (Next u, s1)"
  shows "get_today_buy_count (bs_db s) < daily_buy_limit w (bs_config s)"
    "int (length (get_active_portfolio (bs_db s))) < portfolio_limit w (bs_config s)"
  using assms
  by (auto simp: safety_step_def check_safety_constraints_def Let_def daily_buy_limit_def portfolio_limit_def
      split: prod.splits option.splits if_splits)

lemma order_step_orders:
  assumes "seq (order_step w cand dry q) f s = (r, s')" "bs_orders s' \<noteq> bs_orders s"
    and "\<And>a. \<forall>s. bs_orders (snd (f a s)) = bs_orders s"
  shows "\<not> dry \<and> bs_orders s' = bs_orders s @ [(bc_code cand, q)]"
proof -
  have keep: "bs_orders s2 = bs_orders s1" if "f a s1 = (r2, s2)" for a s1 r2 s2
    using assms(3) [of a] that by (metis snd_conv)
  show ?thesis
    using assms(1,2)
    by (auto simp: seq_def order_step_def Let_def dest!: keep split: if_splits sum.splits option.splits)
qed

lemma record_step_orders: "bs_orders (snd (record_step w tr s)) = bs_orders s"
  by (simp add: record_step_def)

lemma record_tail_orders: "bs_orders (snd (seq (record_step w tr) (\<lambda>_. next_with x) s)) = bs_orders s"
  by (simp add: seq_def record_step_def next_with_def)

lemma buy_order_path:
  assumes "quiet_call call" "process_buy_signal_with call w scan dry s = (r, s')"
    and "bs_orders s' \<noteq> bs_orders s"
  obtains u s1 v s2 s3 cand s4 cash price s5 m s6 limits s7 n s8 where
    "apply_preset_step w scan s = (Next u, s1)" "safety_step w s1 = (Next v, s2)"
    "select_candidate w scan s3 = (Next cand, s4)"
    "size_step w scan cand dry cash price s5 = (Next m, s6)"
    "diversify_step call w cand (get_active_portfolio (bs_db s)) cash price limits m s7 = (Next n, s8)"
    "\<not> dry" "bs_orders s' = bs_orders s @ [(bc_code cand, n)]"
    "bs_db s1 = bs_db s" "bs_db s3 = bs_db s" "bs_db s5 = bs_db s"
  using assms(2,3) unfolding process_buy_signal_with_def
  apply -
  apply ((erule seq_orderE, (rule quiet_steps quiet_diversify [OF assms(1)])+, assumption)+)
  subgoal premises p for a s1 aa s1a ab s1b ac s1c ad s1d ae s1e af s1f ag s1g ah s1h ai s1i
  proof -
    have s1: "s1 = s" using p(3) by (simp add: return_if_def split: if_splits)
    have db: "bs_db s1a = bs_db s" "bs_db s1b = bs_db s" "bs_db s1c = bs_db s" "bs_db s1f = bs_db s"
      and orders: "bs_orders s1i = bs_orders s"
      using p(4,7,10,13,16,19,22,25,28,31) unfolding quiet_def by simp_all
    have ac: "ac = get_active_portfolio (bs_db s)" using p(12) db by simp
    have final: "\<not> dry \<and> bs_orders s' = bs_orders s1i @ [(bc_code ad, ai)]"
      by (rule order_step_orders [OF p(32,33)]) (simp add: record_tail_orders)
    show ?thesis
      by (rule p(1) [OF p(6) [unfolded s1] p(9,15,24) p(30) [unfolded ac]]) (use final orders db in simp_all)
  qed
  done

section \<open>Properties\<close>

text \<open>
  C24. An order is sent only within every guard of the handler: outside a dry run, one order
  of at least one share, for a candidate of the scan that is not held, was not traded in the
  last 0.17 hours and reaches the minimum score, on a day with purchases and holdings below
  their limits. This holds of the handler whatever its diversification calls do.
\<close>

theorem buy_order_guards:
  assumes "quiet_call call" "process_buy_signal_with call w scan dry s = (r, s')"
    and "bs_orders s' \<noteq> bs_orders s"
  shows "\<exists>cand n. bs_orders s' = bs_orders s @ [(bc_code cand, n)] \<and> \<not> dry \<and> 0 < n \<and>
    cand \<in> set (sr_candidates scan) \<and>
    bc_code cand \<notin> set (map p_code (get_active_portfolio (bs_db s))) \<and>
    \<not> was_traded_recently (bc_code cand) (17 / 100) (bs_db s) \<and>
    (\<exists>least. min_llm_score w = Inr least \<and> of_int least \<le> bc_score cand) \<and>
    (let c = bs_config (snd (apply_preset_step w scan s)) in
       get_today_buy_count (bs_db s) < daily_buy_limit w c \<and>
       int (length (get_active_portfolio (bs_db s))) < portfolio_limit w c)"
proof (rule buy_order_path [OF assms])
  fix u s1 v s2 s3 cand s4 cash price s5 m s6 limits s7 n s8
  assume preset: "apply_preset_step w scan s = (Next u, s1)" and safety: "safety_step w s1 = (Next v, s2)"
    and sel: "select_candidate w scan s3 = (Next cand, s4)"
    and amount: "size_step w scan cand dry cash price s5 = (Next m, s6)"
      "diversify_step call w cand (get_active_portfolio (bs_db s)) cash price limits m s7 = (Next n, s8)"
    and order: "\<not> dry" "bs_orders s' = bs_orders s @ [(bc_code cand, n)]"
    and db: "bs_db s1 = bs_db s" "bs_db s3 = bs_db s"
  have "0 < n" using amount by (blast intro: diversify_step_positive size_step_positive)
  with select_candidate_Next(1-4) [OF sel] safety_step_Next [OF safety] preset order db show ?thesis
    by (intro exI [of _ cand] exI [of _ n]) (simp add: Let_def)
qed

definition demo_kis :: kis_client where
  "demo_kis = \<lparr>cash_of = Inr 10000000, snapshot_price = (\<lambda>_. Inr (Some 70000)),
     order_answer = (\<lambda>_ _. Inr (Some ''0001''))\<rparr>"

definition demo_buy_world :: buy_world where
  "demo_buy_world = \<lparr>bw_cfg = plain_world, bw_cache = None, bw_presets = None, bw_kis = demo_kis,
     bw_sector_db = (\<lambda>_. Inr (Some ''IT'')), bw_db_fault = None, bw_trade_env = orm_env,
     bw_stamp = [], bw_metrics = (\<lambda>_ _ _. ''{}'')\<rparr>"

definition demo_candidate :: buy_candidate where
  "demo_candidate = \<lparr>bc_code = ''005930'', bc_name = ''S'', bc_score = 80, bc_price = 70000,
     bc_manual = CNone, bc_risk = [], bc_signal = ''UNKNOWN'', bc_factor = 0, bc_reason = []\<rparr>"

text \<open>A manual purchase of ten shares, with a preset that maps to no configuration key.\<close>

definition demo_scan :: scan_result where
  "demo_scan = \<lparr>sr_candidates = [demo_candidate], sr_regime = Some REGIME_BULL,
     sr_preset = Some (None, [(''x'', CInt 1)]), sr_risk = [(''position_size_ratio'', 1)],
     sr_manual = CInt 10\<rparr>"

definition demo_buy_state :: buy_state where
  "demo_buy_state = \<lparr>bs_config = config_init 300, bs_sizer = default_sizer,
     bs_sectors = \<lparr>db_pool_initialized = True, sector_cache = Map.empty\<rparr>,
     bs_db = empty_db, bs_orders = []\<rparr>"

lemma plain_get_int: "get_int plain_world k (Some d) (config_init 300) = (d, config_init 300)"
  by (simp add: get_int_def cfg_get_def db_lookup_def static_lookup_def plain_world_def config_init_def)

lemma plain_get_float: "get_float plain_world k (Some d) (config_init 300) = (d, config_init 300)"
  by (simp add: get_float_def cfg_get_def db_lookup_def static_lookup_def plain_world_def config_init_def)

lemma demo_apply: "apply_preset_to_config [(''x'', CInt 1)] plain_world (config_init 300) = config_init 300"
  by (simp add: apply_preset_to_config_def config_key_map_def)

lemmas demo_defs = demo_buy_world_def demo_kis_def demo_candidate_def demo_scan_def demo_buy_state_def

lemma demo_preset_step: "apply_preset_step demo_buy_world demo_scan demo_buy_state = (Next (), demo_buy_state)"
  by (simp add: apply_preset_step_def preset_params_of_def demo_defs demo_apply refresh_from_config_def
      plain_get_int plain_get_float default_sizer_def Let_def)

lemma demo_safety_step: "safety_step demo_buy_world demo_buy_state = (Next (), demo_buy_state)"
  by (simp add: safety_step_def check_safety_constraints_def demo_defs plain_get_int empty_db_def
      get_today_buy_count_def today_buys_def get_active_portfolio_def Let_def)

lemma demo_select: "select_candidate demo_buy_world demo_scan demo_buy_state = (Next demo_candidate, demo_buy_state)"
  by (simp add: select_candidate_def not_held_def demo_defs empty_db_def get_active_portfolio_def
      was_traded_recently_def orm_traded_since_def min_llm_score_def plain_world_def sort_desc_def Let_def)

lemma demo_size: "size_step demo_buy_world demo_scan demo_candidate False 10000000 70000 demo_buy_state =
    (Next 10, demo_buy_state)"
  by (simp add: size_step_def demo_scan_def)

lemma demo_limits: "limits_step demo_buy_world demo_scan demo_buy_state = (Next (30, 10), demo_buy_state)"
  by (simp add: limits_step_def demo_defs plain_get_float market_regime_of_def shared_cache_def
      needs_regime_cache_def)

lemma demo_steps: "cash_of (bw_kis demo_buy_world) = Inr 10000000"
  "price_step demo_buy_world demo_candidate demo_buy_state = (Next 70000, demo_buy_state)"
  "get_active_portfolio (bs_db demo_buy_state) = []"
  "sr_candidates demo_scan \<noteq> []"
  by (simp_all add: demo_defs price_step_def empty_db_def get_active_portfolio_def)

lemmas demo_path = demo_preset_step demo_safety_step demo_select demo_size demo_limits demo_steps

lemma demo_diversify:
  "\<exists>s'. diversify_step call_as_declared demo_buy_world demo_candidate [] 10000000 70000 (30, 10) 10 demo_buy_state =
     (Next 10, s') \<and> bs_orders s' = []"
  by (simp add: diversify_step_def call_as_declared_def check_diversification_method_def demo_defs
      get_sector_def sector_unclassified_def check_diversification_def div_limit_def portfolio_cache_def
      assess_diversification_def portfolio_total_def decide_diversification_def share_pct_def
      dict_add_def dict_get_def Let_def)

lemma demo_prefix:
  "process_buy_signal_with call demo_buy_world demo_scan False demo_buy_state =
     seq (diversify_step call demo_buy_world demo_candidate [] 10000000 70000 (30, 10) 10) (\<lambda>n.
     seq (order_step demo_buy_world demo_candidate False n) (\<lambda>order_no.
     seq (record_step demo_buy_world (buy_request demo_buy_world demo_candidate False
            (risk_setting_of demo_buy_world demo_scan demo_candidate) n 70000)) (\<lambda>_.
       next_with (receipt demo_candidate order_no n 70000 False)))) demo_buy_state"
  by (simp add: process_buy_signal_with_def seq_def [of _ _ demo_buy_state] return_if_def of_res_def demo_path)

lemma demo_intended_order:
  "bs_orders (snd (process_intended demo_buy_world demo_scan False demo_buy_state)) = [(''005930'', 10)]"
proof -
  from demo_diversify obtain s' where d: "diversify_step call_as_declared demo_buy_world demo_candidate []
      10000000 70000 (30, 10) 10 demo_buy_state = (Next 10, s')" and o: "bs_orders s' = []" by blast
  have ord: "order_step demo_buy_world demo_candidate False 10 s' = (Next ''0001'', s'\<lparr>bs_orders := [(''005930'', 10)]\<rparr>)"
    using o by (simp add: order_step_def demo_defs Let_def)
  show ?thesis
    by (simp add: process_intended_def demo_prefix seq_def d ord record_step_def next_with_def)
qed

theorem buy_order_guards_witness:
  "\<exists>cand. cand \<in> set (sr_candidates demo_scan) \<and>
     bs_orders (snd (process_intended demo_buy_world demo_scan False demo_buy_state)) = [(bc_code cand, 10)]"
proof -
  obtain r s' where run: "process_intended demo_buy_world demo_scan False demo_buy_state = (r, s')"
    by (cases "process_intended demo_buy_world demo_scan False demo_buy_state")
  with demo_intended_order have o: "bs_orders s' = [(''005930'', 10)]" by simp
  then have "bs_orders s' \<noteq> bs_orders demo_buy_state" by (simp add: demo_buy_state_def)
  from buy_order_guards [OF quiet_call_as_declared run [unfolded process_intended_def] this] o run
  show ?thesis by (auto simp: demo_buy_state_def)
qed

text \<open>Steps that never answer with a success, and steps that never go on.\<close>

definition stops :: "'a buy_step \<Rightarrow> bool" where
  "stops p \<longleftrightarrow> keeps quiet p \<and> (\<forall>s b. fst (p s) \<noteq> Return (BuySuccess b))"

definition halts :: "'a buy_step \<Rightarrow> bool" where
  "halts p \<longleftrightarrow> stops p \<and> (\<forall>s x. fst (p s) \<noteq> Next x)"

lemma halts_seq: "stops p \<Longrightarrow> (\<And>a. halts (f a)) \<Longrightarrow> halts (seq p f)"
proof -
  assume p: "stops p" and f: "\<And>a. halts (f a)"
  have "keeps quiet (seq p f)"
    using p f by (intro keeps_seq [OF quiet_transp]) (simp_all add: stops_def halts_def)
  moreover have "fst (seq p f s) \<noteq> Return (BuySuccess b) \<and> fst (seq p f s) \<noteq> Next x" for s b x
  proof (cases "p s")
    case (Pair v s1)
    have "fst (p s) \<noteq> Return (BuySuccess b)" using p by (simp add: stops_def)
    with Pair f show ?thesis by (cases v) (auto simp: seq_def halts_def stops_def)
  qed
  ultimately show ?thesis by (simp add: halts_def stops_def)
qed

lemma halts_seq_first: "halts p \<Longrightarrow> halts (seq p f)"
proof -
  assume p: "halts p"
  have "quiet s (snd (seq p f s)) \<and> (\<forall>b. fst (seq p f s) \<noteq> Return (BuySuccess b)) \<and> (\<forall>x. fst (seq p f s) \<noteq> Next x)"
    for s
  proof (cases "p s")
    case (Pair v s1)
    have "fst (p s) \<noteq> Next x" "fst (p s) \<noteq> Return (BuySuccess b)" "quiet s (snd (p s))" for x b
      using p by (simp_all add: halts_def stops_def keeps_def)
    with Pair show ?thesis by (cases v) (auto simp: seq_def)
  qed
  then show ?thesis by (simp add: halts_def stops_def keeps_def)
qed

lemma stops_steps:
  "stops (return_if b (BuySkipped why))" "stops (apply_preset_step w scan)" "stops (safety_step w)"
  "stops (\<lambda>s. (Next (f s), s))" "stops (select_candidate w scan)" "stops (of_res x)"
  "stops (price_step w cand)" "stops (size_step w scan cand dry cash price)" "stops (limits_step w scan)"
  using quiet_steps
  by (auto simp: stops_def return_if_def apply_preset_step_def safety_step_def select_candidate_def
      of_res_def price_step_def size_step_def limits_step_def Let_def
      split: prod.splits option.splits sum.splits list.splits if_splits)

lemma halts_diversify: "halts (diversify_step call_as_written w cand ps cash price limits q)"
  using quiet_diversify [OF quiet_call_as_written]
  by (auto simp: halts_def stops_def diversify_step_def call_as_written_def split: prod.splits)

text \<open>
  C1. No automatic or manual purchase can succeed: whatever the scan result and the state,
  the handler never answers with a success, sends no order and records no trade. Where the
  handler of the declared method buys ten shares, the handler as written raises NameError.
\<close>

theorem buy_signal_never_succeeds:
  "(case process_buy_signal w scan dry s of
      (r, s') \<Rightarrow> (\<forall>x. r \<noteq> Next x) \<and> (\<forall>b. r \<noteq> Return (BuySuccess b)) \<and>
                  bs_orders s' = bs_orders s \<and> bs_db s' = bs_db s) \<and>
   fst (process_buy_signal demo_buy_world demo_scan False demo_buy_state) = Raise NameError \<and>
   bs_orders (snd (process_intended demo_buy_world demo_scan False demo_buy_state)) = [(''005930'', 10)]"
proof -
  have "halts (process_buy_signal w scan dry)"
    unfolding process_buy_signal_def process_buy_signal_with_def
    by (intro halts_seq stops_steps halts_seq_first halts_diversify)
  then have "case process_buy_signal w scan dry s of
      (r, s') \<Rightarrow> (\<forall>x. r \<noteq> Next x) \<and> (\<forall>b. r \<noteq> Return (BuySuccess b)) \<and>
                  bs_orders s' = bs_orders s \<and> bs_db s' = bs_db s"
    unfolding halts_def stops_def keeps_def quiet_def by (auto split: prod.split) (metis fst_conv snd_conv)+
  moreover have "fst (process_buy_signal demo_buy_world demo_scan False demo_buy_state) = Raise NameError"
    by (simp add: process_buy_signal_def demo_prefix seq_def diversify_step_def call_as_written_def)
  ultimately show ?thesis using demo_intended_order by blast
qed

lemma resized_value:
  assumes "0 < price" "0 < ta" "0 \<le> pct" "n = py_int (pct_of pct ta / price)"
  shows "share_pct (of_int n * price) ta \<le> pct"
proof -
  have "of_int n * price \<le> pct_of pct ta"
    unfolding assms(4) using assms(1-3) by (intro py_int_div_cost pct_of_nonneg) simp_all
  with assms(2) show ?thesis by (simp add: share_pct_le_iff)
qed

text \<open>
  A purchase that is cut back after a refusal fits: with the new quantity the sector (or
  the stock) stays a tenth of a percent below its limit, and at least half of the original
  quantity is bought.
\<close>

theorem resize_fits_limits:
  assumes "resize_for ms mk ta price original (Checked d) = Inr (Inr n)"
    and "0 < price" "0 < ta" "0 < original" "1 / 10 \<le> mk"
  shows "0 < n \<and> original \<le> 2 * n \<and>
    (case div_reason d of
       SectorExceeded _ _ _ \<Rightarrow>
         (case current_sector_exposure d of None \<Rightarrow> 0 | Some x \<Rightarrow> x) + share_pct (of_int n * price) ta
           \<le> ms - 1 / 10
     | StockExceeded _ _ \<Rightarrow> n < original \<and> share_pct (of_int n * price) ta \<le> mk - 1 / 10
     | _ \<Rightarrow> False)"
proof -
  have half: "original \<le> 2 * n" if "\<not> (of_int n / of_int original :: rat) < 1 / 2"
  proof -
    have "of_int original \<le> (2 * of_int n :: rat)"
      using that assms(4) by (simp add: not_less pos_le_divide_eq)
    then have "of_int original \<le> (of_int (2 * n) :: rat)" by simp
    then show ?thesis by (simp only: of_int_le_iff)
  qed
  show ?thesis
  proof (cases "div_reason d")
    case (SectorExceeded a b c)
    define cur where "cur = (case current_sector_exposure d of None \<Rightarrow> 0 | Some x \<Rightarrow> x)"
    from assms(1) SectorExceeded have
      r: "resize_sector ms ta price original cur = Inr (Inr n)" by (simp add: resize_for_def cur_def)
    then have room: "1 / 2 < ms - cur" by (simp add: resize_sector_def Let_def split: if_splits)
    with r assms(2) have n: "n = py_int (pct_of (ms - cur - 1 / 10) ta / price)" "0 < n"
      "\<not> (of_int n / of_int original :: rat) < 1 / 2"
      by (auto simp: resize_sector_def Let_def max_def split: if_splits)
    from resized_value [OF assms(2,3) _ n(1)] room n half SectorExceeded show ?thesis
      by (simp add: cur_def [symmetric])
  next
    case (StockExceeded a b)
    with assms(1) have r: "resize_stock mk ta price original = Inr (Inr n)" by (simp add: resize_for_def)
    with assms(2,5) have n: "n = py_int (pct_of (mk - 1 / 10) ta / price)" "0 < n" "n < original"
      "\<not> (of_int n / of_int original :: rat) < 1 / 2"
      by (auto simp: resize_stock_def Let_def max_def split: if_splits)
    from resized_value [OF assms(2,3) _ n(1)] n half StockExceeded assms(5) show ?thesis by simp
  qed (use assms(1) in \<open>simp_all add: resize_for_def\<close>)
qed

theorem resize_fits_limits_witness:
  "resize_for 30 10 10000000 70000 20
     (Checked \<lparr>approved = False, div_reason = StockExceeded 14 10, sector_exposure = [],
              current_sector_exposure = None, concentration_risk = High\<rparr>) = Inr (Inr 14) \<and>
   (20::int) \<le> 2 * 14"
proof -
  have r: "resize_for 30 10 10000000 70000 20
     (Checked \<lparr>approved = False, div_reason = StockExceeded 14 10, sector_exposure = [],
              current_sector_exposure = None, concentration_risk = High\<rparr>) = Inr (Inr 14)"
    by (simp add: resize_for_def resize_stock_def pct_of_def py_int_def Let_def)
  from resize_fits_limits [OF r] r show ?thesis by simp
qed

end
