(* ===== verification/Buy_Scanner.thy ===== *)
theory Buy_Scanner
  imports Factor_Scoring Redis_Cache Buy_Executor "HOL-Library.Multiset"
begin

text \<open>
  \<open>services/buy-scanner/scanner.py\<close> and \<open>strategy/bear_strategies.py\<close>: the market analysis with
  its caches, the choice of the stocks to scan, the analysis of one stock (today's price
  worked into the daily rows, signals, factor score, news sentiment), and the scan result
  that the buy executor receives.

  The price tables, the broker, the clock and the finishing order of the worker threads are
  the record \<open>scan_world\<close>. A thread changes nothing but the caches of the configuration; the
  model runs the analyses in the order of the watchlist and gives their results in the order
  of \<open>sw_finish\<close>.
\<close>

section \<open>Data\<close>

text \<open>\<open>bear_strategy\<close> of the LLM metadata: its \<open>market_regime_strategy\<close> and the entry hint.\<close>

record bear_plan =
  bp_decision :: "string option"
  bp_type :: "string option"
  bp_confidence :: rat
  bp_focus :: "string option"

record watch_info =
  wi_name :: string
  wi_tradable :: bool
  wi_per :: "rat option"
  wi_pbr :: "rat option"
  wi_score :: rat
  wi_reason :: string
  wi_grade :: "string option"
  wi_bear :: "bear_plan option"

record snapshot =
  sn_price :: rat
  sn_high :: "rat option"
  sn_low :: "rat option"
  sn_open :: "rat option"

record bear_context =
  bx_position_ratio :: rat
  bx_stop_loss_atr_mult :: rat
  bx_tp_pct :: rat
  bx_partial_ratio :: rat
  bx_volume_multiplier :: rat

record market_analysis =
  an_regime :: string
  an_strategies :: "string list"
  an_risk :: risk_dict
  an_preset :: "(string option \<times> params) option"

type_synonym metrics = "(string \<times> jval) list"

record found_candidate =
  fc_code :: string
  fc_info :: watch_info
  fc_rows :: "price_row list"
  fc_signal :: string
  fc_metrics :: metrics
  fc_factor :: rat
  fc_price :: rat

record scan_world =
  sw_cfg :: cfg_world
  sw_backend :: backend
  sw_presets :: "preset_file option"
  sw_clock :: rat
  sw_day :: int
  sw_snapshot :: "string \<Rightarrow> snapshot option res"
  sw_cash :: "rat res"
  sw_watchlist :: "(string \<times> watch_info) list res"
  sw_prices :: "string \<Rightarrow> int \<Rightarrow> price_row list res"
  sw_prices_batch :: "string list \<Rightarrow> (string \<Rightarrow> price_row list option) res"
  sw_link :: redis_link
  sw_shared_alive :: bool
  sw_finish :: "found_candidate list \<Rightarrow> found_candidate list"

record scan_state =
  sc_config :: config_manager
  sc_cache :: "market_analysis option"
  sc_stamp :: rat
  sc_shared :: "market_analysis option"
  sc_redis :: redis
  sc_db :: trade_db

abbreviation kospi_code :: string where "kospi_code \<equiv> ''0001''"

section \<open>Bear market strategies\<close>

definition volumes :: "price_row list \<Rightarrow> rat list" where
  "volumes rows = map (\<lambda>r. case row_volume r of None \<Rightarrow> 0 | Some v \<Rightarrow> v) rows"

definition build_risk_key_metrics :: "rat \<Rightarrow> rat \<Rightarrow> bear_context \<Rightarrow> string \<Rightarrow> metrics" where
  "build_risk_key_metrics current_price atr ctx strategy_name =
     [(''strategy'', JStr strategy_name), (''atr'', JNum atr), (''position_ratio'', JNum (bx_position_ratio ctx)),
      (''stop_loss'', JNum (max 0 (current_price - atr * bx_stop_loss_atr_mult ctx))),
      (''first_take_profit'', JNum (current_price * (1 + bx_tp_pct ctx))),
      (''partial_close_ratio'', JNum (bx_partial_ratio ctx)), (''trailing_activation'', JNum (bx_tp_pct ctx))]"

text \<open>The volume of the last row and the mean of the last twenty, when the spike is big enough.\<close>

definition volume_spike :: "rat \<Rightarrow> price_row list \<Rightarrow> (rat \<times> rat) option" where
  "volume_spike multiplier rows =
     (let vs = volumes rows in
      if length vs < 20 then None
      else
        let recent = last vs; ma20 = sum_list (last_n 20 vs) / 20
        in if ma20 \<le> 0 \<or> recent < ma20 * multiplier then None else Some (recent, ma20))"

definition bear_payload ::
  "backend \<Rightarrow> price_row list \<Rightarrow> rat \<Rightarrow> bear_context \<Rightarrow> string \<Rightarrow> metrics \<Rightarrow> rat \<times> rat \<Rightarrow> (string \<times> metrics) option res" where
  "bear_payload b rows price ctx name own spike =
     rbind (calculate_atr b (Some (row_bars rows)) 14) (\<lambda>atr.
       case atr of
         None \<Rightarrow> Inr None
       | Some a \<Rightarrow>
           if a = 0 then Inr None
           else Inr (Some (name, build_risk_key_metrics price a ctx name @ own @
                  [(''recent_volume'', JNum (fst spike)), (''volume_ma20'', JNum (snd spike))])))"

definition evaluate_snipe_dip ::
  "backend \<Rightarrow> price_row list \<Rightarrow> rat \<Rightarrow> bear_context \<Rightarrow> (string \<times> metrics) option res" where
  "evaluate_snipe_dip b rows price ctx =
     (if rows = [] then Inr None
      else
        (case calculate_rsi b (Frame (row_bars rows)) 14 of
           None \<Rightarrow> Inr None
         | Some rsi \<Rightarrow>
             if rsi = 0 \<or> 30 \<le> rsi then Inr None
             else
               (case calculate_bollinger_bands b (row_bars rows) 20 2 of
                  None \<Rightarrow> Inr None
                | Some lower_band \<Rightarrow>
                    if lower_band < price then Inr None
                    else
                      (case volume_spike (bx_volume_multiplier ctx) rows of
                         None \<Rightarrow> Inr None
                       | Some spike \<Rightarrow>
                           bear_payload b rows price ctx BEAR_SNIPE_DIP
                             [(''rsi'', JNum rsi), (''bollinger_lower'', JNum lower_band)] spike))))"

definition evaluate_momentum_breakout ::
  "backend \<Rightarrow> price_row list \<Rightarrow> rat \<Rightarrow> price_row list \<Rightarrow> bear_context \<Rightarrow> (string \<times> metrics) option res" where
  "evaluate_momentum_breakout b rows price kospi ctx =
     (if length rows < 20 then Inr None
      else
        let ma20 = sum_list (last_n 20 (row_closes rows)) / 20 in
        if price \<le> ma20 then Inr None
        else
          (case calculate_relative_strength (row_bars rows) (row_bars kospi) 5 of
             None \<Rightarrow> Inr None
           | Some rs \<Rightarrow>
               if rs \<le> 0 then Inr None
               else
                 (case volume_spike (bx_volume_multiplier ctx - 2 / 10) rows of
                    None \<Rightarrow> Inr None
                  | Some spike \<Rightarrow>
                      bear_payload b rows price ctx BEAR_MOMENTUM_BREAKOUT
                        [(''ma20'', JNum ma20), (''relative_strength_pct'', JNum rs)] spike)))"

section \<open>Signals\<close>

text \<open>A window length from the configuration; pandas refuses a negative one, which gives no signal.\<close>

definition bollinger_of :: "backend \<Rightarrow> price_row list \<Rightarrow> int \<Rightarrow> rat option" where
  "bollinger_of b rows period =
     (if period < 0 then None else calculate_bollinger_bands b (row_bars rows) (nat period) 2)"

definition golden_cross_of :: "price_row list \<Rightarrow> int \<Rightarrow> int \<Rightarrow> bool" where
  "golden_cross_of rows short_period long_period \<longleftrightarrow>
     0 \<le> short_period \<and> 0 \<le> long_period \<and>
     check_golden_cross (row_bars rows) (nat short_period) (nat long_period)"

definition bollinger_signal :: "string \<Rightarrow> rat \<Rightarrow> rat option \<Rightarrow> (string \<times> metrics) option" where
  "bollinger_signal regime price lower =
     (case lower of
        None \<Rightarrow> None
      | Some l \<Rightarrow>
          if l = 0 then None
          else
            let distance = (price - l) / l * 100 in
            if price \<le> l then
              Some (''BB_LOWER'', [(''close_price'', JNum price), (''bollinger_lower'', JNum l),
                                   (''strategy'', JStr MEAN_REVERSION)])
            else if distance \<le> 2 \<and> regime = REGIME_BULL then
              Some (''BB_LOWER_NEAR'', [(''close_price'', JNum price), (''bollinger_lower'', JNum l),
                                        (''bb_distance_pct'', JNum distance), (''strategy'', JStr MEAN_REVERSION)])
            else None)"

text \<open>What one strategy of the list reports; a name that no branch handles reports nothing.\<close>

definition strategy_signal ::
  "scan_world \<Rightarrow> price_row list \<Rightarrow> rat \<Rightarrow> rat option \<Rightarrow> string \<Rightarrow> price_row list \<Rightarrow> string \<Rightarrow> config_manager \<Rightarrow>
   (string \<times> metrics) option res \<times> config_manager" where
  "strategy_signal w rows price rsi regime kospi strategy c =
     (if strategy = MEAN_REVERSION then
        (case get_int (sw_cfg w) ''BUY_BOLLINGER_PERIOD'' (Some 20) c of (period, c1) \<Rightarrow>
           (case bollinger_signal regime price (bollinger_of (sw_backend w) rows period) of
              Some hit \<Rightarrow> (Inr (Some hit), c1)
            | None \<Rightarrow>
                (case rsi of
                   None \<Rightarrow> (Inr None, c1)
                 | Some r \<Rightarrow>
                     if r = 0 then (Inr None, c1)
                     else
                       (case get_int (sw_cfg w) ''BUY_RSI_OVERSOLD_THRESHOLD'' (Some 30) c1 of (limit, c2) \<Rightarrow>
                          let threshold = (if regime = REGIME_BULL then 40 else limit) in
                          ((if r \<le> of_int threshold
                            then Inr (Some (''RSI_OVERSOLD'', [(''rsi'', JNum r), (''rsi_threshold'', JNum (of_int threshold)),
                                                               (''strategy'', JStr MEAN_REVERSION)]))
                            else Inr None), c2)))))
      else if strategy = TREND_FOLLOWING then
        (case get_int (sw_cfg w) ''BUY_GOLDEN_CROSS_SHORT'' (Some 5) c of (short_period, c1) \<Rightarrow>
         case get_int (sw_cfg w) ''BUY_GOLDEN_CROSS_LONG'' (Some 20) c1 of (long_period, c2) \<Rightarrow>
           ((if golden_cross_of rows short_period long_period
             then Inr (Some (''GOLDEN_CROSS'', [(''signal'', JStr ''GOLDEN_CROSS_5_20''), (''strategy'', JStr TREND_FOLLOWING)]))
             else Inr None), c2))
      else if strategy = ''MOMENTUM'' then
        ((case calculate_momentum (row_bars rows) 5 of
            None \<Rightarrow> Inl TypeError
          | Some m \<Rightarrow>
              if m \<noteq> 0 \<and> 3 \<le> m
              then Inr (Some (''MOMENTUM'', [(''momentum_pct'', JNum m), (''strategy'', JStr ''MOMENTUM'')]))
              else Inr None), c)
      else if strategy = ''RELATIVE_STRENGTH'' then
        ((if kospi = [] then Inr None
          else
            (case calculate_relative_strength (row_bars rows) (row_bars kospi) 5 of
               None \<Rightarrow> Inr None
             | Some rs \<Rightarrow>
                 if rs \<noteq> 0 \<and> 2 \<le> rs
                 then Inr (Some (''RELATIVE_STRENGTH'', [(''relative_strength_pct'', JNum rs),
                                                         (''strategy'', JStr ''RELATIVE_STRENGTH'')]))
                 else Inr None)), c)
      else (Inr None, c))"

fun detect_signals ::
  "scan_world \<Rightarrow> price_row list \<Rightarrow> rat \<Rightarrow> rat option \<Rightarrow> string \<Rightarrow> price_row list \<Rightarrow> string list \<Rightarrow> config_manager \<Rightarrow>
   (string \<times> metrics) option res \<times> config_manager" where
  "detect_signals w rows price rsi regime kospi [] c = (Inr None, c)"
| "detect_signals w rows price rsi regime kospi (s # ss) c =
     (case strategy_signal w rows price rsi regime kospi s c of
        (Inr None, c1) \<Rightarrow> detect_signals w rows price rsi regime kospi ss c1
      | r \<Rightarrow> r)"

section \<open>One stock\<close>

text \<open>
  The current price goes into the row of today, or a new row is appended, which has no
  volume: the snapshot supplies none.
\<close>

definition with_today :: "int \<Rightarrow> snapshot \<Rightarrow> price_row list \<Rightarrow> price_row list" where
  "with_today day sn rows =
     (if rows = [] then []
      else if row_day (last rows) = day then
        butlast rows @
          [let x = row_bar (last rows) in
           (last rows)\<lparr>row_bar := x\<lparr>close_price := sn_price sn,
              high_price := (case sn_high sn of None \<Rightarrow> high_price x
                             | Some h \<Rightarrow> if h = 0 then high_price x else max (high_price x) h),
              low_price := (case sn_low sn of None \<Rightarrow> low_price x
                            | Some l \<Rightarrow> if l = 0 then low_price x else min (low_price x) l)\<rparr>\<rparr>]
      else
        rows @ [\<lparr>row_day = day,
          row_bar = \<lparr>open_price = (case sn_open sn of None \<Rightarrow> sn_price sn | Some p \<Rightarrow> p),
                     high_price = (case sn_high sn of None \<Rightarrow> sn_price sn | Some p \<Rightarrow> p),
                     low_price = (case sn_low sn of None \<Rightarrow> sn_price sn | Some p \<Rightarrow> p),
                     close_price = sn_price sn\<rparr>,
          row_volume = None\<rparr>])"

definition current_rows :: "scan_world \<Rightarrow> string \<Rightarrow> price_row list \<Rightarrow> (rat \<times> price_row list) option res" where
  "current_rows w code rows =
     rbind (sw_snapshot w code) (\<lambda>sn.
       case sn of
         Some x \<Rightarrow>
           if sn_price x \<noteq> 0 then Inr (Some (sn_price x, with_today (sw_day w) x rows))
           else if rows \<noteq> [] then Inr (Some (close_price (row_bar (last rows)), rows)) else Inr None
       | None \<Rightarrow> if rows \<noteq> [] then Inr (Some (close_price (row_bar (last rows)), rows)) else Inr None)"

definition bear_signal ::
  "scan_world \<Rightarrow> price_row list \<Rightarrow> rat \<Rightarrow> price_row list \<Rightarrow> bear_context \<Rightarrow> bear_plan \<Rightarrow> (string \<times> metrics) option res" where
  "bear_signal w rows price kospi ctx plan =
     (let mapped = map_llm_strategy (case bp_type plan of None \<Rightarrow> [] | Some t \<Rightarrow> t) in
      if mapped = Some BEAR_SNIPE_DIP then evaluate_snipe_dip (sw_backend w) rows price ctx
      else if mapped = Some BEAR_MOMENTUM_BREAKOUT then
        evaluate_momentum_breakout (sw_backend w) rows price kospi ctx
      else Inr None)"

definition bear_metrics :: "bear_plan \<Rightarrow> metrics \<Rightarrow> metrics" where
  "bear_metrics plan ms =
     ms @ (case bp_focus plan of None \<Rightarrow> [] | Some f \<Rightarrow> if f = [] then [] else [(''suggested_entry_focus'', JStr f)])
        @ [(''bear_mode'', JBool True),
           (''llm_strategy_type'', case bp_type plan of None \<Rightarrow> JNull | Some t \<Rightarrow> JStr t)]"

definition reverse_categories :: "string list" where
  "reverse_categories =
     [[CHR 0xEC, CHR 0x88, CHR 0x98, CHR 0xEC, CHR 0xA3, CHR 0xBC], [CHR 0xEB, CHR 0xB0, CHR
      0xB0, CHR 0xEB, CHR 0x8B, CHR 0xB9], [CHR 0xEC, CHR 0x9E, CHR 0x90, CHR 0xEC, CHR 0x82,
      CHR 0xAC, CHR 0xEC, CHR 0xA3, CHR 0xBC], [CHR 0xEC, CHR 0xA3, CHR 0xBC, CHR 0xEC, CHR
      0xA3, CHR 0xBC, CHR 0xED, CHR 0x99, CHR 0x98, CHR 0xEC, CHR 0x9B, CHR 0x90], [CHR 0xEB,
      CHR 0xB0, CHR 0xB0, CHR 0xEB, CHR 0x8B, CHR 0xB9, CHR 0xEB, CHR 0x9D, CHR 0xBD]]"

definition reverse_category :: "jval \<Rightarrow> bool res" where
  "reverse_category v =
     (case v of JStr s \<Rightarrow> Inr (s \<in> set reverse_categories) | JObj _ \<Rightarrow> Inl TypeError | _ \<Rightarrow> Inr False)"

text \<open>The factor score after the news: None drops the stock.\<close>

definition sentiment_adjusted :: "(string \<times> jval) list \<Rightarrow> rat \<Rightarrow> rat option res" where
  "sentiment_adjusted doc factor =
     (let category = field ''category'' JNull doc in
      case jnum (field ''score'' (JNum 50) doc) of
        None \<Rightarrow> Inl TypeError
      | Some score \<Rightarrow>
          rbind (if jtruth category then reverse_category category else Inr False) (\<lambda>rev_signal.
            let f = (if rev_signal \<and> 70 \<le> score then factor - factor * (2 / 10) else factor) in
            rbind (if 80 \<le> score then reverse_category category else Inr True) (\<lambda>held_back.
              Inr (if 80 \<le> score \<and> \<not> held_back then Some (f + f * (5 / 100))
                   else if score \<le> 20 then None else Some f))))"

definition calculate_factor_score ::
  "backend \<Rightarrow> watch_info \<Rightarrow> price_row list \<Rightarrow> price_row list \<Rightarrow> string \<Rightarrow> rat" where
  "calculate_factor_score b info rows kospi regime =
     final_score (momentum_score (row_closes rows) (Some (row_closes kospi)))
       (quality_score b None None None (row_closes rows)) (value_score (wi_pbr info) (wi_per info))
       (technical_score b rows) regime"

definition finish_stock ::
  "scan_world \<Rightarrow> redis \<Rightarrow> string \<Rightarrow> watch_info \<Rightarrow> price_row list \<Rightarrow> rat \<Rightarrow> string \<Rightarrow> price_row list \<Rightarrow>
   (string \<times> metrics) option res \<Rightarrow> found_candidate option" where
  "finish_stock w redis code info rows price regime kospi hit =
     (case hit of
        Inr (Some (signal, ms)) \<Rightarrow>
          if signal = [] then None
          else
            (case sentiment_adjusted (get_sentiment_score (sw_link w) code redis)
                    (calculate_factor_score (sw_backend w) info rows kospi regime) of
               Inr (Some f) \<Rightarrow>
                 Some \<lparr>fc_code = code, fc_info = info, fc_rows = rows, fc_signal = signal, fc_metrics = ms,
                       fc_factor = f, fc_price = price\<rparr>
             | _ \<Rightarrow> None)
      | _ \<Rightarrow> None)"

definition analyze_stock ::
  "scan_world \<Rightarrow> redis \<Rightarrow> string \<Rightarrow> watch_info \<Rightarrow> price_row list \<Rightarrow> string \<Rightarrow> string list \<Rightarrow> price_row list \<Rightarrow>
   bear_context option \<Rightarrow> config_manager \<Rightarrow> found_candidate option \<times> config_manager" where
  "analyze_stock w redis code info daily regime strategies kospi bear c =
     (case current_rows w code daily of
        Inr (Some (price, rows)) \<Rightarrow>
          if rows = [] then (None, c)
          else
            (case get_int (sw_cfg w) ''BUY_GOLDEN_CROSS_LONG'' (Some 20) c of (least, c1) \<Rightarrow>
               if int (length rows) < least then (None, c1)
               else
                 (case (bear, wi_bear info) of
                    (Some ctx, Some plan) \<Rightarrow>
                      (finish_stock w redis code info rows price regime kospi
                         (rbind (bear_signal w rows price kospi ctx plan)
                            (\<lambda>hit. Inr (map_option (\<lambda>(sig, ms). (sig, bear_metrics plan ms)) hit))), c1)
                  | _ \<Rightarrow>
                      (case detect_signals w rows price (calculate_rsi (sw_backend w) (Frame (row_bars rows)) 14)
                              regime kospi strategies c1 of
                         (hit, c2) \<Rightarrow> (finish_stock w redis code info rows price regime kospi hit, c2))))
      | _ \<Rightarrow> (None, c))"

section \<open>The market analysis\<close>

definition risk_entries :: "risk_setting \<Rightarrow> risk_dict" where
  "risk_entries r =
     [(''stop_loss_pct'', stop_loss_pct r), (''target_profit_pct'', target_profit_pct r),
      (''position_size_ratio'', position_size_ratio r)]"

definition kospi_price :: "scan_world \<Rightarrow> price_row list \<Rightarrow> rat res" where
  "kospi_price w rows =
     (let last_close = close_price (row_bar (last rows)) in
      rbind (if (case environ (sw_cfg w) ''TRADING_MODE'' of None \<Rightarrow> ''MOCK'' | Some m \<Rightarrow> m) = ''MOCK''
             then Inr last_close
             else rbind (sw_snapshot w kospi_code) (\<lambda>sn.
                    case sn of None \<Rightarrow> Inl RuntimeError | Some x \<Rightarrow> Inr (sn_price x)))
        (\<lambda>price. Inr (if price \<le> 0 then last_close else price)))"

definition fresh_analysis :: "scan_world \<Rightarrow> config_manager \<Rightarrow> market_analysis res \<times> config_manager" where
  "fresh_analysis w c =
     (case get_int (sw_cfg w) ''MARKET_INDEX_MA_PERIOD'' (Some 20) c of (period, c1) \<Rightarrow>
        (case sw_prices w kospi_code period of
           Inl e \<Rightarrow> (Inl e, c1)
         | Inr rows \<Rightarrow>
             if rows = [] \<or> int (length rows) < period then (Inl RuntimeError, c1)
             else
               (case kospi_price w rows of
                  Inl e \<Rightarrow> (Inl e, c1)
                | Inr price \<Rightarrow>
                    let regime = fst (detect_regime (sw_backend w) (row_bars rows) price);
                        (preset_name, ps) = resolve_preset_for_regime (sw_presets w) (Some regime) ''balanced_champion''
                    in (Inr \<lparr>an_regime = regime, an_strategies = select_strategies regime,
                             an_risk = risk_entries (get_dynamic_risk_setting regime),
                             an_preset = Some (Some preset_name, ps)\<rparr>,
                        apply_preset_to_config ps (sw_cfg w) c1))))"

text \<open>
  The process cache lives an hour, then the shared cache is asked; after a failure the
  market counts as sideways and nothing is cached.
\<close>

definition analyze_market_regime :: "scan_world \<Rightarrow> scan_state \<Rightarrow> market_analysis \<times> scan_state" where
  "analyze_market_regime w s =
     (let compute =
        (case (if sw_shared_alive w then sc_shared s else None) of
           Some a \<Rightarrow> (a, s\<lparr>sc_cache := Some a, sc_stamp := sw_clock w\<rparr>)
         | None \<Rightarrow>
             (case fresh_analysis w (sc_config s) of
                (Inr a, c) \<Rightarrow>
                  (a, s\<lparr>sc_config := c, sc_cache := Some a, sc_stamp := sw_clock w,
                        sc_shared := (if sw_shared_alive w then Some a else sc_shared s)\<rparr>)
              | (Inl e, c) \<Rightarrow>
                  (\<lparr>an_regime = REGIME_SIDEWAYS, an_strategies = [MEAN_REVERSION], an_risk = [], an_preset = None\<rparr>,
                   s\<lparr>sc_config := c\<rparr>)))
      in case sc_cache s of
           Some a \<Rightarrow> if sw_clock w - sc_stamp s < 3600 then (a, s) else compute
         | None \<Rightarrow> compute)"

section \<open>The scan\<close>

definition bear_allowed :: "int \<Rightarrow> watch_info \<Rightarrow> bool" where
  "bear_allowed min_confidence info \<longleftrightarrow>
     (case (wi_bear info, wi_grade info) of
        (Some p, Some g) \<Rightarrow>
          bp_decision p = Some ''TRADABLE'' \<and> bp_type p \<noteq> Some ''DO_NOT_TRADE'' \<and>
          of_int min_confidence \<le> bp_confidence p \<and> g \<in> {''S'', ''A'', ''B''}
      | _ \<Rightarrow> False)"

definition bear_watchlist :: "int \<Rightarrow> (string \<times> watch_info) list \<Rightarrow> (string \<times> watch_info) list" where
  "bear_watchlist min_confidence watch =
     map (\<lambda>(code, info). (code, info\<lparr>wi_tradable := True\<rparr>)) (filter (\<lambda>(_, info). bear_allowed min_confidence info) watch)"

definition read_bear_context :: "scan_world \<Rightarrow> config_manager \<Rightarrow> bear_context \<times> config_manager" where
  "read_bear_context w c =
     (case get_float (sw_cfg w) ''BEAR_POSITION_RATIO'' (Some (2 / 10)) c of (a, c1) \<Rightarrow>
      case get_float (sw_cfg w) ''BEAR_STOP_LOSS_ATR_MULT'' (Some 2) c1 of (d, c2) \<Rightarrow>
      case get_float (sw_cfg w) ''BEAR_FIRST_TP_PCT'' (Some (3 / 100)) c2 of (e, c3) \<Rightarrow>
      case get_float (sw_cfg w) ''BEAR_PARTIAL_CLOSE_RATIO'' (Some (5 / 10)) c3 of (f, c4) \<Rightarrow>
      case get_float (sw_cfg w) ''BEAR_VOLUME_SPIKE_MULTIPLIER'' (Some (15 / 10)) c4 of (g, c5) \<Rightarrow>
        (\<lparr>bx_position_ratio = a, bx_stop_loss_atr_mult = d, bx_tp_pct = e, bx_partial_ratio = f,
          bx_volume_multiplier = g\<rparr>, c5))"

text \<open>
  A holding as the store returns it has no key \<open>buy_price\<close>, so \<open>p.get('buy_price', 0)\<close> is 0.
\<close>

definition buy_price_of :: "position \<Rightarrow> rat" where
  "buy_price_of p = 0"

definition tier2_enabled :: "rat res \<Rightarrow> position list \<Rightarrow> bool" where
  "tier2_enabled cash portfolio =
     (case cash of
        Inl e \<Rightarrow> False
      | Inr available \<Rightarrow>
          let total_assets = available + sum_list (map (\<lambda>p. of_int (p_qty p) * buy_price_of p) portfolio);
              cash_ratio = (if 0 < total_assets then available / total_assets else 0)
          in 3 / 10 < cash_ratio)"

definition tradable_codes ::
  "(string \<times> watch_info) list \<Rightarrow> string set \<Rightarrow> bool \<Rightarrow> bool \<Rightarrow> string list" where
  "tradable_codes watch owned tier2 bear_mode =
     map fst (filter (\<lambda>(code, info).
       (if bear_mode then wi_bear info \<noteq> None else wi_tradable info \<or> tier2) \<and> code \<notin> owned) watch)"

fun analyze_all ::
  "(string \<Rightarrow> watch_info \<Rightarrow> config_manager \<Rightarrow> found_candidate option \<times> config_manager) \<Rightarrow>
   (string \<times> watch_info) list \<Rightarrow> config_manager \<Rightarrow> found_candidate list \<times> config_manager" where
  "analyze_all run [] c = ([], c)"
| "analyze_all run ((code, info) # rest) c =
     (case run code info c of (found, c1) \<Rightarrow>
      case analyze_all run rest c1 of (others, c2) \<Rightarrow>
        ((case found of None \<Rightarrow> others | Some x \<Rightarrow> x # others), c2))"

definition scan_stocks_parallel ::
  "scan_world \<Rightarrow> (string \<times> watch_info) list \<Rightarrow> string set \<Rightarrow> string \<Rightarrow> string list \<Rightarrow> bool \<Rightarrow> bear_context option \<Rightarrow>
   scan_state \<Rightarrow> found_candidate list res \<times> scan_state" where
  "scan_stocks_parallel w watch owned regime strategies tier2 bear s =
     (let codes = tradable_codes watch owned tier2 (bear \<noteq> None);
          recent = traded_batch codes 4 (sc_db s);
          to_scan = filter (\<lambda>code. code \<notin> recent) codes
      in if to_scan = [] then (Inr [], s)
         else
           (case sw_prices_batch w to_scan of
              Inl e \<Rightarrow> (Inl e, s)
            | Inr daily \<Rightarrow>
                (case sw_prices w kospi_code 120 of
                   Inl e \<Rightarrow> (Inl e, s)
                 | Inr kospi \<Rightarrow>
                     let jobs = filter (\<lambda>(code, _). code \<in> set to_scan \<and> daily code \<noteq> None) watch in
                     (case analyze_all (\<lambda>code info. analyze_stock w (sc_redis s) code info (the (daily code))
                              regime strategies kospi bear) jobs (sc_config s) of
                        (found, c) \<Rightarrow> (Inr (sw_finish w found), s\<lparr>sc_config := c\<rparr>)))))"

text \<open>The fields of the message that the buy executor reads; the price rows are left out.\<close>

definition serialize_candidate :: "found_candidate \<Rightarrow> buy_candidate" where
  "serialize_candidate x =
     \<lparr>bc_code = fc_code x, bc_name = wi_name (fc_info x), bc_score = wi_score (fc_info x), bc_price = fc_price x,
      bc_manual = CNone, bc_risk = [], bc_signal = fc_signal x, bc_factor = fc_factor x,
      bc_reason = wi_reason (fc_info x)\<rparr>"

definition empty_result :: "string \<Rightarrow> (string option \<times> params) option \<Rightarrow> scan_result" where
  "empty_result regime preset =
     \<lparr>sr_candidates = [], sr_regime = Some regime, sr_preset = preset, sr_risk = [], sr_manual = CNone\<rparr>"

definition top_candidates :: "found_candidate list \<Rightarrow> found_candidate list" where
  "top_candidates found = take 5 (sort_desc fc_factor found)"

text \<open>The second session of the scan: from the watchlist to the result.\<close>

definition scan_watchlist ::
  "scan_world \<Rightarrow> market_analysis \<Rightarrow> (string \<times> watch_info) list \<Rightarrow> risk_dict \<Rightarrow> bear_context option \<Rightarrow> scan_state \<Rightarrow>
   scan_result option \<times> scan_state" where
  "scan_watchlist w a watch risk bear s =
     (let portfolio = get_active_portfolio (sc_db s) in
      case scan_stocks_parallel w watch (set (map p_code portfolio)) (an_regime a) (an_strategies a)
             (tier2_enabled (sw_cash w) portfolio) bear s of
        (Inl e, s1) \<Rightarrow> (None, s1)
      | (Inr found, s1) \<Rightarrow>
          (if found \<noteq> [] then
             (Some \<lparr>sr_candidates = map serialize_candidate (top_candidates found), sr_regime = Some (an_regime a),
                    sr_preset = an_preset a, sr_risk = risk, sr_manual = CNone\<rparr>, s1)
           else (Some (empty_result (an_regime a) (an_preset a)), s1)))"

definition scan_buy_opportunities :: "scan_world \<Rightarrow> scan_state \<Rightarrow> scan_result option \<times> scan_state" where
  "scan_buy_opportunities w s =
     (case analyze_market_regime w s of (a, s1) \<Rightarrow>
      case get_bool (sw_cfg w) ''ALLOW_BEAR_TRADING'' (Some False) (sc_config s1) of (allow_bear, c2) \<Rightarrow>
      case get_int (sw_cfg w) ''MIN_LLM_CONFIDENCE_BEAR'' (Some 80) c2 of (min_confidence, c3) \<Rightarrow>
        let s3 = s1\<lparr>sc_config := c3\<rparr>; nothing = (Some (empty_result (an_regime a) None), s3) in
        (case sw_watchlist w of
           Inl e \<Rightarrow> (None, s3)
         | Inr watch \<Rightarrow>
             if watch = [] then nothing
             else if an_regime a = REGIME_BEAR then
               (if \<not> allow_bear then nothing
                else
                  let chosen = bear_watchlist min_confidence watch in
                  if chosen = [] then nothing
                  else
                    (case read_bear_context w c3 of (ctx, c4) \<Rightarrow>
                       scan_watchlist w a chosen
                         [(''stop_loss_pct'', - (2 / 100)), (''target_profit_pct'', 3 / 100),
                          (''position_size_ratio'', bx_position_ratio ctx)] (Some ctx) (s3\<lparr>sc_config := c4\<rparr>)))
             else scan_watchlist w a watch (an_risk a) None s3))"

section \<open>Lemmas\<close>

lemma strategy_signal_names:
  assumes "strategy_signal w rows price rsi regime kospi strategy c = (Inr (Some (sig, ms)), c')"
  shows "strategy = MEAN_REVERSION \<and> (sig \<in> {''BB_LOWER'', ''RSI_OVERSOLD''} \<or> sig = ''BB_LOWER_NEAR'' \<and> regime = REGIME_BULL) \<or>
    strategy = TREND_FOLLOWING \<and> sig = ''GOLDEN_CROSS'' \<or>
    strategy = ''MOMENTUM'' \<and> sig = ''MOMENTUM'' \<or>
    strategy = ''RELATIVE_STRENGTH'' \<and> sig = ''RELATIVE_STRENGTH''"
  using assms
  by (auto simp: strategy_signal_def bollinger_signal_def Let_def split: if_splits option.splits prod.splits)

lemma detect_signals_from:
  "fst (detect_signals w rows price rsi regime kospi ss c) = Inr (Some (sig, ms)) \<Longrightarrow>
   \<exists>strategy c1 c2. strategy \<in> set ss \<and>
     strategy_signal w rows price rsi regime kospi strategy c1 = (Inr (Some (sig, ms)), c2)"
proof (induction ss arbitrary: c)
  case (Cons x ss)
  obtain r c1 where r: "strategy_signal w rows price rsi regime kospi x c = (r, c1)"
    by (cases "strategy_signal w rows price rsi regime kospi x c")
  show ?case
  proof (cases "r = Inr None")
    case True
    with Cons.prems r Cons.IH [of c1] show ?thesis by auto
  next
    case False
    with Cons.prems r have "r = Inr (Some (sig, ms))"
      by (auto split: sum.splits option.splits)
    with r show ?thesis by (metis list.set_intros(1))
  qed
qed simp

lemma last_with_today:
  assumes "rows \<noteq> []" "row_day (last rows) \<noteq> day"
  shows "with_today day sn rows \<noteq> []" "row_volume (last (with_today day sn rows)) = None"
  using assms by (simp_all add: with_today_def)

text \<open>Without a volume in the last row there is no spike.\<close>

lemma no_volume_no_spike:
  assumes "rows \<noteq> []" "row_volume (last rows) = None" "0 < m"
  shows "volume_spike m rows = None"
proof -
  have "last (volumes rows) = 0"
    using assms(1,2) by (simp add: volumes_def last_map)
  with assms(3) show ?thesis
    by (auto simp: volume_spike_def Let_def not_le)
qed

lemma no_volume_no_bear_signal:
  assumes "rows \<noteq> []" "row_volume (last rows) = None" "1 / 5 < bx_volume_multiplier ctx"
  shows "bear_signal w rows price kospi ctx plan = Inr None"
  using no_volume_no_spike [OF assms(1,2), of "bx_volume_multiplier ctx"]
    no_volume_no_spike [OF assms(1,2), of "bx_volume_multiplier ctx - 2 / 10"] assms(3)
  by (simp add: bear_signal_def evaluate_snipe_dip_def evaluate_momentum_breakout_def Let_def split: option.split)

lemma analyze_stock_code:
  "fst (analyze_stock w rd code info daily regime ss kospi bear c) = Some x \<Longrightarrow> fc_code x = code \<and> fc_info x = info"
  by (auto simp: analyze_stock_def finish_stock_def split: sum.splits option.splits if_splits prod.splits)

lemma analyze_all_from:
  "x \<in> set (fst (analyze_all run jobs c)) \<Longrightarrow>
   \<exists>code info c1. (code, info) \<in> set jobs \<and> fst (run code info c1) = Some x"
proof (induction run jobs c rule: analyze_all.induct)
  case (2 run code info rest c)
  obtain found c1 where r: "run code info c = (found, c1)" by (cases "run code info c")
  obtain others c2 where o: "analyze_all run rest c1 = (others, c2)" by (cases "analyze_all run rest c1")
  show ?case
  proof (cases "x \<in> set others")
    case True
    with "2.IH" [OF r [symmetric]] o obtain code' info' c' where
      "(code', info') \<in> set rest" "fst (run code' info' c') = Some x" by auto
    then show ?thesis by (metis list.set_intros(2))
  next
    case False
    with "2.prems" r o have "found = Some x" by (cases found) auto
    with r show ?thesis by (metis fst_conv list.set_intros(1))
  qed
qed simp

lemma not_in_batch:
  assumes "code \<in> set codes" "code \<notin> traded_batch codes h db" "t \<in> set (trades db)" "log_code t = code"
  shows "log_time t < utc db - h"
proof (rule ccontr)
  assume "\<not> ?thesis"
  with assms(1,3,4) have "log_code t \<in> traded_batch codes h db" by (auto simp: traded_batch_def)
  with assms(2,4) show False by simp
qed

lemma scan_parallel_from:
  assumes "scan_stocks_parallel w watch owned regime ss tier2 bear s = (Inr found, s')" "x \<in> set found"
    and "\<forall>xs. mset (sw_finish w xs) = mset xs"
  shows "(fc_code x, fc_info x) \<in> set watch \<and> fc_code x \<notin> owned \<and>
    (\<forall>t \<in> set (trades (sc_db s)). log_code t = fc_code x \<longrightarrow> log_time t < utc (sc_db s) - 4)"
proof -
  let ?codes = "tradable_codes watch owned tier2 (bear \<noteq> None)"
  let ?scan = "filter (\<lambda>code. code \<notin> traded_batch ?codes 4 (sc_db s)) ?codes"
  have fin: "set (sw_finish w xs) = set xs" for xs using assms(3) mset_eq_setD by blast
  from assms(1,2) have scan: "?scan \<noteq> []" by (auto simp: scan_stocks_parallel_def Let_def)
  with assms(1) obtain daily kospi where d: "sw_prices_batch w ?scan = Inr daily" "sw_prices w kospi_code 120 = Inr kospi"
    by (auto simp: scan_stocks_parallel_def Let_def split: sum.splits)
  define jobs where "jobs = filter (\<lambda>(code, _). code \<in> set ?scan \<and> daily code \<noteq> None) watch"
  define run where "run = (\<lambda>code info. analyze_stock w (sc_redis s) code info (the (daily code)) regime ss kospi bear)"
  have "found = sw_finish w (fst (analyze_all run jobs (sc_config s)))"
    using assms(1) scan d unfolding run_def jobs_def
    by (simp add: scan_stocks_parallel_def Let_def split: prod.splits)
  with assms(2) fin have x: "x \<in> set (fst (analyze_all run jobs (sc_config s)))" by simp
  have jobs: "set jobs \<subseteq> set watch" "\<forall>(code, _) \<in> set jobs. code \<in> set ?scan"
    by (auto simp: jobs_def)
  have run: "fst (run code info c1) = Some y \<Longrightarrow> fc_code y = code \<and> fc_info y = info" for code info c1 y
    unfolding run_def by (rule analyze_stock_code)
  from analyze_all_from [OF x] run have "(fc_code x, fc_info x) \<in> set jobs" by blast
  with jobs have j: "(fc_code x, fc_info x) \<in> set watch" "fc_code x \<in> set ?scan" by auto
  then have "fc_code x \<notin> owned" by (auto simp: tradable_codes_def)
  moreover have "\<forall>t \<in> set (trades (sc_db s)). log_code t = fc_code x \<longrightarrow> log_time t < utc (sc_db s) - 4"
    using j(2) not_in_batch [of "fc_code x" ?codes 4 "sc_db s"] by auto
  ultimately show ?thesis using j(1) by blast
qed

lemma top_candidates_sorted:
  "length (top_candidates found) \<le> 5" "set (top_candidates found) \<subseteq> set found"
  "sorted_wrt (\<lambda>x y. fc_factor y \<le> fc_factor x) (top_candidates found)"
proof -
  show "set (top_candidates found) \<subseteq> set found"
    using set_take_subset [of 5 "sort_desc fc_factor found"] by (simp add: top_candidates_def)
  have "sorted (map (\<lambda>x. - fc_factor x) (sort_desc fc_factor found))"
    by (simp add: sort_desc_def)
  then have "sorted_wrt (\<lambda>x y. fc_factor y \<le> fc_factor x) (sort_desc fc_factor found)"
    by (simp add: sorted_map)
  then show "sorted_wrt (\<lambda>x y. fc_factor y \<le> fc_factor x) (top_candidates found)"
    unfolding top_candidates_def by (rule sorted_wrt_take)
qed (simp add: top_candidates_def)

lemma scan_watchlist_result:
  assumes "scan_watchlist w a watch risk bear s = (Some r, s')"
  shows "sr_regime r = Some (an_regime a) \<and>
    (\<exists>found. (\<exists>s2. scan_stocks_parallel w watch (set (map p_code (get_active_portfolio (sc_db s)))) (an_regime a)
        (an_strategies a) (tier2_enabled (sw_cash w) (get_active_portfolio (sc_db s))) bear s = (Inr found, s2)) \<and>
      sr_candidates r = map serialize_candidate (top_candidates found))"
  using assms
  by (auto simp: scan_watchlist_def Let_def empty_result_def top_candidates_def sort_desc_def
      split: prod.splits sum.splits if_splits)

lemma analysis_keeps_db: "analyze_market_regime w s = (a, s1) \<Longrightarrow> sc_db s1 = sc_db s"
  by (auto simp: analyze_market_regime_def Let_def split: option.splits if_splits prod.splits sum.splits)

text \<open>A scan that finds something has scanned the watchlist, in a bear market a part of it.\<close>

lemma scan_cases:
  assumes "scan_buy_opportunities w s = (Some r, s')" "sr_candidates r \<noteq> []"
  obtains a watch chosen risk bear s3 m where
    "sw_watchlist w = Inr watch" "scan_watchlist w a chosen risk bear s3 = (Some r, s')" "sc_db s3 = sc_db s"
    "chosen = (if an_regime a = REGIME_BEAR then bear_watchlist m watch else watch)"
proof -
  obtain a s1 where a: "analyze_market_regime w s = (a, s1)" by (cases "analyze_market_regime w s")
  obtain allow c2 where b: "get_bool (sw_cfg w) ''ALLOW_BEAR_TRADING'' (Some False) (sc_config s1) = (allow, c2)"
    by (cases "get_bool (sw_cfg w) ''ALLOW_BEAR_TRADING'' (Some False) (sc_config s1)")
  obtain m c3 where m: "get_int (sw_cfg w) ''MIN_LLM_CONFIDENCE_BEAR'' (Some 80) c2 = (m, c3)"
    by (cases "get_int (sw_cfg w) ''MIN_LLM_CONFIDENCE_BEAR'' (Some 80) c2")
  note db = analysis_keeps_db [OF a]
  from assms obtain watch where watch: "sw_watchlist w = Inr watch"
    by (auto simp: scan_buy_opportunities_def a b m Let_def split: sum.splits)
  show ?thesis
  proof (cases "an_regime a = REGIME_BEAR")
    case True
    obtain ctx c4 where ctx: "read_bear_context w c3 = (ctx, c4)" by (cases "read_bear_context w c3")
    from assms True that [OF watch, of a "bear_watchlist m watch" _ "Some ctx" "s1\<lparr>sc_config := c4\<rparr>" m] db
    show ?thesis
      by (auto simp: scan_buy_opportunities_def a b m watch ctx Let_def empty_result_def split: if_splits)
  next
    case False
    from assms False that [OF watch, of a watch "an_risk a" None "s1\<lparr>sc_config := c3\<rparr>" m] db
    show ?thesis
      by (auto simp: scan_buy_opportunities_def a b m watch Let_def empty_result_def split: if_splits)
  qed
qed

section \<open>Properties\<close>

text \<open>
  C19. The candidates of a scan are at most five stocks of the watchlist in descending order of
  their factor scores, none of them held or traded within four hours, and in a bear market
  only stocks with a grade from S to B whose plan allows trading.
\<close>

theorem scan_candidates_sound:
  assumes "scan_buy_opportunities w s = (Some r, s')" "\<forall>xs. mset (sw_finish w xs) = mset xs"
    and "sw_watchlist w = Inr watch"
  shows "length (sr_candidates r) \<le> 5 \<and> sorted_wrt (\<lambda>x y. bc_factor y \<le> bc_factor x) (sr_candidates r) \<and>
    (\<forall>x \<in> set (sr_candidates r). \<exists>info. (bc_code x, info) \<in> set watch \<and> bc_score x = wi_score info \<and>
       bc_code x \<notin> set (map p_code (get_active_portfolio (sc_db s))) \<and>
       (\<forall>t \<in> set (trades (sc_db s)). log_code t = bc_code x \<longrightarrow> log_time t < utc (sc_db s) - 4) \<and>
       (sr_regime r = Some REGIME_BEAR \<longrightarrow> wi_grade info \<in> Some ` {''S'', ''A'', ''B''} \<and>
          (\<exists>p. wi_bear info = Some p \<and> bp_decision p = Some ''TRADABLE'')))"
proof (cases "sr_candidates r = []")
  case False
  from scan_cases [OF assms(1) False] assms(3) obtain a chosen risk bear s3 m where
    scan: "scan_watchlist w a chosen risk bear s3 = (Some r, s')" and db: "sc_db s3 = sc_db s"
    and chosen: "chosen = (if an_regime a = REGIME_BEAR then bear_watchlist m watch else watch)"
    by (metis sum.inject(2))
  from scan_watchlist_result [OF scan] db obtain found s2 where
    regime: "sr_regime r = Some (an_regime a)" and cands: "sr_candidates r = map serialize_candidate (top_candidates found)"
    and par: "scan_stocks_parallel w chosen (set (map p_code (get_active_portfolio (sc_db s)))) (an_regime a)
      (an_strategies a) (tier2_enabled (sw_cash w) (get_active_portfolio (sc_db s))) bear s3 = (Inr found, s2)"
    by auto
  note top = top_candidates_sorted [of found]
  have "\<exists>info. (bc_code x, info) \<in> set watch \<and> bc_score x = wi_score info \<and>
       bc_code x \<notin> set (map p_code (get_active_portfolio (sc_db s))) \<and>
       (\<forall>t \<in> set (trades (sc_db s)). log_code t = bc_code x \<longrightarrow> log_time t < utc (sc_db s) - 4) \<and>
       (sr_regime r = Some REGIME_BEAR \<longrightarrow> wi_grade info \<in> Some ` {''S'', ''A'', ''B''} \<and>
          (\<exists>p. wi_bear info = Some p \<and> bp_decision p = Some ''TRADABLE''))"
    if "x \<in> set (sr_candidates r)" for x
  proof -
    from that cands top(2) obtain y where y: "y \<in> set found" "x = serialize_candidate y" by auto
    from scan_parallel_from [OF par y(1) assms(2)] have
      f: "(fc_code y, fc_info y) \<in> set chosen" "fc_code y \<notin> set (map p_code (get_active_portfolio (sc_db s)))"
        "\<forall>t \<in> set (trades (sc_db s)). log_code t = fc_code y \<longrightarrow> log_time t < utc (sc_db s) - 4"
      using db by auto
    from f(1) chosen obtain info where "(fc_code y, info) \<in> set watch" "wi_score info = wi_score (fc_info y)"
      "an_regime a = REGIME_BEAR \<longrightarrow> bear_allowed m info"
      by (auto simp: bear_watchlist_def split: if_splits)
    with y(2) f(2,3) regime show ?thesis
      by (auto simp: serialize_candidate_def bear_allowed_def split: option.splits intro!: exI [of _ info])
  qed
  moreover have "sorted_wrt (\<lambda>x y. bc_factor y \<le> bc_factor x) (sr_candidates r)"
    using top(3) by (simp add: cands sorted_wrt_map serialize_candidate_def)
  moreover have "length (sr_candidates r) \<le> 5" using top(1) by (simp add: cands)
  ultimately show ?thesis by blast
qed simp

text \<open>
  The strategies of a regime leave few signals. In a strong bull market only a golden cross
  is ever reported, because no branch handles the two strategies listed before it.
\<close>

theorem signals_of_regime:
  assumes "fst (detect_signals w rows price rsi regime kospi (select_strategies regime) c) = Inr (Some (sig, ms))"
  shows "sig \<in> (if regime = REGIME_STRONG_BULL then {''GOLDEN_CROSS''}
    else if regime = REGIME_BULL then {''GOLDEN_CROSS'', ''BB_LOWER'', ''BB_LOWER_NEAR'', ''RSI_OVERSOLD''}
    else if regime = REGIME_SIDEWAYS then {''GOLDEN_CROSS'', ''BB_LOWER'', ''RSI_OVERSOLD''}
    else if regime = REGIME_BEAR then {} else {''BB_LOWER'', ''RSI_OVERSOLD''})"
proof -
  from detect_signals_from [OF assms] obtain strategy c1 c2 where
    "strategy \<in> set (select_strategies regime)"
    "strategy_signal w rows price rsi regime kospi strategy c1 = (Inr (Some (sig, ms)), c2)" by blast
  with strategy_signal_names [OF this(2)] show ?thesis
    by (auto simp: select_strategies_def strategy_map_def dict_get_def split: if_splits)
qed

text \<open>
  A bear market strategy never fires on a live price before the price table holds a row of
  the day: the row that the scanner appends has no volume, and both strategies ask for a
  volume spike in it.
\<close>

theorem bear_signal_needs_todays_row:
  assumes "sw_snapshot w code = Inr (Some sn)" "sn_price sn \<noteq> 0" "wi_bear info = Some plan"
    and "daily = [] \<or> row_day (last daily) \<noteq> sw_day w" "1 / 5 < bx_volume_multiplier ctx"
  shows "fst (analyze_stock w rd code info daily regime ss kospi (Some ctx) c) = None"
proof (cases "daily = []")
  case True
  with assms(1,2) show ?thesis by (simp add: analyze_stock_def current_rows_def with_today_def)
next
  case False
  with assms(4) have "row_day (last daily) \<noteq> sw_day w" by simp
  note t = last_with_today [OF False this, of sn]
  from no_volume_no_bear_signal [OF t assms(5)] t(1) assms(1-3) show ?thesis
    by (simp add: analyze_stock_def current_rows_def finish_stock_def split: prod.split)
qed

text \<open>
  The cash rule for second-tier stocks does not look at the portfolio: it is enabled exactly
  when there is any cash, because the holdings are valued by a key they do not have.
\<close>

theorem tier2_ignores_portfolio:
  "tier2_enabled (Inr cash) portfolio \<longleftrightarrow> 0 < cash"
  by (simp add: tier2_enabled_def buy_price_of_def Let_def)

section \<open>A scan that finds a stock\<close>

definition demo_info :: watch_info where
  "demo_info = \<lparr>wi_name = ''Samsung'', wi_tradable = True, wi_per = Some 10, wi_pbr = Some 1, wi_score = 80,
     wi_reason = [], wi_grade = Some ''A'',
     wi_bear = Some \<lparr>bp_decision = Some ''TRADABLE'', bp_type = Some ''SNIPE_DIP'', bp_confidence = 90, bp_focus = None\<rparr>\<rparr>"

definition demo_scan_world :: scan_world where
  "demo_scan_world = \<lparr>sw_cfg = plain_world, sw_backend = rust_backend, sw_presets = None, sw_clock = 0, sw_day = 1,
     sw_snapshot = (\<lambda>_. Inr None), sw_cash = Inr 1000, sw_watchlist = Inr [(''005930'', demo_info)],
     sw_prices = (\<lambda>_ _. Inr []), sw_prices_batch = (\<lambda>_. Inr (\<lambda>_. Some falling_rows)), sw_link = demo_link,
     sw_shared_alive = True, sw_finish = (\<lambda>xs. xs)\<rparr>"

definition demo_scan_state :: scan_state where
  "demo_scan_state = \<lparr>sc_config = config_init 300,
     sc_cache = Some \<lparr>an_regime = REGIME_SIDEWAYS, an_strategies = [MEAN_REVERSION], an_risk = [], an_preset = None\<rparr>,
     sc_stamp = 0, sc_shared = None, sc_redis = [], sc_db = empty_db\<rparr>"

lemma demo_reads:
  "get_bool plain_world ''ALLOW_BEAR_TRADING'' (Some False) (config_init 300) = (False, config_init 300)"
  "get_int plain_world ''MIN_LLM_CONFIDENCE_BEAR'' (Some 80) (config_init 300) = (80, config_init 300)"
  "get_int plain_world ''BUY_GOLDEN_CROSS_LONG'' (Some 20) (config_init 300) = (20, config_init 300)"
  "get_int plain_world ''BUY_BOLLINGER_PERIOD'' (Some 20) (config_init 300) = (20, config_init 300)"
  by (simp_all add: get_bool_def get_int_def cfg_get_def db_lookup_def static_lookup_def plain_world_def config_init_def
      cfg_defaults_def defaults_table_def)

lemma demo_bollinger: "bollinger_of rust_backend falling_rows 20 = Some 100"
  by code_simp

lemma falling_length: "falling_rows \<noteq> []" "length falling_rows = 25" "last (row_closes falling_rows) = 93"
  "close_price (row_bar (last falling_rows)) = 93"
  by (simp_all add: falling_rows_def demo_row_def)

lemma demo_detect:
  "detect_signals demo_scan_world falling_rows 93 rsi REGIME_SIDEWAYS kospi [MEAN_REVERSION, TREND_FOLLOWING] (config_init 300) =
     (Inr (Some (''BB_LOWER'', [(''close_price'', JNum 93), (''bollinger_lower'', JNum 100), (''strategy'', JStr MEAN_REVERSION)])),
      config_init 300)"
  by (simp add: strategy_signal_def demo_scan_world_def demo_reads demo_bollinger bollinger_signal_def)

theorem signals_of_regime_witness:
  "''BB_LOWER'' \<in> {''GOLDEN_CROSS'', ''BB_LOWER'', ''RSI_OVERSOLD''} \<and>
   fst (detect_signals demo_scan_world falling_rows 93 None REGIME_SIDEWAYS [] (select_strategies REGIME_SIDEWAYS) (config_init 300))
     = Inr (Some (''BB_LOWER'', [(''close_price'', JNum 93), (''bollinger_lower'', JNum 100), (''strategy'', JStr MEAN_REVERSION)]))"
proof -
  have e: "fst (detect_signals demo_scan_world falling_rows 93 None REGIME_SIDEWAYS [] (select_strategies REGIME_SIDEWAYS) (config_init 300))
     = Inr (Some (''BB_LOWER'', [(''close_price'', JNum 93), (''bollinger_lower'', JNum 100), (''strategy'', JStr MEAN_REVERSION)]))"
    by (simp add: select_strategies_def strategy_map_def dict_get_def demo_detect del: detect_signals.simps)
  from signals_of_regime [OF e] e show ?thesis by simp
qed

theorem bear_signal_needs_todays_row_witness:
  "fst (analyze_stock (demo_scan_world\<lparr>sw_snapshot := (\<lambda>_. Inr (Some \<lparr>sn_price = 93, sn_high = None, sn_low = None, sn_open = None\<rparr>))\<rparr>)
     [] ''005930'' demo_info falling_rows REGIME_BEAR [] []
     (Some \<lparr>bx_position_ratio = 1 / 5, bx_stop_loss_atr_mult = 2, bx_tp_pct = 3 / 100, bx_partial_ratio = 1 / 2,
       bx_volume_multiplier = 3 / 2\<rparr>) (config_init 300)) = None"
  by (rule bear_signal_needs_todays_row [where sn = "\<lparr>sn_price = 93, sn_high = None, sn_low = None, sn_open = None\<rparr>"
        and plan = "\<lparr>bp_decision = Some ''TRADABLE'', bp_type = Some ''SNIPE_DIP'', bp_confidence = 90, bp_focus = None\<rparr>"])
     (simp_all add: demo_scan_world_def demo_info_def falling_rows_def demo_row_def)

lemma demo_found: "\<exists>x c'. analyze_stock demo_scan_world [] ''005930'' demo_info falling_rows REGIME_SIDEWAYS
    [MEAN_REVERSION] [] None (config_init 300) = (Some x, c') \<and> fc_code x = ''005930''"
proof -
  have s: "sentiment_adjusted (get_sentiment_score demo_link ''005930'' []) f = Inr (Some f)" for f
    by (simp add: get_sentiment_score_def try_doc_def redis_get_def sentiment_default_def sentiment_adjusted_def
        field_def reverse_category_def split: option.split)
  show ?thesis
    by (simp add: analyze_stock_def current_rows_def finish_stock_def s falling_length demo_reads demo_bollinger
        strategy_signal_def bollinger_signal_def demo_scan_world_def)
qed

theorem scan_candidates_sound_witness:
  "\<exists>r s'. scan_buy_opportunities demo_scan_world demo_scan_state = (Some r, s') \<and>
     map bc_code (sr_candidates r) = [''005930''] \<and> length (sr_candidates r) \<le> 5"
proof -
  from demo_found obtain x c' where x: "analyze_stock demo_scan_world [] ''005930'' demo_info falling_rows REGIME_SIDEWAYS
    [MEAN_REVERSION] [] None (config_init 300) = (Some x, c')" "fc_code x = ''005930''" by blast
  have t: "top_candidates [x] = [x]" by (simp add: top_candidates_def sort_desc_def)
  have w: "sw_cfg demo_scan_world = plain_world" "sw_watchlist demo_scan_world = Inr [(''005930'', demo_info)]"
    "sw_prices demo_scan_world = (\<lambda>_ _. Inr [])" "sw_prices_batch demo_scan_world = (\<lambda>_. Inr (\<lambda>_. Some falling_rows))"
    "sw_clock demo_scan_world = 0" "sw_finish demo_scan_world = (\<lambda>xs. xs)" "wi_tradable demo_info"
    by (simp_all add: demo_scan_world_def demo_info_def)
  have st: "sc_db demo_scan_state = empty_db" "sc_redis demo_scan_state = []" "sc_config demo_scan_state = config_init 300"
    "sc_stamp demo_scan_state = 0" "sc_cache demo_scan_state = Some \<lparr>an_regime = REGIME_SIDEWAYS, an_strategies = [MEAN_REVERSION], an_risk = [], an_preset = None\<rparr>"
    by (simp_all add: demo_scan_state_def)
  have e: "trades empty_db = []" "get_active_portfolio empty_db = []"
    by (simp_all add: empty_db_def get_active_portfolio_def)
  obtain r s' where run: "scan_buy_opportunities demo_scan_world demo_scan_state = (Some r, s')"
    and codes: "map bc_code (sr_candidates r) = [''005930'']"
    by (simp add: scan_buy_opportunities_def analyze_market_regime_def w st e demo_reads scan_watchlist_def
        scan_stocks_parallel_def tradable_codes_def traded_batch_def x t serialize_candidate_def Let_def)
  from scan_candidates_sound [OF run _ w(2)] have "length (sr_candidates r) \<le> 5" by (simp add: w(6))
  with run codes show ?thesis by (intro exI conjI)
qed

end
