(* ===== verification/Sell_Executor.thy ===== *)
theory Sell_Executor
  imports Buy_Executor
begin

text \<open>
  \<open>services/sell-executor/executor.py\<close>: a sell order, from the check of the holding to the
  order and the trade record. Its state is the record \<open>sell_state\<close>; the broker, the regime
  cache, the price table and the database faults are the record \<open>sell_world\<close>. The handler
  runs in one \<open>try\<close> block, whose exceptions become an error answer.
\<close>

section \<open>Data\<close>

record sell_request =
  sq_code :: string
  sq_name :: string
  sq_quantity :: int
  sq_reason :: string
  sq_preset :: "(string option \<times> params) option"
  sq_risk :: "risk_dict option"
  sq_dry_run :: bool

text \<open>The metrics kept for review (\<open>key_metrics_dict\<close>), apart from those of the news cache.\<close>

record sell_metrics =
  sm_reason :: string
  sm_current :: rat
  sm_buy :: rat
  sm_profit_pct :: rat
  sm_profit_amount :: rat
  sm_days :: int
  sm_stop :: rat
  sm_high :: rat
  sm_risk :: risk_dict

record sell_world =
  sw_cfg :: cfg_world
  sw_cache :: "regime_cache option"
  sw_presets :: "preset_file option"
  sw_snapshot :: "string \<Rightarrow> rat option res"
  sw_sell_answer :: "string \<Rightarrow> int \<Rightarrow> string option res"
  sw_daily_close :: "string \<Rightarrow> rat option res"
  sw_db_fault :: "py_exc option"
  sw_trade_env :: trade_env
  sw_stamp :: string
  sw_metrics :: "sell_metrics \<Rightarrow> string"

record sell_state =
  ss_config :: config_manager
  ss_db :: trade_db
  ss_orders :: "(string \<times> int) list"

record sell_receipt =
  sl_code :: string
  sl_name :: string
  sl_order :: string
  sl_quantity :: int
  sl_price :: rat
  sl_buy_price :: rat
  sl_profit_pct :: rat
  sl_profit_amount :: rat
  sl_reason :: string
  sl_risk :: risk_dict
  sl_dry_run :: bool

datatype sell_response =
    NotInPortfolio
  | DuplicateSell string
  | NoSellPrice
  | SellOrderFailed
  | SellSuccess sell_receipt
  | SellError py_exc

type_synonym 'a sell_step = "(sell_state, sell_response, 'a) prog"

section \<open>Preset and risk setting\<close>

definition given_params :: "sell_request \<Rightarrow> params" where
  "given_params q = (case sq_preset q of None \<Rightarrow> [] | Some (_, ps) \<Rightarrow> ps)"

definition sell_preset_params :: "sell_world \<Rightarrow> sell_request \<Rightarrow> params" where
  "sell_preset_params w q =
     (let own = given_params q;
          ps = (if own \<noteq> [] then own
                else (case sw_cache w of None \<Rightarrow> own | Some rc \<Rightarrow> rc_preset_params rc))
      in if ps \<noteq> [] then ps
         else snd (resolve_preset_for_regime (sw_presets w) (Some REGIME_SIDEWAYS) ''balanced_champion''))"

definition sell_risk :: "sell_world \<Rightarrow> sell_request \<Rightarrow> risk_dict" where
  "sell_risk w q =
     (case sq_risk q of
        Some r \<Rightarrow> r
      | None \<Rightarrow> (case sw_cache w of None \<Rightarrow> [] | Some rc \<Rightarrow> rc_risk rc))"

text \<open>The market context is that of the cache, when the cache was read at all.\<close>

definition sell_context :: "sell_world \<Rightarrow> sell_request \<Rightarrow> string option" where
  "sell_context w q =
     (if given_params q = [] \<or> sq_risk q = None then map_option rc_context (sw_cache w) else None)"

definition sell_preset_step :: "sell_world \<Rightarrow> sell_request \<Rightarrow> unit sell_step" where
  "sell_preset_step w q s =
     (Next (), s\<lparr>ss_config := apply_preset_to_config (sell_preset_params w q) (sw_cfg w) (ss_config s)\<rparr>)"

section \<open>Holding, duplicate check and price\<close>

definition find_holding :: "string \<Rightarrow> trade_db \<Rightarrow> position option" where
  "find_holding code db = find (\<lambda>p. p_code p = code) (get_active_portfolio db)"

definition holding_step :: "sell_world \<Rightarrow> sell_request \<Rightarrow> position sell_step" where
  "holding_step w q s =
     ((case sw_db_fault w of
         Some e \<Rightarrow> Raise e
       | None \<Rightarrow>
           (case find_holding (sq_code q) (ss_db s) of
              None \<Rightarrow> Return NotInPortfolio
            | Some p \<Rightarrow>
                if was_traded_recently (sq_code q) (17 / 100) (ss_db s)
                then Return (DuplicateSell (sq_code q)) else Next p)), s)"

definition trading_mode :: "sell_world \<Rightarrow> string" where
  "trading_mode w = (case environ (sw_cfg w) ''TRADING_MODE'' of None \<Rightarrow> ''MOCK'' | Some m \<Rightarrow> m)"

definition sell_price_step :: "sell_world \<Rightarrow> sell_request \<Rightarrow> rat sell_step" where
  "sell_price_step w q s =
     ((case (if trading_mode w = ''MOCK'' then sw_daily_close w (sq_code q) else sw_snapshot w (sq_code q)) of
         Inl e \<Rightarrow> Raise e
       | Inr None \<Rightarrow> Return NoSellPrice
       | Inr (Some p) \<Rightarrow> Next p), s)"

section \<open>Profit, order and record\<close>

definition profit_of :: "rat \<Rightarrow> rat \<Rightarrow> int \<Rightarrow> (rat \<times> rat) res" where
  "profit_of price buy_price n =
     rbind (py_div (price - buy_price) buy_price) (\<lambda>r. Inr (r * 100, (price - buy_price) * of_int n))"

definition holding_days :: "trade_db \<Rightarrow> position \<Rightarrow> int" where
  "holding_days db p = \<lfloor>(utc db - p_created p) / 24\<rfloor>"

definition sell_order_step :: "sell_world \<Rightarrow> sell_request \<Rightarrow> string sell_step" where
  "sell_order_step w q s =
     (if sq_dry_run q then (Next (''DRY_RUN_SELL_'' @ sw_stamp w), s)
      else
        let s' = s\<lparr>ss_orders := ss_orders s @ [(sq_code q, sq_quantity q)]\<rparr> in
        (case sw_sell_answer w (sq_code q) (sq_quantity q) of
           Inl e \<Rightarrow> (Raise e, s')
         | Inr None \<Rightarrow> (Return SellOrderFailed, s')
         | Inr (Some no) \<Rightarrow> (if no = [] then Return SellOrderFailed else Next no, s')))"

definition metrics_of :: "sell_world \<Rightarrow> sell_request \<Rightarrow> position \<Rightarrow> rat \<Rightarrow> rat \<Rightarrow> rat \<Rightarrow> trade_db \<Rightarrow> sell_metrics" where
  "metrics_of w q p price pct amount db =
     \<lparr>sm_reason = sq_reason q, sm_current = price, sm_buy = p_avg p,
      sm_profit_pct = py_round_digits 2 pct, sm_profit_amount = py_round_digits 0 amount,
      sm_days = holding_days db p, sm_stop = p_stop p, sm_high = p_high p, sm_risk = sell_risk w q\<rparr>"

definition sell_trade :: "sell_world \<Rightarrow> sell_request \<Rightarrow> position \<Rightarrow> rat \<Rightarrow> sell_metrics \<Rightarrow> trade_request" where
  "sell_trade w q p price metrics =
     \<lparr>tr_type = ''SELL'', tr_stock = \<lparr>si_id = Some (p_id p), si_code = sq_code q, si_name = sq_name q\<rparr>,
      tr_qty = sq_quantity q, tr_price = price, tr_reason = Some (sq_reason q), tr_stop = None,
      tr_signal = Some (sq_reason q), tr_metrics = Some (sw_metrics w metrics),
      tr_context = sell_context w q\<rparr>"

text \<open>
  \<open>_record_sell_trade\<close> ignores the answer of \<open>execute_trade_and_log\<close>. The performance
  statistics after it are never updated, because a holding of the repository has no key
  \<open>buy_date\<close>.
\<close>

definition record_sell_step :: "sell_world \<Rightarrow> trade_request \<Rightarrow> unit sell_step" where
  "record_sell_step w tr s =
     (Next (), s\<lparr>ss_db := snd (execute_trade_and_log (sw_trade_env w) OrmSession tr (ss_db s))\<rparr>)"

definition sell_receipt_of :: "sell_world \<Rightarrow> sell_request \<Rightarrow> position \<Rightarrow> rat \<Rightarrow> string \<Rightarrow> rat \<Rightarrow> rat \<Rightarrow> sell_response" where
  "sell_receipt_of w q p price order_no pct amount =
     SellSuccess \<lparr>sl_code = sq_code q, sl_name = sq_name q, sl_order = order_no,
       sl_quantity = sq_quantity q, sl_price = price, sl_buy_price = p_avg p,
       sl_profit_pct = py_round_digits 2 pct, sl_profit_amount = py_round_digits 0 amount,
       sl_reason = sq_reason q, sl_risk = sell_risk w q, sl_dry_run = sq_dry_run q\<rparr>"

section \<open>The handler\<close>

definition sell_steps :: "sell_world \<Rightarrow> sell_request \<Rightarrow> sell_response sell_step" where
  "sell_steps w q =
     seq (sell_preset_step w q) (\<lambda>_.
     seq (holding_step w q) (\<lambda>p.
     seq (sell_price_step w q) (\<lambda>price.
     seq (of_res (profit_of price (p_avg p) (sq_quantity q))) (\<lambda>(pct, amount).
     seq (\<lambda>s. (Next (metrics_of w q p price pct amount (ss_db s)), s)) (\<lambda>metrics.
     seq (sell_order_step w q) (\<lambda>order_no.
     seq (record_sell_step w (sell_trade w q p price metrics)) (\<lambda>_.
       next_with (sell_receipt_of w q p price order_no pct amount))))))))"

definition execute_sell_order :: "sell_world \<Rightarrow> sell_request \<Rightarrow> sell_state \<Rightarrow> sell_response \<times> sell_state" where
  "execute_sell_order w q s =
     (case sell_steps w q s of
        (Next r, s') \<Rightarrow> (r, s')
      | (Return r, s') \<Rightarrow> (r, s')
      | (Raise e, s') \<Rightarrow> (SellError e, s'))"

section \<open>What a sale went through\<close>

text \<open>
  A run that sends an order or succeeds, in one equation: the guards read the tables only,
  and only the last two steps change them or the orders.
\<close>

definition sell_ready :: "sell_world \<Rightarrow> sell_request \<Rightarrow> trade_db \<Rightarrow> position \<Rightarrow> rat \<Rightarrow> rat \<Rightarrow> rat \<Rightarrow> bool" where
  "sell_ready w q db p price pct amount \<longleftrightarrow>
     sw_db_fault w = None \<and> find_holding (sq_code q) db = Some p \<and>
     \<not> was_traded_recently (sq_code q) (17 / 100) db \<and>
     (if trading_mode w = ''MOCK'' then sw_daily_close w (sq_code q) else sw_snapshot w (sq_code q)) = Inr (Some price) \<and>
     profit_of price (p_avg p) (sq_quantity q) = Inr (pct, amount)"

definition preset_state :: "sell_world \<Rightarrow> sell_request \<Rightarrow> sell_state \<Rightarrow> sell_state" where
  "preset_state w q s = snd (sell_preset_step w q s)"

lemma preset_state_simps [simp]:
  "ss_db (preset_state w q s) = ss_db s" "ss_orders (preset_state w q s) = ss_orders s"
  "sell_preset_step w q s = (Next (), preset_state w q s)"
  by (simp_all add: preset_state_def sell_preset_step_def)

lemma sell_steps_ready:
  assumes "sell_ready w q (ss_db s) p price pct amount"
  shows "sell_steps w q s =
    seq (sell_order_step w q) (\<lambda>order_no.
    seq (record_sell_step w (sell_trade w q p price (metrics_of w q p price pct amount (ss_db s)))) (\<lambda>_.
      next_with (sell_receipt_of w q p price order_no pct amount))) (preset_state w q s)"
  using assms
  by (simp add: sell_steps_def sell_ready_def seq_def [of "sell_preset_step w q"] seq_def [of "holding_step w q"]
      seq_def [of "sell_price_step w q"] seq_def [of "\<lambda>s. (Next (f s), s)" for f] holding_step_def sell_price_step_def)

lemma sell_steps_not_ready:
  assumes "\<nexists>p price pct amount. sell_ready w q (ss_db s) p price pct amount"
  shows "snd (sell_steps w q s) = preset_state w q s \<and> (\<forall>x. fst (sell_steps w q s) \<noteq> Next x) \<and>
    (\<forall>rc. fst (sell_steps w q s) \<noteq> Return (SellSuccess rc))"
  using assms
  by (auto simp: sell_steps_def sell_ready_def seq_def [of "sell_preset_step w q"] seq_def [of "holding_step w q"]
      seq_def [of "sell_price_step w q"] holding_step_def sell_price_step_def
      split: option.splits sum.splits if_splits)

lemma execute_not_ready:
  assumes "\<nexists>p price pct amount. sell_ready w q (ss_db s) p price pct amount"
  shows "snd (execute_sell_order w q s) = preset_state w q s"
    "fst (execute_sell_order w q s) \<noteq> SellSuccess rc"
  using sell_steps_not_ready [OF assms]
  by (auto simp: execute_sell_order_def split: prod.splits flow.splits)

lemma execute_ready_orders:
  assumes "sell_ready w q (ss_db s) p price pct amount"
  shows "ss_orders (snd (execute_sell_order w q s)) =
    ss_orders s @ (if sq_dry_run q then [] else [(sq_code q, sq_quantity q)])"
  unfolding execute_sell_order_def sell_steps_ready [OF assms]
  by (auto simp: seq_def sell_order_step_def record_sell_step_def next_with_def Let_def
      split: prod.splits flow.splits sum.splits option.splits if_splits)

lemma execute_success:
  assumes "execute_sell_order w q s = (SellSuccess rc, s')"
  obtains p price pct amount order_no where "sell_ready w q (ss_db s) p price pct amount"
    "SellSuccess rc = sell_receipt_of w q p price order_no pct amount"
    "ss_db s' = snd (execute_trade_and_log (sw_trade_env w) OrmSession
       (sell_trade w q p price (metrics_of w q p price pct amount (ss_db s))) (ss_db s))"
proof -
  from assms execute_not_ready(2) [of w q s rc] obtain p price pct amount
    where r: "sell_ready w q (ss_db s) p price pct amount" by (metis fst_conv)
  note run = assms [unfolded execute_sell_order_def sell_steps_ready [OF r]]
  from run obtain no where "SellSuccess rc = sell_receipt_of w q p price no pct amount"
    "ss_db s' = snd (execute_trade_and_log (sw_trade_env w) OrmSession
       (sell_trade w q p price (metrics_of w q p price pct amount (ss_db s))) (ss_db s))"
    by (auto simp: seq_def sell_order_step_def record_sell_step_def next_with_def Let_def sell_receipt_of_def
        split: prod.splits flow.splits sum.splits option.splits if_splits)
  with r that show ?thesis by blast
qed

section \<open>Properties\<close>

text \<open>
  C25. A sell order goes out only outside a dry run, for a code that is held and has no trade
  in the last 0.17 hours; it is for the requested quantity, which nothing compares with the
  holding.
\<close>

theorem sell_order_guards:
  assumes "execute_sell_order w q s = (r, s')" "ss_orders s' \<noteq> ss_orders s"
  shows "ss_orders s' = ss_orders s @ [(sq_code q, sq_quantity q)] \<and> \<not> sq_dry_run q \<and>
    find_holding (sq_code q) (ss_db s) \<noteq> None \<and> \<not> was_traded_recently (sq_code q) (17 / 100) (ss_db s)"
proof -
  have "\<exists>p price pct amount. sell_ready w q (ss_db s) p price pct amount"
    using assms execute_not_ready(1) [of w q s] by (metis preset_state_simps(2) snd_conv)
  then obtain p price pct amount where r: "sell_ready w q (ss_db s) p price pct amount" by blast
  from execute_ready_orders [OF r] assms r show ?thesis
    by (auto simp: sell_ready_def split: if_splits)
qed

definition held_db :: trade_db where
  "held_db = (record_orm (demo_trade ''BUY'' None 10 100) empty_db)\<lparr>utc := 1\<rparr>"

definition demo_sell_world :: sell_world where
  "demo_sell_world = \<lparr>sw_cfg = plain_world, sw_cache = None, sw_presets = None,
     sw_snapshot = (\<lambda>_. Inr (Some 120)), sw_sell_answer = (\<lambda>_ _. Inr (Some ''0002'')),
     sw_daily_close = (\<lambda>_. Inr (Some 120)), sw_db_fault = None, sw_trade_env = orm_env,
     sw_stamp = [], sw_metrics = (\<lambda>_. ''{}'')\<rparr>"

definition demo_sell :: sell_request where
  "demo_sell = \<lparr>sq_code = ''005930'', sq_name = ''S'', sq_quantity = 15, sq_reason = ''RSI'',
     sq_preset = None, sq_risk = None, sq_dry_run = False\<rparr>"

definition demo_sell_state :: sell_state where
  "demo_sell_state = \<lparr>ss_config = config_init 300, ss_db = held_db, ss_orders = []\<rparr>"

lemma held_row:
  "holdings held_db = [\<lparr>h_id = 1, h_code = ''005930'', h_name = ''S'', h_qty = 10, h_avg = 100,
     h_total = 1000, h_high = Some 100, h_status = HOLDING, h_state = ''INITIAL'', h_stop = Some 93, h_created = 9\<rparr>]"
  "map log_code (trades held_db) = [''005930'']" "map log_time (trades held_db) = [0]" "utc held_db = 1"
  by (simp_all add: held_db_def trade_eval db_now_def)

lemma held_db_ok: "db_ok held_db"
proof -
  have "legal_trade empty_db (demo_trade ''BUY'' None 10 100)" by (simp add: legal_trade_def trade_eval)
  from orm.step_ok [OF empty_db_ok this] show ?thesis by (simp add: held_db_def)
qed

lemma demo_sell_ready: "\<exists>p. sell_ready demo_sell_world demo_sell held_db p 120 20 300"
proof -
  obtain t where "trades held_db = [t]" "log_time t = 0" using held_row(2,3) by (cases "trades held_db") auto
  then show ?thesis
    by (simp add: sell_ready_def demo_sell_world_def demo_sell_def find_holding_def get_active_portfolio_def
        held_row was_traded_recently_def orm_traded_since_def position_of_def trading_mode_def plain_world_def
        profit_of_def)
qed

lemma demo_sell_order:
  "ss_orders (snd (execute_sell_order demo_sell_world demo_sell demo_sell_state)) = [(''005930'', 15)]"
proof -
  from demo_sell_ready obtain p where "sell_ready demo_sell_world demo_sell (ss_db demo_sell_state) p 120 20 300"
    by (auto simp: demo_sell_state_def)
  from execute_ready_orders [OF this] show ?thesis by (simp add: demo_sell_state_def demo_sell_def)
qed

theorem sell_order_guards_witness:
  "map h_qty (holdings (ss_db demo_sell_state)) = [10] \<and>
   ss_orders (snd (execute_sell_order demo_sell_world demo_sell demo_sell_state)) = [(''005930'', 15)] \<and>
   \<not> was_traded_recently ''005930'' (17 / 100) (ss_db demo_sell_state)"
proof -
  obtain r s' where run: "execute_sell_order demo_sell_world demo_sell demo_sell_state = (r, s')"
    by (cases "execute_sell_order demo_sell_world demo_sell demo_sell_state")
  have "ss_orders s' \<noteq> ss_orders demo_sell_state" using demo_sell_order run by (simp add: demo_sell_state_def)
  from sell_order_guards [OF run this] demo_sell_order run show ?thesis
    by (simp add: held_row demo_sell_state_def demo_sell_def)
qed

text \<open>A successful sale with a healthy database closes the position and logs the trade.\<close>

lemma sale_recorded:
  assumes "db_ok (ss_db s)" "sw_trade_env w = orm_env"
    and "execute_sell_order w q s = (SellSuccess rc, s')" "0 < sl_price rc"
  shows "positions (ss_db s') = (positions (ss_db s))(sq_code q := None)"
    "\<exists>row. trades (ss_db s') = trades (ss_db s) @ [row] \<and> log_code row = sq_code q \<and> log_qty row = sq_quantity q"
proof -
  from execute_success [OF assms(3)] obtain p price pct amount no where
    ready: "sell_ready w q (ss_db s) p price pct amount" and
    rc: "SellSuccess rc = sell_receipt_of w q p price no pct amount" and
    db': "ss_db s' = snd (execute_trade_and_log (sw_trade_env w) OrmSession
       (sell_trade w q p price (metrics_of w q p price pct amount (ss_db s))) (ss_db s))" by blast
  let ?tr = "sell_trade w q p price (metrics_of w q p price pct amount (ss_db s))"
  have price: "0 < price" using rc assms(4) by (simp add: sell_receipt_of_def)
  have found: "find (\<lambda>p. p_code p = sq_code q) (get_active_portfolio (ss_db s)) = Some p"
    using ready by (simp add: sell_ready_def find_holding_def)
  then obtain h where h: "holding_of (sq_code q) (ss_db s) = Some h"
    using active_portfolio_none [of "sq_code q" "ss_db s"] by (cases "holding_of (sq_code q) (ss_db s)") auto
  from holding_of_active_portfolio [OF assms(1) this] found have "p = position_of h" by simp
  then have legal: "legal_trade (ss_db s) ?tr"
    using price h by (simp add: legal_trade_def sell_trade_def starts_with_def position_of_def)
  have rec: "ss_db s' = record_orm ?tr (ss_db s)" using db' by (simp add: assms(2) record_orm_def)
  from orm.step_abs [OF assms(1) legal] show "positions (ss_db s') = (positions (ss_db s))(sq_code q := None)"
    by (simp add: rec ledger_step_def sell_trade_def starts_with_def)
  from orm_trade_step [OF assms(1) legal] obtain db'' where o: "orm_trade ?tr (ss_db s) = Inr (True, db'')" by blast
  have new: "ss_db s' = db''" by (simp add: rec record_orm_eq [OF o])
  from orm_trade_logged [OF o]
  show "\<exists>row. trades (ss_db s') = trades (ss_db s) @ [row] \<and> log_code row = sq_code q \<and> log_qty row = sq_quantity q"
    unfolding new by (auto simp: logged_def sell_trade_def)
qed

text \<open>
  C16. A holding is sold once: after a successful sale that the database took, the position
  of the code is gone and no later request for it, of any kind and whatever else failed,
  sends an order.
\<close>

theorem sold_only_once:
  assumes "db_ok (ss_db s)" "sw_trade_env w = orm_env"
    and "execute_sell_order w q s = (SellSuccess rc, s')" "0 < sl_price rc"
  shows "positions (ss_db s') (sq_code q) = None \<and>
    ss_orders (snd (execute_sell_order w' (q'\<lparr>sq_code := sq_code q\<rparr>) s')) = ss_orders s'"
proof -
  from sale_recorded(1) [OF assms] have gone: "positions (ss_db s') (sq_code q) = None" by simp
  then have "holding_of (sq_code q) (ss_db s') = None" by (simp add: positions_def)
  from active_portfolio_none [OF this]
  have "\<nexists>p price pct amount. sell_ready w' (q'\<lparr>sq_code := sq_code q\<rparr>) (ss_db s') p price pct amount"
    by (simp add: sell_ready_def find_holding_def)
  from execute_not_ready(1) [OF this] gone show ?thesis by simp
qed

lemma demo_sell_success:
  "\<exists>rc s'. execute_sell_order demo_sell_world demo_sell demo_sell_state = (SellSuccess rc, s') \<and> sl_price rc = 120"
proof -
  from demo_sell_ready obtain p where r: "sell_ready demo_sell_world demo_sell (ss_db demo_sell_state) p 120 20 300"
    by (auto simp: demo_sell_state_def)
  show ?thesis
    unfolding execute_sell_order_def sell_steps_ready [OF r]
    by (simp add: seq_def sell_order_step_def record_sell_step_def next_with_def sell_receipt_of_def
        demo_sell_def demo_sell_world_def Let_def)
qed

theorem sold_only_once_witness:
  "\<exists>s'. positions (ss_db s') ''005930'' = None \<and> s' = snd (execute_sell_order demo_sell_world demo_sell demo_sell_state) \<and>
     ss_orders (snd (execute_sell_order demo_sell_world demo_sell s')) = ss_orders s'"
proof -
  from demo_sell_success obtain rc s' where run: "execute_sell_order demo_sell_world demo_sell demo_sell_state = (SellSuccess rc, s')"
    and price: "0 < sl_price rc" by (metis zero_less_numeral)
  have "db_ok (ss_db demo_sell_state)" "sw_trade_env demo_sell_world = orm_env"
    by (simp_all add: demo_sell_state_def held_db_ok demo_sell_world_def)
  from sold_only_once [OF this run price, of demo_sell_world demo_sell] run show ?thesis
    by (simp add: demo_sell_def)
qed

text \<open>
  C28. When the database fails while the trade is recorded, the sale is answered as a success
  although nothing was recorded, and the next request for the code sells the holding again.
\<close>

theorem unrecorded_sale_repeats:
  assumes "orm_fault (sw_trade_env w) = Some e" "\<not> sq_dry_run q"
    and "execute_sell_order w q s = (SellSuccess rc, s')"
  shows "ss_db s' = ss_db s \<and>
    ss_orders (snd (execute_sell_order w q s')) = ss_orders s @ [(sq_code q, sq_quantity q), (sq_code q, sq_quantity q)]"
proof -
  from execute_success [OF assms(3)] obtain p price pct amount no where
    ready: "sell_ready w q (ss_db s) p price pct amount" and
    "SellSuccess rc = sell_receipt_of w q p price no pct amount" and
    db': "ss_db s' = snd (execute_trade_and_log (sw_trade_env w) OrmSession
       (sell_trade w q p price (metrics_of w q p price pct amount (ss_db s))) (ss_db s))" by blast
  have "ss_db s' = ss_db s" using db' by (simp add: execute_orm_fault [OF assms(1)])
  with ready execute_ready_orders [OF ready] execute_ready_orders [of w q s' p price pct amount] assms(2,3)
  show ?thesis by simp
qed

theorem unrecorded_sale_repeats_witness:
  "\<exists>s'. ss_db s' = held_db \<and>
     ss_orders (snd (execute_sell_order (demo_sell_world\<lparr>sw_trade_env := orm_env\<lparr>orm_fault := Some DbError\<rparr>\<rparr>) demo_sell s')) =
       [(''005930'', 15), (''005930'', 15)]"
proof -
  let ?w = "demo_sell_world\<lparr>sw_trade_env := orm_env\<lparr>orm_fault := Some DbError\<rparr>\<rparr>"
  from demo_sell_ready obtain p where "sell_ready demo_sell_world demo_sell (ss_db demo_sell_state) p 120 20 300"
    by (auto simp: demo_sell_state_def)
  then have r: "sell_ready ?w demo_sell (ss_db demo_sell_state) p 120 20 300"
    by (simp add: sell_ready_def trading_mode_def split: if_splits)
  have "\<exists>rc s'. execute_sell_order ?w demo_sell demo_sell_state = (SellSuccess rc, s')"
    unfolding execute_sell_order_def sell_steps_ready [OF r]
    by (simp add: seq_def sell_order_step_def record_sell_step_def next_with_def sell_receipt_of_def
        demo_sell_def demo_sell_world_def Let_def)
  then obtain rc s' where run: "execute_sell_order ?w demo_sell demo_sell_state = (SellSuccess rc, s')" by blast
  have "orm_fault (sw_trade_env ?w) = Some DbError" "\<not> sq_dry_run demo_sell" by (simp_all add: demo_sell_def)
  from unrecorded_sale_repeats [OF this run] show ?thesis by (auto simp: demo_sell_state_def demo_sell_def)
qed

text \<open>
  A purchase blocks the sale of its code for ten minutes: the duplicate check, meant for
  earlier sell orders, counts every trade, so a stop loss in that time is answered as a
  duplicate and sends nothing.
\<close>

theorem purchase_blocks_sale:
  assumes "db_ok db" "legal_trade db tr" "tr_type tr = ''BUY''" "sq_code q = si_code (tr_stock tr)"
    and "ss_db s = (record_orm tr db)\<lparr>utc := t\<rparr>" "t \<le> utc db + 17 / 100" "sw_db_fault w = None"
  shows "execute_sell_order w q s = (DuplicateSell (sq_code q), preset_state w q s) \<and>
    ss_orders (preset_state w q s) = ss_orders s"
proof -
  from orm_trade_step [OF assms(1,2)] obtain db' where o: "orm_trade tr db = Inr (True, db')"
    and ok: "db_ok db'" and pos: "positions db' = ledger_step tr (positions db)" by blast
  note rec = record_orm_eq [OF o, simplified]
  have "positions db' (sq_code q) \<noteq> None" using pos assms(3,4) by (simp add: ledger_step_def starts_with_def Let_def)
  then have "holding_of (sq_code q) (ss_db s) \<noteq> None" by (simp add: positions_def assms(5) rec holding_of_def)
  then obtain h where h: "holding_of (sq_code q) (ss_db s) = Some h" by blast
  have "find_holding (sq_code q) (ss_db s) = Some (position_of h)"
    unfolding find_holding_def by (rule holding_of_active_portfolio [OF _ h]) (simp add: assms(5) rec ok)
  moreover have "\<exists>row \<in> set (trades db'). log_code row = sq_code q \<and> log_time row = utc db"
    using o assms(2,3,4) by (auto simp: orm_trade_def legal_trade_def starts_with_def append_log_def split: option.splits)
  then have "was_traded_recently (sq_code q) (17 / 100) (ss_db s)"
    using assms(6) by (auto simp: was_traded_recently_def orm_traded_since_def list_ex_iff assms(5) rec)
  ultimately show ?thesis
    using assms(7)
    by (simp add: execute_sell_order_def sell_steps_def seq_def [of "sell_preset_step w q"]
        seq_def [of "holding_step w q"] holding_step_def)
qed

theorem purchase_blocks_sale_witness:
  "fst (execute_sell_order demo_sell_world demo_sell
     \<lparr>ss_config = config_init 300, ss_db = (record_orm (demo_trade ''BUY'' None 10 100) empty_db)\<lparr>utc := 1 / 10\<rparr>,
      ss_orders = []\<rparr>) = DuplicateSell ''005930''"
proof -
  have "legal_trade empty_db (demo_trade ''BUY'' None 10 100)" by (simp add: legal_trade_def trade_eval)
  from purchase_blocks_sale [OF empty_db_ok this, of demo_sell "\<lparr>ss_config = config_init 300,
      ss_db = (record_orm (demo_trade ''BUY'' None 10 100) empty_db)\<lparr>utc := 1 / 10\<rparr>, ss_orders = []\<rparr>" "1 / 10" demo_sell_world]
  show ?thesis by (simp add: demo_trade_def demo_sell_def empty_db_def demo_sell_world_def)
qed

end
