(* ===== verification/Price_Monitor.thy ===== *)
theory Price_Monitor
  imports Trade_Store Indicators
begin

text \<open>
  \<open>services/price-monitor/monitor.py\<close>: the sell signals of a held position, the sell orders
  published for them, one pass of the polling loop, the price callback of the WebSocket mode
  and the price alerts. The loops around these and the service are in \<open>Monitor_Service\<close>.
\<close>

section \<open>Data\<close>

datatype signal_reason =
    AtrStop rat rat
  | FixedStopLoss rat rat
  | RsiOverbought rat
  | TargetProfit rat
  | DeathCross
  | MaxHoldingDays int

record sell_signal =
  sig_reason :: signal_reason
  sig_pct :: rat

record sell_payload =
  pl_code :: string
  pl_name :: string
  pl_quantity :: int
  pl_price :: rat
  pl_reason :: signal_reason
  pl_holding :: int

text \<open>
  The world of one check: the indicator backend, the configuration source, the daily bars of
  a code (newest last), its current price, the answer of the message broker.
\<close>

record monitor_world =
  mw_backend :: backend
  mw_cfg :: cfg_world
  mw_daily :: "string \<Rightarrow> bar list res"
  mw_price :: "string \<Rightarrow> rat option res"
  mw_publish :: "sell_payload \<Rightarrow> bool"

record monitor_state =
  ms_config :: config_manager
  ms_cache :: "(int \<times> position) list"
  ms_published :: "sell_payload list"

section \<open>The sell signal\<close>

definition full_sale :: "signal_reason \<Rightarrow> sell_signal" where
  "full_sale r = \<lparr>sig_reason = r, sig_pct = 100\<rparr>"

text \<open>1. The ATR stop; the multiplier is read only when there is an ATR.\<close>

definition atr_stop ::
  "monitor_world \<Rightarrow> bar list \<Rightarrow> rat \<Rightarrow> rat \<Rightarrow> config_manager \<Rightarrow> sell_signal option res \<times> config_manager" where
  "atr_stop w df buy_price price c =
     (if 15 \<le> length df then
        (case calculate_atr (mw_backend w) (Some df) 14 of
           Inl e \<Rightarrow> (Inl e, c)
         | Inr None \<Rightarrow> (Inr None, c)
         | Inr (Some atr) \<Rightarrow>
             if atr = 0 then (Inr None, c)
             else
               (case get_float (mw_cfg w) ''ATR_MULTIPLIER'' (Some 2) c of (mult, c1) \<Rightarrow>
                  let stop_price = buy_price - mult * atr in
                  (Inr (if price < stop_price then Some (full_sale (AtrStop price stop_price)) else None), c1)))
      else (Inr None, c))"

text \<open>The fixed stop loss: a positive setting counts as its negative.\<close>

definition normal_stop :: "rat \<Rightarrow> rat" where
  "normal_stop stop_loss = (if 0 < stop_loss then - stop_loss else stop_loss)"

definition fixed_stop ::
  "monitor_world \<Rightarrow> rat \<Rightarrow> config_manager \<Rightarrow> sell_signal option \<times> config_manager" where
  "fixed_stop w profit_pct c =
     (case get_float (mw_cfg w) ''SELL_STOP_LOSS_PCT'' (Some (- 5)) c of (s, c1) \<Rightarrow>
        let stop_loss = normal_stop s in
        (if profit_pct \<le> stop_loss then Some (full_sale (FixedStopLoss profit_pct stop_loss)) else None, c1))"

text \<open>2. The RSI of the closes with the current price; half of the position is sold.\<close>

definition rsi_scale_out ::
  "monitor_world \<Rightarrow> bar list \<Rightarrow> rat \<Rightarrow> config_manager \<Rightarrow> sell_signal option \<times> config_manager" where
  "rsi_scale_out w df price c =
     (if 15 \<le> length df then
        (let rsi = calculate_rsi (mw_backend w) (PriceList (rev (closes df @ [price]))) 14 in
         case get_float (mw_cfg w) ''SELL_RSI_OVERBOUGHT_THRESHOLD'' (Some 75) c of (threshold, c1) \<Rightarrow>
           ((case rsi of
               None \<Rightarrow> None
             | Some r \<Rightarrow> if r \<noteq> 0 \<and> threshold \<le> r then Some \<lparr>sig_reason = RsiOverbought r, sig_pct = 50\<rparr> else None), c1))
      else (None, c))"

text \<open>3. The target profit.\<close>

definition target_profit ::
  "monitor_world \<Rightarrow> rat \<Rightarrow> config_manager \<Rightarrow> sell_signal option \<times> config_manager" where
  "target_profit w profit_pct c =
     (case get_float (mw_cfg w) ''SELL_TARGET_PROFIT_PCT'' (Some 10) c of (target, c1) \<Rightarrow>
        (if target \<le> profit_pct then Some (full_sale (TargetProfit profit_pct)) else None, c1))"

text \<open>4. The death cross of the bars with a bar of the current price.\<close>

definition death_cross :: "bar list \<Rightarrow> rat \<Rightarrow> sell_signal option" where
  "death_cross df price =
     (if 20 \<le> length df \<and>
         check_death_cross (df @ [\<lparr>open_price = price, high_price = price, low_price = price, close_price = price\<rparr>]) 5 20
      then Some (full_sale DeathCross) else None)"

text \<open>
  5. The holding period, counted from \<open>buy_date\<close>. The positions of the repository have no
  such key, so the callers pass None and this rule never fires.
\<close>

definition max_holding ::
  "monitor_world \<Rightarrow> int option \<Rightarrow> config_manager \<Rightarrow> sell_signal option \<times> config_manager" where
  "max_holding w held_days c =
     (case held_days of
        None \<Rightarrow> (None, c)
      | Some days \<Rightarrow>
          (case get_int (mw_cfg w) ''MAX_HOLDING_DAYS'' (Some 30) c of (limit, c1) \<Rightarrow>
             (if limit \<le> days then Some (full_sale (MaxHoldingDays days)) else None, c1)))"

definition or_else ::
  "sell_signal option \<times> config_manager \<Rightarrow>
   (config_manager \<Rightarrow> sell_signal option \<times> config_manager) \<Rightarrow> sell_signal option \<times> config_manager" where
  "or_else r f = (case r of (Some s, c) \<Rightarrow> (Some s, c) | (None, c) \<Rightarrow> f c)"

definition check_sell_signal ::
  "monitor_world \<Rightarrow> string \<Rightarrow> rat \<Rightarrow> rat \<Rightarrow> int option \<Rightarrow> config_manager \<Rightarrow>
   sell_signal option \<times> config_manager" where
  "check_sell_signal w code buy_price price held_days c =
     (case (py_div (price - buy_price) buy_price, mw_daily w code) of
        (Inr r, Inr df) \<Rightarrow>
          let profit_pct = r * 100 in
          (case atr_stop w df buy_price price c of
             (Inl _, c1) \<Rightarrow> (None, c1)
           | (Inr first, c1) \<Rightarrow>
               or_else (first, c1) (\<lambda>c.
               or_else (fixed_stop w profit_pct c) (\<lambda>c.
               or_else (rsi_scale_out w df price c) (\<lambda>c.
               or_else (target_profit w profit_pct c) (\<lambda>c.
               or_else (death_cross df price, c) (max_holding w held_days))))))
      | _ \<Rightarrow> (None, c))"

section \<open>Publishing a sell order\<close>

definition sell_quantity :: "int \<Rightarrow> rat \<Rightarrow> int" where
  "sell_quantity q pct = (let n = py_int (of_int q * (pct / 100)) in if n = 0 then 1 else n)"

definition publish_sell_order :: "monitor_world \<Rightarrow> sell_signal \<Rightarrow> position \<Rightarrow> rat \<Rightarrow> monitor_state \<Rightarrow> monitor_state" where
  "publish_sell_order w signal p price s =
     (let payload = \<lparr>pl_code = p_code p, pl_name = p_name p, pl_quantity = sell_quantity (p_qty p) (sig_pct signal),
                     pl_price = price, pl_reason = sig_reason signal, pl_holding = p_id p\<rparr>
      in if mw_publish w payload then s\<lparr>ms_published := ms_published s @ [payload]\<rparr> else s)"

section \<open>The polling pass\<close>

fun poll_holdings :: "monitor_world \<Rightarrow> position list \<Rightarrow> monitor_state \<Rightarrow> monitor_state" where
  "poll_holdings w [] s = s"
| "poll_holdings w (p # ps) s =
     (case mw_price w (p_code p) of
        Inl _ \<Rightarrow> s
      | Inr price \<Rightarrow>
          let current = (case price of None \<Rightarrow> 0 | Some x \<Rightarrow> x) in
          if current \<le> 0 then poll_holdings w ps s
          else
            (case check_sell_signal w (p_code p) (p_avg p) current None (ms_config s) of
               (None, c) \<Rightarrow> poll_holdings w ps (s\<lparr>ms_config := c\<rparr>)
             | (Some signal, c) \<Rightarrow>
                 poll_holdings w ps (publish_sell_order w signal p current (s\<lparr>ms_config := c\<rparr>))))"

section \<open>The WebSocket callback\<close>

definition load_cache :: "position list \<Rightarrow> (int \<times> position) list" where
  "load_cache ps = fold (\<lambda>p d. AList.update (p_id p) p d) ps []"

fun update_holdings :: "monitor_world \<Rightarrow> rat \<Rightarrow> position list \<Rightarrow> monitor_state \<Rightarrow> monitor_state" where
  "update_holdings w price [] s = s"
| "update_holdings w price (p # ps) s =
     (case check_sell_signal w (p_code p) (p_avg p) price None (ms_config s) of
        (None, c) \<Rightarrow> update_holdings w price ps (s\<lparr>ms_config := c\<rparr>)
      | (Some signal, c) \<Rightarrow>
          (let s1 = publish_sell_order w signal p price (s\<lparr>ms_config := c\<rparr>) in
           update_holdings w price ps (s1\<lparr>ms_cache := AList.delete (p_id p) (ms_cache s1)\<rparr>)))"

definition on_price_update :: "monitor_world \<Rightarrow> string \<Rightarrow> rat \<Rightarrow> monitor_state \<Rightarrow> monitor_state" where
  "on_price_update w code price s =
     update_holdings w price (filter (\<lambda>p. p_code p = code) (map snd (ms_cache s))) s"

section \<open>Price alerts\<close>

record price_alert =
  al_target :: "rat option"
  al_type :: string

text \<open>
  \<open>_process_price_alerts\<close>: the codes whose alert is due, in order; each is deleted from the
  store and announced. An exception, such as the comparison with a target of None, ends the
  pass.
\<close>

definition alert_due :: "price_alert \<Rightarrow> rat \<Rightarrow> bool res" where
  "alert_due a price =
     (if al_type a = ''above'' then
        (case al_target a of None \<Rightarrow> Inl TypeError | Some t \<Rightarrow> Inr (t \<le> price))
      else if al_type a = ''below'' then
        (case al_target a of None \<Rightarrow> Inl TypeError | Some t \<Rightarrow> Inr (price \<le> t))
      else Inr False)"

fun process_alerts :: "(string \<Rightarrow> rat option res) \<Rightarrow> (string \<times> price_alert) list \<Rightarrow> string list" where
  "process_alerts prices [] = []"
| "process_alerts prices ((code, a) # rest) =
     (case prices code of
        Inl _ \<Rightarrow> []
      | Inr price \<Rightarrow>
          let current = (case price of None \<Rightarrow> 0 | Some x \<Rightarrow> x) in
          if current \<le> 0 then process_alerts prices rest
          else
            (case alert_due a current of
               Inl _ \<Rightarrow> []
             | Inr due \<Rightarrow> (if due then code # process_alerts prices rest else process_alerts prices rest)))"

section \<open>Lemmas\<close>

lemma calculate_atr_frame: "calculate_atr b (Some df) n \<noteq> Inl e"
  by (auto simp: calculate_atr_def Let_def split: sum.splits option.splits)

lemma get_float_frame [frames]:
  "get_float w k d c = (v, c') \<Longrightarrow> memory_cache c' = memory_cache c \<and> cache_ttl c' = cache_ttl c"
  by (auto simp: get_float_def split: prod.splits dest: cfg_get_frame)

lemma atr_stop_frame [frames]:
  "atr_stop w df bp price c = (r, c') \<Longrightarrow> memory_cache c' = memory_cache c \<and> cache_ttl c' = cache_ttl c"
  by (auto simp: atr_stop_def Let_def split: if_splits sum.splits option.splits prod.splits dest: get_float_frame)

text \<open>How a signal looks, by the rule it comes from.\<close>

definition signal_ok :: "sell_signal \<Rightarrow> bool" where
  "signal_ok sig \<longleftrightarrow>
     (case sig_reason sig of
        AtrStop price stop \<Rightarrow> sig_pct sig = 100 \<and> price < stop
      | FixedStopLoss p limit \<Rightarrow> sig_pct sig = 100 \<and> p \<le> limit \<and> limit \<le> 0
      | RsiOverbought r \<Rightarrow> sig_pct sig = 50
      | _ \<Rightarrow> sig_pct sig = 100)"

lemma or_else_ok:
  "(\<And>sig c. r = (Some sig, c) \<Longrightarrow> P sig) \<Longrightarrow> (\<And>c sig c'. f c = (Some sig, c') \<Longrightarrow> P sig) \<Longrightarrow>
   or_else r f = (Some sig, c) \<Longrightarrow> P sig"
  by (auto simp: or_else_def split: prod.splits option.splits)

lemma rules_ok:
  "atr_stop w df bp price c = (Inr (Some sig), c') \<Longrightarrow> signal_ok sig"
  "fixed_stop w p c = (Some sig, c') \<Longrightarrow> signal_ok sig"
  "rsi_scale_out w df price c = (Some sig, c') \<Longrightarrow> signal_ok sig"
  "target_profit w p c = (Some sig, c') \<Longrightarrow> signal_ok sig"
  "death_cross df price = Some sig \<Longrightarrow> signal_ok sig"
  "max_holding w d c = (Some sig, c') \<Longrightarrow> signal_ok sig"
  by (auto simp: signal_ok_def full_sale_def atr_stop_def fixed_stop_def normal_stop_def rsi_scale_out_def
      target_profit_def death_cross_def max_holding_def Let_def
      split: if_splits sum.splits option.splits prod.splits)

lemma check_sell_signal_ok:
  assumes "check_sell_signal w code bp price d c = (Some sig, c')" shows "signal_ok sig"
proof -
  from assms obtain r df first c1 where a: "atr_stop w df bp price c = (Inr first, c1)"
    and run: "or_else (first, c1) (\<lambda>c. or_else (fixed_stop w (r * 100) c) (\<lambda>c.
      or_else (rsi_scale_out w df price c) (\<lambda>c. or_else (target_profit w (r * 100) c) (\<lambda>c.
      or_else (death_cross df price, c) (max_holding w d))))) = (Some sig, c')"
    by (auto simp: check_sell_signal_def Let_def split: prod.splits sum.splits)
  show ?thesis
  proof (rule or_else_ok [OF _ _ run])
    show "signal_ok sig'" if "(first, c1) = (Some sig', c2)" for sig' c2
      using a that rules_ok(1) by simp
    show "signal_ok sig'" if "or_else (fixed_stop w (r * 100) c) (\<lambda>c. or_else (rsi_scale_out w df price c)
      (\<lambda>c. or_else (target_profit w (r * 100) c) (\<lambda>c. or_else (death_cross df price, c) (max_holding w d)))) = (Some sig', c2)"
      for c sig' c2
      using that by (elim or_else_ok [rotated 2]) (auto intro: rules_ok)
  qed
qed

lemma sell_quantity_bounds:
  assumes "1 \<le> q" "pct = 50 \<or> pct = 100"
  shows "1 \<le> sell_quantity q pct" "sell_quantity q pct \<le> q"
    "pct = 50 \<Longrightarrow> 2 \<le> q \<Longrightarrow> sell_quantity q pct < q"
proof -
  have le: "py_int (of_int q * (pct / 100)) \<le> q"
    using py_int_mono [of "of_int q * (pct / 100)" "of_int q"] assms by auto
  have nn: "0 \<le> py_int (of_int q * (pct / 100))" using assms by (auto intro: py_int_nonneg)
  have "py_int (of_int q * (50 / 100)) < q" if "2 \<le> q"
  proof -
    have "(of_int (py_int (of_int q * (50 / 100))) :: rat) \<le> of_int q * (50 / 100)"
      using that by (intro py_int_le) simp
    also have "\<dots> < of_int q" using that by simp
    finally show ?thesis by simp
  qed
  with le nn assms show "1 \<le> sell_quantity q pct" "sell_quantity q pct \<le> q"
    "pct = 50 \<Longrightarrow> 2 \<le> q \<Longrightarrow> sell_quantity q pct < q"
    by (auto simp: sell_quantity_def Let_def)
qed

lemma signal_ok_pct: "signal_ok sig \<Longrightarrow> sig_pct sig = 50 \<or> sig_pct sig = 100"
  by (auto simp: signal_ok_def split: signal_reason.splits)

lemma publish_published:
  "ms_published (publish_sell_order w sig p price s) = ms_published s \<or>
   (\<exists>pl. ms_published (publish_sell_order w sig p price s) = ms_published s @ [pl] \<and> pl_code pl = p_code p \<and>
      pl_holding pl = p_id p \<and> pl_quantity pl = sell_quantity (p_qty p) (sig_pct sig))"
  by (auto simp: publish_sell_order_def Let_def)

text \<open>A pass announces exactly the alerts that are due, when every price is readable.\<close>

lemma process_alerts_due:
  assumes "\<forall>(code, a) \<in> set alerts. \<exists>x t. prices code = Inr x \<and> al_target a = Some t"
  shows "process_alerts prices alerts =
    map fst (filter (\<lambda>(code, a). case prices code of Inr (Some x) \<Rightarrow> 0 < x \<and> alert_due a x = Inr True | _ \<Rightarrow> False) alerts)"
  using assms by (induction alerts) (auto simp: alert_due_def split: option.splits if_splits)

section \<open>Properties\<close>

text \<open>
  C18. While the daily prices of a stock can be read, a loss beyond the stop-loss setting gives a
  signal for the whole position, and a setting entered with the wrong sign means the same limit:
  with the number x that the configuration gives for \<open>SELL_STOP_LOSS_PCT\<close> at that point of the
  check, from the cache, the database, the environment or the default, a profit of at most -|x|
  percent is enough. When the daily prices cannot be read there is no signal at all, whatever the
  loss: the read stands before every rule, the fixed stop that does not need it included.
\<close>

theorem losses_are_sold:
  assumes "0 < buy_price"
  shows "(case mw_daily w code of
       Inl e \<Rightarrow> check_sell_signal w code buy_price price d c = (None, c)
     | Inr df \<Rightarrow>
         (let (_, c1) = atr_stop w df buy_price price c;
              (x, _) = get_float (mw_cfg w) ''SELL_STOP_LOSS_PCT'' (Some (- 5)) c1
           in (price - buy_price) / buy_price * 100 \<le> - \<bar>x\<bar> \<longrightarrow>
              (\<exists>sig c'. check_sell_signal w code buy_price price d c = (Some sig, c') \<and> sig_pct sig = 100)))"
proof (cases "mw_daily w code")
  case (Inl e)
  with assms show ?thesis by (simp add: check_sell_signal_def)
next
  case (Inr df)
  obtain r c1 where a: "atr_stop w df buy_price price c = (r, c1)" by (cases "atr_stop w df buy_price price c")
  obtain x c2 where x: "get_float (mw_cfg w) ''SELL_STOP_LOSS_PCT'' (Some (- 5)) c1 = (x, c2)" by (metis prod.collapse)
  have "r \<noteq> Inl e" for e
    using a calculate_atr_frame by (auto simp: atr_stop_def Let_def split: if_splits sum.splits option.splits prod.splits)
  then obtain first where first: "r = Inr first" by (cases r) auto
  have "\<exists>sig c'. check_sell_signal w code buy_price price d c = (Some sig, c') \<and> sig_pct sig = 100"
    if loss: "(price - buy_price) / buy_price * 100 \<le> - \<bar>x\<bar>"
  proof (cases first)
    case (Some sig)
    have "sig_pct sig = 100"
      using a first Some by (auto simp: atr_stop_def full_sale_def Let_def split: if_splits sum.splits option.splits prod.splits)
    with a first Some assms Inr show ?thesis by (simp add: check_sell_signal_def or_else_def)
  next
    case None
    have "(price - buy_price) / buy_price * 100 \<le> normal_stop x"
      using loss by (simp add: normal_stop_def abs_if split: if_splits)
    then have "fixed_stop w ((price - buy_price) / buy_price * 100) c1 =
      (Some (full_sale (FixedStopLoss ((price - buy_price) / buy_price * 100) (normal_stop x))), c2)"
      using x by (simp add: fixed_stop_def Let_def del: times_divide_eq_left)
    with a first None assms Inr show ?thesis
      by (simp add: check_sell_signal_def or_else_def full_sale_def)
  qed
  with Inr a x show ?thesis by (simp add: Let_def)
qed

definition demo_monitor :: monitor_world where
  "demo_monitor = \<lparr>mw_backend = pandas_backend, mw_cfg = demo_world, mw_daily = (\<lambda>_. Inr []),
     mw_price = (\<lambda>_. Inr (Some 94)), mw_publish = (\<lambda>_. True)\<rparr>"

definition stop_config :: config_manager where
  "stop_config = memory_put 0 ''SELL_STOP_LOSS_PCT'' (CFloat 5) (config_init 300)"

lemma stop_config_fetch: "memory_fetch 0 ''SELL_STOP_LOSS_PCT'' stop_config = Some (CFloat 5)"
  by (simp add: stop_config_def memory_put_def memory_fetch_def config_init_def)

theorem losses_are_sold_witness:
  "\<exists>sig c'. check_sell_signal demo_monitor ''005930'' 100 94 None stop_config = (Some sig, c') \<and> sig_pct sig = 100"
proof -
  have "atr_stop demo_monitor [] 100 94 stop_config = (Inr None, stop_config)" by (simp add: atr_stop_def)
  moreover have "get_float (mw_cfg demo_monitor) ''SELL_STOP_LOSS_PCT'' (Some (- 5)) stop_config = (5, stop_config)"
    by (simp add: get_float_def cfg_get_memory demo_monitor_def demo_world_def stop_config_fetch)
  moreover have "mw_daily demo_monitor ''005930'' = Inr []" by (simp add: demo_monitor_def)
  ultimately show ?thesis
    using losses_are_sold [of 100 demo_monitor "''005930''" 94 None stop_config] by simp
qed

text \<open>
  A signal has the size its rule says, half the position for an overbought RSI and the
  whole position otherwise, and a stop loss never sells a position in profit.
\<close>

theorem sell_signal_sound:
  assumes "check_sell_signal w code buy_price price d c = (Some sig, c')"
  shows "(case sig_reason sig of RsiOverbought _ \<Rightarrow> sig_pct sig = 50 | _ \<Rightarrow> sig_pct sig = 100) \<and>
    (case sig_reason sig of FixedStopLoss p limit \<Rightarrow> p \<le> limit \<and> limit \<le> 0 | AtrStop p stop \<Rightarrow> p < stop | _ \<Rightarrow> True)"
  using check_sell_signal_ok [OF assms] by (auto simp: signal_ok_def split: signal_reason.splits)

theorem sell_signal_sound_witness:
  "\<exists>sig c'. check_sell_signal demo_monitor ''005930'' 100 94 None stop_config = (Some sig, c') \<and>
     sig_reason sig = FixedStopLoss (- 6) (- 5) \<and> (- 6 :: rat) \<le> - 5"
proof -
  obtain sig c' where run: "check_sell_signal demo_monitor ''005930'' 100 94 None stop_config = (Some sig, c')"
    and r: "sig_reason sig = FixedStopLoss (- 6) (- 5)"
    by (simp add: check_sell_signal_def demo_monitor_def demo_world_def atr_stop_def or_else_def fixed_stop_def
        get_float_def cfg_get_memory stop_config_fetch normal_stop_def full_sale_def Let_def)
  from sell_signal_sound [OF run] r run show ?thesis by auto
qed

text \<open>
  C27. A polling pass publishes orders only for the positions it was given, each for at least
  one share and at most the shares held.
\<close>

theorem published_within_holdings:
  assumes "\<forall>p \<in> set ps. 1 \<le> p_qty p"
  shows "\<exists>new. ms_published (poll_holdings w ps s) = ms_published s @ new \<and>
    (\<forall>pl \<in> set new. \<exists>p \<in> set ps. pl_code pl = p_code p \<and> pl_holding pl = p_id p \<and>
       1 \<le> pl_quantity pl \<and> pl_quantity pl \<le> p_qty p)"
  using assms
proof (induction ps arbitrary: s)
  case Nil
  then show ?case by simp
next
  case (Cons p ps)
  then have q: "1 \<le> p_qty p" and IH: "\<exists>new. ms_published (poll_holdings w ps s) = ms_published s @ new \<and>
      (\<forall>pl \<in> set new. \<exists>p \<in> set ps. pl_code pl = p_code p \<and> pl_holding pl = p_id p \<and>
         1 \<le> pl_quantity pl \<and> pl_quantity pl \<le> p_qty p)" for s by auto
  let ?x = "case mw_price w (p_code p) of Inr (Some x) \<Rightarrow> x | _ \<Rightarrow> 0"
  show ?case
  proof (cases "check_sell_signal w (p_code p) (p_avg p) ?x None (ms_config s)")
    case (Pair sig c)
    show ?thesis
    proof (cases sig)
      case None
      with Pair IH [of s] IH [of "s\<lparr>ms_config := c\<rparr>"] show ?thesis
        by (auto simp: Let_def split: sum.splits option.splits; blast)
    next
      case (Some sg)
      let ?s = "publish_sell_order w sg p ?x (s\<lparr>ms_config := c\<rparr>)"
      have "signal_ok sg" using check_sell_signal_ok Pair Some by blast
      then have b: "1 \<le> sell_quantity (p_qty p) (sig_pct sg)" "sell_quantity (p_qty p) (sig_pct sg) \<le> p_qty p"
        using sell_quantity_bounds [OF q signal_ok_pct] by blast+
      obtain new where new: "ms_published (poll_holdings w ps ?s) = ms_published ?s @ new"
        "\<forall>pl \<in> set new. \<exists>p \<in> set ps. pl_code pl = p_code p \<and> pl_holding pl = p_id p \<and>
           1 \<le> pl_quantity pl \<and> pl_quantity pl \<le> p_qty p" using IH [of ?s] by blast
      have "\<exists>new'. ms_published (poll_holdings w ps ?s) = ms_published s @ new' \<and>
        (\<forall>pl \<in> set new'. \<exists>p' \<in> set (p # ps). pl_code pl = p_code p' \<and> pl_holding pl = p_id p' \<and>
           1 \<le> pl_quantity pl \<and> pl_quantity pl \<le> p_qty p')"
      proof (cases "ms_published ?s = ms_published s")
        case True
        with new show ?thesis by (intro exI [of _ new]) auto
      next
        case False
        with publish_published [of w sg p ?x "s\<lparr>ms_config := c\<rparr>"] obtain pl where
          "ms_published ?s = ms_published s @ [pl]" "pl_code pl = p_code p" "pl_holding pl = p_id p"
          "pl_quantity pl = sell_quantity (p_qty p) (sig_pct sg)" by auto
        with new b show ?thesis by (intro exI [of _ "pl # new"]) auto
      qed
      with Pair Some IH [of s] show ?thesis
        by (auto simp: Let_def split: sum.splits option.splits; blast)
    qed
  qed
qed

definition demo_position :: position where
  "demo_position = \<lparr>p_id = 1, p_code = ''005930'', p_name = ''S'', p_qty = 10, p_avg = 100, p_high = 100,
     p_state = ''INITIAL'', p_stop = 93, p_created = 0\<rparr>"

theorem published_within_holdings_witness:
  "\<exists>new. ms_published (poll_holdings demo_monitor [demo_position]
       \<lparr>ms_config = stop_config, ms_cache = [], ms_published = []\<rparr>) = new \<and>
     (\<forall>pl \<in> set new. 1 \<le> pl_quantity pl \<and> pl_quantity pl \<le> 10)"
  using published_within_holdings [of "[demo_position]" demo_monitor "\<lparr>ms_config = stop_config, ms_cache = [], ms_published = []\<rparr>"]
  by (auto simp: demo_position_def)

text \<open>
  A sell signal whose publication fails is lost: the WebSocket callback drops the
  position from its cache all the same, and no later price of the code is looked at.
\<close>

theorem failed_publication_drops_position:
  assumes "ms_cache s = [(p_id p, p)]" "\<forall>pl. \<not> mw_publish w pl"
    and "check_sell_signal w (p_code p) (p_avg p) price None (ms_config s) = (Some sig, c')"
  shows "on_price_update w (p_code p) price s = s\<lparr>ms_config := c', ms_cache := []\<rparr> \<and>
    on_price_update w' code price' (on_price_update w (p_code p) price s) = on_price_update w (p_code p) price s"
proof -
  have "on_price_update w (p_code p) price s = s\<lparr>ms_config := c', ms_cache := []\<rparr>"
    using assms by (simp add: on_price_update_def publish_sell_order_def Let_def)
  then show ?thesis by (simp add: on_price_update_def)
qed

theorem failed_publication_drops_position_witness:
  "\<exists>c'. on_price_update (demo_monitor\<lparr>mw_publish := (\<lambda>_. False)\<rparr>) ''005930'' 94
     \<lparr>ms_config = stop_config, ms_cache = [(1, demo_position)], ms_published = []\<rparr> =
     \<lparr>ms_config = c', ms_cache = [], ms_published = []\<rparr>"
proof -
  let ?w = "demo_monitor\<lparr>mw_publish := (\<lambda>_. False)\<rparr>"
  let ?s = "\<lparr>ms_config = stop_config, ms_cache = [(1, demo_position)], ms_published = []\<rparr>"
  obtain sig c' where run: "check_sell_signal ?w (p_code demo_position) (p_avg demo_position) 94 None (ms_config ?s) = (Some sig, c')"
    by (simp add: check_sell_signal_def demo_monitor_def demo_world_def atr_stop_def or_else_def fixed_stop_def
        demo_position_def get_float_def cfg_get_memory stop_config_fetch normal_stop_def Let_def)
  have "ms_cache ?s = [(p_id demo_position, demo_position)]" "\<forall>pl. \<not> mw_publish ?w pl"
    by (simp_all add: demo_position_def)
  from failed_publication_drops_position [OF this run] show ?thesis by (auto simp: demo_position_def)
qed

end
