(* ===== verification/Command_Limits.thy ===== *)
theory Command_Limits
  imports Redis_Cache
begin

text \<open>
  \<open>services/command-handler/limits.py\<close>: the minimum interval between two commands of a chat
  and the daily number of manual trades, both kept in Redis, and the daily limit under
  several workers, whose reading and writing of the counter interleave.
\<close>

section \<open>The two checks\<close>

text \<open>
  A stored integer comes back as its text; the model keeps the number and writes the value
  as a document with one field, so that \<open>int(r.get(key))\<close> is its inverse.
\<close>

definition int_value :: "int \<Rightarrow> stored" where
  "int_value n = Doc [(''int'', JNum (of_int n))]"

definition read_int :: "stored \<Rightarrow> int res" where
  "read_int v =
     (case v of
        Text t \<Rightarrow> (case parse_int t of None \<Rightarrow> Inl ValueError | Some i \<Rightarrow> Inr i)
      | Doc d \<Rightarrow> (case field ''int'' JNull d of JNum r \<Rightarrow> Inr (py_int r) | _ \<Rightarrow> Inl ValueError))"

lemma read_int_value [simp]: "read_int (int_value n) = Inr n"
  by (simp add: read_int_def int_value_def field_def)

lemma int_value_not_empty [simp]: "int_value n \<noteq> Text []"
  by (simp add: int_value_def)

definition usable :: "redis_link \<Rightarrow> bool" where
  "usable l \<longleftrightarrow> connected l \<and> \<not> link_fault l"

text \<open>Keys: the chat id and the day as texts.\<close>

definition is_rate_limited :: "redis_link \<Rightarrow> string option \<Rightarrow> int \<Rightarrow> redis \<Rightarrow> bool \<times> redis" where
  "is_rate_limited l chat_id min_interval s =
     (case chat_id of
        None \<Rightarrow> (False, s)
      | Some chat \<Rightarrow>
          if \<not> usable l then (False, s)
          else
            (let key = ''telegram:rl:'' @ chat; now = py_int (clock l);
                 limited = (case redis_get (clock l) key s of
                              None \<Rightarrow> Inr False
                            | Some v \<Rightarrow> if v = Text [] then Inr False else rbind (read_int v) (\<lambda>last. Inr (now - last < min_interval)))
             in (case limited of
                   Inl _ \<Rightarrow> (False, s)
                 | Inr True \<Rightarrow> (True, s)
                 | Inr False \<Rightarrow> (False, snd (try_setex l key min_interval (int_value now) s)))))"

definition manual_key :: "string \<Rightarrow> string \<Rightarrow> string" where
  "manual_key day chat = ''telegram:manual_trades:'' @ day @ '':'' @ chat"

definition read_count :: "redis_link \<Rightarrow> string \<Rightarrow> redis \<Rightarrow> int res" where
  "read_count l key s =
     (if link_fault l then Inl RuntimeError
      else (case redis_get (clock l) key s of None \<Rightarrow> Inr 0
            | Some v \<Rightarrow> if v = Text [] then Inr 0 else read_int v))"

text \<open>The answer is True when the limit is exceeded; every failure lets the trade pass.\<close>

definition check_manual_limit ::
  "redis_link \<Rightarrow> string \<Rightarrow> string option \<Rightarrow> int \<Rightarrow> redis \<Rightarrow> bool \<times> redis" where
  "check_manual_limit l day chat_id daily_limit s =
     (case chat_id of
        None \<Rightarrow> (False, s)
      | Some chat \<Rightarrow>
          if \<not> connected l then (False, s)
          else
            (case read_count l (manual_key day chat) s of
               Inl _ \<Rightarrow> (False, s)
             | Inr count \<Rightarrow>
                 if daily_limit \<le> count then (True, s)
                 else (False, snd (try_setex l (manual_key day chat) 86400 (int_value (count + 1)) s))))"

section \<open>One worker after the other\<close>

definition count_of :: "redis_link \<Rightarrow> string \<Rightarrow> string \<Rightarrow> redis \<Rightarrow> int" where
  "count_of l day chat s =
     (case read_count l (manual_key day chat) s of Inl _ \<Rightarrow> 0 | Inr n \<Rightarrow> n)"

fun allowed_calls :: "redis_link \<Rightarrow> string \<Rightarrow> string \<Rightarrow> int \<Rightarrow> nat \<Rightarrow> redis \<Rightarrow> nat \<times> redis" where
  "allowed_calls l day chat limit 0 s = (0, s)"
| "allowed_calls l day chat limit (Suc n) s =
     (case check_manual_limit l day (Some chat) limit s of
        (exceeded, s1) \<Rightarrow>
          (case allowed_calls l day chat limit n s1 of (k, s2) \<Rightarrow> ((if exceeded then 0 else 1) + k, s2)))"

lemma check_manual_step:
  assumes "usable l" "read_count l (manual_key day chat) s = Inr c"
  shows "\<exists>s1. check_manual_limit l day (Some chat) limit s = (limit \<le> c, s1) \<and>
    read_count l (manual_key day chat) s1 = Inr (if limit \<le> c then c else c + 1)"
  using assms
  by (auto simp: check_manual_limit_def usable_def try_setex_def read_count_def redis.get_setex)

lemma allowed_calls_count:
  assumes "usable l" "read_count l (manual_key day chat) s = Inr c" "0 \<le> c"
  shows "int (fst (allowed_calls l day chat limit n s)) = min (int n) (max 0 (limit - c))"
  using assms(2,3)
proof (induction n arbitrary: s c)
  case (Suc n)
  from check_manual_step [OF assms(1) Suc.prems(1), of limit] obtain s1 where
    s1: "check_manual_limit l day (Some chat) limit s = (limit \<le> c, s1)"
      "read_count l (manual_key day chat) s1 = Inr (if limit \<le> c then c else c + 1)" by blast
  from Suc.IH [OF s1(2)] Suc.prems(2) show ?case
    by (auto simp: s1(1) split: prod.splits)
qed simp

section \<open>Several workers\<close>

text \<open>
  A worker reads the counter, then compares and writes it; other workers may run in between.
  A state is the counter and the phase of every worker.
\<close>

datatype phase = Waiting | Read int | Allowed | Refused

record limit_state =
  counter :: int
  workers :: "nat \<Rightarrow> phase"

inductive limit_step :: "int \<Rightarrow> limit_state \<Rightarrow> limit_state \<Rightarrow> bool" for limit where
  read: "workers s i = Waiting \<Longrightarrow> limit_step limit s (s\<lparr>workers := (workers s)(i := Read (counter s))\<rparr>)"
| refuse: "workers s i = Read c \<Longrightarrow> limit \<le> c \<Longrightarrow> limit_step limit s (s\<lparr>workers := (workers s)(i := Refused)\<rparr>)"
| allow: "workers s i = Read c \<Longrightarrow> c < limit \<Longrightarrow>
    limit_step limit s (s\<lparr>counter := c + 1, workers := (workers s)(i := Allowed)\<rparr>)"

inductive_cases limit_stepE: "limit_step limit s s'"

definition start_state :: "int \<Rightarrow> limit_state" where
  "start_state c = \<lparr>counter = c, workers = (\<lambda>_. Waiting)\<rparr>"

lemma limit_step_counter: "limit_step limit s s' \<Longrightarrow> counter s \<le> limit \<Longrightarrow> counter s' \<le> limit"
  by (auto elim: limit_stepE)

lemma reachable_counter: "(limit_step limit)\<^sup>*\<^sup>* s s' \<Longrightarrow> counter s \<le> limit \<Longrightarrow> counter s' \<le> limit"
  by (induction rule: rtranclp_induct) (auto dest: limit_step_counter)

lemma all_read:
  "(limit_step limit)\<^sup>*\<^sup>* (start_state c) \<lparr>counter = c, workers = (\<lambda>i. if i < n then Read c else Waiting)\<rparr>"
proof (induction n)
  case 0
  then show ?case by (simp add: start_state_def)
next
  case (Suc n)
  let ?s = "\<lparr>counter = c, workers = (\<lambda>i. if i < n then Read c else Waiting)\<rparr>"
  have "limit_step limit ?s (?s\<lparr>workers := (workers ?s)(n := Read (counter ?s))\<rparr>)"
    by (rule read) simp
  moreover have "(workers ?s)(n := Read (counter ?s)) = (\<lambda>i. if i < Suc n then Read c else Waiting)"
    by (auto simp: fun_eq_iff less_Suc_eq)
  ultimately show ?case using Suc by (simp add: rtranclp.rtrancl_into_rtrancl)
qed

lemma all_allowed:
  assumes "c < limit" "m \<le> n" "m \<noteq> 0"
  shows "(limit_step limit)\<^sup>*\<^sup>* \<lparr>counter = c, workers = (\<lambda>i. if i < n then Read c else Waiting)\<rparr>
    \<lparr>counter = c + 1, workers = (\<lambda>i. if i < m then Allowed else if i < n then Read c else Waiting)\<rparr>"
  using assms(2,3)
proof (induction m)
  case (Suc m)
  let ?s = "\<lparr>counter = (if m = 0 then c else c + 1), workers = (\<lambda>i. if i < m then Allowed else if i < n then Read c else Waiting)\<rparr>"
  have "limit_step limit ?s (?s\<lparr>counter := c + 1, workers := (workers ?s)(m := Allowed)\<rparr>)"
    using Suc.prems assms(1) by (intro allow) auto
  moreover have "(workers ?s)(m := Allowed) = (\<lambda>i. if i < Suc m then Allowed else if i < n then Read c else Waiting)"
    by (auto simp: fun_eq_iff less_Suc_eq)
  moreover have "(limit_step limit)\<^sup>*\<^sup>* \<lparr>counter = c, workers = (\<lambda>i. if i < n then Read c else Waiting)\<rparr> ?s"
    using Suc by (cases "m = 0") auto
  ultimately show ?case by (simp add: rtranclp.rtrancl_into_rtrancl)
qed simp

section \<open>Properties\<close>

text \<open>
  One call after the other, the daily limit is exact: of n calls of a chat on a day, those
  let through are as many as the limit still leaves, no more and no fewer.
\<close>

theorem manual_limit_exact:
  assumes "connected l" "\<not> link_fault l" "read_count l (manual_key day chat) s = Inr c" "0 \<le> c"
  shows "int (fst (allowed_calls l day chat limit n s)) = min (int n) (max 0 (limit - c))"
  using assms by (intro allowed_calls_count) (simp_all add: usable_def)

theorem manual_limit_exact_witness:
  "fst (allowed_calls demo_link ''20250101'' ''7'' 3 10 []) = 3"
  using manual_limit_exact [of demo_link "''20250101''" "''7''" "[]" 0 3 10]
  by (simp add: demo_link_def read_count_def redis_get_def)

text \<open>
  Between workers the limit is not kept: reading and writing the counter are two
  operations, so from any counter below the limit any number of workers can all be let
  through, while the counter moves by one and never passes the limit.
\<close>

theorem manual_limit_races:
  assumes "c < limit"
  shows "\<exists>s. (limit_step limit)\<^sup>*\<^sup>* (start_state c) s \<and> (\<forall>i < n. workers s i = Allowed) \<and> counter s \<le> c + 1"
proof (cases "n = 0")
  case True
  then show ?thesis by (intro exI [of _ "start_state c"]) (simp add: start_state_def)
next
  case False
  from all_read [of limit c n] all_allowed [OF assms order_refl False]
  have "(limit_step limit)\<^sup>*\<^sup>* (start_state c)
    \<lparr>counter = c + 1, workers = (\<lambda>i. if i < n then Allowed else if i < n then Read c else Waiting)\<rparr>"
    by (rule rtranclp_trans)
  then show ?thesis by (intro exI conjI) auto
qed

theorem manual_limit_races_witness:
  "\<exists>s. (limit_step 1)\<^sup>*\<^sup>* (start_state 0) s \<and> workers s 0 = Allowed \<and> workers s 1 = Allowed \<and> counter s \<le> 1"
  using manual_limit_races [of 0 1 2] by fastforce

end
