(* ===== verification/Message_Queue.thy ===== *)
theory Message_Queue
  imports Interfaces
begin

text \<open>
  \<open>shared/rabbitmq.py\<close>: the publisher that puts a message on a queue, or on its delay queue
  with an expiry, and the worker that takes messages off a queue and hands them to a handler.

  The server is a parameter. A publication meets one of three fates (\<open>attempt\<close>); a queue
  delivers in order, one message at a time (\<open>prefetch_count=1\<close>), and puts a message that was
  delivered but not acknowledged back to the front when the connection ends.
\<close>

section \<open>Publishing\<close>

record publisher =
  pb_queue :: string
  pb_enable_delay :: bool
  pb_durable :: bool

definition new_publisher :: "string \<Rightarrow> publisher" where
  "new_publisher q = \<lparr>pb_queue = q, pb_enable_delay = True, pb_durable = True\<rparr>"

record 'p amqp_message =
  am_queue :: string
  am_body :: 'p
  am_expiration :: "int option"
  am_delivery_mode :: int

text \<open>
  What one publication meets: the server takes it, refuses it (or cannot be reached), or
  takes it and fails while the connection is closed.
\<close>

datatype attempt = Taken | Refused | TakenThenLost

definition delay_queue_name :: "publisher \<Rightarrow> string" where
  "delay_queue_name pb = pb_queue pb @ ''.delay''"

text \<open>Milliseconds until the message leaves its queue; a zero counts as no expiry.\<close>

definition expiration_ms :: "publisher \<Rightarrow> rat \<Rightarrow> int option \<Rightarrow> int option" where
  "expiration_ms pb delay ttl =
     (let e = if delay \<noteq> 0 \<and> pb_enable_delay pb then py_int (delay * 1000) else 0;
          e = if e = 0 then (case ttl of None \<Rightarrow> 0 | Some t \<Rightarrow> t) else e
       in if e = 0 then None else Some (max 1 e))"

definition amqp_message_of :: "publisher \<Rightarrow> 'p \<Rightarrow> rat \<Rightarrow> int option \<Rightarrow> 'p amqp_message" where
  "amqp_message_of pb p delay ttl =
     \<lparr>am_queue = (if delay \<noteq> 0 \<and> pb_enable_delay pb then delay_queue_name pb else pb_queue pb),
      am_body = p, am_expiration = expiration_ms pb delay ttl,
      am_delivery_mode = (if pb_durable pb then 2 else 1)\<rparr>"

text \<open>The answer is an identifier of queue and milliseconds, or None: every failure is swallowed.\<close>

definition publish ::
  "attempt \<Rightarrow> rat \<Rightarrow> publisher \<Rightarrow> 'p \<Rightarrow> rat \<Rightarrow> int option \<Rightarrow> 'p amqp_message list \<Rightarrow>
   (string \<times> int) option \<times> 'p amqp_message list" where
  "publish a now pb p delay ttl sent =
     ((if a = Taken then Some (pb_queue pb, py_int (now * 1000)) else None),
      (if a = Refused then sent else sent @ [amqp_message_of pb p delay ttl]))"

lemma publish_simps [simp]:
  "snd (publish Taken now pb p delay ttl sent) = sent @ [amqp_message_of pb p delay ttl]"
  "snd (publish TakenThenLost now pb p delay ttl sent) = sent @ [amqp_message_of pb p delay ttl]"
  "snd (publish Refused now pb p delay ttl sent) = sent"
  "fst (publish a now pb p delay ttl sent) = (if a = Taken then Some (pb_queue pb, py_int (now * 1000)) else None)"
  by (simp_all add: publish_def)

lemma expiration_ms_pos: "expiration_ms pb delay ttl = Some e \<Longrightarrow> 1 \<le> e"
  by (auto simp: expiration_ms_def Let_def split: if_splits)

lemma expiration_ms_ttl [simp]: "1 \<le> t \<Longrightarrow> expiration_ms pb 0 (Some t) = Some t"
  by (simp add: expiration_ms_def)

section \<open>The worker\<close>

text \<open>The bytes of a message: a JSON document, or something that does not parse as one.\<close>

datatype 'p body = Json 'p | Garbled

text \<open>
  \<open>wk_handled\<close> is what the handler was called with, in order; it is not a field of the
  program but what its handlers see.
\<close>

record 'p worker =
  wk_queue :: "'p body list"
  wk_unacked :: "'p body option"
  wk_open :: bool
  wk_stopping :: bool
  wk_reconnect_count :: nat
  wk_handled :: "'p list"

definition new_worker :: "'p worker" where
  "new_worker = \<lparr>wk_queue = [], wk_unacked = None, wk_open = False, wk_stopping = False,
     wk_reconnect_count = 0, wk_handled = []\<rparr>"

datatype handler_outcome = HandlerDone | HandlerError | HandlerLostConnection

definition requeue :: "'p worker \<Rightarrow> 'p worker" where
  "requeue s = s\<lparr>wk_queue := (case wk_unacked s of None \<Rightarrow> wk_queue s | Some b \<Rightarrow> b # wk_queue s),
     wk_unacked := None\<rparr>"

definition lose_connection :: "'p worker \<Rightarrow> 'p worker" where
  "lose_connection s = requeue s\<lparr>wk_open := False\<rparr>"

text \<open>
  An acknowledgement that does not reach the server is logged and forgotten: the message
  stays unacknowledged, and the handler runs all the same.
\<close>

definition safe_ack :: "bool \<Rightarrow> 'p worker \<Rightarrow> 'p worker" where
  "safe_ack reaches s = (if reaches then s\<lparr>wk_unacked := None\<rparr> else s)"

definition safe_nack :: "bool \<Rightarrow> 'p worker \<Rightarrow> 'p worker" where
  "safe_nack reaches s = (if reaches then requeue s else s)"

definition on_message :: "bool \<Rightarrow> handler_outcome \<Rightarrow> 'p body \<Rightarrow> 'p worker \<Rightarrow> 'p worker" where
  "on_message reaches out b s =
     (if wk_stopping s then safe_nack reaches s
      else case b of
        Garbled \<Rightarrow> s
      | Json p \<Rightarrow>
          (let s = safe_ack reaches s; s = s\<lparr>wk_handled := wk_handled s @ [p]\<rparr>
            in if out = HandlerLostConnection then lose_connection s else s))"

definition reconnect_delay :: "nat \<Rightarrow> nat" where
  "reconnect_delay n = min (5 * n) 60"

text \<open>
  What can happen to a worker and its queue. \<open>Deliver\<close> is one delivery with its callback:
  whether the acknowledgement reaches the server, and how the handler ends.
\<close>

datatype 'p worker_event =
    Arrive "'p body"
  | Connect bool
  | Deliver bool handler_outcome
  | Disconnect
  | Stop

fun worker_step :: "'p worker_event \<Rightarrow> 'p worker \<Rightarrow> 'p worker" where
  "worker_step (Arrive b) s = s\<lparr>wk_queue := wk_queue s @ [b]\<rparr>"
| "worker_step (Connect ok) s =
     (if wk_open s \<or> wk_stopping s then s
      else if ok then s\<lparr>wk_open := True, wk_reconnect_count := 0\<rparr>
      else s\<lparr>wk_reconnect_count := wk_reconnect_count s + 1\<rparr>)"
| "worker_step (Deliver reaches out) s =
     (if \<not> wk_open s \<or> wk_unacked s \<noteq> None then s
      else case wk_queue s of
        [] \<Rightarrow> s
      | b # bs \<Rightarrow> on_message reaches out b (s\<lparr>wk_queue := bs, wk_unacked := Some b\<rparr>))"
| "worker_step Disconnect s = (if wk_open s then lose_connection s else s)"
| "worker_step Stop s = s\<lparr>wk_stopping := True\<rparr>"

definition worker_run :: "'p worker_event list \<Rightarrow> 'p worker \<Rightarrow> 'p worker" where
  "worker_run es s = fold worker_step es s"

lemma worker_run_simps [simp]:
  "worker_run [] s = s"
  "worker_run (e # es) s = worker_run es (worker_step e s)"
  "worker_run (es @ fs) s = worker_run fs (worker_run es s)"
  by (simp_all add: worker_run_def)

lemma reconnect_delay_bounds: "1 \<le> n \<Longrightarrow> 5 \<le> reconnect_delay n \<and> reconnect_delay n \<le> 60"
  by (simp add: reconnect_delay_def)

section \<open>What the handler sees\<close>

text \<open>The documents among messages, and those a run of events puts on the queue.\<close>

fun documents :: "'p body list \<Rightarrow> 'p list" where
  "documents [] = []"
| "documents (Json p # bs) = p # documents bs"
| "documents (Garbled # bs) = documents bs"

fun arrivals :: "'p worker_event list \<Rightarrow> 'p body list" where
  "arrivals [] = []"
| "arrivals (Arrive b # es) = b # arrivals es"
| "arrivals (_ # es) = arrivals es"

fun acks_reach :: "'p worker_event \<Rightarrow> bool" where
  "acks_reach (Deliver reaches _) = reaches"
| "acks_reach _ = True"

lemma documents_append [simp]: "documents (bs @ cs) = documents bs @ documents cs"
  by (induction bs rule: documents.induct) auto

lemma documents_Cons: "documents (b # bs) = documents [b] @ documents bs"
  by (cases b) simp_all

lemma arrivals_append [simp]: "arrivals (es @ fs) = arrivals es @ arrivals fs"
  by (induction es rule: arrivals.induct) auto

definition waiting :: "'p worker \<Rightarrow> 'p list" where
  "waiting s = documents ((case wk_unacked s of None \<Rightarrow> [] | Some b \<Rightarrow> [b]) @ wk_queue s)"

text \<open>
  While acknowledgements reach the server, what was handled and what waits together are what
  arrived, in order, and the only message that can be held unacknowledged is a garbled one.
\<close>

definition in_order :: "'p list \<Rightarrow> 'p worker \<Rightarrow> bool" where
  "in_order ps s \<longleftrightarrow> wk_handled s @ waiting s = ps \<and> (\<forall>p. wk_unacked s \<noteq> Some (Json p))"

lemma waiting_requeue [simp]: "waiting (requeue s) = waiting s" "wk_unacked (requeue s) = None"
  "wk_handled (requeue s) = wk_handled s"
  by (auto simp: waiting_def requeue_def split: option.splits intro!: documents_Cons)

lemma waiting_open [simp]: "waiting (s\<lparr>wk_open := b\<rparr>) = waiting s"
  by (simp add: waiting_def)

lemma waiting_requeue_open [simp]: "waiting (requeue s\<lparr>wk_open := b\<rparr>) = waiting s"
  by (simp add: waiting_def [of "requeue s\<lparr>wk_open := b\<rparr>"] waiting_def [symmetric, of "requeue s", simplified])

lemma on_message_in_order:
  assumes "wk_handled s @ waiting s = ps" "wk_unacked s = Some b"
  shows "in_order ps (on_message True out b s)"
proof (cases b)
  case Garbled
  with assms show ?thesis
    by (auto simp: on_message_def safe_nack_def in_order_def)
next
  case (Json p)
  with assms show ?thesis
    by (auto simp: on_message_def safe_nack_def safe_ack_def lose_connection_def in_order_def waiting_def Let_def requeue_def)
qed

lemma worker_step_in_order:
  assumes "in_order ps s" "acks_reach e"
  shows "in_order (ps @ documents (arrivals [e])) (worker_step e s)"
proof (cases e)
  case (Deliver r out)
  with assms(2) have r: "r = True" by simp
  show ?thesis
  proof (cases "wk_open s \<and> wk_unacked s = None \<and> wk_queue s \<noteq> []")
    case True
    then obtain b bs where q: "wk_queue s = b # bs" by (cases "wk_queue s") auto
    have "in_order ps (on_message True out b (s\<lparr>wk_queue := bs, wk_unacked := Some b\<rparr>))"
      using assms(1) True q by (intro on_message_in_order) (auto simp: in_order_def waiting_def)
    with True q Deliver r show ?thesis by simp
  next
    case False
    with assms(1) Deliver show ?thesis by (auto split: list.splits)
  qed
next
  case Disconnect
  with assms show ?thesis by (auto simp: in_order_def lose_connection_def)
qed (use assms in \<open>auto simp: in_order_def waiting_def split: option.splits\<close>)

lemma worker_run_in_order:
  "in_order ps s \<Longrightarrow> list_all acks_reach es \<Longrightarrow> in_order (ps @ documents (arrivals es)) (worker_run es s)"
proof (induction es arbitrary: ps s)
  case (Cons e es)
  from Cons.prems have "in_order (ps @ documents (arrivals [e])) (worker_step e s)"
    by (intro worker_step_in_order) simp_all
  from Cons.IH [OF this] Cons.prems(2) have "in_order ((ps @ documents (arrivals [e])) @ documents (arrivals es)) (worker_run es (worker_step e s))"
    by simp
  moreover have "arrivals (e # es) = arrivals [e] @ arrivals es"
    by (metis append_Cons append_Nil arrivals_append)
  ultimately show ?case by simp
qed simp

text \<open>A garbled message at the front is never taken away: it is the front again and again.\<close>

definition stuck :: "'p worker \<Rightarrow> bool" where
  "stuck s \<longleftrightarrow> wk_unacked s = Some Garbled \<or> (wk_unacked s = None \<and> (\<exists>bs. wk_queue s = Garbled # bs))"

lemma on_message_garbled:
  "on_message reaches out Garbled s = (if wk_stopping s \<and> reaches then requeue s else s)"
  by (simp add: on_message_def safe_nack_def)

lemma worker_step_stuck: "stuck s \<Longrightarrow> stuck (worker_step e s) \<and> wk_handled (worker_step e s) = wk_handled s"
  by (cases e) (auto simp: stuck_def on_message_garbled lose_connection_def requeue_def split: if_splits)

lemma worker_run_stuck: "stuck s \<Longrightarrow> stuck (worker_run es s) \<and> wk_handled (worker_run es s) = wk_handled s"
proof (induction es arbitrary: s)
  case (Cons e es)
  have "stuck (worker_step e s)" "wk_handled (worker_step e s) = wk_handled s"
    using worker_step_stuck [OF Cons.prems] by auto
  with Cons.IH [of "worker_step e s"] show ?case by simp
qed simp

section \<open>Properties\<close>

text \<open>
  C3. While acknowledgements reach the server a worker hands out every document at most once and
  in the order of arrival, through lost connections, failing handlers and a stop: what it has
  handled is a prefix of what has arrived, and the rest still waits.
\<close>

theorem handled_in_order_once:
  assumes "list_all acks_reach es"
  shows "wk_handled (worker_run es new_worker) @ waiting (worker_run es new_worker) = documents (arrivals es)"
proof -
  have "in_order [] (new_worker :: 'a worker)" by (simp add: in_order_def new_worker_def waiting_def)
  from worker_run_in_order [OF this assms] show ?thesis by (simp add: in_order_def)
qed

theorem handled_in_order_once_witness:
  "wk_handled (worker_run [Arrive (Json (1::int)), Connect True, Arrive (Json 2), Deliver True HandlerLostConnection,
       Connect False, Connect True, Deliver True HandlerError] new_worker) = [1, 2]"
  using handled_in_order_once [of "[Arrive (Json (1::int)), Connect True, Arrive (Json 2), Deliver True HandlerLostConnection,
       Connect False, Connect True, Deliver True HandlerError]"]
  by (simp add: new_worker_def on_message_def safe_ack_def lose_connection_def requeue_def waiting_def Let_def)

text \<open>
  A message that is not JSON stops a worker for good: it is not acknowledged, so with one
  message in flight nothing else is delivered, and after every reconnection it is delivered
  first again. Whatever happens later, the handler is not called any more.
\<close>

theorem garbled_message_blocks:
  assumes "wk_unacked s = None" "wk_queue s = Garbled # bs"
  shows "wk_handled (worker_run es s) = wk_handled s"
  using worker_run_stuck [of s es] assms by (simp add: stuck_def)

theorem garbled_message_blocks_witness:
  "wk_handled (worker_run [Connect True, Deliver True HandlerDone, Arrive (Json 7), Deliver True HandlerDone, Disconnect,
      Connect True, Deliver True HandlerDone] (new_worker\<lparr>wk_queue := [Garbled]\<rparr>)) = ([] :: int list)"
  using garbled_message_blocks [of "new_worker\<lparr>wk_queue := [Garbled]\<rparr>" "[] :: int body list"
      "[Connect True, Deliver True HandlerDone, Arrive (Json 7), Deliver True HandlerDone, Disconnect,
      Connect True, Deliver True HandlerDone]"]
  by (simp add: new_worker_def)

text \<open>
  An acknowledgement that is lost with the connection hands the same document out twice,
  although the acknowledgement is sent first to prevent it.
\<close>

theorem lost_ack_handles_twice:
  assumes "wk_open s" "\<not> wk_stopping s" "wk_unacked s = None" "wk_queue s = Json p # bs"
  shows "wk_handled (worker_run [Deliver False out, Disconnect, Connect True, Deliver True out'] s) = wk_handled s @ [p, p]"
  using assms by (simp add: on_message_def safe_ack_def lose_connection_def requeue_def Let_def)

theorem lost_ack_handles_twice_witness:
  "wk_handled (worker_run [Deliver False HandlerDone, Disconnect, Connect True, Deliver True HandlerDone]
     (new_worker\<lparr>wk_open := True, wk_queue := [Json (5::int)]\<rparr>)) = [5, 5]"
  using lost_ack_handles_twice [of "new_worker\<lparr>wk_open := True, wk_queue := [Json (5::int)]\<rparr>" 5 "[]" HandlerDone HandlerDone]
  by (simp add: new_worker_def)

end
