(* ===== verification/Scheduler.thy ===== *)
theory Scheduler
  imports Message_Queue Redis_Cache
begin

text \<open>
  \<open>services/scheduler-service/main.py\<close>, \<open>shared/scheduler_runtime.py\<close> and
  \<open>shared/scheduler_client.py\<close>: the table of jobs, the cycle that triggers the jobs that are
  due, the requests that create, change, run, pause and resume a job, and the job message as
  the workers read it.

  The state is the table and the log of the messages on the broker. \<open>croniter\<close> is a
  parameter: \<open>dw_cron_next e t\<close> is the first time after \<open>t\<close> an expression matches, or an
  exception. A time is a rational number of seconds. The job database does not fail here,
  except for its key and its columns that must not be null; requests and cycles do not overlap.
\<close>

section \<open>Jobs\<close>

record job =
  job_id :: string
  job_scope :: string
  reschedule_mode :: string
  interval_seconds :: "int option"
  job_description :: "string option"
  job_queue :: string
  cron_expr :: string
  job_enabled :: "bool option"
  max_parallel :: "int option"
  default_params :: "(string \<times> jval) list option"
  timeout_sec :: "int option"
  retry_limit :: "int option"
  telemetry_label :: "string option"
  next_due_at :: "rat option"
  last_run_at :: "rat option"
  last_status :: "string option"
  last_error :: "string option"

record scheduler_world =
  dw_scope :: string
  dw_cron_valid :: "string \<Rightarrow> bool"
  dw_cron_next :: "string \<Rightarrow> rat \<Rightarrow> rat res"
  dw_attempt :: "nat \<Rightarrow> attempt"
  dw_uuid :: "nat \<Rightarrow> string"

text \<open>\<open>sd_tries\<close> counts the publications tried so far; the world answers each by its number.\<close>

record scheduler =
  sd_jobs :: "job list"
  sd_sent :: "(string \<times> jval) list amqp_message list"
  sd_tries :: nat

definition RESCHEDULE_MODES :: "string list" where
  "RESCHEDULE_MODES = [''scheduler'', ''queue'']"

definition opt_num :: "int option \<Rightarrow> jval" where
  "opt_num x = (case x of None \<Rightarrow> JNull | Some i \<Rightarrow> JNum (of_int i))"

definition opt_str :: "string option \<Rightarrow> jval" where
  "opt_str x = (case x of None \<Rightarrow> JNull | Some t \<Rightarrow> JStr t)"

definition opt_bool :: "bool option \<Rightarrow> jval" where
  "opt_bool x = (case x of None \<Rightarrow> JNull | Some b \<Rightarrow> JBool b)"

definition opt_time :: "rat option \<Rightarrow> jval" where
  "opt_time x = (case x of None \<Rightarrow> JNull | Some t \<Rightarrow> JTime t)"

definition json_load :: "(string \<times> jval) list option \<Rightarrow> (string \<times> jval) list" where
  "json_load x = (case x of None \<Rightarrow> [] | Some d \<Rightarrow> d)"

definition job_to_dict :: "job \<Rightarrow> (string \<times> jval) list" where
  "job_to_dict j =
     [(''job_id'', JStr (job_id j)), (''scope'', JStr (job_scope j)), (''description'', opt_str (job_description j)),
      (''queue'', JStr (job_queue j)), (''cron_expr'', JStr (cron_expr j)), (''enabled'', opt_bool (job_enabled j)),
      (''reschedule_mode'', JStr (reschedule_mode j)), (''interval_seconds'', opt_num (interval_seconds j)),
      (''max_parallel'', opt_num (max_parallel j)), (''default_params'', JObj (json_load (default_params j))),
      (''timeout_sec'', opt_num (timeout_sec j)), (''retry_limit'', opt_num (retry_limit j)),
      (''telemetry_label'', opt_str (telemetry_label j)), (''next_due_at'', opt_time (next_due_at j)),
      (''last_run_at'', opt_time (last_run_at j)), (''last_status'', opt_str (last_status j)),
      (''last_error'', opt_str (last_error j))]"

definition find_job :: "string \<Rightarrow> scheduler \<Rightarrow> job option" where
  "find_job i s = find (\<lambda>j. job_id j = i) (sd_jobs s)"

definition put_job :: "job \<Rightarrow> scheduler \<Rightarrow> scheduler" where
  "put_job j s = s\<lparr>sd_jobs := map (\<lambda>k. if job_id k = job_id j then j else k) (sd_jobs s)\<rparr>"

section \<open>Publishing a job\<close>

definition scoped_queue_name :: "string \<Rightarrow> string \<Rightarrow> string" where
  "scoped_queue_name scope q =
     (let prefix = scope @ ''.'' in if take (length prefix) q = prefix then q else prefix @ q)"

definition compute_next_due :: "scheduler_world \<Rightarrow> string \<Rightarrow> rat \<Rightarrow> rat res" where
  "compute_next_due w expr base = dw_cron_next w expr base"

text \<open>
  The interval of a job: its own number of seconds, or the distance of the next two times of
  its cron expression.
\<close>

definition cron_interval :: "scheduler_world \<Rightarrow> rat \<Rightarrow> job \<Rightarrow> int res" where
  "cron_interval w tm j =
     rbind (compute_next_due w (cron_expr j) (case last_run_at j of Some t \<Rightarrow> t | None \<Rightarrow> tm)) (\<lambda>n.
     rbind (dw_cron_next w (cron_expr j) n) (\<lambda>m. Inr (max 1 (py_int (m - n)))))"

definition job_interval_seconds :: "scheduler_world \<Rightarrow> rat \<Rightarrow> job \<Rightarrow> int res" where
  "job_interval_seconds w tm j =
     (case interval_seconds j of
        None \<Rightarrow> cron_interval w tm j
      | Some i \<Rightarrow> if i = 0 then cron_interval w tm j else Inr i)"

definition ttl_of :: "int \<Rightarrow> int" where
  "ttl_of interval = max 1 (py_int (of_int interval * (8/10)))"

definition dict_merge :: "(string \<times> jval) list \<Rightarrow> (string \<times> jval) list \<Rightarrow> (string \<times> jval) list" where
  "dict_merge a b = fold (\<lambda>(k, v). AList.update k v) b a"

definition job_payload ::
  "string \<Rightarrow> rat \<Rightarrow> job \<Rightarrow> string \<Rightarrow> (string \<times> jval) list option \<Rightarrow> (string \<times> jval) list" where
  "job_payload run_id tm j trigger override =
     [(''job_id'', JStr (job_id j)), (''scope'', JStr (job_scope j)), (''run_id'', JStr run_id),
      (''trigger_source'', JStr trigger),
      (''params'', JObj (dict_merge (json_load (default_params j)) (json_load override))),
      (''timeout_sec'', opt_num (timeout_sec j)), (''retry_limit'', opt_num (retry_limit j)),
      (''telemetry_label'', opt_str (telemetry_label j)), (''queued_at'', JTime tm),
      (''auto_reschedule'', JBool False)]"

definition schedule_job_execution ::
  "scheduler_world \<Rightarrow> rat \<Rightarrow> job \<Rightarrow> string \<Rightarrow> (string \<times> jval) list option \<Rightarrow> rat \<Rightarrow> int option \<Rightarrow>
   scheduler \<Rightarrow> (string \<times> int) option \<times> scheduler" where
  "schedule_job_execution w tm j trigger override delay ttl s =
     (let pb = new_publisher (scoped_queue_name (dw_scope w) (job_queue j));
          ttl_ms = (case ttl of None \<Rightarrow> None | Some t \<Rightarrow> if t = 0 then None else Some (t * 1000));
          (m, sent) = publish (dw_attempt w (sd_tries s)) tm pb
            (job_payload (dw_uuid w (sd_tries s)) tm j trigger override) delay ttl_ms (sd_sent s)
       in (m, s\<lparr>sd_sent := sent, sd_tries := sd_tries s + 1\<rparr>))"

section \<open>The cycle\<close>

definition last_or_due :: "rat \<Rightarrow> int \<Rightarrow> job \<Rightarrow> rat" where
  "last_or_due tm interval j = (case last_run_at j of Some t \<Rightarrow> t | None \<Rightarrow> tm - of_int interval)"

text \<open>One job of the cycle: what raises is logged and the next job follows.\<close>

definition cycle_job :: "scheduler_world \<Rightarrow> rat \<Rightarrow> job \<Rightarrow> scheduler \<Rightarrow> scheduler" where
  "cycle_job w tm j s =
     (case job_interval_seconds w tm j of
        Inl _ \<Rightarrow> s
      | Inr interval \<Rightarrow>
          (let next_due = last_or_due tm interval j + of_int interval
            in if tm < next_due then s
               else put_job (j\<lparr>last_run_at := Some tm, next_due_at := Some next_due,
                               last_status := Some ''queued'', last_error := None\<rparr>)
                      (snd (schedule_job_execution w tm j ''scheduler'' None 0 (Some (ttl_of interval)) s))))"

definition in_cycle :: "scheduler_world \<Rightarrow> job \<Rightarrow> bool" where
  "in_cycle w j \<longleftrightarrow> job_scope j = dw_scope w \<and> job_enabled j = Some True"

definition run_scheduler_cycle :: "scheduler_world \<Rightarrow> rat \<Rightarrow> scheduler \<Rightarrow> scheduler" where
  "run_scheduler_cycle w tm s = fold (cycle_job w tm) (filter (in_cycle w) (sd_jobs s)) s"

section \<open>Requests\<close>

text \<open>An answer, or the status of an error: 422 for a request that does not validate.\<close>

datatype 'a reply = Answer 'a | Status int

text \<open>\<open>interval_seconds\<close> may be left out of a request, be null, or be a number.\<close>

datatype 'a upd = Unset | Null | Given 'a

record job_create =
  jc_job_id :: string
  jc_description :: "string option"
  jc_queue :: string
  jc_cron_expr :: string
  jc_enabled :: bool
  jc_reschedule_mode :: string
  jc_interval_seconds :: "int upd"
  jc_max_parallel :: int
  jc_default_params :: "(string \<times> jval) list"
  jc_timeout_sec :: int
  jc_retry_limit :: int
  jc_telemetry_label :: "string option"

text \<open>The validator of the interval runs only for a field that is in the request.\<close>

definition valid_interval :: "string \<Rightarrow> int upd \<Rightarrow> bool" where
  "valid_interval mode i =
     (case i of Unset \<Rightarrow> True | Null \<Rightarrow> mode \<noteq> ''queue'' | Given n \<Rightarrow> 5 \<le> n \<and> \<not> (mode = ''queue'' \<and> n \<le> 0))"

definition valid_create :: "scheduler_world \<Rightarrow> job_create \<Rightarrow> bool" where
  "valid_create w c \<longleftrightarrow>
     3 \<le> length (jc_job_id c) \<and> 1 \<le> length (jc_queue c) \<and> 3 \<le> length (jc_cron_expr c) \<and>
     dw_cron_valid w (jc_cron_expr c) \<and> jc_reschedule_mode c \<in> set RESCHEDULE_MODES \<and>
     valid_interval (jc_reschedule_mode c) (jc_interval_seconds c) \<and> 1 \<le> jc_max_parallel c \<and>
     10 \<le> jc_timeout_sec c \<and> 0 \<le> jc_retry_limit c"

definition upd_apply :: "'a upd \<Rightarrow> 'a option \<Rightarrow> 'a option" where
  "upd_apply u old = (case u of Unset \<Rightarrow> old | Null \<Rightarrow> None | Given v \<Rightarrow> Some v)"

definition job_of_create :: "scheduler_world \<Rightarrow> job_create \<Rightarrow> rat \<Rightarrow> job" where
  "job_of_create w c due =
     \<lparr>job_id = jc_job_id c, job_scope = dw_scope w, reschedule_mode = jc_reschedule_mode c,
      interval_seconds = upd_apply (jc_interval_seconds c) None, job_description = jc_description c,
      job_queue = jc_queue c, cron_expr = jc_cron_expr c, job_enabled = Some (jc_enabled c),
      max_parallel = Some (jc_max_parallel c), default_params = Some (jc_default_params c),
      timeout_sec = Some (jc_timeout_sec c), retry_limit = Some (jc_retry_limit c),
      telemetry_label = jc_telemetry_label c, next_due_at = Some due, last_run_at = None,
      last_status = None, last_error = None\<rparr>"

text \<open>
  The message of a request is sent after the job is stored: a cron expression that raises
  then answers an error for a job that stays changed.
\<close>

definition publish_now ::
  "scheduler_world \<Rightarrow> rat \<Rightarrow> job \<Rightarrow> string \<Rightarrow> (string \<times> jval) list option \<Rightarrow> rat \<Rightarrow> scheduler \<Rightarrow>
   (string \<times> int) option res \<times> scheduler" where
  "publish_now w tm j trigger override delay s =
     (case job_interval_seconds w tm j of
        Inl e \<Rightarrow> (Inl e, s)
      | Inr interval \<Rightarrow>
          (let (m, s') = schedule_job_execution w tm j trigger override delay (Some (ttl_of interval)) s in (Inr m, s')))"

definition create_job ::
  "scheduler_world \<Rightarrow> rat \<Rightarrow> job_create \<Rightarrow> scheduler \<Rightarrow> (string \<times> jval) list reply \<times> scheduler" where
  "create_job w tm c s =
     (if \<not> valid_create w c then (Status 422, s)
      else case compute_next_due w (jc_cron_expr c) tm of
        Inl e \<Rightarrow> (Status 500, s)
      | Inr due \<Rightarrow>
          if find_job (jc_job_id c) s \<noteq> None then (Status 400, s)
          else
            (let j = job_of_create w c due; s' = s\<lparr>sd_jobs := sd_jobs s @ [j]\<rparr>
              in if jc_enabled c then
                   (case publish_now w tm j ''bootstrap'' None 0 s' of
                      (Inl e, s'') \<Rightarrow> (Status 500, s'')
                    | (Inr m, s'') \<Rightarrow> (Answer (job_to_dict j), s''))
                 else (Answer (job_to_dict j), s')))"

record job_update =
  ju_description :: "string upd"
  ju_queue :: "string upd"
  ju_cron_expr :: "string upd"
  ju_enabled :: "bool upd"
  ju_reschedule_mode :: "string upd"
  ju_interval_seconds :: "int upd"
  ju_max_parallel :: "int upd"
  ju_default_params :: "(string \<times> jval) list upd"
  ju_timeout_sec :: "int upd"
  ju_retry_limit :: "int upd"
  ju_telemetry_label :: "string upd"

definition at_least :: "int \<Rightarrow> int upd \<Rightarrow> bool" where
  "at_least k u = (case u of Given n \<Rightarrow> k \<le> n | _ \<Rightarrow> True)"

definition valid_update :: "scheduler_world \<Rightarrow> job_update \<Rightarrow> bool" where
  "valid_update w u \<longleftrightarrow>
     (case ju_cron_expr u of Given e \<Rightarrow> dw_cron_valid w e | _ \<Rightarrow> True) \<and>
     (case ju_reschedule_mode u of Given m \<Rightarrow> m = [] \<or> m \<in> set RESCHEDULE_MODES | _ \<Rightarrow> True) \<and>
     at_least 5 (ju_interval_seconds u) \<and>
     valid_interval (case ju_reschedule_mode u of Given m \<Rightarrow> m | _ \<Rightarrow> []) (ju_interval_seconds u) \<and>
     at_least 1 (ju_max_parallel u) \<and> at_least 10 (ju_timeout_sec u) \<and> at_least 0 (ju_retry_limit u)"

text \<open>A column that must not be null: None when the update sets it to null.\<close>

definition upd_strict :: "'a upd \<Rightarrow> 'a \<Rightarrow> 'a option" where
  "upd_strict u old = (case u of Unset \<Rightarrow> Some old | Null \<Rightarrow> None | Given v \<Rightarrow> Some v)"

definition update_columns :: "job_update \<Rightarrow> string \<Rightarrow> string \<Rightarrow> string \<Rightarrow> rat option \<Rightarrow> job \<Rightarrow> job" where
  "update_columns u q e m due j =
     j\<lparr>job_description := upd_apply (ju_description u) (job_description j), job_queue := q, cron_expr := e,
       job_enabled := upd_apply (ju_enabled u) (job_enabled j), reschedule_mode := m,
       interval_seconds := upd_apply (ju_interval_seconds u) (interval_seconds j),
       max_parallel := upd_apply (ju_max_parallel u) (max_parallel j),
       default_params := upd_apply (ju_default_params u) (default_params j),
       timeout_sec := upd_apply (ju_timeout_sec u) (timeout_sec j),
       retry_limit := upd_apply (ju_retry_limit u) (retry_limit j),
       telemetry_label := upd_apply (ju_telemetry_label u) (telemetry_label j), next_due_at := due\<rparr>"

definition updated_job :: "scheduler_world \<Rightarrow> rat \<Rightarrow> job_update \<Rightarrow> job \<Rightarrow> job res" where
  "updated_job w tm u j =
     rbind (case ju_cron_expr u of
              Given e \<Rightarrow> if e \<noteq> [] then rbind (compute_next_due w e tm) (\<lambda>d. Inr (Some d)) else Inr (next_due_at j)
            | _ \<Rightarrow> Inr (next_due_at j)) (\<lambda>due.
     (case (upd_strict (ju_queue u) (job_queue j), upd_strict (ju_cron_expr u) (cron_expr j),
            upd_strict (ju_reschedule_mode u) (reschedule_mode j)) of
        (Some q, Some e, Some m) \<Rightarrow>
          Inr (update_columns u q e m due j)
      | _ \<Rightarrow> Inl DbError))"

text \<open>The job a request names, in the scope of the service.\<close>

definition own_job :: "string \<Rightarrow> string \<Rightarrow> scheduler \<Rightarrow> job option" where
  "own_job scope i s = (case find_job i s of None \<Rightarrow> None | Some j \<Rightarrow> if job_scope j = scope then Some j else None)"

definition update_job ::
  "scheduler_world \<Rightarrow> rat \<Rightarrow> string \<Rightarrow> job_update \<Rightarrow> scheduler \<Rightarrow> (string \<times> jval) list reply \<times> scheduler" where
  "update_job w tm i u s =
     (if \<not> valid_update w u then (Status 422, s)
      else case own_job (dw_scope w) i s of
        None \<Rightarrow> (Status 404, s)
      | Some j \<Rightarrow>
          (case updated_job w tm u j of
             Inl e \<Rightarrow> (Status 500, s)
           | Inr j' \<Rightarrow> (Answer (job_to_dict j'), put_job j' s)))"

record manual_run =
  mr_params :: "(string \<times> jval) list option"
  mr_delay_seconds :: int
  mr_trigger_source :: string

definition run_job ::
  "scheduler_world \<Rightarrow> rat \<Rightarrow> string \<Rightarrow> manual_run \<Rightarrow> scheduler \<Rightarrow> (string \<times> int) option reply \<times> scheduler" where
  "run_job w tm i r s =
     (if mr_delay_seconds r < 0 \<or> 50 < length (mr_trigger_source r) then (Status 422, s)
      else case own_job (dw_scope w) i s of
        None \<Rightarrow> (Status 404, s)
      | Some j \<Rightarrow>
          (case publish_now w tm j (mr_trigger_source r) (mr_params r) (of_int (mr_delay_seconds r)) s of
             (Inl e, s') \<Rightarrow> (Status 500, s')
           | (Inr m, s') \<Rightarrow> (Answer m, s')))"

definition mark_job_last_run ::
  "scheduler_world \<Rightarrow> rat \<Rightarrow> string \<Rightarrow> string option \<Rightarrow> scheduler \<Rightarrow> (string \<times> jval) list reply \<times> scheduler" where
  "mark_job_last_run w tm i scope s =
     (case own_job (case scope of Some (c # cs) \<Rightarrow> c # cs | _ \<Rightarrow> dw_scope w) i s of
        None \<Rightarrow> (Status 404, s)
      | Some j \<Rightarrow>
          (let j' = j\<lparr>last_run_at := Some tm, last_status := Some ''done'', last_error := None\<rparr>
            in (Answer (job_to_dict j'), put_job j' s)))"

definition pause_job :: "scheduler_world \<Rightarrow> string \<Rightarrow> scheduler \<Rightarrow> (string \<times> jval) list reply \<times> scheduler" where
  "pause_job w i s =
     (case own_job (dw_scope w) i s of
        None \<Rightarrow> (Status 404, s)
      | Some j \<Rightarrow>
          (let j' = j\<lparr>job_enabled := Some False, last_status := Some ''paused''\<rparr>
            in (Answer (job_to_dict j'), put_job j' s)))"

definition resume_job ::
  "scheduler_world \<Rightarrow> rat \<Rightarrow> string \<Rightarrow> scheduler \<Rightarrow> (string \<times> jval) list reply \<times> scheduler" where
  "resume_job w tm i s =
     (case own_job (dw_scope w) i s of
        None \<Rightarrow> (Status 404, s)
      | Some j \<Rightarrow>
          (case (case next_due_at j of
                   Some d \<Rightarrow> Inr (Some d)
                 | None \<Rightarrow> rbind (compute_next_due w (cron_expr j) tm) (\<lambda>d. Inr (Some d))) of
             Inl e \<Rightarrow> (Status 500, s)
           | Inr due \<Rightarrow>
               (let j' = j\<lparr>job_enabled := Some True, next_due_at := due\<rparr>
                 in (case publish_now w tm j' ''resume'' None 0 (put_job j' s) of
                       (Inl e, s') \<Rightarrow> (Status 500, s')
                     | (Inr m, s') \<Rightarrow> (Answer (job_to_dict j'), s')))))"

definition list_jobs :: "scheduler_world \<Rightarrow> (job list \<Rightarrow> job list) \<Rightarrow> scheduler \<Rightarrow> (string \<times> jval) list list" where
  "list_jobs w order_by_id s = map job_to_dict (order_by_id (filter (\<lambda>j. job_scope j = dw_scope w) (sd_jobs s)))"

datatype sched_request =
    Cycle
  | Create job_create
  | Update string job_update
  | RunNow string manual_run
  | MarkRun string "string option"
  | Pause string
  | Resume string

fun sched_step :: "scheduler_world \<Rightarrow> rat \<times> sched_request \<Rightarrow> scheduler \<Rightarrow> scheduler" where
  "sched_step w (tm, Cycle) s = run_scheduler_cycle w tm s"
| "sched_step w (tm, Create c) s = snd (create_job w tm c s)"
| "sched_step w (tm, Update i u) s = snd (update_job w tm i u s)"
| "sched_step w (tm, RunNow i r) s = snd (run_job w tm i r s)"
| "sched_step w (tm, MarkRun i scope) s = snd (mark_job_last_run w tm i scope s)"
| "sched_step w (tm, Pause i) s = snd (pause_job w i s)"
| "sched_step w (tm, Resume i) s = snd (resume_job w tm i s)"

definition sched_run :: "scheduler_world \<Rightarrow> (rat \<times> sched_request) list \<Rightarrow> scheduler \<Rightarrow> scheduler" where
  "sched_run w rs s = fold (sched_step w) rs s"

lemma sched_run_simps [simp]:
  "sched_run w [] s = s" "sched_run w (r # rs) s = sched_run w rs (sched_step w r s)"
  by (simp_all add: sched_run_def)

section \<open>Messages for the workers\<close>

text \<open>\<open>SchedulerJobMessage\<close>: its fields hold whatever the message has.\<close>

record job_msg =
  jm_job_id :: jval
  jm_run_id :: jval
  jm_trigger_source :: jval
  jm_params :: jval
  jm_scope :: jval
  jm_next_delay_sec :: jval
  jm_auto_reschedule :: jval
  jm_timeout_sec :: jval
  jm_retry_limit :: jval
  jm_telemetry_label :: jval
  jm_queued_at :: jval

text \<open>\<open>new_id\<close> is the identifier generated for a message without one.\<close>

definition parse_job_message :: "string \<Rightarrow> jval \<Rightarrow> job_msg res" where
  "parse_job_message new_id payload =
     (case payload of
        JObj d \<Rightarrow>
          Inr \<lparr>jm_job_id = field ''job_id'' (JStr ''unknown'') d, jm_run_id = field ''run_id'' (JStr new_id) d,
               jm_trigger_source = field ''trigger_source'' (JStr ''unknown'') d,
               jm_params = (let p = field ''params'' JNull d in if jtruth p then p else JObj []),
               jm_scope = field ''scope'' (JStr ''real'') d, jm_next_delay_sec = field ''next_delay_sec'' JNull d,
               jm_auto_reschedule = field ''auto_reschedule'' (JBool True) d,
               jm_timeout_sec = field ''timeout_sec'' (JNum 120) d, jm_retry_limit = field ''retry_limit'' (JNum 3) d,
               jm_telemetry_label = field ''telemetry_label'' JNull d, jm_queued_at = field ''queued_at'' JNull d\<rparr>
      | _ \<Rightarrow> Inl ValueError)"

definition reschedule_payload :: "string \<Rightarrow> rat \<Rightarrow> jval \<Rightarrow> string \<Rightarrow> job_msg \<Rightarrow> (string \<times> jval) list" where
  "reschedule_payload run_id tm delay trigger m =
     [(''job_id'', jm_job_id m), (''scope'', jm_scope m), (''run_id'', JStr run_id),
      (''trigger_source'', JStr trigger), (''params'', jm_params m), (''next_delay_sec'', delay),
      (''auto_reschedule'', jm_auto_reschedule m), (''timeout_sec'', jm_timeout_sec m),
      (''retry_limit'', jm_retry_limit m), (''telemetry_label'', jm_telemetry_label m), (''queued_at'', JTime tm)]"

definition reschedule_job ::
  "attempt \<Rightarrow> string \<Rightarrow> rat \<Rightarrow> publisher \<Rightarrow> job_msg \<Rightarrow> int option \<Rightarrow> string \<Rightarrow> (string \<times> jval) list amqp_message list \<Rightarrow>
   bool res \<times> (string \<times> jval) list amqp_message list" where
  "reschedule_job a run_id tm pb m override trigger msgs =
     (let delay = (case override of Some d \<Rightarrow> if d \<noteq> 0 then JNum (of_int d) else jm_next_delay_sec m | None \<Rightarrow> jm_next_delay_sec m)
       in if \<not> jtruth delay then (Inr False, msgs)
          else case jnum delay of
            None \<Rightarrow> (Inl TypeError, msgs)
          | Some d \<Rightarrow>
              if d \<le> 0 then (Inr False, msgs)
              else (let (i, msgs') = publish a tm pb (reschedule_payload run_id tm delay trigger m) d None msgs
                     in (Inr (i \<noteq> None), msgs')))"

text \<open>
  A worker reports a finished job: the status the scheduler answers, or None when it cannot
  be reached.
\<close>

definition mark_job_run :: "(string \<Rightarrow> string \<Rightarrow> int option) \<Rightarrow> string \<Rightarrow> string \<Rightarrow> string option \<Rightarrow> bool" where
  "mark_job_run post env_scope i scope =
     (if i = [] then False
      else case post i (case scope of Some (c # cs) \<Rightarrow> c # cs | _ \<Rightarrow> env_scope) of
        None \<Rightarrow> False
      | Some status \<Rightarrow> status < 400)"

section \<open>The table of jobs\<close>

definition distinct_jobs :: "scheduler \<Rightarrow> bool" where
  "distinct_jobs s \<longleftrightarrow> distinct (map job_id (sd_jobs s))"

text \<open>The rows of its scope the requests can produce: what the validators and the columns promise.\<close>

definition none_or :: "('a \<Rightarrow> bool) \<Rightarrow> 'a option \<Rightarrow> bool" where
  "none_or P x = (case x of None \<Rightarrow> True | Some v \<Rightarrow> P v)"

definition job_typed :: "scheduler_world \<Rightarrow> job \<Rightarrow> bool" where
  "job_typed w j \<longleftrightarrow>
     (job_scope j = dw_scope w \<longrightarrow>
        3 \<le> length (job_id j) \<and> dw_cron_valid w (cron_expr j) \<and>
        reschedule_mode j \<in> insert [] (set RESCHEDULE_MODES) \<and> none_or (\<lambda>i. 5 \<le> i) (interval_seconds j) \<and>
        none_or (\<lambda>i. 1 \<le> i) (max_parallel j) \<and> none_or (\<lambda>i. 10 \<le> i) (timeout_sec j) \<and>
        none_or (\<lambda>i. 0 \<le> i) (retry_limit j))"

definition table_typed :: "scheduler_world \<Rightarrow> scheduler \<Rightarrow> bool" where
  "table_typed w s \<longleftrightarrow> distinct_jobs s \<and> (\<forall>j \<in> set (sd_jobs s). job_typed w j)"

lemma find_job_id: "find_job i s = Some j \<Longrightarrow> job_id j = i \<and> j \<in> set (sd_jobs s)"
  by (auto simp: find_job_def find_Some_iff)

lemma own_job_SomeD: "own_job scope i s = Some j \<Longrightarrow> find_job i s = Some j \<and> job_scope j = scope"
  by (auto simp: own_job_def split: option.splits if_splits)

lemma map_job_id_put: "map job_id (map (\<lambda>k. if job_id k = job_id j then j else k) ks) = map job_id ks"
  by (induction ks) auto

lemma put_job_simps [simp]:
  "sd_sent (put_job j s) = sd_sent s" "sd_tries (put_job j s) = sd_tries s"
  "map job_id (sd_jobs (put_job j s)) = map job_id (sd_jobs s)"
  by (simp_all add: put_job_def map_job_id_put del: map_map)

lemma distinct_put_job [simp]: "distinct_jobs (put_job j s) = distinct_jobs s"
  by (simp add: distinct_jobs_def)

lemma set_put_job: "k \<in> set (sd_jobs (put_job j s)) \<Longrightarrow> k = j \<or> k \<in> set (sd_jobs s)"
  by (auto simp: put_job_def)

lemma find_put: "find (\<lambda>j. job_id j = i) (map (\<lambda>k. if job_id k = job_id j' then j' else k) ks) =
   (if i = job_id j' then (if \<exists>k \<in> set ks. job_id k = i then Some j' else None) else find (\<lambda>j. job_id j = i) ks)"
  by (induction ks) auto

lemma find_put_job:
  "find_job i (put_job j s) = (if i = job_id j then (if find_job i s = None then None else Some j) else find_job i s)"
  by (auto simp: find_job_def put_job_def find_put find_None_iff)

lemma schedule_jobs [simp]: "sd_jobs (snd (schedule_job_execution w tm j tr ov d ttl s)) = sd_jobs s"
  by (simp add: schedule_job_execution_def Let_def split: prod.splits)

lemma schedule_find [simp]: "find_job i (snd (schedule_job_execution w tm j tr ov d ttl s)) = find_job i s"
  by (simp add: find_job_def)

lemma snd_publish_now:
  "snd (publish_now w tm j tr ov d s) =
     (case job_interval_seconds w tm j of Inl _ \<Rightarrow> s
      | Inr i \<Rightarrow> snd (schedule_job_execution w tm j tr ov d (Some (ttl_of i)) s))"
  by (simp add: publish_now_def split: sum.split prod.split)

lemma publish_now_jobs [simp]: "sd_jobs (snd (publish_now w tm j tr ov d s)) = sd_jobs s"
  by (simp add: snd_publish_now split: sum.split)

lemma publish_now_find [simp]: "find_job i (snd (publish_now w tm j tr ov d s)) = find_job i s"
  by (simp add: find_job_def)

lemma table_typed_put:
  assumes "table_typed w s" "job_typed w j"
  shows "table_typed w (put_job j s)"
  using assms set_put_job by (auto simp: table_typed_def)

lemma table_typed_jobs: "sd_jobs s' = sd_jobs s \<Longrightarrow> table_typed w s' = table_typed w s"
  by (simp add: table_typed_def distinct_jobs_def)

lemma table_typed_message [simp]:
  "table_typed w (snd (schedule_job_execution w tm j tr ov d ttl s)) = table_typed w s"
  "table_typed w (snd (publish_now w tm j tr ov d s)) = table_typed w s"
  by (rule table_typed_jobs, simp)+

lemma job_typed_bookkeeping [simp]:
  "job_typed w (j\<lparr>last_run_at := a, next_due_at := b, last_status := c, last_error := d\<rparr>) = job_typed w j"
  "job_typed w (j\<lparr>last_run_at := a, last_status := c, last_error := d\<rparr>) = job_typed w j"
  "job_typed w (j\<lparr>job_enabled := e, last_status := c\<rparr>) = job_typed w j"
  "job_typed w (j\<lparr>job_enabled := e, next_due_at := b\<rparr>) = job_typed w j"
  by (simp_all add: job_typed_def)

lemma cycle_job_typed: "table_typed w s \<Longrightarrow> job_typed w j \<Longrightarrow> table_typed w (cycle_job w tm j s)"
  by (simp add: cycle_job_def Let_def table_typed_put split: sum.split)

lemma cycle_typed: "table_typed w s \<Longrightarrow> table_typed w (run_scheduler_cycle w tm s)"
proof -
  assume s: "table_typed w s"
  have "table_typed w (fold (cycle_job w tm) js s')" if "table_typed w s'" "\<forall>j \<in> set js. job_typed w j" for js s'
    using that by (induction js arbitrary: s') (auto intro: cycle_job_typed)
  moreover have "\<forall>j \<in> set (filter (in_cycle w) (sd_jobs s)). job_typed w j"
    using s by (simp add: table_typed_def)
  ultimately show ?thesis using s by (simp add: run_scheduler_cycle_def)
qed

lemma snd_create_job:
  "snd (create_job w tm c s) =
     (if \<not> valid_create w c \<or> find_job (jc_job_id c) s \<noteq> None then s
      else case compute_next_due w (jc_cron_expr c) tm of
        Inl _ \<Rightarrow> s
      | Inr due \<Rightarrow>
          (let j = job_of_create w c due; s' = s\<lparr>sd_jobs := sd_jobs s @ [j]\<rparr>
            in if jc_enabled c then snd (publish_now w tm j ''bootstrap'' None 0 s') else s'))"
  by (simp add: create_job_def Let_def split: sum.split prod.split)

lemma snd_resume_job:
  "snd (resume_job w tm i s) =
     (case own_job (dw_scope w) i s of
        None \<Rightarrow> s
      | Some j \<Rightarrow>
          (case (case next_due_at j of
                   Some d \<Rightarrow> Inr (Some d)
                 | None \<Rightarrow> rbind (compute_next_due w (cron_expr j) tm) (\<lambda>d. Inr (Some d))) of
             Inl _ \<Rightarrow> s
           | Inr due \<Rightarrow>
               (let j' = j\<lparr>job_enabled := Some True, next_due_at := due\<rparr>
                 in snd (publish_now w tm j' ''resume'' None 0 (put_job j' s)))))"
  by (simp add: resume_job_def Let_def split: option.split sum.split prod.split)

lemma created_typed: "valid_create w c \<Longrightarrow> job_typed w (job_of_create w c due)"
  by (auto simp: valid_create_def job_typed_def job_of_create_def valid_interval_def upd_apply_def none_or_def split: upd.splits)

lemma none_or_upd: "none_or P x \<Longrightarrow> (case u of Given v \<Rightarrow> P v | _ \<Rightarrow> True) \<Longrightarrow> none_or P (upd_apply u x)"
  by (cases u) (simp_all add: upd_apply_def none_or_def)

lemma updated_jobE:
  assumes "updated_job w tm u j = Inr j'"
  obtains q e m due where "upd_strict (ju_cron_expr u) (cron_expr j) = Some e"
    "upd_strict (ju_reschedule_mode u) (reschedule_mode j) = Some m"
    "j' = update_columns u q e m due j"
  using assms unfolding updated_job_def rbind_eq_Inr_iff
  by (cases "upd_strict (ju_queue u) (job_queue j)"; cases "upd_strict (ju_cron_expr u) (cron_expr j)";
      cases "upd_strict (ju_reschedule_mode u) (reschedule_mode j)") auto

lemma updated_typed:
  assumes "valid_update w u" "updated_job w tm u j = Inr j'" "job_typed w j"
  shows "job_typed w j'" "job_id j' = job_id j"
proof -
  from assms(2) obtain q e m due where u: "upd_strict (ju_cron_expr u) (cron_expr j) = Some e"
    "upd_strict (ju_reschedule_mode u) (reschedule_mode j) = Some m"
    and j': "j' = update_columns u q e m due j"
    by (rule updated_jobE)
  have "job_scope j = dw_scope w \<Longrightarrow> dw_cron_valid w e"
    using u(1) assms(1,3) by (cases "ju_cron_expr u") (auto simp: upd_strict_def valid_update_def job_typed_def)
  moreover have "job_scope j = dw_scope w \<Longrightarrow> m \<in> insert [] (set RESCHEDULE_MODES)"
    using u(2) assms(1,3) by (cases "ju_reschedule_mode u") (auto simp: upd_strict_def valid_update_def job_typed_def)
  moreover have "at_least 5 (ju_interval_seconds u)" "at_least 1 (ju_max_parallel u)" "at_least 10 (ju_timeout_sec u)"
    "at_least 0 (ju_retry_limit u)"
    using assms(1) by (simp_all add: valid_update_def)
  ultimately show "job_typed w j'" "job_id j' = job_id j"
    using assms(3) by (simp_all add: j' update_columns_def job_typed_def at_least_def none_or_upd)
qed

lemma sched_step_typed: "table_typed w s \<Longrightarrow> table_typed w (sched_step w r s)"
proof -
  assume s: "table_typed w s"
  obtain tm q where r: "r = (tm, q)" by (cases r)
  have own: "job_typed w j" if "own_job sc i s = Some j" for sc i j
    using s that by (auto dest!: own_job_SomeD find_job_id simp: table_typed_def)
  show ?thesis
  proof (cases q)
    case Cycle
    with r s show ?thesis by (simp add: cycle_typed)
  next
    case (Create c)
    have "table_typed w (s\<lparr>sd_jobs := sd_jobs s @ [job_of_create w c due]\<rparr>)"
      if "valid_create w c" "find_job (jc_job_id c) s = None" for due
      using s that created_typed [OF that(1), of due]
      by (auto simp: table_typed_def distinct_jobs_def find_job_def find_None_iff job_of_create_def)
    with r Create s show ?thesis
      by (auto simp: snd_create_job Let_def split: sum.split)
  next
    case (Update i u)
    with r s show ?thesis
      by (auto simp: update_job_def split: option.split sum.split intro!: table_typed_put updated_typed(1) [OF _ _ own])
  next
    case (RunNow i m)
    have "snd (run_job w tm i m s) = s \<or> (\<exists>j. snd (run_job w tm i m s) =
        snd (publish_now w tm j (mr_trigger_source m) (mr_params m) (of_int (mr_delay_seconds m)) s))"
      by (auto simp: run_job_def split: option.split sum.split prod.split) (metis snd_conv)+
    with r RunNow s show ?thesis by auto
  next
    case (MarkRun i sc)
    with r s own show ?thesis
      by (auto simp: mark_job_last_run_def Let_def split: option.split intro: table_typed_put)
  next
    case (Pause i)
    with r s own show ?thesis
      by (auto simp: pause_job_def Let_def split: option.split intro: table_typed_put)
  next
    case (Resume i)
    from r Resume s own show ?thesis
      by (auto simp: snd_resume_job Let_def split: option.split sum.split intro: table_typed_put)
  qed
qed

section \<open>The messages of a job\<close>

text \<open>
  When the cycle queued a message of a job, and the milliseconds after which it expires: None
  for every other message.
\<close>

definition triggered_at :: "string \<Rightarrow> (string \<times> jval) list amqp_message \<Rightarrow> (rat \<times> int option) option" where
  "triggered_at i m =
     (if field ''job_id'' JNull (am_body m) = JStr i \<and> field ''trigger_source'' JNull (am_body m) = JStr ''scheduler'' then
        (case field ''queued_at'' JNull (am_body m) of JTime t \<Rightarrow> Some (t, am_expiration m) | _ \<Rightarrow> None)
      else None)"

definition triggers :: "string \<Rightarrow> scheduler \<Rightarrow> (rat \<times> int option) list" where
  "triggers i s = List.map_filter (triggered_at i) (sd_sent s)"

lemma field_job_payload [simp]:
  "field ''job_id'' d (job_payload r tm j tr ov) = JStr (job_id j)"
  "field ''trigger_source'' d (job_payload r tm j tr ov) = JStr tr"
  "field ''queued_at'' d (job_payload r tm j tr ov) = JTime tm"
  by (simp_all add: field_def job_payload_def)

lemma amqp_message_of_simps [simp]:
  "am_body (amqp_message_of pb p d ttl) = p" "am_expiration (amqp_message_of pb p d ttl) = expiration_ms pb d ttl"
  by (simp_all add: amqp_message_of_def)

lemma ttl_of_bounds: "1 \<le> ttl_of n" "1 \<le> n \<Longrightarrow> ttl_of n \<le> n"
proof -
  show "1 \<le> ttl_of n" by (simp add: ttl_of_def)
  assume n: "1 \<le> n"
  have "py_int (of_int n * (8/10)) \<le> py_int (of_int n)" using n by (intro py_int_mono) simp
  with n show "ttl_of n \<le> n" by (simp add: ttl_of_def)
qed

lemma ttl_of_nonzero [simp]: "ttl_of n \<noteq> 0" "1 \<le> ttl_of n * 1000"
  using ttl_of_bounds(1) [of n] by simp_all

lemma schedule_sent:
  "sd_sent (snd (schedule_job_execution w tm j tr ov d ttl s)) =
     sd_sent s @ (if dw_attempt w (sd_tries s) = Refused then []
       else [amqp_message_of (new_publisher (scoped_queue_name (dw_scope w) (job_queue j)))
               (job_payload (dw_uuid w (sd_tries s)) tm j tr ov) d
               (case ttl of None \<Rightarrow> None | Some t \<Rightarrow> if t = 0 then None else Some (t * 1000))])"
  by (simp add: schedule_job_execution_def publish_def Let_def)

lemma map_filter_append [simp]: "List.map_filter f (xs @ ys) = List.map_filter f xs @ List.map_filter f ys"
  by (simp add: List.map_filter_def)

lemma schedule_triggers:
  "triggers i (snd (schedule_job_execution w tm j tr ov d ttl s)) =
     triggers i s @ (if dw_attempt w (sd_tries s) \<noteq> Refused \<and> job_id j = i \<and> tr = ''scheduler''
       then [(tm, expiration_ms (new_publisher (scoped_queue_name (dw_scope w) (job_queue j))) d
                    (case ttl of None \<Rightarrow> None | Some t \<Rightarrow> if t = 0 then None else Some (t * 1000)))] else [])"
  by (auto simp: triggers_def schedule_sent triggered_at_def List.map_filter_def)

lemma put_job_triggers [simp]: "triggers i (put_job j s) = triggers i s"
  by (simp add: triggers_def)

lemma publish_now_triggers: "tr \<noteq> ''scheduler'' \<or> job_id j \<noteq> i \<Longrightarrow> triggers i (snd (publish_now w tm j tr ov d s)) = triggers i s"
  by (auto simp: snd_publish_now schedule_triggers split: sum.split)

section \<open>What a cycle does to one job\<close>

text \<open>The interval of a job when the cycle at a time would trigger it.\<close>

definition due_now :: "scheduler_world \<Rightarrow> rat \<Rightarrow> job \<Rightarrow> int option" where
  "due_now w tm j =
     (if in_cycle w j then
        (case job_interval_seconds w tm j of
           Inl _ \<Rightarrow> None
         | Inr i \<Rightarrow> if tm < last_or_due tm i j + of_int i then None else Some i)
      else None)"

definition triggered_job :: "rat \<Rightarrow> int \<Rightarrow> job \<Rightarrow> job" where
  "triggered_job tm i j =
     j\<lparr>last_run_at := Some tm, next_due_at := Some (last_or_due tm i j + of_int i),
       last_status := Some ''queued'', last_error := None\<rparr>"

lemma cycle_job_due:
  assumes "in_cycle w j"
  shows "cycle_job w tm j s =
    (case due_now w tm j of None \<Rightarrow> s
     | Some i \<Rightarrow> put_job (triggered_job tm i j) (snd (schedule_job_execution w tm j ''scheduler'' None 0 (Some (ttl_of i)) s)))"
  using assms by (auto simp: cycle_job_def due_now_def triggered_job_def Let_def split: sum.split)

lemma triggered_job_simps [simp]:
  "job_id (triggered_job tm i j) = job_id j" "last_run_at (triggered_job tm i j) = Some tm"
  "interval_seconds (triggered_job tm i j) = interval_seconds j" "job_scope (triggered_job tm i j) = job_scope j"
  "job_enabled (triggered_job tm i j) = job_enabled j" "last_status (triggered_job tm i j) = Some ''queued''"
  by (simp_all add: triggered_job_def)

lemma cycle_ids [simp]: "map job_id (sd_jobs (run_scheduler_cycle w tm s)) = map job_id (sd_jobs s)"
proof -
  have "map job_id (sd_jobs (fold (cycle_job w tm) js s')) = map job_id (sd_jobs s')" for js s'
    by (induction js arbitrary: s') (auto simp: cycle_job_def Let_def split: sum.split)
  then show ?thesis by (simp add: run_scheduler_cycle_def)
qed

lemma distinct_cycle [simp]: "distinct_jobs (run_scheduler_cycle w tm s) = distinct_jobs s"
  by (simp add: distinct_jobs_def)

lemma due_now_interval:
  assumes "interval_seconds j = Some n" "n \<noteq> 0"
  shows "due_now w tm j = (if in_cycle w j \<and> last_or_due tm n j + of_int n \<le> tm then Some n else None)"
  using assms by (auto simp: due_now_def job_interval_seconds_def)

lemma cycle_jobs_other:
  assumes "i \<notin> job_id ` set js" "\<forall>j \<in> set js. in_cycle w j"
  shows "find_job i (fold (cycle_job w tm) js s) = find_job i s \<and> triggers i (fold (cycle_job w tm) js s) = triggers i s"
  using assms
proof (induction js arbitrary: s)
  case (Cons j js)
  have "find_job i (cycle_job w tm j s) = find_job i s \<and> triggers i (cycle_job w tm j s) = triggers i s"
    using Cons.prems by (auto simp: cycle_job_due find_put_job schedule_triggers split: option.split)
  with Cons show ?case by auto
qed simp

lemma cycle_effect:
  assumes "distinct_jobs s" "find_job i s = Some j"
  obtains k where "find_job i (run_scheduler_cycle w tm s) =
      Some (case due_now w tm j of None \<Rightarrow> j | Some n \<Rightarrow> triggered_job tm n j)"
    "triggers i (run_scheduler_cycle w tm s) =
      triggers i s @ (case due_now w tm j of None \<Rightarrow> []
        | Some n \<Rightarrow> if dw_attempt w k \<noteq> Refused then [(tm, Some (ttl_of n * 1000))] else [])"
proof -
  let ?js = "filter (in_cycle w) (sd_jobs s)"
  have ij: "job_id j = i" "j \<in> set (sd_jobs s)" using find_job_id [OF assms(2)] by auto
  have dist: "distinct (map job_id ?js)" using assms(1) by (simp add: distinct_jobs_def distinct_map_filter)
  have all: "\<forall>j \<in> set ?js. in_cycle w j" by simp
  show ?thesis
  proof (cases "in_cycle w j")
    case False
    have "i \<notin> job_id ` set ?js"
      using False ij assms(1) by (auto simp: distinct_jobs_def distinct_map inj_on_def)
    from cycle_jobs_other [OF this all, of tm s] False assms(2) show ?thesis
      by (intro that [of 0]) (auto simp: run_scheduler_cycle_def due_now_def)
  next
    case True
    with ij have "j \<in> set ?js" by simp
    then obtain xs ys where split: "?js = xs @ j # ys" by (meson split_list)
    have nin: "i \<notin> job_id ` set xs" "i \<notin> job_id ` set ys" using dist ij(1) by (auto simp: split)
    have cyc: "\<forall>k \<in> set xs. in_cycle w k" "\<forall>k \<in> set ys. in_cycle w k" using all by (auto simp: split)
    let ?s1 = "fold (cycle_job w tm) xs s"
    let ?s2 = "cycle_job w tm j ?s1"
    from cycle_jobs_other [OF nin(1) cyc(1)] have s1: "find_job i ?s1 = Some j" "triggers i ?s1 = triggers i s"
      using assms(2) by auto
    have "find_job i ?s2 = Some (case due_now w tm j of None \<Rightarrow> j | Some n \<Rightarrow> triggered_job tm n j)"
      "triggers i ?s2 = triggers i s @ (case due_now w tm j of None \<Rightarrow> []
        | Some n \<Rightarrow> if dw_attempt w (sd_tries ?s1) \<noteq> Refused then [(tm, Some (ttl_of n * 1000))] else [])"
      using s1 ij(1) by (auto simp: cycle_job_due [OF True] find_put_job schedule_triggers split: option.split)
    with cycle_jobs_other [OF nin(2) cyc(2), of tm ?s2] show ?thesis
      by (intro that [of "sd_tries ?s1"]) (auto simp: run_scheduler_cycle_def split)
  qed
qed

section \<open>Runs\<close>

text \<open>A manual run of the job does not call itself \<open>scheduler\<close>, the trigger source of the cycle.\<close>

fun own_source :: "string \<Rightarrow> sched_request \<Rightarrow> bool" where
  "own_source i (RunNow k r) = (k \<noteq> i \<or> mr_trigger_source r \<noteq> ''scheduler'')"
| "own_source i _ = True"

text \<open>An update of the job leaves its interval at \<open>v\<close>: the interval is not given, or given as it is.\<close>

fun keeps_interval :: "string \<Rightarrow> int option \<Rightarrow> sched_request \<Rightarrow> bool" where
  "keeps_interval i v (Update k u) = (k \<noteq> i \<or> upd_apply (ju_interval_seconds u) v = v)"
| "keeps_interval i v r = own_source i r"

text \<open>The job is neither resumed nor enabled by an update.\<close>

fun stays_paused :: "string \<Rightarrow> sched_request \<Rightarrow> bool" where
  "stays_paused i (Update k u) = (k \<noteq> i \<or> ju_enabled u \<noteq> Given True)"
| "stays_paused i (Resume k) = (k \<noteq> i)"
| "stays_paused i r = own_source i r"

lemma own_sources: "keeps_interval i v r \<Longrightarrow> own_source i r" "stays_paused i r \<Longrightarrow> own_source i r"
  by (cases r; simp)+





lemma distinct_message [simp]:
  "distinct_jobs (snd (publish_now w tm j tr ov dl s)) = distinct_jobs s"
  by (simp add: distinct_jobs_def)

lemma snd_run_job:
  "snd (run_job w tm k m s) = s \<or> (\<exists>j. job_id j = k \<and> snd (run_job w tm k m s) =
     snd (publish_now w tm j (mr_trigger_source m) (mr_params m) (of_int (mr_delay_seconds m)) s))"
  by (auto simp: run_job_def split: option.split sum.split prod.split dest!: own_job_SomeD find_job_id)

lemma updated_job_keeps:
  assumes "updated_job w tm u j = Inr j'"
  shows "job_id j' = job_id j" "last_run_at j' = last_run_at j"
    "interval_seconds j' = upd_apply (ju_interval_seconds u) (interval_seconds j)"
    "job_enabled j' = upd_apply (ju_enabled u) (job_enabled j)"
  by (rule updated_jobE [OF assms]; simp add: update_columns_def)+

lemma snd_update_job:
  "snd (update_job w tm k u s) = s \<or> (\<exists>j j'. find_job k s = Some j \<and> updated_job w tm u j = Inr j' \<and>
     snd (update_job w tm k u s) = put_job j' s)"
  by (auto simp: update_job_def split: option.split sum.split dest!: own_job_SomeD)

text \<open>What a request, other than the cycle, does to a job.\<close>

definition bookkept :: "string \<Rightarrow> rat \<Rightarrow> sched_request \<Rightarrow> job \<Rightarrow> scheduler \<Rightarrow> scheduler \<Rightarrow> bool" where
  "bookkept i tm r j s s' \<longleftrightarrow>
     distinct_jobs s' \<and> triggers i s' = triggers i s \<and>
     (\<exists>j'. find_job i s' = Some j' \<and> (last_run_at j' = last_run_at j \<or> last_run_at j' = Some tm) \<and>
        (keeps_interval i (interval_seconds j) r \<longrightarrow> interval_seconds j' = interval_seconds j) \<and>
        (stays_paused i r \<longrightarrow> job_enabled j \<noteq> Some True \<longrightarrow> job_enabled j' \<noteq> Some True))"

lemma step_effect:
  assumes "distinct_jobs s" "find_job i s = Some j" "own_source i r" "r \<noteq> Cycle"
  shows "bookkept i tm r j s (sched_step w (tm, r) s)"
proof -
  note d = assms(1)
  have own: "job_id j = k \<and> find_job k s = Some j" if "own_job sc k s = Some j" for sc k j
    using that by (auto dest!: own_job_SomeD dest: find_job_id)
  have refl: "bookkept i tm r j s s" using assms(1,2) by (simp add: bookkept_def)
  show ?thesis
  proof (cases r)
    case Cycle
    with assms(4) show ?thesis by simp
  next
    case (Create c)
    have "distinct_jobs (s\<lparr>sd_jobs := sd_jobs s @ [job_of_create w c due]\<rparr>)" if "find_job (jc_job_id c) s = None" for due
      using d that by (auto simp: distinct_jobs_def find_job_def find_None_iff job_of_create_def)
    moreover have "triggers i (snd (publish_now w tm j ''bootstrap'' ov dl s')) = triggers i s'" for j ov dl s'
      by (rule publish_now_triggers) simp
    moreover have "triggers i (s\<lparr>sd_jobs := js\<rparr>) = triggers i s" for js by (simp add: triggers_def)
    moreover have "find_job i (s\<lparr>sd_jobs := sd_jobs s @ js\<rparr>) = Some j" for js
      using assms(2) by (simp add: find_job_def find_append)
    ultimately show ?thesis
      using Create refl by (auto simp: snd_create_job Let_def bookkept_def split: sum.split)
  next
    case (Update k u)
    have "bookkept i tm r j s (put_job j' s)" if "find_job k s = Some j0" "updated_job w tm u j0 = Inr j'" for j0 j'
      using that assms updated_job_keeps [OF that(2)] find_job_id [OF that(1)] Update
      by (cases "k = i") (auto simp: bookkept_def find_put_job upd_apply_def split: upd.splits)
    with snd_update_job [of w tm k u s] refl show ?thesis
      by (auto simp: Update)
  next
    case (RunNow k m)
    with snd_run_job [of w tm k m s] assms show ?thesis
      by (auto simp: bookkept_def publish_now_triggers)
  next
    case (MarkRun k sc)
    with assms own show ?thesis
      by (auto simp: mark_job_last_run_def Let_def find_put_job bookkept_def split: option.split)
  next
    case (Pause k)
    with assms own show ?thesis
      by (auto simp: pause_job_def Let_def find_put_job bookkept_def split: option.split)
  next
    case (Resume k)
    with assms own show ?thesis
      by (auto simp: snd_resume_job Let_def find_put_job publish_now_triggers bookkept_def split: option.split sum.split)
  qed
qed



lemma overdue:
  assumes "distinct_jobs s" "find_job i s = Some j" "in_cycle w j" "interval_seconds j = Some n" "n \<noteq> 0"
    and "\<forall>l. last_run_at j = Some l \<longrightarrow> l + of_int n \<le> tm" "\<forall>k. dw_attempt w k \<noteq> Refused"
  shows "find_job i (run_scheduler_cycle w tm s) = Some (triggered_job tm n j)"
    "triggers i (run_scheduler_cycle w tm s) = triggers i s @ [(tm, Some (ttl_of n * 1000))]"
proof -
  have due: "due_now w tm j = Some n"
    using assms(3,6) by (auto simp: due_now_interval [OF assms(4,5)] last_or_due_def split: option.split)
  show "find_job i (run_scheduler_cycle w tm s) = Some (triggered_job tm n j)"
    "triggers i (run_scheduler_cycle w tm s) = triggers i s @ [(tm, Some (ttl_of n * 1000))]"
    by (rule cycle_effect [OF assms(1,2), of w tm]; use due assms(7) in auto)+
qed

definition silent :: "string \<Rightarrow> scheduler \<Rightarrow> bool" where
  "silent i s \<longleftrightarrow> (\<exists>j. find_job i s = Some j \<and> job_enabled j \<noteq> Some True)"

lemma silent_step:
  assumes "distinct_jobs s" "silent i s" "stays_paused i r"
  shows "distinct_jobs (sched_step w (tm, r) s) \<and> silent i (sched_step w (tm, r) s) \<and>
    triggers i (sched_step w (tm, r) s) = triggers i s"
proof -
  from assms(2) obtain j where j: "find_job i s = Some j" "job_enabled j \<noteq> Some True" by (auto simp: silent_def)
  show ?thesis
  proof (cases "r = Cycle")
    case True
    have "due_now w tm j = None" using j(2) by (simp add: due_now_def in_cycle_def)
    with True assms(1) j show ?thesis
      by (auto simp: silent_def intro: cycle_effect [OF assms(1) j(1), of w tm])
  next
    case False
    from step_effect [OF assms(1) j(1) own_sources(2) [OF assms(3)] False, of tm w] j(2) assms(3) show ?thesis
      by (auto simp: bookkept_def silent_def)
  qed
qed

lemma silent_run:
  assumes "distinct_jobs s" "silent i s" "list_all (\<lambda>r. stays_paused i (snd r)) rs"
  shows "triggers i (sched_run w rs s) = triggers i s"
  using assms
proof (induction rs arbitrary: s)
  case (Cons r rs)
  obtain tm q where r: "r = (tm, q)" by (cases r)
  from silent_step [of s i q w tm] Cons r show ?case by simp
qed simp

section \<open>A world to try the operations in\<close>

definition demo_cron :: scheduler_world where
  "demo_cron = \<lparr>dw_scope = ''real'', dw_cron_valid = (\<lambda>_. True), dw_cron_next = (\<lambda>_ t. Inr (t + 60)),
     dw_attempt = (\<lambda>_. Taken), dw_uuid = (\<lambda>_. ''run'')\<rparr>"

definition demo_create :: job_create where
  "demo_create = \<lparr>jc_job_id = ''scan'', jc_description = None, jc_queue = ''jobs.scan'', jc_cron_expr = ''*/5 * * * *'',
     jc_enabled = True, jc_reschedule_mode = ''scheduler'', jc_interval_seconds = Given 300, jc_max_parallel = 1,
     jc_default_params = [], jc_timeout_sec = 120, jc_retry_limit = 3, jc_telemetry_label = None\<rparr>"

definition demo_relabel :: job_update where
  "demo_relabel = \<lparr>ju_description = Given ''every five minutes'', ju_queue = Unset, ju_cron_expr = Unset, ju_enabled = Unset,
     ju_reschedule_mode = Unset, ju_interval_seconds = Unset, ju_max_parallel = Unset, ju_default_params = Unset,
     ju_timeout_sec = Given 60, ju_retry_limit = Unset, ju_telemetry_label = Unset\<rparr>"

definition empty_scheduler :: scheduler where
  "empty_scheduler = \<lparr>sd_jobs = [], sd_sent = [], sd_tries = 0\<rparr>"

definition demo_job :: job where
  "demo_job = job_of_create demo_cron demo_create 60"

definition demo_scheduler :: scheduler where
  "demo_scheduler = \<lparr>sd_jobs = [demo_job], sd_sent = [], sd_tries = 0\<rparr>"

lemma demo_scheduler_simps:
  "distinct_jobs demo_scheduler" "find_job ''scan'' demo_scheduler = Some demo_job" "triggers ''scan'' demo_scheduler = []"
  "interval_seconds demo_job = Some 300" "last_run_at demo_job = None" "in_cycle demo_cron demo_job"
  by (simp_all add: demo_scheduler_def distinct_jobs_def find_job_def demo_job_def job_of_create_def demo_create_def
      triggers_def List.map_filter_def upd_apply_def in_cycle_def demo_cron_def)

section \<open>Properties\<close>

text \<open>
  C33. Every request and every cycle keeps the table well typed: distinct identifiers, valid cron
  expressions, intervals of at least five seconds, and the lower bounds of the other numbers,
  whatever the requests contain.
\<close>

theorem job_table_typed:
  assumes "table_typed w s"
  shows "table_typed w (sched_run w rs s)"
  using assms by (induction rs arbitrary: s) (auto intro: sched_step_typed)

theorem job_table_typed_witness:
  "table_typed demo_cron (sched_run demo_cron [(0, Create demo_create), (1, Cycle), (2, Pause ''scan''), (3, Resume ''scan'')] empty_scheduler)"
  by (rule job_table_typed) (simp add: table_typed_def distinct_jobs_def empty_scheduler_def)



text \<open>
  C34. An overdue job is served by the next cycle: an enabled job of the scope whose interval has
  passed since its last run (or that has never run) is marked as run at that time, and its
  message is sent when the broker takes messages.
\<close>

theorem overdue_job_triggered:
  assumes "distinct_jobs s" "find_job i s = Some j" "in_cycle w j" "interval_seconds j = Some n" "n \<noteq> 0"
    and "\<forall>l. last_run_at j = Some l \<longrightarrow> l + of_int n \<le> tm" "\<forall>k. dw_attempt w k \<noteq> Refused"
  shows "(\<exists>j'. find_job i (run_scheduler_cycle w tm s) = Some j' \<and> last_run_at j' = Some tm) \<and>
    triggers i (run_scheduler_cycle w tm s) = triggers i s @ [(tm, Some (ttl_of n * 1000))]"
  using overdue [OF assms] by simp

theorem overdue_job_triggered_witness:
  "triggers ''scan'' (run_scheduler_cycle demo_cron 1000 demo_scheduler) = [(1000, Some 240000)]"
proof -
  have "ttl_of 300 = 240" by (simp add: ttl_of_def)
  with overdue_job_triggered [OF demo_scheduler_simps(1,2,6,4), of 1000] show ?thesis
    by (simp add: demo_scheduler_simps demo_cron_def)
qed

text \<open>
  A message the broker refuses is lost for a whole interval: the publisher swallows the
  failure, the cycle marks the job as queued and run all the same, and no later cycle
  triggers it before its interval has passed again.
\<close>

theorem refused_run_is_lost:
  assumes "distinct_jobs s" "find_job i s = Some j" "in_cycle w j" "interval_seconds j = Some n" "n \<noteq> 0"
    and "\<forall>l. last_run_at j = Some l \<longrightarrow> l + of_int n \<le> tm" "\<forall>k. dw_attempt w k = Refused" "tm' < tm + of_int n"
  shows "(\<exists>j'. find_job i (run_scheduler_cycle w tm s) = Some j' \<and> last_status j' = Some ''queued'' \<and> last_run_at j' = Some tm) \<and>
    triggers i (run_scheduler_cycle v tm' (run_scheduler_cycle w tm s)) = triggers i s"
proof -
  let ?s = "run_scheduler_cycle w tm s"
  have due: "due_now w tm j = Some n"
    using assms(3,6) by (auto simp: due_now_interval [OF assms(4,5)] last_or_due_def split: option.split)
  obtain k where eff: "find_job i ?s = Some (triggered_job tm n j)" "triggers i ?s = triggers i s"
    by (rule cycle_effect [OF assms(1,2), of w tm]) (use due assms(7) in auto)
  have "due_now v tm' (triggered_job tm n j) = None"
    using assms(8) due_now_interval [of "triggered_job tm n j" n v tm'] assms(4,5) by (simp add: last_or_due_def)
  moreover have "distinct_jobs ?s" using assms(1) by simp
  ultimately have "triggers i (run_scheduler_cycle v tm' ?s) = triggers i ?s"
    using cycle_effect [OF _ eff(1), of v tm'] by (metis append_Nil2 option.case(1))
  with eff show ?thesis by simp
qed

theorem refused_run_is_lost_witness:
  "triggers ''scan'' (run_scheduler_cycle demo_cron 1299
     (run_scheduler_cycle (demo_cron\<lparr>dw_attempt := \<lambda>_. Refused\<rparr>) 1000 demo_scheduler)) = []"
proof -
  have "in_cycle (demo_cron\<lparr>dw_attempt := \<lambda>_. Refused\<rparr>) demo_job"
    using demo_scheduler_simps(6) by (simp add: in_cycle_def)
  from refused_run_is_lost [OF demo_scheduler_simps(1,2) this demo_scheduler_simps(4), of 1000 1299 demo_cron]
  show ?thesis by (simp add: demo_scheduler_simps)
qed

text \<open>
  A job that is created enabled runs twice at the start: the request sends a first message
  but does not record a run, so the next cycle finds the job as never run and sends a second
  one, however soon it comes.
\<close>

theorem created_job_runs_twice:
  assumes "distinct_jobs s" "create_job w tm c s = (Answer d, s')" "jc_enabled c" "jc_interval_seconds c = Given n"
    and "\<forall>k. dw_attempt w k = Taken"
  shows "(\<exists>m. sd_sent s' = sd_sent s @ [m] \<and> field ''job_id'' JNull (am_body m) = JStr (jc_job_id c)) \<and>
    triggers (jc_job_id c) (run_scheduler_cycle w tm' s') = triggers (jc_job_id c) s @ [(tm', Some (ttl_of n * 1000))]"
proof -
  have valid: "valid_create w c" and new: "find_job (jc_job_id c) s = None"
    using assms(2) by (auto simp: create_job_def split: if_splits sum.splits)
  then have n: "n \<noteq> 0" using assms(4) by (auto simp: valid_create_def valid_interval_def)
  obtain due where due: "compute_next_due w (jc_cron_expr c) tm = Inr due"
    using assms(2) valid by (auto simp: create_job_def split: sum.splits)
  let ?j = "job_of_create w c due" and ?s = "s\<lparr>sd_jobs := sd_jobs s @ [job_of_create w c due]\<rparr>"
  have j: "job_id ?j = jc_job_id c" "interval_seconds ?j = Some n" "last_run_at ?j = None" "in_cycle w ?j"
    using assms(3,4) by (simp_all add: job_of_create_def upd_apply_def in_cycle_def)
  have s': "s' = snd (publish_now w tm ?j ''bootstrap'' None 0 ?s)"
    using assms(2,3) valid new due snd_create_job [of w tm c s] by (simp add: Let_def)
  have "sd_sent s' = sd_sent s @ [amqp_message_of (new_publisher (scoped_queue_name (dw_scope w) (job_queue ?j)))
      (job_payload (dw_uuid w (sd_tries s)) tm ?j ''bootstrap'' None) 0 (Some (ttl_of n * 1000))]"
    using assms(5) n j(2) by (simp add: s' snd_publish_now job_interval_seconds_def schedule_sent)
  then have sent: "\<exists>m. sd_sent s' = sd_sent s @ [m] \<and> field ''job_id'' JNull (am_body m) = JStr (jc_job_id c)"
    by (simp add: j(1))
  have trig: "triggers (jc_job_id c) s' = triggers (jc_job_id c) s"
    unfolding s' by (subst publish_now_triggers) (simp_all add: triggers_def)
  have d: "distinct_jobs s'"
    using assms(1) new j(1) by (auto simp: s' distinct_jobs_def find_job_def find_None_iff)
  have "find_job (jc_job_id c) s' = Some ?j"
    using new j(1) by (simp add: s' find_job_def find_append)
  from overdue [OF d this j(4,2) n, of tm'] assms(5) j(3) have
    "triggers (jc_job_id c) (run_scheduler_cycle w tm' s') = triggers (jc_job_id c) s' @ [(tm', Some (ttl_of n * 1000))]"
    by simp
  with sent trig show ?thesis by simp
qed

theorem created_job_runs_twice_witness:
  "triggers ''scan'' (run_scheduler_cycle demo_cron 5 (snd (create_job demo_cron 0 demo_create empty_scheduler))) = [(5, Some 240000)]"
proof -
  have "\<exists>d s'. create_job demo_cron 0 demo_create empty_scheduler = (Answer d, s')"
    by (simp add: create_job_def valid_create_def demo_cron_def demo_create_def RESCHEDULE_MODES_def valid_interval_def
        compute_next_due_def find_job_def empty_scheduler_def publish_now_def job_interval_seconds_def job_of_create_def
        upd_apply_def Let_def split: prod.split)
  then obtain d s' where c: "create_job demo_cron 0 demo_create empty_scheduler = (Answer d, s')" by blast
  have "distinct_jobs empty_scheduler" by (simp add: distinct_jobs_def empty_scheduler_def)
  moreover have "jc_enabled demo_create" "jc_interval_seconds demo_create = Given 300" "jc_job_id demo_create = ''scan''"
    "\<forall>k. dw_attempt demo_cron k = Taken" "triggers ''scan'' empty_scheduler = []" "ttl_of 300 = 240"
    by (simp_all add: demo_create_def demo_cron_def triggers_def empty_scheduler_def List.map_filter_def ttl_of_def)
  ultimately show ?thesis using created_job_runs_twice [OF _ c, of 300 5] c by simp
qed

text \<open>
  C40. A paused job stays silent: the cycle sends no message for it, whatever else is requested,
  as long as the job is not resumed, no update of it sets \<open>enabled\<close> to true, and no manual
  run of it names \<open>scheduler\<close> as its trigger source.
\<close>

theorem paused_job_is_silent:
  assumes "distinct_jobs s" "pause_job w i s = (Answer d, s')"
    and "list_all (\<lambda>r. stays_paused i (snd r)) rs"
  shows "triggers i (sched_run w rs s') = triggers i s"
proof -
  from assms(2) obtain j where j: "own_job (dw_scope w) i s = Some j"
    and s': "s' = put_job (j\<lparr>job_enabled := Some False, last_status := Some ''paused''\<rparr>) s"
    by (auto simp: pause_job_def Let_def split: option.splits)
  have "distinct_jobs s'" "silent i s'"
    using assms(1) own_job_SomeD [OF j] by (auto simp: s' silent_def find_put_job dest: find_job_id)
  with silent_run [OF this assms(3)] show ?thesis by (simp add: s')
qed

theorem paused_job_is_silent_witness:
  "triggers ''scan'' (sched_run demo_cron [(1000, Cycle), (1001, Update ''scan'' demo_relabel), (2000, Cycle)]
     (snd (pause_job demo_cron ''scan'' demo_scheduler))) = []"
proof -
  have "\<exists>d s'. pause_job demo_cron ''scan'' demo_scheduler = (Answer d, s')"
    using demo_scheduler_simps(2) by (simp add: pause_job_def own_job_def demo_job_def job_of_create_def Let_def)
  then obtain d s' where p: "pause_job demo_cron ''scan'' demo_scheduler = (Answer d, s')" by blast
  from paused_job_is_silent [OF demo_scheduler_simps(1) p, of "[(1000, Cycle), (1001, Update ''scan'' demo_relabel), (2000, Cycle)]"]
  show ?thesis by (simp add: p demo_scheduler_simps demo_relabel_def)
qed

text \<open>
  What a worker reads from a message is what the scheduler put in: the identifiers, the
  scope, the merged parameters and the limits of the job.
\<close>

theorem job_message_roundtrip:
  "\<exists>m. parse_job_message new_id (JObj (job_payload run_id tm j tr ov)) = Inr m \<and>
     jm_job_id m = JStr (job_id j) \<and> jm_run_id m = JStr run_id \<and> jm_scope m = JStr (job_scope j) \<and>
     jm_trigger_source m = JStr tr \<and> jm_params m = JObj (dict_merge (json_load (default_params j)) (json_load ov)) \<and>
     jm_timeout_sec m = opt_num (timeout_sec j) \<and> jm_retry_limit m = opt_num (retry_limit j) \<and>
     jm_telemetry_label m = opt_str (telemetry_label j) \<and> jm_queued_at m = JTime tm"
  by (simp add: parse_job_message_def job_payload_def field_def Let_def)

text \<open>
  No worker can keep a job going in queue mode: a message of the scheduler carries no delay
  for the next run, so without a delay of its own a worker that reschedules a parsed message
  is told no, and nothing is published.
\<close>

theorem queue_mode_stops:
  "\<exists>m. parse_job_message new_id (JObj (job_payload run_id tm j tr ov)) = Inr m \<and>
     reschedule_job a run_id' tm' pb m None tr' msgs = (Inr False, msgs)"
  by (simp add: parse_job_message_def job_payload_def field_def Let_def reschedule_job_def)

end
