(* ===== verification/Kis_Gateway.thy ===== *)
theory Kis_Gateway
  imports Redis_Cache
begin

text \<open>
  \<open>services/kis-gateway/main.py\<close>: the service through which all others reach the broker. Every
  request is counted, checked, passed to the broker client through a circuit breaker, and
  answered; daily prices fall back to the database.

  The broker client, the circuit breaker (pybreaker), the rate limiter and the JSON encoder
  are parameters. The client is code of the repository: \<open>Kis_Client\<close>, \<open>Kis_Trading\<close> and
  \<open>Kis_Market\<close> model it, and \<open>Kis_Trading.gateway_on\<close> puts it in the place of \<open>gd_api\<close>. A breaker admits a call or rejects it; after a call it is told whether
  an exception came out, and may open, in which case it raises its own error instead. A body
  is the parsed document of a request, or None when it does not parse as one. The calls
  of the broker client are recorded in the state; how often the client sends
  such a call to the broker is recorded in its own log (\<open>kc_log\<close>).
\<close>

section \<open>State\<close>

datatype api_call =
    StockSnapshot jval jval
  | PlaceBuy jval jval jval
  | PlaceSell jval jval jval
  | DailyPrices jval jval
  | AccountBalance
  | CashBalance

text \<open>None, an empty value (an empty text, list or table), or a value.\<close>

datatype api_answer = NoAnswer | EmptyAnswer | Payload jval

text \<open>\<open>bk_done t e b\<close>: the breaker after a call that raised e (None: it returned), and whether it opened.\<close>

record 'b breaker =
  bk_admits :: "rat \<Rightarrow> 'b \<Rightarrow> bool"
  bk_rejected :: "rat \<Rightarrow> 'b \<Rightarrow> 'b"
  bk_done :: "rat \<Rightarrow> py_exc option \<Rightarrow> 'b \<Rightarrow> 'b \<times> bool"

record price_record =
  dp_date :: string
  dp_open :: rat
  dp_close :: rat
  dp_high :: rat
  dp_low :: rat
  dp_volume :: rat

record 'b gateway_world =
  gd_api :: "api_call \<Rightarrow> api_answer res"
  gd_breaker :: "'b breaker"
  gd_encodes :: "api_answer \<Rightarrow> bool"
  gd_pool_ok :: bool
  gd_prices :: "jval \<Rightarrow> jval \<Rightarrow> price_record list res"

record request_entry =
  re_endpoint :: string
  re_code :: "jval option"
  re_quantity :: "jval option"

record 'b gateway =
  gw_client :: bool
  gw_pool :: bool
  gw_total :: nat
  gw_successful :: nat
  gw_failed :: nat
  gw_limited :: nat
  gw_trips :: nat
  gw_history :: "request_entry list"
  gw_breaker :: 'b
  gw_calls :: "api_call list"

definition new_gateway :: "'b \<Rightarrow> 'b gateway" where
  "new_gateway b = \<lparr>gw_client = True, gw_pool = False, gw_total = 0, gw_successful = 0, gw_failed = 0, gw_limited = 0,
     gw_trips = 0, gw_history = [], gw_breaker = b, gw_calls = []\<rparr>"

text \<open>\<open>deque(maxlen=100)\<close>: the newest hundred entries.\<close>

definition deque_append :: "nat \<Rightarrow> 'a \<Rightarrow> 'a list \<Rightarrow> 'a list" where
  "deque_append n x xs = drop (length xs + 1 - n) (xs @ [x])"

definition global_rate_limit :: "string \<Rightarrow> nat" where
  "global_rate_limit mode = (if mode = ''REAL'' then 19 else 2)"

section \<open>Starting\<close>

text \<open>
  The client is in place when it could be constructed and a token was issued into its
  headers; otherwise the service reports a failure.
\<close>

datatype client_start = ConstructFails py_exc | NoToken | NoHeaders | Started

definition initialize_kis_client :: "client_start \<Rightarrow> 'b gateway \<Rightarrow> bool \<times> 'b gateway" where
  "initialize_kis_client c s =
     (case c of
        ConstructFails _ \<Rightarrow> (False, s)
      | NoToken \<Rightarrow> (False, s\<lparr>gw_client := True\<rparr>)
      | NoHeaders \<Rightarrow> (False, s\<lparr>gw_client := True\<rparr>)
      | Started \<Rightarrow> (True, s\<lparr>gw_client := True\<rparr>))"

definition initialize_db_pool :: "'b gateway_world \<Rightarrow> 'b gateway \<Rightarrow> bool \<times> 'b gateway" where
  "initialize_db_pool w s =
     (if gw_pool s then (True, s) else if gd_pool_ok w then (True, s\<lparr>gw_pool := True\<rparr>) else (False, s))"

definition fetch_daily_prices_from_db ::
  "'b gateway_world \<Rightarrow> jval \<Rightarrow> jval \<Rightarrow> 'b gateway \<Rightarrow> price_record list option \<times> 'b gateway" where
  "fetch_daily_prices_from_db w code limit s =
     (let (ok, s') = initialize_db_pool w s
       in (if ok then (case gd_prices w code limit of Inr (r # rs) \<Rightarrow> Some (r # rs) | _ \<Rightarrow> None) else None, s'))"

section \<open>Calling the broker\<close>

datatype gateway_exc = BreakerOpen | Other py_exc

definition call_kis_api_with_breaker ::
  "'b gateway_world \<Rightarrow> rat \<Rightarrow> api_call \<Rightarrow> 'b gateway \<Rightarrow> (gateway_exc + api_answer) \<times> 'b gateway" where
  "call_kis_api_with_breaker w t c s =
     (if \<not> gw_client s then (Inl (Other AttributeError), s)
      else if \<not> bk_admits (gd_breaker w) t (gw_breaker s) then
        (Inl BreakerOpen, s\<lparr>gw_breaker := bk_rejected (gd_breaker w) t (gw_breaker s)\<rparr>)
      else
        (let s = s\<lparr>gw_calls := gw_calls s @ [c]\<rparr>
          in case gd_api w c of
               Inr a \<Rightarrow>
                 (let (b, opened) = bk_done (gd_breaker w) t None (gw_breaker s)
                   in (Inr a, s\<lparr>gw_breaker := b, gw_trips := gw_trips s + (if opened then 1 else 0)\<rparr>))
             | Inl e \<Rightarrow>
                 (let (b, opened) = bk_done (gd_breaker w) t (Some e) (gw_breaker s)
                   in (Inl (if opened then BreakerOpen else Other e),
                       s\<lparr>gw_breaker := b, gw_trips := gw_trips s + (if opened then 1 else 0)\<rparr>))))"

section \<open>Handlers\<close>

text \<open>A status, and with 200 the value.\<close>

type_synonym gateway_reply = "int \<times> api_answer option"

definition begin_request :: "'b gateway \<Rightarrow> 'b gateway" where
  "begin_request s = s\<lparr>gw_total := gw_total s + 1\<rparr>"

definition fail_request :: "int \<Rightarrow> 'b gateway \<Rightarrow> gateway_reply \<times> 'b gateway" where
  "fail_request status s = ((status, None), s\<lparr>gw_failed := gw_failed s + 1\<rparr>)"

definition failure_status :: "gateway_exc \<Rightarrow> int" where
  "failure_status e = (case e of BreakerOpen \<Rightarrow> 503 | Other _ \<Rightarrow> 500)"

text \<open>
  The end of a good request: it is counted and remembered, and then the answer is encoded;
  an answer that cannot be encoded is caught by the handler and counted as a failure too.
\<close>

definition finish_request ::
  "'b gateway_world \<Rightarrow> request_entry \<Rightarrow> api_answer \<Rightarrow> 'b gateway \<Rightarrow> gateway_reply \<times> 'b gateway" where
  "finish_request w entry a s =
     (let s' = s\<lparr>gw_successful := gw_successful s + 1, gw_history := deque_append 100 entry (gw_history s)\<rparr>
       in if gd_encodes w a then ((200, Some a), s') else fail_request 500 s')"

definition answer_request ::
  "'b gateway_world \<Rightarrow> rat \<Rightarrow> api_call \<Rightarrow> (api_answer \<Rightarrow> bool) \<Rightarrow> request_entry \<Rightarrow> 'b gateway \<Rightarrow> gateway_reply \<times> 'b gateway" where
  "answer_request w t c good entry s =
     (case call_kis_api_with_breaker w t c s of
        (Inl e, s') \<Rightarrow> fail_request (failure_status e) s'
      | (Inr a, s') \<Rightarrow> if good a then finish_request w entry a s' else fail_request 500 s')"

definition get_snapshot ::
  "'b gateway_world \<Rightarrow> rat \<Rightarrow> (string \<times> jval) list option \<Rightarrow> 'b gateway \<Rightarrow> gateway_reply \<times> 'b gateway" where
  "get_snapshot w t body s =
     (let s = begin_request s
       in case body of
            None \<Rightarrow> fail_request 500 s
          | Some d \<Rightarrow>
              (let code = field ''stock_code'' JNull d
                in if \<not> jtruth code then fail_request 400 s
                   else answer_request w t (StockSnapshot code (field ''is_index'' (JBool False) d)) (\<lambda>a. a \<noteq> NoAnswer)
                     \<lparr>re_endpoint = ''/api/market-data/snapshot'', re_code = Some code, re_quantity = None\<rparr> s))"

definition truthy_answer :: "api_answer \<Rightarrow> bool" where
  "truthy_answer a = (case a of Payload v \<Rightarrow> jtruth v | _ \<Rightarrow> False)"

definition place_buy_order ::
  "'b gateway_world \<Rightarrow> rat \<Rightarrow> (string \<times> jval) list option \<Rightarrow> 'b gateway \<Rightarrow> gateway_reply \<times> 'b gateway" where
  "place_buy_order w t body s =
     (let s = begin_request s
       in case body of
            None \<Rightarrow> fail_request 500 s
          | Some d \<Rightarrow>
              (let code = field ''stock_code'' JNull d; quantity = field ''quantity'' JNull d; price = field ''price'' (JNum 0) d
                in if \<not> jtruth code \<or> \<not> jtruth quantity then fail_request 400 s
                   else answer_request w t (PlaceBuy code quantity price) truthy_answer
                     \<lparr>re_endpoint = ''/api/trading/buy'', re_code = Some code, re_quantity = Some quantity\<rparr> s))"

definition place_sell_order ::
  "'b gateway_world \<Rightarrow> rat \<Rightarrow> (string \<times> jval) list option \<Rightarrow> 'b gateway \<Rightarrow> gateway_reply \<times> 'b gateway" where
  "place_sell_order w t body s =
     (let s = begin_request s
       in case body of
            None \<Rightarrow> fail_request 500 s
          | Some d \<Rightarrow>
              (let code = field ''stock_code'' JNull d; quantity = field ''quantity'' JNull d; price = field ''price'' (JNum 0) d
                in if \<not> jtruth code \<or> \<not> jtruth quantity then fail_request 400 s
                   else answer_request w t (PlaceSell code quantity price) truthy_answer
                     \<lparr>re_endpoint = ''/api/trading/sell'', re_code = Some code, re_quantity = Some quantity\<rparr> s))"

definition record_json :: "price_record \<Rightarrow> jval" where
  "record_json r =
     JObj [(''date'', JStr (dp_date r)), (''open'', JNum (dp_open r)), (''close'', JNum (dp_close r)),
           (''high'', JNum (dp_high r)), (''low'', JNum (dp_low r)), (''volume'', JNum (dp_volume r))]"

text \<open>A list of documents as one value: its positions are the names.\<close>

definition records_json :: "price_record list \<Rightarrow> jval" where
  "records_json rs = JObj (map (\<lambda>r. (''row'', record_json r)) rs)"

text \<open>
  Long histories and the index come from the database alone. Otherwise the broker is asked
  first; whatever goes wrong there, an open breaker included, leads to the database.
\<close>

definition db_only :: "jval \<Rightarrow> jval \<Rightarrow> bool res" where
  "db_only code days =
     (if code = JStr ''0001'' then Inr True
      else case jnum days of None \<Rightarrow> Inl TypeError | Some n \<Rightarrow> Inr (30 < n))"

definition ask_broker_daily ::
  "'b gateway_world \<Rightarrow> rat \<Rightarrow> jval \<Rightarrow> jval \<Rightarrow> bool \<Rightarrow> 'b gateway \<Rightarrow> api_answer option \<times> 'b gateway" where
  "ask_broker_daily w t code days only s =
     (if only then (None, s)
      else case call_kis_api_with_breaker w t (DailyPrices code days) s of
        (Inr (Payload v), s') \<Rightarrow> (Some (Payload v), s')
      | (_, s') \<Rightarrow> (None, s'))"

definition get_daily_prices ::
  "'b gateway_world \<Rightarrow> rat \<Rightarrow> (string \<times> jval) list option \<Rightarrow> 'b gateway \<Rightarrow> gateway_reply \<times> 'b gateway" where
  "get_daily_prices w t body s =
     (let s = begin_request s
       in case body of
            None \<Rightarrow> fail_request 500 s
          | Some d \<Rightarrow>
              (let code = field ''stock_code'' JNull d; days = field ''num_days_to_fetch'' (JNum 30) d;
                   entry = \<lparr>re_endpoint = ''/api/market-data/daily-prices'', re_code = Some code, re_quantity = None\<rparr>
                in if \<not> jtruth code then fail_request 400 s
                   else case db_only code days of
                     Inl _ \<Rightarrow> fail_request 500 s
                   | Inr only \<Rightarrow>
                       (let (found, s1) = ask_broker_daily w t code days only s
                         in case found of
                              Some a \<Rightarrow> finish_request w entry a s1
                            | None \<Rightarrow>
                                (case fetch_daily_prices_from_db w code days s1 of
                                   (Some rs, s2) \<Rightarrow> finish_request w entry (Payload (records_json rs)) s2
                                 | (None, s2) \<Rightarrow> fail_request 500 s2))))"

definition get_account_balance :: "'b gateway_world \<Rightarrow> rat \<Rightarrow> 'b gateway \<Rightarrow> gateway_reply \<times> 'b gateway" where
  "get_account_balance w t s =
     answer_request w t AccountBalance (\<lambda>a. a \<noteq> NoAnswer)
       \<lparr>re_endpoint = ''/api/account/balance'', re_code = None, re_quantity = None\<rparr> (begin_request s)"

definition get_cash_balance :: "'b gateway_world \<Rightarrow> rat \<Rightarrow> 'b gateway \<Rightarrow> gateway_reply \<times> 'b gateway" where
  "get_cash_balance w t s =
     answer_request w t CashBalance (\<lambda>a. a \<noteq> NoAnswer)
       \<lparr>re_endpoint = ''/api/account/cash-balance'', re_code = None, re_quantity = None\<rparr> (begin_request s)"

definition rate_limit_handler :: "'b gateway \<Rightarrow> gateway_reply \<times> 'b gateway" where
  "rate_limit_handler s = ((429, None), s\<lparr>gw_limited := gw_limited s + 1\<rparr>)"

text \<open>
  The token endpoint: the access token (None when there is none), with the times of the
  token file when it can be read.
\<close>

record token_reply =
  tk_status :: int
  tk_token :: "string option"
  tk_expires_at :: jval
  tk_issued_at :: jval

definition issue_token ::
  "(bool \<Rightarrow> string option) \<Rightarrow> (string \<times> jval) list option \<Rightarrow> (string \<times> jval) list option \<Rightarrow> 'b gateway \<Rightarrow> token_reply" where
  "issue_token access_token file body s =
     (if \<not> gw_client s then \<lparr>tk_status = 503, tk_token = None, tk_expires_at = JNull, tk_issued_at = JNull\<rparr>
      else case access_token (jtruth (field ''force_new'' JNull (case body of None \<Rightarrow> [] | Some d \<Rightarrow> d))) of
        Some (c # cs) \<Rightarrow>
          (let d = (case file of None \<Rightarrow> [] | Some d \<Rightarrow> d)
            in \<lparr>tk_status = 200, tk_token = Some (c # cs), tk_expires_at = field ''expires_at'' JNull d,
                tk_issued_at = field ''issued_at'' JNull d\<rparr>)
      | _ \<Rightarrow> \<lparr>tk_status = 500, tk_token = None, tk_expires_at = JNull, tk_issued_at = JNull\<rparr>)"

definition success_rate :: "'b gateway \<Rightarrow> rat" where
  "success_rate s = of_nat (gw_successful s) / of_nat (max (gw_total s) 1) * 100"

definition recent_requests :: "'b gateway \<Rightarrow> request_entry list" where
  "recent_requests s = drop (length (gw_history s) - 10) (gw_history s)"

datatype gateway_request =
    SnapshotReq "(string \<times> jval) list option"
  | BuyReq "(string \<times> jval) list option"
  | SellReq "(string \<times> jval) list option"
  | DailyReq "(string \<times> jval) list option"
  | BalanceReq
  | CashReq
  | LimitedReq

fun gateway_step :: "'b gateway_world \<Rightarrow> rat \<times> gateway_request \<Rightarrow> 'b gateway \<Rightarrow> gateway_reply \<times> 'b gateway" where
  "gateway_step w (t, SnapshotReq b) s = get_snapshot w t b s"
| "gateway_step w (t, BuyReq b) s = place_buy_order w t b s"
| "gateway_step w (t, SellReq b) s = place_sell_order w t b s"
| "gateway_step w (t, DailyReq b) s = get_daily_prices w t b s"
| "gateway_step w (t, BalanceReq) s = get_account_balance w t s"
| "gateway_step w (t, CashReq) s = get_cash_balance w t s"
| "gateway_step w (t, LimitedReq) s = rate_limit_handler s"

definition gateway_run :: "'b gateway_world \<Rightarrow> (rat \<times> gateway_request) list \<Rightarrow> 'b gateway \<Rightarrow> 'b gateway" where
  "gateway_run w rs s = fold (\<lambda>r s. snd (gateway_step w r s)) rs s"

lemma gateway_run_simps [simp]:
  "gateway_run w [] s = s" "gateway_run w (r # rs) s = gateway_run w rs (snd (gateway_step w r s))"
  by (simp_all add: gateway_run_def)

section \<open>The client of the gateway\<close>

text \<open>
  \<open>shared/kis/gateway_client.py\<close>. A request arrives and its reply comes back, or the request is
  lost, or the reply is (a timeout): in the last case the gateway has done its work.
\<close>

datatype network = Arrives | RequestLost | ReplyLost

definition client_request ::
  "network \<Rightarrow> ('b gateway \<Rightarrow> gateway_reply \<times> 'b gateway) \<Rightarrow> 'b gateway \<Rightarrow> api_answer option \<times> 'b gateway" where
  "client_request net handler s =
     (case net of
        RequestLost \<Rightarrow> (None, s)
      | ReplyLost \<Rightarrow> (None, snd (handler s))
      | Arrives \<Rightarrow> (let ((status, a), s') = handler s in (if status < 400 then a else None, s')))"

text \<open>The limiter stands in front of every handler.\<close>

definition limited ::
  "bool \<Rightarrow> ('b gateway \<Rightarrow> gateway_reply \<times> 'b gateway) \<Rightarrow> 'b gateway \<Rightarrow> gateway_reply \<times> 'b gateway" where
  "limited admitted handler s = (if admitted then handler s else rate_limit_handler s)"

definition order_body :: "string \<Rightarrow> int \<Rightarrow> int \<Rightarrow> (string \<times> jval) list" where
  "order_body code quantity price =
     [(''stock_code'', JStr code), (''quantity'', JNum (of_int quantity)), (''price'', JNum (of_int price))]"

definition client_buy ::
  "'b gateway_world \<Rightarrow> rat \<Rightarrow> network \<Rightarrow> bool \<Rightarrow> string \<Rightarrow> int \<Rightarrow> int \<Rightarrow> 'b gateway \<Rightarrow> api_answer option \<times> 'b gateway" where
  "client_buy w t net admitted code quantity price s =
     client_request net (limited admitted (place_buy_order w t (Some (order_body code quantity price)))) s"

definition client_sell ::
  "'b gateway_world \<Rightarrow> rat \<Rightarrow> network \<Rightarrow> bool \<Rightarrow> string \<Rightarrow> int \<Rightarrow> int \<Rightarrow> 'b gateway \<Rightarrow> api_answer option \<times> 'b gateway" where
  "client_sell w t net admitted code quantity price s =
     client_request net (limited admitted (place_sell_order w t (Some (order_body code quantity price)))) s"

definition client_snapshot ::
  "'b gateway_world \<Rightarrow> rat \<Rightarrow> network \<Rightarrow> bool \<Rightarrow> string \<Rightarrow> bool \<Rightarrow> 'b gateway \<Rightarrow> api_answer option \<times> 'b gateway" where
  "client_snapshot w t net admitted code is_index s =
     client_request net (limited admitted (get_snapshot w t
       (Some [(''stock_code'', JStr code), (''is_index'', JBool is_index)]))) s"

definition client_daily_prices ::
  "'b gateway_world \<Rightarrow> rat \<Rightarrow> network \<Rightarrow> bool \<Rightarrow> string \<Rightarrow> int \<Rightarrow> 'b gateway \<Rightarrow> api_answer option \<times> 'b gateway" where
  "client_daily_prices w t net admitted code days s =
     client_request net (limited admitted (get_daily_prices w t
       (Some [(''stock_code'', JStr code), (''num_days_to_fetch'', JNum (of_int days))]))) s"

definition client_account_balance ::
  "'b gateway_world \<Rightarrow> rat \<Rightarrow> network \<Rightarrow> bool \<Rightarrow> 'b gateway \<Rightarrow> api_answer option \<times> 'b gateway" where
  "client_account_balance w t net admitted s = client_request net (limited admitted (get_account_balance w t)) s"

text \<open>The cash is a number; a failure is reported as 0.0.\<close>

definition client_cash_balance ::
  "'b gateway_world \<Rightarrow> rat \<Rightarrow> network \<Rightarrow> bool \<Rightarrow> 'b gateway \<Rightarrow> rat res \<times> 'b gateway" where
  "client_cash_balance w t net admitted s =
     (let (a, s') = client_request net (limited admitted (get_cash_balance w t)) s
       in (case a of
             Some (Payload v) \<Rightarrow> (case jnum v of Some x \<Rightarrow> Inr x | None \<Rightarrow> Inl TypeError)
           | Some EmptyAnswer \<Rightarrow> Inl TypeError
           | _ \<Rightarrow> Inr 0, s'))"

section \<open>Lemmas\<close>

lemma length_deque_append [simp]: "length (deque_append n x xs) = min n (length xs + 1)"
  by (simp add: deque_append_def)

text \<open>What the counters of a gateway satisfy.\<close>

definition accounted :: "'b gateway \<Rightarrow> bool" where
  "accounted s \<longleftrightarrow> gw_total s = gw_successful s + gw_failed s \<and> length (gw_history s) = min 100 (gw_successful s)"

text \<open>One request has begun but is not yet counted as good or bad.\<close>

definition pending :: "'b gateway \<Rightarrow> bool" where
  "pending s \<longleftrightarrow> gw_total s = gw_successful s + gw_failed s + 1 \<and> length (gw_history s) = min 100 (gw_successful s)"

lemma begin_pending: "accounted s \<Longrightarrow> pending (begin_request s)"
  by (simp add: accounted_def pending_def begin_request_def)

lemma fail_accounted: "pending s \<Longrightarrow> accounted (snd (fail_request k s))"
  by (simp add: accounted_def pending_def fail_request_def)

lemma finish_accounted: "pending s \<Longrightarrow> gd_encodes w a \<Longrightarrow> accounted (snd (finish_request w e a s))"
  by (auto simp: accounted_def pending_def finish_request_def Let_def)

lemma call_pending: "pending s \<Longrightarrow> pending (snd (call_kis_api_with_breaker w t c s))"
  by (auto simp: call_kis_api_with_breaker_def pending_def Let_def split: sum.split prod.split)

lemma fetch_pending: "pending s \<Longrightarrow> pending (snd (fetch_daily_prices_from_db w c l s))"
  by (auto simp: fetch_daily_prices_from_db_def initialize_db_pool_def pending_def Let_def)

lemma answer_accounted:
  "pending s \<Longrightarrow> \<forall>a. gd_encodes w a \<Longrightarrow> accounted (snd (answer_request w t c good e s))"
  using call_pending [of s w t c]
  by (auto simp: answer_request_def fail_accounted finish_accounted split: prod.split sum.split)

lemma ask_pending: "pending s \<Longrightarrow> pending (snd (ask_broker_daily w t c d only s))"
  using call_pending [of s w t "DailyPrices c d"]
  by (auto simp: ask_broker_daily_def split: prod.split sum.split api_answer.split)

lemma daily_accounted:
  assumes "accounted s" "\<forall>a. gd_encodes w a"
  shows "accounted (snd (get_daily_prices w t body s))"
proof (cases body)
  case (Some d)
  let ?code = "field ''stock_code'' JNull d" and ?days = "field ''num_days_to_fetch'' (JNum 30) d"
  have s: "pending (begin_request s)" using assms(1) by (rule begin_pending)
  show ?thesis
  proof (cases "jtruth ?code \<and> (\<exists>only. db_only ?code ?days = Inr only)")
    case True
    then obtain only where only: "db_only ?code ?days = Inr only" by blast
    obtain found s1 where a: "ask_broker_daily w t ?code ?days only (begin_request s) = (found, s1)" by fastforce
    obtain rs s2 where f: "fetch_daily_prices_from_db w ?code ?days s1 = (rs, s2)" by fastforce
    have s1: "pending s1" using ask_pending [OF s, of w t ?code ?days only] a by simp
    have s2: "pending s2" using fetch_pending [OF s1, of w ?code ?days] f by simp
    show ?thesis
      using True only a f s1 s2 assms(2)
      by (simp add: get_daily_prices_def Some Let_def fail_accounted finish_accounted split: option.split)
  next
    case False
    with s show ?thesis
      by (auto simp: get_daily_prices_def Some Let_def fail_accounted split: sum.split)
  qed
qed (use assms begin_pending [of s] fail_accounted [of "begin_request s"] in \<open>simp add: get_daily_prices_def\<close>)

lemma step_accounted:
  assumes "accounted s" "\<forall>a. gd_encodes w a"
  shows "accounted (snd (gateway_step w r s))"
proof -
  obtain t q where r: "r = (t, q)" by (cases r)
  note steps = begin_pending [OF assms(1)] fail_accounted answer_accounted [OF _ assms(2)] daily_accounted [OF assms]
  show ?thesis
    using steps assms(1)
    by (cases q) (auto simp: r get_snapshot_def place_buy_order_def place_sell_order_def get_account_balance_def
        get_cash_balance_def rate_limit_handler_def accounted_def [of "s\<lparr>gw_limited := k\<rparr>" for k] accounted_def [of s]
        Let_def split: option.split)
qed

text \<open>A broker call through the breaker reaches the client at most once.\<close>

lemma call_calls:
  "gw_calls (snd (call_kis_api_with_breaker w t c s)) =
     gw_calls s @ (if gw_client s \<and> bk_admits (gd_breaker w) t (gw_breaker s) then [c] else [])"
  by (auto simp: call_kis_api_with_breaker_def Let_def split: sum.split prod.split)

lemma call_answer:
  "call_kis_api_with_breaker w t c s = (Inr a, s') \<Longrightarrow> gd_api w c = Inr a \<and> gw_calls s' = gw_calls s @ [c]"
  by (auto simp: call_kis_api_with_breaker_def Let_def split: sum.splits prod.splits if_splits)

lemma gw_calls_frames [simp]:
  "gw_calls (begin_request s) = gw_calls s" "gw_calls (snd (fail_request k s)) = gw_calls s"
  "gw_calls (snd (finish_request w e a s)) = gw_calls s" "gw_client (begin_request s) = gw_client s"
  "gw_breaker (begin_request s) = gw_breaker s"
  by (simp_all add: begin_request_def fail_request_def finish_request_def Let_def)

lemma fail_request_reply [simp]: "fst (fail_request k s) = (k, None)"
  by (simp add: fail_request_def)

lemma answer_calls:
  "gw_calls (snd (answer_request w t c good e s)) =
     gw_calls s @ (if gw_client s \<and> bk_admits (gd_breaker w) t (gw_breaker s) then [c] else [])"
proof -
  obtain r s' where "call_kis_api_with_breaker w t c s = (r, s')" by fastforce
  with call_calls [of w t c s] show ?thesis by (cases r) (simp_all add: answer_request_def)
qed

lemma answer_good:
  assumes "fst (answer_request w t c good e s) = (k, Some a)"
  shows "k = 200 \<and> good a \<and> gd_api w c = Inr a \<and> gw_calls (snd (answer_request w t c good e s)) = gw_calls s @ [c]"
  using assms call_answer [of w t c s]
  by (auto simp: answer_request_def finish_request_def Let_def split: prod.splits sum.splits if_splits)

text \<open>What every part of the daily prices handler leaves alone, the handler leaves alone.\<close>

lemma daily_frame:
  assumes "\<And>k s. f (snd (fail_request k s)) = f s" "\<And>e a s. f (snd (finish_request w e a s)) = f s"
    and "\<And>c l s. f (snd (fetch_daily_prices_from_db w c l s)) = f s" "f (begin_request s) = f s"
    and "\<And>c d only. f (snd (ask_broker_daily w t c d only (begin_request s))) = f s"
  shows "f (snd (get_daily_prices w t body s)) = f s"
proof (cases body)
  case (Some d)
  let ?code = "field ''stock_code'' JNull d" and ?days = "field ''num_days_to_fetch'' (JNum 30) d"
  show ?thesis
  proof (cases "jtruth ?code \<and> (\<exists>only. db_only ?code ?days = Inr only)")
    case True
    then obtain only where only: "db_only ?code ?days = Inr only" by blast
    obtain found s1 where a: "ask_broker_daily w t ?code ?days only (begin_request s) = (found, s1)" by fastforce
    obtain rs s2 where r: "fetch_daily_prices_from_db w ?code ?days s1 = (rs, s2)" by fastforce
    show ?thesis
      using True only a r assms(3) [of ?code ?days s1] assms(5) [of ?code ?days only]
      by (simp add: get_daily_prices_def Some Let_def assms(1,2,4) split: option.split)
  qed (auto simp: get_daily_prices_def Some Let_def assms(1,4) split: sum.split)
qed (simp add: get_daily_prices_def assms(1,4))

lemma fetch_calls [simp]: "gw_calls (snd (fetch_daily_prices_from_db w c l s)) = gw_calls s"
  by (simp add: fetch_daily_prices_from_db_def initialize_db_pool_def Let_def)

lemma limited_calls:
  "gw_calls (snd (limited b f s)) = (if b then gw_calls (snd (f s)) else gw_calls s)"
  by (simp add: limited_def rate_limit_handler_def)

lemma order_fields [simp]:
  "field ''stock_code'' d (order_body c q p) = JStr c" "field ''quantity'' d (order_body c q p) = JNum (of_int q)"
  "field ''price'' d (order_body c q p) = JNum (of_int p)"
  by (simp_all add: field_def order_body_def)

text \<open>What a client receives came from a good answer of the handler it asked.\<close>

lemma client_request_good:
  assumes "client_request net (limited ok h) s = (Some a, s')"
  shows "net = Arrives \<and> ok \<and> snd (h s) = s' \<and> (\<exists>k. fst (h s) = (k, Some a))"
  using assms by (auto simp: client_request_def limited_def rate_limit_handler_def split: network.splits prod.splits if_splits)

section \<open>Properties\<close>

text \<open>A breaker that never opens, and a broker that answers orders.\<close>

definition demo_gateway_world :: "nat gateway_world" where
  "demo_gateway_world =
     \<lparr>gd_api = (\<lambda>c. case c of PlaceBuy _ _ _ \<Rightarrow> Inr (Payload (JStr ''0001'')) | _ \<Rightarrow> Inr NoAnswer),
      gd_breaker = \<lparr>bk_admits = (\<lambda>_ b. b < 20), bk_rejected = (\<lambda>_ b. b),
        bk_done = (\<lambda>_ e b. (if e = None then 0 else b + 1, e \<noteq> None \<and> b = 19))\<rparr>,
      gd_encodes = (\<lambda>_. True), gd_pool_ok = True,
      gd_prices = (\<lambda>_ _. Inr [\<lparr>dp_date = ''2025-01-02'', dp_open = 1, dp_close = 1, dp_high = 1, dp_low = 1, dp_volume = 1\<rparr>])\<rparr>"

text \<open>
  The books of the gateway balance: after any sequence of requests, limited ones among them,
  every counted request is counted as exactly one of successful and failed, the history
  holds the newest hundred successes, and the success rate is a percentage.
\<close>

theorem gateway_books_balance:
  assumes "\<forall>a. gd_encodes w a"
  shows "(let s = gateway_run w rs (new_gateway b)
     in gw_total s = gw_successful s + gw_failed s \<and> length (gw_history s) = min 100 (gw_successful s) \<and>
        length (recent_requests s) \<le> 10 \<and> 0 \<le> success_rate s \<and> success_rate s \<le> 100)"
proof -
  have run: "accounted (gateway_run w rs s)" if "accounted s" for s
    using that by (induction rs arbitrary: s) (auto intro: step_accounted [OF _ assms])
  let ?s = "gateway_run w rs (new_gateway b)"
  have s: "accounted ?s" by (rule run) (simp add: accounted_def new_gateway_def)
  have "(of_nat (gw_successful ?s) :: rat) \<le> of_nat (max (gw_total ?s) 1)"
    using s by (simp only: of_nat_le_iff) (simp add: accounted_def)
  moreover have "(0 :: rat) < of_nat (max (gw_total ?s) 1)" by simp
  ultimately have "success_rate ?s \<le> 100"
    by (simp only: success_rate_def) (simp add: pos_divide_le_eq)
  with s show ?thesis by (simp add: accounted_def Let_def recent_requests_def success_rate_def)
qed

theorem gateway_books_balance_witness:
  "(let s = gateway_run demo_gateway_world [(0, BuyReq (Some (order_body ''005930'' 3 0))), (1, BalanceReq), (2, LimitedReq)] (new_gateway 0)
    in gw_total s = gw_successful s + gw_failed s)"
  using gateway_books_balance [of demo_gateway_world "[(0, BuyReq (Some (order_body ''005930'' 3 0))), (1, BalanceReq), (2, LimitedReq)]" 0]
  by (simp add: demo_gateway_world_def Let_def)

text \<open>
  When the client of the gateway receives the number of a purchase, the gateway has called the
  client of the broker exactly once, with the stock, quantity and price that were asked for, and
  that call returned the number. How often the order then goes out is a matter of
  that client (\<open>gd_api\<close> here, \<open>Kis_Client\<close> and \<open>Kis_Trading\<close> below).
\<close>

lemma order_number_one_call:
  assumes "client_buy w t net ok code quantity price s = (Some a, s')"
  shows "gw_calls s' = gw_calls s @ [PlaceBuy (JStr code) (JNum (of_int quantity)) (JNum (of_int price))] \<and>
    gd_api w (PlaceBuy (JStr code) (JNum (of_int quantity)) (JNum (of_int price))) = Inr a \<and>
    truthy_answer a \<and> code \<noteq> [] \<and> quantity \<noteq> 0"
proof -
  let ?b = "order_body code quantity price"
  from client_request_good [OF assms [unfolded client_buy_def]] obtain k where
    k: "fst (place_buy_order w t (Some ?b) s) = (k, Some a)" and s': "snd (place_buy_order w t (Some ?b) s) = s'"
    by blast
  have good: "code \<noteq> []" "quantity \<noteq> 0"
    using k by (auto simp: place_buy_order_def Let_def split: if_splits)
  then have run: "place_buy_order w t (Some ?b) s =
      answer_request w t (PlaceBuy (JStr code) (JNum (of_int quantity)) (JNum (of_int price))) truthy_answer
        \<lparr>re_endpoint = ''/api/trading/buy'', re_code = Some (JStr code), re_quantity = Some (JNum (of_int quantity))\<rparr>
        (begin_request s)"
    by (simp add: place_buy_order_def Let_def)
  from answer_good [OF k [unfolded run]] good s' show ?thesis by (simp add: run)
qed

text \<open>
  No answer does not mean no order: when the reply is lost on the way back the client reports
  a failure, although the order has been passed to the broker client; and a client that tries
  again orders twice.
\<close>

theorem lost_reply_orders_twice:
  assumes "gw_client s" "\<forall>b t. bk_admits (gd_breaker w) t b" "code \<noteq> []" "quantity \<noteq> 0"
  shows "(let order = PlaceBuy (JStr code) (JNum (of_int quantity)) (JNum (of_int price));
             (a, s1) = client_buy w t ReplyLost True code quantity price s
          in a = None \<and> gw_calls s1 = gw_calls s @ [order] \<and>
             gw_calls (snd (client_buy w t' Arrives True code quantity price s1)) = gw_calls s @ [order, order])"
proof -
  let ?b = "order_body code quantity price"
  let ?order = "PlaceBuy (JStr code) (JNum (of_int quantity)) (JNum (of_int price))"
  have calls: "gw_calls (snd (place_buy_order w t (Some ?b) s)) = gw_calls s @ [?order]" if "gw_client s" for t s
    using assms(2-4) that by (simp add: place_buy_order_def Let_def answer_calls)
  have client: "gw_client (snd (place_buy_order w t (Some ?b) s))"
    using assms(1) by (auto simp: place_buy_order_def Let_def answer_request_def call_kis_api_with_breaker_def fail_request_def
        finish_request_def begin_request_def split: sum.split prod.split)
  show ?thesis
    using calls [OF assms(1), of t] calls [OF client, of t']
    by (simp add: client_buy_def client_request_def limited_def Let_def split_beta)
qed

theorem lost_reply_orders_twice_witness:
  "length (gw_calls (snd (client_buy (demo_gateway_world\<lparr>gd_breaker := (gd_breaker demo_gateway_world)\<lparr>bk_admits := \<lambda>_ _. True\<rparr>\<rparr>) 40 Arrives True ''005930'' 3 0
     (snd (client_buy (demo_gateway_world\<lparr>gd_breaker := (gd_breaker demo_gateway_world)\<lparr>bk_admits := \<lambda>_ _. True\<rparr>\<rparr>) 0 ReplyLost True ''005930'' 3 0 (new_gateway 0)))))) = 2"
  using lost_reply_orders_twice [of "new_gateway (0::nat)" "demo_gateway_world\<lparr>gd_breaker := (gd_breaker demo_gateway_world)\<lparr>bk_admits := \<lambda>_ _. True\<rparr>\<rparr>"
      "''005930''" 3 0 0 40]
  by (simp add: new_gateway_def split_beta Let_def)

text \<open>
  An open breaker protects the broker: no request of any kind reaches its client, orders and account
  requests that are complete are answered with 503, and daily prices still come from the database.
\<close>

theorem open_breaker_protects:
  assumes "gw_client s" "\<not> bk_admits (gd_breaker w) t (gw_breaker s)"
  shows "gw_calls (snd (gateway_step w (t, r) s)) = gw_calls s \<and>
    (code \<noteq> [] \<longrightarrow> quantity \<noteq> 0 \<longrightarrow> fst (place_buy_order w t (Some (order_body code quantity price)) s) = (503, None) \<and>
       fst (place_sell_order w t (Some (order_body code quantity price)) s) = (503, None)) \<and>
    fst (get_account_balance w t s) = (503, None) \<and> fst (get_cash_balance w t s) = (503, None)"
proof -
  have call: "call_kis_api_with_breaker w t c (begin_request s) =
      (Inl BreakerOpen, begin_request s\<lparr>gw_breaker := bk_rejected (gd_breaker w) t (gw_breaker s)\<rparr>)" for c
    using assms by (simp add: call_kis_api_with_breaker_def)
  have answer: "fst (answer_request w t c g e (begin_request s)) = (503, None)" for c g e
    by (simp add: answer_request_def call failure_status_def)
  have calls: "gw_calls (snd (answer_request w t c g e (begin_request s))) = gw_calls s" for c g e
    using assms by (simp add: answer_calls)
  have ask: "gw_calls (snd (ask_broker_daily w t c d only (begin_request s))) = gw_calls s" for c d only
    by (simp add: ask_broker_daily_def call)
  have daily: "gw_calls (snd (get_daily_prices w t body s)) = gw_calls s" for body
    by (rule daily_frame) (simp_all add: ask)
  have "gw_calls (snd (gateway_step w (t, r) s)) = gw_calls s"
    by (cases r) (auto simp: get_snapshot_def place_buy_order_def place_sell_order_def get_account_balance_def
        get_cash_balance_def rate_limit_handler_def calls daily Let_def split: option.split)
  then show ?thesis
    by (simp add: place_buy_order_def place_sell_order_def get_account_balance_def get_cash_balance_def answer Let_def)
qed

theorem open_breaker_protects_witness:
  "fst (place_buy_order demo_gateway_world 0 (Some (order_body ''005930'' 3 0)) (new_gateway 20)) = (503, None)"
  using open_breaker_protects [of "new_gateway 20" demo_gateway_world 0 CashReq "''005930''" 3 0]
  by (simp add: new_gateway_def demo_gateway_world_def)

text \<open>
  The breaker does not see failures without an exception: a broker client that answers None,
  as it does after an error it has logged itself, is reported to the breaker as a
  success, so a breaker that only opens on exceptions stays as it is and is never tripped,
  however many requests fail.
\<close>

theorem silent_failures_never_trip:
  assumes "\<forall>c. gd_api w c = Inr NoAnswer" "\<forall>t b. bk_done (gd_breaker w) t None b = (b, False)"
    and "\<forall>t b. bk_rejected (gd_breaker w) t b = b"
  shows "gw_breaker (gateway_run w rs s) = gw_breaker s \<and> gw_trips (gateway_run w rs s) = gw_trips s"
proof -
  have call: "gw_breaker (snd (call_kis_api_with_breaker w t c s)) = gw_breaker s \<and>
      gw_trips (snd (call_kis_api_with_breaker w t c s)) = gw_trips s" for t c s
    using assms by (simp add: call_kis_api_with_breaker_def Let_def)
  have frames: "gw_breaker (begin_request s) = gw_breaker s" "gw_trips (begin_request s) = gw_trips s"
    "gw_breaker (snd (fail_request k s)) = gw_breaker s" "gw_trips (snd (fail_request k s)) = gw_trips s"
    "gw_breaker (snd (finish_request w e a s)) = gw_breaker s" "gw_trips (snd (finish_request w e a s)) = gw_trips s"
    "gw_breaker (snd (fetch_daily_prices_from_db w c l s)) = gw_breaker s"
    "gw_trips (snd (fetch_daily_prices_from_db w c l s)) = gw_trips s" for k e a c l s
    by (simp_all add: begin_request_def fail_request_def finish_request_def fetch_daily_prices_from_db_def
        initialize_db_pool_def Let_def)
  have answer: "gw_breaker (snd (answer_request w t c g e s)) = gw_breaker s \<and> gw_trips (snd (answer_request w t c g e s)) = gw_trips s"
    for t c g e s
  proof -
    obtain r s' where "call_kis_api_with_breaker w t c s = (r, s')" by fastforce
    with call [of t c s] show ?thesis by (cases r) (simp_all add: answer_request_def frames)
  qed
  have ask: "gw_breaker (snd (ask_broker_daily w t c d only s)) = gw_breaker s \<and> gw_trips (snd (ask_broker_daily w t c d only s)) = gw_trips s"
    for t c d only s
    using call [of t "DailyPrices c d" s]
    by (auto simp: ask_broker_daily_def split: prod.split sum.split api_answer.split)
  have daily: "gw_breaker (snd (get_daily_prices w t body s)) = gw_breaker s \<and> gw_trips (snd (get_daily_prices w t body s)) = gw_trips s"
    for t body s
    using daily_frame [of gw_breaker w s t body] daily_frame [of gw_trips w s t body] ask by (simp add: frames)
  have step: "gw_breaker (snd (gateway_step w r s)) = gw_breaker s \<and> gw_trips (snd (gateway_step w r s)) = gw_trips s" for r s
  proof -
    obtain t q where r: "r = (t, q)" by (cases r)
    show ?thesis
      using answer [of t _ _ _ "begin_request s"] daily [of t _ s]
      by (cases q) (auto simp: r get_snapshot_def place_buy_order_def place_sell_order_def get_account_balance_def
          get_cash_balance_def rate_limit_handler_def frames Let_def split: option.split)
  qed
  show ?thesis by (induction rs arbitrary: s) (auto simp: step)
qed

definition silent_world :: "nat gateway_world" where
  "silent_world = demo_gateway_world\<lparr>gd_api := \<lambda>_. Inr NoAnswer,
     gd_breaker := \<lparr>bk_admits = (\<lambda>_ b. b < 20), bk_rejected = (\<lambda>_ b. b),
       bk_done = (\<lambda>_ e b. if e = None then (b, False) else (b + 1, b = 19))\<rparr>\<rparr>"

theorem silent_failures_never_trip_witness:
  "gw_trips (gateway_run silent_world (replicate 100 (0, BuyReq (Some (order_body ''005930'' 3 0)))) (new_gateway 0)) = 0"
  using silent_failures_never_trip [of silent_world "replicate 100 (0, BuyReq (Some (order_body ''005930'' 3 0)))" "new_gateway 0"]
  by (simp add: silent_world_def new_gateway_def)

text \<open>A failed balance request is reported to the caller as a balance of zero.\<close>

lemma failed_cash_is_zero:
  "net \<noteq> Arrives \<or> \<not> ok \<Longrightarrow> fst (client_cash_balance w t net ok s) = Inr 0"
  by (cases net) (auto simp: client_cash_balance_def client_request_def limited_def rate_limit_handler_def split_beta)

end
