(* ===== verification/Quant_Scoring.thy ===== *)
theory Quant_Scoring
  imports Factor_Scoring Redis_Cache "HOL-Library.Multiset"
begin

text \<open>
  \<open>shared/hybrid_scoring/quant_scorer.py\<close> with its constants and the confidence functions of
  \<open>schema.py\<close>: the quantitative score of a stock out of 100, made of six part scores and a
  bonus, its short-term and long-term scores, and the filter that keeps the best part of a
  list of stocks.

  The price table, the statistics tables and the master table are read through a world
  record. What a loader found is remembered in the caches of the scorer. The detail
  dictionaries are modelled by the entries the code reads again. Texts of reasons are left
  out.
\<close>

section \<open>Constants\<close>

definition SECTOR_RSI_MULTIPLIER :: "(string \<times> rat) list" where
  "SECTOR_RSI_MULTIPLIER =
     [([CHR 0xEC, CHR 0xA1, CHR 0xB0, CHR 0xEC, CHR 0x84, CHR 0xA0, CHR 0xEC, CHR 0x9A, CHR 0xB4, CHR 0xEC, CHR 0x86, CHR 0xA1], 13/10),
      ([CHR 0xEA, CHR 0xB8, CHR 0x88, CHR 0xEC, CHR 0x9C, CHR 0xB5], 125/100),
      ([CHR 0xEC, CHR 0x9E, CHR 0x90, CHR 0xEC, CHR 0x9C, CHR 0xA0, CHR 0xEC, CHR 0x86, CHR 0x8C, CHR 0xEB, CHR 0xB9, CHR 0x84, CHR 0xEC, CHR 0x9E, CHR 0xAC], 11/10),
      ([CHR 0xEC, CHR 0xA0, CHR 0x95, CHR 0xEB, CHR 0xB3, CHR 0xB4, CHR 0xED, CHR 0x86, CHR 0xB5, CHR 0xEC, CHR 0x8B, CHR 0xA0], 11/10),
      ([CHR 0xEC, CHR 0x97, CHR 0x90, CHR 0xEB, CHR 0x84, CHR 0x88, CHR 0xEC, CHR 0xA7, CHR 0x80, CHR 0xED, CHR 0x99, CHR 0x94, CHR 0xED, CHR 0x95, CHR 0x99], 105/100),
      (''etc'', 105/100),
      ([CHR 0xEB, CHR 0xAF, CHR 0xB8, CHR 0xEB, CHR 0xB6, CHR 0x84, CHR 0xEB, CHR 0xA5, CHR 0x98], 105/100),
      ([CHR 0xED, CHR 0x95, CHR 0x84, CHR 0xEC, CHR 0x88, CHR 0x98, CHR 0xEC, CHR 0x86, CHR 0x8C, CHR 0xEB, CHR 0xB9, CHR 0x84, CHR 0xEC, CHR 0x9E, CHR 0xAC], 9/10),
      ([CHR 0xEA, CHR 0xB1, CHR 0xB4, CHR 0xEC, CHR 0x84, CHR 0xA4, CHR 0xEA, CHR 0xB8, CHR 0xB0, CHR 0xEA, CHR 0xB3, CHR 0x84], 7/10)]"

definition unclassified :: string where
  "unclassified = [CHR 0xEB, CHR 0xAF, CHR 0xB8, CHR 0xEB, CHR 0xB6, CHR 0x84, CHR 0xEB, CHR 0xA5, CHR 0x98]"

definition news_order :: string where
  "news_order = [CHR 0xEC, CHR 0x88, CHR 0x98, CHR 0xEC, CHR 0xA3, CHR 0xBC]"

definition news_results :: string where
  "news_results = [CHR 0xEC, CHR 0x8B, CHR 0xA4, CHR 0xEC, CHR 0xA0, CHR 0x81]"

definition news_dividend :: string where
  "news_dividend = [CHR 0xEB, CHR 0xB0, CHR 0xB0, CHR 0xEB, CHR 0x8B, CHR 0xB9]"

definition news_venture :: string where
  "news_venture = [CHR 0xEC, CHR 0x8B, CHR 0xA0, CHR 0xEC, CHR 0x82, CHR 0xAC, CHR 0xEC, CHR 0x97, CHR 0x85]"

definition news_other :: string where
  "news_other = [CHR 0xEA, CHR 0xB8, CHR 0xB0, CHR 0xED, CHR 0x83, CHR 0x80]"

definition NEWS_LONG_TERM_POSITIVE :: "string list" where
  "NEWS_LONG_TERM_POSITIVE = [news_order, news_results, news_dividend]"

definition NEWS_REVERSE_SIGNAL_CATEGORIES :: "string list" where
  "NEWS_REVERSE_SIGNAL_CATEGORIES =
     [news_order, news_dividend, [CHR 0xEC, CHR 0x9E, CHR 0x90, CHR 0xEC, CHR 0x82, CHR 0xAC, CHR 0xEC, CHR 0xA3, CHR 0xBC],
      [CHR 0xEC, CHR 0xA3, CHR 0xBC, CHR 0xEC, CHR 0xA3, CHR 0xBC, CHR 0xED, CHR 0x99, CHR 0x98, CHR 0xEC, CHR 0x9B, CHR 0x90]]"

record news_effect =
  d5_win_rate :: rat
  d60_win_rate :: rat
  d60_return :: rat

definition NEWS_TIME_EFFECT :: "(string \<times> news_effect) list" where
  "NEWS_TIME_EFFECT =
     [(news_order, \<lparr>d5_win_rate = 437/1000, d60_win_rate = 727/1000, d60_return = 1936/10000\<rparr>),
      (news_results, \<lparr>d5_win_rate = 484/1000, d60_win_rate = 648/1000, d60_return = 1403/10000\<rparr>),
      (news_dividend, \<lparr>d5_win_rate = 376/1000, d60_win_rate = 540/1000, d60_return = 998/10000\<rparr>),
      (news_venture, \<lparr>d5_win_rate = 469/1000, d60_win_rate = 571/1000, d60_return = 636/10000\<rparr>),
      (''M&A'', \<lparr>d5_win_rate = 483/1000, d60_win_rate = 571/1000, d60_return = 795/10000\<rparr>)]"

definition DEFAULT_FILTER_CUTOFF :: rat where
  "DEFAULT_FILTER_CUTOFF = 2/10"

definition default_factor_weights :: "(string \<times> rat) list" where
  "default_factor_weights =
     [(''quality_roe'', 25/100), (''technical_rsi'', 20/100), (''compound_rsi_foreign'', 15/100),
      (''supply_foreign'', 12/100), (''supply_institution'', 8/100), (''value_per'', 7/100),
      (''technical_volume'', 5/100), (''momentum_6m'', 2/100), (''momentum_1m'', 1/100),
      (''value_pbr'', 2/100), (''quality_growth'', 3/100), (''news_short_term'', - 5/100),
      (''news_long_term'', 10/100)]"

definition get_confidence_level :: "int \<Rightarrow> string" where
  "get_confidence_level n = (if 30 \<le> n then ''HIGH'' else if 15 \<le> n then ''MID'' else ''LOW'')"

definition get_confidence_weight :: "int \<Rightarrow> rat" where
  "get_confidence_weight n =
     (if 30 \<le> n then 1 else if 20 \<le> n then 8/10 else if 10 \<le> n then 5/10 else if 5 \<le> n then 3/10 else 0)"

section \<open>What the scorer reads\<close>

text \<open>Rows of the statistics tables; a null is None.\<close>

record perf_row =
  pr_key :: string
  pr_win_rate :: "rat option"
  pr_sample_count :: "int option"
  pr_confidence :: "string option"

record news_row =
  nr_win_rate_d5 :: "rat option"
  nr_return_d5 :: "rat option"
  nr_sample_count :: "int option"
  nr_confidence :: "string option"

text \<open>Rows of FACTOR_METADATA: the regime, the key and the recommended weight.\<close>

type_synonym weight_rows = "(string \<times> string \<times> rat option) list"

record quant_world =
  qw_connected :: bool
  qw_dict_rows :: bool
  qw_weights :: "weight_rows res"
  qw_perf :: "string \<Rightarrow> perf_row list res"
  qw_news :: "string \<Rightarrow> string option \<Rightarrow> news_row option res"
  qw_sector :: "string \<Rightarrow> string option option res"
  qw_backend :: backend

record condition =
  cd_key :: string
  cd_win_rate :: rat
  cd_sample_count :: int
  cd_confidence :: string

record perf_info =
  pi_conditions :: "condition list"
  pi_best_win_rate :: "rat option"
  pi_sample_count :: int
  pi_confidence :: string

record news_info =
  ni_win_rate :: "rat option"
  ni_avg_return :: "rat option"
  ni_sample_count :: int
  ni_confidence :: string

record quant_caches =
  qc_perf :: "string \<rightharpoonup> perf_info"
  qc_news :: "string \<rightharpoonup> news_info"
  qc_sector :: "string \<rightharpoonup> string"

definition no_caches :: quant_caches where
  "no_caches = \<lparr>qc_perf = Map.empty, qc_news = Map.empty, qc_sector = Map.empty\<rparr>"

text \<open>
  The weights: the rows of the regime come first in the answer of the query and those for
  all regimes last, so that the latter overwrite the former.
\<close>

definition weights_query :: "string \<Rightarrow> weight_rows \<Rightarrow> weight_rows" where
  "weights_query regime rows =
     filter (\<lambda>(r, _). r = regime) rows @ filter (\<lambda>(r, _). r = ''ALL'' \<and> r \<noteq> regime) rows"

definition load_factor_weights :: "quant_world \<Rightarrow> string \<Rightarrow> (string \<times> rat) list" where
  "load_factor_weights w regime =
     (if \<not> qw_connected w then default_factor_weights
      else case qw_weights w of
        Inl _ \<Rightarrow> default_factor_weights
      | Inr rows \<Rightarrow>
          fold (\<lambda>(_, k, v) ws. case v of Some x \<Rightarrow> if k \<noteq> [] then AList.update k x ws else ws | None \<Rightarrow> ws)
            (weights_query regime rows) default_factor_weights)"

text \<open>
  A cache in front of a lookup: without a connection nothing is looked up or remembered;
  with one, whatever comes out is remembered, a failed lookup too.
\<close>

definition remembered :: "bool \<Rightarrow> 'v \<Rightarrow> ('k \<Rightarrow> 'v) \<Rightarrow> 'k \<Rightarrow> ('k \<rightharpoonup> 'v) \<Rightarrow> 'v \<times> ('k \<rightharpoonup> 'v)" where
  "remembered has_db default_value find_out k cache =
     (case cache k of
        Some v \<Rightarrow> (v, cache)
      | None \<Rightarrow> if has_db then (find_out k, cache(k \<mapsto> find_out k)) else (default_value, cache))"

definition float_or_zero :: "rat option \<Rightarrow> rat" where
  "float_or_zero x = (case x of None \<Rightarrow> 0 | Some r \<Rightarrow> r)"

definition condition_of_row :: "perf_row \<Rightarrow> condition" where
  "condition_of_row r =
     \<lparr>cd_key = pr_key r, cd_win_rate = float_or_zero (pr_win_rate r),
      cd_sample_count = (case pr_sample_count r of None \<Rightarrow> 0 | Some n \<Rightarrow> n),
      cd_confidence = (case pr_confidence r of Some (c # cs) \<Rightarrow> c # cs | _ \<Rightarrow> ''LOW'')\<rparr>"

definition no_perf :: perf_info where
  "no_perf = \<lparr>pi_conditions = [], pi_best_win_rate = None, pi_sample_count = 0, pi_confidence = ''LOW''\<rparr>"

text \<open>\<open>max(conditions, key=win_rate)\<close>: the first condition with the highest win rate.\<close>

definition best_condition :: "condition \<Rightarrow> condition list \<Rightarrow> condition" where
  "best_condition c cs = fold (\<lambda>x b. if cd_win_rate b < cd_win_rate x then x else b) cs c"

definition perf_of_rows :: "perf_row list res \<Rightarrow> perf_info" where
  "perf_of_rows rows =
     (case rows of
        Inl _ \<Rightarrow> no_perf
      | Inr [] \<Rightarrow> no_perf
      | Inr (r # rs) \<Rightarrow>
          (let cs = map condition_of_row (r # rs); best = best_condition (condition_of_row r) (map condition_of_row rs)
            in \<lparr>pi_conditions = cs, pi_best_win_rate = Some (cd_win_rate best),
                pi_sample_count = cd_sample_count best, pi_confidence = cd_confidence best\<rparr>))"

definition load_factor_performance :: "quant_world \<Rightarrow> string \<Rightarrow> quant_caches \<Rightarrow> perf_info \<times> quant_caches" where
  "load_factor_performance w code s =
     (let (v, c) = remembered (qw_connected w) no_perf (\<lambda>k. perf_of_rows (qw_perf w k)) code (qc_perf s)
       in (v, s\<lparr>qc_perf := c\<rparr>))"

definition no_news :: news_info where
  "no_news = \<lparr>ni_win_rate = None, ni_avg_return = None, ni_sample_count = 0, ni_confidence = ''LOW''\<rparr>"

text \<open>
  A cursor that answers dictionaries turns a missing or zero rate into 0.0, one that answers
  tuples turns it into None.
\<close>

definition rate_of :: "bool \<Rightarrow> rat option \<Rightarrow> rat option" where
  "rate_of dict x = (if dict then Some (float_or_zero x) else case x of Some r \<Rightarrow> if r = 0 then None else Some r | None \<Rightarrow> None)"

definition news_of_row :: "bool \<Rightarrow> news_row option res \<Rightarrow> news_info" where
  "news_of_row dict row =
     (case row of
        Inr (Some r) \<Rightarrow>
          \<lparr>ni_win_rate = rate_of dict (nr_win_rate_d5 r), ni_avg_return = rate_of dict (nr_return_d5 r),
           ni_sample_count = (case nr_sample_count r of None \<Rightarrow> 0 | Some n \<Rightarrow> n),
           ni_confidence = (case nr_confidence r of Some (c # cs) \<Rightarrow> c # cs | _ \<Rightarrow> ''LOW'')\<rparr>
      | _ \<Rightarrow> no_news)"

text \<open>An empty category counts as none: the query is then over all categories.\<close>

definition category_or :: "string \<Rightarrow> string option \<Rightarrow> string" where
  "category_or d cat = (case cat of Some (c # cs) \<Rightarrow> c # cs | _ \<Rightarrow> d)"

definition load_news_stats ::
  "quant_world \<Rightarrow> string \<Rightarrow> string option \<Rightarrow> quant_caches \<Rightarrow> news_info \<times> quant_caches" where
  "load_news_stats w code cat s =
     (let key = code @ '':'' @ category_or ''ALL'' cat;
          asked = (case cat of Some (c # cs) \<Rightarrow> Some (c # cs) | _ \<Rightarrow> None);
          (v, c) = remembered (qw_connected w) no_news
            (\<lambda>_. news_of_row (qw_dict_rows w) (qw_news w code asked)) key (qc_news s)
       in (v, s\<lparr>qc_news := c\<rparr>))"

definition sector_of_row :: "string option option res \<Rightarrow> string" where
  "sector_of_row row = (case row of Inr (Some (Some (c # cs))) \<Rightarrow> c # cs | _ \<Rightarrow> unclassified)"

definition get_stock_sector :: "quant_world \<Rightarrow> string \<Rightarrow> quant_caches \<Rightarrow> string \<times> quant_caches" where
  "get_stock_sector w code s =
     (let (v, c) = remembered (qw_connected w) unclassified (\<lambda>k. sector_of_row (qw_sector w k)) code (qc_sector s)
       in (v, s\<lparr>qc_sector := c\<rparr>))"

text \<open>The three loaders are memoised lookups: connected, a key keeps its first answer.\<close>

interpretation quant_memo: memo_lookup
  "\<lambda>k (find_out :: 'k \<Rightarrow> 'v) cache. (Inr (fst (remembered True (find_out k) find_out k cache)),
     snd (remembered True (find_out k) find_out k cache))" "\<lambda>cache. cache"
  by unfold_locales (auto simp: remembered_def split: option.splits)

section \<open>The part scores\<close>

text \<open>Oversold with foreign buying: five points more.\<close>

definition rsi_oversold :: "rat option \<Rightarrow> bool" where
  "rsi_oversold rsi = (case rsi of None \<Rightarrow> False | Some r \<Rightarrow> r < 30)"

definition usable_volume :: "rat option \<Rightarrow> rat option" where
  "usable_volume avg_volume = (case avg_volume of None \<Rightarrow> None | Some v \<Rightarrow> if 0 < v then Some v else None)"

definition foreign_buying :: "int option \<Rightarrow> rat option \<Rightarrow> bool" where
  "foreign_buying net avg_volume =
     (case net of
        None \<Rightarrow> False
      | Some n \<Rightarrow>
          (case usable_volume avg_volume of
             Some v \<Rightarrow> 1/100 < of_int n / v
           | None \<Rightarrow> 100000 < n))"

definition compound_condition_bonus :: "rat option \<Rightarrow> int option \<Rightarrow> rat option \<Rightarrow> rat" where
  "compound_condition_bonus rsi net avg_volume =
     (if rsi_oversold rsi \<and> foreign_buying net avg_volume then 5 else 0)"

text \<open>Momentum, 25 points.\<close>

definition quant_momentum_6m :: "rat list \<Rightarrow> rat list option \<Rightarrow> rat res" where
  "quant_momentum_6m stock kospi =
     (if 120 \<le> length stock then
        rbind (float_return (iloc_end stock 1) (iloc_end stock 120)) (\<lambda>stock_return.
          (case kospi of
             Some ks \<Rightarrow>
               if 120 \<le> length ks then
                 rbind (float_return (iloc_end ks 1) (iloc_end ks 120)) (\<lambda>kospi_return.
                   Inr (max 0 (min 15 (75/10 + (stock_return - kospi_return) * (25/100)))))
               else Inr (max 0 (min 15 (5 + stock_return * (25/100))))
           | None \<Rightarrow> Inr (max 0 (min 15 (5 + stock_return * (25/100))))))
      else Inr (75/10))"

definition quant_momentum_1m :: "rat list \<Rightarrow> rat list option \<Rightarrow> rat" where
  "quant_momentum_1m stock kospi =
     (if 20 \<le> length stock then
        (let stock_return = np_return (iloc_end stock 1) (iloc_end stock 20)
          in case kospi of
               Some ks \<Rightarrow>
                 if 20 \<le> length ks then
                   clamp 0 5 (ieee_affine (25/100) (25/10)
                     (ieee_sub stock_return (np_return (iloc_end ks 1) (iloc_end ks 20))))
                 else clamp 0 5 (ieee_affine (25/100) (25/10) stock_return)
             | None \<Rightarrow> clamp 0 5 (ieee_affine (25/100) (25/10) stock_return))
      else 25/10)"

definition quant_consistency :: "rat list \<Rightarrow> rat" where
  "quant_consistency stock =
     (if 120 \<le> length stock then
        let ms = monthly_returns stock in
        if ms \<noteq> [] then of_nat (length (filter ieee_pos ms)) / of_nat (length ms) * 5 else 25/10
      else 25/10)"

definition quant_momentum :: "rat list \<Rightarrow> rat list option \<Rightarrow> rat" where
  "quant_momentum stock kospi =
     (case quant_momentum_6m stock kospi of
        Inl _ \<Rightarrow> 125/10
      | Inr m6 \<Rightarrow> m6 + quant_momentum_1m stock kospi + quant_consistency stock)"

text \<open>Quality, 20 points.\<close>

definition quant_stability :: "backend \<Rightarrow> rat list \<Rightarrow> rat" where
  "quant_stability b xs =
     (if 60 \<le> length xs then
        (case finite_values (daily_returns xs) of
           None \<Rightarrow> 0
         | Some rs \<Rightarrow> if length rs < 2 then 0 else max 0 (3 - std_last b rs * 100 * (6/10)))
      else 15/10)"

definition quant_quality :: "backend \<Rightarrow> rat option \<Rightarrow> rat option \<Rightarrow> rat option \<Rightarrow> rat list \<Rightarrow> rat" where
  "quant_quality b roe sales_growth eps_growth xs =
     or_neutral 5 (\<lambda>r. max 0 (min 10 (5 + r * (167/1000)))) roe
     + (or_neutral (175/100) (\<lambda>g. max 0 (min (35/10) (175/100 + g * (875/10000)))) sales_growth
        + or_neutral (175/100) (\<lambda>g. max 0 (min (35/10) (175/100 + g * (58/1000)))) eps_growth)
     + quant_stability b xs"

text \<open>Value, 15 points.\<close>

definition quant_value :: "rat option \<Rightarrow> rat option \<Rightarrow> rat" where
  "quant_value pbr per =
     (case pbr of None \<Rightarrow> 375/100 | Some x \<Rightarrow> if 0 < x then max 0 (min (75/10) (75/10 - (x - 1/2) * 3)) else 375/100)
     + (case per of None \<Rightarrow> 0 | Some x \<Rightarrow> if 0 < x then max 0 (min (75/10) (75/10 - (x - 5) * (3/10))) else 0)"

text \<open>Technical, 10 points, with a multiplier of the sector.\<close>

definition quant_volume :: "price_row list \<Rightarrow> rat" where
  "quant_volume rows =
     (let vs = map row_volume rows in
      if 25 \<le> length vs then
        (case np_mean (take 20 (last_n 25 vs)) of
           None \<Rightarrow> 2
         | Some past \<Rightarrow>
             if 0 < past then
               clamp 0 4 (case np_mean (last_n 5 vs) of
                            None \<Rightarrow> NaN
                          | Some recent \<Rightarrow> Fin ((recent / past - 1/2) * (16/10)))
             else 2)
      else 2)"

definition quant_rsi_raw :: "rat \<Rightarrow> rat" where
  "quant_rsi_raw r =
     (if r \<le> 30 then 3
      else if r \<le> 50 then 3 - (r - 30) * (75/1000)
      else if r \<le> 70 then 15/10 - (r - 50) * (5/100)
      else max 0 (5/10 - (r - 70) * (25/1000)))"

definition sector_multiplier :: "string \<Rightarrow> rat" where
  "sector_multiplier sector = dict_get sector 1 SECTOR_RSI_MULTIPLIER"

definition quant_rsi :: "string \<Rightarrow> rat option \<Rightarrow> rat" where
  "quant_rsi sector rsi = (case rsi of None \<Rightarrow> 15/10 | Some r \<Rightarrow> min 3 (quant_rsi_raw r * sector_multiplier sector))"

definition quant_band :: "backend \<Rightarrow> rat list \<Rightarrow> rat" where
  "quant_band b xs =
     (if 20 \<le> length xs then
        let ma20 = sum_list (last_n 20 xs) / 20;
            std20 = std_last b (last_n 20 xs);
            bb_upper = ma20 + 2 * std20;
            bb_lower = ma20 - 2 * std20;
            current_price = last xs
        in if bb_lower < bb_upper
           then max 0 (3 - (current_price - bb_lower) / (bb_upper - bb_lower) * 3) else 15/10
      else 15/10)"

definition frame_rsi :: "backend \<Rightarrow> price_row list \<Rightarrow> rat option" where
  "frame_rsi b rows = calculate_rsi b (Frame (row_bars rows)) 14"

definition quant_technical :: "backend \<Rightarrow> price_row list \<Rightarrow> string \<Rightarrow> rat" where
  "quant_technical b rows sector =
     quant_volume rows + quant_rsi sector (frame_rsi b rows) + quant_band b (row_closes rows)"

text \<open>When to act on news of a category: the signal and the days to hold.\<close>

definition news_timing_signal :: "string \<Rightarrow> rat \<Rightarrow> string \<times> int" where
  "news_timing_signal category sentiment =
     (case map_of NEWS_TIME_EFFECT category of
        None \<Rightarrow> (''NEUTRAL'', 5)
      | Some e \<Rightarrow>
          if 70 \<le> sentiment then
            if d5_win_rate e < 50/100 \<and> 60/100 \<le> d60_win_rate e then (''WAIT_DIP'', 60)
            else if 55/100 \<le> d5_win_rate e then (''BUY_NOW'', 5)
            else (''NEUTRAL'', 20)
          else if sentiment < 30 then (''SELL_NEWS'', 0)
          else (''NEUTRAL'', 5))"

text \<open>News, at most 10 points of the 15 it is meant to have.\<close>

definition is_reverse_news :: "string option \<Rightarrow> bool" where
  "is_reverse_news cat = (case cat of None \<Rightarrow> False | Some c \<Rightarrow> c \<in> set NEWS_REVERSE_SIGNAL_CATEGORIES)"

definition news_base_score :: "rat \<Rightarrow> rat" where
  "news_base_score win_rate =
     (if win_rate < 5/10 then max (- 3) ((win_rate - 5/10) * 14) else max 0 (min 7 ((win_rate - 5/10) * 14)))"

definition news_stat_part :: "news_info \<Rightarrow> rat" where
  "news_stat_part i =
     (case ni_win_rate i of
        None \<Rightarrow> 35/10
      | Some r \<Rightarrow> news_base_score r * get_confidence_weight (ni_sample_count i))"

definition quant_news :: "news_info \<Rightarrow> rat \<Rightarrow> string option \<Rightarrow> rat" where
  "quant_news i sentiment cat =
     max 0 (news_stat_part i
       + (let s = sentiment / 100 * 3 in if is_reverse_news cat \<and> 70 \<le> sentiment then s * (5/10) else s))"

text \<open>Supply and demand, 15 points.\<close>

definition net_score :: "rat \<Rightarrow> rat \<Rightarrow> rat \<Rightarrow> int option \<Rightarrow> rat option \<Rightarrow> rat" where
  "net_score points share shares net avg_volume =
     (case net of
        None \<Rightarrow> points / 2
      | Some n \<Rightarrow>
          (case usable_volume avg_volume of
             Some v \<Rightarrow> max 0 (min points (points / 2 + of_int n / v / share * (points / 2)))
           | None \<Rightarrow> max 0 (min points (points / 2 + of_int n / shares * (points / 2)))))"

definition holding_score :: "rat option \<Rightarrow> rat" where
  "holding_score ratio = (case ratio of None \<Rightarrow> 15/10 | Some r \<Rightarrow> min 3 (r / 50 * 3))"

definition quant_supply :: "int option \<Rightarrow> int option \<Rightarrow> rat option \<Rightarrow> rat option \<Rightarrow> rat" where
  "quant_supply foreign institution ratio avg_volume =
     net_score 7 (5/100) 1000000 foreign avg_volume + net_score 5 (3/100) 500000 institution avg_volume + holding_score ratio"

section \<open>The short-term and the long-term score\<close>

definition short_term_score ::
  "bool \<Rightarrow> bool \<Rightarrow> string \<Rightarrow> rat \<Rightarrow> rat \<Rightarrow> string option \<Rightarrow> rat \<Rightarrow> rat" where
  "short_term_score oversold buying sector supply quality cat sentiment =
     max 0 (min 100
       ((if oversold \<and> buying then 35 else if oversold then 20 else if buying then 15 else 0)
        + (if 12/10 \<le> sector_multiplier sector then 10 else if sector_multiplier sector \<le> 8/10 then - 10 else 0)
        + supply * (20/15) + quality * (10/20)
        - (if is_reverse_news cat \<and> 70 \<le> sentiment then 15 else 0)))"

definition roe_points :: "rat \<Rightarrow> rat" where
  "roe_points roe = (if 15 < roe then 30 else if 10 < roe then 20 else if 5 < roe then 10 else 0)"

definition long_news_points :: "string option \<Rightarrow> rat" where
  "long_news_points cat =
     (case cat of
        None \<Rightarrow> 0
      | Some c \<Rightarrow>
          (case map_of NEWS_TIME_EFFECT c of
             None \<Rightarrow> 0
           | Some e \<Rightarrow>
               if 70/100 \<le> d60_win_rate e then 25 else if 60/100 \<le> d60_win_rate e then 18
               else if 55/100 \<le> d60_win_rate e then 10 else 0))"

definition long_rsi_points :: "rat option \<Rightarrow> rat" where
  "long_rsi_points rsi =
     (if rsi_oversold rsi then 15 else case rsi of None \<Rightarrow> 0 | Some r \<Rightarrow> if r < 40 then 8 else 0)"

text \<open>The detail entry is 0 where the ratio is missing or not positive.\<close>

definition per_detail :: "rat option \<Rightarrow> rat" where
  "per_detail per = (case per of None \<Rightarrow> 0 | Some x \<Rightarrow> if 0 < x then py_round_digits 2 x else 0)"

definition roe_detail :: "rat option \<Rightarrow> rat" where
  "roe_detail roe = (case roe of None \<Rightarrow> 0 | Some x \<Rightarrow> py_round_digits 2 x)"

definition per_points :: "rat \<Rightarrow> rat" where
  "per_points per = (if 5 < per \<and> per < 15 then 10 else if per < 20 then 5 else 0)"

definition long_term_score :: "rat option \<Rightarrow> string option \<Rightarrow> rat option \<Rightarrow> rat option \<Rightarrow> rat \<Rightarrow> rat" where
  "long_term_score roe cat rsi per supply =
     max 0 (min 100 (roe_points (roe_detail roe) + long_news_points cat + long_rsi_points rsi
       + per_points (per_detail per) + supply * (10/15)))"

definition quant_grade :: "rat \<Rightarrow> string" where
  "quant_grade score =
     (if 80 \<le> score then ''A'' else if 65 \<le> score then ''B'' else if 50 \<le> score then ''C''
      else if 35 \<le> score then ''D'' else ''F'')"

section \<open>The result of a stock\<close>

datatype invalid_reason = NoPrices | FewPrices nat | ScoringFailed py_exc

record quant_result =
  qr_code :: string
  qr_name :: string
  qr_total :: rat
  qr_momentum :: rat
  qr_quality :: rat
  qr_value :: rat
  qr_technical :: rat
  qr_news :: rat
  qr_supply :: rat
  qr_matched :: "string list"
  qr_condition_win_rate :: "rat option"
  qr_condition_samples :: "int option"
  qr_condition_confidence :: string
  qr_news_win_rate :: "rat option"
  qr_news_samples :: "int option"
  qr_news_confidence :: string
  qr_rank :: nat
  qr_passed :: bool
  qr_invalid :: "invalid_reason option"
  qr_bonus :: rat
  qr_sector :: string
  qr_hold_long :: bool
  qr_short_score :: rat
  qr_short_grade :: string
  qr_long_score :: rat
  qr_long_grade :: string
  qr_timing :: string
  qr_hold_days :: int

definition qr_valid :: "quant_result \<Rightarrow> bool" where
  "qr_valid r \<longleftrightarrow> qr_invalid r = None"

record quant_input =
  qi_code :: string
  qi_name :: string
  qi_prices :: "price_row list option"
  qi_kospi :: "rat list option"
  qi_roe :: "rat option"
  qi_sales_growth :: "rat option"
  qi_eps_growth :: "rat option"
  qi_pbr :: "rat option"
  qi_per :: "rat option"
  qi_sentiment :: rat
  qi_category :: "string option"
  qi_foreign :: "int option"
  qi_institution :: "int option"
  qi_foreign_ratio :: "rat option"

definition invalid_result :: "quant_input \<Rightarrow> invalid_reason \<Rightarrow> quant_result" where
  "invalid_result q why =
     \<lparr>qr_code = qi_code q, qr_name = qi_name q, qr_total = 0, qr_momentum = 0, qr_quality = 0, qr_value = 0,
      qr_technical = 0, qr_news = 0, qr_supply = 0, qr_matched = [], qr_condition_win_rate = None,
      qr_condition_samples = Some 0, qr_condition_confidence = ''LOW'', qr_news_win_rate = None, qr_news_samples = None,
      qr_news_confidence = ''LOW'', qr_rank = 0, qr_passed = False, qr_invalid = Some why, qr_bonus = 0,
      qr_sector = unclassified, qr_hold_long = False, qr_short_score = 0, qr_short_grade = ''C'', qr_long_score = 0,
      qr_long_grade = ''C'', qr_timing = ''NEUTRAL'', qr_hold_days = 5\<rparr>"

definition avg_volume_of :: "price_row list \<Rightarrow> rat option" where
  "avg_volume_of rows = (if 20 \<le> length rows then np_mean (last_n 20 (map row_volume rows)) else None)"

text \<open>The statistics entries of the news details exist only when there is a win rate.\<close>

definition news_details :: "news_info \<Rightarrow> rat option \<times> int \<times> string" where
  "news_details i =
     (case ni_win_rate i of
        None \<Rightarrow> (None, 0, ''LOW'')
      | Some r \<Rightarrow> (Some (py_round_digits 4 r), ni_sample_count i, ni_confidence i))"

definition round2 :: "rat \<Rightarrow> rat" where
  "round2 x = py_round_digits 2 x"

text \<open>The six part scores and the bonus of an input with enough prices.\<close>

record quant_parts =
  qp_momentum :: rat
  qp_quality :: rat
  qp_value :: rat
  qp_technical :: rat
  qp_news :: rat
  qp_supply :: rat
  qp_bonus :: rat
  qp_rsi :: "rat option"
  qp_buying :: bool

definition quant_parts_of :: "backend \<Rightarrow> quant_input \<Rightarrow> price_row list \<Rightarrow> string \<Rightarrow> news_info \<Rightarrow> quant_parts" where
  "quant_parts_of b q rows sector news =
     (let avg = avg_volume_of rows; rsi = map_option round2 (frame_rsi b rows)
       in \<lparr>qp_momentum = quant_momentum (row_closes rows) (qi_kospi q),
           qp_quality = quant_quality b (qi_roe q) (qi_sales_growth q) (qi_eps_growth q) (row_closes rows),
           qp_value = quant_value (qi_pbr q) (qi_per q), qp_technical = quant_technical b rows sector,
           qp_news = quant_news news (qi_sentiment q) (qi_category q),
           qp_supply = quant_supply (qi_foreign q) (qi_institution q) (qi_foreign_ratio q) avg,
           qp_bonus = compound_condition_bonus rsi (qi_foreign q) avg, qp_rsi = rsi,
           qp_buying = foreign_buying (qi_foreign q) avg\<rparr>)"

definition quant_total :: "quant_parts \<Rightarrow> rat" where
  "quant_total p = qp_momentum p + qp_quality p + qp_value p + qp_technical p + qp_news p + qp_supply p + qp_bonus p"

definition scored_result :: "quant_input \<Rightarrow> quant_parts \<Rightarrow> string \<Rightarrow> news_info \<Rightarrow> perf_info \<Rightarrow> quant_result" where
  "scored_result q p sector news perf =
     (let (win, samples, conf) = news_details news;
          (timing, days) = news_timing_signal (category_or news_other (qi_category q)) (qi_sentiment q);
          short = short_term_score (rsi_oversold (qp_rsi p)) (qp_buying p) sector (qp_supply p) (qp_quality p)
            (qi_category q) (qi_sentiment q);
          long = long_term_score (qi_roe q) (qi_category q) (qp_rsi p) (qi_per q) (qp_supply p)
       in \<lparr>qr_code = qi_code q, qr_name = qi_name q, qr_total = round2 (quant_total p),
           qr_momentum = round2 (qp_momentum p), qr_quality = round2 (qp_quality p), qr_value = round2 (qp_value p),
           qr_technical = round2 (qp_technical p), qr_news = round2 (qp_news p), qr_supply = round2 (qp_supply p),
           qr_matched = map cd_key (pi_conditions perf), qr_condition_win_rate = pi_best_win_rate perf,
           qr_condition_samples = Some (pi_sample_count perf), qr_condition_confidence = pi_confidence perf,
           qr_news_win_rate = win, qr_news_samples = Some samples, qr_news_confidence = conf, qr_rank = 0,
           qr_passed = False, qr_invalid = None, qr_bonus = round2 (qp_bonus p), qr_sector = sector,
           qr_hold_long = ((case qi_category q of None \<Rightarrow> False | Some c \<Rightarrow> c \<in> set NEWS_LONG_TERM_POSITIVE) \<and> 70 \<le> qi_sentiment q),
           qr_short_score = round2 short, qr_short_grade = quant_grade short, qr_long_score = round2 long,
           qr_long_grade = quant_grade long, qr_timing = timing,
           qr_hold_days = (if timing = ''WAIT_DIP'' then 60 else days)\<rparr>)"

definition calculate_total_quant_score ::
  "quant_world \<Rightarrow> quant_input \<Rightarrow> quant_caches \<Rightarrow> quant_result \<times> quant_caches" where
  "calculate_total_quant_score w q s =
     (case qi_prices q of
        None \<Rightarrow> (invalid_result q NoPrices, s)
      | Some [] \<Rightarrow> (invalid_result q NoPrices, s)
      | Some rows \<Rightarrow>
          if length rows < 30 then (invalid_result q (FewPrices (length rows)), s)
          else
            (let (sector, s1) = get_stock_sector w (qi_code q) s;
                 (news, s2) = load_news_stats w (qi_code q) (qi_category q) s1;
                 p = quant_parts_of (qw_backend w) q rows sector news;
                 (perf, s3) = load_factor_performance w (qi_code q) s2
              in (scored_result q p sector news perf, s3)))"

section \<open>Filtering and saving\<close>

definition ranked :: "quant_result list \<Rightarrow> quant_result list" where
  "ranked rs = map (\<lambda>(i, r). r\<lparr>qr_rank := i + 1\<rparr>) (enumerate 0 rs)"

definition filter_candidates :: "quant_result list \<Rightarrow> rat option \<Rightarrow> quant_result list" where
  "filter_candidates results cutoff =
     (let ratio = (case cutoff of None \<Rightarrow> DEFAULT_FILTER_CUTOFF | Some c \<Rightarrow> c);
          valid = filter qr_valid results
       in if valid = [] then []
          else (let rs = ranked (sort_desc qr_total valid);
                    n = max 1 (py_int (of_nat (length rs) * (1 - ratio)))
                 in map (\<lambda>r. r\<lparr>qr_passed := True\<rparr>) (take (nat n) rs)))"

text \<open>
  A saved row by its stock: rank, total and whether it passed. The two savers reach the
  connection through \<open>self.db_connection\<close>, an attribute the class does not have: it
  keeps its connection in \<open>db_conn\<close>.
\<close>

datatype attribute = Db_conn | Db_connection

definition scorer_attribute :: "quant_world \<Rightarrow> attribute \<Rightarrow> bool res" where
  "scorer_attribute w a = (case a of Db_conn \<Rightarrow> Inr (qw_connected w) | Db_connection \<Rightarrow> Inl AttributeError)"

record score_row =
  sr_code :: string
  sr_total :: rat
  sr_rank :: nat
  sr_passed :: bool
  sr_hybrid :: "(rat \<times> rat \<times> bool) option"

definition score_row_of :: "quant_result \<Rightarrow> score_row" where
  "score_row_of r =
     \<lparr>sr_code = qr_code r, sr_total = qr_total r, sr_rank = qr_rank r, sr_passed = qr_passed r, sr_hybrid = None\<rparr>"

definition save_daily_scores ::
  "quant_world \<Rightarrow> quant_result list \<Rightarrow> (string \<times> score_row) list \<Rightarrow> nat \<times> (string \<times> score_row) list" where
  "save_daily_scores w results table =
     (case scorer_attribute w Db_connection of
        Inr True \<Rightarrow> (length results, fold (\<lambda>r t. AList.update (qr_code r) (score_row_of r) t) results table)
      | _ \<Rightarrow> (0, table))"

text \<open>A hybrid result by what is saved of it: code, LLM score, hybrid score and selection.\<close>

definition update_hybrid_scores ::
  "quant_world \<Rightarrow> (string \<times> rat \<times> rat \<times> bool) list \<Rightarrow> (string \<times> score_row) list \<Rightarrow> nat \<times> (string \<times> score_row) list" where
  "update_hybrid_scores w results table =
     (case scorer_attribute w Db_connection of
        Inr True \<Rightarrow>
          (length results,
           fold (\<lambda>(c, h) t. map (\<lambda>(k, r). if k = c then (k, r\<lparr>sr_hybrid := Some h\<rparr>) else (k, r)) t) results table)
      | _ \<Rightarrow> (0, table))"

section \<open>Lemmas\<close>

lemma get_confidence_weight_bounds: "0 \<le> get_confidence_weight n \<and> get_confidence_weight n \<le> 1"
  by (simp add: get_confidence_weight_def)

lemma limits: "0 \<le> hi \<Longrightarrow> 0 \<le> max 0 (min hi x) \<and> max 0 (min hi x) \<le> (hi :: rat)"
  by auto

lemma quant_momentum_bounds: "0 \<le> quant_momentum s k \<and> quant_momentum s k \<le> 25"
proof (cases "quant_momentum_6m s k")
  case (Inr m)
  then have "0 \<le> m \<and> m \<le> 15"
    by (auto simp: quant_momentum_6m_def rbind_eq_Inr_iff split: option.splits if_splits)
  moreover have "0 \<le> quant_momentum_1m s k \<and> quant_momentum_1m s k \<le> 5"
    using clamp_bounds [of 0 5] by (auto simp: quant_momentum_1m_def Let_def split: option.split)
  moreover have "(of_nat (length (filter ieee_pos ms)) * 5 / of_nat (length ms) :: rat) \<le> 5" if "ms \<noteq> []" for ms
    using that length_filter_le [of ieee_pos ms] by (simp add: pos_divide_le_eq)
  then have "0 \<le> quant_consistency s \<and> quant_consistency s \<le> 5"
    by (auto simp: quant_consistency_def Let_def)
  ultimately show ?thesis using Inr by (simp add: quant_momentum_def)
qed (simp add: quant_momentum_def)

lemma or_neutral_bounds:
  "0 \<le> d \<Longrightarrow> d \<le> hi \<Longrightarrow> 0 \<le> or_neutral d (\<lambda>x. max 0 (min hi (f x))) v \<and> or_neutral d (\<lambda>x. max 0 (min hi (f x))) v \<le> hi"
  by (cases v) (auto simp: or_neutral_def)

lemma quant_quality_bounds:
  assumes "\<forall>rs. 0 \<le> std_last b rs"
  shows "0 \<le> quant_quality b roe sg eg xs \<and> quant_quality b roe sg eg xs \<le> 20"
proof -
  have "0 \<le> quant_stability b xs \<and> quant_stability b xs \<le> 3"
    using assms by (auto simp: quant_stability_def split: option.split)
  with or_neutral_bounds [of 5 10 "\<lambda>r. 5 + r * (167/1000)" roe]
    or_neutral_bounds [of "175/100" "35/10" "\<lambda>g. 175/100 + g * (875/10000)" sg]
    or_neutral_bounds [of "175/100" "35/10" "\<lambda>g. 175/100 + g * (58/1000)" eg]
  show ?thesis unfolding quant_quality_def by linarith
qed

lemma quant_value_bounds: "0 \<le> quant_value pbr per \<and> quant_value pbr per \<le> 15"
proof -
  have "0 \<le> (case pbr of None \<Rightarrow> 375/100 | Some x \<Rightarrow> if 0 < x then max 0 (min (75/10) (75/10 - (x - 1/2) * 3)) else 375/100) \<and>
      (case pbr of None \<Rightarrow> 375/100 | Some x \<Rightarrow> if 0 < x then max 0 (min (75/10) (75/10 - (x - 1/2) * 3)) else 375/100) \<le> (75/10 :: rat)"
    by (auto simp: max_def min_def split: option.split)
  moreover have "0 \<le> (case per of None \<Rightarrow> 0 | Some x \<Rightarrow> if 0 < x then max 0 (min (75/10) (75/10 - (x - 5) * (3/10))) else 0) \<and>
      (case per of None \<Rightarrow> 0 | Some x \<Rightarrow> if 0 < x then max 0 (min (75/10) (75/10 - (x - 5) * (3/10))) else 0) \<le> (75/10 :: rat)"
    by (auto simp: max_def min_def split: option.split)
  ultimately show ?thesis unfolding quant_value_def by linarith
qed

lemma sector_multiplier_pos: "0 < sector_multiplier sector"
proof -
  have "\<forall>(k, v) \<in> set SECTOR_RSI_MULTIPLIER. (0 :: rat) < v" by (simp add: SECTOR_RSI_MULTIPLIER_def)
  then show ?thesis
    by (auto simp: sector_multiplier_def dict_get_def split: option.split dest!: map_of_SomeD)
qed

lemma quant_rsi_bounds: "0 \<le> quant_rsi sector r \<and> quant_rsi sector r \<le> 3"
proof (cases r)
  case (Some x)
  have "0 \<le> quant_rsi_raw x" by (simp add: quant_rsi_raw_def)
  with sector_multiplier_pos [of sector] Some show ?thesis by (simp add: quant_rsi_def)
qed (simp add: quant_rsi_def)

lemma quant_technical_bounds:
  assumes "\<not> below_band b (row_closes rows)"
  shows "0 \<le> quant_technical b rows sector \<and> quant_technical b rows sector \<le> 10"
proof -
  have "0 \<le> quant_volume rows \<and> quant_volume rows \<le> 4"
    using clamp_bounds [of 0 4] by (auto simp: quant_volume_def Let_def split: option.split)
  moreover have "3 - (c - l) / (u - l) * 3 \<le> 3" if "l < u" "l \<le> c" for c l u :: rat
    using that by simp
  then have "0 \<le> quant_band b (row_closes rows) \<and> quant_band b (row_closes rows) \<le> 3"
    using assms by (auto simp: quant_band_def below_band_def Let_def)
  moreover note quant_rsi_bounds [of sector "frame_rsi b rows"]
  ultimately show ?thesis unfolding quant_technical_def by linarith
qed

lemma quant_news_bounds:
  assumes "0 \<le> sentiment" "sentiment \<le> 100"
  shows "0 \<le> quant_news i sentiment cat \<and> quant_news i sentiment cat \<le> 10"
proof -
  have prod: "x * c \<le> 7" if "0 \<le> c" "c \<le> 1" "x \<le> 7" for x c :: rat
    using that mult_left_le [of c x] mult_nonpos_nonneg [of x c] by (cases "0 \<le> x") (auto intro: order_trans)
  have "news_stat_part i \<le> 7"
    using get_confidence_weight_bounds [of "ni_sample_count i"]
    by (auto simp: news_stat_part_def news_base_score_def intro!: prod split: option.split)
  with assms show ?thesis by (simp add: quant_news_def Let_def)
qed

lemma net_score_bounds: "0 \<le> points \<Longrightarrow> 0 \<le> net_score points share shares net avg \<and> net_score points share shares net avg \<le> points"
  by (auto simp: net_score_def split: option.split)

lemma quant_supply_bounds:
  assumes "\<forall>r. ratio = Some r \<longrightarrow> 0 \<le> r"
  shows "0 \<le> quant_supply f i ratio avg \<and> quant_supply f i ratio avg \<le> 15"
proof -
  have "0 \<le> holding_score ratio \<and> holding_score ratio \<le> 3" using assms by (auto simp: holding_score_def split: option.split)
  with net_score_bounds [of 7 "5/100" 1000000 f avg] net_score_bounds [of 5 "3/100" 500000 i avg]
  show ?thesis unfolding quant_supply_def by linarith
qed

lemma round2_bounds: "of_int a \<le> x \<Longrightarrow> x \<le> of_int b \<Longrightarrow> of_int a \<le> round2 x \<and> round2 x \<le> of_int b"
  using py_round_digits_bounds [of a x b 2] by (simp add: round2_def)

lemma calculate_scored:
  assumes "qi_prices q = Some rows" "30 \<le> length rows"
  obtains sector news perf where "fst (calculate_total_quant_score w q s) =
    scored_result q (quant_parts_of (qw_backend w) q rows sector news) sector news perf"
proof -
  have ne: "rows \<noteq> []" using assms(2) by auto
  obtain sector s1 where a: "get_stock_sector w (qi_code q) s = (sector, s1)" by fastforce
  obtain news s2 where b: "load_news_stats w (qi_code q) (qi_category q) s1 = (news, s2)" by fastforce
  obtain perf s3 where c: "load_factor_performance w (qi_code q) s2 = (perf, s3)" by fastforce
  have "fst (calculate_total_quant_score w q s) =
    scored_result q (quant_parts_of (qw_backend w) q rows sector news) sector news perf"
    using assms ne a b c by (cases rows) (auto simp: calculate_total_quant_score_def Let_def)
  then show ?thesis by (rule that)
qed

lemma calculate_invalid:
  assumes "\<forall>rows. qi_prices q = Some rows \<longrightarrow> length rows < 30"
  obtains why where "calculate_total_quant_score w q s = (invalid_result q why, s)"
proof (cases "qi_prices q")
  case None
  with that show ?thesis by (simp add: calculate_total_quant_score_def)
next
  case (Some rows)
  with assms that show ?thesis by (cases rows) (simp_all add: calculate_total_quant_score_def)
qed

lemma scored_result_simps [simp]:
  "qr_valid (scored_result q p sector news perf)" "qr_total (scored_result q p sector news perf) = round2 (quant_total p)"
  by (simp_all add: scored_result_def qr_valid_def Let_def split: prod.split)

lemma scored_result_news:
  "qr_news (scored_result q p sector news perf) = round2 (qp_news p)" "qr_code (scored_result q p sector news perf) = qi_code q"
  by (simp_all add: scored_result_def Let_def split: prod.split)

lemma invalid_result_simps [simp]:
  "\<not> qr_valid (invalid_result q why)" "qr_total (invalid_result q why) = 0"
  by (simp_all add: invalid_result_def qr_valid_def)

lemma ranked_simps [simp]:
  "length (ranked rs) = length rs" "ranked rs = [] \<longleftrightarrow> rs = []"
  by (auto simp: ranked_def enumerate_eq_zip)

lemma ranked_nth: "i < length rs \<Longrightarrow> ranked rs ! i = (rs ! i)\<lparr>qr_rank := i + 1\<rparr>"
  by (simp add: ranked_def nth_enumerate_eq)

lemma map_take_ranked:
  assumes "\<And>r k. f (r\<lparr>qr_rank := k, qr_passed := True\<rparr>) = f r"
  shows "map f (map (\<lambda>r. r\<lparr>qr_passed := True\<rparr>) (take n (ranked rs))) = take n (map f rs)"
  using assms by (intro nth_equalityI) (auto simp: ranked_nth)

lemma sort_desc_sorted: "sorted_wrt (\<lambda>a b. f b \<le> f a) (sort_desc f xs)"
proof -
  have "sorted (map (\<lambda>x. - f x) (sort_desc f xs))" by (simp add: sort_desc_def)
  then show ?thesis by (simp add: sorted_map)
qed

definition pass_count :: "nat \<Rightarrow> rat option \<Rightarrow> nat" where
  "pass_count n cutoff =
     min n (nat (max 1 (py_int (of_nat n * (1 - (case cutoff of None \<Rightarrow> DEFAULT_FILTER_CUTOFF | Some c \<Rightarrow> c))))))"

lemma filter_candidates_take:
  "filter_candidates rs cutoff =
     map (\<lambda>r. r\<lparr>qr_passed := True\<rparr>) (take (pass_count (length (filter qr_valid rs)) cutoff) (ranked (sort_desc qr_total (filter qr_valid rs))))"
proof -
  have "take (nat k) (ranked xs) = take (min (length xs) (nat k)) (ranked xs)" for k xs
    by (metis ranked_simps(1) take_all_iff min_def nat_le_linear take_take)
  then show ?thesis by (simp add: filter_candidates_def pass_count_def Let_def)
qed

lemma filter_candidates_split:
  "length (filter_candidates rs cutoff) = pass_count (length (filter qr_valid rs)) cutoff \<and>
   map qr_rank (filter_candidates rs cutoff) = [1..<length (filter_candidates rs cutoff) + 1] \<and>
   sorted_wrt (\<lambda>a b. qr_total b \<le> qr_total a) (filter_candidates rs cutoff) \<and>
   (\<exists>rest. mset (map (\<lambda>r. (qr_code r, qr_total r)) (filter_candidates rs cutoff)) + mset rest =
        mset (map (\<lambda>r. (qr_code r, qr_total r)) (filter qr_valid rs)) \<and>
      (\<forall>r \<in> set (filter_candidates rs cutoff). \<forall>x \<in> set rest. snd x \<le> qr_total r))"
proof -
  let ?vs = "filter qr_valid rs" let ?ss = "sort_desc qr_total ?vs"
  let ?n = "pass_count (length ?vs) cutoff" and ?f = "\<lambda>r. (qr_code r, qr_total r)"
  have n: "?n \<le> length ?vs" by (simp add: pass_count_def)
  have len: "length (filter_candidates rs cutoff) = ?n" using n by (simp add: filter_candidates_take)
  have ranks: "map qr_rank (filter_candidates rs cutoff) = [1..<length (filter_candidates rs cutoff) + 1]"
    using n by (intro nth_equalityI) (auto simp: filter_candidates_take ranked_nth simp del: upt_Suc)
  have pass: "map ?f (filter_candidates rs cutoff) = take ?n (map ?f ?ss)"
    unfolding filter_candidates_take by (rule map_take_ranked) simp
  have srt: "sorted_wrt (\<lambda>a b. snd b \<le> snd a) (map ?f ?ss)"
    using sort_desc_sorted [of qr_total ?vs] by (simp add: sorted_wrt_map)
  let ?rest = "drop ?n (map ?f ?ss)"
  have split: "map ?f ?ss = map ?f (filter_candidates rs cutoff) @ ?rest" by (simp add: pass)
  have "mset (map ?f ?ss) = mset (map ?f ?vs)" by (simp add: sort_desc_def)
  with split have whole: "mset (map ?f (filter_candidates rs cutoff)) + mset ?rest = mset (map ?f ?vs)"
    by (metis mset_append)
  have "sorted_wrt (\<lambda>a b. snd b \<le> snd a) (map ?f (filter_candidates rs cutoff) @ ?rest)" using srt split by simp
  then have "sorted_wrt (\<lambda>a b. qr_total b \<le> qr_total a) (filter_candidates rs cutoff)"
    "\<forall>r \<in> set (filter_candidates rs cutoff). \<forall>x \<in> set ?rest. snd x \<le> qr_total r"
    by (auto simp: sorted_wrt_append sorted_wrt_map)
  with len ranks whole show ?thesis by blast
qed

lemma filter_candidates_mset:
  "\<exists>rest. mset (map (\<lambda>r. (qr_code r, qr_total r)) (filter_candidates rs cutoff)) + mset rest =
     mset (map (\<lambda>r. (qr_code r, qr_total r)) (filter qr_valid rs))"
  using filter_candidates_split by blast

lemma quant_total_bounded:
  assumes "\<forall>rs. 0 \<le> std_last (qw_backend w) rs" "0 \<le> qi_sentiment q" "qi_sentiment q \<le> 100"
    and "\<forall>r. qi_foreign_ratio q = Some r \<longrightarrow> 0 \<le> r"
    and "\<forall>rows. qi_prices q = Some rows \<longrightarrow> \<not> below_band (qw_backend w) (row_closes rows)"
  shows "0 \<le> qr_total (fst (calculate_total_quant_score w q s)) \<and> qr_total (fst (calculate_total_quant_score w q s)) \<le> 100"
proof (cases "\<exists>rows. qi_prices q = Some rows \<and> 30 \<le> length rows")
  case True
  then obtain rows where rows: "qi_prices q = Some rows" "30 \<le> length rows" by blast
  obtain sector news perf where r: "fst (calculate_total_quant_score w q s) =
    scored_result q (quant_parts_of (qw_backend w) q rows sector news) sector news perf"
    by (rule calculate_scored [OF rows])
  let ?p = "quant_parts_of (qw_backend w) q rows sector news"
  have "0 \<le> quant_total ?p \<and> quant_total ?p \<le> 100"
    using quant_momentum_bounds [of "row_closes rows" "qi_kospi q"]
      quant_quality_bounds [OF assms(1), of "qi_roe q" "qi_sales_growth q" "qi_eps_growth q" "row_closes rows"]
      quant_value_bounds [of "qi_pbr q" "qi_per q"] quant_technical_bounds [OF assms(5) [rule_format, OF rows(1)], of sector]
      quant_news_bounds [OF assms(2,3), of news "qi_category q"]
      quant_supply_bounds [OF assms(4), of "qi_foreign q" "qi_institution q" "avg_volume_of rows"]
    by (simp add: quant_total_def quant_parts_of_def Let_def compound_condition_bonus_def)
  with r round2_bounds [of 0 "quant_total ?p" 100] show ?thesis by simp
next
  case False
  then obtain why where "calculate_total_quant_score w q s = (invalid_result q why, s)"
    by (metis calculate_invalid not_le)
  then show ?thesis by simp
qed

section \<open>Properties\<close>

text \<open>
  The total stays on its scale: with sentiment and holding ratio in their ranges and a price
  that is not below the lower Bollinger band, the score of a stock, bonus included, lies
  between 0 and 100, whatever the statistics tables contain.
\<close>

theorem quant_total_on_scale:
  assumes "\<forall>rs. 0 \<le> std_last (qw_backend w) rs" "0 \<le> qi_sentiment q" "qi_sentiment q \<le> 100"
    and "\<forall>r. qi_foreign_ratio q = Some r \<longrightarrow> 0 \<le> r"
    and "\<forall>rows. qi_prices q = Some rows \<longrightarrow> \<not> below_band (qw_backend w) (row_closes rows)"
  shows "0 \<le> qr_total (fst (calculate_total_quant_score w q s)) \<and> qr_total (fst (calculate_total_quant_score w q s)) \<le> 100"
  using assms by (rule quant_total_bounded)

definition demo_quant_world :: quant_world where
  "demo_quant_world = \<lparr>qw_connected = True, qw_dict_rows = False, qw_weights = Inr [],
     qw_perf = (\<lambda>_. Inr []), qw_news = (\<lambda>_ _. Inr None), qw_sector = (\<lambda>_. Inr None), qw_backend = pandas_backend\<rparr>"

definition demo_quant_input :: quant_input where
  "demo_quant_input = \<lparr>qi_code = ''005930'', qi_name = ''x'', qi_prices = Some (replicate 30 (demo_row 100 1000)),
     qi_kospi = None, qi_roe = Some 12, qi_sales_growth = None, qi_eps_growth = None, qi_pbr = Some 1, qi_per = None,
     qi_sentiment = 50, qi_category = None, qi_foreign = None, qi_institution = None, qi_foreign_ratio = None\<rparr>"

theorem quant_total_on_scale_witness:
  "qr_total (fst (calculate_total_quant_score demo_quant_world demo_quant_input no_caches)) \<le> 100"
proof -
  have "\<not> below_band pandas_backend (row_closes (replicate 30 (demo_row 100 1000)))"
    by (simp add: below_band_def last_n_def demo_row_def pandas_backend_def sum_list_replicate)
  with quant_total_on_scale [of demo_quant_world demo_quant_input no_caches] show ?thesis
    by (simp add: demo_quant_world_def demo_quant_input_def pandas_backend_def)
qed

text \<open>
  A stock without enough prices cannot slip through: its result has the score 0 and is
  marked invalid, the statistics are not even read, and no filter lets it pass, whatever
  stands beside it.
\<close>

theorem short_history_never_passes:
  assumes "\<forall>rows. qi_prices q = Some rows \<longrightarrow> length rows < 30"
  shows "qr_total (fst (calculate_total_quant_score w q s)) = 0 \<and> snd (calculate_total_quant_score w q s) = s \<and>
    filter_candidates (xs @ fst (calculate_total_quant_score w q s) # ys) cutoff = filter_candidates (xs @ ys) cutoff"
proof -
  obtain why where "calculate_total_quant_score w q s = (invalid_result q why, s)"
    by (rule calculate_invalid [OF assms])
  then show ?thesis by (simp add: filter_candidates_def)
qed

theorem short_history_never_passes_witness:
  "filter_candidates [fst (calculate_total_quant_score demo_quant_world (demo_quant_input\<lparr>qi_prices := Some []\<rparr>) no_caches)] None = []"
  using short_history_never_passes [of "demo_quant_input\<lparr>qi_prices := Some []\<rparr>" demo_quant_world no_caches "[]" "[]" None]
  by (simp add: filter_candidates_def)

text \<open>
  The filter keeps the best: of the valid results the whole part of their number times one
  less the cut-off passes, but at least one; those that pass are ranked from 1 in the
  order of their totals, and no valid result left out has a higher total than one that passed.
\<close>

theorem filter_keeps_best:
  "length (filter_candidates rs cutoff) = pass_count (length (filter qr_valid rs)) cutoff \<and>
   map qr_rank (filter_candidates rs cutoff) = [1..<length (filter_candidates rs cutoff) + 1] \<and>
   sorted_wrt (\<lambda>a b. qr_total b \<le> qr_total a) (filter_candidates rs cutoff) \<and>
   (\<exists>rest. mset (map (\<lambda>r. (qr_code r, qr_total r)) (filter_candidates rs cutoff)) + mset rest =
        mset (map (\<lambda>r. (qr_code r, qr_total r)) (filter qr_valid rs)) \<and>
      (\<forall>r \<in> set (filter_candidates rs cutoff). \<forall>x \<in> set rest. snd x \<le> qr_total r))"
  by (rule filter_candidates_split)

definition demo_result :: "rat \<Rightarrow> quant_result" where
  "demo_result t = (invalid_result demo_quant_input NoPrices)\<lparr>qr_invalid := None, qr_total := t\<rparr>"

theorem filter_keeps_best_witness:
  "length (filter_candidates [demo_result 45, invalid_result demo_quant_input NoPrices, demo_result 60] None) = 1 \<and>
   map qr_rank (filter_candidates [demo_result 45, invalid_result demo_quant_input NoPrices, demo_result 60] None) = [1]"
proof -
  let ?rs = "[demo_result 45, invalid_result demo_quant_input NoPrices, demo_result 60]"
  have "length (filter qr_valid ?rs) = 2" by (simp add: demo_result_def qr_valid_def invalid_result_def)
  then have "pass_count (length (filter qr_valid ?rs)) None = 1"
    by (simp only:) (simp add: pass_count_def DEFAULT_FILTER_CUTOFF_def py_int_def floor_eq_iff)
  then have "length (filter_candidates ?rs None) = 1 \<and>
      map qr_rank (filter_candidates ?rs None) = [1..<length (filter_candidates ?rs None) + 1]"
    using filter_keeps_best [of ?rs None] by metis
  then show ?thesis by simp
qed

text \<open>
  The daily scores are never saved: the savers look for an attribute the scorer does not
  have, the error is caught, and they report 0 rows for every input.
\<close>

theorem scores_never_saved:
  "save_daily_scores w results table = (0, table) \<and> update_hybrid_scores w hybrids table = (0, table)"
  by (simp add: save_daily_scores_def update_hybrid_scores_def scorer_attribute_def)

text \<open>
  A failed query is remembered as an answer: after one failing read of the statistics of a
  stock the scorer finds none for it in any later world, however good the data is then.
\<close>

theorem failed_read_is_remembered:
  assumes "qw_connected w" "qw_perf w code = Inl e" "qc_perf s code = None"
  shows "fst (load_factor_performance v code (snd (load_factor_performance w code s))) = no_perf"
  using assms by (simp add: load_factor_performance_def remembered_def perf_of_rows_def)

theorem failed_read_is_remembered_witness:
  "fst (load_factor_performance (demo_quant_world\<lparr>qw_perf := \<lambda>_. Inr [\<lparr>pr_key = ''RSI'', pr_win_rate = Some (6/10), pr_sample_count = Some 40, pr_confidence = None\<rparr>]\<rparr>) ''005930''
     (snd (load_factor_performance (demo_quant_world\<lparr>qw_perf := \<lambda>_. Inl DbError\<rparr>) ''005930'' no_caches))) = no_perf"
  by (rule failed_read_is_remembered) (simp_all add: demo_quant_world_def no_caches_def)

text \<open>
  In the long-term score a company without profit beats an expensive one: a missing or
  negative price-earnings ratio counts 5 value points, a ratio of 20 or more none.
\<close>

theorem loss_maker_beats_expensive:
  assumes "per \<le> 0" "20 \<le> per'"
  shows "per_points (per_detail (Some per)) = 5 \<and> per_points (per_detail None) = 5 \<and>
    per_points (per_detail (Some per')) = 0 \<and>
    long_term_score roe cat rsi (Some per') supply \<le> long_term_score roe cat rsi (Some per) supply"
proof -
  have "of_int 20 \<le> per'" using assms(2) by simp
  from py_round_digits_bounds(1) [OF this, of "\<lceil>per'\<rceil>" 2] have "20 \<le> py_round_digits 2 per'" by simp
  with assms show ?thesis by (auto simp: per_detail_def per_points_def long_term_score_def)
qed

theorem loss_maker_beats_expensive_witness:
  "per_points (per_detail (Some (- 3))) = 5 \<and> per_points (per_detail (Some 45)) = 0"
  using loss_maker_beats_expensive [of "- 3" 45] by simp

text \<open>A weight for all regimes overwrites the weight of the regime that was asked for.\<close>

lemma generic_weight_overrides:
  assumes "qw_connected w" "qw_weights w = Inr [(regime, k, Some x), (''ALL'', k, Some y)]" "regime \<noteq> ''ALL''" "k \<noteq> []"
  shows "dict_get k d (load_factor_weights w regime) = y"
  using assms by (simp add: load_factor_weights_def weights_query_def)

end
