(* ===== verification/Hybrid_Scoring.thy ===== *)
theory Hybrid_Scoring
  imports Quant_Scoring
begin

text \<open>
  \<open>shared/hybrid_scoring/hybrid_scorer.py\<close>: the quantitative score of a stock and the score of
  a language model are combined, with a safety lock that leans to the lower of two scores
  that are far apart, corrected for thin statistics, graded, and the best are selected; and
  the pipeline from candidates to the selection.

  The language model is a parameter. The markdown report and the texts of reasons are left out.
\<close>

section \<open>Combining two scores\<close>

record hybrid_scorer =
  hs_quant_weight :: rat
  hs_llm_weight :: rat

definition REGIME_WEIGHTS :: "(string \<times> rat \<times> rat) list" where
  "REGIME_WEIGHTS =
     [(''STRONG_BULL'', 55/100, 45/100), (''BULL'', 60/100, 40/100), (''SIDEWAYS'', 60/100, 40/100),
      (''BEAR'', 65/100, 35/100)]"

definition new_hybrid_scorer :: "string \<Rightarrow> hybrid_scorer" where
  "new_hybrid_scorer regime =
     (case map_of REGIME_WEIGHTS regime of
        Some (q, l) \<Rightarrow> \<lparr>hs_quant_weight = q, hs_llm_weight = l\<rparr>
      | None \<Rightarrow> \<lparr>hs_quant_weight = 60/100, hs_llm_weight = 40/100\<rparr>)"

record lock =
  lk_quant :: rat
  lk_llm :: rat
  lk_applied :: bool

definition apply_safety_lock :: "hybrid_scorer \<Rightarrow> rat \<Rightarrow> rat \<Rightarrow> lock" where
  "apply_safety_lock h q l =
     (if \<bar>q - l\<bar> < 30 then \<lparr>lk_quant = hs_quant_weight h, lk_llm = hs_llm_weight h, lk_applied = False\<rparr>
      else if q < l then
        (let w = min (80/100) (hs_quant_weight h + 15/100) in \<lparr>lk_quant = w, lk_llm = 1 - w, lk_applied = True\<rparr>)
      else
        (let w = min (55/100) (hs_llm_weight h + 15/100) in \<lparr>lk_quant = 1 - w, lk_llm = w, lk_applied = True\<rparr>))"

definition determine_grade :: "rat \<Rightarrow> string" where
  "determine_grade s =
     (if 80 \<le> s then ''A'' else if 65 \<le> s then ''B'' else if 50 \<le> s then ''C'' else if 40 \<le> s then ''D'' else ''F'')"

record hybrid_result =
  hr_code :: string
  hr_name :: string
  hr_quant :: rat
  hr_llm :: rat
  hr_hybrid :: rat
  hr_quant_weight :: rat
  hr_llm_weight :: rat
  hr_locked :: bool
  hr_selected :: bool
  hr_rank :: nat
  hr_grade :: string
  hr_reason :: string
  hr_condition_win_rate :: "rat option"
  hr_condition_samples :: "int option"
  hr_news_win_rate :: "rat option"
  hr_news_samples :: "int option"

text \<open>The quantitative part, drawn to the neutral 50 when the statistics of the conditions are thin.\<close>

definition quant_contribution :: "quant_result \<Rightarrow> rat \<Rightarrow> rat" where
  "quant_contribution r w =
     (case qr_condition_samples r of
        None \<Rightarrow> qr_total r * w
      | Some n \<Rightarrow>
          (let c = get_confidence_weight n
            in if c < 1 then qr_total r * w * c + 50 * w * (1 - c) else qr_total r * w))"

text \<open>The correction for thin news statistics, which draws the news part to 7.5.\<close>

definition news_correction :: "quant_result \<Rightarrow> rat \<Rightarrow> rat" where
  "news_correction r w =
     (case qr_news_samples r of
        None \<Rightarrow> 0
      | Some n \<Rightarrow>
          if n < 30 then
            (let c = get_confidence_weight n
              in if c < 1 then (qr_news r * c + 75/10 * (1 - c) - qr_news r) * w else 0)
          else 0)"

definition raw_hybrid :: "hybrid_scorer \<Rightarrow> quant_result \<Rightarrow> rat \<Rightarrow> rat" where
  "raw_hybrid h r l =
     (let k = apply_safety_lock h (qr_total r) l
       in quant_contribution r (lk_quant k) + l * lk_llm k + news_correction r (lk_quant k))"

definition calculate_hybrid_score :: "hybrid_scorer \<Rightarrow> quant_result \<Rightarrow> rat \<Rightarrow> string \<Rightarrow> hybrid_result" where
  "calculate_hybrid_score h r l reason =
     (let k = apply_safety_lock h (qr_total r) l; s = raw_hybrid h r l
       in \<lparr>hr_code = qr_code r, hr_name = qr_name r, hr_quant = qr_total r, hr_llm = l, hr_hybrid = round2 s,
           hr_quant_weight = lk_quant k, hr_llm_weight = lk_llm k, hr_locked = lk_applied k, hr_selected = False,
           hr_rank = 0, hr_grade = (if s < 40 then ''F'' else determine_grade s), hr_reason = reason,
           hr_condition_win_rate = qr_condition_win_rate r, hr_condition_samples = qr_condition_samples r,
           hr_news_win_rate = qr_news_win_rate r, hr_news_samples = qr_news_samples r\<rparr>)"

definition calculate_batch_hybrid_scores ::
  "hybrid_scorer \<Rightarrow> quant_result list \<Rightarrow> (string \<times> rat \<times> string) list \<Rightarrow> hybrid_result list" where
  "calculate_batch_hybrid_scores h rs llm =
     map (\<lambda>r. case map_of llm (qr_code r) of
           Some (l, reason) \<Rightarrow> calculate_hybrid_score h r l reason
         | None \<Rightarrow> calculate_hybrid_score h r 50 []) rs"

text \<open>\<open>xs[:n]\<close> of a list, where a negative n counts from the end.\<close>

definition py_prefix :: "int \<Rightarrow> 'a list \<Rightarrow> 'a list" where
  "py_prefix n xs = (if 0 \<le> n then take (nat n) xs else take (length xs - nat (- n)) xs)"

definition MAX_WATCHLIST_SIZE :: int where
  "MAX_WATCHLIST_SIZE = 15"

definition select_top_candidates :: "hybrid_result list \<Rightarrow> int option \<Rightarrow> hybrid_result list" where
  "select_top_candidates results max_count =
     (let n = (case max_count of None \<Rightarrow> MAX_WATCHLIST_SIZE | Some n \<Rightarrow> n);
          qualified = filter (\<lambda>r. hr_grade r \<noteq> ''F'') results
       in map (\<lambda>(i, r). r\<lparr>hr_rank := i + 1, hr_selected := True\<rparr>)
            (enumerate 0 (py_prefix n (sort_desc hr_hybrid qualified))))"

text \<open>The entry of the watchlist: only grades A and B may be traded.\<close>

record watchlist_entry =
  we_code :: string
  we_name :: string
  we_tradable :: bool
  we_llm_score :: rat
  we_reason :: string
  we_grade :: string
  we_quant_score :: rat
  we_raw_llm :: rat
  we_locked :: bool
  we_win_rate :: "rat option"

definition to_watchlist_entry :: "hybrid_result \<Rightarrow> watchlist_entry" where
  "to_watchlist_entry r =
     \<lparr>we_code = hr_code r, we_name = hr_name r, we_tradable = (hr_grade r \<in> {''A'', ''B''}), we_llm_score = hr_hybrid r,
      we_reason = hr_reason r, we_grade = hr_grade r, we_quant_score = hr_quant r, we_raw_llm = hr_llm r,
      we_locked = hr_locked r, we_win_rate = hr_condition_win_rate r\<rparr>"

section \<open>The pipeline\<close>

text \<open>
  The analyser: None when there is none; its answer has a score and a reason, either of
  which may be missing, or it raises.
\<close>

type_synonym analyser = "(string \<Rightarrow> (rat option \<times> string option) res) option"

definition llm_score_of :: "analyser \<Rightarrow> string \<Rightarrow> rat \<times> string" where
  "llm_score_of llm code =
     (case llm of
        None \<Rightarrow> (50, [])
      | Some f \<Rightarrow>
          (case f code of
             Inl _ \<Rightarrow> (50, [])
           | Inr (score, reason) \<Rightarrow>
               (case score of None \<Rightarrow> 50 | Some x \<Rightarrow> x, case reason of None \<Rightarrow> [] | Some t \<Rightarrow> t)))"

fun score_all :: "quant_world \<Rightarrow> quant_input list \<Rightarrow> quant_caches \<Rightarrow> quant_result list \<times> quant_caches" where
  "score_all w [] s = ([], s)"
| "score_all w (q # qs) s =
     (let (r, s1) = calculate_total_quant_score w q s; (rs, s2) = score_all w qs s1 in (r # rs, s2))"

definition run_hybrid_scoring_pipeline ::
  "quant_world \<Rightarrow> analyser \<Rightarrow> string \<Rightarrow> rat \<Rightarrow> int \<Rightarrow> quant_input list \<Rightarrow> quant_caches \<Rightarrow> hybrid_result list res \<times> quant_caches" where
  "run_hybrid_scoring_pipeline w llm regime cutoff max_watchlist candidates s =
     (let (rs, s') = score_all w candidates s
       in (rbind (py_div (sum_list (map qr_total rs)) (of_nat (length rs))) (\<lambda>_.
             let passed = filter_candidates rs (Some cutoff)
              in if passed = [] then Inr []
                 else
                   (let scores = fold (\<lambda>r d. AList.update (qr_code r) (llm_score_of llm (qr_code r)) d) passed []
                     in Inr (select_top_candidates
                          (calculate_batch_hybrid_scores (new_hybrid_scorer regime) passed scores) (Some max_watchlist)))), s'))"

section \<open>Lemmas\<close>

definition fair :: "hybrid_scorer \<Rightarrow> bool" where
  "fair h \<longleftrightarrow> 55/100 \<le> hs_quant_weight h \<and> hs_quant_weight h \<le> 65/100 \<and> hs_llm_weight h = 1 - hs_quant_weight h"

lemma new_hybrid_scorer_fair: "fair (new_hybrid_scorer regime)"
  by (auto simp: new_hybrid_scorer_def fair_def REGIME_WEIGHTS_def split: option.split)

lemma safety_lock_weights:
  assumes "fair h"
  shows "45/100 \<le> lk_quant (apply_safety_lock h q l)" "lk_quant (apply_safety_lock h q l) \<le> 80/100"
    "lk_llm (apply_safety_lock h q l) = 1 - lk_quant (apply_safety_lock h q l)"
  using assms by (auto simp: fair_def apply_safety_lock_def Let_def min_def)

text \<open>The lower of the two scores gains weight.\<close>

lemma safety_lock_leans:
  assumes "fair h" "30 \<le> \<bar>q - l\<bar>"
  shows "q < l \<Longrightarrow> hs_quant_weight h < lk_quant (apply_safety_lock h q l)"
    "l \<le> q \<Longrightarrow> lk_quant (apply_safety_lock h q l) < hs_quant_weight h"
  using assms by (auto simp: fair_def apply_safety_lock_def Let_def)

lemma py_prefix_cases: "\<exists>n. py_prefix k xs = take n xs"
  by (auto simp: py_prefix_def)

lemma length_py_prefix: "0 \<le> n \<Longrightarrow> int (length (py_prefix n xs)) = min n (int (length xs))"
  by (simp add: py_prefix_def of_nat_min min.commute)

lemma set_py_prefix: "x \<in> set (py_prefix n xs) \<Longrightarrow> x \<in> set xs"
  using py_prefix_cases [of n xs] by (auto dest: in_set_takeD)

lemma select_map:
  assumes "\<And>r k. f (r\<lparr>hr_rank := k, hr_selected := True\<rparr>) = f r"
  shows "map f (select_top_candidates rs mx) =
    map f (py_prefix (case mx of None \<Rightarrow> MAX_WATCHLIST_SIZE | Some n \<Rightarrow> n) (sort_desc hr_hybrid (filter (\<lambda>r. hr_grade r \<noteq> ''F'') rs)))"
  using assms by (intro nth_equalityI) (auto simp: select_top_candidates_def Let_def nth_enumerate_eq)

lemma select_ranks: "map hr_rank (select_top_candidates rs mx) = [1..<length (select_top_candidates rs mx) + 1]"
  by (intro nth_equalityI) (auto simp: select_top_candidates_def Let_def nth_enumerate_eq simp del: upt_Suc)

lemma select_sorted: "sorted_wrt (\<lambda>a b. hr_hybrid b \<le> hr_hybrid a) (select_top_candidates rs mx)"
proof -
  let ?xs = "sort_desc hr_hybrid (filter (\<lambda>r. hr_grade r \<noteq> ''F'') rs)"
  obtain n where n: "py_prefix (case mx of None \<Rightarrow> MAX_WATCHLIST_SIZE | Some n \<Rightarrow> n) ?xs = take n ?xs"
    using py_prefix_cases by blast
  have eq: "map hr_hybrid (select_top_candidates rs mx) = map hr_hybrid (take n ?xs)"
    unfolding n [symmetric] by (rule select_map) simp
  have "sorted_wrt (\<lambda>a b. hr_hybrid b \<le> hr_hybrid a) (take n ?xs)"
    by (intro sorted_wrt_take sort_desc_sorted)
  then have "sorted_wrt (\<lambda>a b. b \<le> a) (map hr_hybrid (take n ?xs))" by (simp only: sorted_wrt_map)
  then show ?thesis by (simp only: eq [symmetric] sorted_wrt_map)
qed

lemma in_select:
  assumes "x \<in> set (select_top_candidates rs mx)"
  obtains r where "r \<in> set rs" "hr_grade r \<noteq> ''F''" "hr_code x = hr_code r" "hr_hybrid x = hr_hybrid r"
    "hr_grade x = hr_grade r" "hr_selected x"
proof -
  obtain i r where "(i, r) \<in> set (enumerate 0 (py_prefix (case mx of None \<Rightarrow> MAX_WATCHLIST_SIZE | Some n \<Rightarrow> n)
      (sort_desc hr_hybrid (filter (\<lambda>r. hr_grade r \<noteq> ''F'') rs))))" and x: "x = r\<lparr>hr_rank := i + 1, hr_selected := True\<rparr>"
    using assms by (auto simp: select_top_candidates_def Let_def)
  then have "r \<in> set (py_prefix (case mx of None \<Rightarrow> MAX_WATCHLIST_SIZE | Some n \<Rightarrow> n)
      (sort_desc hr_hybrid (filter (\<lambda>r. hr_grade r \<noteq> ''F'') rs)))"
    unfolding enumerate_eq_zip by (auto dest: set_zip_rightD)
  with set_py_prefix have "r \<in> set rs" "hr_grade r \<noteq> ''F''" by fastforce+
  with x show ?thesis by (intro that) auto
qed


section \<open>The range of the combined score\<close>

text \<open>What a scored stock satisfies: its news part is part of its total, and the rest is at most 90.\<close>

definition on_scale :: "quant_result \<Rightarrow> bool" where
  "on_scale r \<longleftrightarrow>
     0 \<le> qr_total r \<and> qr_total r \<le> 100 \<and>
     (qr_news_samples r \<noteq> None \<longrightarrow> 0 \<le> qr_news r \<and> qr_news r \<le> 10 \<and> qr_news r \<le> qr_total r \<and> qr_total r \<le> 90 + qr_news r)"

lemma mixed_le:
  assumes "0 \<le> c" "c \<le> 1" "x \<le> m" "y \<le> m"
  shows "x * c + y * (1 - c) \<le> (m :: rat)"
proof -
  have "x * c \<le> m * c" "y * (1 - c) \<le> m * (1 - c)" using assms by (simp_all add: mult_right_mono)
  then show ?thesis by (simp add: algebra_simps)
qed

lemma mixed_ge:
  assumes "0 \<le> c" "c \<le> 1" "m \<le> x" "m \<le> y"
  shows "(m :: rat) \<le> x * c + y * (1 - c)"
  using mixed_le [of c "- x" "- m" "- y"] assms by simp

lemma news_correction_total [simp]: "news_correction (r\<lparr>qr_total := t\<rparr>) w = news_correction r w"
  by (cases "qr_news_samples r") (simp_all add: news_correction_def Let_def)

text \<open>Both corrections together, per unit of weight.\<close>

definition corrected :: "quant_result \<Rightarrow> rat" where
  "corrected r = quant_contribution r 1 + news_correction r 1"

lemma corrected_weight: "quant_contribution r w + news_correction r w = w * corrected r"
  by (auto simp: corrected_def quant_contribution_def news_correction_def Let_def algebra_simps split: option.split)

lemma corrected_bounds:
  assumes "on_scale r"
  shows "0 \<le> corrected r \<and> corrected r \<le> 100"
proof -
  let ?q = "qr_total r" and ?n = "qr_news r"
  have qc: "min ?q 50 \<le> quant_contribution r 1" "quant_contribution r 1 \<le> max ?q 50"
    using mixed_le [of c ?q "max ?q 50" 50 for c] mixed_ge [of c "min ?q 50" ?q 50 for c] get_confidence_weight_bounds
    by (auto simp: quant_contribution_def Let_def algebra_simps split: option.split)
  show ?thesis
  proof (cases "qr_news_samples r")
    case None
    with qc assms show ?thesis by (auto simp: corrected_def news_correction_def on_scale_def)
  next
    case (Some k)
    let ?c = "get_confidence_weight k"
    have n: "0 \<le> ?n" "?n \<le> 10" "?n \<le> ?q" "?q \<le> 90 + ?n" using assms Some by (auto simp: on_scale_def)
    have "min ?n (75/10) \<le> ?n * ?c + 75/10 * (1 - ?c)" "?n * ?c + 75/10 * (1 - ?c) \<le> max ?n (75/10)"
      by (rule mixed_ge mixed_le; use get_confidence_weight_bounds [of k] in simp)+
    then have "min ?n (75/10) - ?n \<le> news_correction r 1" "news_correction r 1 \<le> max ?n (75/10) - ?n"
      using Some by (auto simp: news_correction_def Let_def)
    with qc n show ?thesis unfolding corrected_def by (simp add: min_def max_def split: if_splits)
  qed
qed

lemma raw_hybrid_bounds:
  assumes "fair h" "on_scale r" "0 \<le> l" "l \<le> 100"
  shows "0 \<le> raw_hybrid h r l \<and> raw_hybrid h r l \<le> 100"
proof -
  let ?k = "apply_safety_lock h (qr_total r) l"
  note w = safety_lock_weights [OF assms(1), of "qr_total r" l]
  have "raw_hybrid h r l = corrected r * lk_quant ?k + l * (1 - lk_quant ?k)"
    using corrected_weight [of r "lk_quant ?k"] by (simp add: raw_hybrid_def Let_def w(3) mult.commute)
  with mixed_le [of "lk_quant ?k" "corrected r" 100 l] mixed_ge [of "lk_quant ?k" 0 "corrected r" l]
    corrected_bounds [OF assms(2)] assms(3,4) w show ?thesis by simp
qed

lemma py_round_shift: "even m \<Longrightarrow> py_round (x + of_int m) = py_round x + m"
  by (simp add: py_round_def Let_def)

lemma round2_shift: "round2 (x + 90) = round2 x + 90"
  using py_round_shift [of 9000 "x * 100"] by (simp add: round2_def py_round_digits_def distrib_right add_divide_distrib)

lemma round2_mono: "x \<le> y \<Longrightarrow> round2 x \<le> round2 y"
  by (simp add: round2_def py_round_digits_def divide_right_mono py_round_mono mult_right_mono)

lemma round2_40: "round2 40 = 40"
  using py_round_of_int [of 4000] by (simp add: round2_def py_round_digits_def)

lemma calculated_on_scale:
  assumes "\<forall>rs. 0 \<le> std_last (qw_backend w) rs" "0 \<le> qi_sentiment q" "qi_sentiment q \<le> 100"
    and "\<forall>r. qi_foreign_ratio q = Some r \<longrightarrow> 0 \<le> r"
    and "\<forall>rows. qi_prices q = Some rows \<longrightarrow> \<not> below_band (qw_backend w) (row_closes rows)"
  shows "on_scale (fst (calculate_total_quant_score w q s))"
proof (cases "\<exists>rows. qi_prices q = Some rows \<and> 30 \<le> length rows")
  case True
  then obtain rows where rows: "qi_prices q = Some rows" "30 \<le> length rows" by blast
  obtain sector news perf where r: "fst (calculate_total_quant_score w q s) =
    scored_result q (quant_parts_of (qw_backend w) q rows sector news) sector news perf"
    by (rule calculate_scored [OF rows])
  let ?p = "quant_parts_of (qw_backend w) q rows sector news"
  note news = quant_news_bounds [OF assms(2,3), of news "qi_category q"]
  have "qp_news ?p \<le> quant_total ?p" "quant_total ?p \<le> 90 + qp_news ?p"
    using quant_momentum_bounds [of "row_closes rows" "qi_kospi q"]
      quant_quality_bounds [OF assms(1), of "qi_roe q" "qi_sales_growth q" "qi_eps_growth q" "row_closes rows"]
      quant_value_bounds [of "qi_pbr q" "qi_per q"] quant_technical_bounds [OF assms(5) [rule_format, OF rows(1)], of sector]
      quant_supply_bounds [OF assms(4), of "qi_foreign q" "qi_institution q" "avg_volume_of rows"]
    by (simp_all add: quant_total_def quant_parts_of_def Let_def compound_condition_bonus_def)
  from round2_mono [OF this(1)] round2_mono [OF this(2)] this news round2_bounds [of 0 "quant_total ?p" 100]
    round2_bounds [of 0 "qp_news ?p" 10] round2_shift [of "qp_news ?p"]
  show ?thesis by (simp add: r on_scale_def scored_result_news quant_parts_of_def Let_def add.commute)
next
  case False
  then obtain why where "calculate_total_quant_score w q s = (invalid_result q why, s)"
    by (metis calculate_invalid not_le)
  then show ?thesis by (simp add: on_scale_def invalid_result_def)
qed

section \<open>Where a selected stock comes from\<close>

lemma score_all_in:
  "score_all w qs s = (rs, s') \<Longrightarrow> r \<in> set rs \<Longrightarrow> \<exists>q \<in> set qs. \<exists>s0. r = fst (calculate_total_quant_score w q s0)"
proof (induction qs arbitrary: s rs s')
  case (Cons q qs)
  obtain r0 s1 where r0: "calculate_total_quant_score w q s = (r0, s1)" by fastforce
  obtain rs1 s2 where rs1: "score_all w qs s1 = (rs1, s2)" by fastforce
  from Cons.prems have "rs = r0 # rs1" by (simp add: r0 rs1)
  with Cons.prems(2) Cons.IH [OF rs1] r0 show ?case by (metis fst_conv list.set_intros set_ConsD)
qed simp

lemma in_filter_candidates:
  assumes "x \<in> set (filter_candidates rs cutoff)"
  shows "\<exists>r \<in> set rs. qr_valid r \<and> qr_code x = qr_code r"
proof -
  let ?f = "\<lambda>r. (qr_code r, qr_total r)"
  obtain rest where eq: "mset (map ?f (filter_candidates rs cutoff)) + mset rest = mset (map ?f (filter qr_valid rs))"
    using filter_candidates_mset [of rs cutoff] by blast
  have "?f x \<in> set (map ?f (filter_candidates rs cutoff) @ rest)" using assms by simp
  also have "set (map ?f (filter_candidates rs cutoff) @ rest) = set (map ?f (filter qr_valid rs))"
    using eq by (intro mset_eq_setD) (simp only: mset_append)
  finally show ?thesis by auto
qed

lemma passed_candidate:
  assumes "score_all w qs s = (rs, s')" "x \<in> set (filter_candidates rs cutoff)"
  shows "\<exists>q \<in> set qs. qi_code q = qr_code x \<and> (\<exists>rows. qi_prices q = Some rows \<and> 30 \<le> length rows)"
proof -
  from in_filter_candidates [OF assms(2)] obtain r where r: "r \<in> set rs" "qr_valid r" "qr_code x = qr_code r" by blast
  from score_all_in [OF assms(1) r(1)] obtain q s0 where q: "q \<in> set qs" "r = fst (calculate_total_quant_score w q s0)" by blast
  have long: "\<exists>rows. qi_prices q = Some rows \<and> 30 \<le> length rows"
  proof (rule ccontr)
    assume "\<not> (\<exists>rows. qi_prices q = Some rows \<and> 30 \<le> length rows)"
    then obtain why where "calculate_total_quant_score w q s0 = (invalid_result q why, s0)"
      by (metis calculate_invalid not_le)
    with q(2) r(2) show False by simp
  qed
  then obtain rows where "qi_prices q = Some rows" "30 \<le> length rows" by blast
  then obtain sector news perf where "r = scored_result q (quant_parts_of (qw_backend w) q rows sector news) sector news perf"
    unfolding q(2) by (rule calculate_scored)
  with q(1) r(3) long show ?thesis by (auto simp: scored_result_news)
qed

section \<open>Properties\<close>

text \<open>
  In every regime the two weights are positive and add up to one, and the safety lock is
  conservative: when the scores are at least 30 apart, the locked mean is lower than the
  plain one, it still lies between the two scores, and otherwise nothing changes.
\<close>

theorem safety_lock_conservative:
  "lk_quant (apply_safety_lock (new_hybrid_scorer regime) q l) + lk_llm (apply_safety_lock (new_hybrid_scorer regime) q l) = 1 \<and>
   (let h = new_hybrid_scorer regime; k = apply_safety_lock h q l;
        plain = q * hs_quant_weight h + l * hs_llm_weight h; locked = q * lk_quant k + l * lk_llm k
     in (if \<bar>q - l\<bar> < 30 then locked = plain else locked < plain) \<and> min q l \<le> locked \<and> locked \<le> max q l)"
proof -
  let ?h = "new_hybrid_scorer regime"
  let ?k = "apply_safety_lock ?h q l"
  note fair = new_hybrid_scorer_fair [of regime]
  note w = safety_lock_weights [OF fair, of q l]
  have llm: "hs_llm_weight ?h = 1 - hs_quant_weight ?h" using fair by (simp add: fair_def)
  have "min q l \<le> q * lk_quant ?k + l * (1 - lk_quant ?k)" "q * lk_quant ?k + l * (1 - lk_quant ?k) \<le> max q l"
    by (rule mixed_ge mixed_le; use w in simp)+
  moreover have "q * lk_quant ?k + l * (1 - lk_quant ?k) < q * hs_quant_weight ?h + l * (1 - hs_quant_weight ?h)"
    if far: "30 \<le> \<bar>q - l\<bar>"
  proof -
    have "0 < (q - l) * (hs_quant_weight ?h - lk_quant ?k)"
    proof (cases "q < l")
      case True
      with safety_lock_leans(1) [OF fair far] show ?thesis by (simp add: mult_neg_neg)
    next
      case False
      with far safety_lock_leans(2) [OF fair far] show ?thesis by simp
    qed
    then show ?thesis by (simp add: algebra_simps)
  qed
  moreover have "lk_quant ?k = hs_quant_weight ?h" if "\<bar>q - l\<bar> < 30"
    using that by (simp add: apply_safety_lock_def)
  ultimately show ?thesis by (auto simp: Let_def w(3) llm not_less)
qed

text \<open>
  The scorer and the combination fit together: for a stock with inputs in their ranges and a
  language model score between 0 and 100 the combined score lies between 0 and 100, both
  corrections for thin statistics included.
\<close>

theorem hybrid_score_on_scale:
  assumes "\<forall>rs. 0 \<le> std_last (qw_backend w) rs" "0 \<le> qi_sentiment q" "qi_sentiment q \<le> 100"
    and "\<forall>r. qi_foreign_ratio q = Some r \<longrightarrow> 0 \<le> r"
    and "\<forall>rows. qi_prices q = Some rows \<longrightarrow> \<not> below_band (qw_backend w) (row_closes rows)"
    and "0 \<le> l" "l \<le> 100"
  shows "0 \<le> hr_hybrid (calculate_hybrid_score (new_hybrid_scorer regime) (fst (calculate_total_quant_score w q s)) l reason) \<and>
    hr_hybrid (calculate_hybrid_score (new_hybrid_scorer regime) (fst (calculate_total_quant_score w q s)) l reason) \<le> 100"
proof -
  have "on_scale (fst (calculate_total_quant_score w q s))"
    by (rule calculated_on_scale [OF assms(1-5)])
  from raw_hybrid_bounds [OF new_hybrid_scorer_fair [of regime] this assms(6,7)]
    round2_bounds [of 0 _ 100] show ?thesis
    by (simp add: calculate_hybrid_score_def Let_def)
qed

theorem hybrid_score_on_scale_witness:
  "hr_hybrid (calculate_hybrid_score (new_hybrid_scorer ''BEAR'')
     (fst (calculate_total_quant_score demo_quant_world demo_quant_input no_caches)) 80 []) \<le> 100"
proof -
  have "\<not> below_band pandas_backend (row_closes (replicate 30 (demo_row 100 1000)))"
    by (simp add: below_band_def last_n_def demo_row_def pandas_backend_def sum_list_replicate)
  with hybrid_score_on_scale [of demo_quant_world demo_quant_input 80 "''BEAR''" no_caches "[]"] show ?thesis
    by (simp add: demo_quant_world_def demo_quant_input_def pandas_backend_def)
qed

text \<open>
  Without statistics the quantitative score does not count: for a stock with fewer than five
  recorded cases, or with no row at all (which the scorer reports as 0 cases), the combined
  score is the same whatever the total was, as long as the safety lock stays open.
\<close>

theorem thin_statistics_erase_quant:
  assumes "qr_condition_samples r = Some n" "n < 5" "\<bar>qr_total r - l\<bar> < 30" "\<bar>t - l\<bar> < 30"
  shows "hr_hybrid (calculate_hybrid_score h (r\<lparr>qr_total := t\<rparr>) l reason) = hr_hybrid (calculate_hybrid_score h r l reason) \<and>
    quant_contribution r (hs_quant_weight h) = 50 * hs_quant_weight h"
  using assms
  by (simp add: calculate_hybrid_score_def raw_hybrid_def apply_safety_lock_def quant_contribution_def
      get_confidence_weight_def Let_def)

theorem thin_statistics_erase_quant_witness:
  "hr_hybrid (calculate_hybrid_score (new_hybrid_scorer ''BULL'') (invalid_result demo_quant_input NoPrices) 20 []) =
   hr_hybrid (calculate_hybrid_score (new_hybrid_scorer ''BULL'') (invalid_result demo_quant_input NoPrices\<lparr>qr_total := 45\<rparr>) 20 [])"
  using thin_statistics_erase_quant [of "invalid_result demo_quant_input NoPrices" 0 20 45 "new_hybrid_scorer ''BULL''" "[]"]
  by (simp add: invalid_result_def)

text \<open>
  C5. The pipeline is sound: every stock it selects is one of the candidates, has at least 30
  days of prices, a combined score of at least 40 and a grade above F; the selection has at
  most the number asked for and is ranked from 1 by descending score.
\<close>

theorem pipeline_selection_sound:
  assumes "fst (run_hybrid_scoring_pipeline w llm regime cutoff n candidates s) = Inr selected" "0 \<le> n"
  shows "int (length selected) \<le> n \<and> map hr_rank selected = [1..<length selected + 1] \<and>
    sorted_wrt (\<lambda>a b. hr_hybrid b \<le> hr_hybrid a) selected \<and>
    (\<forall>x \<in> set selected. 40 \<le> hr_hybrid x \<and> hr_grade x \<noteq> ''F'' \<and>
       (\<exists>q \<in> set candidates. qi_code q = hr_code x \<and> (\<exists>rows. qi_prices q = Some rows \<and> 30 \<le> length rows)))"
proof -
  obtain rs s' where rs: "score_all w candidates s = (rs, s')" by fastforce
  let ?passed = "filter_candidates rs (Some cutoff)"
  consider "selected = []" | scores where
    "selected = select_top_candidates (calculate_batch_hybrid_scores (new_hybrid_scorer regime) ?passed scores) (Some n)"
    using assms(1) by (auto simp: run_hybrid_scoring_pipeline_def rs Let_def rbind_eq_Inr_iff split: if_splits)
  then show ?thesis
  proof cases
    case 2
    let ?bs = "calculate_batch_hybrid_scores (new_hybrid_scorer regime) ?passed scores"
    have "int (length selected) \<le> n"
      by (simp add: 2 select_top_candidates_def Let_def length_py_prefix [OF assms(2)])
    moreover have "sorted_wrt (\<lambda>a b. hr_hybrid b \<le> hr_hybrid a) selected"
      unfolding 2 by (rule select_sorted)
    moreover have "40 \<le> hr_hybrid x \<and> hr_grade x \<noteq> ''F'' \<and>
       (\<exists>q \<in> set candidates. qi_code q = hr_code x \<and> (\<exists>rows. qi_prices q = Some rows \<and> 30 \<le> length rows))"
      if "x \<in> set selected" for x
    proof -
      have mem: "x \<in> set (select_top_candidates ?bs (Some n))" using that by (simp only: 2)
      obtain b where b: "b \<in> set ?bs" "hr_grade b \<noteq> ''F''" "hr_code x = hr_code b" "hr_hybrid x = hr_hybrid b" "hr_grade x = hr_grade b"
        by (rule in_select [OF mem]) blast
      then obtain r l t where r: "r \<in> set ?passed" "b = calculate_hybrid_score (new_hybrid_scorer regime) r l t"
        by (auto simp: calculate_batch_hybrid_scores_def split: option.splits)
      have "40 \<le> raw_hybrid (new_hybrid_scorer regime) r l"
        using b(2) r(2) by (auto simp: calculate_hybrid_score_def Let_def split: if_splits)
      then have "40 \<le> hr_hybrid b"
        using round2_mono [of 40 "raw_hybrid (new_hybrid_scorer regime) r l"] r(2) round2_40
        by (simp add: calculate_hybrid_score_def Let_def)
      moreover obtain q where "q \<in> set candidates" "qi_code q = qr_code r" "\<exists>rows. qi_prices q = Some rows \<and> 30 \<le> length rows"
        using passed_candidate [OF rs r(1)] by blast
      ultimately show ?thesis using b r(2) by (auto simp: calculate_hybrid_score_def Let_def)
    qed
    ultimately show ?thesis by (simp add: 2 select_ranks)
  qed (use assms(2) in simp)
qed

text \<open>A stock without statistics which the analyser gives 90 is chosen, however bad its figures.\<close>

lemma liked_is_chosen:
  assumes "fair h" "qr_condition_samples r = Some 0" "qr_news_samples r = Some 0" "qr_news r \<le> 10"
  shows "40 \<le> raw_hybrid h r 90"
proof -
  let ?k = "apply_safety_lock h (qr_total r) 90"
  note w = safety_lock_weights [OF assms(1), of "qr_total r" 90]
  have "40 \<le> corrected r"
    using assms(2-4) by (simp add: corrected_def quant_contribution_def news_correction_def get_confidence_weight_def)
  moreover have "raw_hybrid h r 90 = corrected r * lk_quant ?k + 90 * (1 - lk_quant ?k)"
    using corrected_weight [of r "lk_quant ?k"] by (simp add: raw_hybrid_def Let_def w(3) mult.commute)
  ultimately show ?thesis using mixed_ge [of "lk_quant ?k" 40 "corrected r" 90] w by simp
qed

lemma filter_single:
  assumes "qr_valid r"
  shows "filter_candidates [r] (Some 0) = [r\<lparr>qr_rank := 1, qr_passed := True\<rparr>]"
  using assms py_int_of_int [of 1] by (simp add: filter_candidates_def ranked_def sort_desc_def Let_def)

lemma select_single:
  assumes "hr_grade x \<noteq> ''F''"
  shows "select_top_candidates [x] (Some 2) = [x\<lparr>hr_rank := 1, hr_selected := True\<rparr>]"
  using assms by (simp add: select_top_candidates_def py_prefix_def sort_desc_def Let_def)

definition demo_scored :: quant_result where
  "demo_scored = fst (calculate_total_quant_score demo_quant_world demo_quant_input no_caches)"

lemma demo_scored_facts:
  "qr_valid demo_scored" "qr_code demo_scored = ''005930''" "qr_condition_samples demo_scored = Some 0"
  "qr_news_samples demo_scored = Some 0" "qr_news demo_scored \<le> 10"
proof -
  obtain sector p where r: "demo_scored = scored_result demo_quant_input p sector no_news no_perf" "qp_news p = 5"
  proof (rule that)
    show "demo_scored = scored_result demo_quant_input
      (quant_parts_of pandas_backend demo_quant_input (replicate 30 (demo_row 100 1000)) unclassified no_news) unclassified no_news no_perf"
      by (simp add: demo_scored_def calculate_total_quant_score_def demo_quant_input_def demo_quant_world_def
        get_stock_sector_def load_news_stats_def load_factor_performance_def remembered_def no_caches_def Let_def
        sector_of_row_def news_of_row_def perf_of_rows_def numeral_eq_Suc)
    show "qp_news (quant_parts_of pandas_backend demo_quant_input (replicate 30 (demo_row 100 1000)) unclassified no_news) = 5"
      by (simp add: quant_parts_of_def Let_def quant_news_def news_stat_part_def no_news_def demo_quant_input_def is_reverse_news_def)
  qed
  show "qr_valid demo_scored" by (simp add: r)
  show "qr_code demo_scored = ''005930''" by (simp add: r scored_result_news demo_quant_input_def)
  show "qr_condition_samples demo_scored = Some 0" "qr_news_samples demo_scored = Some 0"
    by (simp_all add: r scored_result_def no_perf_def news_details_def no_news_def Let_def split: prod.split)
  show "qr_news demo_scored \<le> 10" using round2_bounds [of 0 5 10] by (simp add: r scored_result_news)
qed

theorem pipeline_selection_sound_witness:
  "\<exists>x. fst (run_hybrid_scoring_pipeline demo_quant_world (Some (\<lambda>_. Inr (Some 90, None))) ''BULL'' 0 2 [demo_quant_input] no_caches) = Inr [x]
     \<and> hr_code x = ''005930'' \<and> hr_rank x = 1 \<and> 40 \<le> hr_hybrid x"
proof -
  let ?h = "new_hybrid_scorer ''BULL''"
  let ?r = "demo_scored\<lparr>qr_rank := 1, qr_passed := True\<rparr>"
  let ?x = "calculate_hybrid_score ?h ?r 90 []"
  let ?run = "fst (run_hybrid_scoring_pipeline demo_quant_world (Some (\<lambda>_. Inr (Some 90, None))) ''BULL'' 0 2 [demo_quant_input] no_caches)"
  obtain s' where all: "calculate_total_quant_score demo_quant_world demo_quant_input no_caches = (demo_scored, s')"
    by (cases "calculate_total_quant_score demo_quant_world demo_quant_input no_caches") (simp add: demo_scored_def)
  have "40 \<le> raw_hybrid ?h ?r 90"
    by (rule liked_is_chosen) (simp_all add: new_hybrid_scorer_fair demo_scored_facts)
  then have "hr_grade ?x \<noteq> ''F''" by (simp add: calculate_hybrid_score_def Let_def determine_grade_def)
  note chosen = select_single [OF this]
  have run: "?run = Inr [?x\<lparr>hr_rank := 1, hr_selected := True\<rparr>]"
    using chosen by (simp add: run_hybrid_scoring_pipeline_def all filter_single demo_scored_facts Let_def
      llm_score_of_def
      calculate_batch_hybrid_scores_def py_div_def)
  from pipeline_selection_sound [OF run] run show ?thesis
    by (auto simp: calculate_hybrid_score_def Let_def demo_scored_facts)
qed

text \<open>An empty list of candidates is an error: the log line divides by their number.\<close>

theorem pipeline_without_candidates:
  "run_hybrid_scoring_pipeline w llm regime cutoff n [] s = (Inl ZeroDivisionError, s)"
  by (simp add: run_hybrid_scoring_pipeline_def)

end
