(* ===== verification/Telegram_Bot.thy ===== *)
theory Telegram_Bot
  imports Config
begin

text \<open>
  The Telegram bot (\<open>shared/notification.py\<close>): fetching updates with their offset, the check
  of the sender, and the parsing of commands. What the Telegram server answers is an
  argument; a chat is the text of its id.
\<close>

section \<open>Splitting texts\<close>

text \<open>\<open>s.split()\<close>: the words between runs of blanks.\<close>

function py_words :: "string \<Rightarrow> string list" where
  "py_words s =
     (case dropWhile is_space s of
        [] \<Rightarrow> []
      | c # cs \<Rightarrow> (c # takeWhile (\<lambda>x. \<not> is_space x) cs) # py_words (dropWhile (\<lambda>x. \<not> is_space x) cs))"
  by pat_completeness auto

lemma word_rest_shorter:
  assumes "dropWhile is_space s = c # cs"
  shows "length (dropWhile P cs) < length s"
proof -
  have "length (dropWhile P cs) \<le> length cs" by (rule length_dropWhile_le)
  also have "\<dots> < length (dropWhile is_space s)" using assms by simp
  also have "\<dots> \<le> length s" by (rule length_dropWhile_le)
  finally show ?thesis .
qed

termination py_words
  by (relation "measure length") (auto simp: word_rest_shorter)

declare py_words.simps [simp del]

text \<open>\<open>s.split(c)\<close> at every occurrence of a character.\<close>

fun split_char :: "char \<Rightarrow> string \<Rightarrow> string list" where
  "split_char c [] = [[]]"
| "split_char c (x # xs) =
     (if x = c then [] # split_char c xs
      else (case split_char c xs of [] \<Rightarrow> [[x]] | w # ws \<Rightarrow> (x # w) # ws))"

fun join :: "string \<Rightarrow> string list \<Rightarrow> string" where
  "join sep [] = []"
| "join sep [w] = w"
| "join sep (w # ws) = w @ sep @ join sep ws"

definition word :: "string \<Rightarrow> bool" where
  "word w \<longleftrightarrow> w \<noteq> [] \<and> list_all (\<lambda>c. \<not> is_space c) w"

lemma py_words_Nil [simp]: "py_words [] = []"
  by (simp add: py_words.simps)

lemma py_words_word:
  assumes "word w" "t = [] \<or> is_space (hd t)"
  shows "py_words (w @ t) = w # py_words t"
proof -
  obtain c cs where w: "w = c # cs" using assms(1) by (cases w) (auto simp: word_def)
  have cs: "\<not> is_space c" "\<forall>x \<in> set cs. \<not> is_space x" using assms(1) by (auto simp: w word_def list_all_iff)
  then have "dropWhile is_space (w @ t) = c # cs @ t" "takeWhile (\<lambda>x. \<not> is_space x) (cs @ t) = cs"
    "dropWhile (\<lambda>x. \<not> is_space x) (cs @ t) = t"
    using assms(2) by (auto simp: w takeWhile_append dropWhile_append takeWhile_eq_Nil_iff dropWhile_eq_self_iff)
  then show ?thesis by (subst py_words.simps) (simp add: w)
qed

lemma py_words_blank: "is_space c \<Longrightarrow> py_words (c # s) = py_words s"
  by (subst (1 2) py_words.simps) simp

lemma py_words_join: "list_all word ws \<Longrightarrow> py_words (join '' '' ws) = ws"
proof (induction ws rule: induct_list012)
  case (2 w)
  then show ?case using py_words_word [of w "[]"] by simp
next
  case (3 w v ws)
  have blank: "is_space (CHR '' '')" by (simp add: is_space_def)
  from 3 show ?case using py_words_word [of w "'' '' @ join '' '' (v # ws)"] by (simp add: blank py_words_blank)
qed simp

section \<open>Commands\<close>

definition SUPPORTED_COMMANDS :: "string list" where
  "SUPPORTED_COMMANDS =
     [''pause'', ''resume'', ''stop'', ''dryrun'', ''buy'', ''sell'', ''sellall'', ''status'', ''portfolio'', ''pnl'', ''balance'',
      ''price'', ''watch'', ''unwatch'', ''watchlist'', ''mute'', ''unmute'', ''alert'', ''alerts'', ''risk'', ''minscore'',
      ''maxbuy'', ''config'', ''help'']"

definition parse_command :: "string \<Rightarrow> (string \<times> string list) option" where
  "parse_command message =
     (let text = py_strip message in
      if text = [] \<or> hd text \<noteq> CHR ''/'' then None
      else case py_words (tl text) of
        [] \<Rightarrow> None
      | p # args \<Rightarrow>
          (let command = hd (split_char (CHR ''@'') (to_lower p))
            in if command \<in> set SUPPORTED_COMMANDS then Some (command, args) else None))"

section \<open>Updates\<close>

record tg_update =
  tu_id :: "int option"
  tu_chat :: "string option"
  tu_user :: string
  tu_text :: string

record telegram_bot =
  tb_token :: bool
  tb_allowed :: "string list"
  tb_last :: int

text \<open>The chats that may give commands: a list in the environment, else the bot's own chat.\<close>

definition allowed_chats :: "string list \<Rightarrow> string option \<Rightarrow> string option \<Rightarrow> string list" where
  "allowed_chats given env chat_id =
     (if given \<noteq> [] then given
      else case env of
        Some (c # cs) \<Rightarrow> map py_strip (split_char (CHR '','') (c # cs))
      | _ \<Rightarrow> (case chat_id of Some (c # cs) \<Rightarrow> [c # cs] | _ \<Rightarrow> []))"

definition new_bot :: "bool \<Rightarrow> string list \<Rightarrow> string option \<Rightarrow> string option \<Rightarrow> telegram_bot" where
  "new_bot token given env chat_id = \<lparr>tb_token = token, tb_allowed = allowed_chats given env chat_id, tb_last = 0\<rparr>"

definition update_id :: "tg_update \<Rightarrow> int" where
  "update_id u = (case tu_id u of None \<Rightarrow> 0 | Some i \<Rightarrow> i)"

text \<open>\<open>server offset\<close>: the updates of the server, None when the call fails.\<close>

definition get_updates :: "(int \<Rightarrow> tg_update list option) \<Rightarrow> telegram_bot \<Rightarrow> tg_update list \<times> telegram_bot" where
  "get_updates server b =
     (if \<not> tb_token b then ([], b)
      else case server (tb_last b + 1) of
        None \<Rightarrow> ([], b)
      | Some us \<Rightarrow> (us, if us = [] then b else b\<lparr>tb_last := Max (set (map update_id us))\<rparr>))"

definition chat_text :: "string option \<Rightarrow> string" where
  "chat_text c = (case c of None \<Rightarrow> ''None'' | Some t \<Rightarrow> t)"

definition is_authorized :: "telegram_bot \<Rightarrow> string option \<Rightarrow> bool" where
  "is_authorized b chat \<longleftrightarrow> chat_text chat \<in> set (tb_allowed b)"

record bot_command =
  cm_name :: string
  cm_args :: "string list"
  cm_chat :: "string option"
  cm_user :: string

text \<open>The commands of one poll, and the chats that were refused.\<close>

definition command_of_update :: "telegram_bot \<Rightarrow> tg_update \<Rightarrow> bot_command option" where
  "command_of_update b u =
     (if \<not> is_authorized b (tu_chat u) then None
      else map_option (\<lambda>(c, args). \<lparr>cm_name = c, cm_args = args, cm_chat = tu_chat u, cm_user = tu_user u\<rparr>)
        (parse_command (tu_text u)))"

definition get_pending_commands ::
  "(int \<Rightarrow> tg_update list option) \<Rightarrow> telegram_bot \<Rightarrow> bot_command list \<times> string list \<times> telegram_bot" where
  "get_pending_commands server b =
     (let (us, b') = get_updates server b
       in (List.map_filter (command_of_update b') us,
           map (\<lambda>u. chat_text (tu_chat u)) (filter (\<lambda>u. \<not> is_authorized b' (tu_chat u)) us), b'))"

section \<open>Properties\<close>

lemma get_updates_allowed [simp]: "tb_allowed (snd (get_updates server b)) = tb_allowed b"
  by (auto simp: get_updates_def split: option.split)

lemma parse_supported: "parse_command t = Some (c, args) \<Longrightarrow> c \<in> set SUPPORTED_COMMANDS"
  by (auto simp: parse_command_def Let_def split: if_splits list.splits)

lemma in_map_filter: "y \<in> set (List.map_filter f xs) \<longleftrightarrow> (\<exists>x \<in> set xs. f x = Some y)"
  by (induction xs) (auto simp: map_filter_simps split: option.split)

lemma command_of_update_ok:
  "command_of_update b u = Some c \<Longrightarrow> is_authorized b (cm_chat c) \<and> cm_name c \<in> set SUPPORTED_COMMANDS"
  by (auto simp: command_of_update_def dest!: parse_supported split: if_splits)

lemma pending_cases:
  assumes "c \<in> set (fst (get_pending_commands server b))"
  shows "is_authorized b (cm_chat c) \<and> cm_name c \<in> set SUPPORTED_COMMANDS"
proof -
  obtain us b' where u: "get_updates server b = (us, b')" by fastforce
  with assms obtain x where "command_of_update b' x = Some c"
    by (auto simp: get_pending_commands_def in_map_filter)
  from command_of_update_ok [OF this] get_updates_allowed [of server b] show ?thesis
    by (simp add: u is_authorized_def)
qed

text \<open>
  C32. Only a chat that is allowed gives commands: every command of a poll comes from an allowed
  chat and is one of the supported ones; with no allowed chat there is none.
\<close>

theorem commands_are_authorized:
  "list_all (\<lambda>c. chat_text (cm_chat c) \<in> set (tb_allowed b) \<and> cm_name c \<in> set SUPPORTED_COMMANDS)
     (fst (get_pending_commands server b))"
  using pending_cases [of _ server b] by (auto simp: list_all_iff is_authorized_def)

lemma split_char_hd:
  assumes "c \<notin> set w"
  shows "hd (split_char c (w @ c # v)) = w" "hd (split_char c w) = w"
proof -
  have ne: "split_char c x \<noteq> []" for x by (cases x) (auto split: list.split)
  show "hd (split_char c (w @ c # v)) = w"
    using assms by (induction w) (auto split: list.split simp: ne)
  show "hd (split_char c w) = w"
    using assms by (induction w) (auto split: list.split simp: ne)
qed

lemma strip_words:
  assumes "list_all is_space pre" "list_all is_space post" "s \<noteq> []" "\<not> is_space (hd s)" "\<not> is_space (last s)"
  shows "py_strip (pre @ s @ post) = s"
proof -
  have "dropWhile is_space (pre @ s @ post) = s @ post"
    using assms(1,3,4) by (cases s) (auto simp: list_all_iff dropWhile_append)
  moreover have "dropWhile is_space (rev (s @ post)) = rev s"
    using assms(2,3,5) by (cases "rev s") (auto simp: list_all_iff dropWhile_append hd_rev [symmetric])
  ultimately show ?thesis by (simp add: py_strip_def)
qed

lemma join_last:
  assumes "list_all word ws" "ws \<noteq> []"
  shows "join '' '' ws \<noteq> [] \<and> \<not> is_space (last (join '' '' ws))"
  using assms
proof (induction ws rule: induct_list012)
  case (3 w v ws)
  then show ?case by auto
qed (auto simp: word_def list_all_iff)

text \<open>
  A command is parsed as it was written: a slash, a supported name in any case, perhaps with
  the name of the bot behind an at sign, and its words, between any blanks.
\<close>

theorem command_roundtrip:
  assumes "list_all is_space pre" "list_all is_space post" "word name" "to_lower name = c" "c \<in> set SUPPORTED_COMMANDS"
    and "list_all word args"
  shows "parse_command (pre @ CHR ''/'' # join '' '' (name # args) @ post) = Some (c, args)"
proof -
  let ?t = "join '' '' (name # args)"
  have words: "list_all word (name # args)" using assms(3,6) by simp
  have slash: "\<not> is_space CHR ''/''" by (simp add: is_space_def)
  have "py_strip (pre @ (CHR ''/'' # ?t) @ post) = CHR ''/'' # ?t"
    by (rule strip_words) (use assms(1,2) slash join_last [OF words] in auto)
  moreover have "CHR ''@'' \<notin> set c" using assms(5) by (auto simp: SUPPORTED_COMMANDS_def)
  ultimately show ?thesis
    using py_words_join [OF words] assms(4,5) split_char_hd(2) [of "CHR ''@''" c]
    by (simp add: parse_command_def Let_def)
qed

theorem command_roundtrip_witness:
  "parse_command ('' '' @ CHR ''/'' # join '' '' [''Sell'', ''005930'', ''3''] @ []) = Some (''sell'', [''005930'', ''3''])"
proof (rule command_roundtrip)
  show "to_lower ''Sell'' = ''sell''" by code_simp
qed (simp_all add: is_space_def word_def SUPPORTED_COMMANDS_def)

text \<open>
  No update is seen twice: as long as the server answers updates from the offset on, the
  number of the last one only grows, and later polls ask beyond every update seen.
\<close>

theorem offset_grows:
  assumes "\<And>n us u. server n = Some us \<Longrightarrow> u \<in> set us \<Longrightarrow> n \<le> update_id u" "get_updates server b = (us, b')"
  shows "tb_last b \<le> tb_last b' \<and> (\<forall>u \<in> set us. tb_last b < update_id u \<and> update_id u \<le> tb_last b')"
proof (cases "us = []")
  case True
  with assms(2) show ?thesis by (auto simp: get_updates_def split: if_splits option.splits)
next
  case False
  with assms(2) have got: "server (tb_last b + 1) = Some us" "b' = b\<lparr>tb_last := Max (set (map update_id us))\<rparr>"
    by (auto simp: get_updates_def split: if_splits option.splits)
  have seen: "\<forall>u \<in> set us. tb_last b < update_id u \<and> update_id u \<le> tb_last b'"
    using assms(1) [OF got(1)] got(2) by force
  moreover obtain u where "u \<in> set us" using False by (cases us) auto
  ultimately show ?thesis by force
qed

theorem offset_grows_witness:
  "tb_last (snd (get_updates (\<lambda>n. Some [\<lparr>tu_id = Some n, tu_chat = None, tu_user = [], tu_text = []\<rparr>])
     \<lparr>tb_token = True, tb_allowed = [], tb_last = 6\<rparr>)) = 7"
proof -
  let ?server = "\<lambda>n. Some [\<lparr>tu_id = Some n, tu_chat = None, tu_user = [], tu_text = []\<rparr>]"
  let ?b = "\<lparr>tb_token = True, tb_allowed = [], tb_last = 6\<rparr>"
  have "fst (get_updates ?server ?b) = [\<lparr>tu_id = Some 7, tu_chat = None, tu_user = [], tu_text = []\<rparr>]"
    by (simp add: get_updates_def)
  with offset_grows [of ?server ?b "fst (get_updates ?server ?b)" "snd (get_updates ?server ?b)"] show ?thesis
    by (simp add: update_id_def get_updates_def)
qed

end
