(* ===== verification/Watchlist.thy ===== *)
theory Watchlist
  imports Sectors Redis_Cache
begin

text \<open>
  The tables WATCHLIST and WATCHLIST_HISTORY (\<open>shared/database/trading.py\<close>, readers in
  \<open>shared/db/repository.py\<close>), CONFIG (\<open>repository.py\<close>) and AGENT_COMMANDS
  (\<open>shared/database/commands.py\<close>). A table is its list of rows; an operation gets what the
  server does as an argument and returns the committed rows. Times are hours.
\<close>

section \<open>Texts\<close>

text \<open>
  Strings are bytes, but \<open>len\<close> and slices count characters: a lead byte with the
  continuation bytes after it.
\<close>

definition continuation :: "char \<Rightarrow> bool" where
  "continuation c \<longleftrightarrow> (let n = (of_char c :: nat) in 128 \<le> n \<and> n < 192)"

function chars :: "string \<Rightarrow> string list" where
  "chars [] = []"
| "chars (c # cs) = (c # takeWhile continuation cs) # chars (dropWhile continuation cs)"
  by pat_completeness auto

termination chars
  by (relation "measure length") (auto simp: le_imp_less_Suc length_dropWhile_le)

lemma concat_chars [simp]: "concat (chars s) = s"
  by (induction s rule: chars.induct) simp_all

lemma length_chars_le: "length (chars s) \<le> length s"
proof (induction s rule: chars.induct)
  case (2 c cs)
  then show ?case using length_dropWhile_le [of continuation cs] by simp
qed simp

text \<open>\<open>s[:n] + "..."\<close> when \<open>s\<close> has more than \<open>n\<close> characters.\<close>

definition clip :: "nat \<Rightarrow> string \<Rightarrow> string" where
  "clip n s = (if n < length (chars s) then concat (take n (chars s)) @ ''...'' else s)"

lemma clip_short [simp]: "length (chars s) \<le> n \<Longrightarrow> clip n s = s"
  by (simp add: clip_def)

text \<open>\<open>s.split(sep, 1)\<close> at the first occurrence; None when there is none.\<close>

fun split_once :: "string \<Rightarrow> string \<Rightarrow> (string \<times> string) option" where
  "split_once sep [] = (if sep = [] then Some ([], []) else None)"
| "split_once sep (c # cs) =
     (if take (length sep) (c # cs) = sep then Some ([], drop (length sep) (c # cs))
      else map_option (\<lambda>(a, b). (c # a, b)) (split_once sep cs))"

lemma split_once_here: "split_once sep (sep @ t) = Some ([], t)"
proof (cases "sep @ t")
  case (Cons c cs)
  have "take (length sep) (c # cs) = sep" "drop (length sep) (c # cs) = t"
    by (simp_all only: Cons [symmetric]) simp_all
  with Cons show ?thesis by simp
qed simp

text \<open>A character outside the separator ends every earlier occurrence.\<close>

lemma split_once_after:
  assumes "sep \<noteq> []" "c \<notin> set sep" "\<not> str_in sep r"
  shows "split_once sep (r @ c # t) = map_option (\<lambda>(a, b). (r @ c # a, b)) (split_once sep t)"
  using assms(3)
proof (induction r)
  case Nil
  have "take (length sep) (c # t) \<noteq> sep"
    using assms(1,2) by (cases sep) auto
  then show ?case by simp
next
  case (Cons x r)
  have "take (length sep) (x # r @ c # t) \<noteq> sep"
  proof
    assume eq: "take (length sep) (x # r @ c # t) = sep"
    show False
    proof (cases "length sep \<le> length (x # r)")
      case True
      then have "take (length sep) (x # r @ c # t) = take (length sep) (x # r)" by (cases sep) simp_all
      with eq Cons.prems show False by simp
    next
      case False
      then have "c \<in> set (take (length sep) ((x # r) @ c # t))" by (simp only: take_append) (auto simp: take_Cons' split: if_splits)
      with eq assms(2) show False by simp
    qed
  qed
  with Cons show ?case by (cases "split_once sep t") auto
qed

lemma strip_trailing:
  assumes "is_space c"
  shows "py_strip (s @ [c]) = py_strip s"
proof (cases "\<forall>x \<in> set s. is_space x")
  case True
  then have "\<forall>x \<in> set (s @ [c]). is_space x" using assms by auto
  with True have empty: "dropWhile is_space (s @ [c]) = []" "dropWhile is_space s = []"
    by (simp_all only: dropWhile_eq_Nil_conv)
  show ?thesis unfolding py_strip_def empty ..
next
  case False
  then have "dropWhile is_space (s @ [c]) = dropWhile is_space s @ [c]" by (meson dropWhile_append1)
  with assms show ?thesis by (simp add: py_strip_def)
qed

section \<open>The watchlist\<close>

definition metadata_marker :: string where
  "metadata_marker = ''[LLM_METADATA]''"

text \<open>The JSON library: writing may raise, reading raises ValueError for a broken text.\<close>

record json_codec =
  js_dumps :: "(string \<times> jval) list \<Rightarrow> string res"
  js_loads :: "string \<Rightarrow> jval res"

record watch_row =
  wl_code :: string
  wl_name :: string
  wl_created :: rat
  wl_tradable :: "int option"
  wl_score :: "rat option"
  wl_reason :: "string option"
  wl_updated :: "rat option"
  wl_per :: "rat option"
  wl_pbr :: "rat option"
  wl_roe :: "rat option"
  wl_cap :: "rat option"
  wl_sales :: "rat option"
  wl_eps :: "rat option"

text \<open>
  A candidate as a dictionary: the outer None is an entry that is absent; no metadata and an
  empty dictionary are the same.
\<close>

record watch_candidate =
  wc_code :: string
  wc_name :: string
  wc_tradable :: "bool option"
  wc_score :: "rat option"
  wc_reason :: "string option option"
  wc_metadata :: "(string \<times> jval) list"
  wc_per :: "rat option"
  wc_pbr :: "rat option"
  wc_roe :: "rat option"
  wc_cap :: "rat option"
  wc_sales :: "rat option"
  wc_eps :: "rat option"

text \<open>
  The world of a write: the time in UTC, which the code stores; how far \<open>NOW()\<close> of the server
  is ahead of it; the codec; whether a statement fails, and which rows the server accepts.
\<close>

record watch_world =
  ww_utc :: rat
  ww_ahead :: rat
  ww_json :: json_codec
  ww_fault :: "py_exc option"
  ww_accepts :: "watch_row \<Rightarrow> bool"

definition candidate_reason :: "watch_candidate \<Rightarrow> string" where
  "candidate_reason c = (case wc_reason c of Some (Some t) \<Rightarrow> t | _ \<Rightarrow> [])"

definition watch_reason :: "json_codec \<Rightarrow> watch_candidate \<Rightarrow> string" where
  "watch_reason js c =
     (let r = candidate_reason c
       in clip 60000
            (if wc_metadata c = [] then r
             else case js_dumps js (wc_metadata c) of
               Inl _ \<Rightarrow> r
             | Inr j \<Rightarrow> r @ [CHR 0x0A, CHR 0x0A] @ metadata_marker @ j))"

definition tradable_int :: "bool option \<Rightarrow> int" where
  "tradable_int t = (if t = Some False then 0 else 1)"

definition score_or_zero :: "rat option \<Rightarrow> rat" where
  "score_or_zero x = (case x of None \<Rightarrow> 0 | Some r \<Rightarrow> r)"

definition watch_row_of :: "watch_world \<Rightarrow> watch_candidate \<Rightarrow> watch_row" where
  "watch_row_of w c =
     \<lparr>wl_code = wc_code c, wl_name = wc_name c, wl_created = ww_utc w, wl_tradable = Some (tradable_int (wc_tradable c)),
      wl_score = Some (score_or_zero (wc_score c)), wl_reason = Some (watch_reason (ww_json w) c),
      wl_updated = Some (ww_utc w), wl_per = wc_per c, wl_pbr = wc_pbr c, wl_roe = wc_roe c, wl_cap = wc_cap c,
      wl_sales = wc_sales c, wl_eps = wc_eps c\<rparr>"

text \<open>\<open>ON DUPLICATE KEY UPDATE\<close>: everything but the time of creation.\<close>

definition watch_merge :: "watch_row \<Rightarrow> watch_row \<Rightarrow> watch_row" where
  "watch_merge old new = new\<lparr>wl_created := wl_created old\<rparr>"

interpretation watch_rows: keyed_rows wl_code watch_merge
  by unfold_locales (simp add: watch_merge_def)

definition stale :: "watch_world \<Rightarrow> watch_row \<Rightarrow> bool" where
  "stale w r = (case wl_updated r of None \<Rightarrow> False | Some u \<Rightarrow> u < ww_utc w + ww_ahead w - 24)"

text \<open>
  An exception leaves the session without a commit, so the table is what it was: the answer
  is the exception or nothing, with the committed rows.
\<close>

definition save_to_watchlist ::
  "watch_world \<Rightarrow> watch_candidate list \<Rightarrow> watch_row list \<Rightarrow> unit res \<times> watch_row list" where
  "save_to_watchlist w cs rows =
     (if cs = [] then (Inr (), rows)
      else case ww_fault w of
        Some e \<Rightarrow> (Inl e, rows)
      | None \<Rightarrow>
          (let new = map (watch_row_of w) cs
            in if list_all (ww_accepts w) new
               then (Inr (), fold (put_row wl_code watch_merge) new (filter (\<lambda>r. \<not> stale w r) rows))
               else (Inl DbError, rows)))"

text \<open>The reader of the repository takes the metadata apart again.\<close>

definition parse_llm_reason :: "json_codec \<Rightarrow> string \<Rightarrow> (string \<times> jval) res" where
  "parse_llm_reason js raw =
     (case split_once metadata_marker raw of
        None \<Rightarrow> Inr (raw, JObj [])
      | Some (base, meta) \<Rightarrow>
          (case js_loads js (py_strip meta) of
             Inr v \<Rightarrow> Inr (py_strip base, v)
           | Inl ValueError \<Rightarrow> Inr (py_strip base, JObj [])
           | Inl e \<Rightarrow> Inl e))"

record active_entry =
  ae_name :: string
  ae_tradable :: bool
  ae_per :: "rat option"
  ae_pbr :: "rat option"
  ae_cap :: "rat option"
  ae_score :: rat
  ae_reason :: string
  ae_metadata :: "(string \<times> jval) list"
  ae_grade :: jval
  ae_bear :: jval

text \<open>Metadata that are no dictionary have no method \<open>get\<close>.\<close>

definition active_entry_of :: "json_codec \<Rightarrow> watch_row \<Rightarrow> active_entry res" where
  "active_entry_of js r =
     rbind (parse_llm_reason js (case wl_reason r of None \<Rightarrow> [] | Some t \<Rightarrow> t)) (\<lambda>(reason, meta).
       case meta of
         JObj d \<Rightarrow>
           Inr \<lparr>ae_name = wl_name r, ae_tradable = (wl_tradable r \<noteq> None \<and> wl_tradable r \<noteq> Some 0),
                ae_per = wl_per r, ae_pbr = wl_pbr r, ae_cap = wl_cap r, ae_score = score_or_zero (wl_score r),
                ae_reason = reason, ae_metadata = d, ae_grade = field ''llm_grade'' JNull d,
                ae_bear = field ''bear_strategy'' JNull d\<rparr>
       | _ \<Rightarrow> Inl AttributeError)"

fun active_watchlist :: "json_codec \<Rightarrow> watch_row list \<Rightarrow> (string \<times> active_entry) list \<Rightarrow> (string \<times> active_entry) list res" where
  "active_watchlist js [] d = Inr d"
| "active_watchlist js (r # rs) d =
     rbind (active_entry_of js r) (\<lambda>e. active_watchlist js rs (AList.update (wl_code r) e d))"

definition get_active_watchlist :: "json_codec \<Rightarrow> watch_row list \<Rightarrow> (string \<times> active_entry) list res" where
  "get_active_watchlist js rows = active_watchlist js rows []"

text \<open>The older reader leaves the columns as they are.\<close>

record plain_entry =
  pe_code :: string
  pe_name :: string
  pe_tradable :: "int option"
  pe_score :: "rat option"
  pe_reason :: "string option"

definition sql_active_watchlist :: "watch_row list \<Rightarrow> (string \<times> plain_entry) list" where
  "sql_active_watchlist rows =
     fold (\<lambda>r d. AList.update (wl_code r)
         \<lparr>pe_code = wl_code r, pe_name = wl_name r, pe_tradable = wl_tradable r, pe_score = wl_score r,
          pe_reason = wl_reason r\<rparr> d) rows []"

section \<open>The history of the watchlist\<close>

record history_row =
  hy_date :: string
  hy_code :: string
  hy_name :: string
  hy_tradable :: int
  hy_score :: "rat option"
  hy_reason :: "string option"

text \<open>\<open>len\<close> of a reason that is None raises TypeError.\<close>

definition history_reason :: "watch_candidate \<Rightarrow> string res" where
  "history_reason c =
     (case wc_reason c of None \<Rightarrow> Inr [] | Some None \<Rightarrow> Inl TypeError | Some (Some t) \<Rightarrow> Inr (clip 3950 t))"

definition insert_history :: "(history_row \<Rightarrow> bool) \<Rightarrow> string \<Rightarrow> watch_candidate \<Rightarrow> history_row list \<Rightarrow> history_row list res" where
  "insert_history accepts date c rows =
     rbind (history_reason c) (\<lambda>t.
       let r = \<lparr>hy_date = date, hy_code = wc_code c, hy_name = wc_name c, hy_tradable = tradable_int (wc_tradable c),
                hy_score = Some (score_or_zero (wc_score c)), hy_reason = Some t\<rparr>
        in if list_ex (\<lambda>x. (hy_date x, hy_code x) = (date, wc_code c)) rows \<or> \<not> accepts r then Inl DbError
           else Inr (rows @ [r]))"

fun insert_all_history :: "(history_row \<Rightarrow> bool) \<Rightarrow> string \<Rightarrow> watch_candidate list \<Rightarrow> history_row list \<Rightarrow> history_row list res" where
  "insert_all_history accepts date [] rows = Inr rows"
| "insert_all_history accepts date (c # cs) rows =
     rbind (insert_history accepts date c rows) (insert_all_history accepts date cs)"

text \<open>Every exception is caught and rolled back. The date of a call without one is today.\<close>

definition save_to_watchlist_history ::
  "py_exc option \<Rightarrow> (history_row \<Rightarrow> bool) \<Rightarrow> string \<Rightarrow> string option \<Rightarrow> watch_candidate list \<Rightarrow> history_row list \<Rightarrow> history_row list" where
  "save_to_watchlist_history fault accepts today date cs rows =
     (let day = (case date of None \<Rightarrow> today | Some d \<Rightarrow> d)
       in case fault of
            Some e \<Rightarrow> rows
          | None \<Rightarrow>
              (case insert_all_history accepts day cs (filter (\<lambda>r. hy_date r \<noteq> day) rows) of
                 Inl _ \<Rightarrow> rows
               | Inr rows' \<Rightarrow> rows'))"

record history_entry =
  he_name :: string
  he_tradable :: bool
  he_score :: rat
  he_reason :: string

definition get_watchlist_history :: "py_exc option \<Rightarrow> string \<Rightarrow> history_row list \<Rightarrow> (string \<times> history_entry) list" where
  "get_watchlist_history fault date rows =
     (case fault of
        Some _ \<Rightarrow> []
      | None \<Rightarrow>
          fold (\<lambda>r d. AList.update (hy_code r)
              \<lparr>he_name = hy_name r, he_tradable = (hy_tradable r \<noteq> 0), he_score = score_or_zero (hy_score r),
               he_reason = (case hy_reason r of None \<Rightarrow> [] | Some t \<Rightarrow> t)\<rparr> d)
            (filter (\<lambda>r. hy_date r = date) rows) [])"

section \<open>The CONFIG table\<close>

record config_row =
  cf_key :: string
  cf_value :: string
  cf_description :: "string option"
  cf_updated :: rat

definition config_merge :: "config_row \<Rightarrow> config_row \<Rightarrow> config_row" where
  "config_merge old new =
     new\<lparr>cf_description := (case cf_description new of Some (c # cs) \<Rightarrow> Some (c # cs) | _ \<Rightarrow> cf_description old)\<rparr>"

interpretation config_rows: keyed_rows cf_key config_merge
  by unfold_locales (simp add: config_merge_def)

definition get_config :: "py_exc option \<Rightarrow> string \<Rightarrow> config_row list \<Rightarrow> string option" where
  "get_config fault k rows =
     (case fault of Some _ \<Rightarrow> None | None \<Rightarrow> map_option cf_value (row_of cf_key k rows))"

definition get_all_config :: "py_exc option \<Rightarrow> config_row list \<Rightarrow> (string \<times> string) list" where
  "get_all_config fault rows =
     (case fault of Some _ \<Rightarrow> [] | None \<Rightarrow> fold (\<lambda>r. AList.update (cf_key r) (cf_value r)) rows [])"

definition set_config ::
  "py_exc option \<Rightarrow> rat \<Rightarrow> string \<Rightarrow> string \<Rightarrow> string option \<Rightarrow> config_row list \<Rightarrow> bool \<times> config_row list" where
  "set_config fault tm k v description rows =
     (case fault of
        Some _ \<Rightarrow> (False, rows)
      | None \<Rightarrow>
          (True, put_row cf_key config_merge
             \<lparr>cf_key = k, cf_value = v, cf_description = description, cf_updated = tm\<rparr> rows))"

definition delete_config :: "py_exc option \<Rightarrow> string \<Rightarrow> config_row list \<Rightarrow> bool \<times> config_row list" where
  "delete_config fault k rows =
     (case fault of
        Some _ \<Rightarrow> (False, rows)
      | None \<Rightarrow> (list_ex (\<lambda>r. cf_key r = k) rows, filter (\<lambda>r. cf_key r \<noteq> k) rows))"

section \<open>The commands of the agent\<close>

text \<open>
  The status and the retry count of an inserted row are the column defaults of the server.
\<close>

record agent_command =
  ac_id :: int
  ac_type :: string
  ac_payload :: "string option"
  ac_status :: "string option"
  ac_priority :: int
  ac_by :: "string option"
  ac_created :: rat
  ac_started :: "rat option"
  ac_processed :: "rat option"
  ac_result :: "string option"
  ac_order :: "string option"
  ac_retries :: "int option"

record agent_table =
  ag_rows :: "agent_command list"
  ag_next :: int

record agent_server =
  ag_default_status :: "string option"
  ag_default_retries :: "int option"
  ag_now :: rat
  ag_json :: json_codec
  ag_fault :: "py_exc option"

definition create_agent_command ::
  "agent_server \<Rightarrow> string \<Rightarrow> (string \<times> jval) list \<Rightarrow> string option \<Rightarrow> int \<Rightarrow> agent_table \<Rightarrow> int res \<times> agent_table" where
  "create_agent_command w ty payload by priority t =
     (case js_dumps (ag_json w) payload of
        Inl e \<Rightarrow> (Inl e, t)
      | Inr j \<Rightarrow>
          (case ag_fault w of
             Some e \<Rightarrow> (Inl e, t)
           | None \<Rightarrow>
               (Inr (ag_next t),
                t\<lparr>ag_rows := ag_rows t @
                    [\<lparr>ac_id = ag_next t, ac_type = ty, ac_payload = Some j, ac_status = ag_default_status w,
                      ac_priority = priority, ac_by = by, ac_created = ag_now w, ac_started = None, ac_processed = None,
                      ac_result = None, ac_order = None, ac_retries = ag_default_retries w\<rparr>],
                  ag_next := ag_next t + 1\<rparr>)))"

definition command_payload :: "json_codec \<Rightarrow> agent_command \<Rightarrow> jval res" where
  "command_payload js c = (case ac_payload c of Some (x # xs) \<Rightarrow> js_loads js (x # xs) | _ \<Rightarrow> Inr (JObj []))"

fun payloads_of :: "json_codec \<Rightarrow> agent_command list \<Rightarrow> (agent_command \<times> jval) list res" where
  "payloads_of js [] = Inr []"
| "payloads_of js (c # cs) =
     rbind (command_payload js c) (\<lambda>v. rbind (payloads_of js cs) (\<lambda>vs. Inr ((c, v) # vs)))"

text \<open>\<open>ORDER BY PRIORITY ASC, CREATED_AT ASC LIMIT\<close>; every exception gives the empty list.\<close>

definition pending_rows :: "nat \<Rightarrow> agent_table \<Rightarrow> agent_command list" where
  "pending_rows limit t =
     take limit (sort_key ac_priority (sort_key ac_created (filter (\<lambda>c. ac_status c = Some ''PENDING'') (ag_rows t))))"

definition or_empty :: "'a list res \<Rightarrow> 'a list" where
  "or_empty r = (case r of Inl _ \<Rightarrow> [] | Inr xs \<Rightarrow> xs)"

definition get_pending_agent_commands :: "agent_server \<Rightarrow> nat \<Rightarrow> agent_table \<Rightarrow> (agent_command \<times> jval) list" where
  "get_pending_agent_commands w limit t =
     (case ag_fault w of Some _ \<Rightarrow> [] | None \<Rightarrow> or_empty (payloads_of (ag_json w) (pending_rows limit t)))"

definition with_status :: "rat \<Rightarrow> string \<Rightarrow> string option \<Rightarrow> string option \<Rightarrow> agent_command \<Rightarrow> agent_command" where
  "with_status tm status result order c =
     (if status = ''PROCESSING'' then c\<lparr>ac_status := Some status, ac_started := Some tm\<rparr>
      else c\<lparr>ac_status := Some status, ac_processed := Some tm, ac_result := result, ac_order := order\<rparr>)"

definition update_agent_command_status ::
  "agent_server \<Rightarrow> int \<Rightarrow> string \<Rightarrow> string option \<Rightarrow> string option \<Rightarrow> agent_table \<Rightarrow> unit res \<times> agent_table" where
  "update_agent_command_status w i status result order t =
     (case ag_fault w of
        Some e \<Rightarrow> (Inl e, t)
      | None \<Rightarrow>
          (Inr (), t\<lparr>ag_rows := map (\<lambda>c. if ac_id c = i then with_status (ag_now w) status result order c else c) (ag_rows t)\<rparr>))"

definition get_recent_agent_commands :: "agent_server \<Rightarrow> nat \<Rightarrow> string option \<Rightarrow> agent_table \<Rightarrow> (agent_command \<times> jval) list" where
  "get_recent_agent_commands w limit by t =
     (case ag_fault w of
        Some _ \<Rightarrow> []
      | None \<Rightarrow>
          or_empty (payloads_of (ag_json w)
            (take limit (sort_key (\<lambda>c. - ac_created c)
               (case by of Some (x # xs) \<Rightarrow> filter (\<lambda>c. ac_by c = Some (x # xs)) (ag_rows t) | _ \<Rightarrow> ag_rows t)))))"

section \<open>Lemmas\<close>

text \<open>The table after a save, row by row.\<close>

lemma save_rows:
  assumes "distinct (map wl_code rows)" "distinct (map wc_code cs)" "cs \<noteq> []" "save_to_watchlist w cs rows = (Inr (), rows')"
  shows "row_of wl_code k rows' =
    (case row_of wc_code k cs of
       Some c \<Rightarrow>
         Some ((watch_row_of w c)\<lparr>wl_created := (case row_of wl_code k rows of
            Some r \<Rightarrow> if stale w r then ww_utc w else wl_created r | None \<Rightarrow> ww_utc w)\<rparr>)
     | None \<Rightarrow> (case row_of wl_code k rows of None \<Rightarrow> None | Some r \<Rightarrow> if stale w r then None else Some r))"
proof -
  let ?new = "map (watch_row_of w) cs"
  have rows': "rows' = fold (put_row wl_code watch_merge) ?new (filter (\<lambda>r. \<not> stale w r) rows)"
    using assms(3,4) by (auto simp: save_to_watchlist_def Let_def split: option.splits if_splits)
  have "map wl_code ?new = map wc_code cs" by (simp add: watch_row_of_def comp_def)
  with assms(2) have fresh: "distinct (map wl_code ?new)" by (simp only:)
  have new: "row_of wl_code k ?new = map_option (watch_row_of w) (row_of wc_code k cs)" for k
    by (induction cs) (simp_all add: watch_row_of_def)
  show ?thesis
    unfolding rows' watch_rows.row_of_puts [OF fresh] new row_of_filter [OF assms(1)]
    by (auto simp: watch_merge_def watch_row_of_def split: option.split)
qed

lemma save_distinct:
  assumes "distinct (map wl_code rows)" "save_to_watchlist w cs rows = (r, rows')"
  shows "distinct (map wl_code rows')"
  using assms by (auto simp: save_to_watchlist_def Let_def distinct_map_filter intro!: watch_rows.distinct_puts
      split: option.splits if_splits)

lemma active_watchlist_other:
  assumes "active_watchlist js rows d = Inr d'" "k \<notin> wl_code ` set rows"
  shows "map_of d' k = map_of d k"
  using assms by (induction js rows d rule: active_watchlist.induct) (auto simp: rbind_eq_Inr_iff update_conv')

lemma active_watchlist_in:
  assumes "active_watchlist js rows d = Inr d'" "distinct (map wl_code rows)" "r \<in> set rows"
  shows "\<exists>e. active_entry_of js r = Inr e \<and> map_of d' (wl_code r) = Some e"
  using assms
proof (induction js rows d rule: active_watchlist.induct)
  case (2 js x rs d)
  from 2(2) obtain e where e: "active_entry_of js x = Inr e" "active_watchlist js rs (AList.update (wl_code x) e d) = Inr d'"
    by (auto simp: rbind_eq_Inr_iff)
  show ?case
  proof (cases "r = x")
    case True
    with 2(3) have "wl_code r \<notin> wl_code ` set rs" by simp
    from active_watchlist_other [OF e(2) this] e(1) True show ?thesis by (simp add: update_conv')
  next
    case False
    with 2 e show ?thesis by auto
  qed
qed simp

text \<open>What the writer puts into a reason the reader takes out again.\<close>

lemma parse_written:
  assumes "\<not> str_in metadata_marker r" "js_loads js (py_strip j) = Inr v"
  shows "parse_llm_reason js (r @ [CHR 0x0A, CHR 0x0A] @ metadata_marker @ j) = Inr (py_strip r, v)"
proof -
  have sep: "metadata_marker \<noteq> []" "CHR 0x0A \<notin> set metadata_marker" by (simp_all add: metadata_marker_def)
  have "split_once metadata_marker (r @ CHR 0x0A # CHR 0x0A # metadata_marker @ j) = Some (r @ [CHR 0x0A, CHR 0x0A], j)"
    using split_once_after [OF sep, of r "CHR 0x0A # metadata_marker @ j"] split_once_after [OF sep, of "[]" "metadata_marker @ j"]
      assms(1)
    by (simp add: split_once_here metadata_marker_def)
  moreover have "py_strip (r @ [CHR 0x0A, CHR 0x0A]) = py_strip r"
    using strip_trailing [of "CHR 0x0A" "r @ [CHR 0x0A]"] strip_trailing [of "CHR 0x0A" r] by (simp add: is_space_def)
  ultimately show ?thesis using assms(2) by (simp add: parse_llm_reason_def)
qed

section \<open>Properties\<close>

text \<open>
  C31. What the selection writes the scanner reads: after a save the entry of a candidate has its
  reason without the blanks around it, its metadata with the grade and the strategies for a
  falling market, and its score, as long as the reason does not contain the marker and the
  whole text is not clipped. The hypotheses on the codec are that it reads what it wrote.
\<close>

theorem metadata_roundtrip:
  assumes "distinct (map wl_code rows)" "distinct (map wc_code cs)" "c \<in> set cs"
    and "save_to_watchlist w cs rows = (Inr (), rows')" "get_active_watchlist js rows' = Inr d" "js = ww_json w"
    and "wc_metadata c = m" "m \<noteq> []" "js_dumps js m = Inr j" "js_loads js (py_strip j) = Inr (JObj m)"
    and "\<not> str_in metadata_marker (candidate_reason c)"
    and "length (chars (candidate_reason c @ [CHR 0x0A, CHR 0x0A] @ metadata_marker @ j)) \<le> 60000"
  shows "\<exists>e. map_of d (wc_code c) = Some e \<and> ae_reason e = py_strip (candidate_reason c) \<and> ae_metadata e = m \<and>
    ae_grade e = field ''llm_grade'' JNull m \<and> ae_bear e = field ''bear_strategy'' JNull m \<and>
    ae_score e = score_or_zero (wc_score c) \<and> ae_tradable e = (wc_tradable c \<noteq> Some False)"
proof -
  have "row_of wc_code (wc_code c) cs = Some c" using assms(2,3) by (rule row_of_distinct)
  with save_rows [OF assms(1,2) _ assms(4), of "wc_code c"] assms(3) obtain r where
    r: "row_of wl_code (wc_code c) rows' = Some r" "\<exists>t. r = (watch_row_of w c)\<lparr>wl_created := t\<rparr>" by force
  then have mem: "r \<in> set rows'" "wl_code r = wc_code c" using row_of_Some by fastforce+
  obtain e where e: "active_entry_of js r = Inr e" "map_of d (wc_code c) = Some e"
    using active_watchlist_in [OF assms(5) [unfolded get_active_watchlist_def] save_distinct [OF assms(1,4)] mem(1)] mem(2) by auto
  have "parse_llm_reason js (watch_reason js c) = Inr (py_strip (candidate_reason c), JObj m)"
    using assms(7-12) by (simp add: watch_reason_def Let_def parse_written [simplified])
  with r(2) e(1) assms(6) show ?thesis
    by (auto simp: e(2) active_entry_of_def watch_row_of_def tradable_int_def score_or_zero_def)
qed

definition demo_codec :: json_codec where
  "demo_codec = \<lparr>js_dumps = (\<lambda>d. Inr ''{}''), js_loads = (\<lambda>t. if t = ''{}'' then Inr (JObj [(''llm_grade'', JStr ''A'')]) else Inl ValueError)\<rparr>"

definition demo_watch_world :: watch_world where
  "demo_watch_world = \<lparr>ww_utc = 100, ww_ahead = 9, ww_json = demo_codec, ww_fault = None, ww_accepts = (\<lambda>_. True)\<rparr>"

definition demo_watch :: watch_candidate where
  "demo_watch = \<lparr>wc_code = ''005930'', wc_name = ''x'', wc_tradable = None, wc_score = Some 80, wc_reason = Some (Some ''good ''),
     wc_metadata = [(''llm_grade'', JStr ''A'')], wc_per = None, wc_pbr = None, wc_roe = None, wc_cap = None, wc_sales = None, wc_eps = None\<rparr>"

lemma demo_save: "save_to_watchlist demo_watch_world [demo_watch] [] = (Inr (), [watch_row_of demo_watch_world demo_watch])"
  by (simp add: save_to_watchlist_def demo_watch_world_def put_row_def)

lemma demo_text: "watch_reason demo_codec demo_watch = ''good '' @ [CHR 0x0A, CHR 0x0A] @ metadata_marker @ ''{}''"
  using length_chars_le [of "''good '' @ [CHR 0x0A, CHR 0x0A] @ metadata_marker @ ''{}''"]
  by (simp add: watch_reason_def Let_def demo_watch_def demo_codec_def candidate_reason_def metadata_marker_def)

theorem metadata_roundtrip_witness:
  "\<exists>d e. get_active_watchlist demo_codec [watch_row_of demo_watch_world demo_watch] = Inr d \<and>
     map_of d ''005930'' = Some e \<and> ae_reason e = ''good'' \<and> ae_grade e = JStr ''A''"
proof -
  have marker: "\<not> str_in metadata_marker ''good ''" by (simp add: metadata_marker_def)
  have parsed: "parse_llm_reason demo_codec (watch_reason demo_codec demo_watch) = Inr (''good'', JObj [(''llm_grade'', JStr ''A'')])"
    unfolding demo_text using parse_written [OF marker, of demo_codec "''{}''" "JObj [(''llm_grade'', JStr ''A'')]"]
    by (simp add: demo_codec_def py_strip_def is_space_def)
  obtain d where d: "get_active_watchlist demo_codec [watch_row_of demo_watch_world demo_watch] = Inr d"
    by (simp add: get_active_watchlist_def active_entry_of_def watch_row_of_def demo_watch_world_def parsed [simplified demo_watch_world_def])
  have len: "length (chars (''good '' @ [CHR 0x0A, CHR 0x0A] @ metadata_marker @ ''{}'')) \<le> 60000"
    using length_chars_le [of "''good '' @ [CHR 0x0A, CHR 0x0A] @ metadata_marker @ ''{}''"] by (simp add: metadata_marker_def)
  have hyps: "demo_codec = ww_json demo_watch_world" "wc_metadata demo_watch = [(''llm_grade'', JStr ''A'')]"
    "js_dumps demo_codec [(''llm_grade'', JStr ''A'')] = Inr ''{}''"
    "js_loads demo_codec (py_strip ''{}'') = Inr (JObj [(''llm_grade'', JStr ''A'')])" "candidate_reason demo_watch = ''good ''"
    "py_strip ''good '' = ''good''" "wc_code demo_watch = ''005930''"
    by (simp_all add: demo_watch_world_def demo_watch_def demo_codec_def candidate_reason_def py_strip_def is_space_def)
  from metadata_roundtrip [of "[]" "[demo_watch]" demo_watch, OF _ _ _ demo_save d hyps(1,2) _ hyps(3,4)] marker len
  have "\<exists>e. map_of d ''005930'' = Some e \<and> ae_reason e = ''good'' \<and> ae_grade e = JStr ''A''"
    unfolding hyps(5-7) by (auto simp: field_def)
  with d show ?thesis by blast
qed

text \<open>
  Every save clears the table, by a clock that may run ahead of the one it is stamped with:
  after a save a stock is there if and only if it is one of the candidates or was stamped
  at most 24 hours, less the lead of the server's clock, ago. With a server on Korean time
  and stamps in UTC a stock is therefore gone after 15 hours.
\<close>

theorem watchlist_expires:
  assumes "distinct (map wl_code rows)" "distinct (map wc_code cs)" "cs \<noteq> []" "save_to_watchlist w cs rows = (Inr (), rows')"
    and "row_of wl_code k rows = Some r" "wl_updated r = Some u" "row_of wc_code k cs = None"
  shows "row_of wl_code k rows' = (if ww_utc w - u \<le> 24 - ww_ahead w then Some r else None)"
  using save_rows [OF assms(1-4), of k] assms(5-7) by (auto simp: stale_def)

theorem watchlist_expires_witness:
  "row_of wl_code ''000660'' (snd (save_to_watchlist demo_watch_world [demo_watch]
     [(watch_row_of demo_watch_world demo_watch)\<lparr>wl_code := ''000660'', wl_updated := Some 84\<rparr>])) = None"
proof -
  let ?r = "(watch_row_of demo_watch_world demo_watch)\<lparr>wl_code := ''000660'', wl_updated := Some 84\<rparr>"
  obtain rows' where s: "save_to_watchlist demo_watch_world [demo_watch] [?r] = (Inr (), rows')"
    by (simp add: save_to_watchlist_def demo_watch_world_def)
  from watchlist_expires [OF _ _ _ this, of "''000660''" ?r 84] s show ?thesis
    by (simp add: demo_watch_world_def demo_watch_def watch_row_of_def)
qed

text \<open>Without candidates nothing expires, and a failing save leaves the table as it was.\<close>

lemma save_frame:
  "cs = [] \<or> fst (save_to_watchlist w cs rows) \<noteq> Inr () \<Longrightarrow> snd (save_to_watchlist w cs rows) = rows"
  by (auto simp: save_to_watchlist_def Let_def split: option.splits if_splits)

text \<open>
  The snapshot of a day is replaced as a whole or not at all: either the history is what it
  was, or the rows of the day are exactly the candidates, each once and in their order, and
  the rows of the other days are kept.
\<close>

lemma insert_all_history_rows:
  assumes "insert_all_history accepts day cs rows = Inr rows'" "distinct (map hy_code (filter (\<lambda>r. hy_date r = day) rows))"
  shows "\<exists>new. rows' = rows @ new \<and> map hy_code new = map wc_code cs \<and> list_all (\<lambda>r. hy_date r = day) new \<and>
    distinct (map hy_code (filter (\<lambda>r. hy_date r = day) rows'))"
  using assms
proof (induction cs arbitrary: rows)
  case (Cons c cs)
  from Cons.prems(1) obtain r where ins: "insert_history accepts day c rows = Inr (rows @ [r])"
    and rest: "insert_all_history accepts day cs (rows @ [r]) = Inr rows'"
    by (fastforce simp: rbind_eq_Inr_iff insert_history_def Let_def split: if_splits)
  have r: "hy_date r = day" "hy_code r = wc_code c" "\<not> list_ex (\<lambda>x. hy_date x = day \<and> hy_code x = wc_code c) rows"
    using ins by (auto simp: rbind_eq_Inr_iff insert_history_def Let_def split: if_splits)
  have "distinct (map hy_code (filter (\<lambda>r. hy_date r = day) (rows @ [r])))"
    using Cons.prems(2) r by (auto simp: list_ex_iff)
  from Cons.IH [OF rest this] r show ?case by auto
qed simp

theorem history_day_replaced:
  "let rows' = save_to_watchlist_history fault accepts today date cs rows; day = (case date of None \<Rightarrow> today | Some d \<Rightarrow> d)
    in rows' = rows \<or>
       (\<exists>new. rows' = filter (\<lambda>r. hy_date r \<noteq> day) rows @ new \<and> map hy_code new = map wc_code cs \<and>
          list_all (\<lambda>r. hy_date r = day) new \<and> distinct (map wc_code cs))"
proof (cases "save_to_watchlist_history fault accepts today date cs rows = rows")
  case False
  define day where "day = (case date of None \<Rightarrow> today | Some d \<Rightarrow> d)"
  let ?kept = "filter (\<lambda>r. hy_date r \<noteq> day) rows"
  from False have saved: "insert_all_history accepts day cs ?kept = Inr (save_to_watchlist_history fault accepts today date cs rows)"
    by (auto simp: save_to_watchlist_history_def Let_def day_def split: option.splits sum.splits)
  have none: "filter (\<lambda>r. hy_date r = day) ?kept = []" by (simp add: filter_empty_conv)
  then have "distinct (map hy_code (filter (\<lambda>r. hy_date r = day) ?kept))" by (simp only:) simp
  from insert_all_history_rows [OF saved this] obtain new where
    new: "save_to_watchlist_history fault accepts today date cs rows = ?kept @ new" "map hy_code new = map wc_code cs"
      "list_all (\<lambda>r. hy_date r = day) new"
      "distinct (map hy_code (filter (\<lambda>r. hy_date r = day) (?kept @ new)))" by metis
  have "filter (\<lambda>r. hy_date r = day) new = new" using new(3) by (simp add: list_all_iff)
  then have "filter (\<lambda>r. hy_date r = day) (?kept @ new) = new" by (simp only: filter_append none append_Nil)
  with new show ?thesis by (auto simp: Let_def day_def)
qed (simp add: Let_def)

text \<open>
  The CONFIG table is a map: a write that reports success stores its value under its key and
  changes no other, a deletion removes its key and no other, and one that reports failure
  changes nothing.
\<close>

theorem config_table_is_a_map:
  "(case set_config fault tm k v description rows of (ok, rows') \<Rightarrow>
      get_config None k' rows' = (if ok \<and> k' = k then Some v else get_config None k' rows)) \<and>
   (case delete_config fault k rows of (ok, rows') \<Rightarrow>
      get_config None k' rows' = (if ok \<and> k' = k then None else get_config None k' rows))"
proof -
  have del: "row_of cf_key k' (filter (\<lambda>r. cf_key r \<noteq> k) rows) = (if k' = k then None else row_of cf_key k' rows)"
    by (induction rows) auto
  have absent: "row_of cf_key k rows = None" if "\<not> list_ex (\<lambda>r. cf_key r = k) rows"
    using that by (simp only: has_key row_of_None_iff) simp
  show ?thesis
    using absent by (auto simp: get_config_def set_config_def delete_config_def config_rows.row_of_put del config_merge_def
        split: option.split)
qed

lemma lex_sorted:
  assumes "sorted (map f xs)" "\<And>k. sorted (map g (filter (\<lambda>x. f x = k) xs))"
  shows "sorted_wrt (\<lambda>a b. f a < f b \<or> f a = f b \<and> g a \<le> g b) xs"
  using assms
proof (induction xs)
  case (Cons x xs)
  have "sorted (map g (filter (\<lambda>y. f y = k) xs))" for k
    using Cons.prems(2) [of k] by (auto split: if_splits)
  moreover have "f x < f y \<or> f x = f y \<and> g x \<le> g y" if "y \<in> set xs" for y
    using Cons.prems(1) Cons.prems(2) [of "f x"] that by (cases "f y = f x") auto
  ultimately show ?case using Cons by auto
qed simp

lemma two_sorts: "sorted_wrt (\<lambda>a b. f a < f b \<or> f a = f b \<and> g a \<le> g b) (sort_key f (sort_key g xs))"
proof (rule lex_sorted)
  show "sorted (map g (filter (\<lambda>x. f x = k) (sort_key f (sort_key g xs))))" for k
    by (simp add: sort_key_stable sorted_filter)
qed simp

lemma payloads_fst: "payloads_of js cs = Inr ps \<Longrightarrow> map fst ps = cs"
  by (induction cs arbitrary: ps) (auto simp: rbind_eq_Inr_iff)

lemma payloads_fail: "c \<in> set cs \<Longrightarrow> command_payload js c = Inl e \<Longrightarrow> \<exists>e'. payloads_of js cs = Inl e'"
proof (induction cs)
  case (Cons x cs)
  then show ?case by (cases "command_payload js x"; cases "payloads_of js cs") auto
qed simp

lemma pending_rows_in: "c \<in> set (pending_rows limit t) \<Longrightarrow> c \<in> set (ag_rows t) \<and> ac_status c = Some ''PENDING''"
  by (auto simp: pending_rows_def dest: in_set_takeD)

lemma pending_answer_cases:
  "map fst (get_pending_agent_commands w limit t) = [] \<or> map fst (get_pending_agent_commands w limit t) = pending_rows limit t"
  using payloads_fst [of "ag_json w" "pending_rows limit t"]
  by (auto simp: get_pending_agent_commands_def or_empty_def split: option.split sum.split)

text \<open>
  The commands a worker gets are pending, at most as many as it asked for, by priority and
  within one priority by age; and a command whose status has been updated is not among them.
\<close>

theorem pending_commands_sound:
  "length (get_pending_agent_commands w limit t) \<le> limit \<and>
   list_all (\<lambda>c. ac_status c = Some ''PENDING'') (map fst (get_pending_agent_commands w limit t)) \<and>
   sorted_wrt (\<lambda>a b. ac_priority a < ac_priority b \<or> ac_priority a = ac_priority b \<and> ac_created a \<le> ac_created b)
     (map fst (get_pending_agent_commands w limit t))"
proof -
  let ?ps = "get_pending_agent_commands w limit t"
  have "length (pending_rows limit t) \<le> limit" by (simp add: pending_rows_def)
  moreover have "list_all (\<lambda>c. ac_status c = Some ''PENDING'') (pending_rows limit t)"
    by (auto simp: pending_rows_def list_all_iff dest!: in_set_takeD)
  moreover have "sorted_wrt (\<lambda>a b. ac_priority a < ac_priority b \<or> ac_priority a = ac_priority b \<and> ac_created a \<le> ac_created b)
      (pending_rows limit t)"
    unfolding pending_rows_def by (intro sorted_wrt_take two_sorts)
  moreover have "?ps = [] \<or> map fst ?ps = pending_rows limit t \<and> length ?ps = length (pending_rows limit t)"
    using pending_answer_cases [of w limit t] by (metis length_map map_is_Nil_conv)
  ultimately show ?thesis by fastforce
qed

lemma updated_status:
  assumes "update_agent_command_status w i status result order t = (Inr (), t')" "c \<in> set (ag_rows t')" "ac_id c = i"
  shows "ac_status c = Some status"
proof -
  have st: "ac_status (with_status tm status result order x) = Some status" "ac_id (with_status tm status result order x) = ac_id x" for tm x
    by (simp_all add: with_status_def)
  from assms(1) have "ag_rows t' = map (\<lambda>c. if ac_id c = i then with_status (ag_now w) status result order c else c) (ag_rows t)"
    by (auto simp: update_agent_command_status_def split: option.splits)
  with assms(2,3) st show ?thesis by auto
qed

theorem processed_is_not_pending:
  assumes "update_agent_command_status w i status result order t = (Inr (), t')" "status \<noteq> ''PENDING''"
  shows "i \<notin> ac_id ` fst ` set (get_pending_agent_commands w' limit t')"
proof -
  have "i \<notin> ac_id ` set (pending_rows limit t')"
  proof
    assume "i \<in> ac_id ` set (pending_rows limit t')"
    then obtain c where "c \<in> set (ag_rows t')" "ac_status c = Some ''PENDING''" "ac_id c = i"
      using pending_rows_in by blast
    with updated_status [OF assms(1)] assms(2) show False by (metis option.inject)
  qed
  moreover have "ac_id ` fst ` set (get_pending_agent_commands w' limit t') = ac_id ` set (map fst (get_pending_agent_commands w' limit t'))"
    by simp
  moreover have "set (map fst (get_pending_agent_commands w' limit t')) \<subseteq> set (pending_rows limit t')"
    using pending_answer_cases [of w' limit t'] by (elim disjE) (simp_all only: empty_subsetI list.set order_refl)
  ultimately show ?thesis by blast
qed

text \<open>
  One command with an unreadable payload hides all others: while it is among the first
  pending ones the list of pending commands is empty.
\<close>

theorem garbled_payload_hides_all:
  assumes "c \<in> set (pending_rows limit t)" "command_payload (ag_json w) c = Inl e"
  shows "get_pending_agent_commands w limit t = []"
  using payloads_fail [OF assms] by (auto simp: get_pending_agent_commands_def or_empty_def split: option.split)

text \<open>
  A server whose column has no default of its own never shows a created command: the model
  class declares the default on the side of the client, which the SQL of the insert bypasses.
\<close>

theorem default_makes_pending:
  assumes "create_agent_command w ty payload by priority \<lparr>ag_rows = [], ag_next = 1\<rparr> = (Inr i, t)" "0 < limit"
  shows "map (\<lambda>c. ac_id c) (pending_rows limit t) = (if ag_default_status w = Some ''PENDING'' then [i] else [])"
  using assms by (auto simp: create_agent_command_def pending_rows_def split: sum.splits option.splits)

end
