(* ===== verification/Commands.thy ===== *)
theory Commands
  imports Telegram_Bot Command_Limits Watchlist Sell_Executor
begin

text \<open>
  The command handler (\<open>services/command-handler/handler.py\<close> and \<open>handler_trading.py\<close>): every
  command of the Telegram bot as a step on the flags and settings in Redis, the watchlist,
  and the messages sent to the executors, and the loop that processes a poll. An answer is
  a constructor with the numbers of its text.
\<close>

section \<open>State and answers\<close>

record stock_snap =
  st_price :: rat
  st_open :: rat
  st_high :: rat
  st_low :: rat

text \<open>The messages of the manual orders.\<close>

record buy_message =
  bm_code :: string
  bm_name :: string
  bm_price :: rat
  bm_quantity :: int
  bm_dry_run :: bool
  bm_user :: string

record sell_message =
  se_code :: string
  se_name :: string
  se_quantity :: int
  se_reason :: string
  se_by :: string
  se_dry_run :: bool

record portfolio_line =
  pl_name :: string
  pl_code :: string
  pl_quantity :: rat
  pl_avg :: rat
  pl_current :: rat
  pl_profit_pct :: rat

datatype (plugins only: code size) answer =
    UsageOf string
  | UnknownCommand string
  | TooFast int
  | Paused string
  | Resumed
  | ConfirmStop
  | Stopped
  | DryRunIs bool
  | DryRunSet bool
  | SystemStatus bool bool bool
  | NothingHeld
  | PortfolioReport "portfolio_line list" rat rat rat
  | NoTrades
  | PnlReport nat nat rat
  | CashReport rat
  | PriceReport string string rat rat rat rat
  | UnknownStock string
  | NoPriceFor string
  | InvalidPrice string
  | BadQuantity string
  | LimitReached int
  | NoPublisher
  | CashTooSmall rat rat
  | CashFailed py_exc
  | NotPublished
  | BuyAccepted string int rat bool
  | NotHeld string
  | TooMany int int
  | SellAccepted string int int rat rat bool
  | ConfirmSellAll "(string \<times> int) list" nat
  | SoldAll bool nat nat "(string \<times> int \<times> bool) list"
  | AlreadyWatched string
  | Watched string string
  | Unwatched string string
  | NotWatched string
  | EmptyWatchlist
  | WatchlistReport "(string \<times> string \<times> bool \<times> rat) list" nat
  | Muted int
  | BadNumber
  | Unmuted
  | AlertDeleted string
  | NoAlert string
  | PriceNotPositive
  | AlertSet string string int rat
  | NoAlerts
  | AlertReport "(string \<times> (string \<times> jval) list) list"
  | RiskIs jval
  | BadLevel
  | RiskSet string
  | MinScoreIs jval
  | ScoreOutOfRange
  | MinScoreSet int
  | MaxBuyIs jval
  | CountOutOfRange
  | MaxBuySet int
  | ConfigReport bool bool jval jval bool
  | HelpText
  | FailedWith string py_exc
  | CommandFailed py_exc

text \<open>
  The world of a poll. \<open>cw_publishes\<close> says whether the broker takes the n-th message;
  \<open>cw_master\<close> is the table of stocks, code and name.
\<close>

record command_world =
  cw_link :: redis_link
  cw_environ :: "string \<rightharpoonup> string"
  cw_day :: string
  cw_min_interval :: int
  cw_daily_limit :: int
  cw_snapshot :: "string \<Rightarrow> stock_snap option res"
  cw_cash :: "rat res"
  cw_master :: "(string \<times> string) list res"
  cw_db_fault :: "py_exc option"
  cw_watch :: watch_world
  cw_buy_publisher :: bool
  cw_sell_publisher :: bool
  cw_publishes :: "nat \<Rightarrow> bool"

record command_state =
  cs_redis :: redis
  cs_watch :: "watch_row list"
  cs_db :: trade_db
  cs_buys :: "buy_message list"
  cs_sells :: "sell_message list"
  cs_tried :: nat
  cs_replies :: "(string option \<times> answer) list"

text \<open>A handler answers or raises.\<close>

type_synonym command_step = "command_state \<Rightarrow> answer res \<times> command_state"

definition dryrun_enabled :: "command_world \<Rightarrow> command_state \<Rightarrow> bool" where
  "dryrun_enabled w s = is_dryrun_enabled (cw_link w) (cw_environ w ''DRY_RUN'') (cs_redis s)"

text \<open>\<open>_resolve_stock\<close>: six digits are a code, known or not; anything else is a name.\<close>

definition resolve_stock :: "command_world \<Rightarrow> string \<Rightarrow> (string \<times> string) option" where
  "resolve_stock w t =
     (case cw_master w of
        Inl _ \<Rightarrow> None
      | Inr rows \<Rightarrow>
          if list_all is_digit t \<and> length t = 6 then
            (case map_of rows t of Some name \<Rightarrow> Some (t, name) | None \<Rightarrow> Some (t, t))
          else find (\<lambda>(code, name). name = t) rows)"

section \<open>Flags\<close>

definition set_flag :: "command_world \<Rightarrow> string \<Rightarrow> bool \<Rightarrow> string \<Rightarrow> command_state \<Rightarrow> command_state" where
  "set_flag w name v why s = s\<lparr>cs_redis := snd (set_trading_flag (cw_link w) name v why 86400 (cs_redis s))\<rparr>"

definition user_request :: string where
  "user_request = [CHR 0xEC, CHR 0x82, CHR 0xAC, CHR 0xEC, CHR 0x9A, CHR 0xA9, CHR 0xEC, CHR 0x9E, CHR 0x90, CHR 0x20, CHR 0xEC, CHR 0x9A, CHR 0x94, CHR 0xEC, CHR 0xB2, CHR 0xAD]"

definition user_setting :: string where
  "user_setting = [CHR 0xEC, CHR 0x82, CHR 0xAC, CHR 0xEC, CHR 0x9A, CHR 0xA9, CHR 0xEC, CHR 0x9E, CHR 0x90, CHR 0x20, CHR 0xEC, CHR 0x84, CHR 0xA4, CHR 0xEC, CHR 0xA0, CHR 0x95]"

definition emergency :: string where
  "emergency = [CHR 0xEA, CHR 0xB8, CHR 0xB4, CHR 0xEA, CHR 0xB8, CHR 0x89, CHR 0x20, CHR 0xEC, CHR 0xA4, CHR 0x91, CHR 0xEC, CHR 0xA7, CHR 0x80]"

definition word_confirm :: string where
  "word_confirm = [CHR 0xED, CHR 0x99, CHR 0x95, CHR 0xEC, CHR 0x9D, CHR 0xB8]"

definition word_urgent :: string where
  "word_urgent = [CHR 0xEA, CHR 0xB8, CHR 0xB4, CHR 0xEA, CHR 0xB8, CHR 0x89]"

definition handle_pause :: "command_world \<Rightarrow> bot_command \<Rightarrow> command_step" where
  "handle_pause w c s =
     (let why = (if cm_args c = [] then user_request else join '' '' (cm_args c))
       in (Inr (Paused why), set_flag w ''pause'' True why s))"

definition handle_resume :: "command_world \<Rightarrow> bot_command \<Rightarrow> command_step" where
  "handle_resume w c s =
     (Inr Resumed, set_flag w ''stop'' False user_request (set_flag w ''pause'' False user_request s))"

definition handle_stop :: "command_world \<Rightarrow> bot_command \<Rightarrow> command_step" where
  "handle_stop w c s =
     (if cm_args c = [] \<or> hd (cm_args c) \<notin> {word_confirm, word_urgent} then (Inr ConfirmStop, s)
      else (Inr Stopped, set_flag w ''pause'' True emergency (set_flag w ''stop'' True emergency s)))"

definition handle_dryrun :: "command_world \<Rightarrow> bot_command \<Rightarrow> command_step" where
  "handle_dryrun w c s =
     (if cm_args c = [] then (Inr (DryRunIs (dryrun_enabled w s)), s)
      else
        (let v = to_lower (hd (cm_args c))
          in if v \<in> {''on'', ''true'', ''1''} then (Inr (DryRunSet True), set_flag w ''dryrun'' True user_setting s)
             else if v \<in> {''off'', ''false'', ''0''} then (Inr (DryRunSet False), set_flag w ''dryrun'' False user_setting s)
             else (Inr (UsageOf ''dryrun''), s)))"

definition flag_value :: "string \<Rightarrow> (string \<times> (string \<times> jval) list) list \<Rightarrow> bool" where
  "flag_value name flags = jtruth (field ''value'' JNull (case map_of flags name of None \<Rightarrow> [] | Some d \<Rightarrow> d))"

definition handle_status :: "command_world \<Rightarrow> bot_command \<Rightarrow> command_step" where
  "handle_status w c s =
     (let flags = get_all_trading_flags (cw_link w) (cs_redis s)
       in (Inr (SystemStatus (flag_value ''pause'' flags) (flag_value ''stop'' flags) (dryrun_enabled w s)), s))"

section \<open>Queries\<close>

text \<open>
  The handler of the portfolio reads the watchlist; an entry of it has these keys and no
  others, so quantity and prices are the defaults of \<open>get\<close>.
\<close>

definition entry_dict :: "active_entry \<Rightarrow> (string \<times> jval) list" where
  "entry_dict e =
     [(''name'', JStr (ae_name e)), (''is_tradable'', JBool (ae_tradable e)),
      (''per'', case ae_per e of None \<Rightarrow> JNull | Some x \<Rightarrow> JNum x),
      (''pbr'', case ae_pbr e of None \<Rightarrow> JNull | Some x \<Rightarrow> JNum x),
      (''market_cap'', case ae_cap e of None \<Rightarrow> JNull | Some x \<Rightarrow> JNum x),
      (''llm_score'', JNum (ae_score e)), (''llm_reason'', JStr (ae_reason e)), (''llm_metadata'', JObj (ae_metadata e)),
      (''llm_grade'', ae_grade e), (''bear_strategy'', ae_bear e)]"

definition number_of :: "string \<Rightarrow> rat \<Rightarrow> (string \<times> jval) list \<Rightarrow> rat" where
  "number_of k d e = (case jnum (field k (JNum d) e) of None \<Rightarrow> 0 | Some x \<Rightarrow> x)"

definition portfolio_line_of :: "string \<times> active_entry \<Rightarrow> portfolio_line" where
  "portfolio_line_of ce =
     (let d = entry_dict (snd ce); q = number_of ''quantity'' 0 d; avg = number_of ''avg_price'' 0 d;
          cur = number_of ''current_price'' avg d
       in \<lparr>pl_name = ae_name (snd ce), pl_code = fst ce, pl_quantity = q, pl_avg = avg, pl_current = cur,
           pl_profit_pct = (if 0 < avg \<and> 0 < cur then (cur - avg) / avg * 100 else 0)\<rparr>)"

definition active_watch :: "command_world \<Rightarrow> command_state \<Rightarrow> (string \<times> active_entry) list res" where
  "active_watch w s =
     (case cw_db_fault w of Some e \<Rightarrow> Inl e | None \<Rightarrow> get_active_watchlist (ww_json (cw_watch w)) (cs_watch s))"

definition handle_portfolio :: "command_world \<Rightarrow> bot_command \<Rightarrow> command_step" where
  "handle_portfolio w c s =
     (Inr (case active_watch w s of
             Inl e \<Rightarrow> FailedWith ''portfolio'' e
           | Inr [] \<Rightarrow> NothingHeld
           | Inr entries \<Rightarrow>
               (let lines = map portfolio_line_of entries;
                    val = sum_list (map (\<lambda>p. pl_quantity p * pl_current p) lines);
                    profit = sum_list (map (\<lambda>p. (pl_current p - pl_avg p) * pl_quantity p) lines)
                 in PortfolioReport lines val profit (if profit < val then profit / (val - profit) * 100 else 0))), s)"

text \<open>
  \<open>get_today_trades\<close> imports a module that does not exist (\<open>shared/database/models.py\<close>), in its
  first statement.
\<close>

record today_trade =
  td_type :: string
  td_profit :: rat

definition get_today_trades :: "trade_db \<Rightarrow> today_trade list res" where
  "get_today_trades db = Inl ImportError"

definition handle_pnl :: "command_world \<Rightarrow> bot_command \<Rightarrow> command_step" where
  "handle_pnl w c s =
     (Inr (case (case cw_db_fault w of Some e \<Rightarrow> Inl e | None \<Rightarrow> get_today_trades (cs_db s)) of
             Inl e \<Rightarrow> FailedWith ''pnl'' e
           | Inr [] \<Rightarrow> NoTrades
           | Inr ts \<Rightarrow>
               (let sales = filter (\<lambda>t. str_in ''SELL'' (td_type t)) ts
                 in PnlReport (length (filter (\<lambda>t. td_type t = ''BUY'') ts)) (length sales)
                      (sum_list (map td_profit sales)))), s)"

definition handle_balance :: "command_world \<Rightarrow> bot_command \<Rightarrow> command_step" where
  "handle_balance w c s = (Inr (case cw_cash w of Inl e \<Rightarrow> FailedWith ''balance'' e | Inr x \<Rightarrow> CashReport x), s)"

definition handle_price :: "command_world \<Rightarrow> bot_command \<Rightarrow> command_step" where
  "handle_price w c s =
     (Inr (case cm_args c of
             [] \<Rightarrow> UsageOf ''price''
           | t # _ \<Rightarrow>
               (case resolve_stock w t of
                  None \<Rightarrow> UnknownStock t
                | Some (code, name) \<Rightarrow>
                    (case cw_snapshot w code of
                       Inl e \<Rightarrow> FailedWith ''price'' e
                     | Inr None \<Rightarrow> NoPriceFor name
                     | Inr (Some p) \<Rightarrow>
                         PriceReport name code (st_price p)
                           (if 0 < st_open p then (st_price p - st_open p) / st_open p * 100 else 0) (st_high p) (st_low p)))), s)"

section \<open>Manual orders\<close>

type_synonym 'a order_prog = "(command_state, answer, 'a) prog"

text \<open>The trade is counted before anything else is checked.\<close>

definition limit_guard :: "command_world \<Rightarrow> bot_command \<Rightarrow> unit order_prog" where
  "limit_guard w c s =
     (let (exceeded, r) = check_manual_limit (cw_link w) (cw_day w) (cm_chat c) (cw_daily_limit w) (cs_redis s)
       in (if exceeded then Return (LimitReached (cw_daily_limit w)) else Next (), s\<lparr>cs_redis := r\<rparr>))"

definition stock_step :: "command_world \<Rightarrow> string \<Rightarrow> (string \<times> string) order_prog" where
  "stock_step w t s = ((case resolve_stock w t of None \<Rightarrow> Return (UnknownStock t) | Some cn \<Rightarrow> Next cn), s)"

definition quote_step :: "command_world \<Rightarrow> string \<times> string \<Rightarrow> rat order_prog" where
  "quote_step w cn s =
     ((case cw_snapshot w (fst cn) of
         Inl e \<Rightarrow> Raise e
       | Inr None \<Rightarrow> Return (NoPriceFor (snd cn))
       | Inr (Some p) \<Rightarrow> if st_price p \<le> 0 then Return (InvalidPrice (snd cn)) else Next (st_price p)), s)"

text \<open>Without a quantity a fifth of the cash is spent.\<close>

definition quantity_step :: "command_world \<Rightarrow> int option \<Rightarrow> rat \<Rightarrow> int order_prog" where
  "quantity_step w q price s =
     ((case q of
         Some n \<Rightarrow> Next n
       | None \<Rightarrow>
           (case cw_cash w of
              Inl e \<Rightarrow> Return (CashFailed e)
            | Inr cash \<Rightarrow>
                (let n = py_int (cash * (2 / 10) / price)
                  in if n \<le> 0 then Return (CashTooSmall cash price) else Next n))), s)"

definition publish_buy :: "command_world \<Rightarrow> buy_message \<Rightarrow> answer order_prog" where
  "publish_buy w m s =
     (if cw_publishes w (cs_tried s)
      then (Next (BuyAccepted (bm_code m) (bm_quantity m) (bm_price m * of_int (bm_quantity m)) (bm_dry_run m)),
            s\<lparr>cs_tried := cs_tried s + 1, cs_buys := cs_buys s @ [m]\<rparr>)
      else (Return NotPublished, s\<lparr>cs_tried := cs_tried s + 1\<rparr>))"

definition finish_order :: "string \<Rightarrow> answer order_prog \<Rightarrow> command_step" where
  "finish_order name p s =
     (case p s of
        (Next a, s') \<Rightarrow> (Inr a, s')
      | (Return a, s') \<Rightarrow> (Inr a, s')
      | (Raise e, s') \<Rightarrow> (Inr (FailedWith name e), s'))"

definition effective_dry_run :: "command_world \<Rightarrow> bool \<Rightarrow> command_state \<Rightarrow> bool" where
  "effective_dry_run w dry s = (dry \<or> dryrun_enabled w s)"

definition buy_steps :: "command_world \<Rightarrow> bool \<Rightarrow> bot_command \<Rightarrow> string \<Rightarrow> int option \<Rightarrow> answer order_prog" where
  "buy_steps w dry c t q =
     seq (limit_guard w c) (\<lambda>_.
     seq (return_if (\<not> cw_buy_publisher w) NoPublisher) (\<lambda>_.
     seq (stock_step w t) (\<lambda>cn.
     seq (quote_step w cn) (\<lambda>price.
     seq (quantity_step w q price) (\<lambda>n s.
       publish_buy w \<lparr>bm_code = fst cn, bm_name = snd cn, bm_price = price, bm_quantity = n,
         bm_dry_run = effective_dry_run w dry s, bm_user = cm_user c\<rparr> s)))))"

definition handle_manual_buy :: "command_world \<Rightarrow> bool \<Rightarrow> bot_command \<Rightarrow> command_step" where
  "handle_manual_buy w dry c s =
     (case cm_args c of
        [] \<Rightarrow> (Inr (UsageOf ''buy''), s)
      | [t] \<Rightarrow> finish_order ''buy'' (buy_steps w dry c t None) s
      | t # n # _ \<Rightarrow>
          (case parse_int n of
             None \<Rightarrow> (Inr (BadQuantity n), s)
           | Some q \<Rightarrow> finish_order ''buy'' (buy_steps w dry c t (Some q)) s))"

definition words_all :: "string list" where
  "words_all = [[CHR 0xEC, CHR 0xA0, CHR 0x84, CHR 0xEB, CHR 0x9F, CHR 0x89], ''all'', [CHR 0xEB, CHR 0xAA, CHR 0xA8, CHR 0xEB, CHR 0x91, CHR 0x90]]"

definition holding_of_stock :: "command_world \<Rightarrow> string \<times> string \<Rightarrow> position order_prog" where
  "holding_of_stock w cn s =
     ((case cw_db_fault w of
         Some e \<Rightarrow> Raise e
       | None \<Rightarrow> (case find_holding (fst cn) (cs_db s) of None \<Rightarrow> Return (NotHeld (snd cn)) | Some p \<Rightarrow> Next p)), s)"

definition publish_sell :: "command_world \<Rightarrow> answer \<Rightarrow> sell_message \<Rightarrow> answer order_prog" where
  "publish_sell w good m s =
     (if cw_publishes w (cs_tried s)
      then (Next good, s\<lparr>cs_tried := cs_tried s + 1, cs_sells := cs_sells s @ [m]\<rparr>)
      else (Return NotPublished, s\<lparr>cs_tried := cs_tried s + 1\<rparr>))"

text \<open>The quantity is compared with the holding from above only.\<close>

definition sale_steps :: "command_world \<Rightarrow> bool \<Rightarrow> bot_command \<Rightarrow> string \<Rightarrow> int option \<Rightarrow> answer order_prog" where
  "sale_steps w dry c t q =
     seq (limit_guard w c) (\<lambda>_.
     seq (return_if (\<not> cw_sell_publisher w) NoPublisher) (\<lambda>_.
     seq (stock_step w t) (\<lambda>cn.
     seq (holding_of_stock w cn) (\<lambda>p.
     let n = (case q of None \<Rightarrow> p_qty p | Some n \<Rightarrow> n)
      in seq (return_if (p_qty p < n) (TooMany (p_qty p) n)) (\<lambda>_.
         seq (quote_step w cn) (\<lambda>price s.
           (let dr = effective_dry_run w dry s
             in publish_sell w (SellAccepted (fst cn) n (p_qty p) (price * of_int n) ((price - p_avg p) * of_int n) dr)
                  \<lparr>se_code = fst cn, se_name = snd cn, se_quantity = n, se_reason = ''MANUAL_SELL'', se_by = cm_user c,
                   se_dry_run = dr\<rparr> s)))))))"

definition handle_manual_sell :: "command_world \<Rightarrow> bool \<Rightarrow> bot_command \<Rightarrow> command_step" where
  "handle_manual_sell w dry c s =
     (case cm_args c of
        [] \<Rightarrow> (Inr (UsageOf ''sell''), s)
      | [t] \<Rightarrow> finish_order ''sell'' (sale_steps w dry c t None) s
      | t # n # _ \<Rightarrow>
          if n \<in> set words_all then finish_order ''sell'' (sale_steps w dry c t None) s
          else (case parse_int n of
             None \<Rightarrow> (Inr (BadQuantity n), s)
           | Some q \<Rightarrow> finish_order ''sell'' (sale_steps w dry c t (Some q)) s))"

text \<open>One message per holding; the results in order, with whether each was published.\<close>

fun sell_every :: "command_world \<Rightarrow> bool \<Rightarrow> string \<Rightarrow> position list \<Rightarrow> command_state \<Rightarrow> (string \<times> int \<times> bool) list \<times> command_state" where
  "sell_every w dr user [] s = ([], s)"
| "sell_every w dr user (p # ps) s =
     (if p_qty p \<le> 0 then sell_every w dr user ps s
      else
        (let ok = cw_publishes w (cs_tried s);
             m = \<lparr>se_code = p_code p, se_name = p_name p, se_quantity = p_qty p, se_reason = ''MANUAL_SELLALL'',
                  se_by = user, se_dry_run = dr\<rparr>;
             s1 = s\<lparr>cs_tried := cs_tried s + 1, cs_sells := (if ok then cs_sells s @ [m] else cs_sells s)\<rparr>;
             (rs, s2) = sell_every w dr user ps s1
           in ((p_name p, p_qty p, ok) # rs, s2)))"

definition handle_sellall :: "command_world \<Rightarrow> bool \<Rightarrow> bot_command \<Rightarrow> command_step" where
  "handle_sellall w dry c s =
     (if cm_args c = [] \<or> hd (cm_args c) \<noteq> word_confirm then
        (Inr (case cw_db_fault w of
                Some e \<Rightarrow> FailedWith ''sellall'' e
              | None \<Rightarrow>
                  (let ps = get_active_portfolio (cs_db s)
                    in if ps = [] then NothingHeld
                       else ConfirmSellAll (map (\<lambda>p. (p_name p, p_qty p)) (take 5 ps)) (length ps))), s)
      else if \<not> cw_sell_publisher w then (Inr NoPublisher, s)
      else case cw_db_fault w of
        Some e \<Rightarrow> (Inr (FailedWith ''sellall'' e), s)
      | None \<Rightarrow>
          (let ps = get_active_portfolio (cs_db s); dr = effective_dry_run w dry s
            in if ps = [] then (Inr NothingHeld, s)
               else (let (rs, s') = sell_every w dr (cm_user c) ps s
                      in (Inr (SoldAll dr (length (filter (\<lambda>(n, q, ok). ok) rs)) (length (filter (\<lambda>(n, q, ok). \<not> ok) rs))
                            (take 10 rs)), s'))))"

section \<open>The watchlist\<close>

definition manual_watch_reason :: string where
  "manual_watch_reason = [CHR 0x5B, CHR 0x54, CHR 0x65, CHR 0x6C, CHR 0x65, CHR 0x67, CHR 0x72, CHR 0x61, CHR 0x6D, CHR 0x20, CHR 0x2F, CHR 0x77, CHR 0x61, CHR 0x74, CHR 0x63, CHR 0x68, CHR 0x20, CHR 0xEB, CHR 0xAA, CHR 0x85, CHR 0xEB, CHR 0xA0, CHR 0xB9, CHR 0xEC, CHR 0x9C, CHR 0xBC, CHR 0xEB, CHR 0xA1, CHR 0x9C, CHR 0x20, CHR 0xEC, CHR 0x88, CHR 0x98, CHR 0xEB, CHR 0x8F, CHR 0x99, CHR 0x20, CHR 0xEC, CHR 0xB6, CHR 0x94, CHR 0xEA, CHR 0xB0, CHR 0x80, CHR 0x5D]"

definition manual_candidate :: "string \<Rightarrow> string \<Rightarrow> watch_candidate" where
  "manual_candidate code name =
     \<lparr>wc_code = code, wc_name = name, wc_tradable = Some True, wc_score = Some 50, wc_reason = Some (Some manual_watch_reason),
      wc_metadata = [], wc_per = None, wc_pbr = None, wc_roe = None, wc_cap = None, wc_sales = None, wc_eps = None\<rparr>"

definition handle_watch :: "command_world \<Rightarrow> bot_command \<Rightarrow> command_step" where
  "handle_watch w c s =
     (case cm_args c of
        [] \<Rightarrow> (Inr (UsageOf ''watch''), s)
      | t # _ \<Rightarrow>
          (case resolve_stock w t of
             None \<Rightarrow> (Inr (UnknownStock t), s)
           | Some (code, name) \<Rightarrow>
               (case active_watch w s of
                  Inl e \<Rightarrow> (Inr (FailedWith ''watch'' e), s)
                | Inr entries \<Rightarrow>
                    if map_of entries code \<noteq> None then (Inr (AlreadyWatched name), s)
                    else (case save_to_watchlist (cw_watch w) [manual_candidate code name] (cs_watch s) of
                      (Inl e, rows) \<Rightarrow> (Inr (FailedWith ''watch'' e), s\<lparr>cs_watch := rows\<rparr>)
                    | (Inr _, rows) \<Rightarrow> (Inr (Watched name code), s\<lparr>cs_watch := rows\<rparr>)))))"

definition handle_unwatch :: "command_world \<Rightarrow> bot_command \<Rightarrow> command_step" where
  "handle_unwatch w c s =
     (case cm_args c of
        [] \<Rightarrow> (Inr (UsageOf ''unwatch''), s)
      | t # _ \<Rightarrow>
          (case resolve_stock w t of
             None \<Rightarrow> (Inr (UnknownStock t), s)
           | Some (code, name) \<Rightarrow>
               (case cw_db_fault w of
                  Some e \<Rightarrow> (Inr (FailedWith ''unwatch'' e), s)
                | None \<Rightarrow>
                    if list_ex (\<lambda>r. wl_code r = code) (cs_watch s)
                    then (Inr (Unwatched name code), s\<lparr>cs_watch := filter (\<lambda>r. wl_code r \<noteq> code) (cs_watch s)\<rparr>)
                    else (Inr (NotWatched name), s))))"

definition handle_watchlist :: "command_world \<Rightarrow> bot_command \<Rightarrow> command_step" where
  "handle_watchlist w c s =
     (Inr (case active_watch w s of
             Inl e \<Rightarrow> FailedWith ''watchlist'' e
           | Inr [] \<Rightarrow> EmptyWatchlist
           | Inr entries \<Rightarrow>
               WatchlistReport (map (\<lambda>(code, e). (ae_name e, code, ae_tradable e, ae_score e))
                   (take 15 (sort_desc (\<lambda>x. ae_score (snd x)) entries)))
                 (length entries)), s)"

section \<open>Notifications\<close>

definition handle_mute :: "command_world \<Rightarrow> bot_command \<Rightarrow> command_step" where
  "handle_mute w c s =
     (case cm_args c of
        [] \<Rightarrow> (Inr (UsageOf ''mute''), s)
      | t # _ \<Rightarrow>
          (case parse_int t of
             None \<Rightarrow> (Inr BadNumber, s)
           | Some m \<Rightarrow>
               (Inr (Muted m),
                s\<lparr>cs_redis := snd (set_notification_mute (cw_link w) (py_int (clock (cw_link w)) + m * 60) (cs_redis s))\<rparr>)))"

definition handle_unmute :: "command_world \<Rightarrow> bot_command \<Rightarrow> command_step" where
  "handle_unmute w c s = (Inr Unmuted, s\<lparr>cs_redis := snd (clear_notification_mute (cw_link w) (cs_redis s))\<rparr>)"

definition words_delete :: "string list" where
  "words_delete = [[CHR 0xEC, CHR 0x82, CHR 0xAD, CHR 0xEC, CHR 0xA0, CHR 0x9C], ''delete'', ''remove'', ''del'']"

definition currency :: string where
  "currency = [CHR 0xEC, CHR 0x9B, CHR 0x90]"

text \<open>Without a price the alert waits for a rise, and the price counts as 0.\<close>

definition alert_price :: "command_world \<Rightarrow> string \<Rightarrow> rat" where
  "alert_price w code =
     (case cw_snapshot w code of Inr (Some p) \<Rightarrow> if 0 < st_price p then st_price p else 0 | _ \<Rightarrow> 0)"

definition alert_side :: "rat \<Rightarrow> int \<Rightarrow> string" where
  "alert_side current target =
     (if 0 < current then if current < of_int target then ''above'' else ''below'' else ''above'')"

definition handle_alert :: "command_world \<Rightarrow> bot_command \<Rightarrow> command_step" where
  "handle_alert w c s =
     (case cm_args c of
        t # a # _ \<Rightarrow>
          (case resolve_stock w t of
             None \<Rightarrow> (Inr (UnknownStock t), s)
           | Some (code, name) \<Rightarrow>
               if a \<in> set words_delete then
                 (let (gone, r) = delete_price_alert (cw_link w) code (cs_redis s)
                   in (Inr (if gone then AlertDeleted name else NoAlert name), s\<lparr>cs_redis := r\<rparr>))
               else (case parse_int (remove_all currency 0 (remove_all '','' 0 a)) of
                 None \<Rightarrow> (Inr (InvalidPrice a), s)
               | Some target \<Rightarrow>
                   if target \<le> 0 then (Inr PriceNotPositive, s)
                   else
                     (let cur = alert_price w code; side = alert_side cur target
                       in (Inr (AlertSet name side target cur),
                           s\<lparr>cs_redis := snd (set_price_alert (cw_link w) code (of_int target) name side 604800 (cs_redis s))\<rparr>))))
      | _ \<Rightarrow> (Inr (UsageOf ''alert''), s))"

definition handle_alerts :: "command_world \<Rightarrow> bot_command \<Rightarrow> command_step" where
  "handle_alerts w c s =
     (Inr (let alerts = get_price_alerts (cw_link w) (cs_redis s)
            in if alerts = [] then NoAlerts else AlertReport alerts), s)"

section \<open>Settings\<close>

definition RISK_LEVELS :: "string list" where
  "RISK_LEVELS = [''conservative'', ''moderate'', ''aggressive'']"

definition set_setting :: "command_world \<Rightarrow> string \<Rightarrow> jval \<Rightarrow> command_state \<Rightarrow> command_state" where
  "set_setting w name v s = s\<lparr>cs_redis := snd (set_config_value (cw_link w) name v 86400 (cs_redis s))\<rparr>"

definition setting :: "command_world \<Rightarrow> string \<Rightarrow> jval \<Rightarrow> command_state \<Rightarrow> jval" where
  "setting w name d s = get_config_value (cw_link w) name d (cs_redis s)"

definition handle_risk :: "command_world \<Rightarrow> bot_command \<Rightarrow> command_step" where
  "handle_risk w c s =
     (case cm_args c of
        [] \<Rightarrow> (Inr (RiskIs (setting w ''risk_level'' (JStr ''moderate'') s)), s)
      | t # _ \<Rightarrow>
          (let level = to_lower t
            in if level \<notin> set RISK_LEVELS then (Inr BadLevel, s)
               else (Inr (RiskSet level), set_setting w ''risk_level'' (JStr level) s)))"

text \<open>\<open>int(os.getenv('MIN_LLM_SCORE', '70'))\<close>, outside of any \<open>try\<close> when it is read.\<close>

definition env_min_score :: "command_world \<Rightarrow> int res" where
  "env_min_score w =
     (case cw_environ w ''MIN_LLM_SCORE'' of
        None \<Rightarrow> Inr 70
      | Some t \<Rightarrow> (case parse_int t of None \<Rightarrow> Inl ValueError | Some n \<Rightarrow> Inr n))"

definition handle_minscore :: "command_world \<Rightarrow> bot_command \<Rightarrow> command_step" where
  "handle_minscore w c s =
     (case cm_args c of
        [] \<Rightarrow> (rbind (env_min_score w) (\<lambda>d. Inr (MinScoreIs (setting w ''min_llm_score'' (JNum (of_int d)) s))), s)
      | t # _ \<Rightarrow>
          (case parse_int t of
             None \<Rightarrow> (Inr BadNumber, s)
           | Some n \<Rightarrow>
               if n < 0 \<or> 100 < n then (Inr ScoreOutOfRange, s)
               else (Inr (MinScoreSet n), set_setting w ''min_llm_score'' (JNum (of_int n)) s)))"

definition handle_maxbuy :: "command_world \<Rightarrow> bot_command \<Rightarrow> command_step" where
  "handle_maxbuy w c s =
     (case cm_args c of
        [] \<Rightarrow> (Inr (MaxBuyIs (setting w ''max_buy_per_day'' (JNum 5) s)), s)
      | t # _ \<Rightarrow>
          (case parse_int t of
             None \<Rightarrow> (Inr BadNumber, s)
           | Some n \<Rightarrow>
               if n < 0 \<or> 20 < n then (Inr CountOutOfRange, s)
               else (Inr (MaxBuySet n), set_setting w ''max_buy_per_day'' (JNum (of_int n)) s)))"

definition handle_config :: "command_world \<Rightarrow> bot_command \<Rightarrow> command_step" where
  "handle_config w c s =
     (rbind (env_min_score w) (\<lambda>d.
        Inr (ConfigReport (flag_value ''pause'' (get_all_trading_flags (cw_link w) (cs_redis s))) (dryrun_enabled w s)
          (setting w ''min_llm_score'' (JNum (of_int d)) s) (setting w ''max_buy_per_day'' (JNum 5) s)
          (is_notification_muted (cw_link w) (cs_redis s)))), s)"

definition handle_help :: "command_world \<Rightarrow> bot_command \<Rightarrow> command_step" where
  "handle_help w c s = (Inr HelpText, s)"

section \<open>Processing\<close>

definition command_handlers :: "(string \<times> (command_world \<Rightarrow> bool \<Rightarrow> bot_command \<Rightarrow> command_step)) list" where
  "command_handlers =
     [(''pause'', \<lambda>w _. handle_pause w), (''resume'', \<lambda>w _. handle_resume w), (''stop'', \<lambda>w _. handle_stop w),
      (''dryrun'', \<lambda>w _. handle_dryrun w), (''buy'', handle_manual_buy), (''sell'', handle_manual_sell),
      (''sellall'', handle_sellall), (''status'', \<lambda>w _. handle_status w), (''portfolio'', \<lambda>w _. handle_portfolio w),
      (''pnl'', \<lambda>w _. handle_pnl w), (''balance'', \<lambda>w _. handle_balance w), (''price'', \<lambda>w _. handle_price w),
      (''watch'', \<lambda>w _. handle_watch w), (''unwatch'', \<lambda>w _. handle_unwatch w), (''watchlist'', \<lambda>w _. handle_watchlist w),
      (''mute'', \<lambda>w _. handle_mute w), (''unmute'', \<lambda>w _. handle_unmute w), (''alert'', \<lambda>w _. handle_alert w),
      (''alerts'', \<lambda>w _. handle_alerts w), (''risk'', \<lambda>w _. handle_risk w), (''minscore'', \<lambda>w _. handle_minscore w),
      (''maxbuy'', \<lambda>w _. handle_maxbuy w), (''config'', \<lambda>w _. handle_config w), (''help'', \<lambda>w _. handle_help w)]"

definition send_reply :: "string option \<Rightarrow> answer \<Rightarrow> command_state \<Rightarrow> command_state" where
  "send_reply chat a s = s\<lparr>cs_replies := cs_replies s @ [(chat, a)]\<rparr>"

text \<open>True for a command that ends without an exception; the loop answers the others itself.\<close>

definition process_command :: "command_world \<Rightarrow> bool \<Rightarrow> bot_command \<Rightarrow> command_state \<Rightarrow> bool \<times> command_state" where
  "process_command w dry c s =
     (case map_of command_handlers (cm_name c) of
        None \<Rightarrow> (True, send_reply (cm_chat c) (UnknownCommand (cm_name c)) s)
      | Some h \<Rightarrow>
          (let (limited, r) = is_rate_limited (cw_link w) (cm_chat c) (cw_min_interval w) (cs_redis s); s1 = s\<lparr>cs_redis := r\<rparr>
            in if limited then (True, send_reply (cm_chat c) (TooFast (cw_min_interval w)) s1)
               else (case h w dry c s1 of
                 (Inr a, s2) \<Rightarrow> (True, send_reply (cm_chat c) a s2)
               | (Inl e, s2) \<Rightarrow> (False, send_reply (cm_chat c) (CommandFailed e) s2))))"

fun process_all :: "command_world \<Rightarrow> bool \<Rightarrow> bot_command list \<Rightarrow> command_state \<Rightarrow> (nat \<times> nat) \<times> command_state" where
  "process_all w dry [] s = ((0, 0), s)"
| "process_all w dry (c # cs) s =
     (let (ok, s1) = process_command w dry c s; ((done', failed), s2) = process_all w dry cs s1
       in ((if ok then (done' + 1, failed) else (done', failed + 1)), s2))"

text \<open>One poll: the bot, when there is one, and the commands it brings.\<close>

definition poll_and_process ::
  "command_world \<Rightarrow> bool \<Rightarrow> (int \<Rightarrow> tg_update list option) \<Rightarrow> telegram_bot option \<Rightarrow> command_state \<Rightarrow>
     (nat \<times> nat) option \<times> telegram_bot option \<times> command_state" where
  "poll_and_process w dry server tb s =
     (case tb of
        None \<Rightarrow> (None, None, s)
      | Some b \<Rightarrow>
          (let (cs, refused, b') = get_pending_commands server b; (counts, s') = process_all w dry cs s
            in (Some counts, Some b', s')))"

text \<open>
  The sell executor on a message of its queue (\<open>services/sell-executor/main.py\<close>): a missing
  field is an error; whether the run is dry is read from the environment of the service, not
  from the message.
\<close>

definition process_sell_request :: "sell_world \<Rightarrow> sell_message \<Rightarrow> sell_state \<Rightarrow> sell_response res \<times> sell_state" where
  "process_sell_request w m s =
     (if se_code m = [] \<or> se_name m = [] \<or> se_quantity m = 0 then (Inl ValueError, s)
      else
        (let (r, s') = execute_sell_order w
           \<lparr>sq_code = se_code m, sq_name = se_name m, sq_quantity = se_quantity m, sq_reason = se_reason m,
            sq_preset = None, sq_risk = None,
            sq_dry_run = (to_lower (case environ (sw_cfg w) ''DRY_RUN'' of None \<Rightarrow> ''true'' | Some t \<Rightarrow> t) = ''true'')\<rparr> s
         in (Inr r, s')))"

section \<open>Properties of the handlers\<close>

lemma get_flag_set:
  assumes "usable l" "flag_key name = Some key" "usable l'" "clock l' < clock l + 86400"
  shows "get_trading_flag l' name (snd (set_trading_flag l name v why 86400 r)) =
    [(''value'', JBool v), (''reason'', JStr why), (''set_at'', JTime (clock l))]"
  using assms by (simp add: get_trading_flag_def set_trading_flag_def try_setex_def usable_def try_doc_setex)

lemma get_flag_other:
  assumes "flag_key name \<noteq> flag_key name'"
  shows "get_trading_flag l' name' (snd (set_trading_flag l name v why ttl r)) = get_trading_flag l' name' r"
  using assms
  by (auto simp: get_trading_flag_def set_trading_flag_def try_setex_def try_doc_setex split: option.splits)

lemma flag_keys: "flag_key ''pause'' = Some ''trading:pause''" "flag_key ''stop'' = Some ''trading:stop''" "flag_key ''dryrun'' = Some ''trading:dryrun''"
  by code_simp+

text \<open>
  The emergency stop: when the answer is that trading has stopped, and Redis works, the flags
  stop and pause hold for every service that reads them within the next 24 hours; but with a
  Redis that does not work the same answer is given and nothing has been stored.
\<close>

theorem stop_answer:
  assumes "handle_stop w c s = (Inr Stopped, s')"
  shows "if usable (cw_link w)
    then \<forall>l. usable l \<and> clock l < clock (cw_link w) + 86400 \<longrightarrow> is_trading_stopped l (cs_redis s') \<and> is_trading_paused l (cs_redis s')
    else cs_redis s' = cs_redis s"
proof (cases "usable (cw_link w)")
  case True
  from assms have s': "s' = set_flag w ''pause'' True emergency (set_flag w ''stop'' True emergency s)"
    by (auto simp: handle_stop_def split: if_splits)
  show ?thesis
    using True by (auto simp: s' is_trading_stopped_def is_trading_paused_def set_flag_def get_flag_set [OF True] get_flag_other
        flag_keys field_def)
next
  case False
  with assms show ?thesis
    by (auto simp: handle_stop_def set_flag_def set_trading_flag_def try_setex_def usable_def split: if_splits option.splits)
qed

definition demo_master :: "(string \<times> string) list" where
  "demo_master = [(''005930'', ''x'')]"

definition demo_commands :: "redis_link \<Rightarrow> command_world" where
  "demo_commands l =
     \<lparr>cw_link = l, cw_environ = (\<lambda>_. None), cw_day = ''20250101'', cw_min_interval = 5, cw_daily_limit = 20,
      cw_snapshot = (\<lambda>_. Inr (Some \<lparr>st_price = 120, st_open = 100, st_high = 130, st_low = 90\<rparr>)), cw_cash = Inr 1000,
      cw_master = Inr demo_master, cw_db_fault = None, cw_watch = demo_watch_world, cw_buy_publisher = True,
      cw_sell_publisher = True, cw_publishes = (\<lambda>_. True)\<rparr>"

definition demo_command_state :: command_state where
  "demo_command_state = \<lparr>cs_redis = [], cs_watch = [], cs_db = held_db, cs_buys = [], cs_sells = [], cs_tried = 0, cs_replies = []\<rparr>"

definition demo_command :: "string \<Rightarrow> string list \<Rightarrow> bot_command" where
  "demo_command name args = \<lparr>cm_name = name, cm_args = args, cm_chat = Some ''1'', cm_user = ''u''\<rparr>"

theorem stop_answer_witness:
  "is_trading_stopped \<lparr>connected = True, link_fault = False, clock = 50000\<rparr>
     (cs_redis (snd (handle_stop (demo_commands \<lparr>connected = True, link_fault = False, clock = 0\<rparr>)
       (demo_command ''stop'' [word_confirm]) demo_command_state))) \<and>
   cs_redis (snd (handle_stop (demo_commands \<lparr>connected = False, link_fault = False, clock = 0\<rparr>)
       (demo_command ''stop'' [word_confirm]) demo_command_state)) = []"
proof -
  have "fst (handle_stop (demo_commands l) (demo_command ''stop'' [word_confirm]) demo_command_state) = Inr Stopped" for l
    by (simp add: handle_stop_def demo_command_def)
  then have run: "handle_stop (demo_commands l) (demo_command ''stop'' [word_confirm]) demo_command_state =
      (Inr Stopped, snd (handle_stop (demo_commands l) (demo_command ''stop'' [word_confirm]) demo_command_state))" for l
    by (metis prod.collapse)
  from stop_answer [OF run [of "\<lparr>connected = True, link_fault = False, clock = 0\<rparr>"]]
    stop_answer [OF run [of "\<lparr>connected = False, link_fault = False, clock = 0\<rparr>"]]
  show ?thesis by (simp add: usable_def demo_commands_def demo_command_state_def)
qed

text \<open>
  The portfolio of the bot is the watchlist: its answer does not depend on the portfolio, and
  every line of it has no shares, so that the totals are zero.
\<close>

theorem portfolio_is_the_watchlist:
  "fst (handle_portfolio w c (s\<lparr>cs_db := db\<rparr>)) = fst (handle_portfolio w c s) \<and>
   (case fst (handle_portfolio w c s) of
      Inr (PortfolioReport lines v profit pct) \<Rightarrow>
        map pl_code lines = map fst (case active_watch w s of Inr es \<Rightarrow> es | Inl _ \<Rightarrow> []) \<and>
        list_all (\<lambda>l. pl_quantity l = 0) lines \<and> v = 0 \<and> profit = 0 \<and> pct = 0
    | _ \<Rightarrow> True)"
proof -
  have watch: "active_watch w (s\<lparr>cs_db := db\<rparr>) = active_watch w s" by (simp add: active_watch_def split: option.split)
  have line: "pl_quantity (portfolio_line_of e) = 0" "pl_code (portfolio_line_of e) = fst e" for e
    by (simp_all add: portfolio_line_of_def Let_def number_of_def field_def entry_dict_def)
  have zero: "sum_list (map (\<lambda>p. pl_quantity p * pl_current p) (map portfolio_line_of es)) = 0"
    "sum_list (map (\<lambda>p. (pl_current p - pl_avg p) * pl_quantity p) (map portfolio_line_of es)) = 0" for es
    by (induction es) (simp_all add: line)
  have "fst (handle_portfolio w c (s\<lparr>cs_db := db\<rparr>)) = fst (handle_portfolio w c s)"
    by (simp add: handle_portfolio_def watch)
  moreover have "case fst (handle_portfolio w c s) of
      Inr (PortfolioReport lines v profit pct) \<Rightarrow>
        map pl_code lines = map fst (case active_watch w s of Inr es \<Rightarrow> es | Inl _ \<Rightarrow> []) \<and>
        list_all (\<lambda>l. pl_quantity l = 0) lines \<and> v = 0 \<and> profit = 0 \<and> pct = 0
    | _ \<Rightarrow> True"
  proof (cases "active_watch w s")
    case (Inr es)
    then show ?thesis
      by (cases es) (simp_all only: handle_portfolio_def fst_conv sum.case list.case Let_def zero,
        simp_all add: line list_all_iff comp_def)
  qed (simp add: handle_portfolio_def)
  ultimately show ?thesis by blast
qed

text \<open>The day's profit is never shown: the query fails before it reaches the table.\<close>

theorem pnl_always_fails: "\<exists>e. handle_pnl w c s = (Inr (FailedWith ''pnl'' e), s)"
  by (cases "cw_db_fault w") (simp_all add: handle_pnl_def get_today_trades_def)

section \<open>Manual orders\<close>

lemma find_holding_code: "find_holding code db = Some p \<Longrightarrow> p_code p = code"
  by (auto simp: find_holding_def find_Some_iff)

lemma seq_iff:
  "seq p f s = (r, s') \<longleftrightarrow>
     (\<exists>a s1. p s = (Next a, s1) \<and> f a s1 = (r, s')) \<or> (\<exists>x. p s = (Return x, s') \<and> r = Return x) \<or>
     (\<exists>e. p s = (Raise e, s') \<and> r = Raise e)"
  by (auto simp: seq_def split: prod.split flow.split)

lemma limit_guard_frame:
  "limit_guard w c s = (x, s1) \<Longrightarrow> cs_sells s1 = cs_sells s \<and> cs_buys s1 = cs_buys s \<and> cs_db s1 = cs_db s \<and> cs_tried s1 = cs_tried s"
  by (auto simp: limit_guard_def Let_def split: prod.splits)

lemma step_frames:
  "return_if b x s = (y, s1) \<Longrightarrow> s1 = s \<and> (\<forall>u. y = Next u \<longrightarrow> \<not> b)"
  "stock_step w t s = (z, s1) \<Longrightarrow> s1 = s"
  "holding_of_stock w cn s = (h, s1) \<Longrightarrow> s1 = s \<and> (\<forall>p. h = Next p \<longrightarrow> find_holding (fst cn) (cs_db s) = Some p)"
  "quote_step w cn s = (q, s1) \<Longrightarrow> s1 = s"
  "quantity_step w n price s = (k, s1) \<Longrightarrow> s1 = s"
  "publish_sell w good m s = (r, s1) \<Longrightarrow> cs_sells s1 = cs_sells s \<or> cs_sells s1 = cs_sells s @ [m]"
  by (auto simp: return_if_def stock_step_def holding_of_stock_def quote_step_def quantity_step_def publish_sell_def
      split: if_splits option.splits)

text \<open>What a manual sale publishes: at most one message, for a held stock and at most the holding.\<close>

lemma sale_steps_sells:
  assumes "sale_steps w dry c t q s = (r, s')" "cs_sells s' \<noteq> cs_sells s"
  obtains p cn dr n where "find_holding (fst cn) (cs_db s) = Some p" "n = (case q of None \<Rightarrow> p_qty p | Some n \<Rightarrow> n)"
    "n \<le> p_qty p" "cs_sells s' = cs_sells s @
      [\<lparr>se_code = fst cn, se_name = snd cn, se_quantity = n, se_reason = ''MANUAL_SELL'', se_by = cm_user c, se_dry_run = dr\<rparr>]"
proof -
  from assms(1) have "cs_sells s' = cs_sells s \<or> (\<exists>p cn dr. find_holding (fst cn) (cs_db s) = Some p \<and>
      (case q of None \<Rightarrow> p_qty p | Some n \<Rightarrow> n) \<le> p_qty p \<and> cs_sells s' = cs_sells s @
      [\<lparr>se_code = fst cn, se_name = snd cn, se_quantity = (case q of None \<Rightarrow> p_qty p | Some n \<Rightarrow> n),
        se_reason = ''MANUAL_SELL'', se_by = cm_user c, se_dry_run = dr\<rparr>])"
    unfolding sale_steps_def seq_iff Let_def
    by (elim disjE exE conjE) (fastforce dest!: step_frames limit_guard_frame)+
  with assms(2) that show ?thesis by blast
qed

lemma finish_order_state: "finish_order name p s = (a, s') \<Longrightarrow> snd (p s) = s'"
  by (auto simp: finish_order_def split: prod.splits flow.splits)

text \<open>
  The manual sale stays within the holding: whatever is published is one message for a stock
  that is held, over at most as many shares; nothing bounds the number from below.
\<close>

theorem manual_sale_within_holding:
  assumes "handle_manual_sell w dry c s = (a, s')" "cs_sells s' \<noteq> cs_sells s"
  shows "\<exists>m p. cs_sells s' = cs_sells s @ [m] \<and> find_holding (se_code m) (cs_db s) = Some p \<and> se_quantity m \<le> p_qty p \<and>
    se_reason m = ''MANUAL_SELL''"
proof -
  from assms obtain t q where "snd (sale_steps w dry c t q s) = s'"
    by (auto simp: handle_manual_sell_def dest!: finish_order_state split: list.splits if_splits option.splits)
  then obtain r where "sale_steps w dry c t q s = (r, s')" by (metis prod.collapse)
  from sale_steps_sells [OF this assms(2)] show ?thesis by fastforce
qed

section \<open>From the command to the order\<close>

definition real_sell_world :: sell_world where
  "real_sell_world = demo_sell_world\<lparr>sw_cfg := (sw_cfg demo_sell_world)\<lparr>environ := (\<lambda>k. if k = ''DRY_RUN'' then Some ''false'' else None)\<rparr>\<rparr>"

definition online :: redis_link where
  "online = \<lparr>connected = True, link_fault = False, clock = 0\<rparr>"

definition minus_five :: sell_message where
  "minus_five = \<lparr>se_code = ''005930'', se_name = ''x'', se_quantity = - 5, se_reason = ''MANUAL_SELL'', se_by = ''u'', se_dry_run = True\<rparr>"

lemma minus_five_published:
  "cs_sells (snd (handle_manual_sell (demo_commands online) False (demo_command ''sell'' [''005930'', ''-5'']) demo_command_state)) = [minus_five]"
  by code_simp

lemma minus_five_sold:
  "case process_sell_request real_sell_world minus_five demo_sell_state of
     (Inr (SellSuccess rc), s) \<Rightarrow> ss_orders s = [(''005930'', - 5)] | _ \<Rightarrow> False"
  by code_simp

lemma limit_guard_flags:
  "limit_guard w c s = (x, s1) \<Longrightarrow> effective_dry_run w dry s1 = effective_dry_run w dry s"
proof -
  assume run: "limit_guard w c s = (x, s1)"
  have "get_trading_flag l ''dryrun'' (snd (check_manual_limit l' day chat lim r)) = get_trading_flag l ''dryrun'' r" for l l' day chat lim r
    by (auto simp: check_manual_limit_def get_trading_flag_def try_setex_def try_doc_setex manual_key_def flag_keys
        split: option.split sum.split)
  with run show ?thesis
    by (auto simp: limit_guard_def Let_def effective_dry_run_def dryrun_enabled_def is_dryrun_enabled_def split: prod.splits)
      (metis snd_conv)+
qed

lemma publish_sell_frame:
  "publish_sell w good m s = (r, s1) \<Longrightarrow> cs_sells s1 = cs_sells s \<or> (\<exists>m'. cs_sells s1 = cs_sells s @ [m'] \<and> se_dry_run m' = se_dry_run m)"
  by (auto dest: step_frames(6))

lemma limit_guard_frame_dry:
  "limit_guard w c s = (x, s1) \<Longrightarrow> cs_sells s1 = cs_sells s \<and> (\<forall>dry. effective_dry_run w dry s1 = effective_dry_run w dry s)"
  using limit_guard_frame limit_guard_flags by metis

lemma sale_steps_dry_run:
  assumes "sale_steps w dry c t q s = (r, s')" "cs_sells s' = cs_sells s @ [m]"
  shows "se_dry_run m = effective_dry_run w dry s"
proof -
  obtain x s1 where guard: "limit_guard w c s = (x, s1)" by fastforce
  then have "cs_sells s' = cs_sells s1 \<or> (\<exists>m. cs_sells s' = cs_sells s1 @ [m] \<and> se_dry_run m = effective_dry_run w dry s1)"
    using assms(1) unfolding sale_steps_def seq_iff Let_def
    by (elim disjE exE conjE) (auto dest!: step_frames(1-5) dest: publish_sell_frame)
  with assms(2) limit_guard_frame_dry [OF guard] show ?thesis by auto
qed

lemma processed_for_real:
  assumes "process_sell_request w m s = (Inr r, s')" "environ (sw_cfg w) ''DRY_RUN'' = Some ''false''"
  shows "\<exists>q. execute_sell_order w q s = (r, s') \<and> \<not> sq_dry_run q \<and> sq_code q = se_code m \<and> sq_quantity q = se_quantity m"
proof -
  have real: "(to_lower ''false'' = ''true'') = False" by code_simp
  let ?q = "\<lparr>sq_code = se_code m, sq_name = se_name m, sq_quantity = se_quantity m, sq_reason = se_reason m,
    sq_preset = None, sq_risk = None, sq_dry_run = False\<rparr>"
  have "execute_sell_order w ?q s = (r, s')"
    using assms by (simp add: process_sell_request_def Let_def real split: if_split_asm prod.split_asm)
  then show ?thesis by (intro exI [of _ ?q]) simp
qed

text \<open>
  C8. The dry run of the bot is not obeyed: with the flag set a manual sale is published as a dry
  run, and so the user is told, but the executor reads its own environment, and sells.
\<close>

theorem dry_run_sells:
  assumes "dryrun_enabled w s" "handle_manual_sell w dry c s = (a, s')" "cs_sells s' = cs_sells s @ [m]"
    and "environ (sw_cfg sw) ''DRY_RUN'' = Some ''false''" "process_sell_request sw m ss = (Inr (SellSuccess rc), ss')"
  shows "se_dry_run m \<and> ss_orders ss' = ss_orders ss @ [(se_code m, se_quantity m)]"
proof -
  from assms(2,3) obtain t q where "snd (sale_steps w dry c t q s) = s'"
    by (auto simp: handle_manual_sell_def dest!: finish_order_state split: list.splits if_splits option.splits)
  then obtain r where "sale_steps w dry c t q s = (r, s')" by (metis prod.collapse)
  from sale_steps_dry_run [OF this assms(3)] have "se_dry_run m"
    using assms(1) by (simp add: effective_dry_run_def)
  moreover obtain q where q: "execute_sell_order sw q ss = (SellSuccess rc, ss')" "\<not> sq_dry_run q"
      "sq_code q = se_code m" "sq_quantity q = se_quantity m"
    using processed_for_real [OF assms(5,4)] by blast
  obtain p price pct amount where "sell_ready sw q (ss_db ss) p price pct amount"
    by (rule execute_success [OF q(1)])
  from execute_ready_orders [OF this] q have "ss_orders ss' = ss_orders ss @ [(se_code m, se_quantity m)]" by simp
  ultimately show ?thesis by blast
qed

theorem dry_run_sells_witness:
  "ss_orders (snd (process_sell_request real_sell_world minus_five demo_sell_state)) = [(''005930'', - 5)]"
proof -
  let ?w = "demo_commands online" and ?c = "demo_command ''sell'' [''005930'', ''-5'']"
  have dry: "dryrun_enabled ?w demo_command_state" by code_simp
  obtain a s' where run: "handle_manual_sell ?w False ?c demo_command_state = (a, s')" by fastforce
  then have m: "cs_sells s' = cs_sells demo_command_state @ [minus_five]"
    using minus_five_published by (simp add: demo_command_state_def)
  obtain rc ss' where sold: "process_sell_request real_sell_world minus_five demo_sell_state = (Inr (SellSuccess rc), ss')"
    using minus_five_sold by (auto split: prod.splits sum.splits sell_response.splits)
  have "environ (sw_cfg real_sell_world) ''DRY_RUN'' = Some ''false''" by (simp add: real_sell_world_def)
  from dry_run_sells [OF dry run m this sold] sold show ?thesis
    by (simp add: minus_five_def demo_sell_state_def)
qed

text \<open>
  A sale of a negative number of shares goes all the way to the broker: the bot compares the
  number with the holding from above only, and the executor only asks that it is not zero.
\<close>

theorem negative_sale_is_ordered:
  "cs_sells (snd (handle_manual_sell (demo_commands online) False (demo_command ''sell'' [''005930'', ''-5'']) demo_command_state))
     = [minus_five] \<and>
   ss_orders (snd (process_sell_request real_sell_world minus_five demo_sell_state)) = [(''005930'', - 5)]"
  using minus_five_published minus_five_sold by (auto split: prod.splits sum.splits sell_response.splits)

section \<open>The daily limit\<close>

definition tally :: "rat \<Rightarrow> string \<Rightarrow> string \<Rightarrow> int \<Rightarrow> redis \<Rightarrow> bool" where
  "tally until day chat n r \<longleftrightarrow>
     (\<forall>t < until. redis_get t (manual_key day chat) r = (if n = 0 then None else Some (int_value n)))"

definition order_count :: "command_state \<Rightarrow> int" where
  "order_count s = int (length (cs_buys s)) + int (length (cs_sells s))"

text \<open>A quiet handler sends no message and leaves the counters of the manual trades alone.\<close>

definition quiet_step :: "command_state \<Rightarrow> command_state \<Rightarrow> bool" where
  "quiet_step s s' \<longleftrightarrow> cs_buys s' = cs_buys s \<and> cs_sells s' = cs_sells s \<and>
     (\<forall>t day chat. redis_get t (manual_key day chat) (cs_redis s') = redis_get t (manual_key day chat) (cs_redis s))"

lemma quiet_step_refl [simp]: "quiet_step s s"
  by (simp add: quiet_step_def)

lemma get_try_setex: "k \<noteq> k' \<Longrightarrow> redis_get t k' (snd (try_setex l k ttl v r)) = redis_get t k' r"
  by (simp add: try_setex_def redis.get_setex)

lemma quiet_flag: "quiet_step s s' \<Longrightarrow> quiet_step s (set_flag w name v why s')"
proof -
  have other: "key \<noteq> manual_key day chat" if "flag_key name = Some key" for day chat key
    using that by (auto simp: flag_key_def manual_key_def split: if_splits)
  then have "redis_get t (manual_key day chat) (snd (set_trading_flag l name v why ttl r)) = redis_get t (manual_key day chat) r" for t day chat l ttl r
    by (auto simp: set_trading_flag_def get_try_setex other split: option.split)
  then show "quiet_step s s' \<Longrightarrow> ?thesis" by (simp add: quiet_step_def set_flag_def)
qed

lemma quiet_setting: "quiet_step s (set_setting w name v s)"
proof -
  have other: "key \<noteq> manual_key day chat" if "config_key name = Some key" for day chat key
    using that by (auto simp: config_key_def manual_key_def split: if_splits)
  then show ?thesis by (auto simp: quiet_step_def set_setting_def set_config_value_def get_try_setex other split: option.split)
qed

lemma manual_key_other: "mute_key \<noteq> manual_key day chat" "alert_prefix @ code \<noteq> manual_key day chat"
    "''telegram:rl:'' @ chat' \<noteq> manual_key day chat"
  by (simp_all add: mute_key_def alert_prefix_def manual_key_def)
lemma quiet_handlers:
  "quiet_step s (snd (handle_pause w c s))" "quiet_step s (snd (handle_resume w c s))" "quiet_step s (snd (handle_stop w c s))"
  "quiet_step s (snd (handle_dryrun w c s))" "quiet_step s (snd (handle_status w c s))" "quiet_step s (snd (handle_portfolio w c s))"
  "quiet_step s (snd (handle_pnl w c s))" "quiet_step s (snd (handle_balance w c s))" "quiet_step s (snd (handle_price w c s))"
  by (simp_all add: handle_pause_def handle_resume_def handle_stop_def handle_dryrun_def handle_status_def handle_portfolio_def
      handle_pnl_def handle_balance_def handle_price_def quiet_flag Let_def)

lemma quiet_watch:
  "quiet_step s (s\<lparr>cs_watch := rows\<rparr>)" "quiet_step s (snd (handle_watch w c s))" "quiet_step s (snd (handle_unwatch w c s))"
  "quiet_step s (snd (handle_watchlist w c s))"
  by (auto simp: quiet_step_def handle_watch_def handle_unwatch_def handle_watchlist_def split: list.split option.split sum.split prod.split)

lemma quiet_settings:
  "quiet_step s (snd (handle_risk w c s))" "quiet_step s (snd (handle_minscore w c s))" "quiet_step s (snd (handle_maxbuy w c s))"
  "quiet_step s (snd (handle_config w c s))" "quiet_step s (snd (handle_help w c s))" "quiet_step s (snd (handle_alerts w c s))"
  by (auto simp: handle_risk_def handle_minscore_def handle_maxbuy_def handle_config_def handle_help_def handle_alerts_def
      quiet_setting Let_def split: list.split option.split)

lemma quiet_redis:
  "(\<And>t day chat. redis_get t (manual_key day chat) r = redis_get t (manual_key day chat) (cs_redis s)) \<Longrightarrow> quiet_step s (s\<lparr>cs_redis := r\<rparr>)"
  by (simp add: quiet_step_def)

lemma quiet_notifications:
  "quiet_step s (snd (handle_mute w c s))" "quiet_step s (snd (handle_unmute w c s))" "quiet_step s (snd (handle_alert w c s))"
  by (auto simp: handle_mute_def handle_unmute_def handle_alert_def Let_def set_notification_mute_def clear_notification_mute_def
      set_price_alert_def delete_price_alert_def get_try_setex manual_key_other redis.get_del_other
      intro!: quiet_redis split: list.split option.split prod.split)


lemma quiet_rate_limit:
  "quiet_step s (s\<lparr>cs_redis := snd (is_rate_limited l chat secs (cs_redis s))\<rparr>)"
  by (auto simp: is_rate_limited_def Let_def get_try_setex manual_key_other(3) [simplified] intro!: quiet_redis
      split: option.split sum.split bool.split)

lemma quiet_send_reply: "quiet_step s s' \<Longrightarrow> quiet_step s (send_reply chat a s')"
  by (simp add: quiet_step_def send_reply_def)

lemma quiet_trans: "quiet_step s s' \<Longrightarrow> quiet_step s' s'' \<Longrightarrow> quiet_step s s''"
  by (simp add: quiet_step_def)

lemma quiet_tally: "quiet_step s s' \<Longrightarrow> tally T day chat n (cs_redis s) \<Longrightarrow> tally T day chat n (cs_redis s')"
  by (simp add: quiet_step_def tally_def)

lemma quiet_count: "quiet_step s s' \<Longrightarrow> order_count s' = order_count s"
  by (simp add: quiet_step_def order_count_def)

lemma command_handlers_quiet:
  assumes "map_of command_handlers name = Some h" "name \<notin> {''buy'', ''sell'', ''sellall''}"
  shows "quiet_step s (snd (h w dry c s))"
proof -
  have "list_all (\<lambda>(n, h). n \<in> {''buy'', ''sell'', ''sellall''} \<or> (\<forall>w dry c s. quiet_step s (snd (h w dry c s)))) command_handlers"
    by (simp add: command_handlers_def quiet_handlers quiet_watch quiet_settings quiet_notifications)
  with map_of_SomeD [OF assms(1)] assms(2) show ?thesis by (fastforce simp: list_all_iff)
qed

text \<open>The limit counts one trade, or refuses it.\<close>

lemma limit_guard_tally:
  assumes "limit_guard w c s = (x, s1)" "tally T (cw_day w) chat n (cs_redis s)" "cm_chat c = Some chat" "usable (cw_link w)"
    and "clock (cw_link w) < T" "T \<le> clock (cw_link w) + 86400" "0 \<le> n"
  shows "if cw_daily_limit w \<le> n then x = Return (LimitReached (cw_daily_limit w)) \<and> s1 = s
    else x = Next () \<and> tally T (cw_day w) chat (n + 1) (cs_redis s1)"
proof -
  have "read_count (cw_link w) (manual_key (cw_day w) chat) (cs_redis s) = Inr n"
    using assms(2,4,5) by (simp add: tally_def read_count_def usable_def)
  then show ?thesis
    using assms by (auto simp: limit_guard_def check_manual_limit_def usable_def try_setex_def tally_def redis.get_setex)
qed

lemma publishes_one:
  "publish_sell w good m s = (r, s1) \<Longrightarrow> cs_redis s1 = cs_redis s \<and> order_count s1 \<le> order_count s + 1"
  "publish_buy w bm s = (r, s1) \<Longrightarrow> cs_redis s1 = cs_redis s \<and> order_count s1 \<le> order_count s + 1"
  by (auto simp: publish_sell_def publish_buy_def order_count_def split: if_splits)

lemma after_the_limit:
  assumes "sale_steps w dry c t q s = (r, s') \<or> buy_steps w dry c t q s = (r, s')" "limit_guard w c s = (x, s1)"
  shows "if x = Next () then cs_redis s' = cs_redis s1 \<and> order_count s' \<le> order_count s1 + 1 else s' = s1"
  using assms unfolding sale_steps_def buy_steps_def seq_iff Let_def
  by (elim disjE exE conjE) (auto dest!: step_frames(1-5) publishes_one)


section \<open>A day of commands\<close>

fun run_commands :: "bool \<Rightarrow> (command_world \<times> bot_command) list \<Rightarrow> command_state \<Rightarrow> command_state" where
  "run_commands dry [] s = s"
| "run_commands dry ((w, c) # wcs) s = run_commands dry wcs (snd (process_command w dry c s))"

definition on_the_day :: "rat \<Rightarrow> string \<Rightarrow> string \<Rightarrow> int \<Rightarrow> command_world \<times> bot_command \<Rightarrow> bool" where
  "on_the_day T day chat limit wc \<longleftrightarrow>
     usable (cw_link (fst wc)) \<and> clock (cw_link (fst wc)) < T \<and> T \<le> clock (cw_link (fst wc)) + 86400 \<and>
     cw_day (fst wc) = day \<and> cw_daily_limit (fst wc) = limit \<and> cm_chat (snd wc) = Some chat \<and> cm_name (snd wc) \<noteq> ''sellall''"

lemma order_handlers_steps:
  assumes "cm_name c \<in> {''buy'', ''sell''}" "map_of command_handlers (cm_name c) = Some h"
  shows "snd (h w dry c s) = s \<or>
    (\<exists>t q r. sale_steps w dry c t q s = (r, snd (h w dry c s)) \<or> buy_steps w dry c t q s = (r, snd (h w dry c s)))"
proof -
  have run: "\<exists>r. p s = (r, snd (finish_order name p s))" for name p
    by (auto simp: finish_order_def split: prod.split flow.split)
  from assms have "h = handle_manual_buy \<or> h = handle_manual_sell"
    by (auto simp: command_handlers_def)
  then show ?thesis
    using run by (elim disjE) (auto simp: handle_manual_buy_def handle_manual_sell_def split: list.split option.split; metis)+
qed

lemma send_reply_frame [simp]: "cs_redis (send_reply chat a s) = cs_redis s" "order_count (send_reply chat a s) = order_count s"
  by (simp_all add: send_reply_def order_count_def)

lemma process_command_cases:
  obtains (quiet) "quiet_step s (snd (process_command w dry c s))"
  | (handled) h s1 a where "map_of command_handlers (cm_name c) = Some h" "quiet_step s s1"
      "snd (process_command w dry c s) = send_reply (cm_chat c) a (snd (h w dry c s1))"
proof (cases "map_of command_handlers (cm_name c)")
  case None
  then show ?thesis by (intro quiet) (simp add: process_command_def quiet_send_reply)
next
  case (Some h)
  define s1 where "s1 = s\<lparr>cs_redis := snd (is_rate_limited (cw_link w) (cm_chat c) (cw_min_interval w) (cs_redis s))\<rparr>"
  have q1: "quiet_step s s1" unfolding s1_def by (rule quiet_rate_limit)
  have "snd (process_command w dry c s) = send_reply (cm_chat c) (TooFast (cw_min_interval w)) s1 \<or>
      (\<exists>a. snd (process_command w dry c s) = send_reply (cm_chat c) a (snd (h w dry c s1)))"
    by (auto simp: process_command_def Some s1_def Let_def split: prod.split sum.split)
  with q1 Some show ?thesis by (metis handled quiet quiet_send_reply)
qed

lemma order_counts:
  assumes day: "on_the_day T day chat limit (w, c)" and n: "tally T day chat n (cs_redis s)" "0 \<le> n" "n \<le> limit"
    and h: "cm_name c \<in> {''buy'', ''sell''}" "map_of command_handlers (cm_name c) = Some h"
  shows "\<exists>m. tally T day chat m (cs_redis (snd (h w dry c s))) \<and> n \<le> m \<and> m \<le> limit \<and>
    order_count (snd (h w dry c s)) - order_count s \<le> m - n"
proof -
  obtain x s1 where guard: "limit_guard w c s = (x, s1)" by fastforce
  from order_handlers_steps [OF h] consider "snd (h w dry c s) = s"
    | t q r where "sale_steps w dry c t q s = (r, snd (h w dry c s)) \<or> buy_steps w dry c t q s = (r, snd (h w dry c s))"
    by blast
  then show ?thesis
  proof cases
    case 1
    then show ?thesis using n by auto
  next
    case 2
    have c1: "order_count s1 = order_count s"
      using limit_guard_frame [OF guard] by (simp add: order_count_def)
    have "if limit \<le> n then x = Return (LimitReached limit) \<and> s1 = s
        else x = Next () \<and> tally T day chat (n + 1) (cs_redis s1)"
      using limit_guard_tally [OF guard, of T chat n] day n by (auto simp: on_the_day_def split: if_splits)
    with after_the_limit [OF 2 guard] c1 n show ?thesis
      by (cases "limit \<le> n") (auto intro: exI [of _ n] exI [of _ "n + 1"])
  qed
qed

lemma command_counts:
  assumes "on_the_day T day chat limit (w, c)" "tally T day chat n (cs_redis s)" "0 \<le> n" "n \<le> limit"
  shows "\<exists>m. tally T day chat m (cs_redis (snd (process_command w dry c s))) \<and> n \<le> m \<and> m \<le> limit \<and>
    order_count (snd (process_command w dry c s)) - order_count s \<le> m - n"
proof (cases rule: process_command_cases [of s w dry c])
  case quiet
  then show ?thesis using assms by (metis quiet_tally quiet_count order_refl diff_self)
next
  case (handled h s1 a)
  note s1 = quiet_tally [OF handled(2) assms(2)] quiet_count [OF handled(2)]
  show ?thesis
  proof (cases "cm_name c \<in> {''buy'', ''sell''}")
    case True
    from order_counts [OF assms(1) s1(1) assms(3,4) True handled(1), of dry] show ?thesis
      by (simp add: handled(3) s1(2))
  next
    case False
    with assms(1) have "quiet_step s1 (snd (h w dry c s1))"
      by (intro command_handlers_quiet [OF handled(1)]) (simp add: on_the_day_def)
    from quiet_tally [OF this s1(1)] quiet_count [OF this] assms s1(2) show ?thesis
      by (auto simp: handled(3))
  qed
qed

lemma run_counts:
  assumes "list_all (on_the_day T day chat limit) wcs" "tally T day chat n (cs_redis s)" "0 \<le> n" "n \<le> limit"
  shows "order_count (run_commands dry wcs s) - order_count s \<le> limit - n"
  using assms
proof (induction wcs arbitrary: s n)
  case (Cons wc wcs)
  obtain w c where wc: "wc = (w, c)" by fastforce
  with Cons.prems have day: "on_the_day T day chat limit (w, c)" "list_all (on_the_day T day chat limit) wcs" by simp_all
  from command_counts [OF day(1) Cons.prems(2-4), of dry] obtain m where
    m: "tally T day chat m (cs_redis (snd (process_command w dry c s)))" "n \<le> m" "m \<le> limit"
      "order_count (snd (process_command w dry c s)) - order_count s \<le> m - n" by blast
  from Cons.IH [OF day(2) m(1) _ m(3)] m Cons.prems(3) show ?case by (simp add: wc)
qed simp

text \<open>
  C7. The manual trades of one chat on one day never exceed the limit, whatever commands come and
  in whatever order, while Redis answers and the counter lives: every order published has
  been counted before. \<open>/sellall\<close> is left out because it does not ask for the limit.
\<close>

theorem manual_orders_bounded:
  assumes "list_all (on_the_day T day chat limit) wcs" "\<forall>t < T. redis_get t (manual_key day chat) (cs_redis s) = None" "0 \<le> limit"
  shows "order_count (run_commands dry wcs s) \<le> order_count s + limit"
proof -
  have "tally T day chat 0 (cs_redis s)" using assms(2) by (simp add: tally_def)
  from run_counts [OF assms(1) this _ assms(3), of dry] show ?thesis by simp
qed


theorem manual_orders_bounded_witness:
  "order_count (run_commands False
     (replicate 3 (demo_commands online\<lparr>cw_daily_limit := 1, cw_min_interval := 0\<rparr>, demo_command ''buy'' [''005930'', ''2'']))
     demo_command_state) \<le> 1"
proof -
  let ?wcs = "replicate 3 (demo_commands online\<lparr>cw_daily_limit := 1, cw_min_interval := 0\<rparr>, demo_command ''buy'' [''005930'', ''2''])"
  have "list_all (on_the_day 86400 ''20250101'' ''1'' 1) ?wcs"
    by (simp add: on_the_day_def demo_commands_def demo_command_def online_def usable_def list_all_iff)
  from manual_orders_bounded [OF this, of demo_command_state False] show ?thesis
    by (simp add: demo_command_state_def redis_get_def order_count_def)
qed

lemma put_new_row:
  "wl_code r \<notin> wl_code ` set rows \<Longrightarrow> put_row wl_code watch_merge r rows = rows @ [r]"
  by (auto simp: put_row_def has_key)

lemma without_code: "code \<notin> wl_code ` set rows \<Longrightarrow> filter (\<lambda>r. wl_code r \<noteq> code) rows = rows"
  by (auto simp: filter_id_conv)

text \<open>
  A stock added by \<open>/watch\<close> is removed by \<open>/unwatch\<close>; but the list is not what it was before,
  because adding one stock also deletes every row that has gone stale.
\<close>

theorem watch_then_unwatch:
  assumes "handle_watch w c s = (Inr (Watched name code), s1)" "handle_unwatch w c s1 = (a, s2)"
    and "code \<notin> wl_code ` set (cs_watch s)"
  shows "a = Inr (Unwatched name code) \<and> cs_watch s2 = filter (\<lambda>r. \<not> stale (cw_watch w) r) (cs_watch s)"
proof -
  let ?rows = "filter (\<lambda>r. \<not> stale (cw_watch w) r) (cs_watch s)" and ?r = "watch_row_of (cw_watch w) (manual_candidate code name)"
  from assms(1) obtain t ts es where run: "cm_args c = t # ts" "resolve_stock w t = Some (code, name)" "active_watch w s = Inr es"
      "save_to_watchlist (cw_watch w) [manual_candidate code name] (cs_watch s) = (Inr (), cs_watch s1)"
    by (auto simp: handle_watch_def split: list.splits option.splits sum.splits if_splits prod.splits)
  then have s1: "cs_watch s1 = put_row wl_code watch_merge ?r ?rows" and fault: "cw_db_fault w = None"
    by (auto simp: save_to_watchlist_def active_watch_def Let_def split: option.splits if_splits)
  have code: "wl_code ?r = code" by (simp add: watch_row_of_def manual_candidate_def)
  have new: "code \<notin> wl_code ` set ?rows" using assms(3) by auto
  from put_new_row [of ?r] new code have "cs_watch s1 = ?rows @ [?r]" by (simp add: s1)
  with assms(2) code without_code [OF new] show ?thesis
    by (auto simp: handle_unwatch_def run fault)
qed

theorem watch_then_unwatch_witness:
  "cs_watch (snd (handle_unwatch (demo_commands online) (demo_command ''unwatch'' [''005930''])
     (snd (handle_watch (demo_commands online) (demo_command ''unwatch'' [''005930'']) demo_command_state)))) = []"
proof -
  let ?w = "demo_commands online" and ?c = "demo_command ''unwatch'' [''005930'']"
  have "list_all is_digit ''005930''" by code_simp
  then have "resolve_stock ?w ''005930'' = Some (''005930'', ''x'')"
    by (simp add: resolve_stock_def demo_commands_def demo_master_def)
  then have "fst (handle_watch ?w ?c demo_command_state) = Inr (Watched ''x'' ''005930'')"
    by (simp add: handle_watch_def demo_command_def demo_command_state_def active_watch_def get_active_watchlist_def demo_commands_def
        save_to_watchlist_def demo_watch_world_def)
  then obtain s1 where w: "handle_watch ?w ?c demo_command_state = (Inr (Watched ''x'' ''005930''), s1)" by (metis prod.collapse)
  obtain a s2 where u: "handle_unwatch ?w ?c s1 = (a, s2)" by fastforce
  from watch_then_unwatch [OF w u] w u show ?thesis by (simp add: demo_command_state_def)
qed

end
