(* ===== verification/Scout_Cache.thy ===== *)
theory Scout_Cache
  imports Watchlist Trade_Store "HOL-Library.Multiset" "HOL-Library.List_Lexorder" "HOL-Library.Char_ord"
begin

text \<open>
  \<open>services/scout-job/scout_cache.py\<close>: what the scout job remembers between its runs. The state
  of the pipeline for the dashboard (Redis), the JSON documents in the CONFIG table, the table
  of earlier evaluations, and the tests that decide whether an evaluation may be used again.

  The logarithms of the price buckets are the real ones; \<open>price_bucket_counts\<close> gives the count of
  5% steps that computes them.
\<close>

section \<open>The state shown on the dashboard\<close>

record pipeline_status =
  ps_phase :: int
  ps_phase_name :: string
  ps_status :: string
  ps_progress :: rat
  ps_stock :: string
  ps_candidates :: nat
  ps_passed1 :: nat
  ps_passed2 :: nat
  ps_selected :: nat

record dashboard =
  db_status :: "(pipeline_status \<times> rat) option"
  db_results :: "((string \<times> jval) list list \<times> rat) option"

text \<open>The client is made on first use; when its first ping fails there is none.\<close>

definition update_pipeline_status :: "redis_link \<Rightarrow> pipeline_status \<Rightarrow> dashboard \<Rightarrow> dashboard" where
  "update_pipeline_status l p d =
     (if connected l \<and> \<not> link_fault l then d\<lparr>db_status := Some (p, clock l)\<rparr> else d)"

definition save_pipeline_results ::
  "redis_link \<Rightarrow> ((string \<times> jval) list list \<Rightarrow> bool) \<Rightarrow> (string \<times> jval) list list \<Rightarrow> dashboard \<Rightarrow> dashboard" where
  "save_pipeline_results l serializable rs d =
     (if connected l \<and> \<not> link_fault l \<and> serializable rs then d\<lparr>db_results := Some (rs, clock l + 86400)\<rparr> else d)"

section \<open>Documents in the CONFIG table\<close>

definition STATE_PREFIX :: string where
  "STATE_PREFIX = ''SCOUT''"

definition CANDIDATE_DIGEST_SUFFIX :: string where
  "CANDIDATE_DIGEST_SUFFIX = ''CANDIDATE_DIGEST''"

definition CANDIDATE_HASHES_SUFFIX :: string where
  "CANDIDATE_HASHES_SUFFIX = ''CANDIDATE_HASHES''"

definition LLM_CACHE_SUFFIX :: string where
  "LLM_CACHE_SUFFIX = ''LLM_DECISIONS''"

definition LLM_LAST_RUN_SUFFIX :: string where
  "LLM_LAST_RUN_SUFFIX = ''LAST_LLM_RUN_AT''"

definition get_scope :: "(string \<rightharpoonup> string) \<Rightarrow> string" where
  "get_scope env = (case env ''SCHEDULER_SCOPE'' of None \<Rightarrow> ''real'' | Some v \<Rightarrow> v)"

definition make_state_key :: "(string \<rightharpoonup> string) \<Rightarrow> string \<Rightarrow> string" where
  "make_state_key env suffix = STATE_PREFIX @ ''::'' @ get_scope env @ ''::'' @ suffix"

record scout_store =
  st_environ :: "string \<rightharpoonup> string"
  st_fault :: "py_exc option"
  st_json :: json_codec
  st_now :: rat
  st_iso :: "rat \<Rightarrow> string"
  st_from_iso :: "string \<Rightarrow> rat res"

text \<open>An absent, empty or broken document gives the default.\<close>

definition load_json_config :: "scout_store \<Rightarrow> string \<Rightarrow> jval \<Rightarrow> config_row list \<Rightarrow> jval" where
  "load_json_config w suffix d rows =
     (case get_config (st_fault w) (make_state_key (st_environ w) suffix) rows of
        None \<Rightarrow> d
      | Some raw \<Rightarrow>
          if raw = [] then d else (case js_loads (st_json w) raw of Inl _ \<Rightarrow> d | Inr v \<Rightarrow> v))"

definition save_json_config :: "scout_store \<Rightarrow> string \<Rightarrow> (string \<times> jval) list \<Rightarrow> config_row list \<Rightarrow> config_row list res" where
  "save_json_config w suffix payload rows =
     rbind (js_dumps (st_json w) payload) (\<lambda>t.
       Inr (snd (set_config (st_fault w) (st_now w) (make_state_key (st_environ w) suffix) t None rows)))"

text \<open>\<open>raw.replace("Z", "+00:00")\<close>\<close>

definition utc_suffix :: "string \<Rightarrow> string" where
  "utc_suffix t = concat (map (\<lambda>c. if c = CHR ''Z'' then ''+00:00'' else [c]) t)"

definition get_last_llm_run_at :: "scout_store \<Rightarrow> config_row list \<Rightarrow> rat option" where
  "get_last_llm_run_at w rows =
     (case get_config (st_fault w) (make_state_key (st_environ w) LLM_LAST_RUN_SUFFIX) rows of
        None \<Rightarrow> None
      | Some raw \<Rightarrow>
          if raw = [] then None else (case st_from_iso w (utc_suffix raw) of Inl _ \<Rightarrow> None | Inr t \<Rightarrow> Some t))"

definition save_last_llm_run_at :: "scout_store \<Rightarrow> rat \<Rightarrow> config_row list \<Rightarrow> config_row list" where
  "save_last_llm_run_at w t rows =
     snd (set_config (st_fault w) (st_now w) (make_state_key (st_environ w) LLM_LAST_RUN_SUFFIX) (st_iso w t) None rows)"

definition or_empty_object :: "jval \<Rightarrow> jval" where
  "or_empty_object v = (if jtruth v then v else JObj [])"

definition load_candidate_state :: "scout_store \<Rightarrow> config_row list \<Rightarrow> string option \<times> jval" where
  "load_candidate_state w rows =
     (get_config (st_fault w) (make_state_key (st_environ w) CANDIDATE_DIGEST_SUFFIX) rows,
      or_empty_object (load_json_config w CANDIDATE_HASHES_SUFFIX (JObj []) rows))"

definition save_candidate_state ::
  "scout_store \<Rightarrow> string \<Rightarrow> (string \<times> string) list \<Rightarrow> config_row list \<Rightarrow> config_row list res" where
  "save_candidate_state w digest hashes rows =
     save_json_config w CANDIDATE_HASHES_SUFFIX (map (\<lambda>(c, h). (c, JStr h)) hashes)
       (snd (set_config (st_fault w) (st_now w) (make_state_key (st_environ w) CANDIDATE_DIGEST_SUFFIX) digest None rows))"

definition load_llm_cache :: "scout_store \<Rightarrow> config_row list \<Rightarrow> jval" where
  "load_llm_cache w rows = or_empty_object (load_json_config w LLM_CACHE_SUFFIX (JObj []) rows)"

definition save_llm_cache :: "scout_store \<Rightarrow> (string \<times> jval) list \<Rightarrow> config_row list \<Rightarrow> config_row list res" where
  "save_llm_cache w payload rows = save_json_config w LLM_CACHE_SUFFIX payload rows"

section \<open>The table of evaluations\<close>

record eval_row =
  ev_code :: string
  ev_name :: string
  ev_price_bucket :: int
  ev_volume_bucket :: int
  ev_news_hash :: "string option"
  ev_date :: "string option"
  ev_hunter :: rat
  ev_judge :: rat
  ev_grade :: "string option"
  ev_reason :: "string option"
  ev_news :: "string option"
  ev_approved :: bool
  ev_tradable :: bool

definition eval_merge :: "eval_row \<Rightarrow> eval_row \<Rightarrow> eval_row" where
  "eval_merge old new = new"

interpretation eval_rows: keyed_rows ev_code eval_merge
  by unfold_locales (simp add: eval_merge_def)

text \<open>
  A cursor exists on a raw connection only; a session has none, which raises inside the
  function's own handler.
\<close>

definition cursor_of :: "connection \<Rightarrow> unit res" where
  "cursor_of c = (case c of RawConnection \<Rightarrow> Inr () | OrmSession \<Rightarrow> Inl AttributeError)"

definition load_llm_cache_from_db :: "connection \<Rightarrow> py_exc option \<Rightarrow> eval_row list \<Rightarrow> (string \<times> eval_row) list" where
  "load_llm_cache_from_db c fault rows =
     (case cursor_of c of
        Inl _ \<Rightarrow> []
      | Inr _ \<Rightarrow>
          (case fault of
             Some _ \<Rightarrow> []
           | None \<Rightarrow>
               fold (\<lambda>r. AList.update (ev_code r)
                   (r\<lparr>ev_date := (case ev_date r of Some (x # xs) \<Rightarrow> Some (x # xs) | _ \<Rightarrow> None)\<rparr>)) rows []))"

text \<open>Long texts are cut to 60000 characters, empty ones become NULL.\<close>

definition cut_text :: "string option \<Rightarrow> string option" where
  "cut_text t = (case t of None \<Rightarrow> None | Some s \<Rightarrow> if s = [] then None else Some (concat (take 60000 (chars s))))"

definition stored_eval :: "string \<Rightarrow> eval_row \<Rightarrow> eval_row" where
  "stored_eval code e = e\<lparr>ev_code := code, ev_reason := cut_text (ev_reason e), ev_news := cut_text (ev_news e)\<rparr>"

definition save_llm_cache_to_db ::
  "connection \<Rightarrow> py_exc option \<Rightarrow> (eval_row \<Rightarrow> bool) \<Rightarrow> string \<Rightarrow> eval_row \<Rightarrow> eval_row list \<Rightarrow> eval_row list" where
  "save_llm_cache_to_db c fault accepts code e rows =
     (case (cursor_of c, fault) of
        (Inr _, None) \<Rightarrow>
          if accepts (stored_eval code e) then put_row ev_code eval_merge (stored_eval code e) rows else rows
      | _ \<Rightarrow> rows)"

definition save_llm_cache_batch ::
  "connection \<Rightarrow> py_exc option \<Rightarrow> (eval_row \<Rightarrow> bool) \<Rightarrow> (string \<times> eval_row) list \<Rightarrow> eval_row list \<Rightarrow> eval_row list" where
  "save_llm_cache_batch c fault accepts entries rows =
     (if entries = [] then rows
      else case (cursor_of c, fault) of
        (Inr _, None) \<Rightarrow>
          (let new = map (\<lambda>(code, e). stored_eval code e) entries
            in if list_all accepts new then fold (put_row ev_code eval_merge) new rows else rows)
      | _ \<Rightarrow> rows)"

section \<open>May an evaluation be used again?\<close>

definition text_or_empty :: "string option \<Rightarrow> string" where
  "text_or_empty t = (case t of None \<Rightarrow> [] | Some s \<Rightarrow> s)"

record current_data =
  cd_price_bucket :: int
  cd_volume_bucket :: int
  cd_news_hash :: "string option"

definition is_cache_valid_direct :: "eval_row option \<Rightarrow> current_data \<Rightarrow> string \<Rightarrow> bool" where
  "is_cache_valid_direct cached current today =
     (case cached of
        None \<Rightarrow> False
      | Some e \<Rightarrow>
          ev_date e = Some today \<and> ev_price_bucket e = cd_price_bucket current \<and>
          text_or_empty (ev_news_hash e) = text_or_empty (cd_news_hash current))"

text \<open>\<open>int(x)\<close> of a real number.\<close>

definition real_int :: "real \<Rightarrow> int" where
  "real_int x = (if 0 \<le> x then \<lfloor>x\<rfloor> else \<lceil>x\<rceil>)"

definition get_price_bucket :: "rat \<Rightarrow> int" where
  "get_price_bucket price =
     (if price \<le> 0 then 0 else real_int (ln (real_of_rat price) / ln (105/100)))"

definition get_volume_bucket :: "int \<Rightarrow> int" where
  "get_volume_bucket volume = (if volume \<le> 0 then 0 else volume div 100000)"

definition get_foreign_direction :: "int \<Rightarrow> string" where
  "get_foreign_direction n = (if 10000 < n then ''buy'' else if n < - 10000 then ''sell'' else ''neutral'')"

section \<open>Hashes of the candidates\<close>

text \<open>
  What is known of a candidate; an entry that is None is a key that is absent. The net
  purchase of foreigners is a key nobody sets in this repository.
\<close>

record candidate =
  cn_name :: string
  cn_reasons :: "string list"
  cn_price :: "rat option"
  cn_volume :: "int option"
  cn_news_hash :: "string option"
  cn_foreign_net :: "int option"
  cn_flow :: "(jval \<times> jval \<times> jval) option"

datatype hash_value = HText string | HTexts "string list" | HInt int | HFlow jval jval jval

definition optional :: "string \<Rightarrow> ('a \<Rightarrow> hash_value) \<Rightarrow> 'a option \<Rightarrow> (string \<times> hash_value) list" where
  "optional key f x = (case x of None \<Rightarrow> [] | Some v \<Rightarrow> [(key, f v)])"

text \<open>The document that is hashed, with its keys sorted: it names the day.\<close>

definition normalized_payload :: "string \<Rightarrow> string \<Rightarrow> candidate \<Rightarrow> (string \<times> hash_value) list" where
  "normalized_payload today code info =
     (''code'', HText code) # (''date'', HText today) #
     optional ''foreign_direction'' (\<lambda>n. HText (get_foreign_direction n)) (cn_foreign_net info) @
     optional ''market_flow'' (\<lambda>(f, i, p). HFlow f i p) (cn_flow info) @
     [(''name'', HText (cn_name info))] @
     optional ''news_hash'' HText (cn_news_hash info) @
     optional ''price_bucket'' (\<lambda>p. HInt (get_price_bucket p)) (cn_price info) @
     [(''reasons'', HTexts (sort (cn_reasons info)))] @
     optional ''volume_bucket'' (\<lambda>v. HInt (get_volume_bucket v)) (cn_volume info)"

record hash_library =
  hl_dumps :: "(string \<times> hash_value) list \<Rightarrow> string"
  hl_sha256 :: "string \<Rightarrow> string"
  hl_md5 :: "string \<Rightarrow> string"

definition hash_candidate_payload :: "hash_library \<Rightarrow> string \<Rightarrow> string \<Rightarrow> candidate \<Rightarrow> string" where
  "hash_candidate_payload h today code info = hl_sha256 h (hl_dumps h (normalized_payload today code info))"

definition compute_candidate_hashes ::
  "hash_library \<Rightarrow> string \<Rightarrow> (string \<times> candidate) list \<Rightarrow> (string \<times> string) list \<times> string" where
  "compute_candidate_hashes h today candidates =
     (let per_stock = map (\<lambda>(code, info). (code, hash_candidate_payload h today code info)) candidates
       in (per_stock, hl_sha256 h (concat (map (\<lambda>c. dict_get c [] per_stock) (sort (map fst per_stock))))))"

section \<open>Earlier decisions\<close>

text \<open>Minutes; no time at all is infinitely long ago.\<close>

definition minutes_since :: "rat \<Rightarrow> rat option \<Rightarrow> rat option" where
  "minutes_since now' t = map_option (\<lambda>t. now' - t) t"

definition parse_int_env :: "string option \<Rightarrow> int \<Rightarrow> int" where
  "parse_int_env value d = (case value of None \<Rightarrow> d | Some t \<Rightarrow> (case parse_int t of None \<Rightarrow> d | Some n \<Rightarrow> n))"

definition is_cache_entry_valid ::
  "scout_store \<Rightarrow> (string \<times> jval) list option \<Rightarrow> string \<Rightarrow> int \<Rightarrow> bool" where
  "is_cache_entry_valid w entry decision_hash ttl =
     (case entry of
        None \<Rightarrow> False
      | Some e \<Rightarrow>
          if e = [] \<or> field ''decision_hash'' JNull e \<noteq> JStr decision_hash then False
          else if ttl \<le> 0 then True
          else (case field ''llm_updated_at'' JNull e of
             JStr t \<Rightarrow>
               t \<noteq> [] \<and> (case st_from_iso w (utc_suffix t) of
                 Inl _ \<Rightarrow> False
               | Inr ts \<Rightarrow> (case minutes_since (st_now w) (Some ts) of None \<Rightarrow> False | Some m \<Rightarrow> m < of_int ttl))
           | _ \<Rightarrow> False))"

text \<open>
  The record of a decision. Its reason is whatever the model answered; where a text is
  needed (the watchlist, the table) anything else counts as none.
\<close>

record decision =
  dn_code :: string
  dn_name :: string
  dn_score :: rat
  dn_reason :: jval
  dn_tradable :: bool
  dn_approved :: bool
  dn_hunter :: "rat option"
  dn_metadata :: "(string \<times> jval) list"
  dn_per :: "rat option"
  dn_pbr :: "rat option"
  dn_roe :: "rat option"
  dn_cap :: "rat option"
  dn_sales :: "rat option"
  dn_eps :: "rat option"

definition jtext :: "jval \<Rightarrow> string option" where
  "jtext v = (case v of JStr t \<Rightarrow> Some t | _ \<Rightarrow> None)"

definition record_to_watchlist_entry :: "decision \<Rightarrow> watch_candidate" where
  "record_to_watchlist_entry r =
     \<lparr>wc_code = dn_code r, wc_name = dn_name r, wc_tradable = Some (dn_tradable r), wc_score = Some (dn_score r),
      wc_reason = Some (jtext (dn_reason r)), wc_metadata = dn_metadata r, wc_per = dn_per r, wc_pbr = dn_pbr r,
      wc_roe = dn_roe r, wc_cap = dn_cap r, wc_sales = dn_sales r, wc_eps = dn_eps r\<rparr>"

definition record_to_cache_payload :: "decision \<Rightarrow> (string \<times> jval) list" where
  "record_to_cache_payload r =
     [(''code'', JStr (dn_code r)), (''name'', JStr (dn_name r)), (''llm_score'', JNum (dn_score r)),
      (''llm_reason'', dn_reason r), (''llm_grade'', field ''llm_grade'' JNull (dn_metadata r)),
      (''decision_hash'', field ''decision_hash'' JNull (dn_metadata r)),
      (''llm_updated_at'', field ''llm_updated_at'' JNull (dn_metadata r)),
      (''is_tradable'', JBool (dn_tradable r)), (''approved'', JBool (dn_approved r))]"

definition as_text :: "jval \<Rightarrow> string res" where
  "as_text v = (case v of JStr t \<Rightarrow> Inr t | _ \<Rightarrow> Inl TypeError)"

text \<open>The entry of a dictionary read from JSON: code, name and score must be what was written.\<close>

definition cache_payload_to_record :: "(string \<times> jval) list \<Rightarrow> string \<Rightarrow> decision res" where
  "cache_payload_to_record e decision_hash =
     (case map_of e ''code'' of
        None \<Rightarrow> Inl KeyError
      | Some c \<Rightarrow>
          rbind (as_text c) (\<lambda>code.
          rbind (as_text (field ''name'' c e)) (\<lambda>name.
            case jnum (field ''llm_score'' (JNum 0) e) of
              None \<Rightarrow> Inl TypeError
            | Some score \<Rightarrow>
                Inr \<lparr>dn_code = code, dn_name = name, dn_score = score, dn_reason = field ''llm_reason'' (JStr []) e,
                     dn_tradable = jtruth (field ''is_tradable'' (JBool True) e),
                     dn_approved = jtruth (field ''approved'' (JBool False) e), dn_hunter = None,
                     dn_metadata = [(''llm_grade'', field ''llm_grade'' JNull e), (''decision_hash'', JStr decision_hash),
                       (''llm_updated_at'', field ''llm_updated_at'' JNull e), (''source'', JStr ''cache'')],
                     dn_per = None, dn_pbr = None, dn_roe = None, dn_cap = None, dn_sales = None, dn_eps = None\<rparr>)))"

section \<open>Price buckets\<close>

text \<open>How many steps of 5% lead from \<open>x\<close> up to at most \<open>p\<close>.\<close>

function bucket_steps :: "rat \<Rightarrow> rat \<Rightarrow> nat" where
  "bucket_steps x p = (if 1 \<le> x \<and> x * (21/20) \<le> p then bucket_steps (x * (21/20)) p + 1 else 0)"
  by pat_completeness auto

termination bucket_steps
proof (relation "measure (\<lambda>(x, p). nat \<lceil>20 * (p - x)\<rceil>)")
  fix x p :: rat
  assume a: "1 \<le> x \<and> x * (21/20) \<le> p"
  then have "20 * (p - x * (21/20)) + 1 \<le> 20 * (p - x)" "0 \<le> 20 * (p - x * (21/20))" by simp_all
  then have "\<lceil>20 * (p - x * (21/20))\<rceil> < \<lceil>20 * (p - x)\<rceil>" by linarith
  moreover have "0 \<le> \<lceil>20 * (p - x * (21/20))\<rceil>" using \<open>0 \<le> 20 * (p - x * (21/20))\<close> by linarith
  moreover have "x < p" using a by linarith
  ultimately show "((x * (21/20), p), (x, p)) \<in> measure (\<lambda>(x, p). nat \<lceil>20 * (p - x)\<rceil>)"
    by (simp add: nat_less_iff)
qed simp

declare bucket_steps.simps [simp del]

lemma bucket_steps_bounds:
  "1 \<le> x \<Longrightarrow> x \<le> p \<Longrightarrow> x * (21/20) ^ bucket_steps x p \<le> p \<and> p < x * (21/20) ^ (bucket_steps x p + 1)"
proof (induction x p rule: bucket_steps.induct)
  case (1 x p)
  show ?case
  proof (cases "x * (21/20) \<le> p")
    case True
    have "1 \<le> x * (21/20)" using 1(2) by simp
    from 1(1) [OF _ this True] 1(2) True show ?thesis
      by (simp add: bucket_steps.simps [of x p] mult.assoc mult.left_commute)
  next
    case False
    with 1 show ?thesis by (simp add: bucket_steps.simps [of x p])
  qed
qed

lemma log_floor:
  assumes "1 \<le> p"
  shows "\<lfloor>ln (real_of_rat p) / ln (21/20)\<rfloor> = int (bucket_steps 1 p)"
proof -
  let ?n = "bucket_steps 1 p"
  have b: "(21/20) ^ ?n \<le> p" "p < (21/20) ^ (?n + 1)"
    using bucket_steps_bounds [of 1 p] assms by simp_all
  have l: "(0::real) < ln (21/20)" by simp
  have pos: "0 < real_of_rat p" using assms by simp
  have "real_of_rat ((21/20) ^ ?n) \<le> real_of_rat p" "real_of_rat p < real_of_rat ((21/20) ^ (?n + 1))"
    using b by (simp_all only: of_rat_less_eq of_rat_less)
  then have "(21/20) ^ ?n \<le> real_of_rat p" "real_of_rat p < (21/20) ^ (?n + 1)"
    by (simp_all add: of_rat_power of_rat_mult of_rat_divide)
  then have "ln ((21/20) ^ ?n) \<le> ln (real_of_rat p)" "ln (real_of_rat p) < ln ((21/20) ^ (?n + 1))"
    using pos by (simp_all del: power_Suc add: ln_le_cancel_iff)
  then have "real ?n * ln (21/20) \<le> ln (real_of_rat p)" "ln (real_of_rat p) < real (?n + 1) * ln (21/20)"
    by (simp_all only: ln_realpow)
  then have "real ?n \<le> ln (real_of_rat p) / ln (21/20)" "ln (real_of_rat p) / ln (21/20) < real ?n + 1"
    using l by (simp_all add: pos_le_divide_eq pos_divide_less_eq add.commute)
  then show ?thesis by (intro floor_unique) simp_all
qed

text \<open>
  The bucket of a price, computed with logarithms in the code, is the number of whole 5% steps
  from one up to the price, or down to it with the opposite sign.
\<close>

theorem price_bucket_counts [code]:
  "get_price_bucket p =
     (if p \<le> 0 then 0 else if 1 \<le> p then int (bucket_steps 1 p) else - int (bucket_steps 1 (1 / p)))"
proof -
  have l: "(0::real) < ln (21/20)" by simp
  consider "p \<le> 0" | "1 \<le> p" | "0 < p" "p < 1" by linarith
  then show ?thesis
  proof cases
    case 2
    then have "0 \<le> ln (real_of_rat p) / ln (21/20)" using l by simp
    with 2 show ?thesis by (simp add: get_price_bucket_def real_int_def log_floor)
  next
    case 3
    have inv: "1 \<le> 1 / p" using 3 by simp
    have neg: "ln (real_of_rat p) / ln (21/20) = - (ln (real_of_rat (1 / p)) / ln (21/20))"
      using 3 by (simp add: of_rat_divide ln_div)
    have "ln (real_of_rat p) / ln (21/20) < 0" using l 3 by (simp add: divide_neg_pos)
    then have "real_int (ln (real_of_rat p) / ln (21/20)) = \<lceil>ln (real_of_rat p) / ln (21/20)\<rceil>"
      by (simp add: real_int_def)
    also have "\<dots> = - int (bucket_steps 1 (1 / p))"
      unfolding neg ceiling_minus log_floor [OF inv] ..
    finally show ?thesis using 3 by (simp add: get_price_bucket_def)
  qed (simp add: get_price_bucket_def)
qed

lemma same_bucket_near:
  assumes "1 \<le> p" "1 \<le> q" "get_price_bucket p = get_price_bucket q"
  shows "q < p * (105/100)"
proof -
  have n: "bucket_steps 1 q = bucket_steps 1 p" using assms by (simp add: price_bucket_counts)
  have "q < (21/20) ^ (bucket_steps 1 p + 1)" "(21/20) ^ bucket_steps 1 p \<le> p"
    using bucket_steps_bounds [of 1 q] bucket_steps_bounds [of 1 p] assms n by simp_all
  then show ?thesis by simp
qed

section \<open>Properties\<close>

text \<open>
  An evaluation is used again only on the day it was made, with the same news, and while the
  price has moved by less than five percent from the price it was made at.
\<close>

theorem reused_within_five_percent:
  assumes "is_cache_valid_direct (Some e) \<lparr>cd_price_bucket = get_price_bucket q, cd_volume_bucket = v, cd_news_hash = n\<rparr> today"
    and "ev_price_bucket e = get_price_bucket p" "1 \<le> p" "1 \<le> q"
  shows "ev_date e = Some today \<and> text_or_empty (ev_news_hash e) = text_or_empty n \<and>
    q < p * (105/100) \<and> p < q * (105/100)"
  using assms same_bucket_near [of p q] same_bucket_near [of q p] by (simp add: is_cache_valid_direct_def)

definition demo_eval :: eval_row where
  "demo_eval =
     \<lparr>ev_code = ''005930'', ev_name = ''x'', ev_price_bucket = get_price_bucket 1, ev_volume_bucket = 0, ev_news_hash = Some ''h'',
      ev_date = Some ''2025-01-02'', ev_hunter = 70, ev_judge = 75, ev_grade = None, ev_reason = None, ev_news = None,
      ev_approved = True, ev_tradable = True\<rparr>"

theorem reused_within_five_percent_witness:
  "is_cache_valid_direct (Some demo_eval) \<lparr>cd_price_bucket = get_price_bucket (104/100), cd_volume_bucket = 9, cd_news_hash = Some ''h''\<rparr>
     ''2025-01-02'' \<and> (104/100::rat) < 1 * (105/100)"
proof -
  have "get_price_bucket 1 = get_price_bucket (104/100)" by code_simp
  then have v: "is_cache_valid_direct (Some demo_eval)
      \<lparr>cd_price_bucket = get_price_bucket (104/100), cd_volume_bucket = 9, cd_news_hash = Some ''h''\<rparr> ''2025-01-02''"
    by (simp add: is_cache_valid_direct_def demo_eval_def)
  with reused_within_five_percent [OF v, of 1] show ?thesis by (simp add: demo_eval_def)
qed

text \<open>
  The table of evaluations through a session: nothing is ever read from it or written to it,
  whatever it holds and whatever the server does.
\<close>

theorem session_has_no_cache:
  "load_llm_cache_from_db OrmSession fault rows = [] \<and> save_llm_cache_batch OrmSession fault accepts entries rows = rows \<and>
   save_llm_cache_to_db OrmSession fault accepts code e rows = rows"
  by (simp add: load_llm_cache_from_db_def save_llm_cache_batch_def save_llm_cache_to_db_def cursor_of_def)

text \<open>
  Through a raw connection a batch of evaluations is read back as it was written, up to the
  length of its texts, and the other evaluations stay.
\<close>

definition readable :: "eval_row \<Rightarrow> eval_row" where
  "readable r = r\<lparr>ev_date := (case ev_date r of Some (x # xs) \<Rightarrow> Some (x # xs) | _ \<Rightarrow> None)\<rparr>"

lemma ev_code_stored [simp]: "ev_code (stored_eval code e) = code" "ev_code (readable r) = ev_code r"
  by (simp_all add: stored_eval_def readable_def)

lemma loaded_rows:
  "distinct (map ev_code rows) \<Longrightarrow>
   map_of (load_llm_cache_from_db RawConnection None rows) code = map_option readable (row_of ev_code code rows)"
proof -
  have "map_of (fold (\<lambda>r. AList.update (ev_code r) (readable r)) rows d) code =
      (case row_of ev_code code rows of None \<Rightarrow> map_of d code | Some r \<Rightarrow> Some (readable r))"
    if "distinct (map ev_code rows)" for d
    using that
  proof (induction rows arbitrary: d)
    case (Cons r rows)
    then have "row_of ev_code (ev_code r) rows = None" by (simp add: row_of_None_iff)
    with Cons show ?case by (auto simp: update_conv' split: option.splits)
  qed simp
  then show "distinct (map ev_code rows) \<Longrightarrow> ?thesis"
    by (simp add: load_llm_cache_from_db_def cursor_of_def readable_def split: option.split)
qed

lemma row_of_stored: "row_of ev_code code (map (\<lambda>(code, e). stored_eval code e) entries) = map_option (stored_eval code) (map_of entries code)"
  by (induction entries) auto

theorem evaluations_roundtrip:
  assumes "distinct (map ev_code rows)" "distinct (map fst entries)"
    and "list_all (\<lambda>(code, e). accepts (stored_eval code e)) entries"
  shows "map_of (load_llm_cache_from_db RawConnection None (save_llm_cache_batch RawConnection None accepts entries rows)) code =
    (case map_of entries code of
       Some e \<Rightarrow> Some (readable (stored_eval code e))
     | None \<Rightarrow> map_of (load_llm_cache_from_db RawConnection None rows) code)"
proof (cases "entries = []")
  case True
  then show ?thesis by (simp add: save_llm_cache_batch_def)
next
  case False
  let ?new = "map (\<lambda>(code, e). stored_eval code e) entries"
  have keys: "map ev_code ?new = map fst entries" by auto
  have saved: "save_llm_cache_batch RawConnection None accepts entries rows = fold (put_row ev_code eval_merge) ?new rows"
    using False assms(3) by (auto simp: save_llm_cache_batch_def cursor_of_def Let_def list_all_iff)
  have "distinct (map ev_code (fold (put_row ev_code eval_merge) ?new rows))"
    by (rule eval_rows.distinct_puts) (rule assms(1))
  moreover have "distinct (map ev_code ?new)" unfolding keys by (rule assms(2))
  ultimately show ?thesis
    using eval_rows.row_of_puts [of ?new code rows] assms(1)
    by (auto simp: saved loaded_rows row_of_stored eval_merge_def split: option.split)
qed

lemma dict_get_hashes:
  "dict_get c d (map (\<lambda>(code, info). (code, f code info)) xs) = (case map_of xs c of None \<Rightarrow> d | Some i \<Rightarrow> f c i)"
  by (induction xs) (auto simp: dict_get_def)

text \<open>
  The digest of all candidates does not depend on the order in which they were found.
\<close>

theorem digest_ignores_order:
  assumes "distinct (map fst xs)" "mset xs = mset ys"
  shows "snd (compute_candidate_hashes h today xs) = snd (compute_candidate_hashes h today ys)"
proof -
  have dy: "distinct (map fst ys)" using assms by (metis mset_map mset_eq_imp_distinct_iff)
  have "set xs = set ys" using assms(2) by (rule mset_eq_setD)
  then have m: "map_of xs = map_of ys" using assms(1) dy map_of_inject_set by blast
  have fsts: "map (fst \<circ> (\<lambda>(code, info). (code, hash_candidate_payload h today code info))) zs = map fst zs" for zs
    by (simp add: case_prod_beta comp_def)
  have "sort (map fst xs) = sort (map fst ys)"
    using assms(2) by (metis mset_map properties_for_sort sorted_sort mset_sort)
  then show ?thesis by (simp add: compute_candidate_hashes_def Let_def dict_get_hashes m fsts)
qed

definition demo_hashes :: hash_library where
  "demo_hashes = \<lparr>hl_dumps = concat \<circ> map fst, hl_sha256 = id, hl_md5 = id\<rparr>"

definition demo_stock :: "string \<Rightarrow> candidate" where
  "demo_stock name = \<lparr>cn_name = name, cn_reasons = [], cn_price = Some 1, cn_volume = None, cn_news_hash = None, cn_foreign_net = None,
     cn_flow = None\<rparr>"

theorem digest_ignores_order_witness:
  "snd (compute_candidate_hashes demo_hashes ''d'' [(''A'', demo_stock ''a''), (''B'', demo_stock ''b'')]) =
   snd (compute_candidate_hashes demo_hashes ''d'' [(''B'', demo_stock ''b''), (''A'', demo_stock ''a'')])"
  by (rule digest_ignores_order) simp_all

text \<open>
  The hash of a candidate is the same for two prices in one bucket and for two volumes in one
  bucket, and for its reasons in any order.
\<close>

theorem hash_by_buckets:
  assumes "get_price_bucket p = get_price_bucket q" "get_volume_bucket u = get_volume_bucket v" "mset rs = mset rs'"
  shows "hash_candidate_payload h today code (c\<lparr>cn_price := Some p, cn_volume := Some u, cn_reasons := rs\<rparr>) =
    hash_candidate_payload h today code (c\<lparr>cn_price := Some q, cn_volume := Some v, cn_reasons := rs'\<rparr>)"
proof -
  have "sort rs = sort rs'" using assms(3) by (metis properties_for_sort sorted_sort mset_sort)
  with assms show ?thesis by (simp add: hash_candidate_payload_def normalized_payload_def optional_def)
qed

text \<open>A decision kept as a document comes back with its content, as one from the cache.\<close>

theorem decision_roundtrip:
  "case cache_payload_to_record (record_to_cache_payload r) h of
     Inl _ \<Rightarrow> False
   | Inr r' \<Rightarrow>
       (dn_code r', dn_name r', dn_score r', dn_reason r', dn_tradable r', dn_approved r') =
         (dn_code r, dn_name r, dn_score r, dn_reason r, dn_tradable r, dn_approved r) \<and>
       field ''decision_hash'' JNull (dn_metadata r') = JStr h \<and>
       field ''llm_grade'' JNull (dn_metadata r') = field ''llm_grade'' JNull (dn_metadata r) \<and>
       field ''llm_updated_at'' JNull (dn_metadata r') = field ''llm_updated_at'' JNull (dn_metadata r)"
  by (simp add: cache_payload_to_record_def record_to_cache_payload_def as_text_def field_def)

text \<open>The time of the last run is read back, and saving it leaves the other documents alone.\<close>

lemma state_keys_distinct: "make_state_key env a = make_state_key env b \<longleftrightarrow> a = b"
  by (simp add: make_state_key_def)

theorem last_run_roundtrip:
  assumes "st_fault w = None" "st_iso w t \<noteq> []" "st_from_iso w (utc_suffix (st_iso w t)) = Inr t"
  shows "get_last_llm_run_at w (save_last_llm_run_at w t rows) = Some t \<and>
    load_candidate_state w (save_last_llm_run_at w t rows) = load_candidate_state w rows"
  using assms
  by (simp add: get_last_llm_run_at_def save_last_llm_run_at_def load_candidate_state_def load_json_config_def
      get_config_def set_config_def config_rows.row_of_put state_keys_distinct config_merge_def
      LLM_LAST_RUN_SUFFIX_def CANDIDATE_DIGEST_SUFFIX_def CANDIDATE_HASHES_SUFFIX_def split: option.split)

end
