(* ===== verification/Llm_Brain.thy ===== *)
theory Llm_Brain
  imports Watchlist
begin

text \<open>
  Access to the language models: the providers (\<open>shared/llm_providers.py\<close>), the choice of one by
  tier (\<open>shared/llm_factory.py\<close>) and \<open>JennieBrain\<close> (\<open>shared/llm.py\<close>), which turns their answers,
  or their failures, into scores and decisions.

  A model is a service: what it answers to the n-th request is a parameter of the world, and
  so is the text of a prompt, of which only the failures matter here. The state is the list
  of requests sent, the local model that is loaded and the time spent waiting.
\<close>

section \<open>Answers as texts\<close>

text \<open>\<open>text.split(sep)[0]\<close> and \<open>text.split(sep)[1]\<close>.\<close>

definition first_part :: "string \<Rightarrow> string \<Rightarrow> string" where
  "first_part sep t = (case split_once sep t of None \<Rightarrow> t | Some (a, b) \<Rightarrow> a)"

definition second_part :: "string \<Rightarrow> string \<Rightarrow> string" where
  "second_part sep t = (case split_once sep t of None \<Rightarrow> [] | Some (a, b) \<Rightarrow> first_part sep b)"

lemma split_once_shorter: "split_once sep t = Some (a, b) \<Longrightarrow> length b + length sep \<le> length t"
proof (induction sep t arbitrary: a b rule: split_once.induct)
  case (2 sep c cs)
  then show ?case
    by (cases "take (length sep) (c # cs) = sep") (fastforce split: if_splits dest: arg_cong [where f = length])+
qed (auto split: if_splits)

text \<open>
  The reasoning of a model between its tags is removed: \<open>re.sub\<close> with a pattern that takes the
  shortest match, from left to right; an opening tag without a closing one stays.
\<close>

definition think_open :: string where
  "think_open = ''<think>''"

definition think_close :: string where
  "think_close = ''</think>''"

function remove_thinking :: "string \<Rightarrow> string" where
  "remove_thinking t =
     (case split_once think_open t of
        None \<Rightarrow> t
      | Some (before, rest) \<Rightarrow>
          (case split_once think_close rest of
             None \<Rightarrow> t
           | Some (_, after) \<Rightarrow> before @ remove_thinking after))"
  by pat_completeness auto

termination remove_thinking
  by (relation "measure length") (auto simp: think_open_def think_close_def dest!: split_once_shorter)

declare remove_thinking.simps [simp del]

definition clean_deepseek_tags :: "string \<Rightarrow> string" where
  "clean_deepseek_tags t = py_strip (remove_thinking t)"

text \<open>From the first opening brace to the last closing one; without a closing brace nothing.\<close>

definition brace_block :: "string \<Rightarrow> string" where
  "brace_block t =
     (let from_start = dropWhile (\<lambda>c. c \<noteq> CHR ''{'') t
       in rev (dropWhile (\<lambda>c. c \<noteq> CHR ''}'') (rev from_start)))"

definition fence :: string where
  "fence = replicate 3 (CHR 0x60)"

definition json_fence :: string where
  "json_fence = fence @ ''json''"

definition fenced_block :: "string \<Rightarrow> string option" where
  "fenced_block t =
     (if str_in json_fence t then Some (first_part fence (second_part json_fence t))
      else if str_in fence t then Some (second_part fence t)
      else None)"

text \<open>Ollama: the block is only looked for when the whole text is not JSON.\<close>

definition parse_mixed :: "json_codec \<Rightarrow> string \<Rightarrow> jval res" where
  "parse_mixed js t =
     (case js_loads js t of
        Inr v \<Rightarrow> Inr v
      | Inl _ \<Rightarrow>
          js_loads js (case fenced_block t of
             Some b \<Rightarrow> b
           | None \<Rightarrow> if CHR ''{'' \<in> set t then brace_block t else t))"

text \<open>
  The keys the schema requires, found in another case, are added under their own name. (The
  loop that copies the remaining keys never copies one: its test asks for a key whose lower
  case is not among the lower cases of the keys.)
\<close>

definition lower_keys :: "(string \<times> jval) list \<Rightarrow> (string \<times> string) list" where
  "lower_keys d = fold (\<lambda>(k, v). AList.update (to_lower k) k) d []"

definition restore_key :: "(string \<times> jval) list \<Rightarrow> string \<Rightarrow> (string \<times> jval) list \<Rightarrow> (string \<times> jval) list" where
  "restore_key d r out =
     (if map_of d r \<noteq> None then out
      else case map_of (lower_keys d) (to_lower r) of
        None \<Rightarrow> out
      | Some k \<Rightarrow> AList.update r (field k JNull d) out)"

definition restore_keys :: "string list \<Rightarrow> jval \<Rightarrow> jval res" where
  "restore_keys required v =
     (case v of JObj d \<Rightarrow> Inr (JObj (fold (restore_key d) required d)) | _ \<Rightarrow> Inl AttributeError)"

section \<open>The providers\<close>

datatype tier = FAST | REASONING | THINKING

datatype provider = Ollama string nat | OpenAI | Claude | Gemini

record llm_world =
  lw_environ :: "string \<rightharpoonup> string"
  lw_json :: json_codec
  lw_prompt :: "string \<Rightarrow> (string \<times> jval) list \<Rightarrow> string res"
  lw_opens :: "provider \<Rightarrow> bool"
  lw_ollama :: "nat \<Rightarrow> string \<Rightarrow> (string \<times> jval) list res"
  lw_cloud :: "provider \<Rightarrow> nat \<Rightarrow> string \<Rightarrow> string res"
  lw_exc_text :: "py_exc \<Rightarrow> string"

record llm_state =
  ls_requests :: "(provider \<times> string) list"
  ls_model :: "string option"
  ls_slept :: nat

type_synonym 'a llm_step = "llm_state \<Rightarrow> 'a \<times> llm_state"

definition sent :: "provider \<Rightarrow> string \<Rightarrow> llm_state \<Rightarrow> llm_state" where
  "sent p prompt s = s\<lparr>ls_requests := ls_requests s @ [(p, prompt)]\<rparr>"

definition ensure_model_loaded :: "string \<Rightarrow> llm_state \<Rightarrow> llm_state" where
  "ensure_model_loaded model s = (if ls_model s \<noteq> Some model then s\<lparr>ls_model := Some model\<rparr> else s)"

text \<open>Every attempt that fails is followed by a pause, twice as long as the one before.\<close>

fun ollama_attempts ::
  "llm_world \<Rightarrow> provider \<Rightarrow> string \<Rightarrow> string \<Rightarrow> nat \<Rightarrow> nat \<Rightarrow> py_exc \<Rightarrow> (string \<times> jval) list res llm_step" where
  "ollama_attempts w p model prompt 0 attempt err s = (Inl err, s)"
| "ollama_attempts w p model prompt (Suc n) attempt err s =
     (let s1 = sent p prompt (ensure_model_loaded model s)
       in case lw_ollama w (length (ls_requests s)) prompt of
            Inr d \<Rightarrow> (Inr d, s1)
          | Inl e \<Rightarrow> ollama_attempts w p model prompt n (attempt + 1) e (s1\<lparr>ls_slept := ls_slept s1 + 2 ^ attempt\<rparr>))"

definition ollama_max_retries :: nat where
  "ollama_max_retries = 3"

definition call_ollama_api :: "llm_world \<Rightarrow> provider \<Rightarrow> string \<Rightarrow> string \<Rightarrow> (string \<times> jval) list res llm_step" where
  "call_ollama_api w p model prompt = ollama_attempts w p model prompt ollama_max_retries 0 TypeError"

definition text_field :: "string \<Rightarrow> (string \<times> jval) list \<Rightarrow> string res" where
  "text_field k d = (case field k (JStr []) d of JStr t \<Rightarrow> Inr t | _ \<Rightarrow> Inl TypeError)"

definition ollama_json :: "llm_world \<Rightarrow> provider \<Rightarrow> string \<Rightarrow> string \<Rightarrow> string list \<Rightarrow> jval res llm_step" where
  "ollama_json w p model prompt required s =
     (case call_ollama_api w p model prompt s of
        (r, s') \<Rightarrow>
          (rbind r (\<lambda>d. rbind (text_field ''response'' d) (\<lambda>t.
             rbind (parse_mixed (lw_json w) (clean_deepseek_tags t)) (restore_keys required))), s'))"

definition message_of :: "(string \<times> jval) list \<Rightarrow> (string \<times> jval) list res" where
  "message_of d = (case field ''message'' (JObj []) d of JObj m \<Rightarrow> Inr m | _ \<Rightarrow> Inl AttributeError)"

definition ollama_chat :: "llm_world \<Rightarrow> provider \<Rightarrow> string \<Rightarrow> string \<Rightarrow> string res llm_step" where
  "ollama_chat w p model prompt s =
     (case call_ollama_api w p model prompt s of
        (r, s') \<Rightarrow>
          (rbind r (\<lambda>d. rbind (message_of d) (\<lambda>m. rbind (text_field ''content'' m) (\<lambda>t. Inr (clean_deepseek_tags t)))), s'))"

text \<open>
  The clouds try one model after the other; JennieBrain names no further models, so the list
  has one. Whatever goes wrong becomes one RuntimeError at the end.
\<close>

fun cloud_attempts :: "nat \<Rightarrow> (llm_state \<Rightarrow> 'a res \<times> llm_state) \<Rightarrow> 'a res llm_step" where
  "cloud_attempts 0 call s = (Inl RuntimeError, s)"
| "cloud_attempts (Suc n) call s =
     (case call s of (Inr x, s') \<Rightarrow> (Inr x, s') | (Inl e, s') \<Rightarrow> cloud_attempts n call s')"

definition ask_cloud :: "llm_world \<Rightarrow> provider \<Rightarrow> string \<Rightarrow> string res llm_step" where
  "ask_cloud w p prompt s = (lw_cloud w p (length (ls_requests s)) prompt, sent p prompt s)"

definition cloud_content :: "provider \<Rightarrow> string \<Rightarrow> string" where
  "cloud_content p t = (if p = Claude then py_strip (case fenced_block t of Some b \<Rightarrow> b | None \<Rightarrow> t) else t)"

definition cloud_json :: "llm_world \<Rightarrow> provider \<Rightarrow> string \<Rightarrow> jval res llm_step" where
  "cloud_json w p prompt =
     cloud_attempts 1 (\<lambda>s. case ask_cloud w p prompt s of
       (r, s') \<Rightarrow> (rbind r (\<lambda>t. js_loads (lw_json w) (cloud_content p t)), s'))"

text \<open>
  A chat: Gemini takes its message from \<open>history[-1]['parts']\<close>, and the history of JennieBrain
  has \<open>content\<close> instead, so nothing is sent.
\<close>

definition cloud_chat :: "llm_world \<Rightarrow> provider \<Rightarrow> string \<Rightarrow> string res llm_step" where
  "cloud_chat w p prompt =
     cloud_attempts 1 (\<lambda>s. if p = Gemini then (Inl KeyError, s) else ask_cloud w p prompt s)"

definition generate_json :: "llm_world \<Rightarrow> provider \<Rightarrow> string \<Rightarrow> string list \<Rightarrow> jval res llm_step" where
  "generate_json w p prompt required =
     (case p of Ollama model _ \<Rightarrow> ollama_json w p model prompt required | _ \<Rightarrow> cloud_json w p prompt)"

definition generate_chat :: "llm_world \<Rightarrow> provider \<Rightarrow> string \<Rightarrow> string res llm_step" where
  "generate_chat w p prompt =
     (case p of Ollama model _ \<Rightarrow> ollama_chat w p model prompt | _ \<Rightarrow> cloud_chat w p prompt)"

section \<open>The factory\<close>

definition tier_name :: "tier \<Rightarrow> string" where
  "tier_name t = (case t of FAST \<Rightarrow> ''FAST'' | REASONING \<Rightarrow> ''REASONING'' | THINKING \<Rightarrow> ''THINKING'')"

definition env_provider_type :: "llm_world \<Rightarrow> tier \<Rightarrow> string" where
  "env_provider_type w t =
     to_lower (case lw_environ w (''TIER_'' @ tier_name t @ ''_PROVIDER'') of None \<Rightarrow> ''ollama'' | Some v \<Rightarrow> v)"

definition local_model_name :: "llm_world \<Rightarrow> tier \<Rightarrow> string" where
  "local_model_name w t =
     (case lw_environ w (''LOCAL_MODEL_'' @ tier_name t) of
        Some v \<Rightarrow> v
      | None \<Rightarrow> if t = FAST then ''qwen3:8b'' else ''qwen3:14b'')"

definition ollama_timeout :: "tier \<Rightarrow> nat" where
  "ollama_timeout t = (case t of FAST \<Rightarrow> 60 | THINKING \<Rightarrow> 600 | REASONING \<Rightarrow> 300)"

text \<open>\<open>GeminiLLMProvider()\<close> lacks three arguments; a client without its package or key does not open.\<close>

definition open_provider :: "llm_world \<Rightarrow> provider \<Rightarrow> provider res" where
  "open_provider w p = (if lw_opens w p then Inr p else Inl RuntimeError)"

definition get_provider :: "llm_world \<Rightarrow> tier \<Rightarrow> provider res" where
  "get_provider w t =
     (let ty = env_provider_type w t
       in if ty = ''ollama'' then Inr (Ollama (local_model_name w t) (ollama_timeout t))
          else if ty = ''openai'' then open_provider w OpenAI
          else if ty = ''claude'' then open_provider w Claude
          else if ty = ''gemini'' then Inl TypeError
          else Inl ValueError)"

definition get_fallback_provider :: "llm_world \<Rightarrow> provider res" where
  "get_fallback_provider w = open_provider w Gemini"

definition brain_provider :: "llm_world \<Rightarrow> tier \<Rightarrow> provider option" where
  "brain_provider w t = (case get_provider w t of Inl _ \<Rightarrow> None | Inr p \<Rightarrow> Some p)"

section \<open>JennieBrain\<close>

definition DECISION_KEYS :: "string list" where
  "DECISION_KEYS = [''decision'', ''reason'', ''quantity'']"

definition ANALYSIS_KEYS :: "string list" where
  "ANALYSIS_KEYS = [''score'', ''grade'', ''reason'']"

definition refusal :: "string \<Rightarrow> jval" where
  "refusal why = JObj [(''decision'', JStr ''REJECT''), (''reason'', JStr why), (''quantity'', JNum 0)]"

definition graded :: "rat \<Rightarrow> string \<Rightarrow> jval" where
  "graded score why = JObj [(''score'', JNum score), (''grade'', JStr ''D''), (''reason'', JStr why)]"

definition neutral :: "string \<Rightarrow> jval" where
  "neutral why = JObj [(''score'', JNum 50), (''reason'', JStr why)]"

text \<open>One request with a prompt that may fail to be built.\<close>

definition prompted :: "llm_world \<Rightarrow> string \<Rightarrow> (string \<times> jval) list \<Rightarrow> (string \<Rightarrow> 'a res llm_step) \<Rightarrow> 'a res llm_step" where
  "prompted w builder info ask s = (case lw_prompt w builder info of Inl e \<Rightarrow> (Inl e, s) | Inr p \<Rightarrow> ask p s)"

text \<open>\<open>result.get(...)\<close> in a log line: an answer that is not an object fails there.\<close>

definition needs_object :: "jval res \<Rightarrow> jval res" where
  "needs_object r = rbind r (\<lambda>v. case v of JObj d \<Rightarrow> Inr v | _ \<Rightarrow> Inl AttributeError)"

definition decision_prompt :: "string \<Rightarrow> string option" where
  "decision_prompt ty =
     map_of [(''BUY_MR'', ''buy_mean_reversion''), (''BUY_TREND'', ''buy_golden_cross''), (''SELL'', ''sell'')] ty"

definition get_jennies_decision :: "llm_world \<Rightarrow> string \<Rightarrow> (string \<times> jval) list \<Rightarrow> jval llm_step" where
  "get_jennies_decision w ty info s =
     (case brain_provider w THINKING of
        None \<Rightarrow> (refusal [CHR 0x4A, CHR 0x65, CHR 0x6E, CHR 0x6E, CHR 0x69, CHR 0x65, CHR 0x42, CHR 0x72, CHR 0x61, CHR 0x69, CHR 0x6E, CHR 0x20, CHR 0xEC, CHR 0xB4, CHR 0x88, CHR 0xEA, CHR 0xB8, CHR 0xB0, CHR 0xED, CHR 0x99, CHR 0x94, CHR 0x20, CHR 0xEC, CHR 0x8B, CHR 0xA4, CHR 0xED, CHR 0x8C, CHR 0xA8, CHR 0x20, CHR 0x28, CHR 0x54, CHR 0x68, CHR 0x69, CHR 0x6E, CHR 0x6B, CHR 0x69, CHR 0x6E, CHR 0x67, CHR 0x20, CHR 0x54, CHR 0x69, CHR 0x65, CHR 0x72, CHR 0x29], s)
      | Some p \<Rightarrow>
          (case decision_prompt ty of
             None \<Rightarrow> (refusal [CHR 0xEC, CHR 0x95, CHR 0x8C, CHR 0x20, CHR 0xEC, CHR 0x88, CHR 0x98, CHR 0x20, CHR 0xEC, CHR 0x97, CHR 0x86, CHR 0xEB, CHR 0x8A, CHR 0x94, CHR 0x20, CHR 0xEA, CHR 0xB1, CHR 0xB0, CHR 0xEB, CHR 0x9E, CHR 0x98, CHR 0x20, CHR 0xEC, CHR 0x9C, CHR 0xA0, CHR 0xED, CHR 0x98, CHR 0x95], s)
           | Some b \<Rightarrow>
               (case prompted w b info (\<lambda>t. generate_json w p t DECISION_KEYS) s of
                  (r, s') \<Rightarrow>
                    (case needs_object r of
                       Inr v \<Rightarrow> (v, s')
                     | Inl e \<Rightarrow> (refusal (''System Error: '' @ lw_exc_text w e), s')))))"

text \<open>
  The second try goes to the cloud with the prompt of the first; without a prompt the name is
  unbound there, which fails too.
\<close>

definition with_fallback :: "llm_world \<Rightarrow> string \<Rightarrow> (string \<times> jval) list \<Rightarrow> (provider \<Rightarrow> string \<Rightarrow> 'a res llm_step) \<Rightarrow> 'a res llm_step" where
  "with_fallback w builder info ask s =
     (case get_fallback_provider w of
        Inl e \<Rightarrow> (Inl e, s)
      | Inr p \<Rightarrow> prompted w builder info (ask p) s)"

definition analyze_news_sentiment :: "llm_world \<Rightarrow> (string \<times> jval) list \<Rightarrow> jval llm_step" where
  "analyze_news_sentiment w news s =
     (case brain_provider w FAST of
        None \<Rightarrow> (neutral [CHR 0xEB, CHR 0xAA, CHR 0xA8, CHR 0xEB, CHR 0x8D, CHR 0xB8, CHR 0x20, CHR 0xEB, CHR 0xAF, CHR 0xB8, CHR 0xEC, CHR 0xB4, CHR 0x88, CHR 0xEA, CHR 0xB8, CHR 0xB0, CHR 0xED, CHR 0x99, CHR 0x94, CHR 0x20, CHR 0x28, CHR 0xEA, CHR 0xB8, CHR 0xB0, CHR 0xEB, CHR 0xB3, CHR 0xB8, CHR 0xEA, CHR 0xB0, CHR 0x92, CHR 0x29], s)
      | Some p \<Rightarrow>
          (case prompted w ''news_sentiment'' news (\<lambda>t. generate_json w p t ANALYSIS_KEYS) s of
             (Inr v, s') \<Rightarrow> (v, s')
           | (Inl e, s') \<Rightarrow>
               (case with_fallback w ''news_sentiment'' news (\<lambda>p t. generate_json w p t ANALYSIS_KEYS) s' of
                  (Inr v, s'') \<Rightarrow> (v, s'')
                | (Inl _, s'') \<Rightarrow> (neutral ([CHR 0xEB, CHR 0xB6, CHR 0x84, CHR 0xEC, CHR 0x84, CHR 0x9D, CHR 0x20, CHR 0xEC, CHR 0x8B, CHR 0xA4, CHR 0xED, CHR 0x8C, CHR 0xA8, CHR 0x20, CHR 0x28, CHR 0x4C, CHR 0x6F, CHR 0x63, CHR 0x61, CHR 0x6C, CHR 0x2B, CHR 0x43, CHR 0x6C, CHR 0x6F, CHR 0x75, CHR 0x64, CHR 0x29, CHR 0x3A, CHR 0x20] @ lw_exc_text w e), s''))))"

text \<open>An empty text makes \<open>get\<close> fall through to the text of the dict itself.\<close>

definition chat_text_of :: "string \<Rightarrow> string" where
  "chat_text_of t = (if t = [] then [CHR 0x7B, CHR 0x27, CHR 0x74, CHR 0x65, CHR 0x78, CHR 0x74, CHR 0x27, CHR 0x3A, CHR 0x20, CHR 0x27, CHR 0x27, CHR 0x7D] else t)"

definition run_debate_session :: "llm_world \<Rightarrow> (string \<times> jval) list \<Rightarrow> jval \<Rightarrow> string llm_step" where
  "run_debate_session w info hunter_score s =
     (case brain_provider w REASONING of
        None \<Rightarrow> (''Debate Skipped (Model Error)'', s)
      | Some p \<Rightarrow>
          (let asked = (''hunter_score'', hunter_score) # info
            in case prompted w ''debate'' asked (generate_chat w p) s of
                 (Inr t, s') \<Rightarrow> (chat_text_of t, s')
               | (Inl e, s') \<Rightarrow>
                   (case with_fallback w ''debate'' asked (generate_chat w) s' of
                      (Inr t, s'') \<Rightarrow> (chat_text_of t, s'')
                    | (Inl _, s'') \<Rightarrow> (''Debate Error: '' @ lw_exc_text w e, s''))))"

text \<open>The signature has four parameters of its own and none of the caller's names.\<close>

definition verify_parameter_change :: "llm_world \<Rightarrow> jval" where
  "verify_parameter_change w =
     (case brain_provider w FAST of
        None \<Rightarrow> JObj [(''authorized'', JBool False)]
      | Some _ \<Rightarrow> JObj [(''authorized'', JBool True), (''reason'', JStr ''Auto-approved by FAST tier'')])"

definition run_judge_scoring :: "llm_world \<Rightarrow> (string \<times> jval) list \<Rightarrow> string \<Rightarrow> jval llm_step" where
  "run_judge_scoring w info debate_log s =
     (case brain_provider w THINKING of
        None \<Rightarrow> (graded 0 ''Provider Error'', s)
      | Some p \<Rightarrow>
          (case prompted w ''judge'' ((''debate_log'', JStr debate_log) # info) (\<lambda>t. generate_json w p t ANALYSIS_KEYS) s of
             (Inr v, s') \<Rightarrow> (v, s')
           | (Inl e, s') \<Rightarrow> (graded 0 ([CHR 0xEC, CHR 0x98, CHR 0xA4, CHR 0xEB, CHR 0xA5, CHR 0x98, CHR 0x3A, CHR 0x20] @ lw_exc_text w e), s')))"

definition get_jennies_analysis_score_v5 :: "llm_world \<Rightarrow> (string \<times> jval) list \<Rightarrow> string \<Rightarrow> jval llm_step" where
  "get_jennies_analysis_score_v5 w stock ctx s =
     (let info = (''quant_context'', JStr ctx) # stock in case brain_provider w REASONING of
        None \<Rightarrow> (graded 0 ''Provider Error'', s)
      | Some p \<Rightarrow>
          (case prompted w ''hunter_v5'' info (\<lambda>t. generate_json w p t ANALYSIS_KEYS) s of
             (r, s') \<Rightarrow>
               (case needs_object r of
                  Inr v \<Rightarrow> (v, s')
                | Inl e \<Rightarrow>
                    (case with_fallback w ''hunter_v5'' info (\<lambda>p t. generate_json w p t ANALYSIS_KEYS) s' of
                       (Inr v, s'') \<Rightarrow> (v, s'')
                     | (Inl _, s'') \<Rightarrow> (graded 0 ([CHR 0xEC, CHR 0x98, CHR 0xA4, CHR 0xEB, CHR 0xA5, CHR 0x98, CHR 0x28, CHR 0x4C, CHR 0x6F, CHR 0x63, CHR 0x61, CHR 0x6C, CHR 0x2B, CHR 0x43, CHR 0x6C, CHR 0x6F, CHR 0x75, CHR 0x64, CHR 0x29, CHR 0x3A, CHR 0x20] @ lw_exc_text w e), s'')))))"

text \<open>
  The gate of the judge reads the score of the hunter from the information about the stock;
  the comparison of a score that is not a number raises, outside of any handler.
\<close>

definition JUDGE_THRESHOLD :: rat where
  "JUDGE_THRESHOLD = 70"

definition gate_reason :: "(rat \<Rightarrow> string) \<Rightarrow> rat \<Rightarrow> string" where
  "gate_reason show_score h =
     ''Hunter Score('' @ show_score h @ '') failed to meet Judge Threshold(70). Auto-Rejected.''"

definition run_judge_scoring_v5 ::
  "llm_world \<Rightarrow> (rat \<Rightarrow> string) \<Rightarrow> (string \<times> jval) list \<Rightarrow> string \<Rightarrow> string \<Rightarrow> jval res llm_step" where
  "run_judge_scoring_v5 w show_score info debate_log ctx s =
     (case jnum (field ''hunter_score'' (JNum 0) info) of
        None \<Rightarrow> (Inl TypeError, s)
      | Some h \<Rightarrow>
          if h < JUDGE_THRESHOLD then (Inr (graded h (gate_reason show_score h)), s)
          else (case brain_provider w THINKING of
            None \<Rightarrow> (Inr (graded 0 ''Provider Error''), s)
          | Some p \<Rightarrow>
              (case prompted w ''judge_v5''
                  ((''debate_log'', JStr debate_log) # (''quant_context'', JStr ctx) # info) (\<lambda>t. generate_json w p t ANALYSIS_KEYS) s of
                 (Inr v, s') \<Rightarrow> (Inr v, s')
               | (Inl e, s') \<Rightarrow> (Inr (graded 0 ([CHR 0xEC, CHR 0x98, CHR 0xA4, CHR 0xEB, CHR 0xA5, CHR 0x98, CHR 0x3A, CHR 0x20] @ lw_exc_text w e)), s'))))"

definition generate_daily_briefing :: "llm_world \<Rightarrow> string \<Rightarrow> string llm_step" where
  "generate_daily_briefing w prompt s =
     (case brain_provider w THINKING of
        None \<Rightarrow> ([CHR 0xEB, CHR 0xB3, CHR 0xB4, CHR 0xEA, CHR 0xB3, CHR 0xA0, CHR 0xEC, CHR 0x84, CHR 0x9C, CHR 0x20, CHR 0xEC, CHR 0x83, CHR 0x9D, CHR 0xEC, CHR 0x84, CHR 0xB1, CHR 0x20, CHR 0xEC, CHR 0x8B, CHR 0xA4, CHR 0xED, CHR 0x8C, CHR 0xA8, CHR 0x3A, CHR 0x20, CHR 0xEB, CHR 0xAA, CHR 0xA8, CHR 0xEB, CHR 0x8D, CHR 0xB8, CHR 0x20, CHR 0xEC, CHR 0xB4, CHR 0x88, CHR 0xEA, CHR 0xB8, CHR 0xB0, CHR 0xED, CHR 0x99, CHR 0x94, CHR 0x20, CHR 0xEC, CHR 0x98, CHR 0xA4, CHR 0xEB, CHR 0xA5, CHR 0x98], s)
      | Some p \<Rightarrow>
          (case generate_chat w p prompt s of
             (Inr t, s') \<Rightarrow> (chat_text_of t, s')
           | (Inl _, s') \<Rightarrow> ([CHR 0xEB, CHR 0xB3, CHR 0xB4, CHR 0xEA, CHR 0xB3, CHR 0xA0, CHR 0xEC, CHR 0x84, CHR 0x9C, CHR 0x20, CHR 0xEC, CHR 0x83, CHR 0x9D, CHR 0xEC, CHR 0x84, CHR 0xB1, CHR 0x20, CHR 0xEC, CHR 0xA4, CHR 0x91, CHR 0x20, CHR 0xEC, CHR 0x98, CHR 0xA4, CHR 0xEB, CHR 0xA5, CHR 0x98, CHR 0xEA, CHR 0xB0, CHR 0x80, CHR 0x20, CHR 0xEB, CHR 0xB0, CHR 0x9C, CHR 0xEC, CHR 0x83, CHR 0x9D, CHR 0xED, CHR 0x96, CHR 0x88, CHR 0xEC, CHR 0x8A, CHR 0xB5, CHR 0xEB, CHR 0x8B, CHR 0x88, CHR 0xEB, CHR 0x8B, CHR 0xA4, CHR 0x2E], s')))"

section \<open>Lemmas\<close>

definition requests_since :: "llm_state \<Rightarrow> llm_state \<Rightarrow> nat" where
  "requests_since s s' = length (ls_requests s') - length (ls_requests s)"

text \<open>A run only adds requests, and all of them go to one provider.\<close>

definition asks_only :: "provider set \<Rightarrow> nat \<Rightarrow> llm_state \<Rightarrow> llm_state \<Rightarrow> bool" where
  "asks_only ps n s s' \<longleftrightarrow>
     (\<exists>new. ls_requests s' = ls_requests s @ new \<and> length new \<le> n \<and> fst ` set new \<subseteq> ps)"

lemma asks_only_refl [simp]: "asks_only ps n s s"
  by (simp add: asks_only_def)

lemma asks_only_trans: "asks_only ps m s s' \<Longrightarrow> asks_only ps n s' s'' \<Longrightarrow> asks_only ps (m + n) s s''"
proof -
  assume "asks_only ps m s s'" "asks_only ps n s' s''"
  then obtain a b where "ls_requests s' = ls_requests s @ a" "length a \<le> m" "fst ` set a \<subseteq> ps"
    "ls_requests s'' = ls_requests s' @ b" "length b \<le> n" "fst ` set b \<subseteq> ps" by (auto simp: asks_only_def)
  then show ?thesis by (auto simp: asks_only_def intro!: exI [of _ "a @ b"])
qed

lemma asks_only_mono: "asks_only ps m s s' \<Longrightarrow> ps \<subseteq> qs \<Longrightarrow> m \<le> n \<Longrightarrow> asks_only qs n s s'"
  unfolding asks_only_def by (blast intro: order_trans)

lemma sent_simps [simp]:
  "ls_requests (sent p t s) = ls_requests s @ [(p, t)]" "ls_requests (ensure_model_loaded m s) = ls_requests s"
  "ls_slept (sent p t s) = ls_slept s" "ls_slept (ensure_model_loaded m s) = ls_slept s"
  "ls_model (sent p t s) = ls_model s" "ls_model (ensure_model_loaded m s) = Some m"
  by (auto simp: sent_def ensure_model_loaded_def)

lemma asks_only_sent: "asks_only {p} 1 s (sent p t s)"
  by (simp add: asks_only_def)

lemma ollama_attempts_asks: "ollama_attempts w p model t n k err s = (r, s') \<Longrightarrow> asks_only {p} n s s'"
proof (induction n arbitrary: k err s)
  case (Suc n)
  let ?s1 = "sent p t (ensure_model_loaded model s)"
  have one: "asks_only {p} 1 s (?s1\<lparr>ls_slept := x\<rparr>)" for x by (simp add: asks_only_def)
  show ?case
  proof (cases "lw_ollama w (length (ls_requests s)) t")
    case (Inl e)
    with Suc.prems Suc.IH asks_only_trans [OF one] show ?thesis by (simp add: Let_def) (metis add.commute plus_1_eq_Suc)
  next
    case (Inr d)
    with Suc.prems one [of "ls_slept ?s1"] show ?thesis by (auto intro: asks_only_mono)
  qed
qed simp

lemma ollama_attempts_slept:
  "ollama_attempts w p model t n k err s = (r, s') \<Longrightarrow> ls_slept s' \<le> ls_slept s + (2 ^ (k + n) - 2 ^ k)"
proof (induction n arbitrary: k err s)
  case (Suc n)
  show ?case
  proof (cases "lw_ollama w (length (ls_requests s)) t")
    case (Inl e)
    with Suc.prems Suc.IH have "ls_slept s' \<le> ls_slept s + 2 ^ k + (2 ^ (k + 1 + n) - 2 ^ (k + 1))"
      by (fastforce simp: Let_def)
    moreover have "(2::nat) ^ k + (2 ^ (k + 1 + n) - 2 ^ (k + 1)) = 2 ^ (k + Suc n) - 2 ^ k"
    proof -
      have "(2::nat) ^ (k + 1) \<le> 2 ^ (k + 1 + n)" by (rule power_increasing) simp_all
      then show ?thesis by (simp add: power_add)
    qed
    ultimately show ?thesis by simp
  next
    case (Inr d)
    with Suc.prems show ?thesis by auto
  qed
qed simp

text \<open>The first attempt that succeeds ends the loop.\<close>

lemma ollama_attempts_first:
  assumes "\<forall>j < i. \<exists>e. lw_ollama w (length (ls_requests s) + j) t = Inl e" "lw_ollama w (length (ls_requests s) + i) t = Inr d" "i < n"
  shows "\<exists>s'. ollama_attempts w p model t n k err s = (Inr d, s') \<and> length (ls_requests s') = length (ls_requests s) + i + 1"
  using assms
proof (induction i arbitrary: n k err s)
  case 0
  then obtain m where "n = Suc m" by (cases n) auto
  with 0 show ?case by (simp add: Let_def)
next
  case (Suc i)
  then obtain m where n: "n = Suc m" by (cases n) auto
  from Suc.prems(1) obtain e where e: "lw_ollama w (length (ls_requests s)) t = Inl e" by (metis add_0_right zero_less_Suc)
  let ?s1 = "(sent p t (ensure_model_loaded model s))\<lparr>ls_slept := ls_slept (sent p t (ensure_model_loaded model s)) + 2 ^ k\<rparr>"
  have "\<forall>j < i. \<exists>e. lw_ollama w (length (ls_requests ?s1) + j) t = Inl e"
    using Suc.prems(1) by (metis (no_types, lifting) Suc_less_eq add.assoc add_Suc_right length_append_singleton
        llm_state.select_convs(1) llm_state.surjective llm_state.update_convs(3) plus_1_eq_Suc sent_simps(1,2) add_Suc)
  moreover have "lw_ollama w (length (ls_requests ?s1) + i) t = Inr d" using Suc.prems(2) by simp
  moreover have "i < m" using Suc.prems(3) n by simp
  ultimately show ?case using Suc.IH [of ?s1 m "k + 1" e] by (simp add: n e Let_def)
qed
lemma split_once_sep:
  assumes "c \<notin> set a"
  shows "split_once (c # sep) (a @ c # sep @ t) = Some (a, t)"
  using assms by (induction a) auto

lemma split_once_none:
  assumes "c \<notin> set a"
  shows "split_once (c # sep) a = None"
  using assms by (induction a) auto

lemma think_open_Cons: "think_open = CHR ''<'' # ''think>''" "think_close = CHR ''<'' # ''/think>''"
  by (simp_all add: think_open_def think_close_def)

lemma remove_thinking_plain [simp]: "CHR ''<'' \<notin> set t \<Longrightarrow> remove_thinking t = t"
  by (subst remove_thinking.simps) (simp add: think_open_Cons split_once_none)

lemma remove_thinking_block:
  "CHR ''<'' \<notin> set a \<Longrightarrow> CHR ''<'' \<notin> set r \<Longrightarrow>
   remove_thinking (a @ think_open @ r @ think_close @ t) = a @ remove_thinking t"
  using split_once_sep [of "CHR ''<''" a "''think>''" "r @ think_close @ t"] split_once_sep [of "CHR ''<''" r "''/think>''" t]
  by (subst remove_thinking.simps) (simp add: think_open_Cons)

lemma fence_Cons: "fence = CHR 0x60 # [CHR 0x60, CHR 0x60]" "json_fence = CHR 0x60 # [CHR 0x60, CHR 0x60] @ ''json''"
  by (simp_all add: fence_def json_fence_def numeral_3_eq_3)

lemma str_in_here: "str_in sep (sep @ t)"
proof (cases "sep @ t")
  case (Cons c cs)
  then have "take (length sep) (c # cs) = sep" by (metis append_eq_conv_conj)
  with Cons show ?thesis by simp
qed simp

lemma str_in_append: "str_in sep (a @ sep @ t)"
  by (induction a) (simp_all only: append.simps str_in.simps str_in_here, simp)

lemma fence_only: "CHR 0x60 \<notin> set b \<Longrightarrow> split_once json_fence (b @ fence) = None"
  by (induction b) (auto simp: fence_Cons)

lemma fenced_json:
  assumes "CHR 0x60 \<notin> set a" "CHR 0x60 \<notin> set b"
  shows "fenced_block (a @ json_fence @ b @ fence) = Some b"
proof -
  have "split_once json_fence (a @ json_fence @ b @ fence) = Some (a, b @ fence)"
    using split_once_sep [OF assms(1), of "[CHR 0x60, CHR 0x60] @ ''json''" "b @ fence"] by (simp add: fence_Cons)
  moreover have "split_once fence (b @ fence) = Some (b, [])"
    using split_once_sep [OF assms(2), of "[CHR 0x60, CHR 0x60]" "[]"] by (simp add: fence_Cons)
  ultimately show ?thesis
    using str_in_append [of json_fence a "b @ fence"] fence_only [OF assms(2)]
    by (simp add: fenced_block_def second_part_def first_part_def)
qed

lemma drop_spaces: "list_all is_space xs \<Longrightarrow> \<not> is_space d \<Longrightarrow> dropWhile is_space (xs @ d # ds) = d # ds"
  by (induction xs) auto

lemma strip_inner:
  assumes "t \<noteq> []" "\<not> is_space (hd t)" "\<not> is_space (last t)" "list_all is_space a" "list_all is_space b"
  shows "py_strip (a @ t @ b) = t"
proof -
  obtain c cs where t: "t = c # cs" using assms(1) by (cases t) auto
  have "dropWhile is_space (a @ t @ b) = t @ b"
    using drop_spaces [OF assms(4), of c "cs @ b"] assms(2) by (simp add: t)
  moreover obtain d ds where r: "rev t = d # ds" "d = last t"
    using assms(1) by (cases t rule: rev_cases) auto
  have "dropWhile is_space (rev b @ rev t) = rev t"
    unfolding r(1) using drop_spaces [of "rev b" d ds] assms(3,5) r(2) by (simp del: rev_eq_Cons_iff)
  ultimately show ?thesis by (simp add: py_strip_def)
qed

section \<open>Properties\<close>

text \<open>
  What a local model wraps around its answer is taken off: after its reasoning between the
  tags and with the answer in a JSON block between fences, as long as the whole is not JSON by
  itself, the value of the answer is read, with the required keys restored.
\<close>

theorem wrapped_answer_is_read:
  assumes "lw_ollama w (length (ls_requests s)) prompt =
      Inr [(''response'', JStr (think_open @ r @ think_close @ blank @ pre @ json_fence @ b @ fence))]"
    and "CHR ''<'' \<notin> set (r @ blank @ pre @ b)" "CHR 0x60 \<notin> set (pre @ b)" "list_all is_space blank"
    and "pre = [] \<or> \<not> is_space (hd pre)"
    and "\<exists>e. js_loads (lw_json w) (pre @ json_fence @ b @ fence) = Inl e" "js_loads (lw_json w) b = Inr v"
  shows "fst (generate_json w (Ollama model timeout) prompt required s) = restore_keys required v"
proof -
  have plain: "CHR ''<'' \<notin> set (blank @ pre @ json_fence @ b @ fence)"
    using assms(2) by (auto simp: fence_Cons)
  have "remove_thinking (think_open @ r @ think_close @ blank @ pre @ json_fence @ b @ fence) = blank @ pre @ json_fence @ b @ fence"
    using remove_thinking_block [of "[]" r] assms(2) remove_thinking_plain [OF plain] by simp
  moreover have "py_strip (blank @ (pre @ json_fence @ b @ fence) @ []) = pre @ json_fence @ b @ fence"
  proof (rule strip_inner)
    show "\<not> is_space (hd (pre @ json_fence @ b @ fence))" using assms(5) by (cases pre) (auto simp: fence_Cons is_space_def)
    show "\<not> is_space (last (pre @ json_fence @ b @ fence))" by (simp add: fence_Cons is_space_def)
  qed (use assms(4) in \<open>simp_all add: fence_Cons\<close>)
  ultimately have cleaned: "clean_deepseek_tags (think_open @ r @ think_close @ blank @ pre @ json_fence @ b @ fence) =
      pre @ json_fence @ b @ fence" by (simp add: clean_deepseek_tags_def)
  obtain e where "js_loads (lw_json w) (pre @ json_fence @ b @ fence) = Inl e" using assms(6) by blast
  with fenced_json [of pre b] assms(3,7) have "parse_mixed (lw_json w) (pre @ json_fence @ b @ fence) = Inr v"
    by (simp add: parse_mixed_def)
  with cleaned show ?thesis
    by (simp add: generate_json_def ollama_json_def call_ollama_api_def ollama_max_retries_def numeral_3_eq_3 Let_def assms(1)
        text_field_def field_def split: prod.split)
qed

definition demo_json :: json_codec where
  "demo_json =
     \<lparr>js_dumps = (\<lambda>_. Inr ''{}''),
      js_loads = (\<lambda>t. if t = ''{}'' then Inr (JObj [(''Score'', JNum 80), (''grade'', JStr ''A'')]) else Inl ValueError)\<rparr>"

definition demo_llm :: "((string \<times> jval) list res) \<Rightarrow> llm_world" where
  "demo_llm a =
     \<lparr>lw_environ = (\<lambda>_. None), lw_json = demo_json, lw_prompt = (\<lambda>b _. Inr b), lw_opens = (\<lambda>_. True),
      lw_ollama = (\<lambda>_ _. a), lw_cloud = (\<lambda>_ _ _. Inl ApiError), lw_exc_text = (\<lambda>_. ''e'')\<rparr>"

definition no_requests :: llm_state where
  "no_requests = \<lparr>ls_requests = [], ls_model = None, ls_slept = 0\<rparr>"

theorem wrapped_answer_is_read_witness:
  "fst (generate_json (demo_llm (Inr [(''response'', JStr (think_open @ ''r'' @ think_close @ '' '' @ ''x '' @ json_fence @ ''{}'' @ fence))]))
     (Ollama ''m'' 60) ''p'' ANALYSIS_KEYS no_requests) =
   Inr (JObj [(''Score'', JNum 80), (''grade'', JStr ''A''), (''score'', JNum 80)])"
proof -
  let ?w = "demo_llm (Inr [(''response'', JStr (think_open @ ''r'' @ think_close @ '' '' @ ''x '' @ json_fence @ ''{}'' @ fence))])"
  have "fst (generate_json ?w (Ollama ''m'' 60) ''p'' ANALYSIS_KEYS no_requests) =
      restore_keys ANALYSIS_KEYS (JObj [(''Score'', JNum 80), (''grade'', JStr ''A'')])"
    by (rule wrapped_answer_is_read [where pre = "''x ''" and blank = "'' ''" and r = "''r''" and b = "''{}''"])
      (simp_all add: demo_llm_def demo_json_def is_space_def)
  also have "\<dots> = Inr (JObj [(''Score'', JNum 80), (''grade'', JStr ''A''), (''score'', JNum 80)])" by code_simp
  finally show ?thesis .
qed

lemma lower_keys_map: "map_of (lower_keys d) l \<noteq> None \<longleftrightarrow> l \<in> to_lower ` fst ` set d"
proof -
  have "map_of (fold (\<lambda>(k, v). AList.update (to_lower k) k) d m) l \<noteq> None \<longleftrightarrow> l \<in> to_lower ` fst ` set d \<or> map_of m l \<noteq> None" for m
  proof (induction d arbitrary: m)
    case (Cons x d)
    obtain k v where x: "x = (k, v)" by fastforce
    show ?case using Cons.IH [of "AList.update (to_lower k) k m"] by (cases "l = to_lower k") (auto simp: x update_conv')
  qed simp
  then show ?thesis by (simp add: lower_keys_def)
qed

lemma lower_keys_in: "map_of (lower_keys d) l = Some k \<Longrightarrow> k \<in> fst ` set d"
proof -
  have "map_of (fold (\<lambda>(k, v). AList.update (to_lower k) k) d m) l = Some k \<Longrightarrow> k \<in> fst ` set d \<or> map_of m l = Some k" for m
  proof (induction d arbitrary: m)
    case (Cons x d)
    then show ?case by (cases x) (fastforce simp: update_conv' split: if_splits)
  qed simp
  then show "map_of (lower_keys d) l = Some k \<Longrightarrow> ?thesis" by (fastforce simp: lower_keys_def)
qed

lemma restore_key_other: "map_of (restore_key d r out) k = map_of out k \<or> k = r \<and> map_of d r = None"
  by (auto simp: restore_key_def update_conv' split: option.split)

lemma restore_key_own:
  "map_of (restore_key d r out) r \<noteq> None \<longleftrightarrow> map_of out r \<noteq> None \<or> map_of d r = None \<and> to_lower r \<in> to_lower ` fst ` set d"
  using lower_keys_map [of d "to_lower r"] by (auto simp: restore_key_def update_conv' split: option.split)

lemma restored:
  "map_of (fold (restore_key d) rs out) k \<noteq> None \<longleftrightarrow>
     map_of out k \<noteq> None \<or> k \<in> set rs \<and> map_of d k = None \<and> to_lower k \<in> to_lower ` fst ` set d"
proof (induction rs arbitrary: out)
  case (Cons r rs)
  show ?case
    using Cons.IH [of "restore_key d r out"] restore_key_other [of d r out k] restore_key_own [of d r out]
    by (cases "k = r") auto
qed simp

lemma restored_keeps: "map_of d k = Some v \<Longrightarrow> map_of out k = Some v \<Longrightarrow> map_of (fold (restore_key d) rs out) k = Some v"
proof (induction rs arbitrary: out)
  case (Cons r rs)
  with restore_key_other [of d r out k] show ?case by auto
qed simp

text \<open>
  Keys restored: nothing of the answer is lost, and a required key is there exactly if the
  answer had it in some spelling.
\<close>

theorem required_keys_restored:
  "case restore_keys required (JObj d) of
     Inr (JObj d') \<Rightarrow> map_of d \<subseteq>\<^sub>m map_of d' \<and>
       list_all (\<lambda>r. (map_of d' r \<noteq> None) = (to_lower r \<in> to_lower ` fst ` set d)) required
   | _ \<Rightarrow> False"
proof -
  let ?d' = "fold (restore_key d) required d"
  have own: "to_lower r \<in> to_lower ` fst ` set d" if "map_of d r \<noteq> None" for r
    using that by (auto simp: map_of_eq_None_iff)
  have "(map_of ?d' r \<noteq> None) = (to_lower r \<in> to_lower ` fst ` set d)" if "r \<in> set required" for r
    using restored [of d required d r] that own [of r] by argo
  moreover have "map_of d \<subseteq>\<^sub>m map_of ?d'"
    unfolding map_le_def using restored_keeps [of d _ _ d required] by (auto simp: dom_def)
  ultimately show ?thesis by (simp add: restore_keys_def list_all_iff)
qed

lemma call_ollama_asks:
  "call_ollama_api w p model t s = (r, s') \<Longrightarrow> asks_only {p} 3 s s' \<and> ls_slept s' \<le> ls_slept s + 7"
  using ollama_attempts_asks [of w p model t 3 0 TypeError s r s'] ollama_attempts_slept [of w p model t 3 0 TypeError s r s']
  by (simp add: call_ollama_api_def ollama_max_retries_def)

definition frugal :: "provider set \<Rightarrow> nat \<Rightarrow> nat \<Rightarrow> llm_state \<Rightarrow> llm_state \<Rightarrow> bool" where
  "frugal ps n t s s' \<longleftrightarrow> asks_only ps n s s' \<and> ls_slept s' \<le> ls_slept s + t"

lemma frugal_refl [simp]: "frugal ps n t s s"
  by (simp add: frugal_def)

lemma frugal_trans: "frugal ps m t s s' \<Longrightarrow> frugal qs n u s' s'' \<Longrightarrow> frugal (ps \<union> qs) (m + n) (t + u) s s''"
  using asks_only_trans [of "ps \<union> qs" m s s' n s''] by (auto simp: frugal_def intro: asks_only_mono)

lemma frugal_mono: "frugal ps m t s s' \<Longrightarrow> ps \<subseteq> qs \<Longrightarrow> m \<le> n \<Longrightarrow> t \<le> u \<Longrightarrow> frugal qs n u s s'"
  by (auto simp: frugal_def intro: asks_only_mono)

lemma cloud_frugal: "frugal {p} 1 0 s (snd (cloud_json w p t s))" "frugal {p} 1 0 s (snd (cloud_chat w p t s))"
  by (auto simp: frugal_def cloud_json_def cloud_chat_def ask_cloud_def asks_only_sent [simplified] split: prod.split sum.split)

lemma generate_frugal: "frugal {p} 3 7 s (snd (generate_json w p t req s))" "frugal {p} 3 7 s (snd (generate_chat w p t s))"
proof -
  have c: "frugal {p} 3 7 s (snd (cloud_json w p t s))" "frugal {p} 3 7 s (snd (cloud_chat w p t s))"
    by (rule frugal_mono [OF cloud_frugal(1)] frugal_mono [OF cloud_frugal(2)]; simp)+
  have o: "frugal {p} 3 7 s s'" if "call_ollama_api w p m t s = (r, s')" for p m s' and r :: "(string \<times> jval) list res"
    using call_ollama_asks [OF that] by (simp add: frugal_def)
  show "frugal {p} 3 7 s (snd (generate_json w p t req s))" "frugal {p} 3 7 s (snd (generate_chat w p t s))"
    using c by (auto simp: generate_json_def generate_chat_def ollama_json_def ollama_chat_def split: provider.split prod.split dest!: o)
qed

lemma prompted_frugal:
  assumes "\<And>t s. frugal ps n u s (snd (ask t s))"
  shows "frugal ps n u s (snd (prompted w b info ask s))"
  using assms by (simp add: prompted_def split: sum.split)

lemma fallback_frugal:
  "frugal {Gemini} 1 0 s (snd (with_fallback w b info (\<lambda>p t. generate_json w p t req) s))"
  "frugal {Gemini} 1 0 s (snd (with_fallback w b info (generate_chat w) s))"
  using cloud_frugal [of Gemini]
  by (auto simp: with_fallback_def get_fallback_provider_def open_provider_def generate_json_def generate_chat_def
      intro!: prompted_frugal split: sum.split)

text \<open>
  C36. The work of a request is bounded: a question of JennieBrain about a stock sends at most
  three requests to the provider of its tier and one to the cloud, and every sequence of
  retries waits at most seven seconds.
\<close>

theorem hunter_work_bounded:
  "case brain_provider w REASONING of
     None \<Rightarrow> snd (get_jennies_analysis_score_v5 w stock ctx s) = s
   | Some p \<Rightarrow> frugal {p, Gemini} 4 7 s (snd (get_jennies_analysis_score_v5 w stock ctx s))"
proof (cases "brain_provider w REASONING")
  case None
  then show ?thesis by (simp add: get_jennies_analysis_score_v5_def)
next
  case (Some p)
  let ?info = "(''quant_context'', JStr ctx) # stock"
  obtain r s' where first: "prompted w ''hunter_v5'' ?info (\<lambda>t. generate_json w p t ANALYSIS_KEYS) s = (r, s')" by fastforce
  have "frugal {p} 3 7 s (snd (prompted w ''hunter_v5'' ?info (\<lambda>t. generate_json w p t ANALYSIS_KEYS) s))"
    by (rule prompted_frugal) (rule generate_frugal(1))
  then have one: "frugal {p} 3 7 s s'" by (simp add: first)
  have two: "frugal {p, Gemini} 4 7 s (snd (with_fallback w ''hunter_v5'' ?info (\<lambda>p t. generate_json w p t ANALYSIS_KEYS) s'))"
    using frugal_trans [OF one fallback_frugal(1)] by (simp add: insert_commute)
  have "frugal {p, Gemini} 4 7 s s'" by (rule frugal_mono [OF one]) simp_all
  with two show ?thesis
    by (auto simp: get_jennies_analysis_score_v5_def Some first Let_def split: sum.split prod.split)
qed

text \<open>
  The gate of the judge is always shut for what the scout passes to it: without a score of the
  hunter among the information the answer is the score 0 and the grade D, and no model is asked.
\<close>

theorem judge_gate_shut:
  "run_judge_scoring_v5 w show_score (AList.delete ''hunter_score'' info) debate_log ctx s =
     (Inr (graded 0 (gate_reason show_score 0)), s)"
  by (simp add: run_judge_scoring_v5_def field_def delete_conv JUDGE_THRESHOLD_def)

text \<open>The second try of a debate never reaches the cloud.\<close>

theorem debate_fallback_fails:
  assumes "brain_provider w REASONING = Some p"
    and "prompted w ''debate'' ((''hunter_score'', h) # info) (generate_chat w p) s = (Inl e, s')"
  shows "run_debate_session w info h s = (''Debate Error: '' @ lw_exc_text w e, s')"
  using assms by (simp add: run_debate_session_def Let_def with_fallback_def get_fallback_provider_def open_provider_def prompted_def
      generate_chat_def cloud_chat_def split: sum.split)

text \<open>A sentiment is neutral when neither the local model nor the cloud gives one.\<close>

theorem sentiment_neutral_on_failure:
  assumes "\<And>n t. lw_ollama w n t = Inl e" "\<And>n t. lw_cloud w Gemini n t = Inl e'" "brain_provider w FAST = Some (Ollama m k)"
  shows "\<exists>why. fst (analyze_news_sentiment w news s) = neutral why"
proof -
  have "fst (ollama_attempts w p model t n k err s) = Inl (if n = 0 then err else e)" for p model t n k err s
    by (induction n arbitrary: k err s) (simp_all add: assms(1) Let_def)
  then have "fst (call_ollama_api w p model t s) = Inl e" for p model t s
    by (simp add: call_ollama_api_def ollama_max_retries_def)
  then have api: "\<exists>s'. call_ollama_api w p model t s = (Inl e, s')" for p model t s
    by (metis prod.collapse)
  have local: "\<exists>s'. generate_json w (Ollama m k) t ANALYSIS_KEYS s = (Inl e, s')" for t s
    using api [of "Ollama m k" m t s] by (auto simp: generate_json_def ollama_json_def)
  have cloud: "\<exists>s'. generate_json w Gemini t ANALYSIS_KEYS s = (Inl RuntimeError, s')" for t s
    by (simp add: generate_json_def cloud_json_def ask_cloud_def assms(2))
  have first: "\<exists>x s'. prompted w ''news_sentiment'' news (\<lambda>t. generate_json w (Ollama m k) t ANALYSIS_KEYS) s = (Inl x, s')"
    using local by (simp add: prompted_def split: sum.split) blast
  have second: "\<exists>x s''. with_fallback w ''news_sentiment'' news (\<lambda>p t. generate_json w p t ANALYSIS_KEYS) s' = (Inl x, s'')" for s'
    using cloud by (auto simp: with_fallback_def get_fallback_provider_def open_provider_def prompted_def split: sum.split) blast
  from first obtain x s' where f: "prompted w ''news_sentiment'' news (\<lambda>t. generate_json w (Ollama m k) t ANALYSIS_KEYS) s = (Inl x, s')"
    by blast
  from second [of s'] obtain y s'' where
    "with_fallback w ''news_sentiment'' news (\<lambda>p t. generate_json w p t ANALYSIS_KEYS) s' = (Inl y, s'')" by blast
  with f show ?thesis by (auto simp: analyze_news_sentiment_def assms(3))
qed

end
