(* ===== verification/Market_Data.thy ===== *)
theory Market_Data
  imports Factor_Scoring Trade_Store Watchlist
begin

text \<open>
  \<open>shared/database/market.py\<close>: the stock master, the daily prices, the fundamentals and the
  sentiment of news. A reader gets the rows of a table and what the server does, a writer
  returns the committed rows. The two kinds of connection run the same queries; a raw cursor
  may answer with dictionaries instead of tuples, which the code does not always expect.
\<close>

section \<open>The stock master\<close>

record master_row =
  ms_code :: string
  ms_name :: string
  ms_sector :: "string option"

datatype cursor_rows = Tuples | Dicts

definition lower_columns :: "master_row \<Rightarrow> (string \<times> jval) list" where
  "lower_columns r =
     [(''stock_code'', JStr (ms_code r)), (''stock_name'', JStr (ms_name r)),
      (''sector'', case ms_sector r of None \<Rightarrow> JNull | Some t \<Rightarrow> JStr t)]"

definition upper_columns :: "master_row \<Rightarrow> (string \<times> jval) list" where
  "upper_columns r =
     [(''STOCK_CODE'', JStr (ms_code r)), (''STOCK_NAME'', JStr (ms_name r)),
      (''SECTOR'', case ms_sector r of None \<Rightarrow> JNull | Some t \<Rightarrow> JStr t)]"

text \<open>A row of a raw cursor that is a dictionary is handed on with its own keys.\<close>

definition stock_dict :: "connection \<Rightarrow> cursor_rows \<Rightarrow> master_row \<Rightarrow> (string \<times> jval) list" where
  "stock_dict c k r = (if c = RawConnection \<and> k = Dicts then upper_columns r else lower_columns r)"

definition query :: "py_exc option \<Rightarrow> 'a \<Rightarrow> 'a res" where
  "query fault x = (case fault of None \<Rightarrow> Inr x | Some e \<Rightarrow> Inl e)"

lemma query_simps [simp]: "query None x = Inr x" "query (Some e) x = Inl e"
  by (simp_all add: query_def)

definition get_stock_by_code ::
  "connection \<Rightarrow> cursor_rows \<Rightarrow> py_exc option \<Rightarrow> string \<Rightarrow> master_row list \<Rightarrow> (string \<times> jval) list option res" where
  "get_stock_by_code c k fault code rows =
     query fault (map_option (stock_dict c k) (find (\<lambda>r. ms_code r = code) rows))"

definition search_stock_by_name ::
  "connection \<Rightarrow> cursor_rows \<Rightarrow> py_exc option \<Rightarrow> string \<Rightarrow> master_row list \<Rightarrow> (string \<times> jval) list option res" where
  "search_stock_by_name c k fault name rows =
     query fault (map_option (stock_dict c k) (find (\<lambda>r. ms_name r = name) rows))"

definition get_all_stock_codes ::
  "connection \<Rightarrow> cursor_rows \<Rightarrow> py_exc option \<Rightarrow> master_row list \<Rightarrow> string list res" where
  "get_all_stock_codes c k fault rows =
     rbind (query fault rows) (\<lambda>rows.
       if c = RawConnection \<and> k = Dicts \<and> rows \<noteq> [] then Inl KeyError else Inr (map ms_code rows))"

section \<open>Daily prices\<close>

text \<open>
  \<open>STOCK_DAILY_PRICES_3Y\<close>, one row per stock and day. The query takes the latest rows, and the
  frame is turned round so that the last row is the latest. No rows give an empty frame.
\<close>

record daily_row =
  dr_code :: string
  dr_price :: price_row

definition latest_first :: "string \<Rightarrow> daily_row list \<Rightarrow> price_row list" where
  "latest_first code rows = rev (sort_key row_day (map dr_price (filter (\<lambda>r. dr_code r = code) rows)))"

definition db_daily_prices :: "py_exc option \<Rightarrow> string \<Rightarrow> nat \<Rightarrow> daily_row list \<Rightarrow> price_row list res" where
  "db_daily_prices fault code limit rows = query fault (rev (take limit (latest_first code rows)))"

text \<open>
  The batch makes one query for all codes and distributes its rows; its \<open>limit\<close> is not used.
  A code without rows keeps its empty list, unless no code has any.
\<close>

definition get_daily_prices_batch ::
  "py_exc option \<Rightarrow> string list \<Rightarrow> nat \<Rightarrow> daily_row list \<Rightarrow> (string \<times> price_row list) list res" where
  "get_daily_prices_batch fault codes limit rows =
     (if codes = [] then Inr []
      else query fault
        (if \<not> list_ex (\<lambda>r. dr_code r \<in> set codes) rows then []
         else map (\<lambda>code. (code, rev (latest_first code rows))) (remdups codes)))"

text \<open>
  The writer fills another table, \<open>STOCK_DAILY_PRICES\<close>. A value that is no number or date is
  refused by the server; any refusal rolls the whole batch back.
\<close>

record fetched_row =
  fr_code :: string
  fr_date :: rat
  fr_close :: "rat option"
  fr_high :: "rat option"
  fr_low :: "rat option"

definition either :: "string \<Rightarrow> string \<Rightarrow> (string \<times> jval) list \<Rightarrow> jval" where
  "either k k' p = field k (field k' JNull p) p"

fun nullable :: "jval \<Rightarrow> rat option res" where
  "nullable JNull = Inr None"
| "nullable (JNum r) = Inr (Some r)"
| "nullable _ = Inl DbError"

definition fetched_row_of :: "(string \<times> jval) list \<Rightarrow> fetched_row res" where
  "fetched_row_of p =
     rbind (nullable (either ''p_price'' ''close_price'' p)) (\<lambda>close.
     rbind (nullable (either ''p_high'' ''high_price'' p)) (\<lambda>high.
     rbind (nullable (either ''p_low'' ''low_price'' p)) (\<lambda>low.
       case (either ''p_code'' ''stock_code'' p, either ''p_date'' ''price_date'' p) of
         (JStr code, JTime d) \<Rightarrow> Inr \<lparr>fr_code = code, fr_date = d, fr_close = close, fr_high = high, fr_low = low\<rparr>
       | _ \<Rightarrow> Inl DbError)))"

definition fetched_key :: "fetched_row \<Rightarrow> string \<times> rat" where
  "fetched_key r = (fr_code r, fr_date r)"

definition fetched_merge :: "fetched_row \<Rightarrow> fetched_row \<Rightarrow> fetched_row" where
  "fetched_merge old new = new"

interpretation fetched_rows: keyed_rows fetched_key fetched_merge
  by unfold_locales (simp add: fetched_merge_def)

fun upsert_all :: "('p \<Rightarrow> 'r res) \<Rightarrow> ('r \<Rightarrow> 'r list \<Rightarrow> 'r list res) \<Rightarrow> 'p list \<Rightarrow> 'r list \<Rightarrow> 'r list res" where
  "upsert_all parse put [] rows = Inr rows"
| "upsert_all parse put (p # ps) rows =
     rbind (parse p) (\<lambda>r. rbind (put r rows) (upsert_all parse put ps))"

text \<open>A failure of the server is logged and rolled back.\<close>

definition committed :: "py_exc option \<Rightarrow> 'r list res \<Rightarrow> 'r list \<Rightarrow> 'r list" where
  "committed fault new rows = (case rbind (query fault ()) (\<lambda>_. new) of Inl _ \<Rightarrow> rows | Inr rows' \<Rightarrow> rows')"

definition save_all_daily_prices ::
  "py_exc option \<Rightarrow> (string \<times> jval) list list \<Rightarrow> fetched_row list \<Rightarrow> fetched_row list" where
  "save_all_daily_prices fault ps rows =
     committed fault (upsert_all fetched_row_of (\<lambda>r rows. Inr (put_row fetched_key fetched_merge r rows)) ps rows) rows"

section \<open>Fundamentals\<close>

text \<open>
  The table's key is the stock and the day; what the server makes of a row without them is its
  own decision.
\<close>

record fundamental_row =
  fd_code :: jval
  fd_date :: jval
  fd_per :: jval
  fd_pbr :: jval
  fd_roe :: jval
  fd_cap :: jval

definition fundamental_row_of :: "(string \<times> jval) list \<Rightarrow> fundamental_row" where
  "fundamental_row_of p =
     \<lparr>fd_code = field ''stock_code'' JNull p, fd_date = field ''trade_date'' JNull p, fd_per = field ''per'' JNull p,
      fd_pbr = field ''pbr'' JNull p, fd_roe = field ''roe'' JNull p, fd_cap = field ''market_cap'' JNull p\<rparr>"

definition fundamental_key :: "fundamental_row \<Rightarrow> jval \<times> jval" where
  "fundamental_key r = (fd_code r, fd_date r)"

definition fundamental_merge :: "fundamental_row \<Rightarrow> fundamental_row \<Rightarrow> fundamental_row" where
  "fundamental_merge old new = new"

interpretation fundamental_rows: keyed_rows fundamental_key fundamental_merge
  by unfold_locales (simp add: fundamental_merge_def)

definition update_all_stock_fundamentals ::
  "py_exc option \<Rightarrow> (fundamental_row \<Rightarrow> bool) \<Rightarrow> (string \<times> jval) list list \<Rightarrow> fundamental_row list \<Rightarrow> fundamental_row list" where
  "update_all_stock_fundamentals fault accepts ps rows =
     committed fault
       (upsert_all (\<lambda>p. Inr (fundamental_row_of p))
          (\<lambda>r rows. if accepts r then Inr (put_row fundamental_key fundamental_merge r rows) else Inl DbError) ps rows) rows"

section \<open>The sentiment of news\<close>

record sentiment_row =
  sn_code :: string
  sn_title :: string
  sn_score :: rat
  sn_reason :: string
  sn_url :: "string option"
  sn_published :: "rat option"

text \<open>A time of publication: a stamp, a text, a time, or anything else.\<close>

datatype published = Stamp int | Written string | At rat | Unknown

record time_library =
  tl_from_stamp :: "int \<Rightarrow> rat res"
  tl_from_iso :: "string \<Rightarrow> rat res"
  tl_strptime :: "string \<Rightarrow> rat res"

definition published_at_of :: "time_library \<Rightarrow> published \<Rightarrow> rat option res" where
  "published_at_of lib p =
     (case p of
        Stamp n \<Rightarrow> rbind (tl_from_stamp lib n) (\<lambda>t. Inr (Some t))
      | Written t \<Rightarrow>
          (case tl_from_iso lib t of
             Inr x \<Rightarrow> Inr (Some x)
           | Inl ValueError \<Rightarrow> rbind (tl_strptime lib (take 19 t)) (\<lambda>x. Inr (Some x))
           | Inl e \<Rightarrow> Inl e)
      | At t \<Rightarrow> Inr (Some t)
      | Unknown \<Rightarrow> Inr None)"

text \<open>A link that is already stored is skipped; an exception is logged and raised again.\<close>

definition save_news_sentiment ::
  "py_exc option \<Rightarrow> time_library \<Rightarrow> string \<Rightarrow> string \<Rightarrow> rat \<Rightarrow> string \<Rightarrow> string option \<Rightarrow> published \<Rightarrow>
    sentiment_row list \<Rightarrow> sentiment_row list res" where
  "save_news_sentiment fault lib code title score reason url published rows =
     rbind (query fault ()) (\<lambda>_.
       if list_ex (\<lambda>r. sn_url r = url) rows then Inr rows
       else rbind (published_at_of lib published) (\<lambda>t.
         Inr (rows @ [\<lparr>sn_code = code, sn_title = title, sn_score = score, sn_reason = reason, sn_url = url,
           sn_published = t\<rparr>])))"

section \<open>Lemmas\<close>

lemma length_latest_first: "length (latest_first code rows) = length (filter (\<lambda>r. dr_code r = code) rows)"
  by (simp add: latest_first_def)

lemma sorted_latest_first: "sorted (map row_day (rev (latest_first code rows)))"
  by (simp add: latest_first_def)

lemma set_latest_first: "set (latest_first code rows) = {dr_price r | r. r \<in> set rows \<and> dr_code r = code}"
  by (auto simp: latest_first_def)

lemma rev_take_drop: "rev (take n xs) = drop (length xs - n) (rev xs)"
  by (simp add: rev_take)

section \<open>Properties\<close>

text \<open>
  The prices of a stock come in the order of their days, at most as many as asked for, and no
  row that is left out is later than one that is given.
\<close>

theorem daily_prices_are_latest:
  "case db_daily_prices None code limit rows of
     Inl _ \<Rightarrow> False
   | Inr frame \<Rightarrow>
       sorted (map row_day frame) \<and> length frame = min limit (length (filter (\<lambda>r. dr_code r = code) rows)) \<and>
       (\<exists>older. older @ frame = sort_key row_day (map dr_price (filter (\<lambda>r. dr_code r = code) rows)) \<and>
          list_all (\<lambda>o'. list_all (\<lambda>r. row_day o' \<le> row_day r) frame) older)"
proof -
  let ?all = "rev (latest_first code rows)"
  let ?k = "length (latest_first code rows) - limit"
  have split: "?all = take ?k ?all @ drop ?k ?all" by simp
  have "sorted (map row_day (take ?k ?all @ drop ?k ?all))" using sorted_latest_first [of code rows] by simp
  then have le: "list_all (\<lambda>o'. list_all (\<lambda>r. row_day o' \<le> row_day r) (drop ?k ?all)) (take ?k ?all)"
    and sd: "sorted (map row_day (drop ?k ?all))"
    unfolding map_append sorted_append list_all_iff by auto
  have "take ?k ?all @ drop ?k ?all = sort_key row_day (map dr_price (filter (\<lambda>r. dr_code r = code) rows))"
    by (simp add: latest_first_def)
  with le sd show ?thesis
    by (auto simp: db_daily_prices_def rev_take_drop length_latest_first intro!: exI [of _ "take ?k ?all"])
qed

text \<open>
  The batch gives for each of its codes what a single query without a limit gives, whatever
  limit it is called with.
\<close>

theorem batch_ignores_limit:
  assumes "list_ex (\<lambda>r. dr_code r \<in> set codes) rows" "code \<in> set codes"
  shows "\<exists>d. get_daily_prices_batch None codes limit rows = Inr d \<and>
    map_option Inr (map_of d code) = Some (db_daily_prices None code (length rows) rows)"
proof -
  have ne: "codes \<noteq> []" using assms(2) by auto
  have "length (latest_first code rows) \<le> length rows" by (simp add: length_latest_first)
  moreover have "map_of (map (\<lambda>code. (code, rev (latest_first code rows))) (remdups codes)) code = Some (rev (latest_first code rows))"
    using assms(2) by (simp add: map_of_map_restrict)
  ultimately show ?thesis
    using ne assms(1) by (simp add: get_daily_prices_batch_def db_daily_prices_def)
qed

text \<open>The links of the stored news stay distinct.\<close>

theorem news_links_distinct:
  assumes "distinct (map sn_url rows)" "save_news_sentiment fault lib code title score reason url p rows = Inr rows'"
  shows "distinct (map sn_url rows')"
  using assms
  by (cases fault) (auto simp: save_news_sentiment_def list_ex_iff rbind_eq_Inr_iff split: if_splits)

text \<open>
  A batch of prices is written as a whole or not at all, and it keeps one row per stock and day.
\<close>

lemma upsert_distinct:
  assumes "\<And>r rows rows'. put r rows = Inr rows' \<Longrightarrow> distinct (map key rows) \<Longrightarrow> distinct (map key rows')"
  shows "upsert_all parse put ps rows = Inr rows' \<Longrightarrow> distinct (map key rows) \<Longrightarrow> distinct (map key rows')"
proof (induction ps arbitrary: rows)
  case (Cons p ps)
  then show ?case by (auto simp: rbind_eq_Inr_iff dest: assms)
qed simp

theorem daily_batch_keyed:
  assumes "distinct (map fetched_key rows)"
  shows "distinct (map fetched_key (save_all_daily_prices fault ps rows))"
  using assms upsert_distinct [where key = fetched_key and put = "\<lambda>r rows. Inr (put_row fetched_key fetched_merge r rows)"]
  by (cases fault) (auto simp: save_all_daily_prices_def committed_def fetched_rows.distinct_put split: sum.split)

end
