(* ===== verification/Scout_Universe.thy ===== *)
theory Scout_Universe
  imports Llm_Brain Market_Data Hybrid_Scoring
begin

text \<open>
  \<open>services/scout-job/scout_universe.py\<close>: where the candidates of the scout come from. The large
  stocks of the KOSPI (a listing from FinanceDataReader, or the pages of a portal), the stocks
  of the sectors that rise most, and the stocks that rose more than the index.

  A listing is a parameter, as a list of rows with columns; a page of the portal is the cells
  the code looks at.
\<close>

section \<open>Sectors\<close>

definition BLUE_CHIP_STOCKS :: "(string \<times> string \<times> bool) list" where
  "BLUE_CHIP_STOCKS =
     [(''0001'', ''KOSPI'', False), (''005930'', [CHR 0xEC, CHR 0x82, CHR 0xBC, CHR 0xEC, CHR 0x84, CHR 0xB1, CHR 0xEC, CHR 0xA0, CHR 0x84, CHR 0xEC, CHR 0x9E, CHR 0x90], True), (''000660'', ''SK'' @ [CHR 0xED, CHR 0x95, CHR 0x98, CHR 0xEC, CHR 0x9D, CHR 0xB4, CHR 0xEB, CHR 0x8B, CHR 0x89, CHR 0xEC, CHR 0x8A, CHR 0xA4], True),
      (''035420'', ''NAVER'', True), (''035720'', [CHR 0xEC, CHR 0xB9, CHR 0xB4, CHR 0xEC, CHR 0xB9, CHR 0xB4, CHR 0xEC, CHR 0x98, CHR 0xA4], True)]"

definition sector_codes :: "(string \<times> string list) list" where
  "sector_codes =
     [([CHR 0xEB, CHR 0xB0, CHR 0x98, CHR 0xEB, CHR 0x8F, CHR 0x84, CHR 0xEC, CHR 0xB2, CHR 0xB4], [''005930'', ''000660'', ''009150'', ''034220'']), (''IT/'' @ [CHR 0xEC, CHR 0xA0, CHR 0x84, CHR 0xEC, CHR 0x9E, CHR 0x90], [''066570'', ''018260'']),
      (''IT/'' @ [CHR 0xED, CHR 0x86, CHR 0xB5, CHR 0xEC, CHR 0x8B, CHR 0xA0], [''017670'', ''030200'']), ([CHR 0xEC, CHR 0x9E, CHR 0x90, CHR 0xEB, CHR 0x8F, CHR 0x99, CHR 0xEC, CHR 0xB0, CHR 0xA8], [''005380'', ''000270'', ''012330'', ''086280'', ''018880'']),
      ([CHR 0xEB, CHR 0xB0, CHR 0xB0, CHR 0xED, CHR 0x84, CHR 0xB0, CHR 0xEB, CHR 0xA6, CHR 0xAC], [''373220'', ''006400'', ''003670'', ''361610'']), ([CHR 0xED, CHR 0x99, CHR 0x94, CHR 0xED, CHR 0x95, CHR 0x99], [''051910'', ''011170'']),
      ([CHR 0xEC, CHR 0x97, CHR 0x90, CHR 0xEB, CHR 0x84, CHR 0x88, CHR 0xEC, CHR 0xA7, CHR 0x80], [''096770'', ''010950'']), ([CHR 0xEB, CHR 0xB0, CHR 0x94, CHR 0xEC, CHR 0x9D, CHR 0xB4, CHR 0xEC, CHR 0x98, CHR 0xA4], [''207940'', ''068270'', ''302440'', ''326030'']),
      ([CHR 0xEC, CHR 0x9D, CHR 0xB8, CHR 0xED, CHR 0x84, CHR 0xB0, CHR 0xEB, CHR 0x84, CHR 0xB7], [''035420'', ''035720'', ''323410'', ''377300'']),
      ([CHR 0xEA, CHR 0xB8, CHR 0x88, CHR 0xEC, CHR 0x9C, CHR 0xB5], [''105560'', ''055550'', ''086790'', ''316140'', ''032830'', ''024110'', ''000810'']),
      ([CHR 0xEC, CHR 0xB2, CHR 0xA0, CHR 0xEA, CHR 0xB0, CHR 0x95], [''005490'', ''010130'']), ([CHR 0xEA, CHR 0xB2, CHR 0x8C, CHR 0xEC, CHR 0x9E, CHR 0x84], [''259960'', ''036570'', ''251270'']), ([CHR 0xEC, CHR 0x97, CHR 0x94, CHR 0xED, CHR 0x84, CHR 0xB0], [''352820'']),
      ([CHR 0xEC, CHR 0x86, CHR 0x8C, CHR 0xEB, CHR 0xB9, CHR 0x84, CHR 0xEC, CHR 0x9E, CHR 0xAC], [''051900'', ''090430'', ''033780'']), ([CHR 0xEA, CHR 0xB1, CHR 0xB4, CHR 0xEC, CHR 0x84, CHR 0xA4], [''028260'']), ([CHR 0xEC, CHR 0x9D, CHR 0xB8, CHR 0xED, CHR 0x94, CHR 0x84, CHR 0xEB, CHR 0x9D, CHR 0xBC], [''015760'']),
      ([CHR 0xEC, CHR 0xA1, CHR 0xB0, CHR 0xEC, CHR 0x84, CHR 0xA0], [''009540'']), ([CHR 0xEC, CHR 0xA7, CHR 0x80, CHR 0xEC, CHR 0xA3, CHR 0xBC], [''034730'', ''003550''])]"

definition SECTOR_MAPPING :: "(string \<times> string) list" where
  "SECTOR_MAPPING = concat (map (\<lambda>(sector, codes). map (\<lambda>c. (c, sector)) codes) sector_codes)"

definition other_sector :: string where
  "other_sector = [CHR 0xEA, CHR 0xB8, CHR 0xB0, CHR 0xED, CHR 0x83, CHR 0x80]"

definition sector_of :: "string \<Rightarrow> string" where
  "sector_of code = dict_get code other_sector SECTOR_MAPPING"

text \<open>A row of a listing; the text of a value that is none is the library's.\<close>

type_synonym listing_row = "(string \<times> jval) list"

definition zfill :: "nat \<Rightarrow> string \<Rightarrow> string" where
  "zfill n t =
     (let pad = replicate (n - length t) (CHR ''0'')
       in case t of
            c # cs \<Rightarrow> if c = CHR ''+'' \<or> c = CHR ''-'' then c # pad @ cs else pad @ t
          | [] \<Rightarrow> pad)"

definition str_of :: "(jval \<Rightarrow> string) \<Rightarrow> jval \<Rightarrow> string" where
  "str_of show_value v = (case v of JStr t \<Rightarrow> t | _ \<Rightarrow> show_value v)"

definition listed_code :: "(jval \<Rightarrow> string) \<Rightarrow> listing_row \<Rightarrow> string" where
  "listed_code show_value row = zfill 6 (str_of show_value (field ''Code'' (field ''Symbol'' (JStr []) row) row))"

definition listed_name :: "listing_row \<Rightarrow> jval" where
  "listed_name row = field ''Name'' (field [CHR 0xEC, CHR 0xA2, CHR 0x85, CHR 0xEB, CHR 0xAA, CHR 0xA9, CHR 0xEB, CHR 0xAA, CHR 0x85] (JStr []) row) row"

text \<open>\<open>float(v)\<close>\<close>

definition jfloat :: "jval \<Rightarrow> rat res" where
  "jfloat v =
     (case v of
        JStr t \<Rightarrow> (case parse_float t of None \<Rightarrow> Inl ValueError | Some x \<Rightarrow> Inr x)
      | _ \<Rightarrow> (case jnum v of None \<Rightarrow> Inl TypeError | Some x \<Rightarrow> Inr x))"

definition truthy_or :: "jval \<Rightarrow> jval \<Rightarrow> jval" where
  "truthy_or a b = (if jtruth a then a else b)"

definition change_pct :: "listing_row \<Rightarrow> rat res" where
  "change_pct row =
     (let ratio = truthy_or (truthy_or (field ''ChagesRatio'' JNull row) (field ''ChangesRatio'' JNull row)) (field ''ChangeRatio'' JNull row)
       in if ratio = JNull then
            rbind (jfloat (field ''Changes'' (JNum 0) row)) (\<lambda>changes.
            rbind (jfloat (field ''Close'' (field ''Price'' (JNum 1) row) row)) (\<lambda>close.
              Inr (if 0 < close then changes / close * 100 else 0)))
          else jfloat ratio)"

record sector_data =
  sd_stocks :: "(string \<times> jval) list"
  sd_returns :: "rat list"

definition no_sector_data :: sector_data where
  "no_sector_data = \<lparr>sd_stocks = [], sd_returns = []\<rparr>"

text \<open>A sector is entered before the return of its stock is known to be usable.\<close>

definition add_listed :: "(jval \<Rightarrow> string) \<Rightarrow> listing_row \<Rightarrow> (string \<times> sector_data) list \<Rightarrow> (string \<times> sector_data) list" where
  "add_listed show_value row d =
     (let code = listed_code show_value row; sector = sector_of code; old = dict_get sector no_sector_data d;
          d' = AList.update sector old d
       in case change_pct row of
            Inl _ \<Rightarrow> d'
          | Inr pct \<Rightarrow>
              if 50 < \<bar>pct\<bar> then d'
              else AList.update sector
                \<lparr>sd_stocks = sd_stocks old @ [(code, listed_name row)], sd_returns = sd_returns old @ [pct]\<rparr> d')"

record sector_trend =
  tr_average :: rat
  tr_count :: nat
  tr_stocks :: "(string \<times> jval) list"

definition average :: "rat list \<Rightarrow> rat" where
  "average xs = sum_list xs / of_nat (length xs)"

definition trends_of :: "(string \<times> sector_data) list \<Rightarrow> (string \<times> sector_trend) list" where
  "trends_of d =
     map (\<lambda>(sector, s). (sector, \<lparr>tr_average = average (sd_returns s), tr_count = length (sd_stocks s), tr_stocks = take 5 (sd_stocks s)\<rparr>))
       (filter (\<lambda>(sector, s). sd_returns s \<noteq> []) d)"

text \<open>The listing: None without the library, an exception when it cannot be fetched.\<close>

type_synonym listing = "listing_row list res option"

definition analyze_sector_momentum :: "(jval \<Rightarrow> string) \<Rightarrow> listing \<Rightarrow> (string \<times> sector_trend) list" where
  "analyze_sector_momentum show_value l =
     (case l of
        Some (Inl _) \<Rightarrow> []
      | None \<Rightarrow> []
      | Some (Inr rows) \<Rightarrow> sort_desc (\<lambda>x. tr_average (snd x)) (trends_of (fold (add_listed show_value) (take 200 rows) [])))"

record hot_stock =
  ht_code :: string
  ht_name :: jval
  ht_sector :: string
  ht_momentum :: rat

definition sector_stocks :: "string \<times> sector_trend \<Rightarrow> hot_stock list" where
  "sector_stocks = (\<lambda>(sector, t).
     map (\<lambda>(c, n). \<lparr>ht_code = c, ht_name = n, ht_sector = sector, ht_momentum = tr_average t\<rparr>) (tr_stocks t))"

definition get_hot_sector_stocks :: "(string \<times> sector_trend) list \<Rightarrow> int \<Rightarrow> hot_stock list" where
  "get_hot_sector_stocks analysis top_n = py_prefix top_n (concat (map sector_stocks (take 3 analysis)))"

section \<open>The largest stocks\<close>

text \<open>
  Rows are sorted by market value when there is such a column, rows without a value last; of
  rows with equal values the earlier one comes first.
\<close>

definition market_cap :: "listing_row \<Rightarrow> rat option" where
  "market_cap row = jnum (field ''Marcap'' JNull row)"

definition by_market_cap :: "listing_row list \<Rightarrow> listing_row list" where
  "by_market_cap rows =
     sort_desc (\<lambda>r. case market_cap r of None \<Rightarrow> 0 | Some x \<Rightarrow> x) (filter (\<lambda>r. market_cap r \<noteq> None) rows) @
     filter (\<lambda>r. market_cap r = None) rows"

definition has_column :: "string \<Rightarrow> listing_row list \<Rightarrow> bool" where
  "has_column c rows \<longleftrightarrow> list_ex (\<lambda>r. map_of r c \<noteq> None) rows"

definition listed_chips :: "(jval \<Rightarrow> string) \<Rightarrow> int \<Rightarrow> listing_row list \<Rightarrow> (string \<times> jval) list" where
  "listed_chips show_value limit rows =
     filter (\<lambda>(code, name). code \<noteq> [] \<and> jtruth name)
       (map (\<lambda>r. (listed_code show_value r, listed_name r))
         (py_prefix limit (if has_column ''Marcap'' rows then by_market_cap rows else rows)))"

text \<open>
  A page of the portal: None when its table is missing. A row of the table: the text of its
  first cell, and the target and the text of its link.
\<close>

record page_row =
  pr_number :: string
  pr_link :: "(string \<times> string) option"

type_synonym portal = "nat \<Rightarrow> page_row list option res"

definition code_mark :: string where
  "code_mark = ''code=''"

definition is_number :: "string \<Rightarrow> bool" where
  "is_number t \<longleftrightarrow> t \<noteq> [] \<and> list_all is_digit t"

definition page_stock :: "page_row \<Rightarrow> (string \<times> string) option" where
  "page_stock r =
     (case pr_link r of
        None \<Rightarrow> None
      | Some (href, label) \<Rightarrow>
          if is_number (py_strip (pr_number r)) \<and> str_in code_mark href then Some (second_part code_mark href, py_strip label) else None)"

fun page_rows :: "nat \<Rightarrow> page_row list \<Rightarrow> (string \<times> jval) list \<Rightarrow> (string \<times> jval) list" where
  "page_rows limit [] found = found"
| "page_rows limit (r # rs) found =
     (if limit \<le> length found then found
      else page_rows limit rs (case page_stock r of
        None \<Rightarrow> found
      | Some (code, name) \<Rightarrow> if code \<in> fst ` set found then found else found @ [(code, JStr name)]))"

text \<open>A page that fails ends the search; what was found so far is the answer.\<close>

fun scrape_pages :: "nat \<Rightarrow> portal \<Rightarrow> nat list \<Rightarrow> (string \<times> jval) list \<Rightarrow> (string \<times> jval) list" where
  "scrape_pages limit portal [] found = found"
| "scrape_pages limit portal (p # ps) found =
     (if limit \<le> length found then found
      else case portal p of
        Inl _ \<Rightarrow> found
      | Inr None \<Rightarrow> scrape_pages limit portal ps found
      | Inr (Some rows) \<Rightarrow> scrape_pages limit portal ps (page_rows limit rows found))"

definition scraped_chips :: "portal \<Rightarrow> int \<Rightarrow> (string \<times> jval) list" where
  "scraped_chips portal limit = scrape_pages (nat limit) portal [1..<nat ((limit + 49) div 50) + 1] []"

definition get_dynamic_blue_chips :: "(jval \<Rightarrow> string) \<Rightarrow> listing \<Rightarrow> portal \<Rightarrow> int \<Rightarrow> (string \<times> jval) list" where
  "get_dynamic_blue_chips show_value l portal limit =
     (case l of
        Some (Inr rows) \<Rightarrow> listed_chips show_value limit rows
      | _ \<Rightarrow> scraped_chips portal limit)"

section \<open>Relative momentum\<close>

text \<open>The database as the search meets it: which query fails, and the tables.\<close>

record market_world =
  mk_fault :: "string \<Rightarrow> py_exc option"
  mk_codes_fault :: "py_exc option"
  mk_masters :: "master_row list"
  mk_daily :: "daily_row list"

definition market_prices :: "market_world \<Rightarrow> string \<Rightarrow> nat \<Rightarrow> price_row list res" where
  "market_prices w code limit = db_daily_prices (mk_fault w code) code limit (mk_daily w)"

text \<open>The return over the frame in percent; None when less than four fifths of the days are there.\<close>

definition frame_return :: "int \<Rightarrow> price_row list \<Rightarrow> rat res option" where
  "frame_return days frame =
     (if frame = [] \<or> of_nat (length frame) < of_int days * (8/10 :: rat) then None
      else Some (rbind (py_div (close_price (row_bar (last frame))) (close_price (row_bar (hd frame)))) (\<lambda>q. Inr ((q - 1) * 100))))"

record momentum_stock =
  mo_code :: string
  mo_name :: string
  mo_momentum :: rat
  mo_return :: rat

definition momentum_of :: "market_world \<Rightarrow> int \<Rightarrow> rat \<Rightarrow> string \<times> string \<Rightarrow> momentum_stock option" where
  "momentum_of w days kospi_return =
     (\<lambda>(code, name).
        case market_prices w code (nat days) of
          Inl _ \<Rightarrow> None
        | Inr frame \<Rightarrow>
            (case frame_return days frame of
               Some (Inr r) \<Rightarrow> Some \<lparr>mo_code = code, mo_name = name, mo_momentum = r - kospi_return, mo_return = r\<rparr>
             | _ \<Rightarrow> None))"

text \<open>
  All stocks of the master; without any, the tradable stocks of the watchlist; without a
  watchlist, the fixed list.
\<close>

definition stocks_to_check :: "string list \<Rightarrow> (string \<times> plain_entry) list \<Rightarrow> (string \<times> string) list" where
  "stocks_to_check codes watchlist =
     (if codes \<noteq> [] then map (\<lambda>c. (c, c)) codes
      else if watchlist = [] then map (\<lambda>(c, n, t). (c, n)) (filter (\<lambda>(c, n, t). t) BLUE_CHIP_STOCKS)
      else map (\<lambda>(c, e). (c, pe_name e))
        (filter (\<lambda>(c, e). pe_tradable e \<noteq> None \<and> pe_tradable e \<noteq> Some 0) watchlist))"

definition get_momentum_stocks ::
  "market_world \<Rightarrow> int \<Rightarrow> int \<Rightarrow> (string \<times> plain_entry) list \<Rightarrow> momentum_stock list" where
  "get_momentum_stocks w period_months top_n watchlist =
     (let days = period_months * 30
       in case market_prices w ''0001'' (nat days) of
            Inl _ \<Rightarrow> []
          | Inr kospi \<Rightarrow>
              (case frame_return days kospi of
                 Some (Inr kospi_return) \<Rightarrow>
                   (case get_all_stock_codes OrmSession Tuples (mk_codes_fault w) (mk_masters w) of
                      Inl _ \<Rightarrow> []
                    | Inr codes \<Rightarrow>
                        py_prefix top_n (sort_desc mo_momentum
                          (List.map_filter (momentum_of w days kospi_return) (stocks_to_check codes watchlist))))
               | _ \<Rightarrow> []))"

section \<open>Lemmas\<close>

lemma prefix_subset: "set (py_prefix n xs) \<subseteq> set xs"
  by (auto simp: py_prefix_def dest: in_set_takeD)

lemma length_prefix_le: "0 \<le> n \<Longrightarrow> length (py_prefix n xs) \<le> nat n"
  by (simp add: py_prefix_def)

lemma sorted_py_prefix: "sorted (map f xs) \<Longrightarrow> sorted (map f (py_prefix n xs))"
  by (simp add: py_prefix_def take_map [symmetric] sorted_wrt_take)

lemma sorted_sort_desc: "sorted (map (\<lambda>x. - f x) (sort_desc f xs))"
  by (simp add: sort_desc_def)

lemma average_moderate:
  assumes "xs \<noteq> []" "list_all (\<lambda>x. lo \<le> x \<and> x \<le> hi) xs"
  shows "lo \<le> average xs \<and> average xs \<le> hi"
proof -
  have pos: "(0::rat) < of_nat (length xs)" using assms(1) by simp
  have "list_all (\<lambda>x. lo \<le> x \<and> x \<le> hi) ys \<Longrightarrow> of_nat (length ys) * lo \<le> sum_list ys \<and> sum_list ys \<le> of_nat (length ys) * hi" for ys
    by (induction ys) (auto simp: algebra_simps)
  from this [OF assms(2)] pos show ?thesis by (simp add: average_def pos_le_divide_eq pos_divide_le_eq mult.commute)
qed

definition moderate :: "(string \<times> sector_data) list \<Rightarrow> bool" where
  "moderate d \<longleftrightarrow> list_all (\<lambda>(sector, s). list_all (\<lambda>x. - 50 \<le> x \<and> x \<le> 50) (sd_returns s)) d"

lemma moderate_get: "moderate d \<Longrightarrow> list_all (\<lambda>x. - 50 \<le> x \<and> x \<le> 50) (sd_returns (dict_get k no_sector_data d))"
  by (auto simp: moderate_def list_all_iff dict_get_def no_sector_data_def split: option.split dest!: map_of_SomeD)

lemma moderate_update:
  "moderate d \<Longrightarrow> list_all (\<lambda>x. - 50 \<le> x \<and> x \<le> 50) (sd_returns s) \<Longrightarrow> moderate (AList.update k s d)"
  by (induction d) (auto simp: moderate_def)

lemma moderate_add: "moderate d \<Longrightarrow> moderate (add_listed sv row d)"
  using moderate_get [of d "sector_of (listed_code sv row)"]
  by (auto simp: add_listed_def Let_def abs_le_iff not_less intro!: moderate_update split: sum.split)

lemma moderate_fold: "moderate d \<Longrightarrow> moderate (fold (add_listed sv) rows d)"
  by (induction rows arbitrary: d) (simp_all add: moderate_add)

lemma trends_moderate:
  assumes "(sector, t) \<in> set (analyze_sector_momentum sv l)"
  shows "- 50 \<le> tr_average t \<and> tr_average t \<le> 50 \<and> length (tr_stocks t) \<le> 5"
proof -
  have "moderate []" by (simp add: moderate_def)
  then have m: "moderate (fold (add_listed sv) rows [])" for rows by (rule moderate_fold)
  have "- 50 \<le> tr_average t \<and> tr_average t \<le> 50 \<and> length (tr_stocks t) \<le> 5"
    if "(sector, t) \<in> set (trends_of d)" "moderate d" for d
    using that average_moderate by (fastforce simp: trends_of_def moderate_def list_all_iff)
  with assms m show ?thesis
    by (auto simp: analyze_sector_momentum_def split: option.splits sum.splits)
qed

lemma length_concat_le: "list_all (\<lambda>xs. length xs \<le> n) xss \<Longrightarrow> length (concat xss) \<le> length xss * n"
  by (induction xss) auto

section \<open>Properties\<close>

text \<open>
  The stocks of the hot sectors: at most fifteen, from the best sectors first, and whatever the
  listing says the trend they are chosen for lies within fifty percent.
\<close>

theorem hot_stocks_moderate:
  "list_all (\<lambda>s. - 50 \<le> ht_momentum s \<and> ht_momentum s \<le> 50) (get_hot_sector_stocks (analyze_sector_momentum sv l) n) \<and>
   length (get_hot_sector_stocks (analyze_sector_momentum sv l) n) \<le> 15 \<and>
   sorted (map (\<lambda>s. - ht_momentum s) (get_hot_sector_stocks (analyze_sector_momentum sv l) n))"
proof -
  let ?a = "analyze_sector_momentum sv l"
  have get: "get_hot_sector_stocks ?a n = py_prefix n (concat (map sector_stocks (take 3 ?a)))"
    by (simp add: get_hot_sector_stocks_def)
  have mom: "s \<in> set (sector_stocks x) \<Longrightarrow> ht_momentum s = tr_average (snd x)" for s x
    by (auto simp: sector_stocks_def)
  have in_a: "x \<in> set (take 3 ?a) \<Longrightarrow> x \<in> set ?a" for x by (rule in_set_takeD)
  have "list_all (\<lambda>s. - 50 \<le> ht_momentum s \<and> ht_momentum s \<le> 50) (concat (map sector_stocks (take 3 ?a)))"
    unfolding list_all_iff using mom in_a trends_moderate [of _ _ sv l] by fastforce
  then have bounds: "list_all (\<lambda>s. - 50 \<le> ht_momentum s \<and> ht_momentum s \<le> 50) (get_hot_sector_stocks ?a n)"
    unfolding get list_all_iff using prefix_subset by fastforce
  have "list_all (\<lambda>xs. length xs \<le> 5) (map sector_stocks (take 3 ?a))"
    unfolding list_all_iff sector_stocks_def using in_a trends_moderate [of _ _ sv l] by fastforce
  then have "length (concat (map sector_stocks (take 3 ?a))) \<le> 15"
    using length_concat_le [of 5 "map sector_stocks (take 3 ?a)"] by (simp add: min_def split: if_splits)
  moreover have "length (py_prefix n xs) \<le> length xs" for xs :: "hot_stock list" by (simp add: py_prefix_def)
  ultimately have len: "length (get_hot_sector_stocks ?a n) \<le> 15" unfolding get by (rule order_trans [rotated])
  have "sorted (map (\<lambda>x. - tr_average (snd x)) ?a)"
  proof (cases l)
    case (Some r)
    then show ?thesis
      using sorted_sort_desc [of "\<lambda>x. tr_average (snd x)"]
      by (cases r) (simp_all add: analyze_sector_momentum_def case_prod_beta)
  qed (simp add: analyze_sector_momentum_def)
  then have "sorted (map (\<lambda>x. - tr_average (snd x)) (take 3 ?a))"
    by (simp add: take_map [symmetric] sorted_wrt_take)
  moreover have "sorted (map (\<lambda>x. - tr_average (snd x)) xs) \<Longrightarrow> sorted (map (\<lambda>s. - ht_momentum s) (concat (map sector_stocks xs)))" for xs
  proof (induction xs)
    case (Cons x xs)
    have "sorted (map (\<lambda>s. - ht_momentum s) (sector_stocks x))"
      by (cases x) (simp add: sector_stocks_def comp_def case_prod_beta map_replicate_const)
    moreover have "- ht_momentum s \<le> - ht_momentum s'"
      if "s \<in> set (sector_stocks x)" "s' \<in> set (concat (map sector_stocks xs))" for s s'
    proof -
      from that(2) obtain y where y: "y \<in> set xs" "s' \<in> set (sector_stocks y)" by auto
      with Cons.prems have "tr_average (snd y) \<le> tr_average (snd x)" by auto
      with mom [OF that(1)] mom [OF y(2)] show ?thesis by simp
    qed
    ultimately show ?case using Cons by (auto simp: sorted_append)
  qed simp
  ultimately have "sorted (map (\<lambda>s. - ht_momentum s) (get_hot_sector_stocks ?a n))"
    unfolding get by (intro sorted_py_prefix) blast
  with bounds len show ?thesis by blast
qed

text \<open>
  What is scraped from the portal is at most what was asked for, and no stock twice, whatever
  the pages repeat and whichever of them fail.
\<close>

lemma page_rows_keep:
  "distinct (map fst found) \<Longrightarrow> length found \<le> limit \<Longrightarrow>
   distinct (map fst (page_rows limit rs found)) \<and> length (page_rows limit rs found) \<le> limit"
proof (induction limit rs found rule: page_rows.induct)
  case (2 limit r rs found)
  show ?case
  proof (cases "limit \<le> length found")
    case False
    let ?next = "case page_stock r of None \<Rightarrow> found
      | Some (code, name) \<Rightarrow> if code \<in> fst ` set found then found else found @ [(code, JStr name)]"
    have "distinct (map fst ?next) \<and> length ?next \<le> limit"
      using 2(2,3) False by (auto split: option.split)
    with 2(1) [OF False] False show ?thesis by simp
  qed (use 2 in simp)
qed simp

theorem scraped_chips_bounded:
  "distinct (map fst (scraped_chips portal limit)) \<and> length (scraped_chips portal limit) \<le> nat limit"
proof -
  have "distinct (map fst found) \<Longrightarrow> length found \<le> n \<Longrightarrow>
      distinct (map fst (scrape_pages n portal ps found)) \<and> length (scrape_pages n portal ps found) \<le> n" for n ps found
    by (induction ps arbitrary: found) (auto split: sum.split option.split simp: page_rows_keep)
  then show ?thesis by (simp add: scraped_chips_def)
qed

lemma momentum_of_Some:
  "momentum_of w days k x = Some m \<Longrightarrow>
   x = (mo_code m, mo_name m) \<and>
   (case market_prices w (mo_code m) (nat days) of
      Inl _ \<Rightarrow> False
    | Inr frame \<Rightarrow> frame \<noteq> [] \<and> of_int days * (8/10 :: rat) \<le> of_nat (length frame))"
  by (cases x) (auto simp: momentum_of_def frame_return_def not_less split: sum.splits option.splits if_splits)

text \<open>
  The stocks chosen for their momentum: at most as many as asked for, the best first, each of
  the stocks to check and with prices for at least four fifths of the days.
\<close>

theorem momentum_stocks_sound:
  assumes "0 \<le> top_n" "get_all_stock_codes OrmSession Tuples (mk_codes_fault w) (mk_masters w) = Inr codes"
  shows "length (get_momentum_stocks w months top_n watchlist) \<le> nat top_n \<and>
    sorted (map (\<lambda>m. - mo_momentum m) (get_momentum_stocks w months top_n watchlist)) \<and>
    list_all (\<lambda>m. (mo_code m, mo_name m) \<in> set (stocks_to_check codes watchlist) \<and>
        (case market_prices w (mo_code m) (nat (months * 30)) of
           Inl _ \<Rightarrow> False
         | Inr frame \<Rightarrow> frame \<noteq> [] \<and> of_int (months * 30) * (8/10 :: rat) \<le> of_nat (length frame)))
      (get_momentum_stocks w months top_n watchlist)"
proof (cases "get_momentum_stocks w months top_n watchlist = []")
  case False
  let ?days = "months * 30"
  from False obtain k where g: "get_momentum_stocks w months top_n watchlist =
      py_prefix top_n (sort_desc mo_momentum (List.map_filter (momentum_of w ?days k) (stocks_to_check codes watchlist)))"
  proof -
    obtain kospi where kospi: "market_prices w ''0001'' (nat ?days) = Inr kospi"
      using False by (cases "market_prices w ''0001'' (nat ?days)") (simp_all add: get_momentum_stocks_def)
    obtain k where "frame_return ?days kospi = Some (Inr k)"
    proof (cases "frame_return ?days kospi")
      case (Some r)
      with False kospi that show ?thesis by (cases r) (simp_all add: get_momentum_stocks_def)
    qed (use False kospi in \<open>simp add: get_momentum_stocks_def\<close>)
    with that kospi show ?thesis by (simp add: get_momentum_stocks_def assms(2))
  qed
  have "(mo_code m, mo_name m) \<in> set (stocks_to_check codes watchlist) \<and>
      (case market_prices w (mo_code m) (nat ?days) of
         Inl _ \<Rightarrow> False
       | Inr frame \<Rightarrow> frame \<noteq> [] \<and> of_int ?days * (8/10 :: rat) \<le> of_nat (length frame))"
    if "m \<in> set (get_momentum_stocks w months top_n watchlist)" for m
  proof -
    from that have "m \<in> set (sort_desc mo_momentum (List.map_filter (momentum_of w ?days k) (stocks_to_check codes watchlist)))"
      unfolding g by (rule subsetD [OF prefix_subset])
    then have "m \<in> set (List.map_filter (momentum_of w ?days k) (stocks_to_check codes watchlist))" by simp
    then obtain x where "x \<in> set (stocks_to_check codes watchlist)" "momentum_of w ?days k x = Some m"
      by (auto simp: List.map_filter_def)
    then show ?thesis using momentum_of_Some [of w ?days k x m] by (cases x) auto
  qed
  then have "list_all (\<lambda>m. (mo_code m, mo_name m) \<in> set (stocks_to_check codes watchlist) \<and>
        (case market_prices w (mo_code m) (nat ?days) of
           Inl _ \<Rightarrow> False
         | Inr frame \<Rightarrow> frame \<noteq> [] \<and> of_int ?days * (8/10 :: rat) \<le> of_nat (length frame)))
      (get_momentum_stocks w months top_n watchlist)"
    unfolding list_all_iff by blast
  then show ?thesis
    by (simp add: g length_prefix_le [OF assms(1)] sorted_py_prefix [OF sorted_sort_desc])
qed simp

end
