(* ===== verification/Archivist.thy ===== *)
theory Archivist
  imports Redis_Cache
begin

text \<open>
  \<open>shared/archivist.py\<close>: the logs of decisions, of rejected stocks and of the market flow. Each
  entry is written in a session of its own and committed at once; an exception is logged and
  goes no further, so a log that fails never disturbs what is logged.
\<close>

section \<open>The rows\<close>

record ledger_row =
  lg_time :: rat
  lg_code :: string
  lg_name :: string
  lg_hunter :: rat
  lg_regime :: string
  lg_keywords :: string
  lg_debate :: string
  lg_counter :: "string option"
  lg_thinking :: int
  lg_thinking_reason :: string
  lg_cost :: rat
  lg_gate :: string
  lg_decision :: string
  lg_reason :: jval

record shadow_row =
  sh_time :: rat
  sh_code :: string
  sh_name :: string
  sh_stage :: string
  sh_reason :: jval
  sh_hunter :: rat
  sh_trigger :: string
  sh_value :: rat

record flow_row =
  fl_time :: rat
  fl_code :: string
  fl_price :: jval
  fl_volume :: jval
  fl_foreign :: jval
  fl_institution :: jval
  fl_program :: jval
  fl_type :: jval

record archive =
  ar_ledger :: "ledger_row list"
  ar_shadow :: "shadow_row list"
  ar_flow :: "flow_row list"

text \<open>
  The world of a log entry: whether a session opens, which rows the server takes, the clock
  and the JSON writer for the key words.
\<close>

record archive_world =
  aw_fault :: "py_exc option"
  aw_accepts_ledger :: "ledger_row \<Rightarrow> bool"
  aw_accepts_shadow :: "shadow_row \<Rightarrow> bool"
  aw_accepts_flow :: "flow_row \<Rightarrow> bool"
  aw_now :: rat
  aw_dumps :: "string list \<Rightarrow> string res"

section \<open>Writing\<close>

text \<open>What is handed over, before the time and the defaults are filled in.\<close>

record ledger_data =
  ld_code :: string
  ld_name :: string
  ld_hunter :: rat
  ld_regime :: string
  ld_keywords :: "string list"
  ld_debate :: string
  ld_counter :: "string option"
  ld_thinking :: bool
  ld_thinking_reason :: string
  ld_cost :: rat
  ld_gate :: string
  ld_decision :: string
  ld_reason :: jval

definition ledger_row_of :: "archive_world \<Rightarrow> string \<Rightarrow> ledger_data \<Rightarrow> ledger_row" where
  "ledger_row_of w keywords d =
     \<lparr>lg_time = aw_now w, lg_code = ld_code d, lg_name = ld_name d, lg_hunter = ld_hunter d,
      lg_regime = ld_regime d, lg_keywords = keywords, lg_debate = ld_debate d, lg_counter = ld_counter d,
      lg_thinking = (if ld_thinking d then 1 else 0), lg_thinking_reason = ld_thinking_reason d,
      lg_cost = ld_cost d, lg_gate = ld_gate d, lg_decision = ld_decision d, lg_reason = ld_reason d\<rparr>"

definition insert_decision :: "archive_world \<Rightarrow> ledger_data \<Rightarrow> archive \<Rightarrow> archive res" where
  "insert_decision w d a =
     rbind (aw_dumps w (ld_keywords d)) (\<lambda>keywords.
       if aw_accepts_ledger w (ledger_row_of w keywords d)
       then Inr (a\<lparr>ar_ledger := ar_ledger a @ [ledger_row_of w keywords d]\<rparr>) else Inl DbError)"

record shadow_data =
  sx_code :: string
  sx_name :: string
  sx_stage :: string
  sx_reason :: jval
  sx_hunter :: rat
  sx_trigger :: string
  sx_value :: rat

definition shadow_row_of :: "archive_world \<Rightarrow> shadow_data \<Rightarrow> shadow_row" where
  "shadow_row_of w d =
     \<lparr>sh_time = aw_now w, sh_code = sx_code d, sh_name = sx_name d, sh_stage = sx_stage d, sh_reason = sx_reason d,
      sh_hunter = sx_hunter d, sh_trigger = sx_trigger d, sh_value = sx_value d\<rparr>"

definition insert_shadow :: "archive_world \<Rightarrow> shadow_data \<Rightarrow> archive \<Rightarrow> archive res" where
  "insert_shadow w d a =
     (if aw_accepts_shadow w (shadow_row_of w d) then Inr (a\<lparr>ar_shadow := ar_shadow a @ [shadow_row_of w d]\<rparr>) else Inl DbError)"

definition insert_flow :: "archive_world \<Rightarrow> string \<Rightarrow> (string \<times> jval) list \<Rightarrow> archive \<Rightarrow> archive res" where
  "insert_flow w code d a =
     (let r = \<lparr>fl_time = aw_now w, fl_code = code, fl_price = field ''price'' JNull d, fl_volume = field ''volume'' JNull d,
               fl_foreign = field ''foreign_net_buy'' JNull d, fl_institution = field ''institution_net_buy'' JNull d,
               fl_program = field ''program_net_buy'' JNull d, fl_type = field ''data_type'' (JStr ''DAILY'') d\<rparr>
       in if aw_accepts_flow w r then Inr (a\<lparr>ar_flow := ar_flow a @ [r]\<rparr>) else Inl DbError)"

text \<open>The session around an insertion: a session that does not open or a row that is refused leaves the log as it was.\<close>

definition in_log_session :: "archive_world \<Rightarrow> (archive \<Rightarrow> archive res) \<Rightarrow> archive \<Rightarrow> archive" where
  "in_log_session w put a =
     (case aw_fault w of Some _ \<Rightarrow> a | None \<Rightarrow> (case put a of Inl _ \<Rightarrow> a | Inr a' \<Rightarrow> a'))"

definition log_decision_ledger :: "archive_world \<Rightarrow> ledger_data \<Rightarrow> archive \<Rightarrow> archive" where
  "log_decision_ledger w d = in_log_session w (insert_decision w d)"

definition log_shadow_radar :: "archive_world \<Rightarrow> shadow_data \<Rightarrow> archive \<Rightarrow> archive" where
  "log_shadow_radar w d = in_log_session w (insert_shadow w d)"

definition log_market_flow_snapshot :: "archive_world \<Rightarrow> string \<Rightarrow> (string \<times> jval) list \<Rightarrow> archive \<Rightarrow> archive" where
  "log_market_flow_snapshot w code d = in_log_session w (insert_flow w code d)"

section \<open>Lemmas\<close>

text \<open>A log only grows, by at most one entry, and the other logs stay.\<close>

lemma log_decision_appends:
  "\<exists>new. log_decision_ledger w d a = a\<lparr>ar_ledger := ar_ledger a @ new\<rparr> \<and> length new \<le> 1 \<and> list_all (\<lambda>r. lg_code r = ld_code d) new"
proof (cases "log_decision_ledger w d a = a")
  case True
  then show ?thesis by (intro exI [of _ "[]"]) simp
next
  case False
  then show ?thesis
    by (auto simp: log_decision_ledger_def in_log_session_def insert_decision_def rbind_def ledger_row_of_def
        split: option.splits sum.splits if_splits)
qed

lemma log_shadow_appends:
  "\<exists>new. log_shadow_radar w d a = a\<lparr>ar_shadow := ar_shadow a @ new\<rparr> \<and> length new \<le> 1 \<and> list_all (\<lambda>r. sh_code r = sx_code d) new"
proof (cases "log_shadow_radar w d a = a")
  case True
  then show ?thesis by (intro exI [of _ "[]"]) simp
next
  case False
  then show ?thesis
    by (auto simp: log_shadow_radar_def in_log_session_def insert_shadow_def shadow_row_of_def split: option.splits sum.splits if_splits)
qed

lemma log_flow_frames:
  "ar_ledger (log_market_flow_snapshot w code d a) = ar_ledger a"
  "ar_shadow (log_market_flow_snapshot w code d a) = ar_shadow a"
  by (simp_all add: log_market_flow_snapshot_def in_log_session_def insert_flow_def Let_def split: option.split sum.split)

text \<open>
  The flow of a broker names the foreigners differently: an entry made from it has no net
  purchase of foreigners.
\<close>

lemma flow_without_foreigners:
  assumes "aw_fault w = None" "\<And>r. aw_accepts_flow w r" "map_of d ''foreign_net_buy'' = None"
  shows "\<exists>r. ar_flow (log_market_flow_snapshot w code d a) = ar_flow a @ [r] \<and> fl_foreign r = JNull"
  using assms by (simp add: log_market_flow_snapshot_def in_log_session_def insert_flow_def field_def Let_def)

end
