(* ===== verification/Scout_Pipeline.thy ===== *)
theory Scout_Pipeline
  imports Scout_Cache Scout_Universe Archivist Telegram_Bot
begin

text \<open>
  \<open>services/scout-job/scout_pipeline.py\<close>: the tasks of the scout for one stock. The quantitative
  score, the first judgement of a model (the hunter), the debate and the final judgement (the
  judge), in a version with and one without the quantitative score, and the data fetched for
  a chosen stock.

  A task runs on the requests to the models and on the archive; an exception of a task is its
  result. The brain is a record of its methods, since one the code calls may not exist.
\<close>

section \<open>The brain\<close>

type_synonym jdict = "(string \<times> jval) list"

record brain =
  br_hunter :: "(jdict \<Rightarrow> jval llm_step) option"
  br_hunter_v5 :: "jdict \<Rightarrow> string \<Rightarrow> jval llm_step"
  br_debate :: "jdict \<Rightarrow> jval \<Rightarrow> string llm_step"
  br_judge :: "jdict \<Rightarrow> string \<Rightarrow> jval llm_step"
  br_judge_v5 :: "jdict \<Rightarrow> string \<Rightarrow> string \<Rightarrow> jval res llm_step"

text \<open>\<open>JennieBrain\<close> has no method \<open>get_jennies_analysis_score\<close>, only the one for v5.\<close>

definition jennie_brain :: "llm_world \<Rightarrow> (rat \<Rightarrow> string) \<Rightarrow> brain" where
  "jennie_brain w show_score =
     \<lparr>br_hunter = None, br_hunter_v5 = get_jennies_analysis_score_v5 w, br_debate = run_debate_session w,
      br_judge = run_judge_scoring w, br_judge_v5 = run_judge_scoring_v5 w show_score\<rparr>"

definition ask_hunter :: "brain \<Rightarrow> jdict \<Rightarrow> jval res llm_step" where
  "ask_hunter b info s =
     (case br_hunter b of None \<Rightarrow> (Inl AttributeError, s) | Some f \<Rightarrow> (case f info s of (v, s') \<Rightarrow> (Inr v, s')))"

section \<open>What a task sees\<close>

record task_world =
  tw_market :: market_world
  tw_quant :: quant_world
  tw_context :: "quant_result \<Rightarrow> string"
  tw_show :: "jval \<Rightarrow> string"
  tw_link :: redis_link
  tw_redis :: redis
  tw_snapshots :: "(string \<times> jdict) list"
  tw_news :: "(string \<times> string) list"
  tw_now_text :: string

record task_state =
  ts_llm :: llm_state
  ts_archive :: archive

type_synonym 'a task = "task_state \<Rightarrow> 'a res \<times> task_state"

definition news_no_db :: string where
  "news_no_db = [CHR 0xEB, CHR 0x89, CHR 0xB4, CHR 0xEC, CHR 0x8A, CHR 0xA4, CHR 0x20, CHR 0x44, CHR 0x42, CHR 0x20, CHR 0xEB, CHR 0xAF, CHR 0xB8, CHR 0xEC, CHR 0x97, CHR 0xB0, CHR 0xEA, CHR 0xB2, CHR 0xB0]"

definition news_none :: string where
  "news_none = [CHR 0xEC, CHR 0xB5, CHR 0x9C, CHR 0xEA, CHR 0xB7, CHR 0xBC, CHR 0x20, CHR 0xEA, CHR 0xB4, CHR 0x80, CHR 0xEB, CHR 0xA0, CHR 0xA8, CHR 0x20, CHR 0xEB, CHR 0x89, CHR 0xB4, CHR 0xEC, CHR 0x8A, CHR 0xA4, CHR 0x20, CHR 0xEC, CHR 0x97, CHR 0x86, CHR 0xEC, CHR 0x9D, CHR 0x8C]"

definition news_error :: string where
  "news_error = [CHR 0xEB, CHR 0x89, CHR 0xB4, CHR 0xEC, CHR 0x8A, CHR 0xA4, CHR 0x20, CHR 0xEA, CHR 0xB2, CHR 0x80, CHR 0xEC, CHR 0x83, CHR 0x89, CHR 0x20, CHR 0xEC, CHR 0x98, CHR 0xA4, CHR 0xEB, CHR 0xA5, CHR 0x98]"

definition news_failed :: string where
  "news_failed = [CHR 0xEB, CHR 0x89, CHR 0xB4, CHR 0xEC, CHR 0x8A, CHR 0xA4, CHR 0x20, CHR 0xEC, CHR 0xA1, CHR 0xB0, CHR 0xED, CHR 0x9A, CHR 0x8C, CHR 0x20, CHR 0xEC, CHR 0x8B, CHR 0xA4, CHR 0xED, CHR 0x8C, CHR 0xA8]"

definition news_no_cache :: string where
  "news_no_cache = [CHR 0xEB, CHR 0x89, CHR 0xB4, CHR 0xEC, CHR 0x8A, CHR 0xA4, CHR 0x20, CHR 0xEC, CHR 0xBA, CHR 0x90, CHR 0xEC, CHR 0x8B, CHR 0x9C, CHR 0x20, CHR 0xEC, CHR 0x97, CHR 0x86, CHR 0xEC, CHR 0x9D, CHR 0x8C]"

definition cached_news :: "task_world \<Rightarrow> string \<Rightarrow> string" where
  "cached_news w code = (if tw_news w = [] then news_no_cache else dict_get code news_none (tw_news w))"

text \<open>An empty snapshot counts as none.\<close>

definition cached_snapshot :: "task_world \<Rightarrow> string \<Rightarrow> jdict option" where
  "cached_snapshot w code = (case map_of (tw_snapshots w) code of Some (x # xs) \<Rightarrow> Some (x # xs) | _ \<Rightarrow> None)"

definition comma :: string where
  "comma = '', ''"

definition reasons_text :: "candidate \<Rightarrow> string" where
  "reasons_text c = join comma (cn_reasons c)"

text \<open>The news shown to a model; without a working store of news, the reasons instead.\<close>

definition news_reason :: "string \<Rightarrow> candidate \<Rightarrow> string" where
  "news_reason news c = (if news \<in> {news_no_db, news_error} then reasons_text c else news)"

section \<open>The quantitative score\<close>

text \<open>A figure of a snapshot: absent, a number, or a value that makes the scorer raise.\<close>

definition figure :: "string \<Rightarrow> jdict \<Rightarrow> rat option res" where
  "figure k snap =
     (case field k JNull snap of
        JNull \<Rightarrow> Inr None
      | v \<Rightarrow> (case jnum v of None \<Rightarrow> Inl TypeError | Some x \<Rightarrow> Inr (Some x)))"

definition quant_input_of :: "string \<Rightarrow> candidate \<Rightarrow> jdict \<Rightarrow> price_row list \<Rightarrow> rat list option \<Rightarrow> quant_input res" where
  "quant_input_of code c snap rows kospi =
     rbind (figure ''pbr'' snap) (\<lambda>pbr.
     rbind (figure ''per'' snap) (\<lambda>per.
     rbind (figure ''foreign_net_buy'' snap) (\<lambda>net.
       Inr \<lparr>qi_code = code, qi_name = cn_name c, qi_prices = Some rows, qi_kospi = kospi, qi_roe = None,
            qi_sales_growth = None, qi_eps_growth = None, qi_pbr = pbr, qi_per = per, qi_sentiment = 50, qi_category = None,
            qi_foreign = map_option floor net, qi_institution = None, qi_foreign_ratio = None\<rparr>)))"

definition unscored :: "string \<Rightarrow> candidate \<Rightarrow> invalid_reason \<Rightarrow> quant_result" where
  "unscored code c why =
     invalid_result
       \<lparr>qi_code = code, qi_name = cn_name c, qi_prices = None, qi_kospi = None, qi_roe = None, qi_sales_growth = None,
        qi_eps_growth = None, qi_pbr = None, qi_per = None, qi_sentiment = 50, qi_category = None, qi_foreign = None,
        qi_institution = None, qi_foreign_ratio = None\<rparr> why"

text \<open>
  Every exception becomes an invalid result. (The warning about categories of news whose
  signal is reversed only adds details to the result; a candidate has no sentiment score, so
  the default 50 stays below the 70 the warning asks for.)
\<close>

definition process_quant_scoring_task ::
  "task_world \<Rightarrow> rat list option \<Rightarrow> string \<Rightarrow> candidate \<Rightarrow> quant_caches \<Rightarrow> quant_result \<times> quant_caches" where
  "process_quant_scoring_task w kospi code c q =
     (case market_prices (tw_market w) code 150 of
        Inl e \<Rightarrow> (unscored code c (ScoringFailed e), q)
      | Inr rows \<Rightarrow>
          if length rows < 30 then (unscored code c (FewPrices (length rows)), q)
          else (case quant_input_of code c (dict_get code [] (tw_snapshots w)) rows kospi of
            Inl e \<Rightarrow> (unscored code c (ScoringFailed e), q)
          | Inr i \<Rightarrow> calculate_total_quant_score (tw_quant w) i q))"

section \<open>The hunter\<close>

record phase1 =
  p1_code :: string
  p1_candidate :: candidate
  p1_snapshot :: "jdict option"
  p1_info :: "jdict option"
  p1_quant :: "quant_result option"
  p1_hunter :: rat
  p1_reason :: jval
  p1_passed :: bool

definition no_snapshot :: "string \<Rightarrow> candidate \<Rightarrow> quant_result option \<Rightarrow> phase1" where
  "no_snapshot code c q =
     \<lparr>p1_code = code, p1_candidate = c, p1_snapshot = None, p1_info = None, p1_quant = q, p1_hunter = 0,
      p1_reason = JStr [CHR 0xEC, CHR 0x8A, CHR 0xA4, CHR 0xEB, CHR 0x83, CHR 0x85, CHR 0xEC, CHR 0x83, CHR 0xB7, CHR 0x20, CHR 0xEC, CHR 0xA1, CHR 0xB0, CHR 0xED, CHR 0x9A, CHR 0x8C, CHR 0x20, CHR 0xEC, CHR 0x8B, CHR 0xA4, CHR 0xED, CHR 0x8C, CHR 0xA8], p1_passed = False\<rparr>"

text \<open>\<open>result.get('score', 0)\<close>, used as a number.\<close>

definition answer_score :: "jval \<Rightarrow> (jdict \<times> rat) res" where
  "answer_score v =
     (case v of
        JObj d \<Rightarrow> (case jnum (field ''score'' (JNum 0) d) of None \<Rightarrow> Inl TypeError | Some x \<Rightarrow> Inr (d, x))
      | _ \<Rightarrow> Inl AttributeError)"

definition shadow_entry ::
  "archive_world option \<Rightarrow> string \<Rightarrow> candidate \<Rightarrow> string \<Rightarrow> jval \<Rightarrow> rat \<Rightarrow> string \<Rightarrow> rat \<Rightarrow> task_state \<Rightarrow> task_state" where
  "shadow_entry a code c stage why hunter trigger value s =
     (case a of
        None \<Rightarrow> s
      | Some aw \<Rightarrow>
          s\<lparr>ts_archive := log_shadow_radar aw
              \<lparr>sx_code = code, sx_name = cn_name c, sx_stage = stage, sx_reason = why, sx_hunter = hunter,
               sx_trigger = trigger, sx_value = value\<rparr> (ts_archive s)\<rparr>)"

definition benefit_line :: "task_world \<Rightarrow> jdict \<Rightarrow> string" where
  "benefit_line w benefit =
     [CHR 0x0A, CHR 0x0A] @ [CHR 0xE2, CHR 0x9A, CHR 0xA1, CHR 0x20, CHR 0x5B, CHR 0xEA, CHR 0xB2, CHR 0xBD, CHR 0xEC, CHR 0x9F, CHR 0x81, CHR 0xEC, CHR 0x82, CHR 0xAC, CHR 0x20, CHR 0xEC, CHR 0x88, CHR 0x98, CHR 0xED, CHR 0x98, CHR 0x9C, CHR 0x20, CHR 0xEA, CHR 0xB8, CHR 0xB0, CHR 0xED, CHR 0x9A, CHR 0x8C, CHR 0x5D, CHR 0x20] @ tw_show w (field ''reason'' (JStr []) benefit) @
     '' (+'' @ tw_show w (field ''score'' (JNum 0) benefit) @ [CHR 0xEC, CHR 0xA0, CHR 0x90, CHR 0x29]"

definition hunter_info :: "string \<Rightarrow> candidate \<Rightarrow> jdict \<Rightarrow> string \<Rightarrow> string \<Rightarrow> jdict" where
  "hunter_info code c snap technical news =
     [(''code'', JStr code), (''name'', JStr (cn_name c)), (''technical_reason'', JStr technical),
      (''news_reason'', JStr (news_reason news c)), (''per'', field ''per'' JNull snap), (''pbr'', field ''pbr'' JNull snap),
      (''market_cap'', field ''market_cap'' JNull snap)]"

definition hunter_missed :: jval where
  "hunter_missed = JStr [CHR 0x48, CHR 0x75, CHR 0x6E, CHR 0x74, CHR 0x65, CHR 0x72, CHR 0x20, CHR 0x53, CHR 0x63, CHR 0x6F, CHR 0x72, CHR 0x65, CHR 0x20, CHR 0xEB, CHR 0xAF, CHR 0xB8, CHR 0xEB, CHR 0x8B, CHR 0xAC]"

text \<open>A benefit from a competitor's bad news is added to the score, up to 100.\<close>

definition with_bonus :: "rat \<Rightarrow> rat \<Rightarrow> rat" where
  "with_bonus bonus x = (if 0 < bonus then min 100 (x + bonus) else x)"

definition process_phase1_hunter_v5_task ::
  "task_world \<Rightarrow> brain \<Rightarrow> archive_world option \<Rightarrow> string \<Rightarrow> candidate \<Rightarrow> quant_result \<Rightarrow> phase1 task" where
  "process_phase1_hunter_v5_task w b a code c q s =
     (let benefit = get_competitor_benefit_score (tw_link w) code (tw_redis w)
       in case cached_snapshot w code of
            None \<Rightarrow> (Inr (no_snapshot code c (Some q)), s)
          | Some snap \<Rightarrow>
              (case jnum (field ''score'' (JNum 0) benefit) of
                 None \<Rightarrow> (Inl TypeError, s)
               | Some bonus \<Rightarrow>
                   (let news = cached_news w code @ (if 0 < bonus then benefit_line w benefit else []);
                        info = hunter_info code c snap ''N/A'' news
                     in case br_hunter_v5 b info (tw_context w q) (ts_llm s) of
                          (v, l) \<Rightarrow>
                            (let s1 = s\<lparr>ts_llm := l\<rparr> in case answer_score v of
                               Inl e \<Rightarrow> (Inl e, s1)
                             | Inr (d, x) \<Rightarrow>
                                 (let h = with_bonus bonus x; passed = (60 \<le> h);
                                      s2 = (if \<not> passed \<and> 0 < h
                                            then shadow_entry a code c ''HUNTER'' (field ''reason'' hunter_missed d) h ''FILTER_REJECT'' h s1
                                            else s1)
                                   in (Inr \<lparr>p1_code = code, p1_candidate = c, p1_snapshot = Some snap, p1_info = Some info,
                                         p1_quant = Some q, p1_hunter = h, p1_reason = field ''reason'' (JStr []) d,
                                         p1_passed = passed\<rparr>, s2))))))"

text \<open>
  The hunter without the quantitative score also looks for a percentage in the first reason
  that mentions momentum: the first run of digits, points and signs before a percent sign.
\<close>

definition figure_char :: "char \<Rightarrow> bool" where
  "figure_char c \<longleftrightarrow> is_digit c \<or> c = CHR ''.'' \<or> c = CHR ''-''"

definition percent_here :: "string \<Rightarrow> string option" where
  "percent_here t =
     (let run = takeWhile figure_char t; rest = dropWhile figure_char t
       in if run \<noteq> [] \<and> rest \<noteq> [] \<and> hd rest = CHR ''%'' then Some run else None)"

function percent_figure :: "string \<Rightarrow> string option" where
  "percent_figure [] = None"
| "percent_figure (c # cs) =
     (case percent_here (c # cs) of
        Some run \<Rightarrow> Some run
      | None \<Rightarrow> percent_figure (dropWhile figure_char cs))"
  by pat_completeness auto

termination percent_figure
  by (relation "measure length") (auto simp: le_imp_less_Suc length_dropWhile_le)

function percent_after :: "string \<Rightarrow> string \<Rightarrow> string option" where
  "percent_after prefix t =
     (if prefix = [] then None
      else case split_once prefix t of
        None \<Rightarrow> None
      | Some (_, rest) \<Rightarrow> (case percent_here rest of Some run \<Rightarrow> Some run | None \<Rightarrow> percent_after prefix rest))"
  by pat_completeness auto

lemma split_once_less: "split_once sep t = Some (a, b) \<Longrightarrow> sep \<noteq> [] \<Longrightarrow> length b < length t"
  using split_once_shorter [of sep t a b] by (cases sep) simp_all

termination percent_after
  by (relation "measure (\<lambda>(p, t). length t)") (auto intro: split_once_less)

declare percent_after.simps [simp del]

definition momentum_word :: string where
  "momentum_word = [CHR 0xEB, CHR 0xAA, CHR 0xA8, CHR 0xEB, CHR 0xA9, CHR 0x98, CHR 0xED, CHR 0x85, CHR 0x80]"

definition momentum_factor_word :: string where
  "momentum_factor_word = [CHR 0xEB, CHR 0xAA, CHR 0xA8, CHR 0xEB, CHR 0xA9, CHR 0x98, CHR 0xED, CHR 0x85, CHR 0x80, CHR 0x20, CHR 0xED, CHR 0x8C, CHR 0xA9, CHR 0xED, CHR 0x84, CHR 0xB0]"

definition momentum_prefix :: string where
  "momentum_prefix = [CHR 0xEC, CHR 0x83, CHR 0x81, CHR 0xEB, CHR 0x8C, CHR 0x80, CHR 0x20, CHR 0xEB, CHR 0xAA, CHR 0xA8, CHR 0xEB, CHR 0xA9, CHR 0x98, CHR 0xED, CHR 0x85, CHR 0x80, CHR 0x3A, CHR 0x20]"

text \<open>The reason that is found, and its figure as a number, if it is one.\<close>

definition momentum_fact :: "string \<Rightarrow> (string \<Rightarrow> string option) \<Rightarrow> candidate \<Rightarrow> string \<times> rat option" where
  "momentum_fact what search c =
     (case find (str_in what) (cn_reasons c) of
        None \<Rightarrow> ([], None)
      | Some r \<Rightarrow> (r, case search r of None \<Rightarrow> None | Some run \<Rightarrow> parse_float run))"

definition num_or_null :: "rat option \<Rightarrow> jval" where
  "num_or_null x = (case x of None \<Rightarrow> JNull | Some r \<Rightarrow> JNum r)"

definition strategy_changed :: string where
  "strategy_changed = [CHR 0x4E, CHR 0x2F, CHR 0x41, CHR 0x20, CHR 0x28, CHR 0xEC, CHR 0xA0, CHR 0x84, CHR 0xEB, CHR 0x9E, CHR 0xB5, CHR 0x20, CHR 0xEB, CHR 0xB3, CHR 0x80, CHR 0xEA, CHR 0xB2, CHR 0xBD, CHR 0x29]"

definition process_phase1_hunter_task ::
  "task_world \<Rightarrow> brain \<Rightarrow> archive_world option \<Rightarrow> string \<Rightarrow> candidate \<Rightarrow> phase1 task" where
  "process_phase1_hunter_task w b a code c s =
     (case cached_snapshot w code of
        None \<Rightarrow> (Inr (no_snapshot code c None), s)
      | Some snap \<Rightarrow>
          (let (fact, momentum) = momentum_fact momentum_word percent_figure c;
               info = hunter_info code c snap strategy_changed (cached_news w code) @
                 [(''factor_info'', JStr fact), (''momentum_score'', num_or_null momentum)]
            in case ask_hunter b info (ts_llm s) of
                 (r, l) \<Rightarrow>
                   (let s1 = s\<lparr>ts_llm := l\<rparr> in case rbind r answer_score of
                      Inl e \<Rightarrow> (Inl e, s1)
                    | Inr (d, h) \<Rightarrow>
                        (let passed = (60 \<le> h);
                             s2 = (if \<not> passed
                                   then shadow_entry a code c ''HUNTER_V4'' (field ''reason'' hunter_missed d) h ''FILTER_REJECT'' h s1
                                   else s1)
                          in (Inr \<lparr>p1_code = code, p1_candidate = c, p1_snapshot = Some snap, p1_info = Some info,
                                p1_quant = None, p1_hunter = h, p1_reason = field ''reason'' (JStr []) d, p1_passed = passed\<rparr>, s2)))))"

section \<open>Debate and judgement\<close>

definition analysis_failed :: jval where
  "analysis_failed = JStr [CHR 0xEB, CHR 0xB6, CHR 0x84, CHR 0xEC, CHR 0x84, CHR 0x9D, CHR 0x20, CHR 0xEC, CHR 0x8B, CHR 0xA4, CHR 0xED, CHR 0x8C, CHR 0xA8]"

definition hybrid_v5 :: "rat \<Rightarrow> rat \<Rightarrow> rat" where
  "hybrid_v5 q l =
     (if 30 \<le> \<bar>q - l\<bar> then (if q < l then q * (75/100) + l * (25/100) else q * (45/100) + l * (55/100))
      else q * (60/100) + l * (40/100))"

definition grade_v5 :: "rat \<Rightarrow> string" where
  "grade_v5 h = (if 80 \<le> h then ''S'' else if 70 \<le> h then ''A'' else if 60 \<le> h then ''B'' else if 50 \<le> h then ''C'' else ''D'')"

definition key_words :: "candidate \<Rightarrow> string list" where
  "key_words c = concat (map (\<lambda>r. take 3 (filter (\<lambda>w. 1 < length (chars w)) (py_words r))) (cn_reasons c))"

definition snap_number :: "string \<Rightarrow> jdict option \<Rightarrow> rat option" where
  "snap_number k snap = (case snap of None \<Rightarrow> None | Some d \<Rightarrow> jnum (field k JNull d))"

definition judge_v5_entry :: "phase1 \<Rightarrow> string \<Rightarrow> string \<Rightarrow> jdict \<Rightarrow> rat \<Rightarrow> bool \<Rightarrow> ledger_data" where
  "judge_v5_entry p regime debate d score ok =
     \<lparr>ld_code = p1_code p, ld_name = cn_name (p1_candidate p), ld_hunter = p1_hunter p, ld_regime = regime,
      ld_keywords = key_words (p1_candidate p), ld_debate = debate,
      ld_counter = (if debate = [] then None else Some (concat (take 500 (chars debate)))),
      ld_thinking = (field ''grade'' JNull d \<noteq> JStr ''D''), ld_thinking_reason = ''Judge_v5'', ld_cost = 0,
      ld_gate = (if 0 < score then ''PASS'' else ''REJECT''), ld_decision = (if ok then ''BUY'' else ''HOLD''),
      ld_reason = field ''reason'' analysis_failed d\<rparr>"

definition ledger_entry :: "archive_world option \<Rightarrow> ledger_data \<Rightarrow> task_state \<Rightarrow> task_state" where
  "ledger_entry a d s =
     (case a of None \<Rightarrow> s | Some aw \<Rightarrow> s\<lparr>ts_archive := log_decision_ledger aw d (ts_archive s)\<rparr>)"

text \<open>The reason of a rejection by the judge repeats the score and the reason of the model.\<close>

definition hybrid_missed :: "task_world \<Rightarrow> rat \<Rightarrow> jval \<Rightarrow> jval" where
  "hybrid_missed w h why = JStr ([CHR 0x48, CHR 0x79, CHR 0x62, CHR 0x72, CHR 0x69, CHR 0x64, CHR 0x20, CHR 0x53, CHR 0x63, CHR 0x6F, CHR 0x72, CHR 0x65, CHR 0x20, CHR 0xEB, CHR 0xAF, CHR 0xB8, CHR 0xEB, CHR 0x8B, CHR 0xAC, CHR 0x20, CHR 0x28] @ tw_show w (JNum h) @ '') - '' @ tw_show w why)"

definition judge_v5_decision :: "task_world \<Rightarrow> phase1 \<Rightarrow> quant_result \<Rightarrow> jdict \<Rightarrow> rat \<Rightarrow> decision" where
  "judge_v5_decision w p q d score =
     (let h = hybrid_v5 (qr_total q) score; snap = p1_snapshot p
       in \<lparr>dn_code = p1_code p, dn_name = cn_name (p1_candidate p), dn_score = h, dn_reason = field ''reason'' analysis_failed d,
           dn_tradable = (75 \<le> h), dn_approved = (50 \<le> h), dn_hunter = None,
           dn_metadata = [(''llm_grade'', JStr (grade_v5 h)), (''llm_updated_at'', JStr (tw_now_text w)),
             (''source'', JStr ''hybrid_scorer_v5''), (''quant_score'', JNum (qr_total q)),
             (''llm_raw_score'', field ''score'' (JNum 0) d), (''hybrid_score'', JNum h), (''hunter_score'', JNum (p1_hunter p)),
             (''condition_win_rate'', num_or_null (qr_condition_win_rate q))],
           dn_per = snap_number ''per'' snap, dn_pbr = snap_number ''pbr'' snap, dn_roe = snap_number ''roe'' snap,
           dn_cap = snap_number ''market_cap'' snap, dn_sales = snap_number ''sales_growth'' snap,
           dn_eps = snap_number ''eps_growth'' snap\<rparr>)"

definition process_phase23_judge_v5_task ::
  "task_world \<Rightarrow> brain \<Rightarrow> archive_world option \<Rightarrow> string \<Rightarrow> phase1 \<Rightarrow> decision task" where
  "process_phase23_judge_v5_task w b a regime p s =
     (case (p1_info p, p1_quant p) of
        (Some info, Some q) \<Rightarrow>
          (let (debate, l1) = br_debate b info (JNum (p1_hunter p)) (ts_llm s);
               (r, l2) = br_judge_v5 b info debate (tw_context w q) l1;
               s1 = s\<lparr>ts_llm := l2\<rparr>
            in case rbind r answer_score of
                 Inl e \<Rightarrow> (Inl e, s1)
               | Inr (d, score) \<Rightarrow>
                   (let rec = judge_v5_decision w p q d score;
                        s2 = (if dn_approved rec then s1
                              else shadow_entry a (p1_code p) (p1_candidate p) ''JUDGE'' (hybrid_missed w (dn_score rec) (dn_reason rec))
                                (p1_hunter p) ''JUDGE_REJECT'' (dn_score rec) s1)
                     in (Inr rec, ledger_entry a (judge_v5_entry p regime debate d score (dn_approved rec)) s2)))
      | _ \<Rightarrow> (Inl KeyError, s))"

definition judge_decision :: "task_world \<Rightarrow> phase1 \<Rightarrow> jdict \<Rightarrow> rat \<Rightarrow> decision" where
  "judge_decision w p d score =
     \<lparr>dn_code = p1_code p, dn_name = cn_name (p1_candidate p), dn_score = score, dn_reason = field ''reason'' analysis_failed d,
      dn_tradable = (75 \<le> score), dn_approved = (50 \<le> score), dn_hunter = None,
      dn_metadata = [(''llm_grade'', field ''grade'' (JStr ''D'') d), (''llm_updated_at'', JStr (tw_now_text w)),
        (''source'', JStr ''llm_judge''), (''hunter_score'', JNum (p1_hunter p))],
      dn_per = None, dn_pbr = None, dn_roe = None, dn_cap = None, dn_sales = None, dn_eps = None\<rparr>"

definition process_phase23_debate_judge_task ::
  "task_world \<Rightarrow> brain \<Rightarrow> archive_world option \<Rightarrow> phase1 \<Rightarrow> decision task" where
  "process_phase23_debate_judge_task w b a p s =
     (case p1_info p of
        None \<Rightarrow> (Inl KeyError, s)
      | Some info \<Rightarrow>
          (let (debate, l1) = br_debate b info (JNum (p1_hunter p)) (ts_llm s);
               (v, l2) = br_judge b info debate l1;
               s1 = s\<lparr>ts_llm := l2\<rparr>
            in case answer_score v of
                 Inl e \<Rightarrow> (Inl e, s1)
               | Inr (d, score) \<Rightarrow>
                   (let rec = judge_decision w p d score
                     in (Inr rec,
                         if dn_approved rec then s1
                         else shadow_entry a (p1_code p) (p1_candidate p) ''JUDGE_V4'' (dn_reason rec) (p1_hunter p) ''JUDGE_REJECT'' score s1))))"

section \<open>The earlier single pass\<close>

definition rejected_decision :: "task_world \<Rightarrow> string \<Rightarrow> candidate \<Rightarrow> string \<Rightarrow> string \<Rightarrow> rat \<Rightarrow> jval \<Rightarrow> decision" where
  "rejected_decision w code c hash source score why =
     \<lparr>dn_code = code, dn_name = cn_name c, dn_score = score, dn_reason = why, dn_tradable = False, dn_approved = False,
      dn_hunter = None,
      dn_metadata = [(''llm_grade'', JStr ''D''), (''decision_hash'', JStr hash), (''llm_updated_at'', JStr (tw_now_text w)),
        (''source'', JStr source)],
      dn_per = None, dn_pbr = None, dn_roe = None, dn_cap = None, dn_sales = None, dn_eps = None\<rparr>"

definition debate_summary :: "string \<Rightarrow> string" where
  "debate_summary debate = clip 200 debate"

definition process_llm_decision_task ::
  "task_world \<Rightarrow> brain \<Rightarrow> (string \<Rightarrow> jdict res) \<Rightarrow> string \<Rightarrow> candidate \<Rightarrow> string \<Rightarrow> decision task" where
  "process_llm_decision_task w b snapshot_of code c hash s =
     (case snapshot_of code of
        Inl e \<Rightarrow> (Inl e, s)
      | Inr [] \<Rightarrow> (Inr (rejected_decision w code c hash ''llm'' 0 (JStr [CHR 0xEC, CHR 0x8A, CHR 0xA4, CHR 0xEB, CHR 0x83, CHR 0x85, CHR 0xEC, CHR 0x83, CHR 0xB7, CHR 0x20, CHR 0xEC, CHR 0xA1, CHR 0xB0, CHR 0xED, CHR 0x9A, CHR 0x8C, CHR 0x20, CHR 0xEC, CHR 0x8B, CHR 0xA4, CHR 0xED, CHR 0x8C, CHR 0xA8])), s)
      | Inr (x # xs) \<Rightarrow>
          (let (fact, momentum) = momentum_fact momentum_factor_word (percent_after momentum_prefix) c;
               info = hunter_info code c (x # xs) strategy_changed (reasons_text c) @
                 [(''factor_info'', JStr fact), (''momentum_score'', num_or_null momentum)];
               (r, l) = ask_hunter b info (ts_llm s)
            in case rbind r answer_score of
                 Inl e \<Rightarrow> (Inl e, s\<lparr>ts_llm := l\<rparr>)
               | Inr (d, h) \<Rightarrow>
                   if h < 40 then
                     (Inr (rejected_decision w code c hash ''llm_hunter_reject'' h (field ''reason'' (JStr [CHR 0x50, CHR 0x68, CHR 0x61, CHR 0x73, CHR 0x65, CHR 0x20, CHR 0x31, CHR 0x20, CHR 0xED, CHR 0x95, CHR 0x84, CHR 0xED, CHR 0x84, CHR 0xB0, CHR 0xEB, CHR 0xA7, CHR 0x81, CHR 0x20, CHR 0xED, CHR 0x83, CHR 0x88, CHR 0xEB, CHR 0x9D, CHR 0xBD]) d)),
                      s\<lparr>ts_llm := l\<rparr>)
                   else
                     (let (debate, l1) = br_debate b info (JNum h) l;
                          (v, l2) = br_judge b info debate l1;
                          p = \<lparr>p1_code = code, p1_candidate = c, p1_snapshot = None, p1_info = Some info, p1_quant = None,
                               p1_hunter = h, p1_reason = JNull, p1_passed = True\<rparr>
                       in (rbind (answer_score v) (\<lambda>(d', score).
                             Inr ((judge_decision w p d' score)\<lparr>dn_metadata :=
                               [(''llm_grade'', field ''grade'' (JStr ''D'') d'), (''decision_hash'', JStr hash),
                                (''llm_updated_at'', JStr (tw_now_text w)), (''source'', JStr ''llm_judge''),
                                (''debate_summary'', JStr (debate_summary debate))]\<rparr>)), s\<lparr>ts_llm := l2\<rparr>))))"

section \<open>Data for a chosen stock\<close>

text \<open>The prices of the broker: none, a frame, or a list of dictionaries.\<close>

datatype broker_prices = NoData | Frame "jdict list" | Rows "jdict list"

record broker_world =
  bw_prices :: "string \<Rightarrow> broker_prices res"
  bw_snapshot :: "string \<Rightarrow> jdict res"

definition daily_param :: "string \<Rightarrow> jval \<Rightarrow> jval \<Rightarrow> jval \<Rightarrow> jval \<Rightarrow> jdict list" where
  "daily_param code date close high low =
     (if close = JNull then []
      else [[(''p_date'', date), (''p_code'', JStr code), (''p_price'', close), (''p_high'', high), (''p_low'', low)]])"

definition daily_params :: "string \<Rightarrow> broker_prices \<Rightarrow> jdict list" where
  "daily_params code data =
     (case data of
        NoData \<Rightarrow> []
      | Frame rows \<Rightarrow>
          concat (map (\<lambda>r. daily_param code (either ''price_date'' ''date'' r) (either ''close_price'' ''price'' r)
            (either ''high_price'' ''high'' r) (either ''low_price'' ''low'' r)) rows)
      | Rows rows \<Rightarrow>
          concat (map (\<lambda>r.
            let get = (\<lambda>k k'. truthy_or (field k JNull r) (field k' JNull r))
             in daily_param code (get ''price_date'' ''date'') (get ''close_price'' ''price'') (get ''high_price'' ''high'')
                  (get ''low_price'' ''low'')) rows))"

text \<open>Only for tradable stocks are fundamentals looked up; any exception leaves both empty.\<close>

definition fetch_kis_data_task :: "broker_world \<Rightarrow> watch_candidate \<Rightarrow> jdict list \<times> jdict option" where
  "fetch_kis_data_task w c =
     (case rbind (bw_prices w (wc_code c)) (\<lambda>data.
             if wc_tradable c = Some True then
               rbind (bw_snapshot w (wc_code c)) (\<lambda>snap.
                 Inr (daily_params (wc_code c) data,
                   if snap = [] then None
                   else Some [(''code'', JStr (wc_code c)), (''per'', field ''per'' JNull snap), (''pbr'', field ''pbr'' JNull snap),
                     (''market_cap'', field ''market_cap'' JNull snap)]))
             else Inr (daily_params (wc_code c) data, None)) of
        Inl _ \<Rightarrow> ([], None)
      | Inr x \<Rightarrow> x)"

section \<open>Lemmas\<close>

lemma field_Cons: "field k d ((k', v) # xs) = (if k = k' then v else field k d xs)"
  by (simp add: field_def)

lemma field_Nil: "field k d [] = d"
  by (simp add: field_def)

lemmas field_simps' = field_Cons field_Nil

lemma no_hunter_score [simp]: "field ''hunter_score'' d (hunter_info code c snap technical news) = d"
  by (simp add: hunter_info_def field_simps')

lemma shadow_entry_llm [simp]: "ts_llm (shadow_entry a code c stage why h trigger v s) = ts_llm s"
  by (simp add: shadow_entry_def split: option.split)

lemma ledger_entry_llm [simp]: "ts_llm (ledger_entry a d s) = ts_llm s"
  by (simp add: ledger_entry_def split: option.split)

lemma hunter_v5_passed:
  assumes "process_phase1_hunter_v5_task w b a code c q s = (Inr p, s')" "p1_passed p"
  shows "\<exists>snap news. p1_info p = Some (hunter_info code c snap ''N/A'' news) \<and> p1_quant p = Some q \<and> p1_code p = code \<and>
    p1_candidate p = c \<and> 60 \<le> p1_hunter p"
  using assms
  by (auto simp: process_phase1_hunter_v5_task_def no_snapshot_def Let_def
      split: option.splits sum.splits prod.splits if_splits intro!: exI)

lemma shut_gate:
  "run_judge_scoring_v5 w show_score (hunter_info code c snap technical news) debate ctx s =
     (Inr (graded 0 (gate_reason show_score 0)), s)"
  by (simp add: run_judge_scoring_v5_def JUDGE_THRESHOLD_def)

lemma answer_graded: "\<exists>d. answer_score (graded x why) = Inr (d, x)"
  by (simp add: answer_score_def graded_def field_simps')

lemma hybrid_of_zero: "50 \<le> hybrid_v5 q 0 \<longleftrightarrow> 1000/9 \<le> q"
  by (auto simp: hybrid_v5_def abs_if)

section \<open>Properties\<close>

text \<open>
  In the pipeline with quantitative scores the judge is never asked: the information it gets
  has no score of the hunter, so its gate rejects with the score 0. A stock is then approved
  exactly if its quantitative score is at least 1000/9, and only the debate sends requests.
\<close>

theorem v5_approval_is_quantitative:
  assumes "process_phase1_hunter_v5_task w (jennie_brain lw show_score) a code c q s = (Inr p, s1)" "p1_passed p"
  shows "case process_phase23_judge_v5_task w (jennie_brain lw show_score) a' regime p s2 of
      (Inl _, _) \<Rightarrow> False
    | (Inr d, s3) \<Rightarrow> dn_approved d = (1000/9 \<le> qr_total q) \<and>
        (\<exists>info. p1_info p = Some info \<and> ts_llm s3 = snd (run_debate_session lw info (JNum (p1_hunter p)) (ts_llm s2)))"
proof -
  from hunter_v5_passed [OF assms] obtain snap news where
    info: "p1_info p = Some (hunter_info code c snap ''N/A'' news)" and q: "p1_quant p = Some q" by blast
  obtain debate l where debate: "run_debate_session lw (hunter_info code c snap ''N/A'' news) (JNum (p1_hunter p)) (ts_llm s2) = (debate, l)"
    by fastforce
  obtain d where d: "answer_score (graded 0 (gate_reason show_score 0)) = Inr (d, 0)" using answer_graded by blast
  show ?thesis
    by (simp add: process_phase23_judge_v5_task_def info q jennie_brain_def debate shut_gate d Let_def judge_v5_decision_def
        hybrid_of_zero)
qed

text \<open>
  The hunter of the older pipeline calls a method the brain does not have: for every stock with
  a snapshot the task raises, and nothing is asked of a model.
\<close>

theorem v4_hunter_always_raises:
  "process_phase1_hunter_task w (jennie_brain lw show_score) a code c s =
     (case cached_snapshot w code of
        None \<Rightarrow> (Inr (no_snapshot code c None), s)
      | Some _ \<Rightarrow> (Inl AttributeError, s))"
  by (simp add: process_phase1_hunter_task_def ask_hunter_def jennie_brain_def Let_def split: option.split prod.split)

text \<open>An archive whose sessions open and whose tables take every row.\<close>

definition archive_works :: "archive_world \<Rightarrow> bool" where
  "archive_works aw \<longleftrightarrow> aw_fault aw = None \<and> aw_accepts_ledger aw = (\<lambda>_. True) \<and> aw_accepts_shadow aw = (\<lambda>_. True) \<and>
     aw_dumps aw = (\<lambda>ws. Inr (join comma ws))"

lemma logged_ledger:
  "archive_works aw \<Longrightarrow> log_decision_ledger aw d a = a\<lparr>ar_ledger := ar_ledger a @ [ledger_row_of aw (join comma (ld_keywords d)) d]\<rparr>"
  by (simp add: archive_works_def log_decision_ledger_def in_log_session_def insert_decision_def)

lemma logged_shadow:
  "archive_works aw \<Longrightarrow> log_shadow_radar aw d a = a\<lparr>ar_shadow := ar_shadow a @ [shadow_row_of aw d]\<rparr>"
  by (simp add: archive_works_def log_shadow_radar_def in_log_session_def insert_shadow_def)

lemma judge_v5_result:
  assumes "process_phase23_judge_v5_task w b a regime p s = (Inr rec, s')"
  shows "\<exists>q d score l. p1_quant p = Some q \<and> rec = judge_v5_decision w p q d score \<and>
    s' = ledger_entry a (judge_v5_entry p regime (fst (br_debate b (the (p1_info p)) (JNum (p1_hunter p)) (ts_llm s))) d score (dn_approved rec))
      (if dn_approved rec then s\<lparr>ts_llm := l\<rparr>
       else shadow_entry a (p1_code p) (p1_candidate p) ''JUDGE'' (hybrid_missed w (dn_score rec) (dn_reason rec))
         (p1_hunter p) ''JUDGE_REJECT'' (dn_score rec) (s\<lparr>ts_llm := l\<rparr>))"
proof -
  obtain info q where i: "p1_info p = Some info" "p1_quant p = Some q"
    using assms by (auto simp: process_phase23_judge_v5_task_def split: option.splits)
  obtain debate l1 where d: "br_debate b info (JNum (p1_hunter p)) (ts_llm s) = (debate, l1)" by fastforce
  obtain r l2 where j: "br_judge_v5 b info debate (tw_context w q) l1 = (r, l2)" by fastforce
  obtain d' score where a: "rbind r answer_score = Inr (d', score)"
    using assms by (cases "rbind r answer_score") (auto simp: process_phase23_judge_v5_task_def i d j Let_def)
  show ?thesis
    using assms
    by (intro exI [of _ q] exI [of _ d'] exI [of _ score] exI [of _ l2])
      (auto simp: process_phase23_judge_v5_task_def i d j a Let_def)
qed

text \<open>
  Every judgement of the pipeline with quantitative scores leaves one entry in the ledger of
  decisions, and one in the log of rejections exactly if the stock was rejected.
\<close>

theorem judged_stock_is_logged:
  assumes "archive_works aw" "process_phase23_judge_v5_task w b (Some aw) regime p s = (Inr rec, s')"
  shows "\<exists>e shadows. ar_ledger (ts_archive s') = ar_ledger (ts_archive s) @ [e] \<and> lg_code e = p1_code p \<and>
    lg_decision e = (if dn_approved rec then ''BUY'' else ''HOLD'') \<and>
    ar_shadow (ts_archive s') = ar_shadow (ts_archive s) @ shadows \<and> map sh_code shadows = (if dn_approved rec then [] else [p1_code p])"
proof -
  from judge_v5_result [OF assms(2)] obtain q d score l where
    s': "s' = ledger_entry (Some aw) (judge_v5_entry p regime (fst (br_debate b (the (p1_info p)) (JNum (p1_hunter p)) (ts_llm s))) d score (dn_approved rec))
      (if dn_approved rec then s\<lparr>ts_llm := l\<rparr>
       else shadow_entry (Some aw) (p1_code p) (p1_candidate p) ''JUDGE'' (hybrid_missed w (dn_score rec) (dn_reason rec))
         (p1_hunter p) ''JUDGE_REJECT'' (dn_score rec) (s\<lparr>ts_llm := l\<rparr>))" by blast
  show ?thesis
    by (cases "dn_approved rec")
      (simp_all add: s' ledger_entry_def shadow_entry_def logged_ledger [OF assms(1)] logged_shadow [OF assms(1)]
        ledger_row_of_def shadow_row_of_def judge_v5_entry_def)
qed

definition demo_judge :: brain where
  "demo_judge =
     \<lparr>br_hunter = None, br_hunter_v5 = (\<lambda>_ _ s. (JNull, s)), br_debate = (\<lambda>_ _ s. (''debate'', s)),
      br_judge = (\<lambda>_ _ s. (JNull, s)), br_judge_v5 = (\<lambda>_ _ _ s. (Inr (JObj [(''score'', JNum 40)]), s))\<rparr>"

definition demo_archive_world :: archive_world where
  "demo_archive_world = \<lparr>aw_fault = None, aw_accepts_ledger = (\<lambda>_. True), aw_accepts_shadow = (\<lambda>_. True),
     aw_accepts_flow = (\<lambda>_. True), aw_now = 0, aw_dumps = (\<lambda>ws. Inr (join comma ws))\<rparr>"

definition demo_passed :: phase1 where
  "demo_passed =
     \<lparr>p1_code = ''005930'', p1_candidate = demo_stock ''x'', p1_snapshot = None, p1_info = Some [(''code'', JStr ''005930'')],
      p1_quant = Some (demo_result 45), p1_hunter = 70, p1_reason = JNull, p1_passed = True\<rparr>"

definition demo_tasks :: task_world where
  "demo_tasks =
     \<lparr>tw_market = \<lparr>mk_fault = (\<lambda>_. None), mk_codes_fault = None, mk_masters = [], mk_daily = []\<rparr>, tw_quant = demo_quant_world,
      tw_context = (\<lambda>_. ''context''), tw_show = (\<lambda>_. ''v''), tw_link = demo_link, tw_redis = [], tw_snapshots = [], tw_news = [],
      tw_now_text = ''now''\<rparr>"

definition demo_task_state :: task_state where
  "demo_task_state = \<lparr>ts_llm = no_requests, ts_archive = \<lparr>ar_ledger = [], ar_shadow = [], ar_flow = []\<rparr>\<rparr>"

theorem judged_stock_is_logged_witness:
  "\<exists>rec s'. process_phase23_judge_v5_task demo_tasks demo_judge (Some demo_archive_world) ''BULL'' demo_passed demo_task_state = (Inr rec, s') \<and>
     \<not> dn_approved rec \<and> map lg_decision (ar_ledger (ts_archive s')) = [''HOLD''] \<and> map sh_code (ar_shadow (ts_archive s')) = [''005930'']"
proof -
  have works: "archive_works demo_archive_world" by (simp add: archive_works_def demo_archive_world_def)
  have ex: "case process_phase23_judge_v5_task demo_tasks demo_judge (Some demo_archive_world) ''BULL'' demo_passed demo_task_state of
      (Inr rec, _) \<Rightarrow> \<not> dn_approved rec | _ \<Rightarrow> False" by code_simp
  then obtain rec s' where run: "process_phase23_judge_v5_task demo_tasks demo_judge (Some demo_archive_world) ''BULL'' demo_passed demo_task_state = (Inr rec, s')"
    and no: "\<not> dn_approved rec" by (auto split: prod.splits sum.splits)
  from judged_stock_is_logged [OF works run] run no show ?thesis
    by (auto simp: demo_task_state_def demo_passed_def)
qed

text \<open>What may be traded is approved, whatever the models answer.\<close>

lemma tradable_is_approved:
  "process_phase23_judge_v5_task w b a regime p s = (Inr d, s') \<Longrightarrow> dn_tradable d \<longrightarrow> dn_approved d"
  "process_phase23_debate_judge_task w b a p s = (Inr d, s') \<Longrightarrow> dn_tradable d \<longrightarrow> dn_approved d"
  by (auto simp: process_phase23_judge_v5_task_def process_phase23_debate_judge_task_def judge_v5_decision_def judge_decision_def
      Let_def split: option.splits prod.splits sum.splits)

text \<open>
  The fundamentals fetched for a chosen stock carry its code under another name than the
  writer reads: every row is written without a stock and a day, so of a whole run at most one
  row is left.
\<close>

definition fundamentals_of :: "broker_world \<Rightarrow> watch_candidate list \<Rightarrow> jdict list" where
  "fundamentals_of w cs = List.map_filter (\<lambda>c. snd (fetch_kis_data_task w c)) cs"

lemma fetched_fundamentals:
  "snd (fetch_kis_data_task w c) = Some f \<Longrightarrow> fundamental_key (fundamental_row_of f) = (JNull, JNull)"
  by (auto simp: fetch_kis_data_task_def rbind_def fundamental_key_def fundamental_row_of_def field_simps'
      split: sum.splits if_splits)

lemma upsert_one_key:
  assumes merge: "\<And>old new. key (merge old new) = key new"
    and "list_all (\<lambda>p. key (parse p) = k) ps" "list_all (\<lambda>r. key r = k) rows" "length rows \<le> 1"
    and "upsert_all (\<lambda>p. Inr (parse p)) (\<lambda>r rows. if ok r then Inr (put_row key merge r rows) else Inl DbError) ps rows = Inr rows'"
  shows "length rows' \<le> 1"
  using assms(2-)
proof (induction ps arbitrary: rows)
  case (Cons p ps)
  let ?next = "put_row key merge (parse p) rows"
  from Cons.prems(1,2,3) have "list_all (\<lambda>r. key r = k) ?next \<and> length ?next \<le> 1"
    by (cases rows) (auto simp: put_row_def merge)
  with Cons show ?case by (auto split: if_splits)
qed simp

theorem fundamentals_lose_their_stock:
  "list_all (\<lambda>f. fundamental_key (fundamental_row_of f) = (JNull, JNull)) (fundamentals_of w cs) \<and>
   length (update_all_stock_fundamentals fault accepts (fundamentals_of w cs) []) \<le> 1"
proof -
  have keys: "list_all (\<lambda>f. fundamental_key (fundamental_row_of f) = (JNull, JNull)) (fundamentals_of w cs)"
    by (auto simp: list_all_iff fundamentals_of_def List.map_filter_def dest: fetched_fundamentals)
  have "length rows' \<le> 1"
    if "upsert_all (\<lambda>p. Inr (fundamental_row_of p))
      (\<lambda>r rows. if accepts r then Inr (put_row fundamental_key fundamental_merge r rows) else Inl DbError)
      (fundamentals_of w cs) [] = Inr rows'" for rows'
    by (rule upsert_one_key [OF fundamental_rows.key_merge keys _ _ that]) simp_all
  with keys show ?thesis
    by (auto simp: update_all_stock_fundamentals_def committed_def rbind_eq_Inr_iff split: sum.split)
qed

end
