(* ===== verification/Scout.thy ===== *)
theory Scout
  imports Scout_Pipeline Market_Regime
begin

text \<open>
  \<open>services/scout-job/scout.py\<close>: one run of the scout. Candidates are collected from five sources
  and completed with prices, snapshots and news; the pipeline with quantitative scores (when
  it is enabled) or the older one chooses at most fifteen of them; the choice is written to
  the watchlist, and data for the chosen stocks are fetched.

  Tasks run in a pool of threads: they are run here one after the other in the order in which
  they complete, which is a parameter. All tasks of a pool run, even after one of them has
  raised.
\<close>

section \<open>The world of a run\<close>

record document =
  dc_code :: jval
  dc_name :: jval
  dc_content :: string
  dc_metadata_text :: string

text \<open>The store of news: None when it is not connected.\<close>

record news_store =
  nw_search :: "string \<Rightarrow> nat \<Rightarrow> document list res"
  nw_filtered :: "string \<Rightarrow> nat \<Rightarrow> string \<Rightarrow> document list res"

record scout_world =
  sw_ready :: "unit res"
  sw_store :: scout_store
  sw_link :: redis_link
  sw_redis :: redis
  sw_chips :: listing
  sw_sectors :: listing
  sw_portal :: portal
  sw_show :: "jval \<Rightarrow> string"
  sw_show1 :: "rat \<Rightarrow> string"
  sw_news :: "news_store option"
  sw_watch_fault :: "py_exc option"
  sw_market :: market_world
  sw_enrich_fault :: "py_exc option"
  sw_broker :: broker_world
  sw_archive :: archive_world
  sw_quant :: quant_world
  sw_context :: "quant_result \<Rightarrow> string"
  sw_hash :: hash_library
  sw_order :: "string \<Rightarrow> string list \<Rightarrow> string list"
  sw_brain :: brain
  sw_watch :: watch_world
  sw_today :: string
  sw_eval_fault :: "py_exc option"
  sw_eval_accepts :: "eval_row \<Rightarrow> bool"
  sw_daily_fault :: "py_exc option"
  sw_fund_fault :: "py_exc option"
  sw_fund_accepts :: "fundamental_row \<Rightarrow> bool"
  sw_financials :: "string list \<Rightarrow> watch_row list \<Rightarrow> watch_row list res"
  sw_serializable :: "jdict list \<Rightarrow> bool"

record scout_state =
  so_tasks :: task_state
  so_watch :: "watch_row list"
  so_config :: "config_row list"
  so_evals :: "eval_row list"
  so_fetched :: "fetched_row list"
  so_fundamentals :: "fundamental_row list"
  so_dashboard :: dashboard

definition sw_env :: "scout_world \<Rightarrow> string \<Rightarrow> string option" where
  "sw_env w k = st_environ (sw_store w) k"

text \<open>\<open>int(os.getenv(k, d))\<close>\<close>

definition int_env :: "scout_world \<Rightarrow> string \<Rightarrow> int \<Rightarrow> int res" where
  "int_env w k d =
     (case sw_env w k of None \<Rightarrow> Inr d | Some t \<Rightarrow> (case parse_int t of None \<Rightarrow> Inl ValueError | Some n \<Rightarrow> Inr n))"

definition is_hybrid_scoring_enabled :: "scout_world \<Rightarrow> bool" where
  "is_hybrid_scoring_enabled w =
     (to_lower (case sw_env w ''SCOUT_V5_ENABLED'' of None \<Rightarrow> ''false'' | Some t \<Rightarrow> t) = ''true'')"

section \<open>The candidates\<close>

type_synonym candidates = "(string \<times> candidate) list"

definition new_candidate :: "string \<Rightarrow> string list \<Rightarrow> candidate" where
  "new_candidate name reasons =
     \<lparr>cn_name = name, cn_reasons = reasons, cn_price = None, cn_volume = None, cn_news_hash = None, cn_foreign_net = None,
      cn_flow = None\<rparr>"

definition add_reason :: "string \<Rightarrow> candidate \<Rightarrow> candidate" where
  "add_reason t c = c\<lparr>cn_reasons := cn_reasons c @ [t]\<rparr>"

definition add_new :: "string \<Rightarrow> string \<Rightarrow> string \<Rightarrow> candidates \<Rightarrow> candidates" where
  "add_new code name why cs = (if map_of cs code = None then AList.update code (new_candidate name [why]) cs else cs)"

definition add_or_extend :: "string \<Rightarrow> string \<Rightarrow> string \<Rightarrow> candidates \<Rightarrow> candidates" where
  "add_or_extend code name why cs =
     (case map_of cs code of
        None \<Rightarrow> AList.update code (new_candidate name [why]) cs
      | Some c \<Rightarrow> AList.update code (add_reason why c) cs)"

definition chip_reason :: string where
  "chip_reason = [CHR 0x4B, CHR 0x4F, CHR 0x53, CHR 0x50, CHR 0x49, CHR 0x20, CHR 0xEC, CHR 0x8B, CHR 0x9C, CHR 0xEC, CHR 0xB4, CHR 0x9D, CHR 0x20, CHR 0xEC, CHR 0x83, CHR 0x81, CHR 0xEC, CHR 0x9C, CHR 0x84]"

definition static_reason :: string where
  "static_reason = [CHR 0xEC, CHR 0xA0, CHR 0x95, CHR 0xEC, CHR 0xA0, CHR 0x81, CHR 0x20, CHR 0xEC, CHR 0x9A, CHR 0xB0, CHR 0xEB, CHR 0x9F, CHR 0x89, CHR 0xEC, CHR 0xA3, CHR 0xBC]"

definition hot_reason :: "scout_world \<Rightarrow> hot_stock \<Rightarrow> string" where
  "hot_reason w h = [CHR 0xED, CHR 0x95, CHR 0xAB, CHR 0x20, CHR 0xEC, CHR 0x84, CHR 0xB9, CHR 0xED, CHR 0x84, CHR 0xB0, CHR 0x20, CHR 0x28] @ ht_sector h @ '', +'' @ sw_show1 w (ht_momentum h) @ ''%)''"

definition rag_reason :: "document \<Rightarrow> string" where
  "rag_reason d = [CHR 0x52, CHR 0x41, CHR 0x47, CHR 0x20, CHR 0xED, CHR 0x8F, CHR 0xAC, CHR 0xEC, CHR 0xB0, CHR 0xA9, CHR 0x3A, CHR 0x20] @ concat (take 20 (chars (dc_content d))) @ ''...''"

definition momentum_reason :: "scout_world \<Rightarrow> momentum_stock \<Rightarrow> string" where
  "momentum_reason w m = [CHR 0xEB, CHR 0xAA, CHR 0xA8, CHR 0xEB, CHR 0xA9, CHR 0x98, CHR 0xED, CHR 0x85, CHR 0x80, CHR 0x20, CHR 0x28] @ sw_show1 w (mo_momentum m) @ ''%)''"

definition add_rag :: "scout_world \<Rightarrow> candidates \<Rightarrow> candidates" where
  "add_rag w cs =
     (case sw_news w of
        None \<Rightarrow> cs
      | Some n \<Rightarrow>
          (case nw_search n [CHR 0xEC, CHR 0x8B, CHR 0xA4, CHR 0xEC, CHR 0xA0, CHR 0x81, CHR 0x20, CHR 0xED, CHR 0x98, CHR 0xB8, CHR 0xEC, CHR 0x9E, CHR 0xAC, CHR 0x20, CHR 0xEA, CHR 0xB3, CHR 0x84, CHR 0xEC, CHR 0x95, CHR 0xBD, CHR 0x20, CHR 0xEC, CHR 0x88, CHR 0x98, CHR 0xEC, CHR 0xA3, CHR 0xBC] 50 of
             Inl _ \<Rightarrow> cs
           | Inr docs \<Rightarrow>
               fold (\<lambda>d cs.
                 if jtruth (dc_code d) \<and> jtruth (dc_name d)
                 then add_or_extend (str_of (sw_show w) (dc_code d)) (str_of (sw_show w) (dc_name d)) (rag_reason d) cs
                 else cs) docs cs))"

definition collect_candidates :: "scout_world \<Rightarrow> (string \<times> plain_entry) list \<Rightarrow> candidates res" where
  "collect_candidates w watchlist =
     rbind (int_env w ''SCOUT_UNIVERSE_SIZE'' 200) (\<lambda>n.
       let chips = fold (\<lambda>(code, name). AList.update code (new_candidate (str_of (sw_show w) name) [chip_reason]))
             (get_dynamic_blue_chips (sw_show w) (sw_chips w) (sw_portal w) n) [];
           hot = fold (\<lambda>h. add_or_extend (ht_code h) (str_of (sw_show w) (ht_name h)) (hot_reason w h))
             (get_hot_sector_stocks (analyze_sector_momentum (sw_show w) (sw_sectors w)) 30) chips;
           static = fold (\<lambda>(code, name, _). add_new code name static_reason) BLUE_CHIP_STOCKS hot;
           rag = add_rag w static
        in Inr (fold (\<lambda>m. add_new (mo_code m) (mo_name m) (momentum_reason w m))
             (get_momentum_stocks (sw_market w) 6 30 watchlist) rag))"

section \<open>Prices, snapshots, news and flows\<close>

text \<open>The last close and volume of every candidate that has a row; a failing query changes nothing.\<close>

definition enriched :: "market_world \<Rightarrow> string \<Rightarrow> candidate \<Rightarrow> candidate" where
  "enriched m code c =
     (case latest_first code (mk_daily m) of
        [] \<Rightarrow> c
      | r # _ \<Rightarrow>
          c\<lparr>cn_price := Some (close_price (row_bar r)),
            cn_volume := Some (case row_volume r of None \<Rightarrow> 0 | Some v \<Rightarrow> py_int v)\<rparr>)"

definition enrich_candidates_with_market_data :: "scout_world \<Rightarrow> candidates \<Rightarrow> candidates" where
  "enrich_candidates_with_market_data w cs =
     (case sw_enrich_fault w of
        Some _ \<Rightarrow> cs
      | None \<Rightarrow> map (\<lambda>(code, c). (code, enriched (sw_market w) code c)) cs)"

text \<open>The news of a stock: by its code, or by its name when the search by code fails.\<close>

definition mentions :: "string \<Rightarrow> string \<Rightarrow> document \<Rightarrow> bool" where
  "mentions code name d \<longleftrightarrow> str_in name (dc_content d) \<or> str_in code (dc_metadata_text d)"

definition news_items :: "document list \<Rightarrow> string list" where
  "news_items docs =
     concat (map (\<lambda>(i, d). let t = py_strip (concat (take 100 (chars (dc_content d))))
         in if t = [] then [] else [[CHR 0x5B, CHR 0xEB, CHR 0x89, CHR 0xB4, CHR 0xEC, CHR 0x8A, CHR 0xA4] @ [char_of (48 + i)] @ ''] '' @ t]) (enumerate (1::nat) (take 3 docs)))"

definition fetch_stock_news_from_chroma :: "news_store option \<Rightarrow> string \<Rightarrow> string \<Rightarrow> string" where
  "fetch_stock_news_from_chroma store code name =
     (case store of
        None \<Rightarrow> news_no_db
      | Some n \<Rightarrow>
          (case (case nw_filtered n (name @ [CHR 0x20, CHR 0xEC, CHR 0x8B, CHR 0xA4, CHR 0xEC, CHR 0xA0, CHR 0x81, CHR 0x20, CHR 0xEC, CHR 0x88, CHR 0x98, CHR 0xEC, CHR 0xA3, CHR 0xBC, CHR 0x20, CHR 0xED, CHR 0x98, CHR 0xB8, CHR 0xEC, CHR 0x9E, CHR 0xAC]) 3 code of
                   Inr docs \<Rightarrow> Inr docs
                 | Inl _ \<Rightarrow> rbind (nw_search n (name @ [CHR 0x20, CHR 0xEC, CHR 0xA3, CHR 0xBC, CHR 0xEC, CHR 0x8B, CHR 0x9D, CHR 0x20, CHR 0xEB, CHR 0x89, CHR 0xB4, CHR 0xEC, CHR 0x8A, CHR 0xA4]) 3) (\<lambda>docs. Inr (filter (mentions code name) docs))) of
             Inl _ \<Rightarrow> news_error
           | Inr docs \<Rightarrow> (case news_items docs of [] \<Rightarrow> news_none | x # xs \<Rightarrow> join '' | '' (x # xs))))"

definition fetched_snapshots :: "scout_world \<Rightarrow> candidates \<Rightarrow> (string \<times> jdict) list" where
  "fetched_snapshots w cs =
     concat (map (\<lambda>code. case bw_snapshot (sw_broker w) code of Inr (x # xs) \<Rightarrow> [(code, x # xs)] | _ \<Rightarrow> []) (map fst cs))"

definition fetched_news :: "scout_world \<Rightarrow> candidates \<Rightarrow> (string \<times> string) list" where
  "fetched_news w cs =
     (if sw_news w = None then []
      else map (\<lambda>(code, c). (code, fetch_stock_news_from_chroma (sw_news w) code (cn_name c))) cs)"

definition prefetch_all_data :: "scout_world \<Rightarrow> candidates \<Rightarrow> (string \<times> jdict) list \<times> (string \<times> string) list" where
  "prefetch_all_data w cs = (fetched_snapshots w cs, fetched_news w cs)"

definition news_missing :: "string list" where
  "news_missing = [news_no_db, news_none, news_error, news_failed, news_no_cache]"

definition hash_news :: "scout_world \<Rightarrow> (string \<times> string) list \<Rightarrow> candidates \<Rightarrow> candidates" where
  "hash_news w news cs =
     map (\<lambda>(code, c).
       case map_of news code of
         None \<Rightarrow> (code, c)
       | Some t \<Rightarrow>
           (code, if t = [] \<or> t \<in> set news_missing then c else c\<lparr>cn_news_hash := Some (take 16 (hl_md5 (sw_hash w) t))\<rparr>)) cs"

text \<open>
  The flow of the investors: neither client of the broker has a method \<open>get_market_data\<close>, so
  the lookup raises and every flow is None.
\<close>

definition client_trend :: "scout_world \<Rightarrow> (string \<Rightarrow> jdict list res) option" where
  "client_trend w = None"

definition process_flow_data :: "(string \<Rightarrow> jdict list res) option \<Rightarrow> string \<Rightarrow> jdict option" where
  "process_flow_data trend code =
     (case trend of
        None \<Rightarrow> None
      | Some f \<Rightarrow>
          (case f code of
             Inl _ \<Rightarrow> None
           | Inr ts \<Rightarrow> if ts = [] \<or> last ts = [] then None else Some (last ts)))"

definition flow_of :: "jdict \<Rightarrow> (jval \<times> jval \<times> jval) res" where
  "flow_of d =
     (case (map_of d ''foreigner_net_buy'', map_of d ''institution_net_buy'', map_of d ''individual_net_buy'') of
        (Some f, Some i, Some p) \<Rightarrow> Inr (f, i, p)
      | _ \<Rightarrow> Inl KeyError)"

fun add_flows ::
  "scout_world \<Rightarrow> (string \<Rightarrow> jdict list res) option \<Rightarrow> string list \<Rightarrow> candidates \<Rightarrow> task_state \<Rightarrow> candidates res \<times> task_state" where
  "add_flows w trend [] cs s = (Inr cs, s)"
| "add_flows w trend (code # codes) cs s =
     (case process_flow_data trend code of
        None \<Rightarrow> add_flows w trend codes cs s
      | Some d \<Rightarrow>
          (case flow_of d of
             Inl e \<Rightarrow> (Inl e, s)
           | Inr flow \<Rightarrow>
               add_flows w trend codes
                 (map (\<lambda>(k, c). (k, if k = code then c\<lparr>cn_flow := Some flow\<rparr> else c)) cs)
                 (s\<lparr>ts_archive := log_market_flow_snapshot (sw_archive w) code d (ts_archive s)\<rparr>)))"

section \<open>Pools of tasks\<close>

fun run_tasks :: "('x \<Rightarrow> 'a task) \<Rightarrow> 'x list \<Rightarrow> task_state \<Rightarrow> 'a res list \<times> task_state" where
  "run_tasks f [] s = ([], s)"
| "run_tasks f (x # xs) s =
     (let (r, s1) = f x s; (rs, s2) = run_tasks f xs s1 in (r # rs, s2))"

fun all_results :: "'a res list \<Rightarrow> 'a list res" where
  "all_results [] = Inr []"
| "all_results (r # rs) = rbind r (\<lambda>x. rbind (all_results rs) (\<lambda>xs. Inr (x # xs)))"

definition task_world_of :: "scout_world \<Rightarrow> (string \<times> jdict) list \<times> (string \<times> string) list \<Rightarrow> task_world" where
  "task_world_of w caches =
     \<lparr>tw_market = sw_market w, tw_quant = sw_quant w, tw_context = sw_context w, tw_show = sw_show w, tw_link = sw_link w,
      tw_redis = sw_redis w, tw_snapshots = fst caches, tw_news = snd caches,
      tw_now_text = st_iso (sw_store w) (st_now (sw_store w))\<rparr>"

section \<open>The choice\<close>

definition WATCHLIST_QUOTA :: nat where
  "WATCHLIST_QUOTA = 15"

definition kospi_entry :: watch_candidate where
  "kospi_entry =
     \<lparr>wc_code = ''0001'', wc_name = ''KOSPI'', wc_tradable = Some False, wc_score = None, wc_reason = None, wc_metadata = [],
      wc_per = None, wc_pbr = None, wc_roe = None, wc_cap = None, wc_sales = None, wc_eps = None\<rparr>"

definition kospi_first :: "candidates \<Rightarrow> watch_candidate list" where
  "kospi_first cs = (if map_of cs ''0001'' = None then [] else [kospi_entry])"

definition with_quota :: "watch_candidate list \<Rightarrow> watch_candidate list" where
  "with_quota xs =
     (if WATCHLIST_QUOTA < length xs then take WATCHLIST_QUOTA (sort_desc (\<lambda>x. score_or_zero (wc_score x)) xs) else xs)"

definition for_debate :: "int \<Rightarrow> phase1 list \<Rightarrow> phase1 list" where
  "for_debate n ps = (if n < int (length ps) then py_prefix n (sort_desc p1_hunter ps) else ps)"

definition approved_entries :: "decision list \<Rightarrow> watch_candidate list" where
  "approved_entries ds = map record_to_watchlist_entry (filter dn_approved ds)"

definition by_order :: "scout_world \<Rightarrow> string \<Rightarrow> ('a \<Rightarrow> string) \<Rightarrow> 'a list \<Rightarrow> 'a list" where
  "by_order w phase code xs = concat (map (\<lambda>c. filter (\<lambda>x. code x = c) xs) (sw_order w phase (remdups (map code xs))))"

text \<open>What a pipeline hands on: the entries, the number of candidates and of those that passed the first phase.\<close>

type_synonym chosen = "watch_candidate list \<times> nat \<times> nat"

section \<open>The pipeline with quantitative scores\<close>

definition regime_of :: "scout_world \<Rightarrow> price_row list \<Rightarrow> string" where
  "regime_of w kospi =
     (if kospi = [] then ''SIDEWAYS''
      else fst (detect_regime (qw_backend (sw_quant w)) (row_bars kospi) (close_price (row_bar (last kospi)))))"

fun quant_scores ::
  "task_world \<Rightarrow> rat list option \<Rightarrow> candidates \<Rightarrow> quant_caches \<Rightarrow> (string \<times> quant_result) list" where
  "quant_scores w kospi [] q = []"
| "quant_scores w kospi ((code, c) # cs) q =
     (if code = ''0001'' then quant_scores w kospi cs q
      else (case process_quant_scoring_task w kospi code c q of
        (r, q') \<Rightarrow> (code, r) # quant_scores w kospi cs q'))"

text \<open>The average of the filtered scores is only logged, but no filtered result makes it raise.\<close>

definition filtered_scores :: "(string \<times> quant_result) list \<Rightarrow> quant_result list res" where
  "filtered_scores scores =
     (let passed = filter_candidates (map snd scores) (Some (2/10))
       in rbind (py_div (sum_list (map qr_total passed)) (of_nat (length passed))) (\<lambda>_. Inr passed))"

definition chosen_candidates :: "candidates \<Rightarrow> (string \<times> quant_result) list \<Rightarrow> quant_result list \<Rightarrow> (string \<times> candidate \<times> quant_result) list" where
  "chosen_candidates cs scores passed =
     List.map_filter (\<lambda>(code, q).
       if code \<in> qr_code ` set passed then map_option (\<lambda>c. (code, c, q)) (map_of cs code) else None) scores"

definition run_v5 :: "scout_world \<Rightarrow> task_world \<Rightarrow> candidates \<Rightarrow> task_state \<Rightarrow> chosen res \<times> task_state" where
  "run_v5 w tw cs s =
     (case market_prices (sw_market w) ''0001'' 60 of
        Inl e \<Rightarrow> (Inl e, s)
      | Inr kospi \<Rightarrow>
          (let regime = regime_of w kospi;
               scores = quant_scores tw (if kospi = [] then None else Some (row_closes kospi)) cs no_caches
            in case filtered_scores scores of
                 Inl e \<Rightarrow> (Inl e, s)
               | Inr passed \<Rightarrow>
                   (let (rs, s1) = run_tasks (\<lambda>(code, c, q). process_phase1_hunter_v5_task tw (sw_brain w) (Some (sw_archive w)) code c q)
                          (by_order w ''v5_hunter'' fst (chosen_candidates cs scores passed)) s
                     in case rbind (all_results rs) (\<lambda>ps. rbind (int_env w ''SCOUT_PHASE2_MAX_ENTRIES'' 50) (\<lambda>n.
                              Inr (for_debate n (filter p1_passed ps)))) of
                          Inl e \<Rightarrow> (Inl e, s1)
                        | Inr ps \<Rightarrow>
                            (let (ds, s2) = run_tasks (process_phase23_judge_v5_task tw (sw_brain w) (Some (sw_archive w)) regime)
                                   (by_order w ''v5_judge'' p1_code ps) s1
                              in (rbind (all_results ds) (\<lambda>ds.
                                    Inr (with_quota (kospi_first cs @ approved_entries ds), length cs, length ps)), s2)))))"

section \<open>The older pipeline\<close>

definition current_of :: "candidate \<Rightarrow> current_data" where
  "current_of c =
     \<lparr>cd_price_bucket = get_price_bucket (case cn_price c of None \<Rightarrow> 0 | Some p \<Rightarrow> p),
      cd_volume_bucket = get_volume_bucket (case cn_volume c of None \<Rightarrow> 0 | Some v \<Rightarrow> v), cd_news_hash = cn_news_hash c\<rparr>"

definition cached_decision :: "string \<Rightarrow> candidate \<Rightarrow> eval_row \<Rightarrow> decision" where
  "cached_decision code c e =
     \<lparr>dn_code = code, dn_name = cn_name c, dn_score = (if ev_judge e \<noteq> 0 then ev_judge e else ev_hunter e),
      dn_reason = (case ev_reason e of None \<Rightarrow> JNull | Some t \<Rightarrow> JStr t), dn_tradable = ev_tradable e,
      dn_approved = ev_approved e, dn_hunter = None,
      dn_metadata = [(''llm_grade'', case ev_grade e of None \<Rightarrow> JNull | Some g \<Rightarrow> JStr g), (''source'', JStr ''cache'')],
      dn_per = None, dn_pbr = None, dn_roe = None, dn_cap = None, dn_sales = None, dn_eps = None\<rparr>"

definition cache_hits :: "string \<Rightarrow> (string \<times> eval_row) list \<Rightarrow> candidates \<Rightarrow> decision list" where
  "cache_hits today cache cs =
     List.map_filter (\<lambda>(code, c).
       case map_of cache code of
         Some e \<Rightarrow> if is_cache_valid_direct (Some e) (current_of c) today then Some (cached_decision code c e) else None
       | None \<Rightarrow> None) cs"

definition uncached :: "string \<Rightarrow> (string \<times> eval_row) list \<Rightarrow> candidates \<Rightarrow> candidates" where
  "uncached today cache cs = filter (\<lambda>(code, c). \<not> is_cache_valid_direct (map_of cache code) (current_of c) today) cs"

definition phase1_rejected :: string where
  "phase1_rejected = [CHR 0x50, CHR 0x68, CHR 0x61, CHR 0x73, CHR 0x65, CHR 0x20, CHR 0x31, CHR 0x20, CHR 0xED, CHR 0x95, CHR 0x84, CHR 0xED, CHR 0x84, CHR 0xB0, CHR 0xEB, CHR 0xA7, CHR 0x81, CHR 0x20, CHR 0xED, CHR 0x83, CHR 0x88, CHR 0xEB, CHR 0x9D, CHR 0xBD]"

definition rejected_by_hunter :: "task_world \<Rightarrow> phase1 \<Rightarrow> decision" where
  "rejected_by_hunter tw p =
     \<lparr>dn_code = p1_code p, dn_name = cn_name (p1_candidate p), dn_score = p1_hunter p,
      dn_reason = truthy_or (p1_reason p) (JStr phase1_rejected), dn_tradable = False, dn_approved = False,
      dn_hunter = Some (p1_hunter p),
      dn_metadata = [(''llm_grade'', JStr ''D''), (''llm_updated_at'', JStr (tw_now_text tw)), (''source'', JStr ''llm_hunter_reject'')],
      dn_per = None, dn_pbr = None, dn_roe = None, dn_cap = None, dn_sales = None, dn_eps = None\<rparr>"

definition eval_of :: "scout_world \<Rightarrow> task_world \<Rightarrow> candidates \<Rightarrow> decision \<Rightarrow> string \<times> eval_row" where
  "eval_of w tw cs d =
     (let current = (case map_of cs (dn_code d) of None \<Rightarrow> current_of (new_candidate [] []) | Some c \<Rightarrow> current_of c)
       in (dn_code d,
           \<lparr>ev_code = dn_code d, ev_name = dn_name d, ev_price_bucket = cd_price_bucket current,
            ev_volume_bucket = cd_volume_bucket current, ev_news_hash = cd_news_hash current, ev_date = Some (sw_today w),
            ev_hunter = (case dn_hunter d of None \<Rightarrow> dn_score d | Some h \<Rightarrow> h), ev_judge = dn_score d,
            ev_grade = jtext (field ''llm_grade'' JNull (dn_metadata d)), ev_reason = cut_text (jtext (dn_reason d)),
            ev_news = cut_text (map_of (tw_news tw) (dn_code d)), ev_approved = dn_approved d, ev_tradable = dn_tradable d\<rparr>))"

text \<open>
  The decisions by stock, a later one in the place of an earlier one, as they are saved: only
  when the judge was called at least once.
\<close>

definition decisions_by_code :: "decision list \<Rightarrow> (string \<times> decision) list" where
  "decisions_by_code ds = fold (\<lambda>d. AList.update (dn_code d) d) ds []"

definition save_evaluations :: "scout_world \<Rightarrow> task_world \<Rightarrow> candidates \<Rightarrow> decision list \<Rightarrow> nat \<Rightarrow> scout_state \<Rightarrow> scout_state" where
  "save_evaluations w tw cs ds calls s =
     (if calls = 0 then s
      else s\<lparr>so_evals := save_llm_cache_batch OrmSession (sw_eval_fault w) (sw_eval_accepts w)
                (map (\<lambda>(c, d). eval_of w tw cs d) (decisions_by_code ds)) (so_evals s),
             so_config := save_last_llm_run_at (sw_store w) (st_now (sw_store w)) (so_config s)\<rparr>)"

definition shown :: "scout_world \<Rightarrow> int \<Rightarrow> string \<Rightarrow> string \<Rightarrow> rat \<Rightarrow> nat \<Rightarrow> nat \<Rightarrow> nat \<Rightarrow> nat \<Rightarrow> scout_state \<Rightarrow> scout_state" where
  "shown w phase name status progress n p1 p2 selected s =
     s\<lparr>so_dashboard := update_pipeline_status (sw_link w)
        \<lparr>ps_phase = phase, ps_phase_name = name, ps_status = status, ps_progress = progress, ps_stock = [],
         ps_candidates = n, ps_passed1 = p1, ps_passed2 = p2, ps_selected = selected\<rparr> (so_dashboard s)\<rparr>"

definition run_v4 :: "scout_world \<Rightarrow> task_world \<Rightarrow> candidates \<Rightarrow> scout_state \<Rightarrow> chosen res \<times> scout_state" where
  "run_v4 w tw all s =
     (let cache = load_llm_cache_from_db OrmSession (sw_eval_fault w) (so_evals s);
          cs = AList.delete ''0001'' all;
          hits = cache_hits (sw_today w) cache cs;
          todo = uncached (sw_today w) cache cs;
          first = kospi_first all @ approved_entries hits
       in if todo = [] then (Inr (with_quota first, length cs, 0), s)
          else
            (let s0 = shown w 1 ''Hunter Scout'' ''running'' 0 (length cs) 0 0 0 s;
                 (rs, t1) = run_tasks (\<lambda>(code, c). process_phase1_hunter_task tw (sw_brain w) None code c)
                   (by_order w ''v4_hunter'' fst todo) (so_tasks s0);
                 s1 = s0\<lparr>so_tasks := t1\<rparr>
              in case rbind (all_results rs) (\<lambda>ps. rbind (int_env w ''SCOUT_PHASE2_MAX_ENTRIES'' 50) (\<lambda>n. Inr (ps, n))) of
                   Inl e \<Rightarrow> (Inl e, s1)
                 | Inr (ps, n) \<Rightarrow>
                     (let rejected = map (rejected_by_hunter tw) (filter (\<lambda>p. \<not> p1_passed p) ps);
                          passed = filter p1_passed ps;
                          debated = for_debate n passed;
                          s2 = shown w 2 ''Bull vs Bear Debate'' ''running'' 0 (length cs) (length passed) 0 0 s1;
                          (ds, t2) = run_tasks (process_phase23_debate_judge_task tw (sw_brain w) None)
                            (by_order w ''v4_judge'' p1_code debated) (so_tasks s2);
                          s3 = s2\<lparr>so_tasks := t2\<rparr>
                       in case all_results ds of
                            Inl e \<Rightarrow> (Inl e, s3)
                          | Inr ds \<Rightarrow>
                              (let final = first @ approved_entries ds;
                                   s4 = (if debated = [] then s3
                                         else shown w 3 ''Final Judge'' ''running'' 0 (length cs) (length debated) (length debated) (length final) s3)
                                in (Inr (with_quota final, length cs, length debated),
                                    save_evaluations w tw cs (hits @ rejected @ ds) (length ds) s4)))))"

section \<open>Saving the choice\<close>

definition result_row :: "watch_candidate \<Rightarrow> jdict" where
  "result_row c =
     [(''stock_code'', JStr (wc_code c)), (''stock_name'', JStr (wc_name c)),
      (''grade'', field ''llm_grade'' (JStr ''C'') (wc_metadata c)), (''final_score'', JNum (score_or_zero (wc_score c))),
      (''selected'', JBool False),
      (''judge_reason'', case wc_reason c of None \<Rightarrow> JStr [] | Some None \<Rightarrow> JNull | Some (Some t) \<Rightarrow> JStr t)]"

definition may_be_traded :: "watch_candidate \<Rightarrow> bool" where
  "may_be_traded c \<longleftrightarrow> wc_tradable c \<noteq> Some False"

definition save_choice :: "scout_world \<Rightarrow> watch_candidate list \<Rightarrow> nat \<Rightarrow> nat \<Rightarrow> scout_state \<Rightarrow> unit res \<times> scout_state" where
  "save_choice w final n passed s =
     (case save_to_watchlist (sw_watch w) final (so_watch s) of
        (Inl e, rows) \<Rightarrow> (Inl e, s\<lparr>so_watch := rows\<rparr>)
      | (Inr _, rows) \<Rightarrow>
          (let ordered = by_order w ''data'' wc_code final;
               daily = concat (map (\<lambda>c. fst (fetch_kis_data_task (sw_broker w) c)) ordered);
               fund = fundamentals_of (sw_broker w) ordered;
               s1 = s\<lparr>so_watch := rows,
                  so_fetched := (if daily = [] then so_fetched s else save_all_daily_prices (sw_daily_fault w) daily (so_fetched s)),
                  so_fundamentals := (if fund = [] then so_fundamentals s
                    else update_all_stock_fundamentals (sw_fund_fault w) (sw_fund_accepts w) fund (so_fundamentals s))\<rparr>;
               codes = map wc_code (filter may_be_traded final)
            in case (if codes = [] then Inr (so_watch s1) else sw_financials w codes (so_watch s1)) of
                 Inl e \<Rightarrow> (Inl e, s1)
               | Inr rows' \<Rightarrow>
                   (let s2 = shown w 3 ''Final Judge'' ''completed'' 100 n passed passed (length final) (s1\<lparr>so_watch := rows'\<rparr>)
                     in (Inr (), s2\<lparr>so_dashboard := save_pipeline_results (sw_link w) (sw_serializable w) (map result_row final) (so_dashboard s2)\<rparr>))))"

section \<open>A run\<close>

definition choose_stocks :: "scout_world \<Rightarrow> task_world \<Rightarrow> candidates \<Rightarrow> scout_state \<Rightarrow> chosen res \<times> scout_state" where
  "choose_stocks w tw cs s =
     (if is_hybrid_scoring_enabled w then
        (case run_v5 w tw cs (so_tasks s) of
           (Inr x, t) \<Rightarrow> (Inr x, s\<lparr>so_tasks := t\<rparr>)
         | (Inl _, t) \<Rightarrow> run_v4 w tw cs (s\<lparr>so_tasks := t\<rparr>))
      else run_v4 w tw cs s)"

definition prepare_candidates :: "scout_world \<Rightarrow> scout_state \<Rightarrow> (candidates \<times> task_world) res \<times> scout_state" where
  "prepare_candidates w s =
     (case rbind (sw_ready w) (\<lambda>_. rbind (query (sw_watch_fault w) (sql_active_watchlist (so_watch s))) (collect_candidates w)) of
        Inl e \<Rightarrow> (Inl e, s)
      | Inr found \<Rightarrow>
          (let cs = enrich_candidates_with_market_data w found;
               caches = prefetch_all_data w cs;
               hashed = hash_news w (snd caches) cs
            in case add_flows w (client_trend w) (sw_order w ''flow'' (map fst hashed)) hashed (so_tasks s) of
                 (r, t) \<Rightarrow> (rbind r (\<lambda>cs. Inr (cs, task_world_of w caches)), s\<lparr>so_tasks := t\<rparr>)))"

definition scout_session :: "scout_world \<Rightarrow> scout_state \<Rightarrow> unit res \<times> scout_state" where
  "scout_session w s =
     (case prepare_candidates w (shown w 1 ''Hunter Scout'' ''running'' 0 0 0 0 0 s) of
        (Inl e, s1) \<Rightarrow> (Inl e, s1)
      | (Inr (cs, tw), s1) \<Rightarrow>
          (case choose_stocks w tw cs (shown w 1 ''Hunter Scout'' ''running'' 0 (length cs) 0 0 0 s1) of
             (Inl e, s2) \<Rightarrow> (Inl e, s2)
           | (Inr (final, n, passed), s2) \<Rightarrow> save_choice w final n passed s2))"

definition scout_main :: "scout_world \<Rightarrow> scout_state \<Rightarrow> scout_state" where
  "scout_main w s =
     (case scout_session w s of
        (Inr _, s') \<Rightarrow> s'
      | (Inl _, s') \<Rightarrow> shown w 0 ''Error'' ''error'' 0 0 0 0 0 s')"

section \<open>Pools, orders and the quota\<close>

definition completes_all :: "scout_world \<Rightarrow> bool" where
  "completes_all w \<longleftrightarrow> (\<forall>phase cs. distinct cs \<longrightarrow> mset (sw_order w phase cs) = mset cs)"

lemma all_results_Inr_iff: "all_results rs = Inr ys \<longleftrightarrow> rs = map Inr ys"
  by (induction rs arbitrary: ys) (auto simp: rbind_eq_Inr_iff)

lemma all_results_Inl: "list_all (\<lambda>r. r = Inl e \<or> (\<exists>x. r = Inr x)) rs \<Longrightarrow> Inl e \<in> set rs \<Longrightarrow> all_results rs = Inl e"
  by (induction rs) (auto simp: rbind_def)

text \<open>What a pool returns is one result for each task, each the result of its task in some state.\<close>

lemma run_tasks_each:
  "run_tasks f xs s = (rs, s') \<Longrightarrow> list_all2 (\<lambda>x r. \<exists>t t'. f x t = (r, t')) xs rs"
  by (induction f xs s arbitrary: rs s' rule: run_tasks.induct) (auto simp: Let_def split: prod.splits)

lemma run_tasks_done:
  assumes "run_tasks f xs s = (rs, s')" "all_results rs = Inr ys"
  shows "list_all2 (\<lambda>x y. \<exists>t t'. f x t = (Inr y, t')) xs ys"
  using run_tasks_each [OF assms(1)] assms(2) by (simp add: all_results_Inr_iff list.rel_map)

lemma run_tasks_maps:
  assumes "run_tasks f xs s = (rs, s')" "all_results rs = Inr ys"
    and "\<And>x t y t'. x \<in> set xs \<Longrightarrow> f x t = (Inr y, t') \<Longrightarrow> g y = h x"
  shows "map g ys = map h xs"
proof -
  have "list_all2 (\<lambda>x y. h x = g y) xs ys"
    using run_tasks_done [OF assms(1,2)] by (rule list.rel_mono_strong) (metis assms(3))
  then show ?thesis by (simp add: list_all2_conv_all_nth list_eq_iff_nth_eq)
qed

lemma by_code_mset:
  "distinct cs \<Longrightarrow> mset (concat (map (\<lambda>c. filter (\<lambda>x. code x = c) xs) cs)) = mset (filter (\<lambda>x. code x \<in> set cs) xs)"
proof (induction cs)
  case (Cons c cs)
  have "filter_mset (\<lambda>x. code x = c \<or> code x \<in> set cs) (mset xs) =
      filter_mset (\<lambda>x. code x = c) (mset xs) + filter_mset (\<lambda>x. code x \<in> set cs) (mset xs)"
    using Cons.prems by (induction xs) auto
  with Cons show ?case by simp
qed simp

lemma by_order_mset: "completes_all w \<Longrightarrow> mset (by_order w phase code xs) = mset xs"
proof -
  assume fair: "completes_all w"
  let ?cs = "sw_order w phase (remdups (map code xs))"
  from fair have m: "mset ?cs = mset (remdups (map code xs))" by (simp add: completes_all_def)
  then have "distinct ?cs" by (rule mset_eq_imp_distinct_iff [THEN iffD2]) simp
  moreover have "set ?cs = code ` set xs" using mset_eq_setD [OF m] by simp
  ultimately show ?thesis unfolding by_order_def by (simp add: by_code_mset)
qed

lemma by_order_set: "completes_all w \<Longrightarrow> set (by_order w phase code xs) = set xs"
  using by_order_mset mset_eq_setD by metis

lemma by_order_distinct:
  assumes "completes_all w" shows "distinct (map f (by_order w phase code xs)) = distinct (map f xs)"
  using by_order_mset [OF assms, of phase code xs] by (metis mset_eq_imp_distinct_iff mset_map)

lemma length_with_quota: "length (with_quota xs) \<le> 15"
  by (simp add: with_quota_def WATCHLIST_QUOTA_def)

lemma with_quota_mset: "\<exists>rest. mset (with_quota xs) + mset rest = mset xs"
proof -
  let ?f = "\<lambda>x. score_or_zero (wc_score x)"
  have "mset (take WATCHLIST_QUOTA (sort_desc ?f xs)) + mset (drop WATCHLIST_QUOTA (sort_desc ?f xs)) = mset xs"
    by (metis append_take_drop_id mset_append sort_desc_def mset_sort)
  then show ?thesis unfolding with_quota_def by (metis add.right_neutral mset.simps(1))
qed

lemma with_quota_codes:
  "set (with_quota xs) \<subseteq> set xs" "distinct (map wc_code xs) \<Longrightarrow> distinct (map wc_code (with_quota xs))"
proof -
  obtain rest where rest: "mset (with_quota xs @ rest) = mset xs" using with_quota_mset [of xs] by auto
  show "set (with_quota xs) \<subseteq> set xs" using mset_eq_setD [OF rest] by auto
  show "distinct (map wc_code xs) \<Longrightarrow> distinct (map wc_code (with_quota xs))"
    using mset_eq_imp_distinct_iff [OF arg_cong [OF rest, of "image_mset wc_code", folded mset_map]] by simp
qed

section \<open>Where the chosen stocks come from\<close>

lemma approved_codes: "map wc_code (approved_entries ds) = map dn_code (filter dn_approved ds)"
  by (simp add: approved_entries_def record_to_watchlist_entry_def comp_def)

lemma approved_append: "approved_entries (xs @ ys) = approved_entries xs @ approved_entries ys"
  by (simp add: approved_entries_def)

lemma distinct_filter_map: "distinct (map f xs) \<Longrightarrow> distinct (map f (filter P xs))"
  by (simp add: distinct_map_filter)

definition from_candidates :: "candidates \<Rightarrow> watch_candidate list \<Rightarrow> bool" where
  "from_candidates cs final \<longleftrightarrow>
     length final \<le> 15 \<and> distinct (map wc_code final) \<and> set (map wc_code final) \<subseteq> set (map fst cs)"

lemma from_candidates_quota:
  assumes "distinct (map dn_code ds)" "set (map dn_code ds) \<subseteq> set (map fst cs) - {''0001''}"
  shows "from_candidates cs (with_quota (kospi_first cs @ approved_entries ds))"
proof -
  let ?xs = "kospi_first cs @ approved_entries ds"
  have sub: "set (map wc_code ?xs) \<subseteq> set (map fst cs)"
    using assms(2) by (auto simp: approved_codes kospi_first_def kospi_entry_def map_of_eq_None_iff)
  have "distinct (map wc_code ?xs)"
    using assms by (auto simp: approved_codes kospi_first_def kospi_entry_def distinct_map_filter)
  then have "distinct (map wc_code (with_quota ?xs))" by (rule with_quota_codes(2))
  moreover have "set (map wc_code (with_quota ?xs)) \<subseteq> set (map fst cs)"
    using image_mono [OF with_quota_codes(1), of wc_code ?xs] sub unfolding set_map by (rule subset_trans)
  ultimately show ?thesis using length_with_quota [of ?xs] by (simp add: from_candidates_def)
qed

lemma prefix_mset: "\<exists>rest. mset (py_prefix n (sort_desc f xs)) + mset rest = mset xs"
proof -
  obtain k where "py_prefix n (sort_desc f xs) = take k (sort_desc f xs)" by (metis py_prefix_def)
  then have "mset (py_prefix n (sort_desc f xs)) + mset (drop k (sort_desc f xs)) = mset (sort_desc f xs)"
    by (simp flip: mset_append)
  then show ?thesis by (auto simp: sort_desc_def)
qed

lemma for_debate_mset: "\<exists>rest. mset (for_debate n ps) + mset rest = mset ps"
  using prefix_mset [of n p1_hunter ps] by (cases "n < int (length ps)") (auto simp: for_debate_def intro: exI [of _ "[]"])

lemma for_debate_codes:
  "set (for_debate n ps) \<subseteq> set ps" "distinct (map p1_code ps) \<Longrightarrow> distinct (map p1_code (for_debate n ps))"
proof -
  obtain rest where rest: "mset (for_debate n ps @ rest) = mset ps" using for_debate_mset [of n ps] by auto
  show "set (for_debate n ps) \<subseteq> set ps" using mset_eq_setD [OF rest] by auto
  show "distinct (map p1_code ps) \<Longrightarrow> distinct (map p1_code (for_debate n ps))"
    using mset_eq_imp_distinct_iff [OF arg_cong [OF rest, of "image_mset p1_code", folded mset_map]] by simp
qed

text \<open>The phases keep the codes of their stocks.\<close>

lemma hunter_code:
  "process_phase1_hunter_v5_task tw b a code c q s = (Inr p, s') \<Longrightarrow> p1_code p = code"
  "process_phase1_hunter_task tw b a code c s = (Inr p, s') \<Longrightarrow> p1_code p = code"
  by (auto simp: process_phase1_hunter_v5_task_def process_phase1_hunter_task_def no_snapshot_def Let_def
      split: option.splits sum.splits prod.splits if_splits)

lemma judge_code:
  "process_phase23_judge_v5_task tw b a regime p s = (Inr d, s') \<Longrightarrow> dn_code d = p1_code p"
  "process_phase23_debate_judge_task tw b a p s = (Inr d, s') \<Longrightarrow> dn_code d = p1_code p"
  by (auto simp: process_phase23_judge_v5_task_def process_phase23_debate_judge_task_def judge_v5_decision_def judge_decision_def
      Let_def split: option.splits prod.splits sum.splits)

lemma quant_scores_codes: "map fst (quant_scores tw kospi cs q) = filter (\<lambda>c. c \<noteq> ''0001'') (map fst cs)"
  by (induction tw kospi cs q rule: quant_scores.induct) (auto split: prod.split)

lemma chosen_codes:
  "map fst (chosen_candidates cs scores passed) =
     map fst (filter (\<lambda>(code, q). code \<in> qr_code ` set passed \<and> map_of cs code \<noteq> None) scores)"
  by (induction scores) (auto simp: chosen_candidates_def map_filter_simps split: option.splits if_splits)

lemma chosen_keys:
  "set (map fst (chosen_candidates cs scores passed)) \<subseteq> set (map fst scores)"
  "distinct (map fst scores) \<Longrightarrow> distinct (map fst (chosen_candidates cs scores passed))"
  unfolding chosen_codes by (auto simp: distinct_map_filter)

lemma no_entry_invalid: "\<not> is_cache_valid_direct None d today"
  by (simp add: is_cache_valid_direct_def)

lemma hits_codes:
  "map dn_code (cache_hits today cache cs) =
     map fst (filter (\<lambda>(code, c). is_cache_valid_direct (map_of cache code) (current_of c) today) cs)"
proof (induction cs)
  case (Cons x cs)
  obtain code c where x: "x = (code, c)" by fastforce
  show ?case
    using Cons.IH by (cases "map_of cache code") (simp_all add: cache_hits_def map_filter_simps x no_entry_invalid cached_decision_def)
qed (simp add: cache_hits_def map_filter_simps)

text \<open>The two pools of a pipeline keep codes and their distinctness.\<close>

lemma pools_codes:
  assumes "completes_all w" "run_tasks f (by_order w ph fst xs) s = (rs, s1)" "all_results rs = Inr ps"
    and "run_tasks g (by_order w ph' p1_code (for_debate n (filter p1_passed ps))) s2 = (ts, s3)" "all_results ts = Inr ds"
    and f: "\<And>x t p t'. f x t = (Inr p, t') \<Longrightarrow> p1_code p = fst x"
    and g: "\<And>p t d t'. g p t = (Inr d, t') \<Longrightarrow> dn_code d = p1_code p"
  shows "set (map dn_code ds) \<subseteq> set (map fst xs)" "distinct (map fst xs) \<Longrightarrow> distinct (map dn_code ds)"
proof -
  let ?ps = "for_debate n (filter p1_passed ps)"
  have ps: "map p1_code ps = map fst (by_order w ph fst xs)" using run_tasks_maps [OF assms(2,3)] f by blast
  have ds: "map dn_code ds = map p1_code (by_order w ph' p1_code ?ps)" using run_tasks_maps [OF assms(4,5)] g by blast
  have "set (map p1_code ?ps) \<subseteq> set (map p1_code ps)" using for_debate_codes(1) by fastforce
  then show "set (map dn_code ds) \<subseteq> set (map fst xs)"
    by (simp add: ds ps by_order_set [OF assms(1)])
  assume "distinct (map fst xs)"
  then have "distinct (map p1_code ps)" unfolding ps by (simp add: by_order_distinct [OF assms(1)])
  then show "distinct (map dn_code ds)"
    unfolding ds by_order_distinct [OF assms(1)] by (intro for_debate_codes(2) distinct_filter_map)
qed

lemma run_v5_sound:
  assumes "completes_all w" "distinct (map fst cs)" "run_v5 w tw cs s = (Inr (final, n, p), s')"
  shows "from_candidates cs final"
proof -
  from assms(3) obtain kospi where kospi: "market_prices (sw_market w) ''0001'' 60 = Inr kospi"
    by (auto simp: run_v5_def split: sum.splits)
  let ?k = "if kospi = [] then None else Some (row_closes kospi)"
  let ?scores = "quant_scores tw ?k cs no_caches"
  from assms(3) obtain passed where passed: "filtered_scores ?scores = Inr passed"
    by (auto simp: run_v5_def kospi Let_def split: sum.splits)
  let ?xs = "chosen_candidates cs ?scores passed"
  let ?f = "\<lambda>(code, c, q). process_phase1_hunter_v5_task tw (sw_brain w) (Some (sw_archive w)) code c q"
  obtain rs s1 where hunters: "run_tasks ?f (by_order w ''v5_hunter'' fst ?xs) s = (rs, s1)" by fastforce
  from assms(3) obtain ps k where ps: "all_results rs = Inr ps" "int_env w ''SCOUT_PHASE2_MAX_ENTRIES'' 50 = Inr k"
    by (auto simp: run_v5_def kospi Let_def passed hunters rbind_def split: sum.splits prod.splits)
  let ?g = "process_phase23_judge_v5_task tw (sw_brain w) (Some (sw_archive w)) (regime_of w kospi)"
  obtain ts s2 where judges: "run_tasks ?g (by_order w ''v5_judge'' p1_code (for_debate k (filter p1_passed ps))) s1 = (ts, s2)"
    by fastforce
  from assms(3) obtain ds where ds: "all_results ts = Inr ds" and final: "final = with_quota (kospi_first cs @ approved_entries ds)"
    by (auto simp: run_v5_def kospi Let_def passed hunters ps judges rbind_def split: sum.splits)
  have f: "p1_code p = fst x" if "?f x t = (Inr p, t')" for x t p t'
    using that hunter_code(1) by (auto split: prod.splits)
  have codes: "set (map dn_code ds) \<subseteq> set (map fst ?xs)" "distinct (map fst ?xs) \<Longrightarrow> distinct (map dn_code ds)"
    using pools_codes [OF assms(1) hunters ps(1) judges ds] f judge_code(1) by blast+
  have "set (map fst ?scores) \<subseteq> set (map fst cs) - {''0001''}" "distinct (map fst ?scores)"
    using assms(2) by (auto simp: quant_scores_codes)
  then have "set (map fst ?xs) \<subseteq> set (map fst cs) - {''0001''}" "distinct (map fst ?xs)"
    using subset_trans [OF chosen_keys(1)] chosen_keys(2) by blast+
  with codes show ?thesis unfolding final by (intro from_candidates_quota) auto
qed

lemma run_v4_sound:
  assumes "completes_all w" "distinct (map fst cs)" "run_v4 w tw cs s = (Inr (final, n, p), s')"
  shows "from_candidates cs final"
proof -
  let ?cs = "AList.delete ''0001'' cs"
  let ?cache = "load_llm_cache_from_db OrmSession (sw_eval_fault w) (so_evals s)"
  let ?hits = "cache_hits (sw_today w) ?cache ?cs"
  let ?todo = "uncached (sw_today w) ?cache ?cs"
  have keys: "set (map fst ?cs) \<subseteq> set (map fst cs) - {''0001''}" "distinct (map fst ?cs)"
    using assms(2) by (auto simp: delete_keys distinct_removeAll)
  have split: "set (map dn_code ?hits) \<subseteq> set (map fst ?cs)" "distinct (map dn_code ?hits)"
    "set (map fst ?todo) \<subseteq> set (map fst ?cs)" "distinct (map fst ?todo)"
    "set (map dn_code ?hits) \<inter> set (map fst ?todo) = {}"
    using keys(2) by (auto simp: hits_codes uncached_def distinct_map_filter dest: eq_key_imp_eq_value)
  show ?thesis
  proof (cases "?todo = []")
    case True
    with assms(3) have "final = with_quota (kospi_first cs @ approved_entries ?hits)" by (auto simp: run_v4_def Let_def)
    with split keys(1) show ?thesis using from_candidates_quota [of ?hits cs] by blast
  next
    case False
    let ?s0 = "shown w 1 ''Hunter Scout'' ''running'' 0 (length ?cs) 0 0 0 s"
    let ?f = "\<lambda>(code, c). process_phase1_hunter_task tw (sw_brain w) None code c"
    obtain rs t1 where hunters: "run_tasks ?f (by_order w ''v4_hunter'' fst ?todo) (so_tasks ?s0) = (rs, t1)" by fastforce
    from assms(3) False obtain ps k where ps: "all_results rs = Inr ps" "int_env w ''SCOUT_PHASE2_MAX_ENTRIES'' 50 = Inr k"
      by (auto simp: run_v4_def Let_def hunters rbind_def split: sum.splits prod.splits)
    let ?s2 = "shown w 2 ''Bull vs Bear Debate'' ''running'' 0 (length ?cs) (length (filter p1_passed ps)) 0 0 (?s0\<lparr>so_tasks := t1\<rparr>)"
    let ?g = "process_phase23_debate_judge_task tw (sw_brain w) None"
    obtain ts t2 where judges: "run_tasks ?g (by_order w ''v4_judge'' p1_code (for_debate k (filter p1_passed ps))) (so_tasks ?s2) = (ts, t2)"
      by fastforce
    from assms(3) False obtain ds where ds: "all_results ts = Inr ds"
      and final: "final = with_quota (kospi_first cs @ approved_entries ?hits @ approved_entries ds)"
      by (auto simp: run_v4_def Let_def hunters ps judges rbind_def split: sum.splits)
    have f: "p1_code p = fst x" if "?f x t = (Inr p, t')" for x t p t'
      using that hunter_code(2) by (auto split: prod.splits)
    have codes: "set (map dn_code ds) \<subseteq> set (map fst ?todo)" "distinct (map fst ?todo) \<Longrightarrow> distinct (map dn_code ds)"
      using pools_codes [OF assms(1) hunters ps(1) judges ds] f judge_code(2) by blast+
    have "set (map dn_code (?hits @ ds)) \<subseteq> set (map fst cs) - {''0001''}"
      unfolding map_append set_append using codes(1) split(1,3) keys(1) by blast
    moreover have "distinct (map dn_code (?hits @ ds))"
      unfolding map_append distinct_append using codes split(2,4,5) by blast
    ultimately have "from_candidates cs (with_quota (kospi_first cs @ approved_entries (?hits @ ds)))"
      by (rule from_candidates_quota [rotated])
    then show ?thesis unfolding final approved_append .
  qed
qed

lemma v5_decision_of_passed:
  assumes "process_phase1_hunter_v5_task tw (jennie_brain lw show_score) a code c q s = (Inr p, s1)" "p1_passed p"
    and "process_phase23_judge_v5_task tw (jennie_brain lw show_score) a' regime p s2 = (Inr d, s3)"
  shows "dn_approved d = (1000/9 \<le> qr_total q)"
proof -
  from hunter_v5_passed [OF assms(1,2)] obtain snap news where
    info: "p1_info p = Some (hunter_info code c snap ''N/A'' news)" and q: "p1_quant p = Some q" by blast
  obtain debate l where debate: "run_debate_session lw (hunter_info code c snap ''N/A'' news) (JNum (p1_hunter p)) (ts_llm s2) = (debate, l)"
    by fastforce
  obtain r where r: "answer_score (graded 0 (gate_reason show_score 0)) = Inr (r, 0)" using answer_graded by blast
  show ?thesis
    using assms(3) by (auto simp: process_phase23_judge_v5_task_def info q jennie_brain_def debate shut_gate r Let_def judge_v5_decision_def
        hybrid_of_zero)
qed

lemma run_tasks_from:
  assumes "run_tasks f xs s = (rs, s')" "all_results rs = Inr ys" "y \<in> set ys"
  obtains x t t' where "x \<in> set xs" "f x t = (Inr y, t')"
proof -
  note each = run_tasks_done [OF assms(1,2)]
  from assms(3) obtain i where "i < length ys" "y = ys ! i" by (auto simp: in_set_conv_nth)
  with each list_all2_lengthD [OF each] that [of "xs ! i"] show ?thesis by (auto dest: list_all2_nthD2)
qed

lemma with_quota_short: "length xs \<le> 15 \<Longrightarrow> with_quota xs = xs"
  by (simp add: with_quota_def WATCHLIST_QUOTA_def)

lemma chosen_scores: "(code, c, q) \<in> set (chosen_candidates cs scores passed) \<Longrightarrow> (code, q) \<in> set scores"
  by (induction scores) (auto simp: chosen_candidates_def map_filter_simps split: if_splits option.splits)

lemma run_v5_empty:
  assumes "completes_all w" "sw_brain w = jennie_brain lw show_score" "market_prices (sw_market w) ''0001'' 60 = Inr kospi"
    and scores: "list_all (\<lambda>(code, q). qr_total q \<le> 100) (quant_scores tw (if kospi = [] then None else Some (row_closes kospi)) cs no_caches)"
    and "run_v5 w tw cs s = (Inr (final, n, p), s')"
  shows "final = kospi_first cs"
proof -
  let ?scores = "quant_scores tw (if kospi = [] then None else Some (row_closes kospi)) cs no_caches"
  from assms(5) obtain passed where passed: "filtered_scores ?scores = Inr passed"
    by (auto simp: run_v5_def assms(3) Let_def split: sum.splits)
  let ?xs = "chosen_candidates cs ?scores passed"
  let ?f = "\<lambda>(code, c, q). process_phase1_hunter_v5_task tw (sw_brain w) (Some (sw_archive w)) code c q"
  obtain rs s1 where hunters: "run_tasks ?f (by_order w ''v5_hunter'' fst ?xs) s = (rs, s1)" by fastforce
  from assms(5) obtain ps k where ps: "all_results rs = Inr ps" "int_env w ''SCOUT_PHASE2_MAX_ENTRIES'' 50 = Inr k"
    by (auto simp: run_v5_def assms(3) Let_def passed hunters rbind_def split: sum.splits prod.splits)
  let ?g = "process_phase23_judge_v5_task tw (sw_brain w) (Some (sw_archive w)) (regime_of w kospi)"
  obtain ts s2 where judges: "run_tasks ?g (by_order w ''v5_judge'' p1_code (for_debate k (filter p1_passed ps))) s1 = (ts, s2)"
    by fastforce
  from assms(5) obtain ds where ds: "all_results ts = Inr ds" and final: "final = with_quota (kospi_first cs @ approved_entries ds)"
    by (auto simp: run_v5_def assms(3) Let_def passed hunters ps judges rbind_def split: sum.splits)
  have "\<not> dn_approved d" if d: "d \<in> set ds" for d
  proof -
    obtain p t t' where p: "p \<in> set (for_debate k (filter p1_passed ps))" "?g p t = (Inr d, t')"
      using run_tasks_from [OF judges ds d] unfolding by_order_set [OF assms(1)] .
    then have "p \<in> set ps" "p1_passed p" using for_debate_codes(1) [of k "filter p1_passed ps"] by auto
    obtain x u u' where x: "x \<in> set ?xs" "?f x u = (Inr p, u')"
      using run_tasks_from [OF hunters ps(1) \<open>p \<in> set ps\<close>] unfolding by_order_set [OF assms(1)] .
    obtain code c q where q: "x = (code, c, q)" by (cases x)
    have "qr_total q \<le> 100" using scores chosen_scores [OF x(1) [unfolded q]] by (auto simp: list_all_iff)
    moreover have "dn_approved d = (1000/9 \<le> qr_total q)"
      using v5_decision_of_passed x(2) p(2) \<open>p1_passed p\<close> unfolding q assms(2) prod.case by blast
    ultimately show ?thesis by simp
  qed
  then have "approved_entries ds = []" by (simp add: approved_entries_def)
  then show ?thesis unfolding final by (simp add: with_quota_short kospi_first_def)
qed

text \<open>
  The older pipeline asks the hunter about every stock that has no valid evaluation, which
  through the session of the run are all of them.
\<close>

lemma all_pending: "uncached today (load_llm_cache_from_db OrmSession fault rows) cs = cs"
  by (simp add: session_has_no_cache uncached_def no_entry_invalid)

lemma v4_hunters_raise:
  assumes "run_tasks (\<lambda>(code, c). process_phase1_hunter_task tw (jennie_brain lw show_score) a code c) xs s = (rs, s')"
    and "(code, c) \<in> set xs" "cached_snapshot tw code \<noteq> None"
  shows "all_results rs = Inl AttributeError"
proof -
  let ?r = "\<lambda>(code, c). if cached_snapshot tw code = None then Inr (no_snapshot code c None) else Inl AttributeError"
  have "run_tasks (\<lambda>(code, c). process_phase1_hunter_task tw (jennie_brain lw show_score) a code c) ys t = (map ?r ys, t)" for ys t
    by (induction ys) (auto simp: v4_hunter_always_raises split: option.split)
  with assms(1) have rs: "rs = map ?r xs" by simp
  have "Inl AttributeError \<in> set rs"
    unfolding rs set_map using assms(2,3) by (intro image_eqI [of _ _ "(code, c)"]) auto
  then show ?thesis by (intro all_results_Inl) (auto simp: rs list_all_iff split: if_splits)
qed

lemma run_v4_raises:
  assumes "completes_all w" "sw_brain w = jennie_brain lw show_score"
    and "(code, c) \<in> set cs" "code \<noteq> ''0001''" "cached_snapshot tw code \<noteq> None"
  shows "\<exists>t. run_v4 w tw cs s =
    (Inl AttributeError, (shown w 1 ''Hunter Scout'' ''running'' 0 (length (AList.delete ''0001'' cs)) 0 0 0 s)\<lparr>so_tasks := t\<rparr>)"
proof -
  let ?cs = "AList.delete ''0001'' cs"
  let ?f = "\<lambda>(code, c). process_phase1_hunter_task tw (jennie_brain lw show_score) None code c"
  have mem: "(code, c) \<in> set ?cs" using assms(3,4) by (simp add: AList.delete_eq)
  obtain rs t where hunters: "run_tasks ?f (by_order w ''v4_hunter'' fst ?cs)
      (so_tasks (shown w 1 ''Hunter Scout'' ''running'' 0 (length ?cs) 0 0 0 s)) = (rs, t)"
    by fastforce
  have "all_results rs = Inl AttributeError"
    using v4_hunters_raise [OF hunters _ assms(5)] mem by (simp add: by_order_set [OF assms(1)])
  moreover have "?cs \<noteq> []" using mem by auto
  ultimately show ?thesis by (intro exI [of _ t]) (simp add: run_v4_def Let_def all_pending assms(2) hunters)
qed

lemma shown_frame [simp]:
  "so_watch (shown w ph nm st pr n p1 p2 k s) = so_watch s" "so_evals (shown w ph nm st pr n p1 p2 k s) = so_evals s"
  "so_config (shown w ph nm st pr n p1 p2 k s) = so_config s" "so_tasks (shown w ph nm st pr n p1 p2 k s) = so_tasks s"
  by (simp_all add: shown_def)

lemma shown_shown:
  "so_dashboard (shown w ph nm st pr n p1 p2 k (s\<lparr>so_tasks := t\<rparr>)) = so_dashboard (shown w ph nm st pr n p1 p2 k s)"
  "so_dashboard (shown w ph nm st pr n p1 p2 k (shown w ph' nm' st' pr' n' q1 q2 k' s)) = so_dashboard (shown w ph nm st pr n p1 p2 k s)"
  by (simp_all add: shown_def update_pipeline_status_def)

text \<open>No flow is ever found: the candidates and the archive stay as they are.\<close>

lemma no_flows: "add_flows w (client_trend w') codes cs s = (Inr cs, s)"
  by (induction codes) (simp_all add: client_trend_def process_flow_data_def)

lemma prepare_frame: "prepare_candidates w s = (r, s') \<Longrightarrow> s' = s"
  by (auto simp: prepare_candidates_def Let_def no_flows split: sum.splits)

section \<open>Properties\<close>

text \<open>
  The quota keeps the fifteen entries with the best scores: every entry that is dropped has a
  score that is at most that of every entry that is kept, and up to fifteen nothing is dropped.
\<close>

theorem quota_keeps_best:
  "\<exists>dropped. mset (with_quota xs) + mset dropped = mset xs \<and> length (with_quota xs) = min 15 (length xs) \<and>
     list_all (\<lambda>x. list_all (\<lambda>y. score_or_zero (wc_score y) \<le> score_or_zero (wc_score x)) dropped) (with_quota xs)"
proof (cases "15 < length xs")
  case True
  let ?f = "\<lambda>x. score_or_zero (wc_score x)"
  let ?ss = "sort_desc ?f xs"
  have kept: "with_quota xs = take 15 ?ss" using True by (simp add: with_quota_def WATCHLIST_QUOTA_def)
  have "mset (take 15 ?ss) + mset (drop 15 ?ss) = mset xs"
    by (simp flip: mset_append) (simp add: sort_desc_def)
  moreover have "sorted_wrt (\<lambda>x y. ?f y \<le> ?f x) (take 15 ?ss @ drop 15 ?ss)"
    using sorted_sort_key [of "\<lambda>x. - ?f x" xs] by (simp add: sort_desc_def sorted_map)
  ultimately show ?thesis
    using True unfolding kept sorted_wrt_append by (intro exI [of _ "drop 15 ?ss"]) (simp add: list_all_iff)
next
  case False
  then show ?thesis by (intro exI [of _ "[]"]) (simp add: with_quota_short list_all_iff)
qed

text \<open>
  C10. Whichever pipeline chooses, and in whatever order the tasks of its pools complete: at most
  fifteen stocks are chosen, none twice, and every one of them is a candidate of the run.
\<close>

theorem chosen_are_candidates:
  assumes "completes_all w" "distinct (map fst cs)" "choose_stocks w tw cs s = (Inr (final, n, passed), s')"
  shows "length final \<le> 15 \<and> distinct (map wc_code final) \<and> set (map wc_code final) \<subseteq> set (map fst cs)"
proof -
  have "from_candidates cs final"
    using assms(3) run_v5_sound [OF assms(1,2)] run_v4_sound [OF assms(1,2)]
    by (fastforce simp: choose_stocks_def split: if_splits prod.splits sum.splits)
  then show ?thesis by (simp add: from_candidates_def)
qed

definition demo_scout :: "brain \<Rightarrow> scout_world" where
  "demo_scout b =
     \<lparr>sw_ready = Inr (),
      sw_store = \<lparr>st_environ = (\<lambda>_. None), st_fault = None, st_json = demo_json, st_now = 0, st_iso = (\<lambda>_. ''''),
        st_from_iso = (\<lambda>_. Inl ValueError)\<rparr>,
      sw_link = demo_link, sw_redis = [], sw_chips = Some (Inr []), sw_sectors = None, sw_portal = (\<lambda>_. Inr None),
      sw_show = (\<lambda>v. case v of JStr t \<Rightarrow> t | _ \<Rightarrow> ''v''), sw_show1 = (\<lambda>_. ''1.0''), sw_news = None, sw_watch_fault = None,
      sw_market = \<lparr>mk_fault = (\<lambda>_. None), mk_codes_fault = None, mk_masters = [], mk_daily = []\<rparr>,
      sw_enrich_fault = None,
      sw_broker = \<lparr>bw_prices = (\<lambda>_. Inl ApiError),
        bw_snapshot = (\<lambda>c. if c = ''005930'' then Inr [(''per'', JNum 10)] else Inl ApiError)\<rparr>,
      sw_archive = \<lparr>aw_fault = None, aw_accepts_ledger = (\<lambda>_. True), aw_accepts_shadow = (\<lambda>_. True),
        aw_accepts_flow = (\<lambda>_. True), aw_now = 0, aw_dumps = (\<lambda>ws. Inr (join comma ws))\<rparr>,
      sw_quant = demo_quant_world, sw_context = (\<lambda>_. ''context''),
      sw_hash = \<lparr>hl_dumps = (\<lambda>_. ''''), hl_sha256 = id, hl_md5 = id\<rparr>, sw_order = (\<lambda>_ cs. cs), sw_brain = b,
      sw_watch = demo_watch_world, sw_today = ''2025-01-02'', sw_eval_fault = None, sw_eval_accepts = (\<lambda>_. True),
      sw_daily_fault = None, sw_fund_fault = None, sw_fund_accepts = (\<lambda>_. True), sw_financials = (\<lambda>_ rows. Inr rows),
      sw_serializable = (\<lambda>_. True)\<rparr>"

definition demo_scout_state :: scout_state where
  "demo_scout_state =
     \<lparr>so_tasks = \<lparr>ts_llm = no_requests, ts_archive = \<lparr>ar_ledger = [], ar_shadow = [], ar_flow = []\<rparr>\<rparr>,
      so_watch = [], so_config = [], so_evals = [], so_fetched = [], so_fundamentals = [],
      so_dashboard = \<lparr>db_status = None, db_results = None\<rparr>\<rparr>"

lemma demo_completes: "completes_all (demo_scout b)"
  by (simp add: completes_all_def demo_scout_def)

definition demo_candidates :: candidates where
  "demo_candidates = map (\<lambda>(code, name, _). (code, new_candidate name [static_reason])) BLUE_CHIP_STOCKS"

definition demo_task_world :: "brain \<Rightarrow> task_world" where
  "demo_task_world b = task_world_of (demo_scout b) ([(''005930'', [(''per'', JNum 10)])], [])"

lemma demo_sources:
  "get_dynamic_blue_chips (sw_show (demo_scout b)) (sw_chips (demo_scout b)) (sw_portal (demo_scout b)) n = []"
  "get_hot_sector_stocks (analyze_sector_momentum (sw_show (demo_scout b)) (sw_sectors (demo_scout b))) n = []"
  "add_rag (demo_scout b) cs = cs" "get_momentum_stocks (sw_market (demo_scout b)) 6 30 ws = []"
  "int_env (demo_scout b) k d = Inr d"
  by (simp_all add: demo_scout_def get_dynamic_blue_chips_def listed_chips_def has_column_def py_prefix_def
      analyze_sector_momentum_def get_hot_sector_stocks_def add_rag_def get_momentum_stocks_def market_prices_def
      db_daily_prices_def latest_first_def frame_return_def int_env_def sw_env_def)

lemma demo_collected: "collect_candidates (demo_scout b) ws = Inr demo_candidates"
  unfolding collect_candidates_def demo_sources rbind_simps Let_def fold_simps id_apply by code_simp

lemma demo_prepared: "prepare_candidates (demo_scout b) s = (Inr (demo_candidates, demo_task_world b), s)"
proof -
  have "sw_ready (demo_scout b) = Inr ()" "sw_watch_fault (demo_scout b) = None" by (simp_all add: demo_scout_def)
  moreover have "enrich_candidates_with_market_data (demo_scout b) demo_candidates = demo_candidates"
    by (simp add: enrich_candidates_with_market_data_def demo_scout_def enriched_def latest_first_def)
  moreover have "prefetch_all_data (demo_scout b) demo_candidates = ([(''005930'', [(''per'', JNum 10)])], [])"
    by (simp add: prefetch_all_data_def fetched_snapshots_def fetched_news_def demo_scout_def demo_candidates_def BLUE_CHIP_STOCKS_def)
  ultimately show ?thesis
    by (simp add: prepare_candidates_def no_flows demo_collected hash_news_def demo_task_world_def)
qed

lemma prepare_shown: "fst (prepare_candidates w (shown w' ph nm st pr n p1 p2 k s)) = fst (prepare_candidates w s)"
  by (simp add: prepare_candidates_def Let_def no_flows split: sum.split)

text \<open>
  The pipeline with quantitative scores chooses no stock while all of its scores are at most
  100, the top of their scale: with the brain of the repository its watchlist is the entry of
  the index, or empty.
\<close>

theorem hybrid_run_chooses_nothing:
  assumes "completes_all w" "sw_brain w = jennie_brain lw show_score" "market_prices (sw_market w) ''0001'' 60 = Inr kospi"
    and "list_all (\<lambda>(code, q). qr_total q \<le> 100) (quant_scores tw (if kospi = [] then None else Some (row_closes kospi)) cs no_caches)"
    and "run_v5 w tw cs s = (Inr (final, n, passed), s')"
  shows "final = (if map_of cs ''0001'' = None then [] else [kospi_entry])"
  using run_v5_empty [OF assms] by (simp add: kospi_first_def)

text \<open>
  C9. A run with the default of the code (\<open>SCOUT_V5_ENABLED\<close> unset or not true; the shipped
  \<open>env-vars-wsl.yaml\<close> sets it to true) uses the older pipeline, whose hunter is a method the
  brain does not have: as soon as one stock besides the index has a snapshot, the run fails.
  The watchlist, the evaluations, the time of the last run and the fetched data stay as they
  are, and the dashboard shows the error.
\<close>

theorem default_run_saves_nothing:
  assumes "completes_all w" "sw_brain w = jennie_brain lw show_score" "\<not> is_hybrid_scoring_enabled w"
    and "fst (prepare_candidates w s) = Inr (cs, tw)" "(code, c) \<in> set cs" "code \<noteq> ''0001''" "cached_snapshot tw code \<noteq> None"
  shows "so_watch (scout_main w s) = so_watch s \<and> so_evals (scout_main w s) = so_evals s \<and>
    so_config (scout_main w s) = so_config s \<and> so_fetched (scout_main w s) = so_fetched s \<and>
    so_dashboard (scout_main w s) = so_dashboard (shown w 0 ''Error'' ''error'' 0 0 0 0 0 s)"
proof -
  let ?s1 = "shown w 1 ''Hunter Scout'' ''running'' 0 0 0 0 0 s"
  have prep: "prepare_candidates w ?s1 = (Inr (cs, tw), ?s1)"
    using assms(4) prepare_shown [of w w] prepare_frame by (metis prod.collapse)
  let ?s2 = "shown w 1 ''Hunter Scout'' ''running'' 0 (length cs) 0 0 0 ?s1"
  obtain t where "run_v4 w tw cs ?s2 =
      (Inl AttributeError, (shown w 1 ''Hunter Scout'' ''running'' 0 (length (AList.delete ''0001'' cs)) 0 0 0 ?s2)\<lparr>so_tasks := t\<rparr>)"
    using run_v4_raises [OF assms(1,2,5,6,7)] by blast
  with prep assms(3) have "scout_main w s = shown w 0 ''Error'' ''error'' 0 0 0 0 0
      ((shown w 1 ''Hunter Scout'' ''running'' 0 (length (AList.delete ''0001'' cs)) 0 0 0 ?s2)\<lparr>so_tasks := t\<rparr>)"
    by (simp add: scout_main_def scout_session_def choose_stocks_def)
  then show ?thesis by (simp add: shown_shown) (simp add: shown_def)
qed

theorem default_run_saves_nothing_witness:
  "so_watch (scout_main (demo_scout (jennie_brain (demo_llm (Inl ApiError)) (\<lambda>_. ''0''))) (demo_scout_state\<lparr>so_watch := [watch_row_of demo_watch_world demo_watch]\<rparr>)) =
     [watch_row_of demo_watch_world demo_watch]"
proof -
  let ?b = "jennie_brain (demo_llm (Inl ApiError)) (\<lambda>_. ''0'')"
  let ?w = "demo_scout ?b"
  have "\<not> is_hybrid_scoring_enabled ?w"
    by (simp add: is_hybrid_scoring_enabled_def sw_env_def demo_scout_def to_lower_def)
  moreover have "\<exists>c. (''005930'', c) \<in> set demo_candidates"
    by (auto simp: demo_candidates_def BLUE_CHIP_STOCKS_def)
  moreover have "cached_snapshot (demo_task_world ?b) ''005930'' \<noteq> None"
    by (simp add: cached_snapshot_def demo_task_world_def task_world_of_def)
  moreover have "sw_brain ?w = jennie_brain (demo_llm (Inl ApiError)) (\<lambda>_. ''0'')" by (simp add: demo_scout_def)
  ultimately show ?thesis
    using default_run_saves_nothing [OF demo_completes, of ?b "demo_llm (Inl ApiError)" "\<lambda>_. ''0''"
        "demo_scout_state\<lparr>so_watch := [watch_row_of demo_watch_world demo_watch]\<rparr>" demo_candidates "demo_task_world ?b" "''005930''"]
    by (auto simp: demo_prepared)
qed

theorem chosen_are_candidates_witness:
  "\<exists>s'. choose_stocks (demo_scout demo_judge) (demo_task_world demo_judge) (take 1 demo_candidates @ drop 2 demo_candidates) demo_scout_state =
       (Inr ([kospi_entry], 3, 0), s') \<and>
     set (map wc_code [kospi_entry]) \<subseteq> set (map fst (take 1 demo_candidates @ drop 2 demo_candidates))"
proof -
  let ?cs = "take 1 demo_candidates @ drop 2 demo_candidates"
  have "fst (choose_stocks (demo_scout demo_judge) (demo_task_world demo_judge) ?cs demo_scout_state) = Inr ([kospi_entry], 3, 0)" by code_simp
  then obtain s' where "choose_stocks (demo_scout demo_judge) (demo_task_world demo_judge) ?cs demo_scout_state = (Inr ([kospi_entry], 3, 0), s')"
    by (metis prod.collapse)
  moreover have "distinct (map fst ?cs)" by (simp add: demo_candidates_def BLUE_CHIP_STOCKS_def)
  ultimately show ?thesis
    using chosen_are_candidates [OF demo_completes] by blast
qed

definition v5_scout :: "brain \<Rightarrow> scout_world" where
  "v5_scout b = (demo_scout b)\<lparr>sw_market := \<lparr>mk_fault = (\<lambda>_. None), mk_codes_fault = None, mk_masters = [],
     mk_daily = replicate 30 \<lparr>dr_code = ''005930'', dr_price = demo_row 100 1000\<rparr>\<rparr>\<rparr>"

definition demo_brain :: brain where
  "demo_brain = jennie_brain (demo_llm (Inl ApiError)) (\<lambda>_. ''0'')"

definition v5_task_world :: task_world where
  "v5_task_world = task_world_of (v5_scout demo_brain) ([], [])"

text \<open>Thirty rows of one stock: it is scored, has no snapshot, and the index alone is chosen.\<close>

definition v5_rows :: "price_row list" where
  "v5_rows = replicate 30 (demo_row 100 1000)"

lemma sort_key_replicate: "sort_key f (replicate n x) = replicate n x"
proof (induction n)
  case (Suc n)
  then show ?case by (cases n) simp_all
qed simp

lemma v5_prices: "market_prices (tw_market v5_task_world) ''005930'' 150 = Inr v5_rows"
  by (simp add: v5_task_world_def task_world_of_def v5_scout_def market_prices_def db_daily_prices_def latest_first_def
      v5_rows_def sort_key_replicate)

lemma v5_scored:
  obtains r where "quant_scores v5_task_world None (take 2 demo_candidates) no_caches = [(''005930'', r)]"
    "qr_code r = ''005930''" "qr_valid r" "qr_total r \<le> 100"
proof -
  obtain name where cs: "take 2 demo_candidates =
      [(''0001'', new_candidate ''KOSPI'' [static_reason]), (''005930'', new_candidate name [static_reason])]"
    by (simp add: demo_candidates_def BLUE_CHIP_STOCKS_def)
  obtain i where i: "quant_input_of ''005930'' (new_candidate name [static_reason]) [] v5_rows None = Inr i"
      "qi_prices i = Some v5_rows" "qi_code i = ''005930''" "qi_sentiment i = 50" "qi_foreign_ratio i = None"
    by (simp add: quant_input_of_def figure_def field_def)
  have thirty: "length v5_rows = 30" by (simp add: v5_rows_def)
  have snapshots: "tw_snapshots v5_task_world = []" by (simp add: v5_task_world_def task_world_of_def)
  let ?r = "fst (calculate_total_quant_score (tw_quant v5_task_world) i no_caches)"
  have "process_quant_scoring_task v5_task_world None ''005930'' (new_candidate name [static_reason]) no_caches =
      calculate_total_quant_score (tw_quant v5_task_world) i no_caches"
    using i(1) by (simp add: process_quant_scoring_task_def v5_prices thirty snapshots dict_get_def)
  then have scores: "quant_scores v5_task_world None (take 2 demo_candidates) no_caches = [(''005930'', ?r)]"
    by (simp add: cs split: prod.split)
  obtain sector news perf where r: "?r =
      scored_result i (quant_parts_of (qw_backend (tw_quant v5_task_world)) i v5_rows sector news) sector news perf"
    using calculate_scored [OF i(2)] thirty by (metis order_refl)
  then have code: "qr_code ?r = ''005930''" "qr_valid ?r"
    by (simp_all add: scored_result_def Let_def qr_valid_def i(3) split: prod.split)
  have backend: "qw_backend (tw_quant v5_task_world) = pandas_backend"
    by (simp add: v5_task_world_def task_world_of_def v5_scout_def demo_scout_def demo_quant_world_def)
  have "\<not> below_band pandas_backend (row_closes v5_rows)"
    by (simp add: below_band_def last_n_def demo_row_def pandas_backend_def sum_list_replicate v5_rows_def)
  then have "qr_total ?r \<le> 100"
    using quant_total_bounded [of "tw_quant v5_task_world" i no_caches] i(2,4,5) by (simp add: backend) (simp add: pandas_backend_def)
  with that scores code show ?thesis by blast
qed

lemma v5_run: "fst (run_v5 (v5_scout demo_brain) v5_task_world (take 2 demo_candidates) s) = Inr ([kospi_entry], 2, 0)"
proof -
  let ?cs = "take 2 demo_candidates"
  obtain r where r: "quant_scores v5_task_world None ?cs no_caches = [(''005930'', r)]"
    "qr_code r = ''005930''" "qr_valid r" "qr_total r \<le> 100" by (rule v5_scored)
  obtain c where cs: "map_of ?cs ''005930'' = Some c" "map_of ?cs ''0001'' \<noteq> None" "length ?cs = 2"
    by (simp add: demo_candidates_def BLUE_CHIP_STOCKS_def)
  obtain r' where passed: "filter_candidates [r] (Some (2/10)) = [r']" "qr_code r' = ''005930''"
    using r(2,3) by (simp add: filter_candidates_def sort_desc_def ranked_def enumerate_eq_zip Let_def)
  have scores: "filtered_scores [(''005930'', r)] = Inr [r']" using passed by (simp add: filtered_scores_def py_div_def Let_def)
  have chosen: "chosen_candidates ?cs [(''005930'', r)] [r'] = [(''005930'', c, r)]"
    using passed(2) cs(1) by (simp add: chosen_candidates_def map_filter_simps)
  have kospi: "market_prices (sw_market (v5_scout demo_brain)) ''0001'' 60 = Inr []"
    by (simp add: v5_scout_def market_prices_def db_daily_prices_def latest_first_def)
  have snap: "cached_snapshot v5_task_world code = None" for code
    by (simp add: cached_snapshot_def v5_task_world_def task_world_of_def)
  have env: "int_env (v5_scout demo_brain) k d = Inr d" for k d
    by (simp add: int_env_def sw_env_def v5_scout_def demo_scout_def)
  have order: "by_order (v5_scout demo_brain) ''v5_hunter'' fst [(''005930'', c, r)] = [(''005930'', c, r)]"
    "by_order (v5_scout demo_brain) ''v5_judge'' p1_code [] = []"
    by (simp_all add: by_order_def v5_scout_def demo_scout_def)
  have first: "kospi_first ?cs = [kospi_entry]" using cs(2) by (simp add: kospi_first_def)
  have hunter: "process_phase1_hunter_v5_task v5_task_world b a code c r s = (Inr (no_snapshot code c (Some r)), s)" for b a code
    by (simp add: process_phase1_hunter_v5_task_def snap)
  show ?thesis
    by (simp add: run_v5_def kospi r(1) scores chosen order hunter no_snapshot_def env for_debate_def first approved_entries_def
        with_quota_short cs(3) Let_def del: length_take)
qed

theorem hybrid_run_chooses_nothing_witness:
  "\<exists>s'. run_v5 (v5_scout demo_brain) v5_task_world (take 2 demo_candidates) (so_tasks demo_scout_state) = (Inr ([kospi_entry], 2, 0), s') \<and>
     [kospi_entry] = (if map_of (take 2 demo_candidates) ''0001'' = None then [] else [kospi_entry])"
proof -
  obtain s' where run: "run_v5 (v5_scout demo_brain) v5_task_world (take 2 demo_candidates) (so_tasks demo_scout_state) =
      (Inr ([kospi_entry], 2, 0), s')"
    using v5_run by (metis prod.collapse)
  have all: "completes_all (v5_scout demo_brain)" using demo_completes by (simp add: completes_all_def v5_scout_def)
  have b: "sw_brain (v5_scout demo_brain) = jennie_brain (demo_llm (Inl ApiError)) (\<lambda>_. ''0'')"
    by (simp add: v5_scout_def demo_scout_def demo_brain_def)
  have kospi: "market_prices (sw_market (v5_scout demo_brain)) ''0001'' 60 = Inr []"
    by (simp add: v5_scout_def market_prices_def db_daily_prices_def latest_first_def)
  obtain r where r: "quant_scores v5_task_world None (take 2 demo_candidates) no_caches = [(''005930'', r)]" "qr_total r \<le> 100"
    by (rule v5_scored)
  have "list_all (\<lambda>(code, q). qr_total q \<le> 100)
      (quant_scores v5_task_world (if ([]::price_row list) = [] then None else Some (row_closes [])) (take 2 demo_candidates) no_caches)"
    using r by simp
  from hybrid_run_chooses_nothing [OF all b kospi this run] run show ?thesis by blast
qed

end
