(* ===== verification/Optimizer.thy ===== *)
theory Optimizer
  imports Llm_Brain Watchlist
begin

text \<open>
  \<open>services/scout-job/scout_optimizer.py\<close> and \<open>shared/database/optimization.py\<close>: the search for
  better parameters. Two backtests, a check by the brain, an entry in the history and, after
  an approval, the update of the CONFIG table.

  Three of its calls pass keywords that the callee does not have. A call is therefore a binding
  of arguments to a signature, and the signatures are the code's; the pipeline takes them as an
  argument, so that both the pipeline as it is and the pipeline whose calls bind are described.
\<close>

section \<open>Calls\<close>

text \<open>A signature: its parameters without \<open>self\<close>, of which the first ones have no default.\<close>

record signature =
  sg_required :: "string list"
  sg_optional :: "string list"

definition binds :: "signature \<Rightarrow> nat \<Rightarrow> string list \<Rightarrow> bool" where
  "binds g positional keywords \<longleftrightarrow>
     (let all = sg_required g @ sg_optional g; given = take positional all @ keywords
       in positional \<le> length all \<and> distinct given \<and> set keywords \<subseteq> set all \<and> set (sg_required g) \<subseteq> set given)"

definition call :: "signature \<Rightarrow> nat \<Rightarrow> string list \<Rightarrow> 'a res \<Rightarrow> 'a res" where
  "call g positional keywords result = (if binds g positional keywords then result else Inl TypeError)"

record signatures =
  ss_backtester :: signature
  ss_verify :: signature
  ss_history :: signature

definition Backtester_init :: signature where
  "Backtester_init =
     \<lparr>sg_required = [''connection''],
      sg_optional = [''diagnose_mode'', ''diagnose_csv_path'', ''hybrid_mode'', ''smart_universe'']\<rparr>"

definition verify_signature :: signature where
  "verify_signature = \<lparr>sg_required = [''stock_info'', ''param_name'', ''old_val'', ''new_val''], sg_optional = []\<rparr>"

definition history_signature :: signature where
  "history_signature =
     \<lparr>sg_required = [''session'', ''current_params'', ''new_params'', ''current_performance'', ''new_performance'',
        ''ai_decision'', ''ai_reasoning'', ''ai_confidence''],
      sg_optional = [''market_summary'', ''backtest_period'']\<rparr>"

definition source_signatures :: signatures where
  "source_signatures = \<lparr>ss_backtester = Backtester_init, ss_verify = verify_signature, ss_history = history_signature\<rparr>"

definition backtester_keywords :: "string list" where
  "backtester_keywords =
     [''max_buys_per_day'', ''profit_target_full'', ''profit_target_partial'', ''rsi_threshold_1'', ''rsi_threshold_2'',
      ''rsi_threshold_3'', ''time_based_bull'', ''time_based_sideways'', ''max_position_pct'', ''cash_keep_pct'', ''hybrid_mode'']"

definition verify_keywords :: "string list" where
  "verify_keywords = [''current_params'', ''new_params'', ''current_performance'', ''new_performance'', ''market_summary'']"

definition history_keywords :: "string list" where
  "history_keywords =
     [''connection'', ''current_params'', ''new_params'', ''current_performance'', ''new_performance'', ''ai_decision'',
      ''ai_reasoning'', ''ai_confidence'', ''market_summary'', ''backtest_period'']"

section \<open>The history of optimisations\<close>

type_synonym tuned_params = "(string \<times> string) list"

record performance =
  pf_mdd :: rat
  pf_return :: rat

record optimization_row =
  oz_id :: nat
  oz_current :: performance
  oz_new :: performance
  oz_current_params :: tuned_params
  oz_new_params :: "(string \<times> rat) list"
  oz_decision :: string
  oz_reasoning :: jval
  oz_confidence :: rat
  oz_summary :: string
  oz_period :: int
  oz_applied :: bool
  oz_applied_at :: "rat option"

text \<open>The id is the next one of the table; a failing statement leaves the table and answers None.\<close>

definition save_optimization_history ::
  "py_exc option \<Rightarrow> (optimization_row \<Rightarrow> bool) \<Rightarrow> optimization_row \<Rightarrow> optimization_row list \<Rightarrow> nat option \<times> optimization_row list" where
  "save_optimization_history fault accepts r rows =
     (let i = Suc (fold max (map oz_id rows) 0); new = r\<lparr>oz_id := i, oz_applied := False, oz_applied_at := None\<rparr>
       in if fault = None \<and> accepts new then (Some i, rows @ [new]) else (None, rows))"

definition mark_optimization_applied :: "py_exc option \<Rightarrow> rat \<Rightarrow> nat \<Rightarrow> optimization_row list \<Rightarrow> optimization_row list" where
  "mark_optimization_applied fault tm i rows =
     (case fault of
        Some _ \<Rightarrow> rows
      | None \<Rightarrow> map (\<lambda>r. if oz_id r = i then r\<lparr>oz_applied := True, oz_applied_at := Some tm\<rparr> else r) rows)"

text \<open>The latest entries; the time of an entry is its place in the table.\<close>

definition get_recent_optimization_history :: "py_exc option \<Rightarrow> nat \<Rightarrow> optimization_row list \<Rightarrow> optimization_row list" where
  "get_recent_optimization_history fault n rows = (case fault of Some _ \<Rightarrow> [] | None \<Rightarrow> take n (rev rows))"

section \<open>Backtests and candidates\<close>

text \<open>\<open>_get_param\<close>: a value that cannot be converted gives the default.\<close>

definition get_param :: "tuned_params \<Rightarrow> string \<Rightarrow> 'a \<Rightarrow> (string \<Rightarrow> 'a option) \<Rightarrow> 'a" where
  "get_param ps k d cast = (case map_of ps k of None \<Rightarrow> d | Some t \<Rightarrow> (case cast t of None \<Rightarrow> d | Some x \<Rightarrow> x))"

record backtest_args =
  ba_max_buys :: int
  ba_target_full :: rat
  ba_target_partial :: rat
  ba_rsi_1 :: rat
  ba_rsi_2 :: rat
  ba_rsi_3 :: rat
  ba_bull_days :: int
  ba_sideways_days :: int
  ba_max_position :: int
  ba_cash_keep :: int

definition backtest_args_of :: "tuned_params \<Rightarrow> backtest_args" where
  "backtest_args_of ps =
     \<lparr>ba_max_buys = get_param ps ''MAX_BUYS_PER_DAY'' 100 parse_int,
      ba_target_full = get_param ps ''PROFIT_TARGET_FULL'' 10 parse_float,
      ba_target_partial = get_param ps ''PROFIT_TARGET_PARTIAL'' 5 parse_float,
      ba_rsi_1 = get_param ps ''RSI_THRESHOLD_1'' 70 parse_float, ba_rsi_2 = get_param ps ''RSI_THRESHOLD_2'' 75 parse_float,
      ba_rsi_3 = get_param ps ''RSI_THRESHOLD_3'' 80 parse_float, ba_bull_days = get_param ps ''TIME_BASED_BULL'' 30 parse_int,
      ba_sideways_days = get_param ps ''TIME_BASED_SIDEWAYS'' 30 parse_int,
      ba_max_position = get_param ps ''MAX_POSITION_PCT'' 5 parse_int, ba_cash_keep = get_param ps ''CASH_KEEP_PCT'' 5 parse_int\<rparr>"

text \<open>
  The world: whether the module of the backtester can be imported, what a backtest returns (a
  dictionary of metrics, empty without result), the answer of the brain, the CONFIG table's
  failures and clock, and the text of a number.
\<close>

record optimizer_world =
  ow_imported :: bool
  ow_backtest :: "backtest_args \<Rightarrow> (string \<times> jval) list res"
  ow_config_fault :: "py_exc option"
  ow_set_fault :: "string \<Rightarrow> py_exc option"
  ow_history_fault :: "py_exc option"
  ow_accepts :: "optimization_row \<Rightarrow> bool"
  ow_number :: "rat \<Rightarrow> string"
  ow_period_text :: "int \<Rightarrow> string"
  ow_tm :: rat

definition metric :: "jval \<Rightarrow> rat res" where
  "metric v = (case jnum v of Some x \<Rightarrow> Inr x | None \<Rightarrow> (case v of JStr t \<Rightarrow> (case parse_float t of Some x \<Rightarrow> Inr x | None \<Rightarrow> Inl ValueError) | _ \<Rightarrow> Inl TypeError))"

definition performance_of :: "(string \<times> jval) list \<Rightarrow> performance res" where
  "performance_of d =
     (let monthly = field ''monthly_return_pct'' JNull d; total = field ''total_return_pct'' JNull d
       in rbind (metric (field ''mdd_pct'' (JNum 0) d)) (\<lambda>mdd.
          rbind (metric (if monthly \<noteq> JNull then monthly else if jtruth total then total else JNum 0)) (\<lambda>ret.
            Inr \<lparr>pf_mdd = mdd, pf_return = ret\<rparr>)))"

definition run_simple_backtest :: "signatures \<Rightarrow> optimizer_world \<Rightarrow> tuned_params \<Rightarrow> performance option" where
  "run_simple_backtest g w ps =
     (if \<not> ow_imported w then None
      else case call (ss_backtester g) 1 backtester_keywords (ow_backtest w (backtest_args_of ps)) of
        Inl _ \<Rightarrow> None
      | Inr d \<Rightarrow> if d = [] then None else (case performance_of d of Inl _ \<Rightarrow> None | Inr p \<Rightarrow> Some p))"

definition RSI_CAP :: rat where
  "RSI_CAP = 80"

definition ATR_CAP :: rat where
  "ATR_CAP = 3"

definition config_float :: "tuned_params \<Rightarrow> string \<Rightarrow> rat option res" where
  "config_float ps k =
     (case map_of ps k of
        None \<Rightarrow> Inr None
      | Some t \<Rightarrow> (case parse_float t of None \<Rightarrow> Inl ValueError | Some x \<Rightarrow> Inr (Some x)))"

definition generate_optimized_params :: "tuned_params \<Rightarrow> (string \<times> rat) list res" where
  "generate_optimized_params ps =
     rbind (config_float ps ''SELL_RSI_OVERBOUGHT_THRESHOLD'') (\<lambda>rsi.
     rbind (config_float ps ''ATR_MULTIPLIER'') (\<lambda>atr.
       Inr ((case rsi of None \<Rightarrow> [] | Some x \<Rightarrow> [(''SELL_RSI_OVERBOUGHT_THRESHOLD'', min RSI_CAP (x + x * (5/100)))]) @
            (case atr of None \<Rightarrow> [] | Some x \<Rightarrow> [(''ATR_MULTIPLIER'', min ATR_CAP (x + 1/10))]))))"

text \<open>\<open>{**current_params, **new_params}\<close>\<close>

definition merged_params :: "optimizer_world \<Rightarrow> tuned_params \<Rightarrow> (string \<times> rat) list \<Rightarrow> tuned_params" where
  "merged_params w ps new = fold (\<lambda>(k, x). AList.update k (ow_number w x)) new ps"

section \<open>The pipeline\<close>

text \<open>The brain's answer; a failing call and a false answer are None.\<close>

definition verify_params_with_llm :: "signatures \<Rightarrow> jval \<Rightarrow> (string \<times> jval) list option" where
  "verify_params_with_llm g answer =
     (case call (ss_verify g) 0 verify_keywords (Inr answer) of
        Inr (JObj (x # xs)) \<Rightarrow> Some (x # xs)
      | _ \<Rightarrow> None)"

record optimizer_state =
  op_config :: "config_row list"
  op_history :: "optimization_row list"

definition update_param :: "optimizer_world \<Rightarrow> string \<times> rat \<Rightarrow> config_row list \<Rightarrow> config_row list" where
  "update_param w = (\<lambda>(k, x) rows. snd (set_config (ow_set_fault w k) (ow_tm w) k (ow_number w x) None rows))"

definition apply_params :: "optimizer_world \<Rightarrow> (string \<times> rat) list \<Rightarrow> nat option \<Rightarrow> optimizer_state \<Rightarrow> bool \<times> optimizer_state" where
  "apply_params w new i s =
     (True, s\<lparr>op_config := fold (update_param w) new (op_config s),
        op_history := (case i of None \<Rightarrow> op_history s
          | Some n \<Rightarrow> if n = 0 then op_history s else mark_optimization_applied (ow_history_fault w) (ow_tm w) n (op_history s))\<rparr>)"

definition optimization_entry ::
  "optimizer_world \<Rightarrow> tuned_params \<Rightarrow> (string \<times> rat) list \<Rightarrow> performance \<Rightarrow> performance \<Rightarrow> bool \<Rightarrow> jval \<Rightarrow> rat \<Rightarrow> int \<Rightarrow> optimization_row" where
  "optimization_entry w ps new p0 p1 ok why confidence period =
     \<lparr>oz_id = 0, oz_current = p0, oz_new = p1, oz_current_params = ps, oz_new_params = new,
      oz_decision = (if ok then ''APPROVED'' else ''REJECTED''), oz_reasoning = why, oz_confidence = confidence,
      oz_summary = ow_period_text w period, oz_period = period, oz_applied = False, oz_applied_at = None\<rparr>"

definition decide ::
  "signatures \<Rightarrow> optimizer_world \<Rightarrow> tuned_params \<Rightarrow> (string \<times> rat) list \<Rightarrow> performance \<Rightarrow> performance \<Rightarrow> int \<Rightarrow> (string \<times> jval) list \<Rightarrow>
   optimizer_state \<Rightarrow> bool \<times> optimizer_state" where
  "decide g w ps new p0 p1 period answer s =
     (let ok = jtruth (field ''is_approved'' (JBool False) answer)
       in case jnum (field ''confidence_score'' (JNum 0) answer) of
            None \<Rightarrow> (False, s)
          | Some confidence \<Rightarrow>
              (let entry = optimization_entry w ps new p0 p1 ok (field ''reasoning'' (JStr ''N/A'') answer) confidence period
                in case call (ss_history g) 0 history_keywords
                      (Inr (save_optimization_history (ow_history_fault w) (ow_accepts w) entry (op_history s))) of
                     Inl _ \<Rightarrow> (False, s)
                   | Inr (i, rows) \<Rightarrow>
                       (let s1 = s\<lparr>op_history := rows\<rparr>
                         in if ok \<and> 7/10 < confidence then apply_params w new i s1 else (False, s1))))"

definition run_auto_parameter_optimization ::
  "signatures \<Rightarrow> optimizer_world \<Rightarrow> jval \<Rightarrow> optimizer_state \<Rightarrow> bool \<times> optimizer_state" where
  "run_auto_parameter_optimization g w answer s =
     (let ps = get_all_config (ow_config_fault w) (op_config s)
       in case parse_int (case map_of ps ''AUTO_OPTIMIZATION_PERIOD_DAYS'' of None \<Rightarrow> ''90'' | Some t \<Rightarrow> t) of
            None \<Rightarrow> (False, s)
          | Some period \<Rightarrow>
              if ps = [] then (False, s)
              else (case run_simple_backtest g w ps of
                None \<Rightarrow> (False, s)
              | Some p0 \<Rightarrow>
                  (case generate_optimized_params ps of
                     Inl _ \<Rightarrow> (False, s)
                   | Inr new \<Rightarrow>
                       (case run_simple_backtest g w (merged_params w ps new) of
                          None \<Rightarrow> (False, s)
                        | Some p1 \<Rightarrow>
                            (case verify_params_with_llm g answer of
                               None \<Rightarrow> (False, s)
                             | Some d \<Rightarrow> decide g w ps new p0 p1 period d s)))))"

section \<open>Properties\<close>

text \<open>None of the three calls binds.\<close>

lemma calls_as_written:
  "\<not> binds Backtester_init 1 backtester_keywords" "\<not> binds verify_signature 0 verify_keywords"
  "\<not> binds history_signature 0 history_keywords"
  by (simp_all add: binds_def Backtester_init_def backtester_keywords_def verify_signature_def verify_keywords_def
      history_signature_def history_keywords_def)

lemma no_backtest: "run_simple_backtest source_signatures w ps = None"
  by (simp add: run_simple_backtest_def call_def source_signatures_def calls_as_written(1) [simplified])

text \<open>
  C35. The optimisation never succeeds and never changes anything, whatever the backtests, the
  brain and the database would answer: its first backtest already fails.
\<close>

theorem optimization_never_applies: "run_auto_parameter_optimization source_signatures w answer s = (False, s)"
  by (simp add: run_auto_parameter_optimization_def Let_def no_backtest split: option.split)

lemma generated_keys:
  "generate_optimized_params ps = Inr new \<Longrightarrow>
   set (map fst new) \<subseteq> {''SELL_RSI_OVERBOUGHT_THRESHOLD'', ''ATR_MULTIPLIER''} \<and>
   list_all (\<lambda>(k, x). x \<le> (if k = ''ATR_MULTIPLIER'' then ATR_CAP else RSI_CAP)) new"
  by (auto simp: generate_optimized_params_def rbind_eq_Inr_iff split: option.splits)

lemma update_param_other: "k \<noteq> fst p \<Longrightarrow> row_of cf_key k (update_param w p rows) = row_of cf_key k rows"
  by (auto simp: update_param_def set_config_def config_rows.row_of_put split: prod.split option.split)

lemma update_params_other:
  "k \<notin> set (map fst ps) \<Longrightarrow> row_of cf_key k (fold (update_param w) ps rows) = row_of cf_key k rows"
  by (induction ps arbitrary: rows) (auto simp: update_param_other)

lemma run_changes_config:
  assumes "run_auto_parameter_optimization g w answer s = (r, s')" "op_config s' \<noteq> op_config s"
  shows "\<exists>d c new. answer = JObj d \<and> jtruth (field ''is_approved'' (JBool False) d) \<and>
    jnum (field ''confidence_score'' (JNum 0) d) = Some c \<and> 7/10 < c \<and> r \<and>
    generate_optimized_params (get_all_config (ow_config_fault w) (op_config s)) = Inr new \<and>
    op_config s' = fold (update_param w) new (op_config s)"
  using assms
  by (auto simp: run_auto_parameter_optimization_def decide_def apply_params_def verify_params_with_llm_def call_def Let_def
      split: option.splits sum.splits if_splits jval.splits list.splits prod.splits)

text \<open>
  With other signatures, for which the calls bind, only an approval with a confidence above 0.7
  would change the CONFIG table, and of its rows only those of the two parameters.
\<close>

lemma approved_changes:
  assumes "run_auto_parameter_optimization g w answer s = (r, s')" "op_config s' \<noteq> op_config s"
  shows "(\<exists>d c. answer = JObj d \<and> jtruth (field ''is_approved'' (JBool False) d) \<and>
      jnum (field ''confidence_score'' (JNum 0) d) = Some c \<and> 7/10 < c) \<and>
    (k \<noteq> ''SELL_RSI_OVERBOUGHT_THRESHOLD'' \<longrightarrow> k \<noteq> ''ATR_MULTIPLIER'' \<longrightarrow>
      row_of cf_key k (op_config s') = row_of cf_key k (op_config s))"
proof -
  from run_changes_config [OF assms] obtain d c new where
    d: "answer = JObj d" "jtruth (field ''is_approved'' (JBool False) d)" "jnum (field ''confidence_score'' (JNum 0) d) = Some c" "7/10 < c"
    and new: "generate_optimized_params (get_all_config (ow_config_fault w) (op_config s)) = Inr new"
      "op_config s' = fold (update_param w) new (op_config s)" by blast
  have "row_of cf_key k (op_config s') = row_of cf_key k (op_config s)"
    if "k \<noteq> ''SELL_RSI_OVERBOUGHT_THRESHOLD''" "k \<noteq> ''ATR_MULTIPLIER''"
    unfolding new(2) using generated_keys [OF new(1)] that by (intro update_params_other) blast
  with d show ?thesis by blast
qed

text \<open>A candidate above the cap is not an increase: it falls to the cap.\<close>

lemma cap_lowers:
  assumes "map_of ps ''SELL_RSI_OVERBOUGHT_THRESHOLD'' = Some t" "parse_float t = Some x" "0 < x"
    and "generate_optimized_params ps = Inr new"
  shows "map_of new ''SELL_RSI_OVERBOUGHT_THRESHOLD'' = Some y \<and> y < x \<longleftrightarrow> y = RSI_CAP \<and> RSI_CAP < x"
  using assms by (auto simp: generate_optimized_params_def rbind_eq_Inr_iff config_float_def RSI_CAP_def min_def split: if_splits)

end
