(* ===== verification/Kis_Client.thy ===== *)
theory Kis_Client
  imports Kis_Gateway
begin

text \<open>
  The client of the broker's REST interface: \<open>shared/kis/client.py\<close>, \<open>auth.py\<close> and \<open>request.py\<close>.
  One request of a service becomes at most two requests to the broker, with tokens fetched
  where they are missing or refused.

  The network is a parameter: what comes back for a call may depend on the call and on all calls
  before it, so the broker is an arbitrary deterministic server. The log of calls, the
  token in the headers and the token file are the state (\<open>broker_client\<close>). The package holds no
  \<open>auth_distributed\<close>, so tokens come from the provider or from the file. The pauses of
  the client are left out and the clock stands still: \<open>kw_today\<close>, \<open>kw_days_ago\<close> and
  \<open>kw_time\<close> are days and the time as texts, \<open>kw_seoul\<close> is the weekday, hour and minute in Seoul.
\<close>

section \<open>Documents\<close>

text \<open>A parsed JSON document, with lists, and Python's access to it.\<close>

datatype kval = KNull | KBool bool | KNum rat | KStr string | KList "kval list" | KObj "(string \<times> kval) list"

fun ktruth :: "kval \<Rightarrow> bool" where
  "ktruth KNull = False"
| "ktruth (KBool b) = b"
| "ktruth (KNum x) = (x \<noteq> 0)"
| "ktruth (KStr s) = (s \<noteq> [])"
| "ktruth (KList xs) = (xs \<noteq> [])"
| "ktruth (KObj d) = (d \<noteq> [])"

definition key_or :: "string \<Rightarrow> kval \<Rightarrow> (string \<times> kval) list \<Rightarrow> kval" where
  "key_or k v d = (case map_of d k of None \<Rightarrow> v | Some x \<Rightarrow> x)"

text \<open>\<open>d.get(k, v)\<close>, \<open>d[k]\<close>, \<open>d[0]\<close>, \<open>for x in d\<close>, \<open>d.strip()\<close>, \<open>int(d)\<close> and \<open>float(d)\<close>.\<close>

fun kget :: "string \<Rightarrow> kval \<Rightarrow> kval \<Rightarrow> kval res" where
  "kget k v (KObj d) = Inr (key_or k v d)"
| "kget _ _ _ = Inl AttributeError"

fun kitem :: "string \<Rightarrow> kval \<Rightarrow> kval res" where
  "kitem k (KObj d) = (case map_of d k of None \<Rightarrow> Inl KeyError | Some x \<Rightarrow> Inr x)"
| "kitem _ _ = Inl TypeError"

fun kfirst :: "kval \<Rightarrow> kval res" where
  "kfirst (KList xs) = (case xs of [] \<Rightarrow> Inl IndexError | x # _ \<Rightarrow> Inr x)"
| "kfirst (KStr s) = (case s of [] \<Rightarrow> Inl IndexError | c # _ \<Rightarrow> Inr (KStr [c]))"
| "kfirst (KObj d) = Inl KeyError"
| "kfirst _ = Inl TypeError"

fun kiter :: "kval \<Rightarrow> kval list res" where
  "kiter (KList xs) = Inr xs"
| "kiter (KStr s) = Inr (map (\<lambda>c. KStr [c]) s)"
| "kiter (KObj d) = Inr (map (KStr \<circ> fst) d)"
| "kiter _ = Inl TypeError"

fun kstrip :: "kval \<Rightarrow> string res" where
  "kstrip (KStr s) = Inr (py_strip s)"
| "kstrip _ = Inl AttributeError"

fun kint :: "kval \<Rightarrow> int res" where
  "kint (KNum x) = Inr (py_int x)"
| "kint (KBool b) = Inr (if b then 1 else 0)"
| "kint (KStr s) = (case parse_int s of None \<Rightarrow> Inl ValueError | Some i \<Rightarrow> Inr i)"
| "kint _ = Inl TypeError"

fun kfloat :: "kval \<Rightarrow> rat res" where
  "kfloat (KNum x) = Inr x"
| "kfloat (KBool b) = Inr (if b then 1 else 0)"
| "kfloat (KStr s) = (case parse_float s of None \<Rightarrow> Inl ValueError | Some x \<Rightarrow> Inr x)"
| "kfloat _ = Inl TypeError"

text \<open>\<open>int(d.get(k, 0))\<close> and \<open>float(d.get(k, 0))\<close>.\<close>

definition int_at :: "string \<Rightarrow> kval \<Rightarrow> int res" where
  "int_at k d = rbind (kget k (KNum 0) d) kint"

definition float_at :: "string \<Rightarrow> kval \<Rightarrow> rat res" where
  "float_at k d = rbind (kget k (KNum 0) d) kfloat"

section \<open>Calls and replies\<close>

record http_request =
  rq_method :: string
  rq_path :: string
  rq_fields :: "(string \<times> jval) list"
  rq_tr :: string

text \<open>A call of the token provider, of the broker's token endpoint, of its interface with a token.\<close>

datatype outgoing = ProviderCall bool | TokenCall | ApiCall http_request "kval option"

datatype http_body = Blank | Unparsable | Parsed kval

datatype http_reply = NoReply | Reply int http_body

definition bad_status :: "int \<Rightarrow> bool" where
  "bad_status status \<longleftrightarrow> 400 \<le> status \<and> status < 600"

datatype token_file = NoFile | BrokenFile | TokenFile kval

record broker_client =
  kc_token :: "kval option"
  kc_file :: token_file
  kc_log :: "outgoing list"

record kis_world =
  kw_net :: "outgoing list \<Rightarrow> outgoing \<Rightarrow> http_reply"
  kw_provider :: bool
  kw_lock :: "outgoing list \<Rightarrow> bool"
  kw_key :: string
  kw_secret :: string
  kw_now :: rat
  kw_iso :: "string \<Rightarrow> rat option"
  kw_str :: "jval \<Rightarrow> string"
  kw_today :: string
  kw_days_ago :: "rat \<Rightarrow> string"
  kw_time :: string
  kw_seoul :: "int \<times> int \<times> int"
  kw_skip_hours :: bool
  kw_strptime :: "string \<Rightarrow> string \<Rightarrow> rat option"
  kw_mode :: string
  kw_account :: "string \<times> string"

type_synonym 'a kis = "broker_client \<Rightarrow> 'a \<times> broker_client"

definition new_client :: "token_file \<Rightarrow> broker_client" where
  "new_client f = \<lparr>kc_token = None, kc_file = f, kc_log = []\<rparr>"

definition http_call :: "kis_world \<Rightarrow> outgoing \<Rightarrow> http_reply kis" where
  "http_call w out c = (kw_net w (kc_log c) out, c\<lparr>kc_log := kc_log c @ [out]\<rparr>)"

section \<open>Tokens\<close>

text \<open>\<open>_try_token_provider\<close>. A body that is no JSON raises an error of \<open>requests\<close>, which is caught.\<close>

definition provider_token :: "http_reply \<Rightarrow> kval option res" where
  "provider_token r =
     (case r of
        NoReply \<Rightarrow> Inr None
      | Reply status body \<Rightarrow>
          if bad_status status then Inr None
          else case body of
            Parsed d \<Rightarrow> rbind (kget ''access_token'' KNull d) (\<lambda>t. Inr (if ktruth t then Some t else None))
          | _ \<Rightarrow> Inr None)"

definition try_token_provider :: "kis_world \<Rightarrow> bool \<Rightarrow> kval option res kis" where
  "try_token_provider w force c =
     (if \<not> kw_provider w then (Inr None, c)
      else let (r, c') = http_call w (ProviderCall force) c in (provider_token r, c'))"

definition expires_at_ts :: "kis_world \<Rightarrow> kval \<Rightarrow> rat" where
  "expires_at_ts w v =
     (case v of
        KNum x \<Rightarrow> x
      | KBool b \<Rightarrow> if b then 1 else 0
      | KStr s \<Rightarrow> (case kw_iso w s of
                     Some x \<Rightarrow> x
                   | None \<Rightarrow> (case parse_float s of Some x \<Rightarrow> x | None \<Rightarrow> 0))
      | _ \<Rightarrow> 0)"

text \<open>The token of the file while it is valid for another ten minutes.\<close>

definition cached_token :: "kis_world \<Rightarrow> bool \<Rightarrow> token_file \<Rightarrow> kval option res" where
  "cached_token w force f =
     (if force then Inr None
      else case f of
        NoFile \<Rightarrow> Inr None
      | BrokenFile \<Rightarrow> Inl ValueError
      | TokenFile d \<Rightarrow>
          rbind (kget ''expires_at'' (KNum 0) d) (\<lambda>v.
            if kw_now w < expires_at_ts w v - 600 then rbind (kitem ''access_token'' d) (Inr \<circ> Some)
            else Inr None))"

text \<open>The token of a reply and the seconds it is good for.\<close>

definition issued_token :: "http_reply \<Rightarrow> (kval \<times> int) option res" where
  "issued_token r =
     (case r of
        NoReply \<Rightarrow> Inr None
      | Reply status body \<Rightarrow>
          if bad_status status then Inr None
          else case body of
            Parsed d \<Rightarrow>
              rbind (kget ''access_token'' KNull d) (\<lambda>t.
                if \<not> ktruth t then Inr None
                else rbind (kget ''expires_in'' (KNum 86400) d) (\<lambda>v.
                  rbind (kint v) (\<lambda>n. Inr (Some (t, n)))))
          | _ \<Rightarrow> Inr None)"

definition get_local_token :: "kis_world \<Rightarrow> bool \<Rightarrow> kval option res kis" where
  "get_local_token w force c =
     (if \<not> kw_lock w (kc_log c) then (Inr None, c)
      else case cached_token w force (kc_file c) of
        Inl e \<Rightarrow> (Inl e, c)
      | Inr (Some t) \<Rightarrow> (Inr (Some t), c)
      | Inr None \<Rightarrow>
          if kw_key w = [] \<or> kw_secret w = [] then (Inr None, c)
          else
            (let (r, c') = http_call w TokenCall c
              in case issued_token r of
                   Inl e \<Rightarrow> (Inl e, c')
                 | Inr None \<Rightarrow> (Inr None, c')
                 | Inr (Some (t, n)) \<Rightarrow>
                     (Inr (Some t), c'\<lparr>kc_file := TokenFile (KObj [(''access_token'', t),
                        (''expires_at'', KNum (kw_now w + of_int n))])\<rparr>)))"

definition get_access_token :: "kis_world \<Rightarrow> bool \<Rightarrow> kval option res kis" where
  "get_access_token w force c =
     (case try_token_provider w force c of
        (Inl e, c') \<Rightarrow> (Inl e, c')
      | (Inr (Some t), c') \<Rightarrow> (Inr (Some t), c')
      | (Inr None, c') \<Rightarrow> get_local_token w force c')"

text \<open>\<open>KISClient.authenticate\<close>: a new token replaces the headers, a failure leaves them.\<close>

definition authenticate :: "kis_world \<Rightarrow> bool \<Rightarrow> bool res kis" where
  "authenticate w force c =
     (case get_access_token w force c of
        (Inl e, c') \<Rightarrow> (Inl e, c')
      | (Inr (Some t), c') \<Rightarrow> if ktruth t then (Inr True, c'\<lparr>kc_token := Some t\<rparr>) else (Inr False, c')
      | (Inr None, c') \<Rightarrow> (Inr False, c'))"

section \<open>Requests\<close>

text \<open>What is to be done with a reply: an answer, or another attempt, with or without a new token.\<close>

datatype reply_verdict = Give "kval option" | Retry | RetryWithToken | RetryQuietly

definition empty_success :: kval where
  "empty_success = KObj [(''rt_cd'', KStr ''0''), (''output1'', KList [])]"

definition empty_error :: "(string \<times> kval) list \<Rightarrow> bool" where
  "empty_error d \<longleftrightarrow> key_or ''rt_cd'' KNull d = KStr ''1'' \<and> \<not> ktruth (key_or ''msg_cd'' KNull d) \<and>
     \<not> ktruth (key_or ''msg1'' KNull d)"

definition read_document :: "string \<Rightarrow> bool \<Rightarrow> int \<Rightarrow> (string \<times> kval) list \<Rightarrow> reply_verdict" where
  "read_document tr first status d =
     (if key_or ''msg_cd'' KNull d \<in> {KStr ''EGW00121'', KStr ''EGW00123''} \<and> first then RetryWithToken
      else if status = 500 \<and> empty_error d then (if first then RetryQuietly else Give None)
      else if status = 500 \<and> first then Retry
      else if bad_status status then Give None
      else if tr = ''KIS-WS-AUTH'' \<and> ktruth (key_or ''approval_key'' KNull d) then Give (Some (KObj d))
      else if key_or ''rt_cd'' KNull d \<noteq> KStr ''0'' then Give None
      else Give (Some (KObj d)))"

definition read_reply :: "string \<Rightarrow> bool \<Rightarrow> http_reply \<Rightarrow> reply_verdict" where
  "read_reply tr first r =
     (case r of
        NoReply \<Rightarrow> Give None
      | Reply status body \<Rightarrow>
          (case body of
             Blank \<Rightarrow> Give (if status = 404 then Some empty_success else None)
           | Unparsable \<Rightarrow> Give None
           | Parsed (KObj d) \<Rightarrow> read_document tr first status d
           | Parsed _ \<Rightarrow> Give None))"

text \<open>
  One turn of the loop. A token is fetched when there is none; its failure is only logged, an
  exception on the way ends the request, except while an empty error is handled.
\<close>

definition kis_attempt :: "kis_world \<Rightarrow> http_request \<Rightarrow> bool \<Rightarrow> reply_verdict kis" where
  "kis_attempt w rq first c =
     (let (ready, c1) = (if kc_token c = None then authenticate w True c else (Inr True, c))
       in case ready of
            Inl _ \<Rightarrow> (Give None, c1)
          | Inr _ \<Rightarrow>
              (let (r, c2) = http_call w (ApiCall rq (kc_token c1)) c1
                in case read_reply (rq_tr rq) first r of
                     RetryWithToken \<Rightarrow>
                       (let (a, c3) = authenticate w True c2
                         in (case a of Inl _ \<Rightarrow> Give None | Inr _ \<Rightarrow> Retry, c3))
                   | RetryQuietly \<Rightarrow> (Retry, snd (authenticate w True c2))
                   | v \<Rightarrow> (v, c2)))"

definition safe_request :: "kis_world \<Rightarrow> http_request \<Rightarrow> kval option kis" where
  "safe_request w rq c =
     (case kis_attempt w rq True c of
        (Give a, c1) \<Rightarrow> (a, c1)
      | (_, c1) \<Rightarrow>
          (case kis_attempt w rq False c1 of
             (Give a, c2) \<Rightarrow> (a, c2)
           | (_, c2) \<Rightarrow> (None, c2)))"

text \<open>\<open>KISAuth.get_ws_approval_key\<close>.\<close>

definition approval_request :: "kis_world \<Rightarrow> http_request" where
  "approval_request w = \<lparr>rq_method = ''POST'', rq_path = ''/oauth2/Approval'',
     rq_fields = [(''grant_type'', JStr ''client_credentials''), (''appkey'', JStr (kw_key w)),
       (''secretkey'', JStr (kw_secret w))], rq_tr = ''KIS-WS-AUTH''\<rparr>"

definition get_ws_approval_key :: "kis_world \<Rightarrow> kval res kis" where
  "get_ws_approval_key w c =
     (case safe_request w (approval_request w) c of
        (Some d, c') \<Rightarrow> (if ktruth d then kget ''approval_key'' KNull d else Inr KNull, c')
      | (None, c') \<Rightarrow> (Inr KNull, c'))"

section \<open>Lemmas\<close>

lemmas token_defs = get_access_token_def get_local_token_def try_token_provider_def http_call_def

text \<open>The calls of the interface in a log, and how often a request is among them.\<close>

fun is_api :: "http_request \<Rightarrow> outgoing \<Rightarrow> bool" where
  "is_api rq (ApiCall r _) = (r = rq)"
| "is_api _ _ = False"

definition times_sent :: "http_request \<Rightarrow> broker_client \<Rightarrow> nat" where
  "times_sent rq c = length (filter (is_api rq) (kc_log c))"

lemma times_sent_simps [simp]:
  "times_sent rq (c\<lparr>kc_token := t\<rparr>) = times_sent rq c" "times_sent rq (c\<lparr>kc_file := f\<rparr>) = times_sent rq c"
  "times_sent rq (snd (http_call w x c)) = times_sent rq c + (if is_api rq x then 1 else 0)"
  by (simp_all add: times_sent_def http_call_def)

lemma provider_frame: "times_sent rq (snd (try_token_provider w force c)) = times_sent rq c"
  by (simp add: try_token_provider_def http_call_def times_sent_def)

lemma local_frame: "times_sent rq (snd (get_local_token w force c)) = times_sent rq c"
  by (simp add: get_local_token_def http_call_def times_sent_def split: sum.split option.split)

lemma token_frame: "times_sent rq (snd (get_access_token w force c)) = times_sent rq c"
  using provider_frame [of rq w force c]
  by (simp add: get_access_token_def local_frame split: prod.split sum.split option.split)
    (metis local_frame snd_conv)

lemma authenticate_frame [simp]: "times_sent rq (snd (authenticate w force c)) = times_sent rq c"
  using token_frame [of rq w force c]
  by (simp add: authenticate_def split: prod.split sum.split option.split) auto

lemma attempt_times_sent: "times_sent rq (snd (kis_attempt w rq first c)) \<le> times_sent rq c + 1"
proof -
  obtain ready c1 where 1: "(if kc_token c = None then authenticate w True c else (Inr True, c)) = (ready, c1)"
    by (metis prod.collapse)
  then have "times_sent rq c1 = times_sent rq c"
    by (metis authenticate_frame snd_conv)
  then show ?thesis
    by (simp add: kis_attempt_def 1 split_beta split: sum.split reply_verdict.split)
qed

text \<open>A second attempt never asks for a third.\<close>

lemma second_attempt_gives: "read_reply tr False r \<noteq> Retry \<and> read_reply tr False r \<noteq> RetryWithToken \<and>
    read_reply tr False r \<noteq> RetryQuietly"
  by (simp add: read_reply_def read_document_def split: http_reply.split http_body.split kval.split)

lemma read_reply_gives:
  assumes "read_reply tr first r = Give (Some d)" "tr \<noteq> ''KIS-WS-AUTH''"
  shows "\<exists>x. d = KObj x \<and> key_or ''rt_cd'' KNull x = KStr ''0''"
  using assms
  by (auto simp: read_reply_def read_document_def empty_success_def key_or_def
      split: http_reply.splits http_body.splits kval.splits if_splits)

lemma attempt_gives:
  assumes "kis_attempt w rq first c = (Give (Some d), c')"
  shows "times_sent rq c' = times_sent rq c + 1"
    "\<exists>past call. kc_log c' = past @ [call] \<and> is_api rq call \<and>
       read_reply (rq_tr rq) first (kw_net w past call) = Give (Some d)"
proof -
  obtain ready c1 where 1: "(if kc_token c = None then authenticate w True c else (Inr True, c)) = (ready, c1)"
    by (metis prod.collapse)
  then have "times_sent rq c1 = times_sent rq c"
    by (metis authenticate_frame snd_conv)
  then show "times_sent rq c' = times_sent rq c + 1"
    "\<exists>past call. kc_log c' = past @ [call] \<and> is_api rq call \<and>
       read_reply (rq_tr rq) first (kw_net w past call) = Give (Some d)"
    using assms by (auto simp: kis_attempt_def 1 split_beta http_call_def times_sent_def
        split: sum.splits reply_verdict.splits)
qed

text \<open>Every answer of a request was read from the reply to the last call, which is the request itself.\<close>

lemma request_origin:
  assumes "safe_request w rq c = (Some d, c')"
  shows "\<exists>first past call. kc_log c' = past @ [call] \<and> is_api rq call \<and>
    read_reply (rq_tr rq) first (kw_net w past call) = Give (Some d)"
proof -
  obtain first c0 where "kis_attempt w rq first c0 = (Give (Some d), c')"
    using assms by (auto simp: safe_request_def split: prod.splits reply_verdict.splits)
  then show ?thesis
    using attempt_gives(2) by blast
qed

lemma attempt_grows: "times_sent rq c \<le> times_sent rq (snd (kis_attempt w rq first c))"
proof -
  obtain ready c1 where 1: "(if kc_token c = None then authenticate w True c else (Inr True, c)) = (ready, c1)"
    by (metis prod.collapse)
  then have "times_sent rq c1 = times_sent rq c"
    by (metis authenticate_frame snd_conv)
  then show ?thesis
    by (simp add: kis_attempt_def 1 split_beta split: sum.split reply_verdict.split)
qed

text \<open>An answer means that the request was sent.\<close>

lemma answer_was_sent:
  assumes "safe_request w rq c = (Some d, c')"
  shows "times_sent rq c < times_sent rq c'"
  using assms attempt_grows [of rq c w True] attempt_gives(1)
  by (fastforce simp: safe_request_def split: prod.splits reply_verdict.splits)

lemma request_gives:
  assumes "safe_request w rq c = (Some d, c')" "rq_tr rq \<noteq> ''KIS-WS-AUTH''"
  shows "\<exists>x. d = KObj x \<and> key_or ''rt_cd'' KNull x = KStr ''0''"
  using request_origin [OF assms(1)] read_reply_gives assms(2) by blast

text \<open>
  A request of the client reaches the broker at most twice, and an answer it gives is a
  document with the code of success.
\<close>

theorem request_bounded:
  "times_sent rq (snd (safe_request w rq c)) \<le> times_sent rq c + 2 \<and>
   (rq_tr rq = ''KIS-WS-AUTH'' \<or> fst (safe_request w rq c) = None \<or>
    (\<exists>x. fst (safe_request w rq c) = Some (KObj x) \<and> key_or ''rt_cd'' KNull x = KStr ''0''))"
proof
  obtain v c1 where 1: "kis_attempt w rq True c = (v, c1)" by (metis prod.collapse)
  obtain v' c2 where 2: "kis_attempt w rq False c1 = (v', c2)" by (metis prod.collapse)
  have "times_sent rq c1 \<le> times_sent rq c + 1" "times_sent rq c2 \<le> times_sent rq c1 + 1"
    using attempt_times_sent [of rq w True c] attempt_times_sent [of rq w False c1] 1 2 by simp_all
  then show "times_sent rq (snd (safe_request w rq c)) \<le> times_sent rq c + 2"
    by (simp add: safe_request_def 1 2 split: reply_verdict.split)
  show "rq_tr rq = ''KIS-WS-AUTH'' \<or> fst (safe_request w rq c) = None \<or>
      (\<exists>x. fst (safe_request w rq c) = Some (KObj x) \<and> key_or ''rt_cd'' KNull x = KStr ''0'')"
  proof (cases "fst (safe_request w rq c)")
    case (Some d)
    then have "safe_request w rq c = (Some d, snd (safe_request w rq c))" by (metis prod.collapse)
    from request_gives [OF this] show ?thesis using Some by auto
  qed simp
qed

text \<open>While the broker answers and has a token, a request is one call.\<close>

lemma request_once:
  assumes "kc_token c = Some t" "read_reply (rq_tr rq) True (kw_net w (kc_log c) (ApiCall rq (Some t))) = Give a"
  shows "safe_request w rq c = (a, c\<lparr>kc_log := kc_log c @ [ApiCall rq (Some t)]\<rparr>)"
  using assms by (simp add: safe_request_def kis_attempt_def http_call_def)

text \<open>A token stays one: a failed renewal leaves the old one in the headers.\<close>

lemma provider_token_kept: "kc_token (snd (try_token_provider w force c)) = kc_token c"
  by (simp add: try_token_provider_def http_call_def)

lemma local_token_kept: "kc_token (snd (get_local_token w force c)) = kc_token c"
  by (simp add: get_local_token_def http_call_def split: sum.split option.split)

lemma access_token_kept: "kc_token (snd (get_access_token w force c)) = kc_token c"
  using provider_token_kept [of w force c] local_token_kept [of w force]
  by (auto simp: get_access_token_def split: prod.split sum.split option.split)

lemma authenticate_keeps_token: "kc_token c \<noteq> None \<Longrightarrow> kc_token (snd (authenticate w force c)) \<noteq> None"
  using access_token_kept [of w force c]
  by (auto simp: authenticate_def split: prod.split sum.split option.split)

lemma attempt_with_token:
  assumes "kc_token c \<noteq> None"
  shows "times_sent rq (snd (kis_attempt w rq first c)) = times_sent rq c + 1"
  using assms by (simp add: kis_attempt_def split_beta split: reply_verdict.split sum.split)

lemma second_attempt:
  assumes "kis_attempt w rq True c = (Retry, c1)"
  shows "snd (safe_request w rq c) = snd (kis_attempt w rq False c1)"
  by (cases "kis_attempt w rq False c1") (simp add: safe_request_def assms split: reply_verdict.split)

text \<open>
  A first reply with status 500 whose document does not refuse the token: the request goes out
  again, with a new token when the document is an empty error.
\<close>

lemma request_twice:
  assumes "kc_token c = Some t" "kw_net w (kc_log c) (ApiCall rq (Some t)) = Reply 500 (Parsed (KObj d))"
    and "key_or ''msg_cd'' KNull d \<notin> {KStr ''EGW00121'', KStr ''EGW00123''}"
  shows "times_sent rq (snd (safe_request w rq c)) = times_sent rq c + 2"
proof -
  let ?c = "c\<lparr>kc_log := kc_log c @ [ApiCall rq (Some t)]\<rparr>"
  let ?c' = "if empty_error d then snd (authenticate w True ?c) else ?c"
  have 1: "kis_attempt w rq True c = (Retry, ?c')"
    using assms by (simp add: kis_attempt_def http_call_def read_reply_def read_document_def)
  have "kc_token ?c' \<noteq> None"
    using assms(1) authenticate_keeps_token [of ?c w True] by simp
  moreover have "times_sent rq ?c' = times_sent rq c + 1"
    by (simp add: times_sent_def [of rq ?c]) (simp add: times_sent_def)
  ultimately have "times_sent rq (snd (kis_attempt w rq False ?c')) = times_sent rq c + 2"
    using attempt_with_token [of ?c' rq w False] by simp
  then show ?thesis by (simp only: second_attempt [OF 1])
qed

text \<open>A first reply with status 500 that holds no document is final.\<close>

lemma request_once_500:
  assumes "kc_token c = Some t" "kw_net w (kc_log c) (ApiCall rq (Some t)) = Reply 500 body"
    and "\<nexists>d. body = Parsed (KObj d)"
  shows "safe_request w rq c = (None, c\<lparr>kc_log := kc_log c @ [ApiCall rq (Some t)]\<rparr>)"
  using assms by (intro request_once) (auto simp: read_reply_def split: http_body.split kval.split)

end
