(* ===== verification/Kis_Trading.thy ===== *)
theory Kis_Trading
  imports Kis_Client
begin

text \<open>
  \<open>shared/kis/trading.py\<close>: orders, their status, their cancellation, and the two balances, as
  requests to the broker and readings of its documents. A reading is a function of the
  answer of \<open>Kis_Client.safe_request\<close>; the operation sends the request and reads what comes.
  \<open>kis_api\<close> makes the client the broker of \<open>Kis_Gateway\<close>.

  The day of a query is an argument of the world (\<open>kw_today\<close>); \<open>kw_str\<close> is Python's \<open>str\<close>.
\<close>

section \<open>Requests\<close>

definition trading_path :: "string \<Rightarrow> string" where
  "trading_path p = ''/uapi/domestic-stock/v1/trading/'' @ p"

definition is_mock :: "kis_world \<Rightarrow> bool" where
  "is_mock w \<longleftrightarrow> kw_mode w = ''MOCK''"

definition account_fields :: "kis_world \<Rightarrow> (string \<times> jval) list" where
  "account_fields w = [(''CANO'', JStr (fst (kw_account w))), (''ACNT_PRDT_CD'', JStr (snd (kw_account w)))]"

text \<open>\<open>not price or price == 0\<close>: an order without a price is a market order.\<close>

definition order_request :: "kis_world \<Rightarrow> string \<Rightarrow> jval \<Rightarrow> jval \<Rightarrow> jval \<Rightarrow> http_request" where
  "order_request w order_type code quantity price =
     (let market = \<not> jtruth price
       in \<lparr>rq_method = ''POST'', rq_path = trading_path ''order-cash'',
           rq_fields = account_fields w @
             [(''PDNO'', code), (''ORD_DVSN'', JStr (if market then ''01'' else ''00'')),
              (''ORD_QTY'', JStr (kw_str w quantity)),
              (''ORD_UNPR'', JStr (if market then ''0'' else kw_str w price))],
           rq_tr = (if is_mock w then (if order_type = ''BUY'' then ''VTTC0012U'' else ''VTTC0011U'')
                    else if order_type = ''BUY'' then ''TTTC0012U'' else ''TTTC0011U'')\<rparr>)"

text \<open>The daily query of orders: \<open>CCLD_DVSN\<close> 01 asks for executed orders, 00 for all.\<close>

definition orders_request :: "kis_world \<Rightarrow> string \<Rightarrow> jval \<Rightarrow> http_request" where
  "orders_request w division order_no =
     \<lparr>rq_method = ''GET'', rq_path = trading_path ''inquire-daily-ccld'',
      rq_fields = account_fields w @
        [(''INQR_STRT_DT'', JStr (kw_today w)), (''INQR_END_DT'', JStr (kw_today w)), (''SLL_BUY_DVSN_CD'', JStr ''00''),
         (''INQR_DVSN'', JStr ''00''), (''PDNO'', JStr []), (''CCLD_DVSN'', JStr division), (''ORD_GNO_BRNO'', JStr []),
         (''ODNO'', order_no), (''INQR_DVSN_3'', JStr ''00''), (''INQR_DVSN_1'', JStr []),
         (''CTX_AREA_FK100'', JStr []), (''CTX_AREA_NK100'', JStr [])],
      rq_tr = (if is_mock w then ''VTTC0081R'' else ''TTTC0081R'')\<rparr>"

definition cancel_request :: "kis_world \<Rightarrow> jval \<Rightarrow> http_request" where
  "cancel_request w order_no =
     \<lparr>rq_method = ''POST'', rq_path = trading_path ''order-rvsecncl'',
      rq_fields = account_fields w @
        [(''KRX_FWDG_ORD_ORG_NO'', JStr []), (''ORGN_ODNO'', order_no), (''ORD_DVSN'', JStr ''01''),
         (''RVSE_CNCL_DVSN_CD'', JStr ''02''), (''QTY_ALL_DVSN_CD'', JStr ''1''), (''ORD_QTY'', JStr ''0''),
         (''ORD_UNPR'', JStr ''0'')],
      rq_tr = (if is_mock w then ''VTTC0013U'' else ''TTTC0013U'')\<rparr>"

definition balance_request :: "kis_world \<Rightarrow> http_request" where
  "balance_request w =
     \<lparr>rq_method = ''GET'', rq_path = trading_path ''inquire-balance'',
      rq_fields = account_fields w @
        [(''AFHR_FLPR_YN'', JStr ''N''), (''OFL_YN'', JStr []), (''INQR_DVSN'', JStr ''02''), (''UNPR_DVSN'', JStr ''01''),
         (''FUND_STTL_ICLD_YN'', JStr ''N''), (''FNCG_AMT_AUTO_RDPT_YN'', JStr ''N''), (''PRCS_DVSN'', JStr ''01''),
         (''CTX_AREA_FK100'', JStr []), (''CTX_AREA_NK100'', JStr [])],
      rq_tr = (if is_mock w then ''VTTC8434R'' else ''TTTC8434R'')\<rparr>"

definition orderable_request :: "kis_world \<Rightarrow> http_request" where
  "orderable_request w =
     \<lparr>rq_method = ''GET'', rq_path = trading_path ''inquire-psbl-order'',
      rq_fields = account_fields w @
        [(''PDNO'', JStr ''005930''), (''ORD_UNPR'', JStr ''0''), (''ORD_DVSN'', JStr ''01''),
         (''CMA_EVLU_AMT_ICLD_YN'', JStr ''Y''), (''OVRS_ICLD_YN'', JStr ''N'')],
      rq_tr = (if is_mock w then ''VTTC8908R'' else ''TTTC8908R'')\<rparr>"

section \<open>Orders\<close>

text \<open>The number of an order, \<open>KNull\<close> for None. An answer of the request is true: it is never empty.\<close>

definition order_number :: "kval option \<Rightarrow> kval res" where
  "order_number a =
     (case a of
        None \<Rightarrow> Inr KNull
      | Some d \<Rightarrow>
          if \<not> ktruth d then Inr KNull
          else rbind (kget ''output'' KNull d) (\<lambda>out. if ktruth out then kget ''ODNO'' KNull out else Inr KNull))"

definition place_order :: "kis_world \<Rightarrow> string \<Rightarrow> jval \<Rightarrow> jval \<Rightarrow> jval \<Rightarrow> kval res kis" where
  "place_order w order_type code quantity price c =
     (let (a, c') = safe_request w (order_request w order_type code quantity price) c in (order_number a, c'))"

definition kis_buy :: "kis_world \<Rightarrow> jval \<Rightarrow> jval \<Rightarrow> jval \<Rightarrow> kval res kis" where
  "kis_buy w = place_order w ''BUY''"

definition kis_sell :: "kis_world \<Rightarrow> jval \<Rightarrow> jval \<Rightarrow> jval \<Rightarrow> kval res kis" where
  "kis_sell w = place_order w ''SELL''"

text \<open>\<open>output1\<close> of an answer when it is a list with something in it.\<close>

definition order_rows :: "kval option \<Rightarrow> kval list" where
  "order_rows a =
     (case a of
        Some (KObj d) \<Rightarrow> (case key_or ''output1'' KNull d of KList xs \<Rightarrow> xs | _ \<Rightarrow> [])
      | _ \<Rightarrow> [])"

text \<open>The first stage, outside of every handler: an executed quantity is enough.\<close>

definition executed_at_all :: "kval option \<Rightarrow> bool res" where
  "executed_at_all a =
     (case order_rows a of
        [] \<Rightarrow> Inr False
      | r # _ \<Rightarrow> rbind (int_at ''tot_ccld_qty'' r) (\<lambda>executed.
                  rbind (float_at ''avg_prvs'' r) (\<lambda>_. Inr (0 < executed))))"

text \<open>The second stage, where values that are no numbers count as not executed.\<close>

definition no_numbers :: "bool res \<Rightarrow> bool res" where
  "no_numbers r = (case r of Inl e \<Rightarrow> if e \<in> {ValueError, TypeError, KeyError} then Inr False else Inl e | _ \<Rightarrow> r)"

definition executed_in_full :: "kval option \<Rightarrow> bool res" where
  "executed_in_full a =
     (case order_rows a of
        [] \<Rightarrow> Inr False
      | r # _ \<Rightarrow> no_numbers (
          rbind (int_at ''tot_ccld_qty'' r) (\<lambda>executed.
          rbind (int_at ''rmn_qty'' r) (\<lambda>left_over.
          rbind (int_at ''ord_qty'' r) (\<lambda>_.
          rbind (kget ''cncl_yn'' (KStr []) r) (\<lambda>_.
            if 0 < executed \<and> left_over = 0 then rbind (float_at ''avg_prvs'' r) (\<lambda>_. Inr True) else Inr False))))))"

definition check_order_status :: "kis_world \<Rightarrow> jval \<Rightarrow> bool res kis" where
  "check_order_status w order_no c =
     (let (filled, c1) = safe_request w (orders_request w ''01'' order_no) c
       in case executed_at_all filled of
            Inl e \<Rightarrow> (Inl e, c1)
          | Inr True \<Rightarrow> (Inr True, c1)
          | Inr False \<Rightarrow> (let (a, c2) = safe_request w (orders_request w ''00'' order_no) c1 in (executed_in_full a, c2)))"

record filled_order =
  fo_avg_price :: rat
  fo_filled_qty :: int

definition filled_details :: "kval option \<Rightarrow> filled_order option res" where
  "filled_details a =
     (case order_rows a of
        [] \<Rightarrow> Inr None
      | r # _ \<Rightarrow>
          rbind (float_at ''avg_prvs'' r) (\<lambda>price.
          rbind (int_at ''tot_ccld_qty'' r) (\<lambda>quantity.
          rbind (if price = 0 \<and> 0 < quantity
                 then rbind (float_at ''tot_ccld_amt'' r) (\<lambda>amount.
                        Inr (if 0 < amount then amount / of_int quantity else price))
                 else Inr price) (\<lambda>price.
            Inr (if 0 < quantity \<and> 0 < price then Some \<lparr>fo_avg_price = price, fo_filled_qty = quantity\<rparr> else None)))))"

definition get_filled_order_details :: "kis_world \<Rightarrow> jval \<Rightarrow> filled_order option res kis" where
  "get_filled_order_details w order_no c =
     (let (a, c') = safe_request w (orders_request w ''01'' order_no) c in (filled_details a, c'))"

definition accepted :: "kval option \<Rightarrow> bool" where
  "accepted a = (case a of Some (KObj d) \<Rightarrow> key_or ''rt_cd'' KNull d = KStr ''0'' | _ \<Rightarrow> False)"

definition cancel_order :: "kis_world \<Rightarrow> jval \<Rightarrow> bool kis" where
  "cancel_order w order_no c = (let (a, c') = safe_request w (cancel_request w order_no) c in (accepted a, c'))"

section \<open>Balances\<close>

record account_row =
  ac_code :: string
  ac_name :: string
  ac_quantity :: int
  ac_avg_price :: rat
  ac_current_price :: rat

text \<open>One row of the account: nothing is kept of it without a quantity and a code.\<close>

definition account_row_of :: "kval \<Rightarrow> account_row option res" where
  "account_row_of item =
     rbind (int_at ''hldg_qty'' item) (\<lambda>quantity.
       if quantity \<le> 0 then Inr None
       else
         rbind (rbind (kget ''pdno'' (KStr []) item) kstrip) (\<lambda>code.
         rbind (rbind (kget ''prdt_name'' (KStr []) item) kstrip) (\<lambda>name.
         rbind (float_at ''pchs_avg_pric'' item) (\<lambda>avg_price.
         rbind (float_at ''prpr'' item) (\<lambda>current_price.
           Inr (if code = [] then None
                else Some \<lparr>ac_code = code, ac_name = name, ac_quantity = quantity, ac_avg_price = avg_price,
                           ac_current_price = current_price\<rparr>))))))"

fun account_rows :: "kval list \<Rightarrow> account_row list res" where
  "account_rows [] = Inr []"
| "account_rows (i # is) =
     rbind (account_row_of i) (\<lambda>r. rbind (account_rows is) (\<lambda>rs.
       Inr (case r of None \<Rightarrow> rs | Some h \<Rightarrow> h # rs)))"

definition account_of :: "kval option \<Rightarrow> account_row list res" where
  "account_of a =
     (if \<not> accepted a then Inr []
      else case a of
        Some (KObj d) \<Rightarrow> (case key_or ''output1'' (KList []) d of KList xs \<Rightarrow> account_rows xs | _ \<Rightarrow> Inr [])
      | _ \<Rightarrow> Inr [])"

definition kis_account :: "kis_world \<Rightarrow> account_row list res kis" where
  "kis_account w c = (let (a, c') = safe_request w (balance_request w) c in (account_of a, c'))"

text \<open>\<open>_get_cash_balance_fallback\<close>: the deposit of the first row of \<open>output2\<close>.\<close>

definition is_empty_value :: "kval \<Rightarrow> bool res" where
  "is_empty_value v =
     (if \<not> ktruth v then Inr True
      else case v of KList _ \<Rightarrow> Inr False | KStr _ \<Rightarrow> Inr False | KObj _ \<Rightarrow> Inr False | _ \<Rightarrow> Inl TypeError)"

definition deposit_of :: "kval option \<Rightarrow> rat res" where
  "deposit_of a =
     (if \<not> accepted a then Inr 0
      else case a of
        Some d \<Rightarrow>
          rbind (kget ''output2'' (KList []) d) (\<lambda>rows.
          rbind (is_empty_value rows) (\<lambda>none.
            if none then Inr 0
            else rbind (kfirst rows) (\<lambda>r.
              rbind (kget ''dnca_tot_amt'' (KStr ''0'') r) (\<lambda>v. if ktruth v then kfloat v else Inr 0))))
      | None \<Rightarrow> Inr 0)"

definition cash_fallback :: "kis_world \<Rightarrow> rat res kis" where
  "cash_fallback w c = (let (a, c') = safe_request w (balance_request w) c in (deposit_of a, c'))"

text \<open>\<open>v and v.strip()\<close>, and the orderable cash: None asks for the fallback.\<close>

definition has_text :: "kval \<Rightarrow> bool res" where
  "has_text v = (if ktruth v then rbind (kstrip v) (\<lambda>t. Inr (t \<noteq> [])) else Inr False)"

definition orderable_of :: "kval option \<Rightarrow> rat option res" where
  "orderable_of a =
     (if \<not> accepted a then Inr None
      else case a of
        Some d \<Rightarrow>
          rbind (kget ''output'' (KObj []) d) (\<lambda>out.
          rbind (kget ''ord_psbl_cash'' (KStr []) out) (\<lambda>cash.
          rbind (kget ''nrcvb_buy_amt'' (KStr []) out) (\<lambda>amount.
          rbind (has_text amount) (\<lambda>b1.
            if b1 then rbind (kfloat amount) (Inr \<circ> Some)
            else rbind (has_text cash) (\<lambda>b2.
              if b2 then rbind (kfloat cash) (Inr \<circ> Some) else Inr None)))))
      | None \<Rightarrow> Inr None)"

definition kis_cash :: "kis_world \<Rightarrow> rat res kis" where
  "kis_cash w c =
     (let (a, c') = safe_request w (orderable_request w) c
       in case orderable_of a of
            Inl e \<Rightarrow> (Inl e, c')
          | Inr (Some x) \<Rightarrow> (Inr x, c')
          | Inr None \<Rightarrow> cash_fallback w c')"

section \<open>The client as the broker of the gateway\<close>

text \<open>A document as a value of the gateway; the positions of a list are its names.\<close>

fun kjson :: "kval \<Rightarrow> jval" where
  "kjson KNull = JNull"
| "kjson (KBool b) = JBool b"
| "kjson (KNum x) = JNum x"
| "kjson (KStr s) = JStr s"
| "kjson (KList xs) = JObj (map (\<lambda>x. (''row'', kjson x)) xs)"
| "kjson (KObj d) = JObj (map (\<lambda>p. (fst p, kjson (snd p))) d)"

definition api_answer_of :: "kval \<Rightarrow> api_answer" where
  "api_answer_of v = (case v of KNull \<Rightarrow> NoAnswer | KStr [] \<Rightarrow> EmptyAnswer | _ \<Rightarrow> Payload (kjson v))"

definition account_json :: "account_row \<Rightarrow> jval" where
  "account_json h =
     JObj [(''code'', JStr (ac_code h)), (''name'', JStr (ac_name h)), (''quantity'', JNum (of_int (ac_quantity h))),
           (''avg_price'', JNum (ac_avg_price h)), (''current_price'', JNum (ac_current_price h))]"

definition account_answer :: "account_row list \<Rightarrow> api_answer" where
  "account_answer hs =
     (if hs = [] then EmptyAnswer else Payload (JObj (map (\<lambda>h. (''row'', account_json h)) hs)))"

definition map_res :: "('a \<Rightarrow> 'b) \<Rightarrow> 'a res \<times> 'c \<Rightarrow> 'b res \<times> 'c" where
  "map_res f r = (rbind (fst r) (Inr \<circ> f), snd r)"

text \<open>The calls of the gateway that concern trading; market data come with an argument.\<close>

definition trading_api ::
  "kis_world \<Rightarrow> (api_call \<Rightarrow> api_answer res kis) \<Rightarrow> api_call \<Rightarrow> api_answer res kis" where
  "trading_api w market call c =
     (case call of
        PlaceBuy code quantity price \<Rightarrow> map_res api_answer_of (kis_buy w code quantity price c)
      | PlaceSell code quantity price \<Rightarrow> map_res api_answer_of (kis_sell w code quantity price c)
      | AccountBalance \<Rightarrow> map_res account_answer (kis_account w c)
      | CashBalance \<Rightarrow> map_res (Payload \<circ> JNum) (kis_cash w c)
      | _ \<Rightarrow> market call c)"

section \<open>Orders that go out twice\<close>

lemma place_order_client: "snd (place_order w t code q p c) = snd (safe_request w (order_request w t code q p) c)"
  by (simp add: place_order_def split_beta)

text \<open>
  C13. One order of a service reaches the broker at most twice. When the client holds a token and
  the first reply has the status 500, of which nobody knows whether the order was taken, the body
  decides: a JSON object goes out again, unless its \<open>msg_cd\<close> is one of the two codes of a refused
  token; a blank body, one that is no JSON, and one that is no object end the request after one
  call, without an order number.
\<close>

theorem failed_order_is_sent_again:
  "(let rq = order_request w side code q p; (number, c') = place_order w side code q p c
    in times_sent rq c' \<le> times_sent rq c + 2 \<and>
       (\<forall>t body. kc_token c = Some t \<longrightarrow> kw_net w (kc_log c) (ApiCall rq (Some t)) = Reply 500 body \<longrightarrow>
          (case body of
             Parsed (KObj d) \<Rightarrow>
               key_or ''msg_cd'' KNull d \<notin> {KStr ''EGW00121'', KStr ''EGW00123''} \<longrightarrow> times_sent rq c' = times_sent rq c + 2
           | _ \<Rightarrow> times_sent rq c' = times_sent rq c + 1 \<and> number = Inr KNull)))"
proof -
  let ?rq = "order_request w side code q p"
  let ?c' = "snd (place_order w side code q p c)"
  have "times_sent ?rq ?c' \<le> times_sent ?rq c + 2"
    using request_bounded [of ?rq w c] by (simp add: place_order_client)
  moreover have "times_sent ?rq ?c' = times_sent ?rq c + 2"
    if "kc_token c = Some t" "kw_net w (kc_log c) (ApiCall ?rq (Some t)) = Reply 500 (Parsed (KObj d))"
      "key_or ''msg_cd'' KNull d \<notin> {KStr ''EGW00121'', KStr ''EGW00123''}" for t d
    using request_twice [OF that] by (simp add: place_order_client)
  moreover have "times_sent ?rq ?c' = times_sent ?rq c + 1 \<and> fst (place_order w side code q p c) = Inr KNull"
    if "kc_token c = Some t" "kw_net w (kc_log c) (ApiCall ?rq (Some t)) = Reply 500 body"
      "\<nexists>d. body = Parsed (KObj d)" for t body
    using request_once_500 [OF that] by (simp add: place_order_def order_number_def times_sent_def)
  ultimately show ?thesis
    by (auto simp: split_beta split: http_body.split kval.split)
qed

text \<open>A broker that answers every call with a failure of its own.\<close>

definition failing_net :: "outgoing list \<Rightarrow> outgoing \<Rightarrow> http_reply" where
  "failing_net past call = Reply 500 (Parsed (KObj [(''rt_cd'', KStr ''1''), (''msg1'', KStr ''busy'')]))"

definition demo_broker :: "(outgoing list \<Rightarrow> outgoing \<Rightarrow> http_reply) \<Rightarrow> kis_world" where
  "demo_broker net =
     \<lparr>kw_net = net, kw_provider = False, kw_lock = (\<lambda>_. True), kw_key = ''key'', kw_secret = ''secret'', kw_now = 0,
      kw_iso = (\<lambda>_. None), kw_str = (\<lambda>v. case v of JStr s \<Rightarrow> s | _ \<Rightarrow> ''3''), kw_today = ''20250106'',
      kw_days_ago = (\<lambda>_. ''20241207''), kw_time = ''100000'', kw_seoul = (0, 10, 0), kw_skip_hours = False,
      kw_strptime = (\<lambda>_ _. None), kw_mode = ''REAL'', kw_account = (''12345678'', ''01'')\<rparr>"

definition ready_client :: broker_client where
  "ready_client = \<lparr>kc_token = Some (KStr ''token''), kc_file = NoFile, kc_log = []\<rparr>"

theorem failed_order_is_sent_again_witness:
  "times_sent (order_request (demo_broker failing_net) ''BUY'' (JStr ''005930'') (JNum 3) (JNum 0))
     (snd (place_order (demo_broker failing_net) ''BUY'' (JStr ''005930'') (JNum 3) (JNum 0) ready_client)) = 2"
  using failed_order_is_sent_again [of "demo_broker failing_net" "''BUY''" "JStr ''005930''" "JNum 3" "JNum 0" ready_client]
  by (simp add: Let_def split_beta) (simp add: ready_client_def demo_broker_def failing_net_def key_or_def times_sent_def)

text \<open>The gateway over the client: one request, with the client in the state c.\<close>

definition gateway_on ::
  "kis_world \<Rightarrow> (api_call \<Rightarrow> api_answer res kis) \<Rightarrow> broker_client \<Rightarrow> 'b gateway_world \<Rightarrow> 'b gateway_world" where
  "gateway_on w market c g = g\<lparr>gd_api := (\<lambda>call. fst (trading_api w market call c))\<rparr>"

text \<open>A number of an order was read from a successful reply to the last call of that order.\<close>

lemma order_number_origin:
  assumes "place_order w side code q p c = (Inr v, c')" "v \<noteq> KNull"
  shows "times_sent (order_request w side code q p) c < times_sent (order_request w side code q p) c'"
    "\<exists>past tok status d out. kc_log c' = past @ [ApiCall (order_request w side code q p) tok] \<and>
       kw_net w past (ApiCall (order_request w side code q p) tok) = Reply status (Parsed (KObj d)) \<and>
       \<not> bad_status status \<and> key_or ''rt_cd'' KNull d = KStr ''0'' \<and>
       key_or ''output'' KNull d = KObj out \<and> key_or ''ODNO'' KNull out = v"
proof -
  let ?rq = "order_request w side code q p"
  obtain d where d: "safe_request w ?rq c = (Some d, c')" "order_number (Some d) = Inr v"
    using assms by (cases "fst (safe_request w ?rq c)")
      (auto simp: place_order_def order_number_def split_beta prod_eq_iff)
  show "times_sent ?rq c < times_sent ?rq c'"
    by (rule answer_was_sent [OF d(1)])
  obtain first past call where call: "kc_log c' = past @ [call]" "is_api ?rq call"
    "read_reply (rq_tr ?rq) first (kw_net w past call) = Give (Some d)"
    using request_origin [OF d(1)] by blast
  have tr: "rq_tr ?rq \<noteq> ''KIS-WS-AUTH''" by (simp add: order_request_def Let_def)
  from request_gives [OF d(1) tr] obtain x where x: "d = KObj x" "key_or ''rt_cd'' KNull x = KStr ''0''" by blast
  from d(2) assms(2) x obtain out where out: "key_or ''output'' KNull x = KObj out" "key_or ''ODNO'' KNull out = v"
    by (cases "key_or ''output'' KNull x") (auto simp: order_number_def split: if_splits)
  then have "KObj x \<noteq> empty_success" by (auto simp: empty_success_def key_or_def)
  with call(3) x(1) tr obtain status where
    "kw_net w past call = Reply status (Parsed (KObj x))" "\<not> bad_status status"
    by (auto simp: read_reply_def read_document_def split: http_reply.splits http_body.splits kval.splits if_splits)
  moreover obtain tok where "call = ApiCall ?rq tok" using call(2) by (cases call) auto
  ultimately show "\<exists>past tok status d out. kc_log c' = past @ [ApiCall ?rq tok] \<and>
       kw_net w past (ApiCall ?rq tok) = Reply status (Parsed (KObj d)) \<and> \<not> bad_status status \<and>
       key_or ''rt_cd'' KNull d = KStr ''0'' \<and> key_or ''output'' KNull d = KObj out \<and> key_or ''ODNO'' KNull out = v"
    using call(1) x(2) out by blast
qed

text \<open>
  C6. A purchase through the gateway, down to the broker: when a service receives an order number,
  the gateway has called the client of the broker once, with the stock, quantity and price that
  were asked for; that client has sent the order with these data at least once and at most twice
  (twice after a first reply that did not settle it, so one number can stand for two orders), and
  the number is the \<open>ODNO\<close> of a successful document that answers the last of these sends.
\<close>

theorem order_number_means_order:
  assumes "client_buy (gateway_on w market c g) tm net ok code quantity price s = (Some a, s')"
  shows "(let order = PlaceBuy (JStr code) (JNum (of_int quantity)) (JNum (of_int price));
              rq = order_request w ''BUY'' (JStr code) (JNum (of_int quantity)) (JNum (of_int price));
              (number, c') = kis_buy w (JStr code) (JNum (of_int quantity)) (JNum (of_int price)) c
            in code \<noteq> [] \<and> quantity \<noteq> 0 \<and> gw_calls s' = gw_calls s @ [order] \<and>
               times_sent rq c < times_sent rq c' \<and> times_sent rq c' \<le> times_sent rq c + 2 \<and>
               (\<exists>v. number = Inr v \<and> a = Payload (kjson v) \<and>
                 (\<exists>past tok status d out. kc_log c' = past @ [ApiCall rq tok] \<and>
                    kw_net w past (ApiCall rq tok) = Reply status (Parsed (KObj d)) \<and> \<not> bad_status status \<and>
                    key_or ''rt_cd'' KNull d = KStr ''0'' \<and>
                    key_or ''output'' KNull d = KObj out \<and> key_or ''ODNO'' KNull out = v)))"
proof -
  let ?c = "JStr code" and ?q = "JNum (of_int quantity)" and ?p = "JNum (of_int price)"
  let ?rq = "order_request w ''BUY'' ?c ?q ?p"
  obtain number c' where buy: "kis_buy w ?c ?q ?p c = (number, c')" by (metis prod.collapse)
  have one: "gw_calls s' = gw_calls s @ [PlaceBuy ?c ?q ?p]"
    "gd_api (gateway_on w market c g) (PlaceBuy ?c ?q ?p) = Inr a" "truthy_answer a" "code \<noteq> []" "quantity \<noteq> 0"
    using order_number_one_call [OF assms] by simp_all
  from one(2) buy obtain v where v: "number = Inr v" "a = api_answer_of v"
    by (auto simp: gateway_on_def trading_api_def map_res_def rbind_eq_Inr_iff)
  with one(3) have v': "v \<noteq> KNull" "a = Payload (kjson v)"
    by (auto simp: api_answer_of_def truthy_answer_def split: kval.splits list.splits)
  have place: "place_order w ''BUY'' ?c ?q ?p c = (Inr v, c')" using buy v(1) by (simp add: kis_buy_def)
  have "times_sent ?rq c' \<le> times_sent ?rq c + 2"
    using request_bounded [of ?rq w c] place_order_client [of w "''BUY''" ?c ?q ?p c] place by simp
  with order_number_origin [OF place v'(1)] one(1,4,5) v(1) v'(2) show ?thesis
    by (simp only: Let_def buy prod.case) simp
qed

text \<open>A broker that accepts every order.\<close>

definition accepting_net :: "outgoing list \<Rightarrow> outgoing \<Rightarrow> http_reply" where
  "accepting_net past call =
     Reply 200 (Parsed (KObj [(''rt_cd'', KStr ''0''), (''output'', KObj [(''ODNO'', KStr ''0001'')])]))"

theorem order_number_means_order_witness:
  "gw_calls (snd (client_buy (gateway_on (demo_broker accepting_net) (\<lambda>_. Pair (Inl AttributeError)) ready_client demo_gateway_world)
     0 Arrives True ''005930'' 3 0 (new_gateway 0))) = [PlaceBuy (JStr ''005930'') (JNum 3) (JNum 0)]"
proof -
  let ?g = "gateway_on (demo_broker accepting_net) (\<lambda>_. Pair (Inl AttributeError)) ready_client demo_gateway_world"
  have "fst (kis_buy (demo_broker accepting_net) (JStr ''005930'') (JNum 3) (JNum 0) ready_client) = Inr (KStr ''0001'')"
    by (simp add: kis_buy_def place_order_def safe_request_def kis_attempt_def ready_client_def http_call_def demo_broker_def
        accepting_net_def read_reply_def read_document_def key_or_def bad_status_def order_number_def order_request_def
        is_mock_def Let_def)
  then have api: "gd_api ?g (PlaceBuy (JStr ''005930'') (JNum 3) (JNum 0)) = Inr (Payload (JStr ''0001''))"
    by (simp add: gateway_on_def trading_api_def map_res_def api_answer_of_def)
  have rest: "bk_admits (gd_breaker ?g) 0 (0::nat)" "bk_done (gd_breaker ?g) 0 None (0::nat) = (0, False)"
    "gd_encodes ?g (Payload (JStr ''0001''))"
    by (simp_all add: gateway_on_def demo_gateway_world_def)
  have "fst (client_buy ?g 0 Arrives True ''005930'' 3 0 (new_gateway 0)) = Some (Payload (JStr ''0001''))"
    using api by (simp add: client_buy_def client_request_def limited_def place_buy_order_def answer_request_def
        finish_request_def call_kis_api_with_breaker_def begin_request_def new_gateway_def rest truthy_answer_def Let_def)
  then obtain s' where "client_buy ?g 0 Arrives True ''005930'' 3 0 (new_gateway 0) = (Some (Payload (JStr ''0001'')), s')"
    by (metis prod.collapse)
  from order_number_means_order [OF this] this show ?thesis
    by (simp add: new_gateway_def split_beta Let_def)
qed

section \<open>Orders that are not filled\<close>

text \<open>
  The two stages of the status disagree: a row with an executed quantity and a rest counts as
  filled in the first stage, while the second one, on the same row, does not.
\<close>

lemma stages_disagree:
  assumes "order_rows a = KObj d # rows" "int_at ''tot_ccld_qty'' (KObj d) = Inr n" "0 < n"
    and "int_at ''rmn_qty'' (KObj d) = Inr r" "0 < r" "int_at ''ord_qty'' (KObj d) = Inr k"
    and "float_at ''avg_prvs'' (KObj d) = Inr x"
  shows "executed_at_all a = Inr True" "executed_in_full a = Inr False"
  using assms by (simp_all add: executed_at_all_def executed_in_full_def no_numbers_def)

text \<open>
  C30. A partly filled order is reported as filled: the first query lists it, and its executed
  quantity alone decides.
\<close>

theorem partial_fill_counts_as_filled:
  assumes "fst (safe_request w (orders_request w ''01'' order_no) c) = a"
    and "order_rows a = KObj d # rows" "int_at ''tot_ccld_qty'' (KObj d) = Inr n" "0 < n"
    and "int_at ''rmn_qty'' (KObj d) = Inr r" "0 < r" "int_at ''ord_qty'' (KObj d) = Inr k"
    and "float_at ''avg_prvs'' (KObj d) = Inr x"
  shows "fst (check_order_status w order_no c) = Inr True \<and> executed_in_full a = Inr False"
  using stages_disagree [OF assms(2-)] assms(1) by (auto simp: check_order_status_def split_beta)

definition partial_row :: kval where
  "partial_row = KObj [(''tot_ccld_qty'', KStr ''3''), (''rmn_qty'', KStr ''7''), (''ord_qty'', KStr ''10''),
     (''avg_prvs'', KStr ''100'')]"

definition partial_net :: "outgoing list \<Rightarrow> outgoing \<Rightarrow> http_reply" where
  "partial_net past call = Reply 200 (Parsed (KObj [(''rt_cd'', KStr ''0''), (''output1'', KList [partial_row])]))"

lemma number_texts [simp]:
  "parse_int ''3'' = Some 3" "parse_int ''7'' = Some 7" "parse_int ''10'' = Some 10" "parse_float ''100'' = Some 100"
  by code_simp+

theorem partial_fill_counts_as_filled_witness:
  "fst (check_order_status (demo_broker partial_net) (JStr ''1'') ready_client) = Inr True \<and>
   executed_in_full (fst (safe_request (demo_broker partial_net) (orders_request (demo_broker partial_net) ''01'' (JStr ''1'')) ready_client)) =
     Inr False"
proof -
  let ?w = "demo_broker partial_net" and ?rq = "orders_request (demo_broker partial_net) ''01'' (JStr ''1'')"
  let ?d = "[(''tot_ccld_qty'', KStr ''3''), (''rmn_qty'', KStr ''7''), (''ord_qty'', KStr ''10''), (''avg_prvs'', KStr ''100'')]"
  have a: "fst (safe_request ?w ?rq ready_client) = Some (KObj [(''rt_cd'', KStr ''0''), (''output1'', KList [KObj ?d])])"
    by (simp add: safe_request_def kis_attempt_def ready_client_def http_call_def demo_broker_def partial_net_def
        read_reply_def read_document_def key_or_def partial_row_def bad_status_def orders_request_def is_mock_def)
  show ?thesis
    unfolding a
    by (rule partial_fill_counts_as_filled [of ?w "JStr ''1''" ready_client _ ?d "[]" 3 7 10 100])
      (simp_all add: a order_rows_def int_at_def float_at_def key_or_def)
qed

text \<open>
  A cancellation answered by an empty reply with the status 404 counts as done: the request
  turns it into a success, whatever became of the order.
\<close>

lemma unknown_order_counts_as_cancelled:
  assumes "kc_token c = Some t" "kw_net w (kc_log c) (ApiCall (cancel_request w order_no) (Some t)) = Reply 404 Blank"
  shows "fst (cancel_order w order_no c) = True"
  using request_once [OF assms(1), of "cancel_request w order_no" w] assms(2)
  by (simp add: cancel_order_def read_reply_def empty_success_def accepted_def key_or_def)

section \<open>What the account shows\<close>

text \<open>A failed inquiry and an empty reply with the status 404 look like an account without stocks.\<close>

definition inquiry_fails :: "kis_world \<Rightarrow> broker_client \<Rightarrow> bool" where
  "inquiry_fails w c \<longleftrightarrow> fst (safe_request w (balance_request w) c) \<in> {None, Some empty_success}"

lemma failed_inquiry_is_empty: "inquiry_fails w c \<Longrightarrow> fst (kis_account w c) = Inr []"
  by (auto simp: inquiry_fails_def kis_account_def account_of_def accepted_def empty_success_def key_or_def split_beta)

lemma account_row_positive: "account_row_of i = Inr (Some h) \<Longrightarrow> 0 < ac_quantity h \<and> ac_code h \<noteq> []"
  by (auto simp: account_row_of_def rbind_eq_Inr_iff split: if_splits)

lemma account_rows_positive: "account_rows is = Inr hs \<Longrightarrow> h \<in> set hs \<Longrightarrow> 0 < ac_quantity h \<and> ac_code h \<noteq> []"
  by (induction "is" arbitrary: hs) (auto simp: rbind_eq_Inr_iff account_row_positive split: option.splits)

lemma account_positive:
  assumes "fst (kis_account w c) = Inr hs" "h \<in> set hs"
  shows "0 < ac_quantity h \<and> ac_code h \<noteq> []"
  using assms account_rows_positive
  by (auto simp: kis_account_def account_of_def split_beta split: if_splits option.splits kval.splits)

lemma failed_inquiry_through_gateway:
  assumes "inquiry_fails w c" "gw_client s" "bk_admits (gd_breaker g) t (gw_breaker s)" "gd_encodes g EmptyAnswer"
  shows "fst (client_account_balance (gateway_on w market c g) t Arrives True s) = Some EmptyAnswer"
  using assms failed_inquiry_is_empty [OF assms(1)]
  by (simp add: client_account_balance_def client_request_def limited_def get_account_balance_def answer_request_def
      call_kis_api_with_breaker_def begin_request_def gateway_on_def trading_api_def map_res_def account_answer_def
      finish_request_def split_beta Let_def)

end
