(* ===== verification/Kis_Market.thy ===== *)
theory Kis_Market
  imports Kis_Trading
begin

text \<open>
  \<open>shared/kis/market_data.py\<close>: opening hours, snapshots, daily and minute prices, the trend of
  investors, and the history that is fetched page by page. The last is a loop that ends only if
  the broker lets it: \<open>chart_loop\<close> has fuel, None means that it was not enough.

  A date is a triple of year, month and day, read by \<open>parse_ymd\<close> as Python's \<open>strptime\<close> reads
  \<open>%Y%m%d\<close>; its rendering as \<open>%Y-%m-%d\<close> is left out. Other formats are read by \<open>kw_strptime\<close>.
\<close>

section \<open>Dates\<close>

type_synonym ymd = "int \<times> int \<times> int"

definition leap_year :: "int \<Rightarrow> bool" where
  "leap_year y \<longleftrightarrow> 4 dvd y \<and> (\<not> 100 dvd y \<or> 400 dvd y)"

definition days_in_month :: "int \<Rightarrow> int \<Rightarrow> int" where
  "days_in_month y m = (if m = 2 then (if leap_year y then 29 else 28) else if m \<in> {4, 6, 9, 11} then 30 else 31)"

text \<open>The ways to read a month or a day at the front of a text, in the order Python tries them.\<close>

fun two_digits :: "string \<Rightarrow> (int \<times> string) list" where
  "two_digits (a # b # s) = (if is_digit a \<and> is_digit b then [(digit_val a * 10 + digit_val b, s)] else [])"
| "two_digits _ = []"

fun one_digit :: "string \<Rightarrow> (int \<times> string) list" where
  "one_digit (a # s) = (if is_digit a then [(digit_val a, s)] else [])"
| "one_digit [] = []"

definition in_range :: "int \<Rightarrow> (int \<times> string) list \<Rightarrow> (int \<times> string) list" where
  "in_range n = filter (\<lambda>p. 1 \<le> fst p \<and> fst p \<le> n)"

definition month_ways :: "string \<Rightarrow> (int \<times> string) list" where
  "month_ways s = in_range 12 (two_digits s) @ in_range 12 (one_digit s)"

definition day_ways :: "string \<Rightarrow> (int \<times> string) list" where
  "day_ways s = in_range 31 (two_digits s) @ in_range 31 (one_digit s) @
     (case s of c # t \<Rightarrow> if c = CHR '' '' then in_range 31 (one_digit t) else [] | [] \<Rightarrow> [])"

definition year_ways :: "string \<Rightarrow> (int \<times> string) list" where
  "year_ways s = concat (map (\<lambda>p. map (\<lambda>q. (fst p * 100 + fst q, snd q)) (two_digits (snd p))) (two_digits s))"

definition date_ways :: "string \<Rightarrow> (ymd \<times> string) list" where
  "date_ways s =
     concat (map (\<lambda>y. concat (map (\<lambda>m. map (\<lambda>d. ((fst y, fst m, fst d), snd d)) (day_ways (snd m)))
       (month_ways (snd y)))) (year_ways s))"

definition real_date :: "ymd \<Rightarrow> bool" where
  "real_date = (\<lambda>(y, m, d). 1 \<le> y \<and> 1 \<le> m \<and> m \<le> 12 \<and> 1 \<le> d \<and> d \<le> days_in_month y m)"

definition parse_ymd :: "string \<Rightarrow> ymd res" where
  "parse_ymd s =
     (case date_ways s of
        (x, []) # _ \<Rightarrow> if real_date x then Inr x else Inl ValueError
      | _ \<Rightarrow> Inl ValueError)"

definition kdate :: "kval \<Rightarrow> ymd res" where
  "kdate v = (case v of KStr s \<Rightarrow> parse_ymd s | _ \<Rightarrow> Inl TypeError)"

text \<open>
  Days in their order, the day before, and the text of a date. A date is compared by the number of
  its day in the calendar (\<open>date.toordinal\<close>), so a difference of two numbers counts days.
\<close>

definition days_before_year :: "int \<Rightarrow> int" where
  "days_before_year y = (let z = y - 1 in z * 365 + z div 4 - z div 100 + z div 400)"

definition days_before_month :: "int \<Rightarrow> int \<Rightarrow> int" where
  "days_before_month y m = sum_list (map (days_in_month y) [1..m - 1])"

definition day_number :: "ymd \<Rightarrow> int" where
  "day_number = (\<lambda>(y, m, d). days_before_year y + days_before_month y m + d)"

definition day_before :: "ymd \<Rightarrow> ymd" where
  "day_before = (\<lambda>(y, m, d).
     if 1 < d then (y, m, d - 1) else if 1 < m then (y, m - 1, days_in_month y (m - 1)) else (y - 1, 12, 31))"

definition digit_char :: "nat \<Rightarrow> char" where
  "digit_char n = char_of (48 + n mod 10)"

fun decimal :: "nat \<Rightarrow> string" where
  "decimal n = (if n < 10 then [digit_char n] else decimal (n div 10) @ [digit_char n])"

declare decimal.simps [simp del]

definition two_places :: "int \<Rightarrow> string" where
  "two_places n = [digit_char (nat n div 10), digit_char (nat n)]"

definition ymd_text :: "ymd \<Rightarrow> string" where
  "ymd_text = (\<lambda>(y, m, d). decimal (nat y) @ two_places m @ two_places d)"

section \<open>Requests and readings\<close>

definition quotation :: "string \<Rightarrow> string \<Rightarrow> (string \<times> jval) list \<Rightarrow> http_request" where
  "quotation p tr params =
     \<lparr>rq_method = ''GET'', rq_path = ''/uapi/domestic-stock/v1/quotations/'' @ p, rq_fields = params, rq_tr = tr\<rparr>"

text \<open>\<open>res_data and res_data.get(k)\<close>: the value of an answer when there is one that counts.\<close>

definition output_of :: "string \<Rightarrow> kval option \<Rightarrow> kval option res" where
  "output_of k a =
     (case a of
        None \<Rightarrow> Inr None
      | Some d \<Rightarrow>
          if \<not> ktruth d then Inr None
          else rbind (kget k KNull d) (\<lambda>out. Inr (if ktruth out then Some out else None)))"

fun each :: "('a \<Rightarrow> 'b res) \<Rightarrow> 'a list \<Rightarrow> 'b list res" where
  "each f [] = Inr []"
| "each f (x # xs) = rbind (f x) (\<lambda>y. rbind (each f xs) (\<lambda>ys. Inr (y # ys)))"

text \<open>A loop whose body skips an item that raises.\<close>

definition those_read :: "('a \<Rightarrow> 'b res) \<Rightarrow> 'a list \<Rightarrow> 'b list" where
  "those_read f xs = concat (map (\<lambda>x. case f x of Inl _ \<Rightarrow> [] | Inr y \<Rightarrow> [y]) xs)"

definition float_in :: "string \<Rightarrow> kval \<Rightarrow> rat res" where
  "float_in k d = rbind (kitem k d) kfloat"

text \<open>\<open>check_market_open\<close>.\<close>

definition regular_hours :: "int \<times> int \<times> int \<Rightarrow> bool" where
  "regular_hours = (\<lambda>(weekday, hour, minute).
     0 \<le> weekday \<and> weekday \<le> 4 \<and> (hour = 9 \<or> 10 \<le> hour \<and> hour \<le> 14 \<or> hour = 15 \<and> minute \<le> 30))"

definition open_day :: "kval option \<Rightarrow> bool res" where
  "open_day a =
     rbind (output_of ''output'' a) (\<lambda>out.
       case out of
         None \<Rightarrow> Inr False
       | Some v \<Rightarrow> rbind (kfirst v) (\<lambda>r. rbind (kitem ''opnd_yn'' r) (\<lambda>y. Inr (y = KStr ''Y''))))"

definition check_market_open :: "kis_world \<Rightarrow> bool kis" where
  "check_market_open w c =
     (if \<not> regular_hours (kw_seoul w) then (is_mock w \<and> kw_skip_hours w, c)
      else if is_mock w then (True, c)
      else
        (let (a, c') = safe_request w (quotation ''chk-holiday'' ''CTCA0903R''
               [(''BASS_DT'', JStr (kw_today w)), (''CTX_AREA_NK'', JStr []), (''CTX_AREA_FK'', JStr [])]) c
          in (case open_day a of Inl _ \<Rightarrow> False | Inr b \<Rightarrow> b, c')))"

text \<open>\<open>get_stock_daily_prices\<close>.\<close>

record day_price =
  dd_date :: ymd
  dd_price :: rat
  dd_high :: rat
  dd_low :: rat

definition day_price_of :: "kval \<Rightarrow> day_price res" where
  "day_price_of d =
     rbind (rbind (kitem ''stck_bsop_date'' d) kdate) (\<lambda>date.
     rbind (float_in ''stck_clpr'' d) (\<lambda>price.
     rbind (float_in ''stck_hgpr'' d) (\<lambda>high.
     rbind (float_in ''stck_lwpr'' d) (\<lambda>low.
       Inr \<lparr>dd_date = date, dd_price = price, dd_high = high, dd_low = low\<rparr>))))"

definition day_prices :: "kval option \<Rightarrow> day_price list option res" where
  "day_prices a =
     rbind (output_of ''output'' a) (\<lambda>out.
       case out of
         None \<Rightarrow> Inr None
       | Some v \<Rightarrow> rbind (rbind (kiter v) (each day_price_of)) (Inr \<circ> Some))"

definition kis_daily_prices :: "kis_world \<Rightarrow> jval \<Rightarrow> jval \<Rightarrow> day_price list option res kis" where
  "kis_daily_prices w code days c =
     (case jnum days of
        None \<Rightarrow> (Inl TypeError, c)
      | Some n \<Rightarrow>
          (let (a, c') = safe_request w (quotation ''inquire-daily-price'' ''FHKST01010400''
                 [(''FID_COND_MRKT_DIV_CODE'', JStr ''J''), (''FID_INPUT_ISCD'', code),
                  (''FID_INPUT_DATE_1'', JStr (kw_days_ago w n)), (''FID_INPUT_DATE_2'', JStr (kw_today w)),
                  (''FID_PERIOD_DIV_CODE'', JStr ''D''), (''FID_ORG_ADJ_PRC'', JStr ''0'')]) c
            in (day_prices a, c')))"

text \<open>\<open>get_stock_snapshot\<close>: the prices of a stock or an index, with the ratios of a stock.\<close>

definition float_or :: "string \<Rightarrow> kval \<Rightarrow> (rat \<Rightarrow> 'a res) \<Rightarrow> 'a res" where
  "float_or k d f = rbind (float_at k d) f"

definition ratios_of :: "kval \<Rightarrow> (string \<times> jval) list res" where
  "ratios_of out =
     float_or ''per'' out (\<lambda>per. float_or ''pbr'' out (\<lambda>pbr. float_or ''eps'' out (\<lambda>eps. float_or ''bps'' out (\<lambda>bps.
       rbind (int_at ''stck_prpr'' out) (\<lambda>p. rbind (int_at ''lstn_stcn'' out) (\<lambda>n.
         Inr [(''per'', JNum per), (''pbr'', JNum pbr), (''eps'', JNum eps), (''bps'', JNum bps),
              (''market_cap'', JNum (of_int ((p * n) div 1000000)))]))))))"

definition snapshot_of :: "jval \<Rightarrow> bool \<Rightarrow> kval option \<Rightarrow> jval option res" where
  "snapshot_of code is_index a =
     rbind (output_of ''output'' a) (\<lambda>found.
       case found of
         None \<Rightarrow> Inr None
       | Some out \<Rightarrow>
           (let key = (\<lambda>i s. if is_index then i else s)
             in rbind (kget ''hts_kor_isnm'' (KStr ''N/A'') out) (\<lambda>name.
                float_or (key ''bstp_nmix_prpr'' ''stck_prpr'') out (\<lambda>price.
                float_or (key ''bstp_nmix_hgpr'' ''stck_hgpr'') out (\<lambda>high.
                float_or (key ''bstp_nmix_lwpr'' ''stck_lwpr'') out (\<lambda>low.
                float_or (key ''bstp_nmix_oprc'' ''stck_oprc'') out (\<lambda>opening.
                rbind (int_at ''acml_vol'' out) (\<lambda>volume.
                rbind (if is_index then Inr [] else ratios_of out) (\<lambda>ratios.
                  Inr (Some (JObj ([(''code'', code), (''name'', kjson name), (''price'', JNum price), (''high'', JNum high),
                    (''low'', JNum low), (''open'', JNum opening), (''volume'', JNum (of_int volume))] @ ratios))))))))))))"

definition kis_snapshot :: "kis_world \<Rightarrow> jval \<Rightarrow> bool \<Rightarrow> jval option res kis" where
  "kis_snapshot w code is_index c =
     (if is_index \<and> is_mock w then (Inr None, c)
      else
        (let rq = (if is_index then quotation ''inquire-index-price'' ''FHPUP02100000''
                     [(''FID_COND_MRKT_DIV_CODE'', JStr ''U''), (''FID_INPUT_ISCD'', code)]
                   else quotation ''inquire-price'' ''FHKST01010100''
                     [(''FID_COND_MRKT_DIV_CODE'', JStr ''J''), (''FID_INPUT_ISCD'', code)]);
             (a, c') = safe_request w rq c
          in (snapshot_of code is_index a, c')))"

text \<open>\<open>get_overseas_stock_price\<close>: last, open, high and low.\<close>

definition overseas_of :: "kval option \<Rightarrow> (rat \<times> rat \<times> rat \<times> rat) option res" where
  "overseas_of a =
     rbind (output_of ''output'' a) (\<lambda>found.
       case found of
         None \<Rightarrow> Inr None
       | Some out \<Rightarrow>
           float_or ''last'' out (\<lambda>x. float_or ''open'' out (\<lambda>opening. float_or ''high'' out (\<lambda>high.
             float_or ''low'' out (\<lambda>low. Inr (Some (x, opening, high, low)))))))"

definition overseas_price :: "kis_world \<Rightarrow> string \<Rightarrow> string \<Rightarrow> (rat \<times> rat \<times> rat \<times> rat) option res kis" where
  "overseas_price w market code c =
     (let (a, c') = safe_request w \<lparr>rq_method = ''GET'', rq_path = ''/uapi/overseas-price/v1/quotations/price'',
            rq_fields = [(''AUTH'', JStr []), (''EXCD'', JStr market), (''SYMB'', JStr code)], rq_tr = ''HHDFS00000300''\<rparr> c
       in (overseas_of a, c'))"

section \<open>Minute prices and the trend of investors\<close>

definition kor :: "kval \<Rightarrow> kval \<Rightarrow> kval" where
  "kor a b = (if ktruth a then a else b)"

record minute_price =
  mp_time :: rat
  mp_open :: rat
  mp_high :: rat
  mp_low :: rat
  mp_close :: rat
  mp_volume :: int

definition shown_text :: "kis_world \<Rightarrow> kval \<Rightarrow> string" where
  "shown_text w v = (case v of KStr s \<Rightarrow> s | _ \<Rightarrow> kw_str w (kjson v))"

text \<open>The time of a row in the compact format, else in the one with colons.\<close>

definition minute_time :: "kis_world \<Rightarrow> kval \<Rightarrow> kval \<Rightarrow> rat res" where
  "minute_time w date time =
     (case kw_strptime w (shown_text w date @ shown_text w time) ''%Y%m%d%H%M%S'' of
        Some t \<Rightarrow> Inr t
      | None \<Rightarrow>
          (case time of
             KStr s \<Rightarrow>
               (case kw_strptime w (shown_text w date @ '' '' @ take 2 s @ '':'' @ take 2 (drop 2 s) @ '':'' @ take 2 (drop 4 s))
                       ''%Y%m%d %H:%M:%S'' of
                  Some t \<Rightarrow> Inr t
                | None \<Rightarrow> Inl ValueError)
           | _ \<Rightarrow> Inl TypeError))"

definition float_key :: "string \<Rightarrow> (string \<times> kval) list \<Rightarrow> rat res" where
  "float_key k d = kfloat (kor (key_or k KNull d) (KNum 0))"

definition minute_price_of :: "kis_world \<Rightarrow> string \<Rightarrow> kval \<Rightarrow> minute_price res" where
  "minute_price_of w day item =
     (case item of
        KObj d \<Rightarrow>
          (let get = (\<lambda>k. key_or k KNull d)
            in rbind (minute_time w (kor (get ''stck_bsop_date'') (KStr day))
                  (kor (get ''stck_cntg_hour'') (kor (get ''stck_time'') (KStr ''090000'')))) (\<lambda>time.
               rbind (kfloat (kor (get ''stck_stdprc'') (kor (get ''stck_oprc'') (key_or ''stck_oprc'' (KNum 0) d)))) (\<lambda>opening.
               rbind (float_key ''stck_hgpr'' d) (\<lambda>high.
               rbind (float_key ''stck_lwpr'' d) (\<lambda>low.
               rbind (float_key ''stck_clpr'' d) (\<lambda>close.
               rbind (kint (kor (get ''acml_vol'') (kor (get ''acml_tr_pbmn'') (KNum 0)))) (\<lambda>volume.
                 Inr \<lparr>mp_time = time, mp_open = opening, mp_high = high, mp_low = low, mp_close = close,
                      mp_volume = volume\<rparr>)))))))
      | _ \<Rightarrow> Inl AttributeError)"

definition period_code :: "int \<Rightarrow> string" where
  "period_code n =
     (if n = 1 then ''1'' else if n = 3 then ''3'' else if n = 5 then ''5'' else if n = 10 then ''10''
      else if n = 15 then ''15'' else if n = 30 then ''30'' else if n = 60 then ''60'' else ''5'')"

definition minute_requests :: "kis_world \<Rightarrow> string \<Rightarrow> string \<Rightarrow> int \<Rightarrow> http_request list" where
  "minute_requests w code day interval =
     map (quotation ''inquire-time-itemchartprice'' ''FHKST03010200'')
       [[(''FID_ETC_CLS_CODE'', JStr []), (''FID_COND_MRKT_DIV_CODE'', JStr ''J''), (''FID_INPUT_ISCD'', JStr code),
         (''FID_INPUT_HOUR_1'', JStr (if day = kw_today w then kw_time w else ''153000'')),
         (''FID_PW_DATA_INCU_YN'', JStr ''N'')],
        [(''FID_COND_MRKT_DIV_CODE'', JStr ''J''), (''FID_INPUT_ISCD'', JStr code), (''FID_INPUT_HOUR_1'', JStr day),
         (''FID_INPUT_HOUR_2'', JStr day), (''FID_PRC_DIV_CODE'', JStr (period_code interval)),
         (''FID_ORG_ADJ_PRC'', JStr ''1'')]]"

definition minute_output :: "kval option \<Rightarrow> kval" where
  "minute_output a =
     (case a of
        Some (KObj d) \<Rightarrow> if accepted a then kor (key_or ''output'' KNull d) (kor (key_or ''output2'' KNull d) (KList [])) else KList []
      | _ \<Rightarrow> KList [])"

text \<open>The first request whose output is not empty.\<close>

fun first_output :: "kis_world \<Rightarrow> http_request list \<Rightarrow> kval option kis" where
  "first_output w [] c = (None, c)"
| "first_output w (rq # rqs) c =
     (let (a, c') = safe_request w rq c
       in if ktruth (minute_output a) then (Some (minute_output a), c') else first_output w rqs c')"

definition minute_prices :: "kis_world \<Rightarrow> string \<Rightarrow> string \<Rightarrow> int \<Rightarrow> minute_price list res kis" where
  "minute_prices w code day interval c =
     (case first_output w (minute_requests w code day interval) c of
        (None, c') \<Rightarrow> (Inr [], c')
      | (Some v, c') \<Rightarrow> (rbind (kiter v) (Inr \<circ> those_read (minute_price_of w day)), c'))"

record investor_row =
  iv_date :: kval
  iv_price :: rat
  iv_individual :: int
  iv_foreigner :: int
  iv_institution :: int
  iv_pension :: int
  iv_program :: int

definition investor_row_of :: "kval \<Rightarrow> investor_row res" where
  "investor_row_of item =
     rbind (kitem ''stck_bsop_date'' item) (\<lambda>date.
     rbind (float_at ''stck_clpr'' item) (\<lambda>price.
     rbind (int_at ''prsn_ntby_qty'' item) (\<lambda>individual.
     rbind (int_at ''frgn_ntby_qty'' item) (\<lambda>foreigner.
     rbind (int_at ''orgn_ntby_qty'' item) (\<lambda>institution.
     rbind (rbind (kget ''ntik_ntby_qty'' (KNum 0) item) (\<lambda>v. kint (kor v (KNum 0)))) (\<lambda>pension.
       Inr \<lparr>iv_date = date, iv_price = price, iv_individual = individual, iv_foreigner = foreigner,
            iv_institution = institution, iv_pension = pension, iv_program = 0\<rparr>))))))"

definition investor_rows :: "kval option \<Rightarrow> investor_row list res" where
  "investor_rows a =
     rbind (output_of ''output'' a) (\<lambda>out.
       case out of None \<Rightarrow> Inr [] | Some v \<Rightarrow> rbind (kiter v) (Inr \<circ> those_read investor_row_of))"

text \<open>An absent or empty day stands for thirty days ago or today.\<close>

definition day_or :: "string option \<Rightarrow> string \<Rightarrow> string" where
  "day_or d other = (case d of Some (c # cs) \<Rightarrow> c # cs | _ \<Rightarrow> other)"

definition investor_trend :: "kis_world \<Rightarrow> string \<Rightarrow> string option \<Rightarrow> string option \<Rightarrow> investor_row list res kis" where
  "investor_trend w code start_date end_date c =
     (let (a, c') = safe_request w (quotation ''inquire-investor'' ''FHKST01010900''
            [(''FID_COND_MRKT_DIV_CODE'', JStr ''J''), (''FID_INPUT_ISCD'', JStr code),
             (''FID_INPUT_DATE_1'', JStr (day_or start_date (kw_days_ago w 30))),
             (''FID_INPUT_DATE_2'', JStr (day_or end_date (kw_today w)))]) c
       in (investor_rows a, c'))"

definition program_trend :: "kis_world \<Rightarrow> string \<Rightarrow> investor_row list kis" where
  "program_trend w code c = ([], c)"

section \<open>History by pages\<close>

record chart_row =
  ch_date :: ymd
  ch_open :: rat
  ch_high :: rat
  ch_low :: rat
  ch_close :: rat
  ch_volume :: int

definition chart_row_of :: "kval \<Rightarrow> chart_row option res" where
  "chart_row_of item =
     rbind (kget ''stck_clpr'' KNull item) (\<lambda>price.
       if \<not> ktruth price then Inr None
       else
         rbind (rbind (kitem ''stck_bsop_date'' item) kdate) (\<lambda>date.
         rbind (float_in ''stck_oprc'' item) (\<lambda>opening.
         rbind (float_in ''stck_hgpr'' item) (\<lambda>high.
         rbind (float_in ''stck_lwpr'' item) (\<lambda>low.
         rbind (float_in ''stck_clpr'' item) (\<lambda>close.
         rbind (rbind (kitem ''acml_vol'' item) kint) (\<lambda>volume.
           Inr (Some \<lparr>ch_date = date, ch_open = opening, ch_high = high, ch_low = low, ch_close = close,
                      ch_volume = volume\<rparr>))))))))"

text \<open>The rows of a page and the number of its items; None when there is no page.\<close>

definition chart_page :: "kval option \<Rightarrow> (chart_row list \<times> nat) option res" where
  "chart_page a =
     rbind (output_of ''output2'' a) (\<lambda>out.
       case out of
         None \<Rightarrow> Inr None
       | Some v \<Rightarrow>
           rbind (kiter v) (\<lambda>items. rbind (each chart_row_of items) (\<lambda>rows.
             Inr (Some (concat (map (\<lambda>r. case r of None \<Rightarrow> [] | Some x \<Rightarrow> [x]) rows), length items)))))"

definition chart_request :: "string \<Rightarrow> string \<Rightarrow> string \<Rightarrow> jval \<Rightarrow> http_request" where
  "chart_request code period start_date end_date =
     quotation ''inquire-daily-itemchartprice'' ''FHKST03010100''
       [(''FID_COND_MRKT_DIV_CODE'', JStr ''J''), (''FID_INPUT_ISCD'', JStr code), (''FID_INPUT_DATE_1'', JStr start_date),
        (''FID_INPUT_DATE_2'', end_date), (''FID_PERIOD_DIV_CODE'', JStr period), (''FID_ORG_ADJ_PRC'', JStr ''1'')]"

text \<open>The earliest date of a page, the first one found of it.\<close>

fun earliest :: "ymd \<Rightarrow> chart_row list \<Rightarrow> ymd" where
  "earliest d [] = d"
| "earliest d (r # rs) = earliest (if day_number (ch_date r) < day_number d then ch_date r else d) rs"

fun chart_loop ::
  "kis_world \<Rightarrow> string \<Rightarrow> string \<Rightarrow> string \<Rightarrow> ymd \<Rightarrow> nat \<Rightarrow> jval \<Rightarrow> chart_row list \<Rightarrow> broker_client \<Rightarrow>
   (chart_row list res \<times> broker_client) option" where
  "chart_loop w code period start_date target 0 end_date rows c = None"
| "chart_loop w code period start_date target (Suc n) end_date rows c =
     (let (a, c') = safe_request w (chart_request code period start_date end_date) c
       in case chart_page a of
            Inl e \<Rightarrow> Some (Inl e, c')
          | Inr None \<Rightarrow> Some (Inr rows, c')
          | Inr (Some ([], _)) \<Rightarrow> Some (Inr rows, c')
          | Inr (Some (r # rs, len)) \<Rightarrow>
              (let first_day = earliest (ch_date r) rs; found = rows @ r # rs
                in if day_number target < day_number first_day \<and> 100 \<le> len
                   then chart_loop w code period start_date target n (JStr (ymd_text (day_before first_day))) found c'
                   else Some (Inr found, c')))"

text \<open>\<open>{r['date']: r}\<close> keeps the last row of a date at the place of the first.\<close>

definition unique_rows :: "chart_row list \<Rightarrow> chart_row list" where
  "unique_rows rows = map snd (fold (\<lambda>r. AList.update (ch_date r) r) rows [])"

definition history_by_chart ::
  "kis_world \<Rightarrow> nat \<Rightarrow> string \<Rightarrow> string \<Rightarrow> string option \<Rightarrow> string option \<Rightarrow> broker_client \<Rightarrow>
   (chart_row list res \<times> broker_client) option" where
  "history_by_chart w n code period start_date end_date c =
     (case start_date of
        None \<Rightarrow> Some (Inl TypeError, c)
      | Some s \<Rightarrow>
          (case parse_ymd s of
             Inl e \<Rightarrow> Some (Inl e, c)
           | Inr target \<Rightarrow>
               map_option (map_res (\<lambda>rows. sort_key (day_number \<circ> ch_date) (unique_rows rows)))
                 (chart_loop w code period s target n (case end_date of None \<Rightarrow> JNull | Some e \<Rightarrow> JStr e) [] c)))"

section \<open>The client as the broker of the gateway\<close>

definition day_price_json :: "day_price \<Rightarrow> jval" where
  "day_price_json d =
     (case dd_date d of (y, m, n) \<Rightarrow>
        JObj [(''date'', JStr (decimal (nat y) @ ''-'' @ two_places m @ ''-'' @ two_places n)), (''price'', JNum (dd_price d)),
              (''high'', JNum (dd_high d)), (''low'', JNum (dd_low d))])"

definition prices_answer :: "day_price list option \<Rightarrow> api_answer" where
  "prices_answer ps =
     (case ps of
        None \<Rightarrow> NoAnswer
      | Some [] \<Rightarrow> EmptyAnswer
      | Some ds \<Rightarrow> Payload (JObj (map (\<lambda>d. (''row'', day_price_json d)) ds)))"

definition snapshot_answer :: "jval option \<Rightarrow> api_answer" where
  "snapshot_answer s = (case s of None \<Rightarrow> NoAnswer | Some v \<Rightarrow> Payload v)"

definition market_api :: "kis_world \<Rightarrow> api_call \<Rightarrow> api_answer res kis" where
  "market_api w call c =
     (case call of
        StockSnapshot code is_index \<Rightarrow> map_res snapshot_answer (kis_snapshot w code (jtruth is_index) c)
      | DailyPrices code days \<Rightarrow> map_res prices_answer (kis_daily_prices w code days c)
      | _ \<Rightarrow> (Inl AttributeError, c))"

definition kis_api :: "kis_world \<Rightarrow> api_call \<Rightarrow> api_answer res kis" where
  "kis_api w = trading_api w (market_api w)"

section \<open>Lemmas\<close>

lemma days_in_month_bounds: "28 \<le> days_in_month y m \<and> days_in_month y m \<le> 31"
  by (simp add: days_in_month_def)

lemma parse_ymd_real: "parse_ymd s = Inr x \<Longrightarrow> real_date x"
  by (auto simp: parse_ymd_def split: list.splits prod.splits if_splits)

lemma kdate_real: "kdate v = Inr x \<Longrightarrow> real_date x"
  by (auto simp: kdate_def intro: parse_ymd_real split: kval.splits)

text \<open>The day before is one day before.\<close>

lemma div_pred: "(z - 1) div k = (if k dvd z then z div k - 1 else z div k)" if "0 < k" for z k :: int
proof (cases "k dvd z")
  case True
  then obtain q where "z = k * q" by (elim dvdE)
  moreover have "(k * q - 1) div k = q - 1"
    using that by (intro int_div_pos_eq [of _ _ _ "k - 1"]) (simp_all add: algebra_simps)
  ultimately show ?thesis using that by simp
next
  case False
  then have "0 < z mod k" using that pos_mod_sign [of k z] by (simp add: dvd_eq_mod_eq_0 order_less_le)
  moreover have "z mod k < k" by (rule pos_mod_bound [OF that])
  moreover have "z - 1 = k * (z div k) + (z mod k - 1)" by simp
  ultimately have "(z - 1) div k = z div k"
    by (intro int_div_pos_eq [of _ _ _ "z mod k - 1"]) linarith+
  with False show ?thesis by simp
qed

lemma days_before_next_year: "days_before_year (y + 1) = days_before_year y + (if leap_year y then 366 else 365)"
proof -
  have "400 dvd y \<Longrightarrow> 100 dvd y" "100 dvd y \<Longrightarrow> 4 dvd y" by presburger+
  then show ?thesis
    by (auto simp: days_before_year_def leap_year_def Let_def div_pred)
qed

lemma days_before_december: "days_before_month y 12 = (if leap_year y then 335 else 334)"
  by (simp add: days_before_month_def upto.simps days_in_month_def)

lemma days_before_next_month: "1 < m \<Longrightarrow> days_before_month y m = days_before_month y (m - 1) + days_in_month y (m - 1)"
  by (simp add: days_before_month_def upto_rec2 [of 1 "m - 1"])

lemma day_number_before:
  assumes "real_date x"
  shows "day_number (day_before x) = day_number x - 1"
proof -
  obtain y m d where x: "x = (y, m, d)" by (cases x)
  have r: "1 \<le> m" "1 \<le> d" using assms by (auto simp: real_date_def x)
  consider "1 < d" | "d = 1" "1 < m" | "d = 1" "m = 1" using r by linarith
  then show ?thesis
  proof cases
    case 1
    then show ?thesis by (simp add: day_number_def day_before_def x)
  next
    case 2
    then show ?thesis by (simp add: day_number_def day_before_def x days_before_next_month [of m])
  next
    case 3
    then show ?thesis
      using days_before_next_year [of "y - 1"] days_before_december [of "y - 1"]
      by (simp add: day_number_def day_before_def x days_before_month_def)
  qed
qed

lemma earliest_mem: "earliest d rs = d \<or> earliest d rs \<in> ch_date ` set rs"
  by (induction d rs rule: earliest.induct) (auto split: if_splits)

lemma earliest_among: "earliest (ch_date r) rs \<in> ch_date ` set (r # rs)"
  using earliest_mem [of "ch_date r" rs] by auto

lemma chart_row_real: "chart_row_of i = Inr (Some r) \<Longrightarrow> real_date (ch_date r)"
  by (auto simp: chart_row_of_def rbind_eq_Inr_iff intro: kdate_real split: if_splits)

lemma each_mem: "each f xs = Inr ys \<Longrightarrow> y \<in> set ys \<Longrightarrow> \<exists>x \<in> set xs. f x = Inr y"
  by (induction xs arbitrary: ys) (auto simp: rbind_eq_Inr_iff)

lemma chart_page_real: "chart_page a = Inr (Some (rows, n)) \<Longrightarrow> r \<in> set rows \<Longrightarrow> real_date (ch_date r)"
  by (auto simp: chart_page_def rbind_eq_Inr_iff dest!: each_mem split: option.splits intro: chart_row_real)

section \<open>Fetching a history\<close>

text \<open>
  A broker that answers a query with rows up to its last day only, as long as that is not before the
  first day asked for.
\<close>

definition honest :: "kis_world \<Rightarrow> string \<Rightarrow> string \<Rightarrow> string \<Rightarrow> ymd \<Rightarrow> bool" where
  "honest w code period s target \<longleftrightarrow>
     (\<forall>c e rows n. chart_page (fst (safe_request w (chart_request code period s (JStr (ymd_text e))) c)) = Inr (Some (rows, n)) \<longrightarrow>
        day_number target \<le> day_number e \<longrightarrow> (\<forall>r \<in> set rows. day_number (ch_date r) \<le> day_number e))"

lemma chart_loop_returns:
  assumes "honest w code period s target" "day_number target \<le> day_number e"
    and "nat (day_number e - day_number target) < n"
  shows "\<exists>r. chart_loop w code period s target n (JStr (ymd_text e)) rows c = Some r"
  using assms(2,3)
proof (induction n arbitrary: e rows c)
  case (Suc n)
  let ?rq = "chart_request code period s (JStr (ymd_text e))"
  obtain a c' where a: "safe_request w ?rq c = (a, c')" by (metis prod.collapse)
  show ?case
  proof (cases "\<exists>r rs len. chart_page a = Inr (Some (r # rs, len)) \<and>
      day_number target < day_number (earliest (ch_date r) rs) \<and> 100 \<le> len")
    case False
    then show ?thesis by (auto simp: a Let_def split: sum.split option.split list.split)
  next
    case True
    then obtain r rs len where page: "chart_page a = Inr (Some (r # rs, len))"
      and later: "day_number target < day_number (earliest (ch_date r) rs)" "100 \<le> len" by blast
    let ?x = "earliest (ch_date r) rs"
    obtain q where q: "q \<in> set (r # rs)" "?x = ch_date q" using earliest_among by auto
    have real: "real_date ?x" using chart_page_real [OF page q(1)] q(2) by simp
    have "day_number ?x \<le> day_number e"
      using assms(1) Suc.prems(1) page q unfolding honest_def by (metis a fst_conv)
    with day_number_before [OF real] have "day_number (day_before ?x) < day_number e" by simp
    moreover have "day_number target \<le> day_number (day_before ?x)"
      using day_number_before [OF real] later(1) by simp
    ultimately show ?thesis
      using Suc.IH [of "day_before ?x"] Suc.prems(2) later by (simp add: a page Let_def)
  qed
qed simp

text \<open>
  It need not end otherwise: a broker whose full pages never reach back to the first day is asked
  forever.
\<close>

lemma endless_history:
  assumes "\<And>c v. \<exists>r rs len. chart_page (fst (safe_request w (chart_request code period s v) c)) = Inr (Some (r # rs, len)) \<and>
      day_number target < day_number (earliest (ch_date r) rs) \<and> 100 \<le> len"
  shows "chart_loop w code period s target n v rows c = None"
proof (induction n arbitrary: v rows c)
  case (Suc n)
  obtain r rs len where "chart_page (fst (safe_request w (chart_request code period s v) c)) = Inr (Some (r # rs, len))"
    "day_number target < day_number (earliest (ch_date r) rs)" "100 \<le> len" using assms [of v c] by blast
  then show ?case by (simp add: Suc.IH split_beta Let_def)
qed simp

text \<open>The history is in the order of its dates, none of which it has twice.\<close>

definition keyed :: "(ymd \<times> chart_row) list \<Rightarrow> bool" where
  "keyed al \<longleftrightarrow> distinct (map fst al) \<and> (\<forall>p \<in> set al. ch_date (snd p) = fst p)"

lemma keyed_update: "keyed al \<Longrightarrow> keyed (AList.update (ch_date r) r al)"
proof -
  have "\<forall>p \<in> set al. ch_date (snd p) = fst p \<Longrightarrow>
      \<forall>p \<in> set (AList.update (ch_date r) r al). ch_date (snd p) = fst p"
    by (induction al) auto
  then show "keyed al \<Longrightarrow> ?thesis" by (simp add: keyed_def distinct_update)
qed

lemma keyed_rows_of: "keyed al \<Longrightarrow> keyed (fold (\<lambda>r. AList.update (ch_date r) r) rows al)"
  by (induction rows arbitrary: al) (simp_all add: keyed_update)

lemma keyed_dates: "keyed al \<Longrightarrow> map ch_date (map snd al) = map fst al"
  by (simp add: keyed_def)

lemma unique_rows_distinct: "distinct (map ch_date (unique_rows rows))"
proof -
  have "keyed (fold (\<lambda>r. AList.update (ch_date r) r) rows [])"
    by (rule keyed_rows_of) (simp add: keyed_def)
  from keyed_dates [OF this] this show ?thesis
    by (simp only: unique_rows_def) (simp add: keyed_def)
qed

lemma history_sorted:
  assumes "history_by_chart w n code period s e c = Some (Inr rows, c')"
  shows "sorted (map (day_number \<circ> ch_date) rows) \<and> distinct (map ch_date rows)"
proof -
  obtain found where "rows = sort_key (day_number \<circ> ch_date) (unique_rows found)"
    using assms by (auto simp: history_by_chart_def map_res_def rbind_eq_Inr_iff split: option.splits sum.splits)
  then show ?thesis
    using unique_rows_distinct [of found] by (simp add: distinct_map)
qed

text \<open>
  C29. The history ends: with a broker that respects the last day asked for, as many pages as the
  period has calendar days, its first and last day included, are always enough; and its
  rows are in the order of their dates, none of which it has twice.
\<close>

theorem history_returns:
  assumes "honest w code period s target" "parse_ymd s = Inr target" "day_number target \<le> day_number e"
    and "nat (day_number e - day_number target) < n"
  shows "\<exists>r c'. history_by_chart w n code period (Some s) (Some (ymd_text e)) c = Some (r, c') \<and>
    (\<forall>rows. r = Inr rows \<longrightarrow> sorted (map (day_number \<circ> ch_date) rows) \<and> distinct (map ch_date rows))"
proof -
  obtain r where "chart_loop w code period s target n (JStr (ymd_text e)) [] c = Some r"
    using chart_loop_returns [OF assms(1,3,4)] by blast
  then obtain r c' where "history_by_chart w n code period (Some s) (Some (ymd_text e)) c = Some (r, c')"
    using assms(2) by (cases "map_res (\<lambda>rows. sort_key (day_number \<circ> ch_date) (unique_rows rows)) r")
      (simp add: history_by_chart_def)
  then show ?thesis using history_sorted by blast
qed

text \<open>A broker that always answers with one row, of the first day asked for.\<close>

definition chart_document :: "(string \<times> kval) list" where
  "chart_document = [(''rt_cd'', KStr ''0''), (''output2'', KList [KObj [(''stck_bsop_date'', KStr ''20250102''),
     (''stck_oprc'', KStr ''10''), (''stck_hgpr'', KStr ''12''), (''stck_lwpr'', KStr ''9''), (''stck_clpr'', KStr ''11''),
     (''acml_vol'', KStr ''1000'')]])]"

definition chart_kis :: kis_world where
  "chart_kis = demo_broker (\<lambda>_ _. Reply 200 (Parsed (KObj chart_document)))"

lemma chart_kis_answers: "fst (safe_request chart_kis rq c) \<in> {None, Some (KObj chart_document)}"
proof (cases "fst (safe_request chart_kis rq c)")
  case (Some d)
  then have "safe_request chart_kis rq c = (Some d, snd (safe_request chart_kis rq c))" by (metis prod.collapse)
  from request_origin [OF this] show ?thesis
    using Some by (auto simp: chart_kis_def demo_broker_def read_reply_def read_document_def split: if_splits)
qed simp

lemma chart_document_page: "chart_page (Some (KObj chart_document)) = Inr (Some ([\<lparr>ch_date = (2025, 1, 2), ch_open = 10,
    ch_high = 12, ch_low = 9, ch_close = 11, ch_volume = 1000\<rparr>], 1))"
  by code_simp

lemma chart_kis_honest: "honest chart_kis code period s (2025, 1, 2)"
proof -
  have "day_number (ch_date r) \<le> day_number e"
    if "chart_page (fst (safe_request chart_kis rq c)) = Inr (Some (rows, n))" "day_number (2025, 1, 2) \<le> day_number e" "r \<in> set rows"
    for rq c rows n e r
    using chart_kis_answers [of rq c] that chart_document_page by (auto simp: chart_page_def output_of_def)
  then show ?thesis unfolding honest_def by blast
qed

theorem history_returns_witness:
  "\<exists>r c'. history_by_chart chart_kis 5 ''005930'' ''D'' (Some ''20250102'') (Some ''20250106'') ready_client = Some (r, c') \<and>
    (\<forall>rows. r = Inr rows \<longrightarrow> sorted (map (day_number \<circ> ch_date) rows) \<and> distinct (map ch_date rows))"
proof -
  have "parse_ymd ''20250102'' = Inr (2025, 1, 2)" "ymd_text (2025, 1, 6) = ''20250106''" by code_simp+
  moreover have "day_number (2025, 1, 6) - day_number (2025, 1, 2) = 4" by (simp add: day_number_def)
  ultimately show ?thesis
    using history_returns [OF chart_kis_honest, of "''20250102''" "(2025, 1, 6)" 5 "''005930''" "''D''" ready_client]
    by simp
qed

end
