(* ===== verification/Portfolio_Sync.thy ===== *)
theory Portfolio_Sync
  imports Kis_Market Sell_Executor
begin

text \<open>
  \<open>utilities/sync_portfolio_from_account.py\<close>: the recorded portfolio is compared with the
  broker's account, and after a confirmation the table PORTFOLIO follows the account. The
  account comes through the gateway's client (\<open>Kis_Gateway\<close>), behind which \<open>Kis_Trading\<close> asks the
  broker.

  Python iterates over sets of codes in an order of its own, the argument \<open>sy_order\<close>. The
  session sees its own changes; a failing commit takes them back. Reports are left out, and
  so is \<open>updated_at\<close>. Rows of the account are complete, as the gateway sends them: a
  row with something missing ends the run when it is read.
\<close>

section \<open>The two sides\<close>

definition json_field :: "string \<Rightarrow> (jval \<Rightarrow> 'a option) \<Rightarrow> (string \<times> jval) list \<Rightarrow> 'a res" where
  "json_field k f d =
     (case map_of d k of
        None \<Rightarrow> Inl KeyError
      | Some v \<Rightarrow> (case f v of None \<Rightarrow> Inl TypeError | Some x \<Rightarrow> Inr x))"

definition json_text :: "jval \<Rightarrow> string option" where
  "json_text v = (case v of JStr s \<Rightarrow> Some s | _ \<Rightarrow> None)"

definition json_number :: "jval \<Rightarrow> rat option" where
  "json_number v = (case v of JNum x \<Rightarrow> Some x | _ \<Rightarrow> None)"

definition account_of_json :: "jval \<Rightarrow> account_row res" where
  "account_of_json v =
     (case v of
        JObj d \<Rightarrow>
          rbind (json_field ''code'' json_text d) (\<lambda>code.
          rbind (json_field ''name'' json_text d) (\<lambda>name.
          rbind (json_field ''quantity'' json_number d) (\<lambda>quantity.
          rbind (json_field ''avg_price'' json_number d) (\<lambda>avg_price.
          rbind (json_field ''current_price'' json_number d) (\<lambda>current_price.
            Inr \<lparr>ac_code = code, ac_name = name, ac_quantity = py_int quantity, ac_avg_price = avg_price,
                 ac_current_price = current_price\<rparr>)))))
      | _ \<Rightarrow> Inl TypeError)"

text \<open>No answer and a failure are an empty list, just like an empty account.\<close>

definition get_kis_holdings :: "api_answer option res \<Rightarrow> jval list" where
  "get_kis_holdings r =
     (case r of
        Inr (Some (Payload (JObj rows))) \<Rightarrow> map snd rows
      | Inr (Some (Payload v)) \<Rightarrow> [v]
      | _ \<Rightarrow> [])"

definition get_db_portfolio :: "trade_db \<Rightarrow> holding list" where
  "get_db_portfolio db = filter (\<lambda>h. h_status h = HOLDING) (holdings db)"

definition trades_since :: "rat \<Rightarrow> int \<Rightarrow> trade_db \<Rightarrow> trade_row list" where
  "trades_since time days db =
     sort_key (\<lambda>t. - log_time t) (filter (\<lambda>t. time - of_int days * 24 \<le> log_time t) (trades db))"

section \<open>Comparison\<close>

text \<open>\<open>{key(x): x for x in xs}\<close>, and the values of some of its keys.\<close>

definition by_key :: "('a \<Rightarrow> string) \<Rightarrow> 'a list \<Rightarrow> (string \<times> 'a) list" where
  "by_key f xs = fold (\<lambda>x. AList.update (f x) x) xs []"

definition looked_up :: "(string \<times> 'a) list \<Rightarrow> string list \<Rightarrow> 'a list" where
  "looked_up m codes = concat (map (\<lambda>c. case map_of m c of None \<Rightarrow> [] | Some x \<Rightarrow> [x]) codes)"

record sold_item =
  do_code :: string
  do_name :: string
  do_quantity :: int
  do_avg_price :: rat
  do_id :: int
  do_sells :: nat
  do_last_sell :: "rat option"

record quantity_gap =
  qg_code :: string
  qg_name :: string
  qg_kis :: int
  qg_db :: int
  qg_id :: int

record comparison =
  only_in_kis :: "account_row list"
  only_in_db :: "sold_item list"
  quantity_mismatch :: "quantity_gap list"
  matched :: "account_row list"

definition sold_item_of :: "trade_row list \<Rightarrow> holding \<Rightarrow> sold_item" where
  "sold_item_of recent h =
     (let sells = filter (\<lambda>t. log_type t = ''SELL'' \<and> log_code t = h_code h) recent
       in \<lparr>do_code = h_code h, do_name = h_name h, do_quantity = h_qty h, do_avg_price = h_avg h, do_id = h_id h,
           do_sells = length sells,
           do_last_sell = (case sells of [] \<Rightarrow> None | t # _ \<Rightarrow> Some (log_time t))\<rparr>)"

definition gap_of :: "account_row \<times> holding \<Rightarrow> quantity_gap" where
  "gap_of p = \<lparr>qg_code = ac_code (fst p), qg_name = ac_name (fst p), qg_kis = ac_quantity (fst p), qg_db = h_qty (snd p),
     qg_id = h_id (snd p)\<rparr>"

definition compare_holdings ::
  "(string list \<Rightarrow> string list) \<Rightarrow> account_row list \<Rightarrow> holding list \<Rightarrow> trade_row list \<Rightarrow> comparison" where
  "compare_holdings order kis portfolio recent =
     (let kis_map = by_key ac_code kis; db_map = by_key h_code portfolio;
          kis_codes = map fst kis_map; db_codes = map fst db_map;
          both = order (filter (\<lambda>c. c \<in> set db_codes) kis_codes);
          pairs = zip (looked_up kis_map both) (looked_up db_map both)
       in \<lparr>only_in_kis = looked_up kis_map (order (filter (\<lambda>c. c \<notin> set db_codes) kis_codes)),
           only_in_db = map (sold_item_of recent) (looked_up db_map (order (filter (\<lambda>c. c \<notin> set kis_codes) db_codes))),
           quantity_mismatch = map gap_of (filter (\<lambda>p. ac_quantity (fst p) \<noteq> h_qty (snd p)) pairs),
           matched = map fst (filter (\<lambda>p. ac_quantity (fst p) = h_qty (snd p)) pairs)\<rparr>)"

section \<open>Correction\<close>

record sync_world =
  sy_reply :: "api_answer option res"
  sy_read :: "py_exc option"
  sy_commit :: "py_exc option"
  sy_commit_added :: "py_exc option"
  sy_order :: "string list \<Rightarrow> string list"
  sy_clock :: rat
  sy_answer :: string

definition mark_synced :: "holding \<Rightarrow> holding" where
  "mark_synced h = h\<lparr>h_status := SOLD, h_state := ''SYNCED_FROM_ACCOUNT''\<rparr>"

definition set_quantity :: "int \<Rightarrow> holding \<Rightarrow> holding" where
  "set_quantity n h = h\<lparr>h_qty := n\<rparr>"

definition after_correction :: "comparison \<Rightarrow> trade_db \<Rightarrow> trade_db" where
  "after_correction cmp db =
     fold (\<lambda>g. replace_row (qg_id g) (set_quantity (qg_kis g))) (quantity_mismatch cmp)
       (fold (\<lambda>d. replace_row (do_id d) mark_synced) (only_in_db cmp) db)"

definition committed_or :: "py_exc option \<Rightarrow> trade_db \<Rightarrow> trade_db \<Rightarrow> unit res \<times> trade_db" where
  "committed_or fault db db' = (case fault of Some e \<Rightarrow> (Inl e, db) | None \<Rightarrow> (Inr (), db'))"

definition apply_sync :: "sync_world \<Rightarrow> comparison \<Rightarrow> bool \<Rightarrow> trade_db \<Rightarrow> unit res \<times> trade_db" where
  "apply_sync w cmp dry_run db =
     (if dry_run \<or> only_in_db cmp = [] \<and> quantity_mismatch cmp = [] then (Inr (), db)
      else committed_or (sy_commit w) db (after_correction cmp db))"

definition synced_row :: "rat \<Rightarrow> account_row \<Rightarrow> int \<Rightarrow> holding" where
  "synced_row created a i =
     \<lparr>h_id = i, h_code = ac_code a, h_name = ac_name a, h_qty = ac_quantity a, h_avg = ac_avg_price a,
      h_total = of_int (ac_quantity a) * ac_avg_price a, h_high = Some (ac_current_price a), h_status = HOLDING,
      h_state = ''SYNCED_FROM_ACCOUNT'', h_stop = Some (ac_avg_price a * (98 / 100)), h_created = created\<rparr>"

definition added :: "account_row list \<Rightarrow> trade_db \<Rightarrow> trade_db" where
  "added items db = fold (\<lambda>a db. append_row (synced_row (db_now db) a) db) items db"

definition add_missing_holdings :: "sync_world \<Rightarrow> account_row list \<Rightarrow> bool \<Rightarrow> trade_db \<Rightarrow> unit res \<times> trade_db" where
  "add_missing_holdings w items dry_run db =
     (if dry_run \<or> items = [] then (Inr (), db) else committed_or (sy_commit_added w) db (added items db))"

record sync_args =
  sa_dry_run :: bool
  sa_auto_confirm :: bool
  sa_add_missing :: bool
  sa_trade_days :: int

datatype sync_outcome = NothingHeld | NothingToDo | DryRun | Cancelled | Synced

definition confirmed :: "sync_world \<Rightarrow> sync_args \<Rightarrow> bool" where
  "confirmed w args \<longleftrightarrow> sa_auto_confirm args \<or> to_lower (py_strip (sy_answer w)) = ''y''"

definition carry_out :: "sync_world \<Rightarrow> sync_args \<Rightarrow> comparison \<Rightarrow> trade_db \<Rightarrow> sync_outcome res \<times> trade_db" where
  "carry_out w args cmp db =
     (case apply_sync w cmp False db of
        (Inl e, db1) \<Rightarrow> (Inl e, db1)
      | (Inr _, db1) \<Rightarrow>
          (case (if sa_add_missing args then add_missing_holdings w (only_in_kis cmp) False db1 else (Inr (), db1)) of
             (Inl e, db2) \<Rightarrow> (Inl e, db2)
           | (Inr _, db2) \<Rightarrow> (Inr Synced, db2)))"

definition sync_main :: "sync_world \<Rightarrow> sync_args \<Rightarrow> trade_db \<Rightarrow> sync_outcome res \<times> trade_db" where
  "sync_main w args db =
     (let raw = get_kis_holdings (sy_reply w)
       in case sy_read w of
            Some e \<Rightarrow> (Inl e, db)
          | None \<Rightarrow>
              if get_db_portfolio db = [] \<and> raw = [] then (Inr NothingHeld, db)
              else case each account_of_json raw of
                Inl e \<Rightarrow> (Inl e, db)
              | Inr kis \<Rightarrow>
                  (let cmp = compare_holdings (sy_order w) kis (get_db_portfolio db)
                         (trades_since (sy_clock w) (sa_trade_days args) db);
                       sync_items = length (only_in_db cmp) + length (quantity_mismatch cmp);
                       add_items = (if sa_add_missing args then length (only_in_kis cmp) else 0)
                    in if sync_items + add_items = 0 then (Inr NothingToDo, db)
                       else if sa_dry_run args then (Inr DryRun, db)
                       else if confirmed w args then carry_out w args cmp db
                       else (Inr Cancelled, db)))"

section \<open>Lemmas\<close>

text \<open>What the comparison and the correction need of the holdings; \<open>db_ok\<close> gives it.\<close>

definition rows_ok :: "trade_db \<Rightarrow> bool" where
  "rows_ok db \<longleftrightarrow> inj_on h_id (set (holdings db)) \<and>
     (\<forall>h \<in> set (holdings db). \<forall>h' \<in> set (holdings db).
        h_status h = HOLDING \<longrightarrow> h_status h' = HOLDING \<longrightarrow> h_code h = h_code h' \<longrightarrow> h = h')"

lemma db_ok_rows_ok: "db_ok db \<Longrightarrow> rows_ok db"
proof -
  assume db: "db_ok db"
  then have "h = h'" if "h \<in> set (holdings db)" "h' \<in> set (holdings db)" "h_status h = HOLDING" "h_status h' = HOLDING"
      "h_code h = h_code h'" for h h'
    using db_ok_ids_inj [OF db that(1,2)] that unfolding db_ok_def by blast
  with db_ok_ids_inj [OF db] show ?thesis by (auto simp: rows_ok_def inj_on_def)
qed

text \<open>Dictionaries by a key.\<close>

lemma by_key_fold:
  "\<forall>p \<in> set al. f (snd p) = fst p \<Longrightarrow> distinct (map fst al) \<Longrightarrow>
   (\<forall>p \<in> set (fold (\<lambda>x. AList.update (f x) x) xs al). f (snd p) = fst p \<and> (p \<in> set al \<or> snd p \<in> set xs)) \<and>
   distinct (map fst (fold (\<lambda>x. AList.update (f x) x) xs al)) \<and>
   fst ` set (fold (\<lambda>x. AList.update (f x) x) xs al) = fst ` set al \<union> f ` set xs"
proof (induction xs arbitrary: al)
  case (Cons x xs)
  have "\<forall>p \<in> set al. f (snd p) = fst p \<Longrightarrow>
      \<forall>p \<in> set (AList.update (f x) x al). f (snd p) = fst p \<and> (p \<in> set al \<or> snd p = x)"
    by (induction al) auto
  moreover have "fst ` set (AList.update (f x) x al) = insert (f x) (fst ` set al)"
    by (induction al) auto
  ultimately show ?case
    using Cons.IH [of "AList.update (f x) x al"] Cons.prems by (auto simp: distinct_update)
qed simp

lemma by_key_facts:
  "distinct (map fst (by_key f xs))" "fst ` set (by_key f xs) = f ` set xs"
  "map_of (by_key f xs) c = Some x \<Longrightarrow> x \<in> set xs \<and> f x = c"
  using by_key_fold [of "[]" f xs] by (auto simp: by_key_def dest!: map_of_SomeD)

lemma by_key_None: "map_of (by_key f xs) c = None \<longleftrightarrow> c \<notin> f ` set xs"
  by (simp add: map_of_eq_None_iff by_key_facts(2))

text \<open>An order of iteration has every code once.\<close>

definition iterates :: "(string list \<Rightarrow> string list) \<Rightarrow> bool" where
  "iterates order \<longleftrightarrow> (\<forall>xs. distinct xs \<longrightarrow> distinct (order xs) \<and> set (order xs) = set xs)"

lemma looked_up_map: "(\<And>c. c \<in> set cs \<Longrightarrow> map_of m c \<noteq> None) \<Longrightarrow> looked_up m cs = map (\<lambda>c. the (map_of m c)) cs"
proof (induction cs)
  case (Cons c cs)
  then obtain x where "map_of m c = Some x" by (metis list.set_intros(1) not_None_eq)
  with Cons show ?case by (simp add: looked_up_def)
qed (simp add: looked_up_def)

lemma looked_up_Nil [simp]: "looked_up [] cs = []"
  by (induction cs) (simp_all add: looked_up_def)

lemma looked_up_set: "set (looked_up m cs) = {x. \<exists>c \<in> set cs. map_of m c = Some x}"
  by (induction cs) (auto simp: looked_up_def split: option.splits)

text \<open>Rewriting rows by their ids is a map over the rows.\<close>

lemma holdings_fold:
  "holdings (fold (\<lambda>i. replace_row (g i) (f i)) items db) =
   map (\<lambda>h. fold (\<lambda>i h. if h_id h = g i then f i h else h) items h) (holdings db)"
  by (induction items arbitrary: db) (simp_all add: replace_row_def o_def)

lemma fold_same:
  assumes "\<And>i. i \<in> set items \<Longrightarrow> g i = h_id h \<Longrightarrow> f i h = r \<and> f i r = r" "h_id r = h_id h"
  shows "fold (\<lambda>i h. if h_id h = g i then f i h else h) items h = (if \<exists>i \<in> set items. g i = h_id h then r else h) \<and>
    fold (\<lambda>i h. if h_id h = g i then f i h else h) items r = r"
  using assms by (induction items) auto

lemma fold_none:
  assumes "\<And>i. i \<in> set items \<Longrightarrow> g i \<noteq> h_id h"
  shows "fold (\<lambda>i h. if h_id h = g i then f i h else h) items h = h"
  using assms
proof (induction items)
  case (Cons i items)
  then have "h_id h \<noteq> g i" by (metis list.set_intros(1))
  with Cons show ?case by simp
qed simp

lemma set_quantity_same: "set_quantity (h_qty h) h = h"
  by (cases h) (simp add: set_quantity_def)

text \<open>What the correction means for one row.\<close>

definition follow :: "(string \<rightharpoonup> account_row) \<Rightarrow> holding \<Rightarrow> holding" where
  "follow m h =
     (if h_status h \<noteq> HOLDING then h
      else case m (h_code h) of None \<Rightarrow> mark_synced h | Some a \<Rightarrow> set_quantity (ac_quantity a) h)"

lemma follow_simps [simp]: "h_code (follow m h) = h_code h" "h_id (follow m h) = h_id h"
  by (simp_all add: follow_def mark_synced_def set_quantity_def split: option.split)

lemma portfolio_set: "set (get_db_portfolio db) = {h \<in> set (holdings db). h_status h = HOLDING}"
  by (auto simp: get_db_portfolio_def)

lemma held_lookup:
  assumes "rows_ok db"
  shows "map_of (by_key h_code (get_db_portfolio db)) c = Some h \<longleftrightarrow>
    h \<in> set (holdings db) \<and> h_status h = HOLDING \<and> h_code h = c"
proof
  assume "map_of (by_key h_code (get_db_portfolio db)) c = Some h"
  then show "h \<in> set (holdings db) \<and> h_status h = HOLDING \<and> h_code h = c"
    using by_key_facts(3) by (fastforce simp: portfolio_set)
next
  assume h: "h \<in> set (holdings db) \<and> h_status h = HOLDING \<and> h_code h = c"
  then have "map_of (by_key h_code (get_db_portfolio db)) c \<noteq> None"
    by (auto simp: by_key_None portfolio_set)
  then obtain x where x: "map_of (by_key h_code (get_db_portfolio db)) c = Some x" by blast
  with by_key_facts(3) have "x \<in> set (get_db_portfolio db)" "h_code x = c" by fast+
  with h assms have "x = h" unfolding rows_ok_def portfolio_set by blast
  with x show "map_of (by_key h_code (get_db_portfolio db)) c = Some h" by simp
qed

definition account_map :: "account_row list \<Rightarrow> string \<rightharpoonup> account_row" where
  "account_map kis = map_of (by_key ac_code kis)"

lemma iterates_filter:
  assumes "iterates order"
  shows "set (order (filter q (map fst (by_key f xs)))) = {c. map_of (by_key f xs) c \<noteq> None \<and> q c}"
    "distinct (order (filter q (map fst (by_key f xs))))"
  using assms by_key_facts(1,2) [of f xs] unfolding iterates_def
  by (auto simp: by_key_None distinct_filter)

lemma only_db_set:
  assumes "iterates order" "rows_ok db"
  shows "set (only_in_db (compare_holdings order kis (get_db_portfolio db) recent)) =
    sold_item_of recent ` {h \<in> set (holdings db). h_status h = HOLDING \<and> account_map kis (h_code h) = None}"
  using held_lookup [OF assms(2)] by_key_facts(2) [of ac_code kis]
  by (auto simp: compare_holdings_def Let_def looked_up_set iterates_filter(1) [OF assms(1)] account_map_def by_key_None
      portfolio_set intro!: imageI)

lemma gaps_set:
  assumes "iterates order" "rows_ok db"
  shows "set (quantity_mismatch (compare_holdings order kis (get_db_portfolio db) recent)) =
    {gap_of (a, h) | a h. h \<in> set (holdings db) \<and> h_status h = HOLDING \<and> account_map kis (h_code h) = Some a \<and>
       ac_quantity a \<noteq> h_qty h}"
proof -
  let ?K = "by_key ac_code kis" and ?D = "by_key h_code (get_db_portfolio db)"
  let ?both = "order (filter (\<lambda>c. c \<in> set (map fst ?D)) (map fst ?K))"
  have both: "set ?both = {c. map_of ?K c \<noteq> None \<and> map_of ?D c \<noteq> None}"
    using iterates_filter(1) [OF assms(1), of "\<lambda>c. c \<in> set (map fst ?D)" ac_code kis]
    by (auto simp: map_of_eq_None_iff)
  then have "looked_up ?K ?both = map (\<lambda>c. the (map_of ?K c)) ?both" "looked_up ?D ?both = map (\<lambda>c. the (map_of ?D c)) ?both"
    by (auto intro!: looked_up_map)
  then have pairs: "set (zip (looked_up ?K ?both) (looked_up ?D ?both)) =
      {(a, h). \<exists>c. map_of ?K c = Some a \<and> map_of ?D c = Some h}"
    using both by (force simp: zip_map_map zip_same_conv_map image_iff)
  have filtered: "set (map gap_of (filter q zs)) = gap_of ` {z \<in> set zs. q z}" for q zs by simp
  have "quantity_mismatch (compare_holdings order kis (get_db_portfolio db) recent) =
      map gap_of (filter (\<lambda>p. ac_quantity (fst p) \<noteq> h_qty (snd p)) (zip (looked_up ?K ?both) (looked_up ?D ?both)))"
    by (simp add: compare_holdings_def Let_def)
  then show ?thesis
    unfolding account_map_def using held_lookup [OF assms(2)] by (auto simp only: filtered pairs) auto
qed

lemma only_kis_rows:
  assumes "iterates order" "rows_ok db"
  shows "\<exists>cs. only_in_kis (compare_holdings order kis (get_db_portfolio db) recent) = map (\<lambda>c. the (account_map kis c)) cs \<and>
    distinct cs \<and> set cs = {c. account_map kis c \<noteq> None \<and>
      \<not> (\<exists>h \<in> set (holdings db). h_status h = HOLDING \<and> h_code h = c)}"
proof -
  let ?K = "by_key ac_code kis" and ?D = "by_key h_code (get_db_portfolio db)"
  let ?cs = "order (filter (\<lambda>c. c \<notin> set (map fst ?D)) (map fst ?K))"
  have cs: "set ?cs = {c. map_of ?K c \<noteq> None \<and> map_of ?D c = None}" "distinct ?cs"
    using iterates_filter [OF assms(1), of "\<lambda>c. c \<notin> set (map fst ?D)" ac_code kis]
    by (auto simp: map_of_eq_None_iff)
  moreover have "looked_up ?K ?cs = map (\<lambda>c. the (map_of ?K c)) ?cs"
    using cs(1) by (auto intro!: looked_up_map)
  moreover have "map_of ?D c = None \<longleftrightarrow> \<not> (\<exists>h \<in> set (holdings db). h_status h = HOLDING \<and> h_code h = c)" for c
    by (auto simp: by_key_None portfolio_set)
  ultimately show ?thesis
    by (intro exI [of _ ?cs]) (simp add: compare_holdings_def Let_def account_map_def)
qed

text \<open>The correction is \<open>follow\<close> on every row.\<close>

lemma after_correction_rows:
  assumes "iterates order" "rows_ok db"
  shows "holdings (after_correction (compare_holdings order kis (get_db_portfolio db) recent) db) =
    map (follow (account_map kis)) (holdings db)"
proof -
  let ?cmp = "compare_holdings order kis (get_db_portfolio db) recent" and ?m = "account_map kis"
  have inj: "x = h" if "x \<in> set (holdings db)" "h \<in> set (holdings db)" "h_id x = h_id h" for x h
    using assms(2) that by (auto simp: rows_ok_def inj_on_def)
  have "fold (\<lambda>g h. if h_id h = qg_id g then set_quantity (qg_kis g) h else h) (quantity_mismatch ?cmp)
      (fold (\<lambda>d h. if h_id h = do_id d then mark_synced h else h) (only_in_db ?cmp) h) = follow ?m h"
    if h: "h \<in> set (holdings db)" for h
  proof -
    let ?sold = "h_status h = HOLDING \<and> ?m (h_code h) = None"
    have "(\<exists>d \<in> set (only_in_db ?cmp). do_id d = h_id h) \<longleftrightarrow> ?sold"
      unfolding only_db_set [OF assms] using inj [OF _ h] h by (auto simp: sold_item_of_def Let_def)
    with fold_same [of "only_in_db ?cmp" do_id h "\<lambda>_. mark_synced" "mark_synced h"]
    have 1: "fold (\<lambda>d h. if h_id h = do_id d then mark_synced h else h) (only_in_db ?cmp) h =
        (if ?sold then mark_synced h else h)"
      by (simp add: mark_synced_def)
    let ?x = "if ?sold then mark_synced h else h"
    have gap: "h_status h = HOLDING \<and> ?m (h_code h) = Some a \<and> ac_quantity a \<noteq> h_qty h \<and> qg_kis g = ac_quantity a"
      if "g \<in> set (quantity_mismatch ?cmp)" "qg_id g = h_id h" "a = the (?m (h_code h))" for g a
    proof -
      from that(1) obtain b x where x: "g = gap_of (b, x)" "x \<in> set (holdings db)" "h_status x = HOLDING"
        "?m (h_code x) = Some b" "ac_quantity b \<noteq> h_qty x" unfolding gaps_set [OF assms] by blast
      with that(2) inj [OF x(2) h] have "x = h" by (simp add: gap_of_def)
      with x that(3) show ?thesis by (simp add: gap_of_def)
    qed
    have gap_ex: "\<exists>g \<in> set (quantity_mismatch ?cmp). qg_id g = h_id h"
      if "h_status h = HOLDING" "?m (h_code h) = Some a" "ac_quantity a \<noteq> h_qty h" for a
      unfolding gaps_set [OF assms] using that h by (force simp: gap_of_def)
    show ?thesis
    proof (cases "?m (h_code h)")
      case None
      then have "qg_id g \<noteq> h_id ?x" if "g \<in> set (quantity_mismatch ?cmp)" for g
        using gap [OF that _ refl] by (auto simp: mark_synced_def)
      then have "fold (\<lambda>g h. if h_id h = qg_id g then set_quantity (qg_kis g) h else h) (quantity_mismatch ?cmp) ?x = ?x"
        by (rule fold_none)
      with None show ?thesis by (simp add: 1 follow_def)
    next
      case (Some a)
      let ?r = "set_quantity (ac_quantity a) h"
      let ?E = "\<exists>g \<in> set (quantity_mismatch ?cmp). qg_id g = h_id h"
      have run: "fold (\<lambda>g h. if h_id h = qg_id g then set_quantity (qg_kis g) h else h) (quantity_mismatch ?cmp) h =
          (if ?E then ?r else h)"
        by (rule conjunct1 [OF fold_same [of "quantity_mismatch ?cmp" qg_id h "\<lambda>g. set_quantity (qg_kis g)" ?r]])
          (use gap Some in \<open>auto simp: set_quantity_def\<close>)
      have "follow ?m h = (if ?E then ?r else h)"
      proof (cases ?E)
        case True
        then have "h_status h = HOLDING" using gap by blast
        with True Some show ?thesis by (simp add: follow_def)
      next
        case False
        then have "h_status h \<noteq> HOLDING \<or> ac_quantity a = h_qty h" using gap_ex Some by blast
        with False Some set_quantity_same [of h] show ?thesis by (auto simp: follow_def)
      qed
      with run Some show ?thesis by (simp only: 1) simp
    qed
  qed
  then show ?thesis by (simp add: after_correction_def holdings_fold)
qed

section \<open>The portfolio follows the account\<close>

text \<open>How many shares the rows that are held say there are, and how many there are in the account.\<close>

definition held_quantity :: "trade_db \<Rightarrow> string \<rightharpoonup> int" where
  "held_quantity db code = map_option h_qty (holding_of code db)"

definition account_quantity :: "account_row list \<Rightarrow> string \<rightharpoonup> int" where
  "account_quantity kis code = map_option ac_quantity (account_map kis code)"

lemma added_rows: "\<exists>rows. holdings (added items db) = holdings db @ rows \<and>
    map (\<lambda>h. (h_code h, h_qty h, h_status h)) rows = map (\<lambda>a. (ac_code a, ac_quantity a, HOLDING)) items"
proof (induction items arbitrary: db)
  case (Cons a items)
  let ?db = "append_row (synced_row (db_now db) a) db"
  obtain rows where "holdings (added items ?db) = holdings ?db @ rows"
    "map (\<lambda>h. (h_code h, h_qty h, h_status h)) rows = map (\<lambda>a. (ac_code a, ac_quantity a, HOLDING)) items"
    using Cons by blast
  then show ?case
    by (intro exI [of _ "synced_row (db_now db) a (next_holding db) # rows"])
      (simp add: added_def append_row_def synced_row_def)
qed (simp add: added_def)

lemma find_agreed:
  "\<exists>x \<in> set xs. P x \<Longrightarrow> (\<And>x. x \<in> set xs \<Longrightarrow> P x \<Longrightarrow> g x = v) \<Longrightarrow> map_option g (find P xs) = Some v"
  by (induction xs) auto

lemma account_map_code: "account_map kis c = Some a \<Longrightarrow> ac_code a = c"
  using by_key_facts(3) unfolding account_map_def by fast

lemma active_follow: "active c (follow m h) \<longleftrightarrow> active c h \<and> m c \<noteq> None"
  by (auto simp: active_def follow_def mark_synced_def set_quantity_def split: option.split)

lemma synced_quantities:
  assumes "iterates order" "rows_ok db" and cmp: "cmp = compare_holdings order kis (get_db_portfolio db) recent"
  shows "held_quantity (added (only_in_kis cmp) (after_correction cmp db)) = account_quantity kis"
proof
  fix c
  let ?m = "account_map kis" and ?db = "added (only_in_kis cmp) (after_correction cmp db)"
  obtain cs where cs: "only_in_kis cmp = map (\<lambda>c. the (?m c)) cs"
    "set cs = {c. ?m c \<noteq> None \<and> \<not> (\<exists>h \<in> set (holdings db). h_status h = HOLDING \<and> h_code h = c)}"
    using only_kis_rows [OF assms(1,2)] unfolding cmp by blast
  obtain rows where rows: "holdings ?db = map (follow ?m) (holdings db) @ rows"
    and new: "map (\<lambda>h. (h_code h, h_qty h, h_status h)) rows = map (\<lambda>a. (ac_code a, ac_quantity a, HOLDING)) (only_in_kis cmp)"
    using added_rows [of "only_in_kis cmp" "after_correction cmp db"] after_correction_rows [OF assms(1,2)] unfolding cmp by auto
  from arg_cong [OF new, of set]
  have set_new: "(\<lambda>h. (h_code h, h_qty h, h_status h)) ` set rows = (\<lambda>c. (c, ac_quantity (the (?m c)), HOLDING)) ` set cs"
    unfolding cs(1) using account_map_code cs(2) by (auto simp: image_image intro!: image_cong)
  have fresh_row: "?m c = Some a \<and> h_qty x = ac_quantity a" if "x \<in> set rows" "active c x" "a = the (?m c)" for x a
  proof -
    have "(h_code x, h_qty x, h_status x) \<in> (\<lambda>c. (c, ac_quantity (the (?m c)), HOLDING)) ` set cs"
      using that(1) unfolding set_new [symmetric] by blast
    with that cs(2) show ?thesis by (auto simp: active_def)
  qed
  show "held_quantity ?db c = account_quantity kis c"
  proof (cases "?m c")
    case None
    then have "\<not> active c x" if "x \<in> set (holdings ?db)" for x
      using that fresh_row by (auto simp: rows active_follow)
    then have "holding_of c ?db = None" by (auto simp: holding_of_None)
    with None show ?thesis by (simp add: held_quantity_def account_quantity_def)
  next
    case (Some a)
    have "\<exists>x \<in> set (holdings ?db). active c x"
    proof (cases "\<exists>h \<in> set (holdings db). active c h")
      case True
      then obtain h where "h \<in> set (holdings db)" "active c (follow ?m h)" using Some by (auto simp: active_follow)
      then show ?thesis by (auto simp: rows)
    next
      case False
      with Some cs(2) have "c \<in> set cs" by (auto simp: active_def)
      then have "(c, ac_quantity (the (?m c)), HOLDING) \<in> (\<lambda>h. (h_code h, h_qty h, h_status h)) ` set rows"
        unfolding set_new by blast
      then show ?thesis by (auto simp: rows active_def)
    qed
    moreover have "h_qty x = ac_quantity a" if "x \<in> set (holdings ?db)" "active c x" for x
    proof -
      have "x \<in> follow ?m ` set (holdings db) \<union> set rows" using that(1) by (simp add: rows)
      then consider h where "x = follow ?m h" | "x \<in> set rows" by blast
      then show ?thesis
      proof cases
        case 1
        with that(2) have "active c h" using active_follow by blast
        with 1 Some show ?thesis by (simp add: active_def follow_def set_quantity_def)
      next
        case 2
        from fresh_row [OF this that(2) refl] Some show ?thesis by simp
      qed
    qed
    ultimately have "held_quantity ?db c = Some (ac_quantity a)"
      unfolding held_quantity_def holding_of_def by (rule find_agreed)
    with Some show ?thesis by (simp add: account_quantity_def)
  qed
qed

text \<open>A confirmed run with everything to be done and no failure of the database.\<close>

lemma sync_main_synced:
  assumes "sy_read w = None" "sy_commit w = None" "sy_commit_added w = None" "sa_add_missing args" "\<not> sa_dry_run args"
    and "confirmed w args" "each account_of_json (get_kis_holdings (sy_reply w)) = Inr kis"
    and cmp: "cmp = compare_holdings (sy_order w) kis (get_db_portfolio db) (trades_since (sy_clock w) (sa_trade_days args) db)"
    and "sync_main w args db = (out, db')"
  shows "db' = added (only_in_kis cmp) (after_correction cmp db) \<and> (out = Inr NothingHeld \<longrightarrow> kis = [])"
proof -
  have none: "only_in_db cmp = [] \<Longrightarrow> quantity_mismatch cmp = [] \<Longrightarrow> after_correction cmp db = db"
    by (simp add: after_correction_def)
  have empty: "get_db_portfolio db = [] \<Longrightarrow> kis = [] \<Longrightarrow> only_in_kis cmp = [] \<and> only_in_db cmp = [] \<and> quantity_mismatch cmp = []"
    by (simp add: cmp compare_holdings_def by_key_def)
  have kis: "get_kis_holdings (sy_reply w) = [] \<Longrightarrow> kis = []" using assms(7) by simp
  show ?thesis
    using assms(1-7,9) none empty kis
    by (auto simp: sync_main_def cmp [symmetric] Let_def carry_out_def apply_sync_def add_missing_holdings_def
        committed_or_def added_def split: if_splits)
qed

text \<open>The rows of the account arrive as the broker's client read them.\<close>

lemma account_of_account_json [simp]: "account_of_json (account_json h) = Inr h"
  by (simp add: account_of_json_def account_json_def json_field_def json_text_def json_number_def)

lemma each_map: "(\<And>x. x \<in> set xs \<Longrightarrow> f (g x) = Inr x) \<Longrightarrow> each f (map g xs) = Inr xs"
  by (induction xs) auto

lemma kis_rows_arrive: "each account_of_json (get_kis_holdings (Inr (Some (account_answer kis)))) = Inr kis"
  by (simp add: account_answer_def get_kis_holdings_def o_def each_map)

lemma dry_run_changes_nothing:
  "sa_dry_run args \<or> \<not> confirmed w args \<Longrightarrow> snd (sync_main w args db) = db"
  by (auto simp: sync_main_def Let_def split: option.split sum.split)

text \<open>The purchase total and the average price of a corrected row no longer fit its quantity.\<close>

lemma correction_breaks_totals:
  assumes "consistent_row h" "h_avg h \<noteq> 0" "n \<noteq> h_qty h"
  shows "\<not> consistent_row (set_quantity n h)"
proof
  assume "consistent_row (set_quantity n h)"
  with assms(1) have "h_avg h * of_int n = h_avg h * of_int (h_qty h)"
    by (simp add: consistent_row_def set_quantity_def)
  with assms(2,3) show False by simp
qed

text \<open>
  C12. A confirmed run with the option for missing stocks makes the portfolio agree with the account:
  afterwards the rows that are held have for every code exactly the shares of the
  account, and codes that are not in the account are not held.
\<close>

theorem portfolio_follows_account:
  assumes "db_ok db" "iterates (sy_order w)" "sy_reply w = Inr (Some (account_answer kis))"
    and "sy_read w = None" "sy_commit w = None" "sy_commit_added w = None"
    and "sa_add_missing args" "\<not> sa_dry_run args" "confirmed w args"
  shows "held_quantity (snd (sync_main w args db)) = account_quantity kis"
proof -
  obtain out db' where run: "sync_main w args db = (out, db')" by (metis prod.collapse)
  have "each account_of_json (get_kis_holdings (sy_reply w)) = Inr kis" using assms(3) kis_rows_arrive by simp
  from sync_main_synced [OF assms(4-9) this refl run] show ?thesis
    using synced_quantities [OF assms(2) db_ok_rows_ok [OF assms(1)] refl] run by simp
qed

definition demo_account :: "account_row list" where
  "demo_account =
     [\<lparr>ac_code = ''000660'', ac_name = ''H'', ac_quantity = 7, ac_avg_price = 50, ac_current_price = 55\<rparr>,
      \<lparr>ac_code = ''005930'', ac_name = ''S'', ac_quantity = 4, ac_avg_price = 100, ac_current_price = 120\<rparr>]"

definition sync_demo :: "api_answer option \<Rightarrow> sync_world" where
  "sync_demo answer = \<lparr>sy_reply = Inr answer, sy_read = None, sy_commit = None, sy_commit_added = None, sy_order = rev,
     sy_clock = 1, sy_answer = '' Y ''\<rparr>"

definition add_args :: sync_args where
  "add_args = \<lparr>sa_dry_run = False, sa_auto_confirm = False, sa_add_missing = True, sa_trade_days = 7\<rparr>"

lemma rev_iterates: "iterates rev"
  by (simp add: iterates_def)

lemma demo_confirmed: "confirmed (sync_demo answer) add_args"
  by (simp add: confirmed_def sync_demo_def add_args_def) code_simp

theorem portfolio_follows_account_witness:
  "held_quantity (snd (sync_main (sync_demo (Some (account_answer demo_account))) add_args held_db)) ''005930'' = Some 4 \<and>
   held_quantity (snd (sync_main (sync_demo (Some (account_answer demo_account))) add_args held_db)) ''000660'' = Some 7"
proof -
  let ?w = "sync_demo (Some (account_answer demo_account))"
  have "held_quantity (snd (sync_main ?w add_args held_db)) = account_quantity demo_account"
    using demo_confirmed [of "Some (account_answer demo_account)"]
    by (intro portfolio_follows_account held_db_ok)
      (simp_all add: sync_demo_def add_args_def rev_iterates)
  then show ?thesis
    by (simp add: account_quantity_def account_map_def by_key_def demo_account_def)
qed

section \<open>When the inquiry fails\<close>

text \<open>
  C11. A failed inquiry sells everything: when the broker does not answer the query for the account,
  or answers it with an empty 404, its client reports an account without stocks, the gateway
  passes that on as a success, and a confirmed run marks every held row as sold.
\<close>

theorem failed_inquiry_sells_everything:
  assumes "inquiry_fails kw c" "gw_client s" "bk_admits (gd_breaker g) t (gw_breaker s)" "gd_encodes g EmptyAnswer"
    and "sy_reply w = Inr (fst (client_account_balance (gateway_on kw market c g) t Arrives True s))"
    and "db_ok db" "iterates (sy_order w)" "sy_read w = None" "sy_commit w = None" "sy_commit_added w = None"
    and "sa_add_missing args" "\<not> sa_dry_run args" "confirmed w args"
  shows "get_db_portfolio (snd (sync_main w args db)) = [] \<and>
    (\<forall>h \<in> set (get_db_portfolio db). mark_synced h \<in> set (holdings (snd (sync_main w args db))))"
proof -
  obtain out db' where run: "sync_main w args db = (out, db')" by (metis prod.collapse)
  let ?cmp = "compare_holdings (sy_order w) [] (get_db_portfolio db) (trades_since (sy_clock w) (sa_trade_days args) db)"
  have "sy_reply w = Inr (Some EmptyAnswer)"
    using assms(5) failed_inquiry_through_gateway [OF assms(1-4)] by simp
  then have "each account_of_json (get_kis_holdings (sy_reply w)) = Inr []"
    by (simp add: get_kis_holdings_def)
  from sync_main_synced [OF assms(8-13) this refl run]
  have db': "db' = added (only_in_kis ?cmp) (after_correction ?cmp db)" by simp
  have none: "only_in_kis ?cmp = []" by (simp add: compare_holdings_def by_key_def Let_def)
  have "holdings db' = map (follow (account_map [])) (holdings db)"
    using after_correction_rows [OF assms(7) db_ok_rows_ok [OF assms(6)]] by (simp add: db' none added_def)
  then show ?thesis
    by (auto simp: run get_db_portfolio_def filter_empty_conv follow_def account_map_def by_key_def mark_synced_def)
qed

definition open_gateway_world :: "unit gateway_world" where
  "open_gateway_world = \<lparr>gd_api = (\<lambda>_. Inr NoAnswer),
     gd_breaker = \<lparr>bk_admits = (\<lambda>_ _. True), bk_rejected = (\<lambda>_ b. b), bk_done = (\<lambda>_ _ b. (b, False))\<rparr>,
     gd_encodes = (\<lambda>_. True), gd_pool_ok = True, gd_prices = (\<lambda>_ _. Inr [])\<rparr>"

theorem failed_inquiry_sells_everything_witness:
  "get_db_portfolio (snd (sync_main (sync_demo (fst (client_account_balance
     (gateway_on (demo_broker (\<lambda>_ _. Reply 404 Blank)) (market_api (demo_broker (\<lambda>_ _. Reply 404 Blank))) ready_client open_gateway_world)
     0 Arrives True (new_gateway ())))) add_args held_db)) = []"
proof -
  let ?k = "demo_broker (\<lambda>_ _. Reply 404 Blank)"
  let ?reply = "fst (client_account_balance (gateway_on ?k (market_api ?k) ready_client open_gateway_world) 0 Arrives True (new_gateway ()))"
  have fails: "inquiry_fails ?k ready_client"
    by (simp add: inquiry_fails_def safe_request_def kis_attempt_def ready_client_def http_call_def demo_broker_def read_reply_def)
  show ?thesis
    using failed_inquiry_sells_everything [OF fails, of "new_gateway ()" open_gateway_world 0 "sync_demo ?reply" "market_api ?k"
        held_db add_args] held_db_ok demo_confirmed [of ?reply]
    by (simp add: sync_demo_def add_args_def rev_iterates new_gateway_def open_gateway_world_def)
qed

end
