(* ===== verification/News_Classifier.thy ===== *)
theory News_Classifier
  imports Config
begin

text \<open>
  \<open>shared/news_classifier.py\<close>: news are sorted into categories by the keywords they contain. A
  category scores the number of its keywords in the text times the absolute value of its base
  score; the first category with the highest score wins. The table of categories is the one of
  the code, its texts in UTF-8. The index of keywords, which nothing reads, and the formatting for
  the log are left out.
\<close>

section \<open>Categories\<close>

record category_info =
  ci_keywords :: "string list"
  ci_sentiment :: string
  ci_base :: int
  ci_benefit :: "int option"
  ci_duration :: "int option"
  ci_confidence :: "string option"
  ci_description :: string

definition category_of ::
  "string list \<Rightarrow> string \<Rightarrow> int \<Rightarrow> (int \<times> int \<times> string) option \<Rightarrow> string \<Rightarrow> category_info" where
  "category_of keywords sentiment base effect description =
     \<lparr>ci_keywords = keywords, ci_sentiment = sentiment, ci_base = base, ci_benefit = map_option fst effect,
      ci_duration = map_option (fst \<circ> snd) effect, ci_confidence = map_option (snd \<circ> snd) effect,
      ci_description = description\<rparr>"

definition good_earnings :: string where
  "good_earnings = [CHR 0xEC, CHR 0x8B, CHR 0xA4, CHR 0xEC, CHR 0xA0, CHR 0x81, CHR 0xED, CHR 0x98, CHR 0xB8, CHR 0xEC, CHR 0x9E, CHR 0xAC]"

definition good_earnings_info :: category_info where
  "good_earnings_info = category_of
     [[CHR 0xEC, CHR 0x8B, CHR 0xA4, CHR 0xEC, CHR 0xA0, CHR 0x81], [CHR 0xEC, CHR 0x96, CHR 0xB4, CHR 0xEB, CHR 0x8B, CHR 0x9D], [CHR 0xEB, CHR 0xA7, CHR 0xA4, CHR 0xEC, CHR 0xB6, CHR 0x9C], [CHR 0xEC, CHR 0x98, CHR 0x81, CHR 0xEC, CHR 0x97, CHR 0x85, CHR 0xEC, CHR 0x9D, CHR 0xB4, CHR 0xEC, CHR 0x9D, CHR 0xB5], [CHR 0xEC, CHR 0x88, CHR 0x9C, CHR 0xEC, CHR 0x9D, CHR 0xB4, CHR 0xEC, CHR 0x9D, CHR 0xB5], [CHR 0xED, CHR 0x98, CHR 0xB8, CHR 0xEC, CHR 0x8B, CHR 0xA4, CHR 0xEC, CHR 0xA0, CHR 0x81], [CHR 0xEC, CHR 0x84, CHR 0x9C, CHR 0xED, CHR 0x94, CHR 0x84, CHR 0xEB, CHR 0x9D, CHR 0xBC, CHR 0xEC, CHR 0x9D, CHR 0xB4, CHR 0xEC, CHR 0xA6, CHR 0x88], [CHR 0xED, CHR 0x9D, CHR 0x91, CHR 0xEC, CHR 0x9E, CHR 0x90, CHR 0xEC, CHR 0xA0, CHR 0x84, CHR 0xED, CHR 0x99, CHR 0x98], [CHR 0xEC, CHR 0xB5, CHR 0x9C, CHR 0xEB, CHR 0x8C, CHR 0x80, CHR 0xEC, CHR 0x8B, CHR 0xA4, CHR 0xEC, CHR 0xA0, CHR 0x81], [CHR 0xEC, CHR 0x82, CHR 0xAC, CHR 0xEC, CHR 0x83, CHR 0x81, CHR 0xEC, CHR 0xB5, CHR 0x9C, CHR 0xEB, CHR 0x8C, CHR 0x80], [CHR 0xEC, CHR 0x98, CHR 0x88, CHR 0xEC, CHR 0x83, CHR 0x81, CHR 0xEC, CHR 0xB9, CHR 0x98, CHR 0x20, CHR 0xEC, CHR 0x83, CHR 0x81, CHR 0xED, CHR 0x9A, CHR 0x8C]]
     ''POSITIVE'' 15 None [CHR 0xEC, CHR 0x8B, CHR 0xA4, CHR 0xEC, CHR 0xA0, CHR 0x81, CHR 0x20, CHR 0xEA, CHR 0xB4, CHR 0x80, CHR 0xEB, CHR 0xA0, CHR 0xA8, CHR 0x20, CHR 0xED, CHR 0x98, CHR 0xB8, CHR 0xEC, CHR 0x9E, CHR 0xAC]"

definition orders_won :: string where
  "orders_won = [CHR 0xEC, CHR 0x88, CHR 0x98, CHR 0xEC, CHR 0xA3, CHR 0xBC]"

definition orders_won_info :: category_info where
  "orders_won_info = category_of
     [[CHR 0xEC, CHR 0x88, CHR 0x98, CHR 0xEC, CHR 0xA3, CHR 0xBC], [CHR 0xEA, CHR 0xB3, CHR 0x84, CHR 0xEC, CHR 0x95, CHR 0xBD], [CHR 0xEA, CHR 0xB3, CHR 0xB5, CHR 0xEA, CHR 0xB8, CHR 0x89, CHR 0xEA, CHR 0xB3, CHR 0x84, CHR 0xEC, CHR 0x95, CHR 0xBD], [CHR 0xEB, CHR 0x82, CHR 0xA9, CHR 0xED, CHR 0x92, CHR 0x88], [CHR 0xED, CHR 0x98, CHR 0x91, CHR 0xEB, CHR 0xA0, CHR 0xA5], [CHR 0xED, CHR 0x8C, CHR 0x8C, CHR 0xED, CHR 0x8A, CHR 0xB8, CHR 0xEB, CHR 0x84, CHR 0x88, CHR 0xEC, CHR 0x8B, CHR 0xAD], ''MOU'', [CHR 0xEC, CHR 0x96, CHR 0x91, CHR 0xED, CHR 0x95, CHR 0xB4, CHR 0xEA, CHR 0xB0, CHR 0x81, CHR 0xEC, CHR 0x84, CHR 0x9C]]
     ''POSITIVE'' 12 None [CHR 0xEC, CHR 0x88, CHR 0x98, CHR 0xEC, CHR 0xA3, CHR 0xBC, CHR 0x20, CHR 0xEB, CHR 0xB0, CHR 0x8F, CHR 0x20, CHR 0xEA, CHR 0xB3, CHR 0x84, CHR 0xEC, CHR 0x95, CHR 0xBD, CHR 0x20, CHR 0xEC, CHR 0xB2, CHR 0xB4, CHR 0xEA, CHR 0xB2, CHR 0xB0]"

definition new_business :: string where
  "new_business = [CHR 0xEC, CHR 0x8B, CHR 0xA0, CHR 0xEC, CHR 0x82, CHR 0xAC, CHR 0xEC, CHR 0x97, CHR 0x85]"

definition new_business_info :: category_info where
  "new_business_info = category_of
     [[CHR 0xEC, CHR 0x8B, CHR 0xA0, CHR 0xEC, CHR 0x82, CHR 0xAC, CHR 0xEC, CHR 0x97, CHR 0x85], [CHR 0xEC, CHR 0xA7, CHR 0x84, CHR 0xEC, CHR 0xB6, CHR 0x9C], [CHR 0xED, CHR 0x99, CHR 0x95, CHR 0xEC, CHR 0x9E, CHR 0xA5], [CHR 0xED, CHR 0x88, CHR 0xAC, CHR 0xEC, CHR 0x9E, CHR 0x90], [CHR 0xEC, CHR 0x84, CHR 0xA4, CHR 0xEB, CHR 0xB9, CHR 0x84, CHR 0xED, CHR 0x88, CHR 0xAC, CHR 0xEC, CHR 0x9E, CHR 0x90], ''CAPEX'', [CHR 0xEC, CHR 0x8B, CHR 0xA0, CHR 0xEA, CHR 0xB7, CHR 0x9C], [CHR 0xEC, CHR 0x82, CHR 0xAC, CHR 0xEC, CHR 0x97, CHR 0x85, CHR 0xEB, CHR 0x8B, CHR 0xA4, CHR 0xEA, CHR 0xB0, CHR 0x81, CHR 0xED, CHR 0x99, CHR 0x94]]
     ''POSITIVE'' 10 None [CHR 0xEC, CHR 0x8B, CHR 0xA0, CHR 0xEC, CHR 0x82, CHR 0xAC, CHR 0xEC, CHR 0x97, CHR 0x85, CHR 0x20, CHR 0xEC, CHR 0xA7, CHR 0x84, CHR 0xEC, CHR 0xB6, CHR 0x9C, CHR 0x20, CHR 0xEB, CHR 0xB0, CHR 0x8F, CHR 0x20, CHR 0xED, CHR 0x88, CHR 0xAC, CHR 0xEC, CHR 0x9E, CHR 0x90]"

definition mergers :: string where
  "mergers = ''M&A''"

definition mergers_info :: category_info where
  "mergers_info = category_of
     [[CHR 0xEC, CHR 0x9D, CHR 0xB8, CHR 0xEC, CHR 0x88, CHR 0x98], [CHR 0xED, CHR 0x95, CHR 0xA9, CHR 0xEB, CHR 0xB3, CHR 0x91], [CHR 0xEB, CHR 0xA7, CHR 0xA4, CHR 0xEA, CHR 0xB0, CHR 0x81], ''M&A'', [CHR 0xEC, CHR 0xA7, CHR 0x80, CHR 0xEB, CHR 0xB6, CHR 0x84, CHR 0xEC, CHR 0x9D, CHR 0xB8, CHR 0xEC, CHR 0x88, CHR 0x98], [CHR 0xEA, CHR 0xB2, CHR 0xBD, CHR 0xEC, CHR 0x98, CHR 0x81, CHR 0xEA, CHR 0xB6, CHR 0x8C], [CHR 0xEA, CHR 0xB3, CHR 0xB5, CHR 0xEA, CHR 0xB0, CHR 0x9C, CHR 0xEB, CHR 0xA7, CHR 0xA4, CHR 0xEC, CHR 0x88, CHR 0x98]]
     ''MIXED'' 8 None [CHR 0xEC, CHR 0x9D, CHR 0xB8, CHR 0xEC, CHR 0x88, CHR 0x98, CHR 0xED, CHR 0x95, CHR 0xA9, CHR 0xEB, CHR 0xB3, CHR 0x91, CHR 0x20, CHR 0xEA, CHR 0xB4, CHR 0x80, CHR 0xEB, CHR 0xA0, CHR 0xA8]"

definition dividends :: string where
  "dividends = [CHR 0xEB, CHR 0xB0, CHR 0xB0, CHR 0xEB, CHR 0x8B, CHR 0xB9]"

definition dividends_info :: category_info where
  "dividends_info = category_of
     [[CHR 0xEB, CHR 0xB0, CHR 0xB0, CHR 0xEB, CHR 0x8B, CHR 0xB9], [CHR 0xEC, CHR 0xA3, CHR 0xBC, CHR 0xEC, CHR 0xA3, CHR 0xBC, CHR 0xED, CHR 0x99, CHR 0x98, CHR 0xEC, CHR 0x9B, CHR 0x90], [CHR 0xEC, CHR 0x9E, CHR 0x90, CHR 0xEC, CHR 0x82, CHR 0xAC, CHR 0xEC, CHR 0xA3, CHR 0xBC], [CHR 0xEC, CHR 0x86, CHR 0x8C, CHR 0xEA, CHR 0xB0, CHR 0x81], [CHR 0xEB, CHR 0xB0, CHR 0xB0, CHR 0xEB, CHR 0x8B, CHR 0xB9, CHR 0xEA, CHR 0xB8, CHR 0x88], [CHR 0xEC, CHR 0xA4, CHR 0x91, CHR 0xEA, CHR 0xB0, CHR 0x84, CHR 0xEB, CHR 0xB0, CHR 0xB0, CHR 0xEB, CHR 0x8B, CHR 0xB9], [CHR 0xED, CHR 0x8A, CHR 0xB9, CHR 0xEB, CHR 0xB3, CHR 0x84, CHR 0xEB, CHR 0xB0, CHR 0xB0, CHR 0xEB, CHR 0x8B, CHR 0xB9]]
     ''POSITIVE'' 10 None [CHR 0xEB, CHR 0xB0, CHR 0xB0, CHR 0xEB, CHR 0x8B, CHR 0xB9, CHR 0x20, CHR 0xEB, CHR 0xB0, CHR 0x8F, CHR 0x20, CHR 0xEC, CHR 0xA3, CHR 0xBC, CHR 0xEC, CHR 0xA3, CHR 0xBC, CHR 0xED, CHR 0x99, CHR 0x98, CHR 0xEC, CHR 0x9B, CHR 0x90]"

definition innovation :: string where
  "innovation = [CHR 0xEA, CHR 0xB8, CHR 0xB0, CHR 0xEC, CHR 0x88, CHR 0xA0, CHR 0xED, CHR 0x98, CHR 0x81, CHR 0xEC, CHR 0x8B, CHR 0xA0]"

definition innovation_info :: category_info where
  "innovation_info = category_of
     [[CHR 0xED, CHR 0x8A, CHR 0xB9, CHR 0xED, CHR 0x97, CHR 0x88], [CHR 0xEA, CHR 0xB8, CHR 0xB0, CHR 0xEC, CHR 0x88, CHR 0xA0, CHR 0xEA, CHR 0xB0, CHR 0x9C, CHR 0xEB, CHR 0xB0, CHR 0x9C], [CHR 0xEC, CHR 0x8B, CHR 0xA0, CHR 0xEA, CHR 0xB8, CHR 0xB0, CHR 0xEC, CHR 0x88, CHR 0xA0], [CHR 0xED, CHR 0x98, CHR 0x81, CHR 0xEC, CHR 0x8B, CHR 0xA0], ''R&D'', [CHR 0xEC, CHR 0x97, CHR 0xB0, CHR 0xEA, CHR 0xB5, CHR 0xAC, CHR 0xEA, CHR 0xB0, CHR 0x9C, CHR 0xEB, CHR 0xB0, CHR 0x9C], [CHR 0xEC, CHR 0x8B, CHR 0xA0, CHR 0xEC, CHR 0xA0, CHR 0x9C, CHR 0xED, CHR 0x92, CHR 0x88], [CHR 0xEC, CHR 0xB6, CHR 0x9C, CHR 0xEC, CHR 0x8B, CHR 0x9C]]
     ''POSITIVE'' 8 None [CHR 0xEA, CHR 0xB8, CHR 0xB0, CHR 0xEC, CHR 0x88, CHR 0xA0, CHR 0x20, CHR 0xED, CHR 0x98, CHR 0x81, CHR 0xEC, CHR 0x8B, CHR 0xA0, CHR 0x20, CHR 0xEB, CHR 0xB0, CHR 0x8F, CHR 0x20, CHR 0xED, CHR 0x8A, CHR 0xB9, CHR 0xED, CHR 0x97, CHR 0x88]"

definition security_incident :: string where
  "security_incident = [CHR 0xEB, CHR 0xB3, CHR 0xB4, CHR 0xEC, CHR 0x95, CHR 0x88, CHR 0xEC, CHR 0x82, CHR 0xAC, CHR 0xEA, CHR 0xB3, CHR 0xA0]"

definition security_incident_info :: category_info where
  "security_incident_info = category_of
     [[CHR 0xED, CHR 0x95, CHR 0xB4, CHR 0xED, CHR 0x82, CHR 0xB9], [CHR 0xEC, CHR 0x9C, CHR 0xA0, CHR 0xEC, CHR 0xB6, CHR 0x9C], [CHR 0xEA, CHR 0xB0, CHR 0x9C, CHR 0xEC, CHR 0x9D, CHR 0xB8, CHR 0xEC, CHR 0xA0, CHR 0x95, CHR 0xEB, CHR 0xB3, CHR 0xB4], [CHR 0xEB, CHR 0xB3, CHR 0xB4, CHR 0xEC, CHR 0x95, CHR 0x88], [CHR 0xEC, CHR 0xB9, CHR 0xA8, CHR 0xED, CHR 0x95, CHR 0xB4], [CHR 0xEB, CHR 0x9E, CHR 0x9C, CHR 0xEC, CHR 0x84, CHR 0xAC, CHR 0xEC, CHR 0x9B, CHR 0xA8, CHR 0xEC, CHR 0x96, CHR 0xB4], [CHR 0xEC, CHR 0x82, CHR 0xAC, CHR 0xEC, CHR 0x9D, CHR 0xB4, CHR 0xEB, CHR 0xB2, CHR 0x84, CHR 0xEA, CHR 0xB3, CHR 0xB5, CHR 0xEA, CHR 0xB2, CHR 0xA9], [CHR 0xEB, CHR 0x8D, CHR 0xB0, CHR 0xEC, CHR 0x9D, CHR 0xB4, CHR 0xED, CHR 0x84, CHR 0xB0, CHR 0xEC, CHR 0x9C, CHR 0xA0, CHR 0xEC, CHR 0xB6, CHR 0x9C], [CHR 0xEC, CHR 0xA0, CHR 0x95, CHR 0xEB, CHR 0xB3, CHR 0xB4, CHR 0xEC, CHR 0x9C, CHR 0xA0, CHR 0xEC, CHR 0xB6, CHR 0x9C], [CHR 0xED, CHR 0x95, CHR 0xB4, CHR 0xEC, CHR 0xBB, CHR 0xA4], [CHR 0xEB, CHR 0xB3, CHR 0xB4, CHR 0xEC, CHR 0x95, CHR 0x88, CHR 0xEC, CHR 0x82, CHR 0xAC, CHR 0xEA, CHR 0xB3, CHR 0xA0]]
     ''NEGATIVE'' (- 15) (Some (10, 20, ''HIGH'')) [CHR 0xEA, CHR 0xB0, CHR 0x9C, CHR 0xEC, CHR 0x9D, CHR 0xB8, CHR 0xEC, CHR 0xA0, CHR 0x95, CHR 0xEB, CHR 0xB3, CHR 0xB4, CHR 0x20, CHR 0xEC, CHR 0x9C, CHR 0xA0, CHR 0xEC, CHR 0xB6, CHR 0x9C, CHR 0x2C, CHR 0x20, CHR 0xED, CHR 0x95, CHR 0xB4, CHR 0xED, CHR 0x82, CHR 0xB9, CHR 0x20, CHR 0xEB, CHR 0x93, CHR 0xB1, CHR 0x20, CHR 0xEB, CHR 0xB3, CHR 0xB4, CHR 0xEC, CHR 0x95, CHR 0x88, CHR 0xEC, CHR 0x82, CHR 0xAC, CHR 0xEA, CHR 0xB3, CHR 0xA0]"

definition service_outage :: string where
  "service_outage = [CHR 0xEC, CHR 0x84, CHR 0x9C, CHR 0xEB, CHR 0xB9, CHR 0x84, CHR 0xEC, CHR 0x8A, CHR 0xA4, CHR 0xEC, CHR 0x9E, CHR 0xA5, CHR 0xEC, CHR 0x95, CHR 0xA0]"

definition service_outage_info :: category_info where
  "service_outage_info = category_of
     [[CHR 0xEC, CHR 0x9E, CHR 0xA5, CHR 0xEC, CHR 0x95, CHR 0xA0], [CHR 0xEB, CHR 0xA8, CHR 0xB9, CHR 0xED, CHR 0x86, CHR 0xB5], [CHR 0xEC, CHR 0xA0, CHR 0x91, CHR 0xEC, CHR 0x86, CHR 0x8D, CHR 0xEB, CHR 0xB6, CHR 0x88, CHR 0xEA, CHR 0xB0, CHR 0x80], [CHR 0xEC, CHR 0x84, CHR 0x9C, CHR 0xEB, CHR 0xB2, CHR 0x84, CHR 0xEB, CHR 0x8B, CHR 0xA4, CHR 0xEC, CHR 0x9A, CHR 0xB4], [CHR 0xEC, CHR 0x8B, CHR 0x9C, CHR 0xEC, CHR 0x8A, CHR 0xA4, CHR 0xED, CHR 0x85, CHR 0x9C, CHR 0xEC, CHR 0x98, CHR 0xA4, CHR 0xEB, CHR 0xA5, CHR 0x98], [CHR 0xEC, CHR 0x84, CHR 0x9C, CHR 0xEB, CHR 0xB9, CHR 0x84, CHR 0xEC, CHR 0x8A, CHR 0xA4, CHR 0xEC, CHR 0xA4, CHR 0x91, CHR 0xEB, CHR 0x8B, CHR 0xA8], [CHR 0xEC, CHR 0xA0, CHR 0x91, CHR 0xEC, CHR 0x86, CHR 0x8D, CHR 0xEC, CHR 0x9E, CHR 0xA5, CHR 0xEC, CHR 0x95, CHR 0xA0], [CHR 0xEC, CHR 0x8B, CHR 0x9C, CHR 0xEC, CHR 0x8A, CHR 0xA4, CHR 0xED, CHR 0x85, CHR 0x9C, CHR 0xEC, CHR 0x9E, CHR 0xA5, CHR 0xEC, CHR 0x95, CHR 0xA0], [CHR 0xEC, CHR 0x84, CHR 0x9C, CHR 0xEB, CHR 0xB9, CHR 0x84, CHR 0xEC, CHR 0x8A, CHR 0xA4, CHR 0xEC, CHR 0x9E, CHR 0xA5, CHR 0xEC, CHR 0x95, CHR 0xA0]]
     ''NEGATIVE'' (- 10) (Some (8, 7, ''HIGH'')) [CHR 0xEC, CHR 0x84, CHR 0x9C, CHR 0xEB, CHR 0xB9, CHR 0x84, CHR 0xEC, CHR 0x8A, CHR 0xA4, CHR 0x20, CHR 0xEC, CHR 0x9E, CHR 0xA5, CHR 0xEC, CHR 0x95, CHR 0xA0, CHR 0x20, CHR 0xEB, CHR 0xB0, CHR 0x8F, CHR 0x20, CHR 0xEC, CHR 0x8B, CHR 0x9C, CHR 0xEC, CHR 0x8A, CHR 0xA4, CHR 0xED, CHR 0x85, CHR 0x9C, CHR 0x20, CHR 0xEC, CHR 0x98, CHR 0xA4, CHR 0xEB, CHR 0xA5, CHR 0x98]"

definition recall :: string where
  "recall = [CHR 0xEB, CHR 0xA6, CHR 0xAC, CHR 0xEC, CHR 0xBD, CHR 0x9C]"

definition recall_info :: category_info where
  "recall_info = category_of
     [[CHR 0xEB, CHR 0xA6, CHR 0xAC, CHR 0xEC, CHR 0xBD, CHR 0x9C], [CHR 0xEA, CHR 0xB2, CHR 0xB0, CHR 0xED, CHR 0x95, CHR 0xA8], [CHR 0xEB, CHR 0xB6, CHR 0x88, CHR 0xEB, CHR 0x9F, CHR 0x89], [CHR 0xED, CHR 0x9A, CHR 0x8C, CHR 0xEC, CHR 0x88, CHR 0x98], [CHR 0xED, CHR 0x92, CHR 0x88, CHR 0xEC, CHR 0xA7, CHR 0x88, CHR 0xEB, CHR 0xAC, CHR 0xB8, CHR 0xEC, CHR 0xA0, CHR 0x9C], [CHR 0xED, CHR 0x99, CHR 0x94, CHR 0xEC, CHR 0x9E, CHR 0xAC], [CHR 0xEB, CHR 0xB0, CHR 0x9C, CHR 0xED, CHR 0x99, CHR 0x94], [CHR 0xEC, CHR 0x95, CHR 0x88, CHR 0xEC, CHR 0xA0, CHR 0x84, CHR 0xEB, CHR 0xAC, CHR 0xB8, CHR 0xEC, CHR 0xA0, CHR 0x9C], [CHR 0xEC, CHR 0x9E, CHR 0x90, CHR 0xEB, CHR 0xB0, CHR 0x9C, CHR 0xEC, CHR 0xA0, CHR 0x81, CHR 0x20, CHR 0xEB, CHR 0xA6, CHR 0xAC, CHR 0xEC, CHR 0xBD, CHR 0x9C], [CHR 0xEA, CHR 0xB0, CHR 0x95, CHR 0xEC, CHR 0xA0, CHR 0x9C, CHR 0x20, CHR 0xEB, CHR 0xA6, CHR 0xAC, CHR 0xEC, CHR 0xBD, CHR 0x9C]]
     ''NEGATIVE'' (- 12) (Some (7, 30, ''MEDIUM'')) [CHR 0xEB, CHR 0x8C, CHR 0x80, CHR 0xEA, CHR 0xB7, CHR 0x9C, CHR 0xEB, CHR 0xAA, CHR 0xA8, CHR 0x20, CHR 0xEB, CHR 0xA6, CHR 0xAC, CHR 0xEC, CHR 0xBD, CHR 0x9C, CHR 0x20, CHR 0xEB, CHR 0xB0, CHR 0x8F, CHR 0x20, CHR 0xED, CHR 0x92, CHR 0x88, CHR 0xEC, CHR 0xA7, CHR 0x88, CHR 0x20, CHR 0xEB, CHR 0xAC, CHR 0xB8, CHR 0xEC, CHR 0xA0, CHR 0x9C]"

definition owner_risk :: string where
  "owner_risk = [CHR 0xEC, CHR 0x98, CHR 0xA4, CHR 0xEB, CHR 0x84, CHR 0x88, CHR 0xEB, CHR 0xA6, CHR 0xAC, CHR 0xEC, CHR 0x8A, CHR 0xA4, CHR 0xED, CHR 0x81, CHR 0xAC]"

definition owner_risk_info :: category_info where
  "owner_risk_info = category_of
     [[CHR 0xEA, CHR 0xB5, CHR 0xAC, CHR 0xEC, CHR 0x86, CHR 0x8D], [CHR 0xEA, CHR 0xB8, CHR 0xB0, CHR 0xEC, CHR 0x86, CHR 0x8C], [CHR 0xED, CHR 0x9A, CHR 0xA1, CHR 0xEB, CHR 0xA0, CHR 0xB9], [CHR 0xEB, CHR 0xB0, CHR 0xB0, CHR 0xEC, CHR 0x9E, CHR 0x84], [CHR 0xEC, CHR 0x88, CHR 0x98, CHR 0xEC, CHR 0x82, CHR 0xAC], [CHR 0xEA, CHR 0xB2, CHR 0x80, CHR 0xEC, CHR 0xB0, CHR 0xB0], [CHR 0xEC, CHR 0xB2, CHR 0xB4, CHR 0xED, CHR 0x8F, CHR 0xAC], [CHR 0xEC, CHR 0x9E, CHR 0xAC, CHR 0xED, CHR 0x8C, CHR 0x90], [CHR 0xEA, CHR 0xB2, CHR 0xBD, CHR 0xEC, CHR 0x98, CHR 0x81, CHR 0xEB, CHR 0xB9, CHR 0x84, CHR 0xEB, CHR 0xA6, CHR 0xAC], [CHR 0xED, CHR 0x83, CHR 0x88, CHR 0xEC, CHR 0x84, CHR 0xB8], [CHR 0xEB, CHR 0x87, CHR 0x8C, CHR 0xEB, CHR 0xAC, CHR 0xBC], [CHR 0xEB, CHR 0xB6, CHR 0x80, CHR 0xEB, CHR 0x8B, CHR 0xB9, CHR 0xEA, CHR 0xB1, CHR 0xB0, CHR 0xEB, CHR 0x9E, CHR 0x98]]
     ''NEGATIVE'' (- 12) (Some (3, 60, ''LOW'')) [CHR 0xEC, CHR 0x98, CHR 0xA4, CHR 0xEB, CHR 0x84, CHR 0x88, CHR 0x2F, CHR 0xEA, CHR 0xB2, CHR 0xBD, CHR 0xEC, CHR 0x98, CHR 0x81, CHR 0xEC, CHR 0xA7, CHR 0x84, CHR 0x20, CHR 0xEB, CHR 0xA6, CHR 0xAC, CHR 0xEC, CHR 0x8A, CHR 0xA4, CHR 0xED, CHR 0x81, CHR 0xAC]"

definition regulation :: string where
  "regulation = [CHR 0xEA, CHR 0xB7, CHR 0x9C, CHR 0xEC, CHR 0xA0, CHR 0x9C]"

definition regulation_info :: category_info where
  "regulation_info = category_of
     [[CHR 0xEA, CHR 0xB3, CHR 0xBC, CHR 0xEC, CHR 0xA7, CHR 0x95, CHR 0xEA, CHR 0xB8, CHR 0x88], [CHR 0xEC, CHR 0xA0, CHR 0x9C, CHR 0xEC, CHR 0x9E, CHR 0xAC], [CHR 0xEA, CHR 0xB7, CHR 0x9C, CHR 0xEC, CHR 0xA0, CHR 0x9C], [CHR 0xEA, CHR 0xB3, CHR 0xB5, CHR 0xEC, CHR 0xA0, CHR 0x95, CHR 0xEC, CHR 0x9C, CHR 0x84], [CHR 0xEC, CHR 0x8B, CHR 0x9C, CHR 0xEC, CHR 0xA0, CHR 0x95, CHR 0xEB, CHR 0xAA, CHR 0x85, CHR 0xEB, CHR 0xA0, CHR 0xB9], [CHR 0xEB, CHR 0x8F, CHR 0x85, CHR 0xEC, CHR 0xA0, CHR 0x90], [CHR 0xEB, CHR 0x8B, CHR 0xB4, CHR 0xED, CHR 0x95, CHR 0xA9], [CHR 0xEA, CHR 0xB8, CHR 0x88, CHR 0xEC, CHR 0x9C, CHR 0xB5, CHR 0xEC, CHR 0x9C, CHR 0x84], [CHR 0xEB, CHR 0xB2, CHR 0x8C, CHR 0xEA, CHR 0xB8, CHR 0x88], [CHR 0xED, CHR 0x96, CHR 0x89, CHR 0xEC, CHR 0xA0, CHR 0x95, CHR 0xEC, CHR 0xB2, CHR 0x98, CHR 0xEB, CHR 0xB6, CHR 0x84], [CHR 0xEC, CHR 0x98, CHR 0x81, CHR 0xEC, CHR 0x97, CHR 0x85, CHR 0xEC, CHR 0xA0, CHR 0x95, CHR 0xEC, CHR 0xA7, CHR 0x80]]
     ''NEGATIVE'' (- 8) (Some (5, 30, ''MEDIUM'')) [CHR 0xEA, CHR 0xB7, CHR 0x9C, CHR 0xEC, CHR 0xA0, CHR 0x9C, CHR 0x20, CHR 0xEB, CHR 0xB0, CHR 0x8F, CHR 0x20, CHR 0xEA, CHR 0xB3, CHR 0xBC, CHR 0xEC, CHR 0xA7, CHR 0x95, CHR 0xEA, CHR 0xB8, CHR 0x88]"

definition bad_earnings :: string where
  "bad_earnings = [CHR 0xEC, CHR 0x8B, CHR 0xA4, CHR 0xEC, CHR 0xA0, CHR 0x81, CHR 0xEC, CHR 0x95, CHR 0x85, CHR 0xED, CHR 0x99, CHR 0x94]"

definition bad_earnings_info :: category_info where
  "bad_earnings_info = category_of
     [[CHR 0xEC, CHR 0x96, CHR 0xB4, CHR 0xEB, CHR 0x8B, CHR 0x9D, CHR 0xEC, CHR 0x87, CHR 0xBC, CHR 0xED, CHR 0x81, CHR 0xAC], [CHR 0xEC, CHR 0x8B, CHR 0xA4, CHR 0xEC, CHR 0xA0, CHR 0x81, CHR 0xEC, CHR 0x95, CHR 0x85, CHR 0xED, CHR 0x99, CHR 0x94], [CHR 0xEC, CHR 0xA0, CHR 0x81, CHR 0xEC, CHR 0x9E, CHR 0x90, CHR 0xEC, CHR 0xA0, CHR 0x84, CHR 0xED, CHR 0x99, CHR 0x98], [CHR 0xEB, CHR 0xA7, CHR 0xA4, CHR 0xEC, CHR 0xB6, CHR 0x9C, CHR 0xEA, CHR 0xB8, CHR 0x89, CHR 0xEA, CHR 0xB0, CHR 0x90], [CHR 0xEC, CHR 0x98, CHR 0x81, CHR 0xEC, CHR 0x97, CHR 0x85, CHR 0xEC, CHR 0x86, CHR 0x90, CHR 0xEC, CHR 0x8B, CHR 0xA4], [CHR 0xEC, CHR 0xA0, CHR 0x81, CHR 0xEC, CHR 0x9E, CHR 0x90], [CHR 0xEB, CHR 0xB6, CHR 0x80, CHR 0xEC, CHR 0xA7, CHR 0x84], [CHR 0xEC, CHR 0x98, CHR 0x88, CHR 0xEC, CHR 0x83, CHR 0x81, CHR 0xEC, CHR 0xB9, CHR 0x98, CHR 0x20, CHR 0xED, CHR 0x95, CHR 0x98, CHR 0xED, CHR 0x9A, CHR 0x8C], [CHR 0xEC, CHR 0x8B, CHR 0xA4, CHR 0xEC, CHR 0xA0, CHR 0x81, CHR 0xEB, CHR 0xB6, CHR 0x80, CHR 0xEC, CHR 0xA7, CHR 0x84]]
     ''NEGATIVE'' (- 10) (Some (4, 20, ''MEDIUM'')) [CHR 0xEC, CHR 0x8B, CHR 0xA4, CHR 0xEC, CHR 0xA0, CHR 0x81, CHR 0x20, CHR 0xEC, CHR 0x95, CHR 0x85, CHR 0xED, CHR 0x99, CHR 0x94, CHR 0x20, CHR 0xEB, CHR 0xB0, CHR 0x8F, CHR 0x20, CHR 0xEC, CHR 0x96, CHR 0xB4, CHR 0xEB, CHR 0x8B, CHR 0x9D, CHR 0xEC, CHR 0x87, CHR 0xBC, CHR 0xED, CHR 0x81, CHR 0xAC]"

definition labour_dispute :: string where
  "labour_dispute = [CHR 0xEB, CHR 0x85, CHR 0xB8, CHR 0xEC, CHR 0x82, CHR 0xAC, CHR 0xEB, CHR 0xB6, CHR 0x84, CHR 0xEC, CHR 0x9F, CHR 0x81]"

definition labour_dispute_info :: category_info where
  "labour_dispute_info = category_of
     [[CHR 0xED, CHR 0x8C, CHR 0x8C, CHR 0xEC, CHR 0x97, CHR 0x85], [CHR 0xEB, CHR 0x85, CHR 0xB8, CHR 0xEC, CHR 0xA1, CHR 0xB0], [CHR 0xEB, CHR 0x85, CHR 0xB8, CHR 0xEC, CHR 0x82, CHR 0xAC, CHR 0xEA, CHR 0xB0, CHR 0x88, CHR 0xEB, CHR 0x93, CHR 0xB1], [CHR 0xEC, CHR 0x9F, CHR 0x81, CHR 0xEC, CHR 0x9D, CHR 0x98], [CHR 0xED, CHR 0x83, CHR 0x9C, CHR 0xEC, CHR 0x97, CHR 0x85], [CHR 0xEB, CHR 0x8B, CHR 0xA8, CHR 0xEC, CHR 0xB2, CHR 0xB4, CHR 0xED, CHR 0x96, CHR 0x89, CHR 0xEB, CHR 0x8F, CHR 0x99], [CHR 0xED, CHR 0x98, CHR 0x91, CHR 0xEC, CHR 0x83, CHR 0x81, CHR 0xEA, CHR 0xB2, CHR 0xB0, CHR 0xEB, CHR 0xA0, CHR 0xAC]]
     ''NEGATIVE'' (- 7) (Some (5, 14, ''MEDIUM'')) [CHR 0xED, CHR 0x8C, CHR 0x8C, CHR 0xEC, CHR 0x97, CHR 0x85, CHR 0x20, CHR 0xEB, CHR 0xB0, CHR 0x8F, CHR 0x20, CHR 0xEB, CHR 0x85, CHR 0xB8, CHR 0xEC, CHR 0x82, CHR 0xAC, CHR 0x20, CHR 0xEB, CHR 0xB6, CHR 0x84, CHR 0xEC, CHR 0x9F, CHR 0x81]"

definition esg :: string where
  "esg = ''ESG''"

definition esg_info :: category_info where
  "esg_info = category_of
     [[CHR 0xED, CHR 0x99, CHR 0x98, CHR 0xEA, CHR 0xB2, CHR 0xBD, CHR 0xEC, CHR 0x98, CHR 0xA4, CHR 0xEC, CHR 0x97, CHR 0xBC], ''ESG'', [CHR 0xED, CHR 0x83, CHR 0x84, CHR 0xEC, CHR 0x86, CHR 0x8C, CHR 0xEB, CHR 0xB0, CHR 0xB0, CHR 0xEC, CHR 0xB6, CHR 0x9C], [CHR 0xED, CHR 0x8F, CHR 0x90, CHR 0xEC, CHR 0x88, CHR 0x98], [CHR 0xEC, CHR 0x9C, CHR 0xA0, CHR 0xED, CHR 0x95, CHR 0xB4, CHR 0xEB, CHR 0xAC, CHR 0xBC, CHR 0xEC, CHR 0xA7, CHR 0x88], [CHR 0xEA, CHR 0xB0, CHR 0x91, CHR 0xEC, CHR 0xA7, CHR 0x88], [CHR 0xEC, CHR 0xA7, CHR 0x81, CHR 0xEC, CHR 0x9E, CHR 0xA5, CHR 0xEB, CHR 0x82, CHR 0xB4, CHR 0xEA, CHR 0xB4, CHR 0xB4, CHR 0xEB, CHR 0xA1, CHR 0xAD, CHR 0xED, CHR 0x9E, CHR 0x98], [CHR 0xEC, CHR 0x82, CHR 0xB0, CHR 0xEC, CHR 0x97, CHR 0x85, CHR 0xEC, CHR 0x9E, CHR 0xAC, CHR 0xED, CHR 0x95, CHR 0xB4], [CHR 0xED, CHR 0x99, CHR 0x98, CHR 0xEA, CHR 0xB2, CHR 0xBD, CHR 0xEA, CHR 0xB7, CHR 0x9C, CHR 0xEC, CHR 0xA0, CHR 0x9C]]
     ''NEGATIVE'' (- 6) (Some (3, 30, ''LOW'')) [CHR 0x45, CHR 0x53, CHR 0x47, CHR 0x20, CHR 0xEB, CHR 0xB0, CHR 0x8F, CHR 0x20, CHR 0xED, CHR 0x99, CHR 0x98, CHR 0xEA, CHR 0xB2, CHR 0xBD, CHR 0x20, CHR 0xEC, CHR 0x9D, CHR 0xB4, CHR 0xEC, CHR 0x8A, CHR 0x88]"

definition macro_news :: string where
  "macro_news = [CHR 0xEC, CHR 0x8B, CHR 0x9C, CHR 0xED, CHR 0x99, CHR 0xA9]"

definition macro_news_info :: category_info where
  "macro_news_info = category_of
     [[CHR 0xEA, CHR 0xB8, CHR 0x88, CHR 0xEB, CHR 0xA6, CHR 0xAC], [CHR 0xED, CHR 0x99, CHR 0x98, CHR 0xEC, CHR 0x9C, CHR 0xA8], [CHR 0xEC, CHR 0x9C, CHR 0xA0, CHR 0xEA, CHR 0xB0, CHR 0x80], ''FOMC'', [CHR 0xEA, CHR 0xB8, CHR 0x88, CHR 0xED, CHR 0x86, CHR 0xB5, CHR 0xEC, CHR 0x9C, CHR 0x84], [CHR 0xEA, CHR 0xB8, CHR 0xB0, CHR 0xEC, CHR 0xA4, CHR 0x80, CHR 0xEA, CHR 0xB8, CHR 0x88, CHR 0xEB, CHR 0xA6, CHR 0xAC], [CHR 0xEC, CHR 0x9D, CHR 0xB8, CHR 0xED, CHR 0x94, CHR 0x8C, CHR 0xEB, CHR 0xA0, CHR 0x88, CHR 0xEC, CHR 0x9D, CHR 0xB4, CHR 0xEC, CHR 0x85, CHR 0x98], [CHR 0xEA, CHR 0xB2, CHR 0xBD, CHR 0xEA, CHR 0xB8, CHR 0xB0], [CHR 0xEA, CHR 0xB2, CHR 0xBD, CHR 0xEC, CHR 0xA0, CHR 0x9C, CHR 0xEC, CHR 0xA7, CHR 0x80, CHR 0xED, CHR 0x91, CHR 0x9C]]
     ''NEUTRAL'' 0 None [CHR 0xEC, CHR 0x9D, CHR 0xBC, CHR 0xEB, CHR 0xB0, CHR 0x98, CHR 0x20, CHR 0xEC, CHR 0x8B, CHR 0x9C, CHR 0xED, CHR 0x99, CHR 0xA9, CHR 0x20, CHR 0xEB, CHR 0xB0, CHR 0x8F, CHR 0x20, CHR 0xEA, CHR 0xB1, CHR 0xB0, CHR 0xEC, CHR 0x8B, CHR 0x9C, CHR 0xEA, CHR 0xB2, CHR 0xBD, CHR 0xEC, CHR 0xA0, CHR 0x9C]"

definition personnel :: string where
  "personnel = [CHR 0xEC, CHR 0x9D, CHR 0xB8, CHR 0xEC, CHR 0x82, CHR 0xAC]"

definition personnel_info :: category_info where
  "personnel_info = category_of
     [[CHR 0xEC, CHR 0x82, CHR 0xAC, CHR 0xEC, CHR 0x9E, CHR 0xA5], [CHR 0xEB, CHR 0x8C, CHR 0x80, CHR 0xED, CHR 0x91, CHR 0x9C, CHR 0xEC, CHR 0x9D, CHR 0xB4, CHR 0xEC, CHR 0x82, CHR 0xAC], [CHR 0xEC, CHR 0x9E, CHR 0x84, CHR 0xEC, CHR 0x9B, CHR 0x90], [CHR 0xEC, CHR 0x84, CHR 0xA0, CHR 0xEC, CHR 0x9E, CHR 0x84], [CHR 0xEC, CHR 0xB7, CHR 0xA8, CHR 0xEC, CHR 0x9E, CHR 0x84], [CHR 0xEC, CHR 0x9D, CHR 0xB8, CHR 0xEC, CHR 0x82, CHR 0xAC], ''CEO'', [CHR 0xEC, CHR 0x82, CHR 0xAC, CHR 0xEC, CHR 0x9E, CHR 0x84]]
     ''MIXED'' 0 None [CHR 0xEA, CHR 0xB2, CHR 0xBD, CHR 0xEC, CHR 0x98, CHR 0x81, CHR 0xEC, CHR 0xA7, CHR 0x84, CHR 0x20, CHR 0xEC, CHR 0x9D, CHR 0xB8, CHR 0xEC, CHR 0x82, CHR 0xAC, CHR 0x20, CHR 0xEA, CHR 0xB4, CHR 0x80, CHR 0xEB, CHR 0xA0, CHR 0xA8]"

definition NEWS_CATEGORIES :: "(string \<times> category_info) list" where
  "NEWS_CATEGORIES =
     [(good_earnings, good_earnings_info),
      (orders_won, orders_won_info),
      (new_business, new_business_info),
      (mergers, mergers_info),
      (dividends, dividends_info),
      (innovation, innovation_info),
      (security_incident, security_incident_info),
      (service_outage, service_outage_info),
      (recall, recall_info),
      (owner_risk, owner_risk_info),
      (regulation, regulation_info),
      (bad_earnings, bad_earnings_info),
      (labour_dispute, labour_dispute_info),
      (esg, esg_info),
      (macro_news, macro_news_info),
      (personnel, personnel_info)]"

section \<open>Classification\<close>

text \<open>\<open>p in t\<close>.\<close>

fun contains :: "string \<Rightarrow> string \<Rightarrow> bool" where
  "contains p [] = (p = [])"
| "contains p (c # t) = (take (length p) (c # t) = p \<or> contains p t)"

record classification =
  cl_category :: string
  cl_sentiment :: string
  cl_base :: int
  cl_benefit :: int
  cl_duration :: int
  cl_confidence :: string
  cl_keywords :: "string list"
  cl_description :: string

definition or_value :: "'a option \<Rightarrow> 'a \<Rightarrow> 'a" where
  "or_value x d = (case x of None \<Rightarrow> d | Some v \<Rightarrow> v)"

definition matched_keywords :: "string \<Rightarrow> category_info \<Rightarrow> string list" where
  "matched_keywords text info = filter (\<lambda>k. contains (to_lower k) (to_lower text)) (ci_keywords info)"

definition category_score :: "string \<Rightarrow> category_info \<Rightarrow> rat" where
  "category_score text info = of_nat (length (matched_keywords text info)) * of_int \<bar>ci_base info\<bar>"

definition category_scores :: "(string \<times> category_info) list \<Rightarrow> string \<Rightarrow> (string \<times> rat) list" where
  "category_scores cats text =
     map (\<lambda>p. (fst p, category_score text (snd p))) (filter (\<lambda>p. matched_keywords text (snd p) \<noteq> []) cats)"

definition classification_of :: "string \<Rightarrow> string \<Rightarrow> category_info \<Rightarrow> classification" where
  "classification_of text name info =
     \<lparr>cl_category = name, cl_sentiment = ci_sentiment info, cl_base = ci_base info, cl_benefit = or_value (ci_benefit info) 0,
      cl_duration = or_value (ci_duration info) 0, cl_confidence = or_value (ci_confidence info) ''MEDIUM'',
      cl_keywords = matched_keywords text info, cl_description = ci_description info\<rparr>"

definition classify :: "(string \<times> category_info) list \<Rightarrow> string \<Rightarrow> classification option" where
  "classify cats text =
     (if text = [] then None
      else case dict_argmax (category_scores cats text) of
        None \<Rightarrow> None
      | Some name \<Rightarrow> map_option (classification_of text name) (map_of cats name))"

definition classify_batch :: "(string \<times> category_info) list \<Rightarrow> string list \<Rightarrow> classification option list" where
  "classify_batch cats texts = map (classify cats) texts"

definition is_negative_event :: "(string \<times> category_info) list \<Rightarrow> string \<Rightarrow> bool" where
  "is_negative_event cats text = (case classify cats text of None \<Rightarrow> False | Some c \<Rightarrow> cl_sentiment c = ''NEGATIVE'')"

definition is_competitor_benefit_event :: "(string \<times> category_info) list \<Rightarrow> string \<Rightarrow> bool" where
  "is_competitor_benefit_event cats text = (case classify cats text of None \<Rightarrow> False | Some c \<Rightarrow> 0 < cl_benefit c)"

definition competitor_benefit_of_text :: "(string \<times> category_info) list \<Rightarrow> string \<Rightarrow> int" where
  "competitor_benefit_of_text cats text = (case classify cats text of None \<Rightarrow> 0 | Some c \<Rightarrow> cl_benefit c)"

definition extract_negative_events :: "(string \<times> category_info) list \<Rightarrow> string list \<Rightarrow> (string \<times> classification) list" where
  "extract_negative_events cats texts =
     concat (map (\<lambda>t. case classify cats t of
       None \<Rightarrow> [] | Some c \<Rightarrow> if cl_sentiment c = ''NEGATIVE'' then [(t, c)] else []) texts)"

definition get_negative_categories :: "string list" where
  "get_negative_categories = map fst (filter (\<lambda>p. ci_sentiment (snd p) = ''NEGATIVE'') NEWS_CATEGORIES)"

definition get_competitor_benefit_categories :: "string list" where
  "get_competitor_benefit_categories = map fst (filter (\<lambda>p. 0 < or_value (ci_benefit (snd p)) 0) NEWS_CATEGORIES)"

definition get_category_info :: "string \<Rightarrow> category_info option" where
  "get_category_info = map_of NEWS_CATEGORIES"

definition other_category :: string where
  "other_category = [CHR 0xEA, CHR 0xB8, CHR 0xB0, CHR 0xED, CHR 0x83, CHR 0x80]"

definition classify_news_category :: "string \<Rightarrow> string \<Rightarrow> string" where
  "classify_news_category title summary =
     (case classify NEWS_CATEGORIES (py_strip (title @ '' '' @ summary)) of
        None \<Rightarrow> other_category | Some c \<Rightarrow> cl_category c)"

definition get_event_severity :: "string \<Rightarrow> int" where
  "get_event_severity category =
     (case get_category_info category of
        None \<Rightarrow> 0 | Some info \<Rightarrow> if ci_sentiment info = ''NEGATIVE'' then ci_base info else 0)"

definition get_competitor_benefit :: "string \<Rightarrow> int" where
  "get_competitor_benefit category =
     (case get_category_info category of None \<Rightarrow> 0 | Some info \<Rightarrow> or_value (ci_benefit info) 0)"

section \<open>Lemmas\<close>

lemma contains_append: "contains p t \<Longrightarrow> contains p (s @ t)"
  by (induction s) auto

lemma contains_iff: "contains p t \<longleftrightarrow> (\<exists>a b. t = a @ p @ b)"
proof (induction t)
  case (Cons c t)
  show ?case
  proof
    assume "contains p (c # t)"
    then consider "take (length p) (c # t) = p" | "contains p t" by auto
    then show "\<exists>a b. c # t = a @ p @ b"
    proof cases
      case 1
      then show ?thesis by (metis append_Nil append_take_drop_id)
    next
      case 2
      with Cons obtain a b where "t = a @ p @ b" by blast
      then show ?thesis by (metis append_Cons)
    qed
  next
    assume "\<exists>a b. c # t = a @ p @ b"
    then obtain a b where ab: "c # t = a @ p @ b" by blast
    show "contains p (c # t)"
    proof (cases a)
      case Nil
      with ab have "take (length p) (c # t) = p" by simp
      then show ?thesis by simp
    next
      case (Cons d a')
      with ab Cons.IH show ?thesis by auto
    qed
  qed
qed auto

lemma contains_trans: "contains p q \<Longrightarrow> contains q t \<Longrightarrow> contains p t"
  unfolding contains_iff by (metis append_assoc)

lemma category_scores_mem:
  "(name, v) \<in> set (category_scores cats text) \<longleftrightarrow>
   (\<exists>info. (name, info) \<in> set cats \<and> matched_keywords text info \<noteq> [] \<and> v = category_score text info)"
  by (force simp: category_scores_def)

lemma dict_argmax_greatest:
  "dict_argmax xs = Some k \<Longrightarrow> \<exists>v. (k, v) \<in> set xs \<and> (\<forall>p \<in> set xs. snd p \<le> v)"
proof (cases xs)
  case (Cons p ps)
  assume "dict_argmax xs = Some k"
  with Cons have k: "k = argmax_from (fst p) (snd p) ps" by (cases p) auto
  from argmax_from_greatest [of "fst p" "snd p" ps] obtain w where
    "(k, w) \<in> insert (fst p, snd p) (set ps)" "snd p \<le> w" "\<forall>(k', v') \<in> set ps. v' \<le> w" unfolding k by blast
  with Cons show ?thesis by (intro exI [of _ w]) (cases p, auto)
qed simp

text \<open>
  The category of a text is one of the table that has a keyword in the text, and no other category
  scores more.
\<close>

theorem classified_is_best:
  assumes "classify cats text = Some c" "distinct (map fst cats)"
  shows "\<exists>info. (cl_category c, info) \<in> set cats \<and> c = classification_of text (cl_category c) info \<and> cl_keywords c \<noteq> [] \<and>
    (\<forall>(name, other) \<in> set cats. category_score text other \<le> category_score text info)"
proof -
  from assms(1) obtain name info where n: "dict_argmax (category_scores cats text) = Some name" "map_of cats name = Some info"
    "c = classification_of text name info" by (auto simp: classify_def split: if_splits option.splits)
  from dict_argmax_greatest [OF n(1)] obtain v where v: "(name, v) \<in> set (category_scores cats text)"
    "\<forall>p \<in> set (category_scores cats text). snd p \<le> v" by blast
  then obtain i where i: "(name, i) \<in> set cats" "matched_keywords text i \<noteq> []" "v = category_score text i"
    by (auto simp: category_scores_mem)
  then have "i = info" using n(2) assms(2) by simp
  with i have info: "matched_keywords text info \<noteq> []" "v = category_score text info" by simp_all
  have "category_score text other \<le> v" if "(m, other) \<in> set cats" for m other
  proof (cases "matched_keywords text other = []")
    case True
    then show ?thesis by (simp add: category_score_def info(2))
  next
    case False
    with that have "(m, category_score text other) \<in> set (category_scores cats text)" by (auto simp: category_scores_mem)
    with v(2) show ?thesis by force
  qed
  then show ?thesis
    using n info map_of_SomeD [OF n(2)] by (intro exI [of _ info]) (auto simp: classification_of_def)
qed

text \<open>The table of the code: bad news have a negative score, a benefit and a duration, no others have.\<close>

lemma categories_distinct: "distinct (map fst NEWS_CATEGORIES)"
  by code_simp

lemma category_table:
  "list_all (\<lambda>p. let i = snd p in
     (ci_sentiment i = ''NEGATIVE'') = (ci_base i < 0) \<and> (ci_sentiment i = ''NEGATIVE'') = (ci_benefit i \<noteq> None) \<and>
     0 \<le> or_value (ci_benefit i) 0 \<and> or_value (ci_benefit i) 0 \<le> 10 \<and>
     0 \<le> or_value (ci_duration i) 0 \<and> or_value (ci_duration i) 0 \<le> 60 \<and>
     (ci_sentiment i = ''NEGATIVE'' \<longrightarrow> 0 < or_value (ci_benefit i) 0 \<and> 0 < or_value (ci_duration i) 0)) NEWS_CATEGORIES"
  by code_simp

lemma classified_typed:
  assumes "classify NEWS_CATEGORIES text = Some c"
  shows "(cl_sentiment c = ''NEGATIVE'') = (0 < cl_benefit c)" "0 \<le> cl_benefit c \<and> cl_benefit c \<le> 10"
    "0 \<le> cl_duration c \<and> cl_duration c \<le> 60" "0 < cl_benefit c \<Longrightarrow> 0 < cl_duration c \<and> cl_base c < 0"
proof -
  obtain info where i: "(cl_category c, info) \<in> set NEWS_CATEGORIES" "c = classification_of text (cl_category c) info"
    using classified_is_best [OF assms categories_distinct] by blast
  have f: "cl_sentiment c = ci_sentiment info" "cl_benefit c = or_value (ci_benefit info) 0" "cl_base c = ci_base info"
    "cl_duration c = or_value (ci_duration info) 0" by (subst i(2), simp add: classification_of_def)+
  have t: "(ci_sentiment info = ''NEGATIVE'') = (ci_base info < 0)" "(ci_sentiment info = ''NEGATIVE'') = (ci_benefit info \<noteq> None)"
    "0 \<le> or_value (ci_benefit info) 0" "or_value (ci_benefit info) 0 \<le> 10" "0 \<le> or_value (ci_duration info) 0"
    "or_value (ci_duration info) 0 \<le> 60"
    "ci_sentiment info = ''NEGATIVE'' \<Longrightarrow> 0 < or_value (ci_benefit info) 0 \<and> 0 < or_value (ci_duration info) 0"
    using category_table i(1) unfolding list_all_iff Let_def by (metis snd_conv)+
  have none: "ci_benefit info = None \<Longrightarrow> \<not> 0 < or_value (ci_benefit info) 0" by (simp add: or_value_def)
  show "(cl_sentiment c = ''NEGATIVE'') = (0 < cl_benefit c)" unfolding f using t(2,7) none by blast
  show "0 \<le> cl_benefit c \<and> cl_benefit c \<le> 10" "0 \<le> cl_duration c \<and> cl_duration c \<le> 60" unfolding f using t by simp_all
  show "0 < cl_duration c \<and> cl_base c < 0" if "0 < cl_benefit c" using that t(1,2,7) none unfolding f by blast
qed

lemma classify_exists:
  assumes "(name, info) \<in> set cats" "matched_keywords text info \<noteq> []" "text \<noteq> []"
  shows "\<exists>c. classify cats text = Some c"
proof -
  have "(name, category_score text info) \<in> set (category_scores cats text)" using assms by (auto simp: category_scores_mem)
  then obtain best where best: "dict_argmax (category_scores cats text) = Some best"
    by (cases "category_scores cats text") auto
  from dict_argmax_greatest [OF this] obtain i where "(best, i) \<in> set cats" by (auto simp: category_scores_mem)
  then obtain j where "map_of cats best = Some j" by (metis map_of_eq_None_iff fst_conv image_eqI not_None_eq)
  with best assms(3) show ?thesis by (simp add: classify_def)
qed

section \<open>Bad earnings\<close>

text \<open>Three keywords for bad earnings contain one of the keywords for good earnings.\<close>

definition masked_keywords :: "string list" where
  "masked_keywords = [[CHR 0xEC, CHR 0x96, CHR 0xB4, CHR 0xEB, CHR 0x8B, CHR 0x9D, CHR 0xEC, CHR 0x87, CHR 0xBC, CHR 0xED, CHR 0x81, CHR 0xAC], [CHR 0xEC, CHR 0x8B, CHR 0xA4, CHR 0xEC, CHR 0xA0, CHR 0x81, CHR 0xEC, CHR 0x95, CHR 0x85, CHR 0xED, CHR 0x99, CHR 0x94], [CHR 0xEB, CHR 0xA7, CHR 0xA4, CHR 0xEC, CHR 0xB6, CHR 0x9C, CHR 0xEA, CHR 0xB8, CHR 0x89, CHR 0xEA, CHR 0xB0, CHR 0x90]]"

lemma masked: "list_all (\<lambda>k. list_ex (\<lambda>g. contains (to_lower g) (to_lower k)) (ci_keywords good_earnings_info)) masked_keywords"
  by code_simp

text \<open>
  C38. A headline with one keyword for bad earnings, say a shock, a slump of earnings or of
  sales, is never filed under bad earnings: the word it begins with makes it good news,
  which score higher.
\<close>

theorem earnings_shock_is_no_bad_news:
  assumes "matched_keywords text bad_earnings_info = [k]" "k \<in> set masked_keywords"
  shows "\<exists>c. classify NEWS_CATEGORIES text = Some c \<and> cl_category c \<noteq> bad_earnings"
proof -
  have k: "contains (to_lower k) (to_lower text)"
    using assms(1) unfolding matched_keywords_def by (metis (mono_tags, lifting) filter_eq_ConsD)
  obtain g where g: "g \<in> set (ci_keywords good_earnings_info)" "contains (to_lower g) (to_lower k)"
    using masked assms(2) by (auto simp: list_all_iff list_ex_iff)
  with k have "g \<in> set (matched_keywords text good_earnings_info)"
    unfolding matched_keywords_def using contains_trans by simp
  then have good: "1 \<le> length (matched_keywords text good_earnings_info)"
    by (cases "matched_keywords text good_earnings_info") auto
  have tables: "(good_earnings, good_earnings_info) \<in> set NEWS_CATEGORIES" "(bad_earnings, bad_earnings_info) \<in> set NEWS_CATEGORIES"
    "ci_base good_earnings_info = 15" "ci_base bad_earnings_info = - 10"
    by (simp_all add: NEWS_CATEGORIES_def good_earnings_info_def bad_earnings_info_def category_of_def)
  have "text \<noteq> []"
  proof
    assume "text = []"
    with k have "to_lower k = []" by (simp add: to_lower_def)
    with assms(2) show False by (auto simp: masked_keywords_def to_lower_def)
  qed
  then obtain c where c: "classify NEWS_CATEGORIES text = Some c"
    using classify_exists [OF tables(2), of "text"] assms(1) by (metis list.distinct(1))
  have "cl_category c \<noteq> bad_earnings"
  proof
    assume bad: "cl_category c = bad_earnings"
    obtain info where info: "(cl_category c, info) \<in> set NEWS_CATEGORIES"
      "\<forall>(name, other) \<in> set NEWS_CATEGORIES. category_score text other \<le> category_score text info"
      using classified_is_best [OF c categories_distinct] by blast
    then have "info = bad_earnings_info"
      using bad tables(2) categories_distinct by (metis eq_key_imp_eq_value)
    then have "category_score text good_earnings_info \<le> category_score text bad_earnings_info"
      using info(2) tables(1) by auto
    then have "of_nat (length (matched_keywords text good_earnings_info)) * 15 \<le> (10 :: rat)"
      by (simp add: category_score_def tables assms(1))
    moreover have "(1 :: rat) \<le> of_nat (length (matched_keywords text good_earnings_info))"
      using of_nat_mono [OF good, where 'a = rat] by (simp only: of_nat_1)
    ultimately show False by linarith
  qed
  with c show ?thesis by blast
qed

lemma shock_keyword: "matched_keywords [CHR 0xEC, CHR 0x96, CHR 0xB4, CHR 0xEB, CHR 0x8B, CHR 0x9D, CHR 0xEC, CHR 0x87, CHR 0xBC, CHR 0xED, CHR 0x81, CHR 0xAC] bad_earnings_info = [[CHR 0xEC, CHR 0x96, CHR 0xB4, CHR 0xEB, CHR 0x8B, CHR 0x9D, CHR 0xEC, CHR 0x87, CHR 0xBC, CHR 0xED, CHR 0x81, CHR 0xAC]]"
proof -
  have k: "ci_keywords bad_earnings_info =
      [[CHR 0xEC, CHR 0x96, CHR 0xB4, CHR 0xEB, CHR 0x8B, CHR 0x9D, CHR 0xEC, CHR 0x87, CHR 0xBC, CHR 0xED, CHR 0x81, CHR 0xAC], [CHR 0xEC, CHR 0x8B, CHR 0xA4, CHR 0xEC, CHR 0xA0, CHR 0x81, CHR 0xEC, CHR 0x95, CHR 0x85, CHR 0xED, CHR 0x99, CHR 0x94], [CHR 0xEC, CHR 0xA0, CHR 0x81, CHR 0xEC, CHR 0x9E, CHR 0x90, CHR 0xEC, CHR 0xA0, CHR 0x84, CHR 0xED, CHR 0x99, CHR 0x98], [CHR 0xEB, CHR 0xA7, CHR 0xA4, CHR 0xEC, CHR 0xB6, CHR 0x9C, CHR 0xEA, CHR 0xB8, CHR 0x89, CHR 0xEA, CHR 0xB0, CHR 0x90], [CHR 0xEC, CHR 0x98, CHR 0x81, CHR 0xEC, CHR 0x97, CHR 0x85, CHR 0xEC, CHR 0x86, CHR 0x90, CHR 0xEC, CHR 0x8B, CHR 0xA4], [CHR 0xEC, CHR 0xA0, CHR 0x81, CHR 0xEC, CHR 0x9E, CHR 0x90], [CHR 0xEB, CHR 0xB6, CHR 0x80, CHR 0xEC, CHR 0xA7, CHR 0x84], [CHR 0xEC, CHR 0x98, CHR 0x88, CHR 0xEC, CHR 0x83, CHR 0x81, CHR 0xEC, CHR 0xB9, CHR 0x98, CHR 0x20, CHR 0xED, CHR 0x95, CHR 0x98, CHR 0xED, CHR 0x9A, CHR 0x8C], [CHR 0xEC, CHR 0x8B, CHR 0xA4, CHR 0xEC, CHR 0xA0, CHR 0x81, CHR 0xEB, CHR 0xB6, CHR 0x80, CHR 0xEC, CHR 0xA7, CHR 0x84]]"
    by (simp add: bad_earnings_info_def category_of_def)
  have low: "list_all (\<lambda>w. to_lower w = w) (ci_keywords bad_earnings_info)" unfolding k by code_simp
  show ?thesis using low unfolding matched_keywords_def k by simp
qed

theorem earnings_shock_is_no_bad_news_witness:
  "\<exists>c. classify NEWS_CATEGORIES [CHR 0xEC, CHR 0x96, CHR 0xB4, CHR 0xEB, CHR 0x8B, CHR 0x9D, CHR 0xEC, CHR 0x87, CHR 0xBC, CHR 0xED, CHR 0x81, CHR 0xAC] = Some c \<and> cl_category c \<noteq> bad_earnings"
proof -
  show ?thesis by (rule earnings_shock_is_no_bad_news [OF shock_keyword]) (simp add: masked_keywords_def)
qed

section \<open>An example\<close>

text \<open>A headline of one word, which is a keyword of one category.\<close>

definition hacking :: string where
  "hacking = [CHR 0xED, CHR 0x95, CHR 0xB4, CHR 0xED, CHR 0x82, CHR 0xB9]"

lemma lower_letters:
  shows "char_of (97 :: nat) = CHR ''a''"
    "char_of (99 :: nat) = CHR ''c''"
    "char_of (101 :: nat) = CHR ''e''"
    "char_of (102 :: nat) = CHR ''f''"
    "char_of (103 :: nat) = CHR ''g''"
    "char_of (109 :: nat) = CHR ''m''"
    "char_of (111 :: nat) = CHR ''o''"
    "char_of (115 :: nat) = CHR ''s''"
    "char_of (117 :: nat) = CHR ''u''"
  by code_simp+

lemma hacking_matches:
  shows "matched_keywords hacking good_earnings_info = []"
    "matched_keywords hacking orders_won_info = []"
    "matched_keywords hacking new_business_info = []"
    "matched_keywords hacking mergers_info = []"
    "matched_keywords hacking dividends_info = []"
    "matched_keywords hacking innovation_info = []"
    "matched_keywords hacking security_incident_info = [hacking]"
    "matched_keywords hacking service_outage_info = []"
    "matched_keywords hacking recall_info = []"
    "matched_keywords hacking owner_risk_info = []"
    "matched_keywords hacking regulation_info = []"
    "matched_keywords hacking bad_earnings_info = []"
    "matched_keywords hacking labour_dispute_info = []"
    "matched_keywords hacking esg_info = []"
    "matched_keywords hacking macro_news_info = []"
    "matched_keywords hacking personnel_info = []"
  subgoal by (simp add: matched_keywords_def hacking_def to_lower_def lower_letters category_of_def good_earnings_info_def)
  subgoal by (simp add: matched_keywords_def hacking_def to_lower_def lower_letters category_of_def orders_won_info_def)
  subgoal by (simp add: matched_keywords_def hacking_def to_lower_def lower_letters category_of_def new_business_info_def)
  subgoal by (simp add: matched_keywords_def hacking_def to_lower_def lower_letters category_of_def mergers_info_def)
  subgoal by (simp add: matched_keywords_def hacking_def to_lower_def lower_letters category_of_def dividends_info_def)
  subgoal by (simp add: matched_keywords_def hacking_def to_lower_def lower_letters category_of_def innovation_info_def)
  subgoal by (simp add: matched_keywords_def hacking_def to_lower_def lower_letters category_of_def security_incident_info_def)
  subgoal by (simp add: matched_keywords_def hacking_def to_lower_def lower_letters category_of_def service_outage_info_def)
  subgoal by (simp add: matched_keywords_def hacking_def to_lower_def lower_letters category_of_def recall_info_def)
  subgoal by (simp add: matched_keywords_def hacking_def to_lower_def lower_letters category_of_def owner_risk_info_def)
  subgoal by (simp add: matched_keywords_def hacking_def to_lower_def lower_letters category_of_def regulation_info_def)
  subgoal by (simp add: matched_keywords_def hacking_def to_lower_def lower_letters category_of_def bad_earnings_info_def)
  subgoal by (simp add: matched_keywords_def hacking_def to_lower_def lower_letters category_of_def labour_dispute_info_def)
  subgoal by (simp add: matched_keywords_def hacking_def to_lower_def lower_letters category_of_def esg_info_def)
  subgoal by (simp add: matched_keywords_def hacking_def to_lower_def lower_letters category_of_def macro_news_info_def)
  subgoal by (simp add: matched_keywords_def hacking_def to_lower_def lower_letters category_of_def personnel_info_def)
  done

lemma hacking_classified:
  "classify NEWS_CATEGORIES hacking = Some (classification_of hacking security_incident security_incident_info)"
proof -
  have "category_scores NEWS_CATEGORIES hacking = [(security_incident, category_score hacking security_incident_info)]"
    by (simp add: category_scores_def NEWS_CATEGORIES_def hacking_matches)
  moreover have "map_of NEWS_CATEGORIES security_incident = Some security_incident_info"
    by (rule map_of_is_SomeI [OF categories_distinct]) (simp add: NEWS_CATEGORIES_def)
  ultimately show ?thesis by (simp add: classify_def hacking_def)
qed

end
