(* ===== verification/Competitors.thy ===== *)
theory Competitors
  imports News_Classifier Market_Data
begin

text \<open>
  \<open>shared/hybrid_scoring/competitor_analyzer.py\<close>: what a stock gains from bad news about its
  competitors. The tables are lists of rows, \<open>first()\<close> without an order takes the first row
  of the table. The rules of events are read once per analyzer and kept in its cache.
\<close>

section \<open>Tables\<close>

record industry_row =
  in_sector :: string
  in_sector_name :: string
  in_code :: string
  in_name :: string
  in_share :: "rat option"
  in_rank :: "int option"
  in_leader :: "int option"
  in_exchange :: "string option"
  in_active :: "int option"

record relation_row =
  sr_sector :: string
  sr_sector_name :: string
  sr_leader :: string
  sr_leader_name :: "string option"
  sr_follower :: string
  sr_follower_name :: "string option"
  sr_rate :: "rat option"
  sr_return :: "rat option"
  sr_drop :: "rat option"
  sr_samples :: "int option"
  sr_confidence :: "string option"
  sr_days :: "int option"
  sr_stop :: "rat option"
  sr_profit :: "rat option"

record rule_row =
  er_type :: string
  er_keywords :: "string option"
  er_self :: "int option"
  er_other :: "int option"
  er_days :: "int option"
  er_confidence :: "string option"
  er_description :: "string option"
  er_active :: "int option"

text \<open>A stored sentiment with the time of its row.\<close>

record stored_news = sentiment_row +
  sn_created :: rat

record competitor_info =
  co_code :: string
  co_name :: string
  co_sector :: string
  co_sector_name :: string
  co_share :: rat
  co_rank :: int
  co_leader :: bool
  co_exchange :: string

text \<open>\<open>x or d\<close> of a column: NULL and the empty value (0, the empty text) give the default.\<close>

definition filled :: "'a \<Rightarrow> 'a option \<Rightarrow> 'a \<Rightarrow> 'a" where
  "filled nothing x d = (case x of None \<Rightarrow> d | Some v \<Rightarrow> if v = nothing then d else v)"

definition info_of :: "industry_row \<Rightarrow> competitor_info" where
  "info_of r =
     \<lparr>co_code = in_code r, co_name = in_name r, co_sector = in_sector r, co_sector_name = in_sector_name r,
      co_share = filled 0 (in_share r) 0, co_rank = filled 0 (in_rank r) 99,
      co_leader = (filled 0 (in_leader r) 0 \<noteq> 0), co_exchange = filled [] (in_exchange r) ''KRX''\<rparr>"

text \<open>The order by rank puts rows without one first.\<close>

definition by_rank :: "industry_row list \<Rightarrow> industry_row list" where
  "by_rank rows =
     filter (\<lambda>r. in_rank r = None) rows @ sort_key (\<lambda>r. the (in_rank r)) (filter (\<lambda>r. in_rank r \<noteq> None) rows)"

definition get_competitors_by_sector :: "industry_row list \<Rightarrow> string \<Rightarrow> competitor_info list" where
  "get_competitors_by_sector rows sector =
     map info_of (by_rank (filter (\<lambda>r. in_sector r = sector \<and> in_active r = Some 1) rows))"

definition get_decoupling_stats :: "relation_row list \<Rightarrow> string \<Rightarrow> string option \<Rightarrow> string option \<Rightarrow> relation_row list" where
  "get_decoupling_stats rows sector leader follower =
     filter (\<lambda>r. sr_sector r = sector \<and>
       (filled [] leader [] = [] \<or> sr_leader r = filled [] leader []) \<and>
       (filled [] follower [] = [] \<or> sr_follower r = filled [] follower [])) rows"

definition industry_info :: "industry_row list \<Rightarrow> string \<Rightarrow> competitor_info option" where
  "industry_info rows code = map_option info_of (find (\<lambda>r. in_code r = code) rows)"

definition competitors_of :: "industry_row list \<Rightarrow> string \<Rightarrow> string \<Rightarrow> competitor_info list" where
  "competitors_of rows code sector =
     map info_of (by_rank (filter (\<lambda>r. in_sector r = sector \<and> in_code r \<noteq> code \<and> in_active r = Some 1) rows))"

definition get_all_sectors :: "industry_row list \<Rightarrow> (string \<times> string) list" where
  "get_all_sectors rows = remdups (map (\<lambda>r. (in_sector r, in_sector_name r)) (filter (\<lambda>r. in_active r = Some 1) rows))"

section \<open>Rules\<close>

record impact_rule =
  ir_keywords :: "jval option"
  ir_self :: "int option"
  ir_other :: "int option"
  ir_days :: "int option"
  ir_confidence :: "string option"
  ir_description :: "string option"

type_synonym impact_rules = "string \<rightharpoonup> impact_rule"

text \<open>The keywords are JSON, whose reader is a parameter; without a text there are none.\<close>

definition rule_of :: "(string \<Rightarrow> jval res) \<Rightarrow> rule_row \<Rightarrow> (string \<times> impact_rule) res" where
  "rule_of loads r =
     rbind (case filled [] (er_keywords r) [] of [] \<Rightarrow> Inr None | c # cs \<Rightarrow> map_sum id Some (loads (c # cs))) (\<lambda>k.
       Inr (er_type r, \<lparr>ir_keywords = k, ir_self = er_self r, ir_other = er_other r, ir_days = er_days r,
         ir_confidence = er_confidence r, ir_description = er_description r\<rparr>))"

fun rules_of :: "(string \<Rightarrow> jval res) \<Rightarrow> rule_row list \<Rightarrow> impact_rules \<Rightarrow> impact_rules res" where
  "rules_of loads [] d = Inr d"
| "rules_of loads (r # rs) d =
     (if er_active r = Some 1 then rbind (rule_of loads r) (\<lambda>(k, v). rules_of loads rs (d(k \<mapsto> v)))
      else rules_of loads rs d)"

text \<open>The rules, and with them the new cache.\<close>

definition event_rules :: "(string \<Rightarrow> jval res) \<Rightarrow> rule_row list \<Rightarrow> impact_rules option \<Rightarrow> impact_rules res" where
  "event_rules loads rows cache = (case cache of Some d \<Rightarrow> Inr d | None \<Rightarrow> rules_of loads rows Map.empty)"

text \<open>Asked for one event, the answer has that event alone, without a rule when there is none.\<close>

definition get_event_impact_rules ::
  "(string \<Rightarrow> jval res) \<Rightarrow> rule_row list \<Rightarrow> string option \<Rightarrow> impact_rules option \<Rightarrow> (string \<rightharpoonup> impact_rule option) res" where
  "get_event_impact_rules loads rows event cache =
     map_sum id (\<lambda>d. case filled [] event [] of [] \<Rightarrow> map_option Some \<circ> d | c # cs \<Rightarrow> [c # cs \<mapsto> d (c # cs)])
       (event_rules loads rows cache)"

section \<open>Events and benefits\<close>

record negative_event =
  ne_code :: string
  ne_name :: string
  ne_type :: string
  ne_title :: string
  ne_severity :: int
  ne_published :: rat
  ne_url :: "string option"

record benefit_analysis =
  ba_target :: string
  ba_target_name :: string
  ba_competitor :: string
  ba_competitor_name :: string
  ba_event :: string
  ba_title :: string
  ba_score :: int
  ba_rate :: rat
  ba_return :: rat
  ba_confidence :: string
  ba_days :: int
  ba_stop :: rat
  ba_profit :: rat
  ba_samples :: int
  ba_reason :: string

record benefit_report =
  bn_target :: string
  bn_target_name :: string
  bn_sector :: string
  bn_sector_name :: string
  bn_total :: int
  bn_opportunity :: bool
  bn_benefits :: "benefit_analysis list"
  bn_events :: "negative_event list"
  bn_summary :: string
  bn_recommendation :: string

text \<open>The tables, the time, and the texts of a JSON document and of numbers.\<close>

record competitor_world =
  cw_industry :: "industry_row list"
  cw_relations :: "relation_row list"
  cw_rules :: "rule_row list"
  cw_news :: "stored_news list"
  cw_now :: rat
  cw_loads :: "string \<Rightarrow> jval res"
  cw_int_text :: "int \<Rightarrow> string"
  cw_percent :: "rat \<Rightarrow> string"

definition DEFAULT_LOOKBACK_DAYS :: int where "DEFAULT_LOOKBACK_DAYS = 7"
definition MIN_DECOUPLING_RATE :: rat where "MIN_DECOUPLING_RATE = 4/10"
definition MIN_BENEFIT_SCORE :: int where "MIN_BENEFIT_SCORE = 3"

definition recent_bad_news :: "competitor_world \<Rightarrow> string \<Rightarrow> int \<Rightarrow> stored_news list" where
  "recent_bad_news w code days =
     sort_key (\<lambda>r. - sn_created r)
       (filter (\<lambda>r. sn_code r = code \<and> sn_score r < 40 \<and> cw_now w - of_int days * 86400 \<le> sn_created r) (cw_news w))"

definition event_of :: "competitor_world \<Rightarrow> impact_rules \<Rightarrow> string \<Rightarrow> stored_news \<Rightarrow> negative_event list" where
  "event_of w rules code r =
     (let category = classify_news_category (sn_title r) (sn_reason r)
      in if rules category = None then []
         else [\<lparr>ne_code = code,
                ne_name = (case industry_info (cw_industry w) code of None \<Rightarrow> code | Some i \<Rightarrow> co_name i),
                ne_type = category, ne_title = sn_title r, ne_severity = get_event_severity category,
                ne_published = or_value (sn_published r) (sn_created r), ne_url = sn_url r\<rparr>])"

definition negative_events ::
  "competitor_world \<Rightarrow> string \<Rightarrow> int \<Rightarrow> impact_rules option \<Rightarrow> (negative_event list \<times> impact_rules option) res" where
  "negative_events w code days cache =
     rbind (event_rules (cw_loads w) (cw_rules w) cache) (\<lambda>rules.
       Inr (concat (map (event_of w rules code) (recent_bad_news w code days)), Some rules))"

text \<open>
  The statistics of the pair, else those of the competitor as the leader of any other stock of
  the sector.
\<close>

definition relation_for :: "relation_row list \<Rightarrow> competitor_info \<Rightarrow> competitor_info \<Rightarrow> relation_row option" where
  "relation_for rows target competitor =
     (case find (\<lambda>r. sr_sector r = co_sector target \<and> sr_leader r = co_code competitor \<and>
                  sr_follower r = co_code target) rows of
        Some r \<Rightarrow> Some r
      | None \<Rightarrow> find (\<lambda>r. sr_sector r = co_sector target \<and> sr_leader r = co_code competitor) rows)"

definition reason_of :: "competitor_info \<Rightarrow> negative_event \<Rightarrow> string \<Rightarrow> string" where
  "reason_of competitor e ending = [CHR 0xEA, CHR 0xB2, CHR 0xBD, CHR 0xEC, CHR 0x9F, CHR 0x81, CHR 0xEC, CHR 0x82, CHR 0xAC, CHR 0x20] @ co_name competitor @ [CHR 0xEC, CHR 0x9D, CHR 0x98, CHR 0x20] @ ne_type e @ ending"

definition known_benefit :: "competitor_info \<Rightarrow> competitor_info \<Rightarrow> negative_event \<Rightarrow> relation_row \<Rightarrow> rat \<Rightarrow> benefit_analysis" where
  "known_benefit target competitor e r rate =
     \<lparr>ba_target = co_code target, ba_target_name = co_name target, ba_competitor = co_code competitor,
      ba_competitor_name = co_name competitor, ba_event = ne_type e, ba_title = ne_title e,
      ba_score = py_int (of_int (get_competitor_benefit (ne_type e)) * (1 + rate)), ba_rate = rate,
      ba_return = filled 0 (sr_return r) 0, ba_confidence = filled [] (sr_confidence r) ''LOW'',
      ba_days = filled 0 (sr_days r) 20, ba_stop = filled 0 (sr_stop r) (- 3/100),
      ba_profit = filled 0 (sr_profit r) (8/100), ba_samples = filled 0 (sr_samples r) 0,
      ba_reason = reason_of competitor e [CHR 0xEB, CHR 0xA1, CHR 0x9C, CHR 0x20, CHR 0xEC, CHR 0x9D, CHR 0xB8, CHR 0xED, CHR 0x95, CHR 0x9C, CHR 0x20, CHR 0xEC, CHR 0x88, CHR 0x98, CHR 0xED, CHR 0x98, CHR 0x9C, CHR 0x20, CHR 0xEC, CHR 0x98, CHR 0x88, CHR 0xEC, CHR 0x83, CHR 0x81]\<rparr>"

definition basic_benefit :: "competitor_info \<Rightarrow> competitor_info \<Rightarrow> negative_event \<Rightarrow> benefit_analysis" where
  "basic_benefit target competitor e =
     \<lparr>ba_target = co_code target, ba_target_name = co_name target, ba_competitor = co_code competitor,
      ba_competitor_name = co_name competitor, ba_event = ne_type e, ba_title = ne_title e,
      ba_score = get_competitor_benefit (ne_type e), ba_rate = 0, ba_return = 0, ba_confidence = ''LOW'',
      ba_days = 14, ba_stop = - 5/100, ba_profit = 5/100, ba_samples = 0,
      ba_reason = reason_of competitor e [CHR 0xEB, CHR 0xA1, CHR 0x9C, CHR 0x20, CHR 0xEC, CHR 0x9D, CHR 0xB8, CHR 0xED, CHR 0x95, CHR 0x9C, CHR 0x20, CHR 0xEC, CHR 0x9E, CHR 0xA0, CHR 0xEC, CHR 0x9E, CHR 0xAC, CHR 0xEC, CHR 0xA0, CHR 0x81, CHR 0x20, CHR 0xEC, CHR 0x88, CHR 0x98, CHR 0xED, CHR 0x98, CHR 0x9C]\<rparr>"

text \<open>Statistics without a rate make the comparison raise.\<close>

definition calculate_benefit ::
  "competitor_world \<Rightarrow> competitor_info \<Rightarrow> competitor_info \<Rightarrow> negative_event \<Rightarrow> benefit_analysis option res" where
  "calculate_benefit w target competitor e =
     (let basic = Inr (if 0 < get_competitor_benefit (ne_type e) then Some (basic_benefit target competitor e) else None)
      in case relation_for (cw_relations w) target competitor of
           None \<Rightarrow> basic
         | Some r \<Rightarrow>
             (case sr_rate r of
                None \<Rightarrow> Inl TypeError
              | Some rate \<Rightarrow>
                  if MIN_DECOUPLING_RATE \<le> rate then Inr (Some (known_benefit target competitor e r rate)) else basic))"

definition enough_benefit :: "benefit_analysis option \<Rightarrow> benefit_analysis list" where
  "enough_benefit b = (case b of None \<Rightarrow> [] | Some x \<Rightarrow> if MIN_BENEFIT_SCORE \<le> ba_score x then [x] else [])"

section \<open>The report\<close>

definition new_report :: "string \<Rightarrow> string \<Rightarrow> string \<Rightarrow> string \<Rightarrow> string \<Rightarrow> benefit_report" where
  "new_report code name sector sector_name summary =
     \<lparr>bn_target = code, bn_target_name = name, bn_sector = sector, bn_sector_name = sector_name, bn_total = 0,
      bn_opportunity = False, bn_benefits = [], bn_events = [], bn_summary = summary, bn_recommendation = []\<rparr>"

definition add_event ::
  "competitor_world \<Rightarrow> competitor_info \<Rightarrow> competitor_info \<Rightarrow> negative_event \<Rightarrow> benefit_report \<Rightarrow> benefit_report res" where
  "add_event w target competitor e rep =
     rbind (calculate_benefit w target competitor e) (\<lambda>b.
       let gains = enough_benefit b
       in Inr (rep\<lparr>bn_events := bn_events rep @ [e], bn_benefits := bn_benefits rep @ gains,
                  bn_total := bn_total rep + sum_list (map ba_score gains)\<rparr>))"

fun add_events ::
  "competitor_world \<Rightarrow> competitor_info \<Rightarrow> competitor_info \<Rightarrow> negative_event list \<Rightarrow> benefit_report \<Rightarrow> benefit_report res" where
  "add_events w target competitor [] rep = Inr rep"
| "add_events w target competitor (e # es) rep =
     rbind (add_event w target competitor e rep) (add_events w target competitor es)"

fun visit_competitors ::
  "competitor_world \<Rightarrow> competitor_info \<Rightarrow> int \<Rightarrow> competitor_info list \<Rightarrow> impact_rules option \<Rightarrow> benefit_report \<Rightarrow>
   (benefit_report \<times> impact_rules option) res" where
  "visit_competitors w target days [] cache rep = Inr (rep, cache)"
| "visit_competitors w target days (c # cs) cache rep =
     rbind (negative_events w (co_code c) days cache) (\<lambda>(events, cache').
       rbind (add_events w target c events rep) (visit_competitors w target days cs cache'))"

definition first_best :: "benefit_analysis \<Rightarrow> benefit_analysis list \<Rightarrow> benefit_analysis" where
  "first_best b bs = foldl (\<lambda>x y. if ba_score x < ba_score y then y else x) b bs"

fun joined :: "string \<Rightarrow> string list \<Rightarrow> string" where
  "joined sep [] = []"
| "joined sep [t] = t"
| "joined sep (t # u # ts) = t @ sep @ joined sep (u # ts)"

definition advice :: "int \<Rightarrow> bool \<times> string" where
  "advice points = (if 10 \<le> points then (True, [CHR 0xEB, CHR 0xA7, CHR 0xA4, CHR 0xEC, CHR 0x88, CHR 0x98, CHR 0x20, CHR 0xEA, CHR 0xB2, CHR 0x80, CHR 0xED, CHR 0x86, CHR 0xA0])
                   else if 5 \<le> points then (True, [CHR 0xEA, CHR 0xB4, CHR 0x80, CHR 0xEC, CHR 0x8B, CHR 0xAC, CHR 0x20, CHR 0xEC, CHR 0xA2, CHR 0x85, CHR 0xEB, CHR 0xAA, CHR 0xA9, CHR 0x20, CHR 0xEC, CHR 0xB6, CHR 0x94, CHR 0xEA, CHR 0xB0, CHR 0x80]) else (False, [CHR 0xEA, CHR 0xB4, CHR 0x80, CHR 0xEB, CHR 0xA7, CHR 0x9D]))"

definition summary_text :: "competitor_world \<Rightarrow> benefit_report \<Rightarrow> benefit_analysis \<Rightarrow> string" where
  "summary_text w rep best =
     [CHR 0xF0, CHR 0x9F, CHR 0x94, CHR 0xB4, CHR 0x20, CHR 0xEA, CHR 0xB2, CHR 0xBD, CHR 0xEC, CHR 0x9F, CHR 0x81, CHR 0xEC, CHR 0x82, CHR 0xAC, CHR 0x20, CHR 0xEC, CHR 0x95, CHR 0x85, CHR 0xEC, CHR 0x9E, CHR 0xAC, CHR 0x20, CHR 0xEA, CHR 0xB0, CHR 0x90, CHR 0xEC, CHR 0xA7, CHR 0x80, CHR 0x3A, CHR 0x20] @
     joined '', '' (map (\<lambda>b. ba_competitor_name b @ ''('' @ ba_event b @ '')'') (take 3 (bn_benefits rep))) @ [CHR 0x0A] @
     [CHR 0xF0, CHR 0x9F, CHR 0x93, CHR 0x8A, CHR 0x20, CHR 0xEC, CHR 0xB4, CHR 0x9D, CHR 0x20, CHR 0xEC, CHR 0x88, CHR 0x98, CHR 0xED, CHR 0x98, CHR 0x9C, CHR 0x20, CHR 0xEC, CHR 0xA0, CHR 0x90, CHR 0xEC, CHR 0x88, CHR 0x98, CHR 0x3A, CHR 0x20, CHR 0x2B] @ cw_int_text w (bn_total rep) @ [CHR 0xEC, CHR 0xA0, CHR 0x90] @ [CHR 0x0A] @
     [CHR 0xF0, CHR 0x9F, CHR 0x93, CHR 0x88, CHR 0x20, CHR 0xEB, CHR 0x94, CHR 0x94, CHR 0xEC, CHR 0xBB, CHR 0xA4, CHR 0xED, CHR 0x94, CHR 0x8C, CHR 0xEB, CHR 0xA7, CHR 0x81, CHR 0x20, CHR 0xEC, CHR 0x8A, CHR 0xB9, CHR 0xEB, CHR 0xA5, CHR 0xA0, CHR 0x3A, CHR 0x20] @ cw_percent w (ba_rate best) @ [CHR 0x0A] @
     [CHR 0xF0, CHR 0x9F, CHR 0x92, CHR 0xA1, CHR 0x20, CHR 0xEC, CHR 0xB6, CHR 0x94, CHR 0xEC, CHR 0xB2, CHR 0x9C, CHR 0x3A, CHR 0x20] @ bn_recommendation rep"

definition generate_summary :: "competitor_world \<Rightarrow> benefit_report \<Rightarrow> benefit_report" where
  "generate_summary w rep =
     (case bn_benefits rep of
        [] \<Rightarrow> rep\<lparr>bn_summary := [CHR 0xED, CHR 0x98, CHR 0x84, CHR 0xEC, CHR 0x9E, CHR 0xAC, CHR 0x20, CHR 0xEA, CHR 0xB0, CHR 0x90, CHR 0xEC, CHR 0xA7, CHR 0x80, CHR 0xEB, CHR 0x90, CHR 0x9C, CHR 0x20, CHR 0xEA, CHR 0xB2, CHR 0xBD, CHR 0xEC, CHR 0x9F, CHR 0x81, CHR 0xEC, CHR 0x82, CHR 0xAC, CHR 0x20, CHR 0xEC, CHR 0x95, CHR 0x85, CHR 0xEC, CHR 0x9E, CHR 0xAC, CHR 0x20, CHR 0xEC, CHR 0x97, CHR 0x86, CHR 0xEC, CHR 0x9D, CHR 0x8C], bn_recommendation := [CHR 0xEA, CHR 0xB4, CHR 0x80, CHR 0xEB, CHR 0xA7, CHR 0x9D], bn_opportunity := False\<rparr>
      | b # bs \<Rightarrow>
          let rep' = rep\<lparr>bn_opportunity := fst (advice (bn_total rep)), bn_recommendation := snd (advice (bn_total rep))\<rparr>
          in rep'\<lparr>bn_summary := summary_text w rep' (first_best b bs)\<rparr>)"

text \<open>The report and the new cache of rules; without a number of days it looks a week back.\<close>

definition analyze ::
  "competitor_world \<Rightarrow> impact_rules option \<Rightarrow> string \<Rightarrow> int option \<Rightarrow>
   (benefit_report \<times> impact_rules option) res" where
  "analyze w cache code days =
     (case industry_info (cw_industry w) code of
        None \<Rightarrow> Inr (new_report code ''Unknown'' [] [] [CHR 0xEC, CHR 0x84, CHR 0xB9, CHR 0xED, CHR 0x84, CHR 0xB0, CHR 0x20, CHR 0xEC, CHR 0xA0, CHR 0x95, CHR 0xEB, CHR 0xB3, CHR 0xB4, CHR 0x20, CHR 0xEC, CHR 0x97, CHR 0x86, CHR 0xEC, CHR 0x9D, CHR 0x8C], cache)
      | Some target \<Rightarrow>
          let rep = new_report code (co_name target) (co_sector target) (co_sector_name target)
          in case competitors_of (cw_industry w) code (co_sector target) of
               [] \<Rightarrow> Inr (rep [CHR 0xEB, CHR 0x8F, CHR 0x99, CHR 0xEC, CHR 0x9D, CHR 0xBC, CHR 0x20, CHR 0xEC, CHR 0x84, CHR 0xB9, CHR 0xED, CHR 0x84, CHR 0xB0, CHR 0x20, CHR 0xEA, CHR 0xB2, CHR 0xBD, CHR 0xEC, CHR 0x9F, CHR 0x81, CHR 0xEC, CHR 0x82, CHR 0xAC, CHR 0x20, CHR 0xEC, CHR 0x97, CHR 0x86, CHR 0xEC, CHR 0x9D, CHR 0x8C], cache)
             | c # cs \<Rightarrow>
                 map_sum id (map_prod (generate_summary w) id)
                   (visit_competitors w target (or_value days DEFAULT_LOOKBACK_DAYS) (c # cs) cache (rep [])))"

definition analyze_competitor_benefit :: "competitor_world \<Rightarrow> string \<Rightarrow> benefit_report res" where
  "analyze_competitor_benefit w code = map_sum id fst (analyze w None code None)"

section \<open>Lemmas\<close>

text \<open>What a benefit in the report of a stock rests on.\<close>

definition benefit_grounds :: "competitor_world \<Rightarrow> string \<Rightarrow> string \<Rightarrow> rat \<Rightarrow> benefit_analysis \<Rightarrow> bool" where
  "benefit_grounds w code sector since b \<longleftrightarrow>
     3 \<le> ba_score b \<and> ba_target b = code \<and> ba_competitor b \<noteq> code \<and>
     (\<exists>r \<in> set (cw_industry w). in_code r = ba_competitor b \<and> in_sector r = sector \<and> in_active r = Some 1) \<and>
     (\<exists>n \<in> set (cw_news w). sn_code n = ba_competitor b \<and> sn_score n < 40 \<and> since \<le> sn_created n \<and>
        sn_title n = ba_title b \<and> classify_news_category (sn_title n) (sn_reason n) = ba_event b)"

definition report_sound :: "competitor_world \<Rightarrow> rat \<Rightarrow> benefit_report \<Rightarrow> bool" where
  "report_sound w since rep \<longleftrightarrow>
     bn_total rep = sum_list (map ba_score (bn_benefits rep)) \<and>
     (\<forall>b \<in> set (bn_benefits rep). benefit_grounds w (bn_target rep) (bn_sector rep) since b)"

definition same_target :: "benefit_report \<Rightarrow> benefit_report \<Rightarrow> bool" where
  "same_target rep rep' \<longleftrightarrow> bn_target rep' = bn_target rep \<and> bn_sector rep' = bn_sector rep"

lemma same_target_trans: "same_target a b \<Longrightarrow> same_target b c \<Longrightarrow> same_target a c"
  by (simp add: same_target_def)

lemma benefit_fields:
  assumes "calculate_benefit w target competitor e = Inr (Some b)"
  shows "ba_target b = co_code target" "ba_competitor b = co_code competitor" "ba_event b = ne_type e" "ba_title b = ne_title e"
  using assms
  by (auto simp: calculate_benefit_def known_benefit_def basic_benefit_def Let_def split: option.splits if_splits)

lemma competitors_of_mem:
  assumes "c \<in> set (competitors_of rows code sector)"
  shows "\<exists>r \<in> set rows. in_code r = co_code c \<and> in_code r \<noteq> code \<and> in_sector r = sector \<and> in_active r = Some 1"
  using assms by (auto simp: competitors_of_def by_rank_def info_of_def)

lemma negative_events_mem:
  assumes "negative_events w code days cache = Inr (es, cache')" "e \<in> set es"
  shows "\<exists>n \<in> set (cw_news w). sn_code n = code \<and> sn_score n < 40 \<and> cw_now w - of_int days * 86400 \<le> sn_created n \<and>
    sn_title n = ne_title e \<and> classify_news_category (sn_title n) (sn_reason n) = ne_type e"
proof -
  from assms obtain rules n where n: "n \<in> set (recent_bad_news w code days)" "e \<in> set (event_of w rules code n)"
    by (auto simp: negative_events_def rbind_eq_Inr_iff)
  show ?thesis using n by (intro bexI [of _ n]) (auto simp: event_of_def recent_bad_news_def Let_def split: if_splits)
qed

lemma add_event_sound:
  assumes "add_event w target c e rep = Inr rep'" "report_sound w since rep" "bn_target rep = co_code target"
    "\<And>b. ba_target b = co_code target \<Longrightarrow> ba_competitor b = co_code c \<Longrightarrow> ba_event b = ne_type e \<Longrightarrow>
      ba_title b = ne_title e \<Longrightarrow> 3 \<le> ba_score b \<Longrightarrow> benefit_grounds w (bn_target rep) (bn_sector rep) since b"
  shows "report_sound w since rep' \<and> same_target rep rep'"
proof -
  from assms(1) obtain x where x: "calculate_benefit w target c e = Inr x"
    "rep' = rep\<lparr>bn_events := bn_events rep @ [e], bn_benefits := bn_benefits rep @ enough_benefit x,
                bn_total := bn_total rep + sum_list (map ba_score (enough_benefit x))\<rparr>"
    by (auto simp: add_event_def rbind_eq_Inr_iff Let_def)
  have "benefit_grounds w (bn_target rep) (bn_sector rep) since b" if "b \<in> set (enough_benefit x)" for b
  proof -
    from that have b: "x = Some b" "3 \<le> ba_score b" by (auto simp: enough_benefit_def MIN_BENEFIT_SCORE_def split: option.splits if_splits)
    show ?thesis using benefit_fields [of w target c e b] x(1) b by (intro assms(4)) simp_all
  qed
  with x(2) assms(2) show ?thesis by (auto simp: report_sound_def same_target_def)
qed

lemma add_events_sound:
  assumes "add_events w target c es rep = Inr rep'" "report_sound w since rep" "bn_target rep = co_code target"
    "\<And>e b. e \<in> set es \<Longrightarrow> ba_target b = co_code target \<Longrightarrow> ba_competitor b = co_code c \<Longrightarrow> ba_event b = ne_type e \<Longrightarrow>
      ba_title b = ne_title e \<Longrightarrow> 3 \<le> ba_score b \<Longrightarrow> benefit_grounds w (bn_target rep) (bn_sector rep) since b"
  shows "report_sound w since rep' \<and> same_target rep rep'"
  using assms
proof (induction es arbitrary: rep)
  case Nil
  then show ?case by (simp add: same_target_def)
next
  case (Cons e es)
  from Cons.prems(1) obtain r where r: "add_event w target c e rep = Inr r" "add_events w target c es r = Inr rep'"
    by (auto simp: rbind_eq_Inr_iff)
  from add_event_sound [OF r(1) Cons.prems(2,3)] Cons.prems(4) have s: "report_sound w since r" "same_target rep r"
    by (metis list.set_intros(1))+
  have "report_sound w since rep' \<and> same_target r rep'"
  proof (rule Cons.IH [OF r(2) s(1)])
    show "bn_target r = co_code target" using Cons.prems(3) s(2) by (simp add: same_target_def)
    show "benefit_grounds w (bn_target r) (bn_sector r) since b"
      if "d \<in> set es" "ba_target b = co_code target" "ba_competitor b = co_code c" "ba_event b = ne_type d"
        "ba_title b = ne_title d" "3 \<le> ba_score b" for d b
      using Cons.prems(4) [of d b] that s(2) by (simp add: same_target_def)
  qed
  with s(2) show ?case using same_target_trans by blast
qed

lemma visit_competitors_sound:
  assumes "visit_competitors w target days cs cache rep = Inr (rep', cache')"
    "report_sound w (cw_now w - of_int days * 86400) rep" "bn_target rep = co_code target"
    "\<And>c. c \<in> set cs \<Longrightarrow> \<exists>r \<in> set (cw_industry w). in_code r = co_code c \<and> in_code r \<noteq> co_code target \<and>
       in_sector r = bn_sector rep \<and> in_active r = Some 1"
  shows "report_sound w (cw_now w - of_int days * 86400) rep' \<and> same_target rep rep'"
  using assms
proof (induction cs arbitrary: cache rep)
  case Nil
  then show ?case by (simp add: same_target_def)
next
  case (Cons c cs)
  from Cons.prems(1) obtain es k r where r: "negative_events w (co_code c) days cache = Inr (es, k)"
    "add_events w target c es rep = Inr r" "visit_competitors w target days cs k r = Inr (rep', cache')"
    by (auto simp: rbind_eq_Inr_iff)
  have "benefit_grounds w (bn_target rep) (bn_sector rep) (cw_now w - of_int days * 86400) b"
    if "e \<in> set es" "ba_target b = co_code target" "ba_competitor b = co_code c" "ba_event b = ne_type e"
      "ba_title b = ne_title e" "3 \<le> ba_score b" for e b
    using negative_events_mem [OF r(1) that(1)] Cons.prems(4) [of c] Cons.prems(3) that
    unfolding benefit_grounds_def by auto
  then have s: "report_sound w (cw_now w - of_int days * 86400) r" "same_target rep r"
    using add_events_sound [OF r(2) Cons.prems(2,3)] by blast+
  have "report_sound w (cw_now w - of_int days * 86400) rep' \<and> same_target r rep'"
  proof (rule Cons.IH [OF r(3) s(1)])
    show "bn_target r = co_code target" using Cons.prems(3) s(2) by (simp add: same_target_def)
    show "\<exists>x \<in> set (cw_industry w). in_code x = co_code d \<and> in_code x \<noteq> co_code target \<and> in_sector x = bn_sector r \<and>
        in_active x = Some 1" if "d \<in> set cs" for d
      using Cons.prems(4) [of d] that s(2) by (simp add: same_target_def)
  qed
  with s(2) show ?case using same_target_trans by blast
qed

lemma generate_summary_fields:
  "bn_total (generate_summary w rep) = bn_total rep" "bn_benefits (generate_summary w rep) = bn_benefits rep"
  "bn_target (generate_summary w rep) = bn_target rep" "bn_sector (generate_summary w rep) = bn_sector rep"
  "bn_opportunity (generate_summary w rep) \<longleftrightarrow> bn_benefits rep \<noteq> [] \<and> 5 \<le> bn_total rep"
  by (simp_all add: generate_summary_def advice_def Let_def split: list.split)

lemma industry_info_code: "industry_info rows code = Some i \<Longrightarrow> co_code i = code"
  by (auto simp: industry_info_def info_of_def find_Some_iff)

text \<open>
  C23. A report on a stock rests on the news: every benefit in it names another stock, which is an active one of
  the same sector and had bad news in the days looked back upon, whose category is the event of the
  benefit; its score is at least 3, the total is the sum of the scores, and there is an
  opportunity exactly when the total is at least 5.
\<close>

theorem report_rests_on_news:
  assumes "analyze w cache code days = Inr (rep, cache')"
  shows "bn_target rep = code \<and> bn_total rep = sum_list (map ba_score (bn_benefits rep)) \<and>
    (bn_opportunity rep \<longleftrightarrow> 5 \<le> bn_total rep) \<and>
    (\<forall>b \<in> set (bn_benefits rep). benefit_grounds w code (bn_sector rep) (cw_now w - of_int (or_value days DEFAULT_LOOKBACK_DAYS) * 86400) b)"
proof (cases "industry_info (cw_industry w) code")
  case None
  with assms show ?thesis by (auto simp: analyze_def new_report_def)
next
  case (Some target)
  note t = Some
  show ?thesis
  proof (cases "competitors_of (cw_industry w) code (co_sector target)")
    case Nil
    with t assms show ?thesis by (auto simp: analyze_def new_report_def Let_def)
  next
    case (Cons c cs)
    let ?start = "new_report code (co_name target) (co_sector target) (co_sector_name target) []"
    from assms t Cons obtain r where r: "rep = generate_summary w r"
      "visit_competitors w target (or_value days DEFAULT_LOOKBACK_DAYS) (c # cs) cache ?start = Inr (r, cache')"
      by (auto simp: analyze_def Let_def map_sum_def map_prod_def split: sum.splits prod.splits)
    have s: "report_sound w (cw_now w - of_int (or_value days DEFAULT_LOOKBACK_DAYS) * 86400) r \<and> same_target ?start r"
    proof (rule visit_competitors_sound [OF r(2)])
      show "report_sound w (cw_now w - of_int (or_value days DEFAULT_LOOKBACK_DAYS) * 86400) ?start"
        by (simp add: report_sound_def new_report_def)
      show "bn_target ?start = co_code target" using industry_info_code [OF t] by (simp add: new_report_def)
      show "\<exists>r \<in> set (cw_industry w). in_code r = co_code d \<and> in_code r \<noteq> co_code target \<and> in_sector r = bn_sector ?start \<and>
          in_active r = Some 1" if "d \<in> set (c # cs)" for d
        using competitors_of_mem [of d "cw_industry w" code "co_sector target"] that Cons industry_info_code [OF t]
        by (simp add: new_report_def)
    qed
    have "bn_benefits r = [] \<Longrightarrow> bn_total r = 0" using s by (simp add: report_sound_def)
    with s show ?thesis unfolding r(1) by (auto simp: generate_summary_fields report_sound_def same_target_def new_report_def)
  qed
qed

section \<open>An example\<close>

definition demo_industry :: "string \<Rightarrow> industry_row" where
  "demo_industry code =
     \<lparr>in_sector = ''SEMI'', in_sector_name = [], in_code = code, in_name = code, in_share = None, in_rank = None,
      in_leader = None, in_exchange = None, in_active = Some 1\<rparr>"

definition demo_news :: stored_news where
  "demo_news =
     \<lparr>sn_code = ''B'', sn_title = hacking, sn_score = 20, sn_reason = [], sn_url = None, sn_published = None, sn_created = 0\<rparr>"

definition demo_competitors :: competitor_world where
  "demo_competitors =
     \<lparr>cw_industry = [demo_industry ''A'', demo_industry ''B''], cw_relations = [],
      cw_rules = [\<lparr>er_type = security_incident, er_keywords = None, er_self = None, er_other = None, er_days = None,
        er_confidence = None, er_description = None, er_active = Some 1\<rparr>],
      cw_news = [demo_news], cw_now = 0, cw_loads = (\<lambda>t. Inl ValueError), cw_int_text = (\<lambda>i. []), cw_percent = (\<lambda>r. [])\<rparr>"

lemma hacking_category: "classify_news_category hacking [] = security_incident"
proof -
  have "py_strip (hacking @ '' '' @ []) = hacking" by (simp add: py_strip_def hacking_def is_space_def)
  then show ?thesis by (simp add: classify_news_category_def hacking_classified classification_of_def)
qed

lemma hacking_benefit: "get_competitor_benefit security_incident = 10"
proof -
  have "map_of NEWS_CATEGORIES security_incident = Some security_incident_info"
    by (rule map_of_is_SomeI [OF categories_distinct]) (simp add: NEWS_CATEGORIES_def)
  then show ?thesis
    by (simp add: get_competitor_benefit_def get_category_info_def security_incident_info_def category_of_def or_value_def)
qed

lemma demo_report:
  "\<exists>rep k. analyze demo_competitors None ''A'' None = Inr (rep, k) \<and> map ba_score (bn_benefits rep) = [10]"
proof -
  note demo = demo_competitors_def demo_industry_def demo_news_def
  have info: "industry_info (cw_industry demo_competitors) ''A'' = Some (info_of (demo_industry ''A''))"
    by (simp add: industry_info_def demo)
  have others: "competitors_of (cw_industry demo_competitors) ''A'' (co_sector (info_of (demo_industry ''A''))) = [info_of (demo_industry ''B'')]"
    by (simp add: competitors_of_def by_rank_def info_of_def demo)
  have news: "recent_bad_news demo_competitors ''B'' 7 = [demo_news]" by (simp add: recent_bad_news_def demo)
  obtain e k where e: "negative_events demo_competitors ''B'' 7 None = Inr ([e], k)" "ne_type e = security_incident"
    by (simp add: negative_events_def event_rules_def news) (simp add: demo rule_of_def filled_def rbind_def event_of_def hacking_category Let_def)
  obtain b where b: "calculate_benefit demo_competitors (info_of (demo_industry ''A'')) (info_of (demo_industry ''B'')) e = Inr (Some b)"
    "ba_score b = 10"
    by (simp add: calculate_benefit_def relation_for_def e(2) hacking_benefit basic_benefit_def) (simp add: demo)
  have code: "co_code (info_of (demo_industry ''B'')) = ''B''" by (simp add: info_of_def demo)
  show ?thesis
    by (simp add: analyze_def info others or_value_def DEFAULT_LOOKBACK_DAYS_def code e rbind_def add_event_def b enough_benefit_def
        MIN_BENEFIT_SCORE_def generate_summary_fields new_report_def)
qed

theorem report_rests_on_news_witness:
  "\<exists>rep :: benefit_report. bn_benefits rep \<noteq> [] \<and> bn_opportunity rep \<and>
     (\<forall>b \<in> set (bn_benefits rep). benefit_grounds demo_competitors ''A'' (bn_sector rep) (- 7 * 86400) b)"
proof -
  obtain rep k where r: "analyze demo_competitors None ''A'' None = Inr (rep, k)" "map ba_score (bn_benefits rep) = [10]"
    using demo_report by auto
  have now: "cw_now demo_competitors - of_int (or_value None DEFAULT_LOOKBACK_DAYS) * 86400 = - 7 * 86400"
    by (simp add: demo_competitors_def or_value_def DEFAULT_LOOKBACK_DAYS_def)
  from report_rests_on_news [OF r(1)] r(2) show ?thesis unfolding now by (intro exI [of _ rep]) auto
qed

text \<open>
  The second query is not the reversed relation its comment speaks of: it takes what any other
  stock gained from the competitor.
\<close>

lemma relation_of_another_stock:
  assumes "sr_sector r = co_sector target" "sr_leader r = co_code competitor"
  shows "relation_for [r] target competitor = Some r"
  using assms by (simp add: relation_for_def)

end
