(* ===== verification/News_Crawler.thy ===== *)
theory News_Crawler
  imports Competitors Llm_Brain
begin

text \<open>
  \<open>services/news-crawler/crawler.py\<close>: news are fetched from feeds, those with a link the vector
  store does not have are new; of the new ones some are rated and the bad ones registered as
  benefits of competitors, then all are stored, and old ones are deleted. The feeds, the vector
  store and the splitter of texts are parameters. The session writes what was added only when it
  commits: it is made with \<open>autoflush=False\<close> (\<open>shared/db/connection.py\<close>), so that its queries do
  not see what is still pending. The time does not pass during a run. The universe of stocks is an
  argument.
\<close>

section \<open>Documents\<close>

record news_doc =
  nd_content :: string
  nd_stock :: "string option"
  nd_stock_name :: "string option"
  nd_source :: string
  nd_url :: "string option"
  nd_created :: "int option"

text \<open>An entry of a feed: a title or a link may be missing, a time may be unreadable.\<close>

record feed_entry =
  fe_title :: "string option"
  fe_link :: "string option"
  fe_published :: "int res option"
  fe_source :: "string option"

record benefit_event =
  be_affected :: string
  be_affected_name :: string
  be_type :: string
  be_title :: string
  be_severity :: int
  be_url :: "string option"
  be_code :: string
  be_name :: string
  be_score :: int
  be_sector :: string
  be_sector_name :: string
  be_status :: string
  be_expires :: rat
  be_detected :: "rat option"

record crawler_world =
  cr_llm :: "llm_world option"
  cr_link :: redis_link
  cr_reason_text :: "rat \<Rightarrow> string \<Rightarrow> rat \<Rightarrow> string"
  cr_store_fault :: "news_doc \<Rightarrow> py_exc option"
  cr_times :: time_library
  cr_now :: rat
  cr_db_now :: rat
  cr_industry :: "industry_row list"
  cr_session :: bool
  cr_commit :: bool
  cr_max :: int
  cr_lookup :: bool
  cr_split :: "news_doc list \<Rightarrow> news_doc list res"
  cr_add :: "nat \<Rightarrow> bool"
  cr_delete :: bool

record crawler_state =
  cs_llm :: llm_state
  cs_redis :: redis
  cs_news :: "sentiment_row list"
  cs_events :: "benefit_event list"
  cs_vectors :: "news_doc list"

section \<open>Fetching\<close>

definition numeric_timestamp :: "rat \<Rightarrow> feed_entry \<Rightarrow> int" where
  "numeric_timestamp t e = (case fe_published e of Some (Inr n) \<Rightarrow> n | _ \<Rightarrow> \<lfloor>t\<rfloor>)"

definition is_old_entry :: "rat \<Rightarrow> feed_entry \<Rightarrow> bool" where
  "is_old_entry t e \<longleftrightarrow> of_int (numeric_timestamp t e) < t - 7 * 86400"

definition title_prefix :: string where
  "title_prefix = [CHR 0xEB, CHR 0x89, CHR 0xB4, CHR 0xEC, CHR 0x8A, CHR 0xA4, CHR 0x20, CHR 0xEC, CHR 0xA0, CHR 0x9C, CHR 0xEB, CHR 0xAA, CHR 0xA9, CHR 0x3A, CHR 0x20]"

definition doc_content :: "string \<Rightarrow> string \<Rightarrow> string" where
  "doc_content title link = title_prefix @ title @ [CHR 0x0A] @ [CHR 0xEB, CHR 0xA7, CHR 0x81, CHR 0xED, CHR 0x81, CHR 0xAC, CHR 0x3A, CHR 0x20] @ link"

text \<open>The first entry without a title or, when it is not old, without a link ends the feed.\<close>

fun docs_of_entries :: "rat \<Rightarrow> (feed_entry \<Rightarrow> string \<Rightarrow> string \<Rightarrow> news_doc) \<Rightarrow> feed_entry list \<Rightarrow> news_doc list" where
  "docs_of_entries t mk [] = []"
| "docs_of_entries t mk (e # es) =
     (case fe_title e of
        None \<Rightarrow> []
      | Some title \<Rightarrow>
          if is_old_entry t e then docs_of_entries t mk es
          else (case fe_link e of
                  None \<Rightarrow> []
                | Some link \<Rightarrow> mk e title link # docs_of_entries t mk es))"

definition stock_doc :: "rat \<Rightarrow> string \<Rightarrow> string \<Rightarrow> feed_entry \<Rightarrow> string \<Rightarrow> string \<Rightarrow> news_doc" where
  "stock_doc t code name e title link =
     \<lparr>nd_content = doc_content title link, nd_stock = Some code, nd_stock_name = Some name,
      nd_source = ''Google News RSS ('' @ or_value (fe_source e) ''N/A'' @ '')'', nd_url = Some link,
      nd_created = Some (numeric_timestamp t e)\<rparr>"

definition general_doc :: "rat \<Rightarrow> string \<Rightarrow> feed_entry \<Rightarrow> string \<Rightarrow> string \<Rightarrow> news_doc" where
  "general_doc t source e title link =
     \<lparr>nd_content = doc_content title link, nd_stock = None, nd_stock_name = None, nd_source = source,
      nd_url = Some link, nd_created = Some (numeric_timestamp t e)\<rparr>"

definition crawl_news_for_stock :: "rat \<Rightarrow> string \<Rightarrow> string \<Rightarrow> feed_entry list res \<Rightarrow> news_doc list" where
  "crawl_news_for_stock t code name feed =
     (case feed of Inl _ \<Rightarrow> [] | Inr es \<Rightarrow> docs_of_entries t (stock_doc t code name) es)"

definition crawl_general_news :: "rat \<Rightarrow> (string \<times> feed_entry list res) list \<Rightarrow> news_doc list" where
  "crawl_general_news t feeds =
     concat (map (\<lambda>(source, feed). case feed of Inl _ \<Rightarrow> [] | Inr es \<Rightarrow> docs_of_entries t (general_doc t source) es) feeds)"

text \<open>A failing query of the vector store raises.\<close>

definition filter_new_documents :: "crawler_world \<Rightarrow> news_doc list \<Rightarrow> crawler_state \<Rightarrow> news_doc list res" where
  "filter_new_documents w docs s =
     (if list_all (\<lambda>d. nd_url d = None) docs then Inr docs
      else if \<not> cr_lookup w then Inl ApiError
      else Inr (filter (\<lambda>d. nd_url d = None \<or> nd_url d \<notin> nd_url ` set (cs_vectors s)) docs))"

section \<open>Rating\<close>

definition news_title :: "news_doc \<Rightarrow> string" where
  "news_title d = remove_all title_prefix 0 (takeWhile (\<lambda>c. c \<noteq> CHR 0x0A) (nd_content d))"

text \<open>
  The answer's score and reason. An answer that is no object makes \<open>get\<close> raise, and no store
  takes a score that is no number; the schema asks for a reason that is a text.
\<close>

definition rating_of :: "jval \<Rightarrow> (rat \<times> string) option" where
  "rating_of v =
     (case v of
        JObj d \<Rightarrow>
          (case (jnum (field ''score'' (JNum 50) d), field ''reason'' (JStr [CHR 0xEB, CHR 0xB6, CHR 0x84, CHR 0xEC, CHR 0x84, CHR 0x9D, CHR 0x20, CHR 0xEB, CHR 0xB6, CHR 0x88, CHR 0xEA, CHR 0xB0, CHR 0x80]) d) of
             (Some x, JStr t) \<Rightarrow> Some (x, t)
           | _ \<Rightarrow> None)
      | _ \<Rightarrow> None)"

definition url_value :: "string option \<Rightarrow> jval" where
  "url_value u = (case u of None \<Rightarrow> JNull | Some t \<Rightarrow> JStr t)"

definition published_of :: "news_doc \<Rightarrow> published" where
  "published_of d = (case nd_created d of None \<Rightarrow> Unknown | Some n \<Rightarrow> Stamp n)"

definition rate_document :: "crawler_world \<Rightarrow> llm_world \<Rightarrow> news_doc \<Rightarrow> crawler_state \<Rightarrow> bool \<times> crawler_state" where
  "rate_document w brain d s =
     (case filled [] (nd_stock d) [] of
        [] \<Rightarrow> (False, s)
      | c # cs \<Rightarrow>
          (case analyze_news_sentiment brain
                  [(''title'', JStr (news_title d)), (''description'', JStr (news_title d))] (cs_llm s) of
             (v, l) \<Rightarrow>
               let s1 = s\<lparr>cs_llm := l\<rparr>
               in case rating_of v of
                    None \<Rightarrow> (False, s1)
                  | Some (score, why) \<Rightarrow>
                      (case set_sentiment_score (cr_reason_text w) (cr_link w) (c # cs) score why (url_value (nd_url d)) JNull
                              (cs_redis s1) of
                         Inl _ \<Rightarrow> (False, s1)
                       | Inr (_, r) \<Rightarrow>
                           let s2 = s1\<lparr>cs_redis := r\<rparr>
                           in case save_news_sentiment (cr_store_fault w d) (cr_times w) (c # cs) (news_title d) score why
                                     (nd_url d) (published_of d) (cs_news s2) of
                                Inl _ \<Rightarrow> (False, s2)
                              | Inr rows \<Rightarrow> (True, s2\<lparr>cs_news := rows\<rparr>))))"

fun rate_documents ::
  "crawler_world \<Rightarrow> llm_world \<Rightarrow> int \<Rightarrow> news_doc list \<Rightarrow> crawler_state \<Rightarrow> int \<times> crawler_state" where
  "rate_documents w brain n [] s = (n, s)"
| "rate_documents w brain n (d # ds) s =
     (if 0 < cr_max w \<and> cr_max w \<le> n then (n, s)
      else (case rate_document w brain d s of
              (ok, s') \<Rightarrow> rate_documents w brain (if ok then n + 1 else n) ds s'))"

definition process_sentiment_analysis :: "crawler_world \<Rightarrow> news_doc list \<Rightarrow> crawler_state \<Rightarrow> crawler_state" where
  "process_sentiment_analysis w docs s =
     (case cr_llm w of None \<Rightarrow> s | Some brain \<Rightarrow> if docs = [] then s else snd (rate_documents w brain 0 docs s))"

section \<open>Benefits of competitors\<close>

definition bad_news :: "news_doc \<Rightarrow> (string \<times> classification) option" where
  "bad_news d =
     (case (filled [] (nd_stock d) [], classify NEWS_CATEGORIES (news_title d)) of
        (c # cs, Some k) \<Rightarrow>
          if cl_sentiment k \<noteq> ''NEGATIVE'' \<or> cl_benefit k \<le> 0 then None else Some (c # cs, k)
      | _ \<Rightarrow> None)"

definition affected_stock :: "crawler_world \<Rightarrow> string \<Rightarrow> industry_row option" where
  "affected_stock w code = find (\<lambda>r. in_code r = code) (cr_industry w)"

definition rivals :: "crawler_world \<Rightarrow> industry_row \<Rightarrow> industry_row list" where
  "rivals w a = filter (\<lambda>r. in_sector r = in_sector a \<and> in_code r \<noteq> in_code a \<and> in_active r = Some 1) (cr_industry w)"

text \<open>What identifies an event, and whether the table has one of the last day.\<close>

definition event_key :: "benefit_event \<Rightarrow> string \<times> string \<times> string" where
  "event_key e = (be_affected e, be_code e, be_type e)"

definition seen_today :: "crawler_world \<Rightarrow> benefit_event list \<Rightarrow> string \<times> string \<times> string \<Rightarrow> bool" where
  "seen_today w rows key \<longleftrightarrow>
     list_ex (\<lambda>e. event_key e = key \<and> (case be_detected e of None \<Rightarrow> False | Some t \<Rightarrow> cr_now w - 24 * 3600 \<le> t)) rows"

definition new_event :: "crawler_world \<Rightarrow> news_doc \<Rightarrow> classification \<Rightarrow> industry_row \<Rightarrow> industry_row \<Rightarrow> benefit_event" where
  "new_event w d k a r =
     \<lparr>be_affected = in_code a, be_affected_name = in_name a, be_type = cl_category k, be_title = take 1000 (news_title d),
      be_severity = cl_base k, be_url = nd_url d, be_code = in_code r, be_name = in_name r, be_score = cl_benefit k,
      be_sector = in_sector a, be_sector_name = in_sector_name a, be_status = ''ACTIVE'',
      be_expires = cr_now w + of_int (cl_duration k) * 86400, be_detected = None\<rparr>"

definition benefit_reason :: "industry_row \<Rightarrow> classification \<Rightarrow> string" where
  "benefit_reason a k = [CHR 0xEA, CHR 0xB2, CHR 0xBD, CHR 0xEC, CHR 0x9F, CHR 0x81, CHR 0xEC, CHR 0x82, CHR 0xAC, CHR 0x20] @ in_name a @ [CHR 0xEC, CHR 0x9D, CHR 0x98, CHR 0x20] @ cl_category k @ [CHR 0xEB, CHR 0xA1, CHR 0x9C, CHR 0x20, CHR 0xEC, CHR 0x9D, CHR 0xB8, CHR 0xED, CHR 0x95, CHR 0x9C, CHR 0x20, CHR 0xEC, CHR 0x88, CHR 0x98, CHR 0xED, CHR 0x98, CHR 0x9C]"

text \<open>The query sees the table only, not what is pending in the session.\<close>

definition register_rival ::
  "crawler_world \<Rightarrow> benefit_event list \<Rightarrow> news_doc \<Rightarrow> classification \<Rightarrow> industry_row \<Rightarrow> industry_row \<Rightarrow>
   benefit_event list \<times> redis \<Rightarrow> benefit_event list \<times> redis" where
  "register_rival w rows d k a r = (\<lambda>(pending, s).
     if seen_today w rows (in_code a, in_code r, cl_category k) then (pending, s)
     else (pending @ [new_event w d k a r],
           snd (set_competitor_benefit_score (cr_link w) (in_code r) (of_int (cl_benefit k)) (benefit_reason a k)
                 (in_code a) (cl_category k) (cl_duration k * 86400) s)))"

definition register_document ::
  "crawler_world \<Rightarrow> benefit_event list \<Rightarrow> news_doc \<Rightarrow> benefit_event list \<times> redis \<Rightarrow> benefit_event list \<times> redis" where
  "register_document w rows d p =
     (case bad_news d of
        None \<Rightarrow> p
      | Some (code, k) \<Rightarrow>
          (case affected_stock w code of
             None \<Rightarrow> p
           | Some a \<Rightarrow> fold (register_rival w rows d k a) (rivals w a) p))"

text \<open>The server writes the time of detection when the session commits.\<close>

definition process_competitor_benefit_analysis :: "crawler_world \<Rightarrow> news_doc list \<Rightarrow> crawler_state \<Rightarrow> crawler_state" where
  "process_competitor_benefit_analysis w docs s =
     (if docs = [] \<or> \<not> cr_session w then s
      else case fold (register_document w (cs_events s)) docs ([], cs_redis s) of
             (pending, r) \<Rightarrow>
               s\<lparr>cs_redis := r,
                 cs_events := cs_events s @ (if cr_commit w then map (\<lambda>e. e\<lparr>be_detected := Some (cr_db_now w)\<rparr>) pending else [])\<rparr>)"

section \<open>The vector store\<close>

definition VERTEX_AI_BATCH_SIZE :: nat where "VERTEX_AI_BATCH_SIZE = 10"
definition DATA_TTL_DAYS :: int where "DATA_TTL_DAYS = 7"

text \<open>The first batch that fails ends the writing; those before it stay.\<close>

function add_batches :: "(nat \<Rightarrow> bool) \<Rightarrow> nat \<Rightarrow> news_doc list \<Rightarrow> news_doc list \<Rightarrow> news_doc list" where
  "add_batches ok i chunks store =
     (if chunks = [] \<or> \<not> ok i then store
      else add_batches ok (Suc i) (drop VERTEX_AI_BATCH_SIZE chunks) (store @ take VERTEX_AI_BATCH_SIZE chunks))"
  by auto
termination
  by (relation "measure (\<lambda>(ok, i, chunks, store). length chunks)") (auto simp: VERTEX_AI_BATCH_SIZE_def)

declare add_batches.simps [simp del]

definition add_documents_to_chroma :: "crawler_world \<Rightarrow> news_doc list \<Rightarrow> crawler_state \<Rightarrow> crawler_state" where
  "add_documents_to_chroma w docs s =
     (if docs = [] then s
      else case cr_split w docs of
             Inl _ \<Rightarrow> s
           | Inr chunks \<Rightarrow> s\<lparr>cs_vectors := add_batches (cr_add w) 0 chunks (cs_vectors s)\<rparr>)"

definition cleanup_old_data_job :: "crawler_world \<Rightarrow> crawler_state \<Rightarrow> crawler_state" where
  "cleanup_old_data_job w s =
     (if \<not> cr_delete w then s
      else let limit = \<lfloor>cr_now w - of_int DATA_TTL_DAYS * 86400\<rfloor>
           in s\<lparr>cs_vectors := filter (\<lambda>d. case nd_created d of None \<Rightarrow> True | Some n \<Rightarrow> limit \<le> n) (cs_vectors s)\<rparr>)"

section \<open>The job\<close>

text \<open>The documents of the stocks come in the order in which the pool finishes.\<close>

definition fetched :: "crawler_world \<Rightarrow> (string \<times> feed_entry list res) list \<Rightarrow> (string \<times> string \<times> feed_entry list res) list \<Rightarrow> news_doc list" where
  "fetched w general stocks =
     crawl_general_news (cr_now w) general @
     concat (map (\<lambda>(code, name, feed). crawl_news_for_stock (cr_now w) code name feed) stocks)"

definition process_new :: "crawler_world \<Rightarrow> news_doc list \<Rightarrow> crawler_state \<Rightarrow> crawler_state" where
  "process_new w docs s =
     cleanup_old_data_job w (add_documents_to_chroma w docs
       (process_competitor_benefit_analysis w docs (process_sentiment_analysis w docs s)))"

definition collect :: "crawler_world \<Rightarrow> news_doc list \<Rightarrow> crawler_state \<Rightarrow> crawler_state" where
  "collect w docs s = (case filter_new_documents w docs s of Inl _ \<Rightarrow> s | Inr new \<Rightarrow> process_new w new s)"

definition run_collection_job ::
  "crawler_world \<Rightarrow> bool \<Rightarrow> (string \<times> feed_entry list res) list \<Rightarrow> (string \<times> string \<times> feed_entry list res) list \<Rightarrow>
   crawler_state \<Rightarrow> crawler_state" where
  "run_collection_job w services general stocks s =
     (if \<not> services then s else collect w (fetched w general stocks) s)"

section \<open>Lemmas\<close>

text \<open>What may be pending: events of the bad news that the table does not have from the last day.\<close>

definition event_grounds :: "crawler_world \<Rightarrow> benefit_event list \<Rightarrow> news_doc list \<Rightarrow> benefit_event \<Rightarrow> bool" where
  "event_grounds w rows docs e \<longleftrightarrow>
     \<not> seen_today w rows (event_key e) \<and> be_code e \<noteq> be_affected e \<and>
     (\<exists>d \<in> set docs. \<exists>k. bad_news d = Some (be_affected e, k) \<and> cl_category k = be_type e \<and> cl_benefit k = be_score e) \<and>
     (\<exists>r \<in> set (cr_industry w). in_code r = be_code e \<and> in_sector r = be_sector e \<and> in_active r = Some 1)"

lemma event_grounds_more: "event_grounds w rows docs e \<Longrightarrow> set docs \<subseteq> set docs' \<Longrightarrow> event_grounds w rows docs' e"
  unfolding event_grounds_def by blast

lemma affected_stock_code: "affected_stock w code = Some a \<Longrightarrow> in_code a = code"
  by (auto simp: affected_stock_def find_Some_iff)

lemma register_rival_pending:
  "fst (register_rival w rows d k a r p) =
     fst p @ (if seen_today w rows (in_code a, in_code r, cl_category k) then [] else [new_event w d k a r])"
  by (cases p) (simp add: register_rival_def)

lemma register_rivals_pending:
  "fst (fold (register_rival w rows d k a) rs p) =
     fst p @ map (new_event w d k a) (filter (\<lambda>r. \<not> seen_today w rows (in_code a, in_code r, cl_category k)) rs)"
  by (induction rs arbitrary: p) (simp_all add: register_rival_pending)

definition events_of :: "crawler_world \<Rightarrow> benefit_event list \<Rightarrow> news_doc \<Rightarrow> benefit_event list" where
  "events_of w rows d =
     (case bad_news d of
        None \<Rightarrow> []
      | Some (code, k) \<Rightarrow>
          (case affected_stock w code of
             None \<Rightarrow> []
           | Some a \<Rightarrow>
               map (new_event w d k a)
                 (filter (\<lambda>r. \<not> seen_today w rows (in_code a, in_code r, cl_category k)) (rivals w a))))"

lemma register_document_pending: "fst (register_document w rows d p) = fst p @ events_of w rows d"
  by (auto simp: register_document_def events_of_def register_rivals_pending split: option.split)

lemma register_documents_pending:
  "fst (fold (register_document w rows) docs p) = fst p @ concat (map (events_of w rows) docs)"
  by (induction docs arbitrary: p) (simp_all add: register_document_pending)

text \<open>The events of a run are those of its documents one by one, against the table as it was before.\<close>

lemma events_after:
  "cs_events (process_competitor_benefit_analysis w docs s) =
     cs_events s @ (if cr_session w \<and> cr_commit w
                    then map (\<lambda>e. e\<lparr>be_detected := Some (cr_db_now w)\<rparr>) (concat (map (events_of w (cs_events s)) docs)) else [])"
proof -
  have "fst (fold (register_document w (cs_events s)) docs ([], cs_redis s)) = concat (map (events_of w (cs_events s)) docs)"
    by (simp add: register_documents_pending)
  then show ?thesis by (auto simp: process_competitor_benefit_analysis_def split: prod.split)
qed

lemma events_of_grounds:
  assumes "e \<in> set (events_of w rows d)"
  shows "event_grounds w rows [d] e"
proof -
  from assms obtain code k a r where x: "bad_news d = Some (code, k)" "affected_stock w code = Some a" "r \<in> set (rivals w a)"
    "\<not> seen_today w rows (in_code a, in_code r, cl_category k)" "e = new_event w d k a r"
  proof (cases "bad_news d")
    case (Some p)
    then show ?thesis
    proof (cases "affected_stock w (fst p)")
      case (Some a)
      with \<open>bad_news d = Some p\<close> assms that show ?thesis by (cases p) (auto simp: events_of_def)
    qed (use Some assms in \<open>cases p, simp add: events_of_def\<close>)
  qed (use assms in \<open>simp add: events_of_def\<close>)
  note c = affected_stock_code [OF x(2)]
  show ?thesis using x(1,3,4) c unfolding x(5)
    by (auto simp: event_grounds_def new_event_def event_key_def rivals_def)
qed

text \<open>
  C37. A run adds events to the table and changes none. Each new one comes from bad news of the run
  about another stock, is for an active stock of the sector, and the table had no event of the
  same two stocks and the same kind from the last day.
\<close>

theorem new_events_grounded:
  assumes "e \<in> set (drop (length (cs_events s)) (cs_events (process_competitor_benefit_analysis w docs s)))"
  shows "take (length (cs_events s)) (cs_events (process_competitor_benefit_analysis w docs s)) = cs_events s \<and>
    event_grounds w (cs_events s) docs e \<and> be_detected e = Some (cr_db_now w)"
proof -
  from assms obtain x d where x: "d \<in> set docs" "x \<in> set (events_of w (cs_events s) d)"
    "e = x\<lparr>be_detected := Some (cr_db_now w)\<rparr>"
    by (auto simp: events_after split: if_splits)
  have "event_grounds w (cs_events s) docs x"
    by (rule event_grounds_more [OF events_of_grounds [OF x(2)]]) (use x(1) in simp)
  then show ?thesis
    by (simp add: x(3) events_after event_grounds_def event_key_def)
qed

definition events_with :: "string \<times> string \<times> string \<Rightarrow> benefit_event list \<Rightarrow> nat" where
  "events_with key rows = length (filter (\<lambda>e. event_key e = key) rows)"

lemma events_with_append: "events_with key (xs @ ys) = events_with key xs + events_with key ys"
  by (simp add: events_with_def)

lemma events_with_positive: "e \<in> set rows \<Longrightarrow> event_key e = key \<Longrightarrow> 0 < events_with key rows"
  by (auto simp: events_with_def filter_empty_conv)

lemma events_with_detected: "events_with key (map (\<lambda>e. e\<lparr>be_detected := t\<rparr>) rows) = events_with key rows"
  by (simp add: events_with_def event_key_def filter_map o_def)

lemma registers:
  assumes "bad_news d = Some (code, k)" "affected_stock w code = Some a" "r \<in> set (rivals w a)"
    "\<not> seen_today w rows (code, in_code r, cl_category k)"
  shows "0 < events_with (code, in_code r, cl_category k) (events_of w rows d)"
proof (rule events_with_positive [of "new_event w d k a r"])
  note c = affected_stock_code [OF assms(2)]
  show "new_event w d k a r \<in> set (events_of w rows d)" using assms c by (simp add: events_of_def)
  show "event_key (new_event w d k a r) = (code, in_code r, cl_category k)" using c by (simp add: event_key_def new_event_def)
qed

text \<open>
  C20. Two news of one run about the same stock, of the same category, are both registered for every
  competitor, although the second is to be skipped as a repetition within a day: the query does
  not see the event that is pending in the session.
\<close>

theorem same_incident_registered_twice:
  assumes "bad_news d1 = Some (code, k1)" "bad_news d2 = Some (code, k2)" "cl_category k1 = cl_category k2"
    "affected_stock w code = Some a" "r \<in> set (rivals w a)"
    "\<not> seen_today w (cs_events s) (code, in_code r, cl_category k1)" "cr_session w" "cr_commit w"
  shows "2 \<le> events_with (code, in_code r, cl_category k1)
               (cs_events (process_competitor_benefit_analysis w (xs @ d1 # ys @ d2 # zs) s))"
proof -
  have "0 < events_with (code, in_code r, cl_category k1) (events_of w (cs_events s) d1)"
    by (rule registers [OF assms(1,4,5,6)])
  moreover have "0 < events_with (code, in_code r, cl_category k1) (events_of w (cs_events s) d2)"
    using registers [OF assms(2,4,5)] assms(3,6) by simp
  ultimately show ?thesis using assms(7,8) by (simp add: events_after events_with_append events_with_detected)
qed

section \<open>What the limit leaves over\<close>

lemma rate_documents_append:
  "rate_documents w brain n (xs @ ys) s =
     (case rate_documents w brain n xs s of (m, s') \<Rightarrow> rate_documents w brain m ys s')"
proof (induction xs arbitrary: n s)
  case (Cons d xs)
  show ?case
  proof (cases "0 < cr_max w \<and> cr_max w \<le> n")
    case True
    then show ?thesis by (cases ys) simp_all
  next
    case False
    then show ?thesis by (cases "rate_document w brain d s") (simp add: Cons.IH del: de_Morgan_conj)
  qed
qed simp

lemma rate_documents_bound:
  "rate_documents w brain n docs s = (m, s') \<Longrightarrow> 0 < cr_max w \<Longrightarrow> n \<le> cr_max w \<Longrightarrow> n \<le> m \<and> m \<le> cr_max w"
proof (induction docs arbitrary: n s)
  case (Cons d ds)
  show ?case
  proof (cases "cr_max w \<le> n")
    case True
    with Cons.prems show ?thesis by simp
  next
    case False
    obtain ok t where "rate_document w brain d s = (ok, t)" by (cases "rate_document w brain d s")
    with False Cons.prems have "rate_documents w brain (if ok then n + 1 else n) ds t = (m, s')" by simp
    from Cons.IH [OF this Cons.prems(2)] False show ?thesis by (cases ok) auto
  qed
qed simp

lemma rate_documents_full: "0 < cr_max w \<Longrightarrow> cr_max w \<le> n \<Longrightarrow> rate_documents w brain n docs s = (n, s)"
  by (cases docs) simp_all

lemma other_parts [simp]:
  "cs_news (process_competitor_benefit_analysis w docs s) = cs_news s"
  "cs_vectors (process_competitor_benefit_analysis w docs s) = cs_vectors s"
  "cs_news (add_documents_to_chroma w docs s) = cs_news s"
  "cs_news (cleanup_old_data_job w s) = cs_news s"
  by (simp_all add: process_competitor_benefit_analysis_def add_documents_to_chroma_def cleanup_old_data_job_def Let_def
      split: prod.split sum.split)

lemma add_batches_all: "(\<And>i. ok i) \<Longrightarrow> add_batches ok i chunks store = store @ chunks"
proof (induction ok i chunks store rule: add_batches.induct)
  case (1 ok i chunks store)
  show ?case
  proof (cases "chunks = []")
    case True
    then show ?thesis by (subst add_batches.simps) simp
  next
    case False
    have "ok i" by (rule 1(2))
    have "add_batches ok (Suc i) (drop VERTEX_AI_BATCH_SIZE chunks) (store @ take VERTEX_AI_BATCH_SIZE chunks) = store @ chunks"
      using 1(1) [OF _ 1(2)] False \<open>ok i\<close> by simp
    with False \<open>ok i\<close> show ?thesis by (subst add_batches.simps) simp
  qed
qed

lemma cleanup_keeps:
  assumes "d \<in> set (cs_vectors s)" "nd_created d = Some n" "cr_now w - 7 * 86400 \<le> of_int n"
  shows "d \<in> set (cs_vectors (cleanup_old_data_job w s))"
proof -
  have "\<lfloor>cr_now w - 7 * 86400\<rfloor> \<le> n" using assms(3) by linarith
  with assms show ?thesis by (simp add: cleanup_old_data_job_def Let_def DATA_TTL_DAYS_def)
qed

text \<open>
  C21. Once the limit of a run is reached, the next document is not rated but stored, and so the next
  run takes it for an old one and does not rate it either, although the log says that it will.
  (Splitting keeps the link and the time of a document in one of its chunks.)
\<close>

theorem left_over_is_never_rated:
  assumes "cr_llm w = Some brain" "0 < cr_max w" "rate_documents w brain 0 before s = (cr_max w, s1)"
    "cr_split w (before @ d # later) = Inr chunks"
    "c \<in> set chunks" "nd_url c = nd_url d" "nd_created c = Some n" "cr_now w - 7 * 86400 \<le> of_int n" "nd_url d = Some u"
    "\<And>i. cr_add w i" "cr_lookup w'"
  shows "cs_news (process_new w (before @ d # later) s) = cs_news s1 \<and>
    filter_new_documents w' [d] (process_new w (before @ d # later) s) = Inr []"
proof -
  have "rate_documents w brain 0 (before @ d # later) s = (cr_max w, s1)"
    using rate_documents_append [of w brain 0 before "d # later" s] assms(3) rate_documents_full [of w "cr_max w" brain "d # later" s1] assms(2)
    by simp
  then have rated: "process_sentiment_analysis w (before @ d # later) s = s1"
    by (simp add: process_sentiment_analysis_def assms(1))
  define t where "t = process_competitor_benefit_analysis w (before @ d # later) s1"
  have "c \<in> set (cs_vectors (add_documents_to_chroma w (before @ d # later) t))"
    using assms(4,5,10) by (simp add: add_documents_to_chroma_def add_batches_all)
  then have "c \<in> set (cs_vectors (process_new w (before @ d # later) s))"
    unfolding process_new_def rated t_def [symmetric] by (rule cleanup_keeps [OF _ assms(7,8)])
  then have "nd_url d \<in> nd_url ` set (cs_vectors (process_new w (before @ d # later) s))"
    using assms(6) by (metis image_eqI)
  then have "filter_new_documents w' [d] (process_new w (before @ d # later) s) = Inr []"
    using assms(9,11) by (simp add: filter_new_documents_def)
  moreover have "cs_news (process_new w (before @ d # later) s) = cs_news s1" by (simp add: process_new_def rated)
  ultimately show ?thesis by blast
qed

text \<open>A run rates at most as many documents as the limit allows.\<close>

lemma rated_at_most:
  assumes "rate_documents w brain 0 docs s = (m, s')" "0 < cr_max w"
  shows "m \<le> cr_max w"
  using rate_documents_bound [OF assms] assms(2) by simp

section \<open>An example\<close>

definition demo_doc :: "string \<Rightarrow> news_doc" where
  "demo_doc link =
     \<lparr>nd_content = hacking @ [CHR 0x0A] @ link, nd_stock = Some ''B'', nd_stock_name = None, nd_source = [],
      nd_url = Some link, nd_created = Some 0\<rparr>"

definition demo_crawler :: crawler_world where
  "demo_crawler =
     \<lparr>cr_llm = None, cr_link = \<lparr>connected = False, link_fault = False, clock = 0\<rparr>, cr_reason_text = (\<lambda>a t b. t),
      cr_store_fault = (\<lambda>d. None), cr_times = \<lparr>tl_from_stamp = (\<lambda>n. Inr (of_int n)), tl_from_iso = (\<lambda>t. Inl ValueError),
        tl_strptime = (\<lambda>t. Inl ValueError)\<rparr>,
      cr_now = 0, cr_db_now = 0, cr_industry = [demo_industry ''A'', demo_industry ''B''], cr_session = True, cr_commit = True,
      cr_max = 40, cr_lookup = True, cr_split = (\<lambda>ds. Inr ds), cr_add = (\<lambda>i. True), cr_delete = True\<rparr>"

definition demo_crawled :: crawler_state where
  "demo_crawled =
     \<lparr>cs_llm = \<lparr>ls_requests = [], ls_model = None, ls_slept = 0\<rparr>, cs_redis = [], cs_news = [], cs_events = [], cs_vectors = []\<rparr>"

lemma demo_bad_news:
  "bad_news (demo_doc link) = Some (''B'', classification_of hacking security_incident security_incident_info)"
proof -
  have "news_title (demo_doc link) = hacking"
    by (simp add: news_title_def demo_doc_def hacking_def title_prefix_def)
  then show ?thesis
    by (simp add: bad_news_def hacking_classified classification_of_def security_incident_info_def category_of_def or_value_def
        filled_def demo_doc_def)
qed

lemma demo_rivals:
  "affected_stock demo_crawler ''B'' = Some (demo_industry ''B'')" "rivals demo_crawler (demo_industry ''B'') = [demo_industry ''A'']"
  by (simp_all add: affected_stock_def rivals_def demo_crawler_def demo_industry_def)

lemma demo_crawler_simps:
  "cr_session demo_crawler" "cr_commit demo_crawler" "cr_db_now demo_crawler = 0" "in_code (demo_industry c) = c"
  "cs_events demo_crawled = []" "cl_category (classification_of t n i) = n" "\<not> seen_today w [] k"
  by (simp_all add: demo_crawler_def demo_industry_def demo_crawled_def classification_of_def seen_today_def)

theorem same_incident_registered_twice_witness:
  "2 \<le> events_with (''B'', ''A'', security_incident)
         (cs_events (process_competitor_benefit_analysis demo_crawler [demo_doc ''x'', demo_doc ''y''] demo_crawled))"
  using same_incident_registered_twice [OF demo_bad_news [of "''x''"] demo_bad_news [of "''y''"] refl demo_rivals(1),
      of "demo_industry ''A''" demo_crawled "[]" "[]" "[]"]
  by (simp add: demo_rivals(2) demo_crawler_simps)

theorem new_events_grounded_witness:
  "\<exists>e. event_grounds demo_crawler [] [demo_doc ''x''] e \<and> be_detected e = Some 0"
proof -
  let ?e = "new_event demo_crawler (demo_doc ''x'') (classification_of hacking security_incident security_incident_info)
    (demo_industry ''B'') (demo_industry ''A'')\<lparr>be_detected := Some (cr_db_now demo_crawler)\<rparr>"
  have "events_of demo_crawler [] (demo_doc ''x'') =
      [new_event demo_crawler (demo_doc ''x'') (classification_of hacking security_incident security_incident_info)
        (demo_industry ''B'') (demo_industry ''A'')]"
    by (simp add: events_of_def demo_bad_news demo_rivals demo_crawler_simps)
  then have "cs_events (process_competitor_benefit_analysis demo_crawler [demo_doc ''x''] demo_crawled) = [?e]"
    by (simp add: events_after demo_crawler_simps)
  then have "?e \<in> set (drop (length (cs_events demo_crawled))
      (cs_events (process_competitor_benefit_analysis demo_crawler [demo_doc ''x''] demo_crawled)))"
    by (simp add: demo_crawler_simps)
  from new_events_grounded [OF this] show ?thesis by (intro exI [of _ ?e]) (simp add: demo_crawler_simps)
qed

text \<open>Without a model every rating is neutral. The limit is one document.\<close>

definition small_crawler :: crawler_world where
  "small_crawler =
     demo_crawler\<lparr>cr_llm := Some (demo_llm (Inl ApiError)\<lparr>lw_environ := (\<lambda>_. Some ''none'')\<rparr>), cr_max := 1\<rparr>"

lemma small_rated:
  "\<exists>s1. rate_documents small_crawler (demo_llm (Inl ApiError)\<lparr>lw_environ := (\<lambda>_. Some ''none'')\<rparr>) 0 [demo_doc ''x''] demo_crawled = (1, s1) \<and>
     length (cs_news s1) = 1"
proof -
  let ?b = "demo_llm (Inl ApiError)\<lparr>lw_environ := (\<lambda>_. Some ''none'')\<rparr>"
  have none: "brain_provider ?b FAST = None"
    by (simp add: brain_provider_def get_provider_def env_provider_type_def Let_def demo_llm_def) code_simp
  then obtain why where v: "analyze_news_sentiment ?b news s = (neutral why, s)" for news s
    by (simp add: analyze_news_sentiment_def)
  have "rate_document small_crawler ?b (demo_doc ''x'') demo_crawled =
      (True, demo_crawled\<lparr>cs_news := [\<lparr>sn_code = ''B'', sn_title = news_title (demo_doc ''x''), sn_score = 50, sn_reason = why,
        sn_url = Some ''x'', sn_published = Some 0\<rparr>]\<rparr>)"
    by (simp add: rate_document_def v rating_of_def neutral_def field_def demo_doc_def filled_def set_sentiment_score_def
        small_crawler_def demo_crawler_def save_news_sentiment_def published_of_def published_at_of_def rbind_def demo_crawled_def)
  then show ?thesis by (simp add: small_crawler_def)
qed

theorem left_over_is_never_rated_witness:
  "length (cs_news (process_new small_crawler [demo_doc ''x'', demo_doc ''y''] demo_crawled)) = 1 \<and>
   filter_new_documents small_crawler [demo_doc ''y''] (process_new small_crawler [demo_doc ''x'', demo_doc ''y''] demo_crawled) = Inr []"
proof -
  let ?b = "demo_llm (Inl ApiError)\<lparr>lw_environ := (\<lambda>_. Some ''none'')\<rparr>"
  obtain s1 where s1: "rate_documents small_crawler ?b 0 [demo_doc ''x''] demo_crawled = (1, s1)" "length (cs_news s1) = 1"
    using small_rated by blast
  have parts: "cr_llm small_crawler = Some ?b" "cr_max small_crawler = 1" "\<And>ds. cr_split small_crawler ds = Inr ds"
    "cr_now small_crawler = 0" "\<And>i. cr_add small_crawler i" "cr_lookup small_crawler"
    by (simp_all add: small_crawler_def demo_crawler_def)
  show ?thesis
    using left_over_is_never_rated [of small_crawler ?b "[demo_doc ''x'']" demo_crawled s1 "demo_doc ''y''" "[]"
        "[demo_doc ''x'', demo_doc ''y'']" "demo_doc ''y''" 0 "''y''" small_crawler] s1
    by (simp add: parts demo_doc_def)
qed

end
