(* ===== verification/Pair_Trading.thy ===== *)
theory Pair_Trading
  imports News_Crawler
begin

text \<open>
  \<open>shared/strategies/pair_trading.py\<close>: a signal to sell the stock that bad news are about and
  to buy one of its sector that gained from such news before. The counter of signals is the
  state. The display of a signal is left out.
\<close>

section \<open>Signals\<close>

record pair_position =
  pp_code :: string
  pp_name :: string
  pp_direction :: string
  pp_weight :: rat
  pp_reason :: string
  pp_exchange :: string

record pair_signal =
  ps_id :: string
  ps_strategy :: string
  ps_long :: pair_position
  ps_short :: pair_position
  ps_event :: string
  ps_severity :: int
  ps_company :: string
  ps_rate :: rat
  ps_spread :: rat
  ps_return :: rat
  ps_confidence :: string
  ps_stop :: rat
  ps_profit :: rat
  ps_days :: int
  ps_sector :: string
  ps_sector_name :: string
  ps_samples :: int
  ps_expires :: rat
  ps_executable :: bool
  ps_notes :: "string list"

text \<open>The dict of an event; without the key the severity is 0, it may also be there as None.\<close>

record pair_event =
  pe_company :: "string option"
  pe_code :: "string option"
  pe_type :: "string option"
  pe_severity :: "int option option"

text \<open>The tables, the time, the date and the number of a signal in its name.\<close>

record pair_world =
  pw_industry :: "industry_row list"
  pw_relations :: "relation_row list"
  pw_events :: "benefit_event list"
  pw_now :: rat
  pw_date :: string
  pw_number :: "nat \<Rightarrow> string"

definition MIN_PAIR_RATE :: rat where "MIN_PAIR_RATE = 5/10"
definition MIN_SAMPLE_COUNT :: int where "MIN_SAMPLE_COUNT = 20"
definition MIN_SEVERITY :: int where "MIN_SEVERITY = - 8"
definition DEFAULT_WEIGHT :: rat where "DEFAULT_WEIGHT = 5/10"

text \<open>\<open>order_by(rate.desc()).first()\<close>: rows without a rate come last, of equal ones the first.\<close>

definition rate_below :: "relation_row \<Rightarrow> relation_row \<Rightarrow> bool" where
  "rate_below x y = (case (sr_rate x, sr_rate y) of
     (None, Some _) \<Rightarrow> True | (Some a, Some b) \<Rightarrow> a < b | _ \<Rightarrow> False)"

definition best_relation :: "relation_row list \<Rightarrow> relation_row option" where
  "best_relation rows = (case rows of [] \<Rightarrow> None | r # rs \<Rightarrow> Some (foldl (\<lambda>x y. if rate_below x y then y else x) r rs))"

definition pair_relation :: "pair_world \<Rightarrow> industry_row \<Rightarrow> relation_row option" where
  "pair_relation w a =
     (case best_relation (filter (\<lambda>r. sr_leader r = in_code a) (pw_relations w)) of
        Some r \<Rightarrow> Some r
      | None \<Rightarrow> best_relation (filter (\<lambda>r. sr_sector r = in_sector a) (pw_relations w)))"

definition pair_confidence :: "rat \<Rightarrow> int \<Rightarrow> string" where
  "pair_confidence rate samples =
     (if 6/10 \<le> rate \<and> 50 \<le> samples then ''HIGH'' else if 5/10 \<le> rate \<and> 30 \<le> samples then ''MID'' else ''LOW'')"

definition execution :: "string option \<Rightarrow> bool \<times> string list" where
  "execution exchange =
     (if exchange = Some ''KRX'' then (False, [[CHR 0xE2, CHR 0x9A, CHR 0xA0, CHR 0xEF, CHR 0xB8, CHR 0x8F, CHR 0x20, CHR 0xED, CHR 0x95, CHR 0x9C, CHR 0xEA, CHR 0xB5, CHR 0xAD, CHR 0x20, CHR 0xEC, CHR 0x8B, CHR 0x9C, CHR 0xEC, CHR 0x9E, CHR 0xA5, CHR 0x3A, CHR 0x20, CHR 0xEA, CHR 0xB0, CHR 0x9C, CHR 0xEC, CHR 0x9D, CHR 0xB8, CHR 0x20, CHR 0xEA, CHR 0xB3, CHR 0xB5, CHR 0xEB, CHR 0xA7, CHR 0xA4, CHR 0xEB, CHR 0x8F, CHR 0x84, CHR 0x20, CHR 0xEC, CHR 0xA0, CHR 0x9C, CHR 0xED, CHR 0x95, CHR 0x9C]])
      else if exchange \<in> {Some ''NYSE'', Some ''NASDAQ''} then (True, [[CHR 0xE2, CHR 0x9C, CHR 0x85, CHR 0x20, CHR 0xEB, CHR 0xAF, CHR 0xB8, CHR 0xEA, CHR 0xB5, CHR 0xAD, CHR 0x20, CHR 0xEC, CHR 0x8B, CHR 0x9C, CHR 0xEC, CHR 0x9E, CHR 0xA5, CHR 0x3A, CHR 0x20, CHR 0xEA, CHR 0xB3, CHR 0xB5, CHR 0xEB, CHR 0xA7, CHR 0xA4, CHR 0xEB, CHR 0x8F, CHR 0x84, CHR 0x20, CHR 0xEA, CHR 0xB0, CHR 0x80, CHR 0xEB, CHR 0x8A, CHR 0xA5]])
      else (True, []))"

definition pair_position_of :: "industry_row \<Rightarrow> string \<Rightarrow> string \<Rightarrow> pair_position" where
  "pair_position_of r direction why =
     \<lparr>pp_code = in_code r, pp_name = in_name r, pp_direction = direction, pp_weight = DEFAULT_WEIGHT, pp_reason = why,
      pp_exchange = filled [] (in_exchange r) ''KRX''\<rparr>"

definition signal_of ::
  "pair_world \<Rightarrow> nat \<Rightarrow> string \<Rightarrow> string \<Rightarrow> int \<Rightarrow> industry_row \<Rightarrow> industry_row \<Rightarrow> relation_row \<Rightarrow> rat \<Rightarrow> int \<Rightarrow> rat \<Rightarrow> pair_signal" where
  "signal_of w n company event severity a b r rate samples spread =
     \<lparr>ps_id = ''PAIR_'' @ pw_date w @ ''_'' @ pw_number w n, ps_strategy = ''PAIR_TRADE'',
      ps_long = pair_position_of b ''LONG'' ([CHR 0xEA, CHR 0xB2, CHR 0xBD, CHR 0xEC, CHR 0x9F, CHR 0x81, CHR 0xEC, CHR 0x82, CHR 0xAC, CHR 0x20] @ company @ [CHR 0xEC, CHR 0x9D, CHR 0x98, CHR 0x20] @ event @ [CHR 0xEB, CHR 0xA1, CHR 0x9C, CHR 0x20, CHR 0xEC, CHR 0x9D, CHR 0xB8, CHR 0xED, CHR 0x95, CHR 0x9C, CHR 0x20, CHR 0xEC, CHR 0x88, CHR 0x98, CHR 0xED, CHR 0x98, CHR 0x9C, CHR 0x20, CHR 0xEC, CHR 0x98, CHR 0x88, CHR 0xEC, CHR 0x83, CHR 0x81]),
      ps_short = pair_position_of a ''SHORT'' (event @ [CHR 0xEC, CHR 0x9C, CHR 0xBC, CHR 0xEB, CHR 0xA1, CHR 0x9C, CHR 0x20, CHR 0xEC, CHR 0x9D, CHR 0xB8, CHR 0xED, CHR 0x95, CHR 0x9C, CHR 0x20, CHR 0xED, CHR 0x95, CHR 0x98, CHR 0xEB, CHR 0x9D, CHR 0xBD, CHR 0x20, CHR 0xEC, CHR 0x98, CHR 0x88, CHR 0xEC, CHR 0x83, CHR 0x81]),
      ps_event = event, ps_severity = severity, ps_company = company, ps_rate = rate, ps_spread = spread, ps_return = spread,
      ps_confidence = pair_confidence rate samples, ps_stop = filled 0 (sr_stop r) (- 3/100),
      ps_profit = filled 0 (sr_profit r) (8/100), ps_days = filled 0 (sr_days r) 20, ps_sector = in_sector a,
      ps_sector_name = in_sector_name a, ps_samples = samples,
      ps_expires = pw_now w + of_int (filled 0 (sr_days r) 20) * 86400,
      ps_executable = fst (execution (in_exchange a)), ps_notes = snd (execution (in_exchange a))\<rparr>"

text \<open>
  The counter goes up before the spread is computed, which needs the gain of the beneficiary; a
  rate or a number of samples that is NULL makes its comparison raise.
\<close>

definition signal_from ::
  "pair_world \<Rightarrow> string \<Rightarrow> string \<Rightarrow> int \<Rightarrow> industry_row \<Rightarrow> relation_row \<Rightarrow> nat \<Rightarrow> pair_signal option res \<times> nat" where
  "signal_from w company event severity a r n =
     (case sr_rate r of
        None \<Rightarrow> (Inl TypeError, n)
      | Some rate \<Rightarrow>
          if rate < MIN_PAIR_RATE then (Inr None, n)
          else (case sr_samples r of
                  None \<Rightarrow> (Inl TypeError, n)
                | Some samples \<Rightarrow>
                    if samples < MIN_SAMPLE_COUNT then (Inr None, n)
                    else (case find (\<lambda>x. in_code x = sr_follower r) (pw_industry w) of
                            None \<Rightarrow> (Inr None, n)
                          | Some b \<Rightarrow>
                              (case sr_return r of
                                 None \<Rightarrow> (Inl TypeError, Suc n)
                               | Some gain \<Rightarrow>
                                   (Inr (Some (signal_of w (Suc n) company event severity a b r rate samples
                                      (gain + \<bar>filled 0 (sr_drop r) 0\<bar>))), Suc n)))))"

definition generate_pair_signal :: "pair_world \<Rightarrow> pair_event \<Rightarrow> nat \<Rightarrow> pair_signal option res \<times> nat" where
  "generate_pair_signal w e n =
     (let code = filled [] (pe_code e) []; company = filled [] (pe_company e) []; event = filled [] (pe_type e) []
      in if code = [] \<or> company = [] \<or> event = [] then (Inr None, n)
         else (case or_value (pe_severity e) (Some 0) of
                 None \<Rightarrow> (Inl TypeError, n)
               | Some severity \<Rightarrow>
                   if MIN_SEVERITY < severity then (Inr None, n)
                   else (case find (\<lambda>x. in_code x = code) (pw_industry w) of
                           None \<Rightarrow> (Inr None, n)
                         | Some a \<Rightarrow>
                             (case pair_relation w a of
                                None \<Rightarrow> (Inr None, n)
                              | Some r \<Rightarrow> signal_from w company event severity a r n))))"

section \<open>Active signals\<close>

definition pair_event_of :: "benefit_event \<Rightarrow> pair_event" where
  "pair_event_of e =
     \<lparr>pe_company = Some (be_affected_name e), pe_code = Some (be_affected e), pe_type = Some (be_type e),
      pe_severity = Some (Some (be_severity e))\<rparr>"

definition active_events :: "pair_world \<Rightarrow> benefit_event list" where
  "active_events w =
     sort_key (\<lambda>e. - be_score e) (filter (\<lambda>e. be_status e = ''ACTIVE'' \<and> pw_now w \<le> be_expires e) (pw_events w))"

fun signals_of :: "pair_world \<Rightarrow> benefit_event list \<Rightarrow> nat \<Rightarrow> (pair_signal \<times> benefit_event) list res \<times> nat" where
  "signals_of w [] n = (Inr [], n)"
| "signals_of w (e # es) n =
     (case generate_pair_signal w (pair_event_of e) n of
        (Inl x, n') \<Rightarrow> (Inl x, n')
      | (Inr s, n') \<Rightarrow>
          (case signals_of w es n' of
             (Inl x, n'') \<Rightarrow> (Inl x, n'')
           | (Inr ss, n'') \<Rightarrow> (Inr ((case s of None \<Rightarrow> [] | Some y \<Rightarrow> [(y, e)]) @ ss), n'')))"

definition get_active_pair_signals :: "pair_world \<Rightarrow> nat \<Rightarrow> (pair_signal \<times> benefit_event) list res \<times> nat" where
  "get_active_pair_signals w n = signals_of w (active_events w) n"

text \<open>The two functions for single questions make a strategy of their own.\<close>

definition analyze_pair_opportunity :: "pair_world \<Rightarrow> string \<Rightarrow> string \<Rightarrow> int \<Rightarrow> pair_signal option res" where
  "analyze_pair_opportunity w code event severity =
     (case find (\<lambda>x. in_code x = code) (pw_industry w) of
        None \<Rightarrow> Inr None
      | Some a \<Rightarrow>
          fst (generate_pair_signal w
            \<lparr>pe_company = Some (in_name a), pe_code = Some code, pe_type = Some event, pe_severity = Some (Some severity)\<rparr> 0))"

record pair_summary =
  pz_total :: nat
  pz_executable :: nat
  pz_high :: nat
  pz_signals :: "(pair_signal \<times> benefit_event) list"

definition get_pair_trading_summary :: "pair_world \<Rightarrow> pair_summary res" where
  "get_pair_trading_summary w =
     rbind (fst (get_active_pair_signals w 0)) (\<lambda>ss.
       Inr \<lparr>pz_total = length ss, pz_executable = length (filter (\<lambda>p. ps_executable (fst p)) ss),
            pz_high = length (filter (\<lambda>p. ps_confidence (fst p) = ''HIGH'') ss), pz_signals = take 10 ss\<rparr>)"

section \<open>Lemmas\<close>

text \<open>What a signal for a stock, an event and its severity promises.\<close>

definition signal_ok_for :: "pair_world \<Rightarrow> string \<Rightarrow> int \<Rightarrow> pair_signal \<Rightarrow> bool" where
  "signal_ok_for w code severity g \<longleftrightarrow>
     severity \<le> - 8 \<and> 1/2 \<le> ps_rate g \<and> 20 \<le> ps_samples g \<and> pp_code (ps_short g) = code \<and>
     (\<exists>r \<in> set (pw_relations w). sr_follower r = pp_code (ps_long g) \<and> sr_rate r = Some (ps_rate g) \<and>
        sr_samples r = Some (ps_samples g) \<and> (sr_leader r = code \<or> sr_sector r = ps_sector g))"

lemma best_relation_mem: "best_relation rows = Some r \<Longrightarrow> r \<in> set rows"
proof -
  have "foldl (\<lambda>x y. if rate_below x y then y else x) r rs \<in> insert r (set rs)" for r and rs :: "relation_row list"
  proof (induction rs arbitrary: r)
    case (Cons a rs)
    show ?case using Cons.IH [of "if rate_below r a then a else r"] by (auto split: if_splits)
  qed simp
  then show "best_relation rows = Some r \<Longrightarrow> r \<in> set rows" by (cases rows) (auto simp: best_relation_def)
qed

lemma pair_relation_mem:
  "pair_relation w a = Some r \<Longrightarrow> r \<in> set (pw_relations w) \<and> (sr_leader r = in_code a \<or> sr_sector r = in_sector a)"
  by (auto simp: pair_relation_def split: option.splits dest!: best_relation_mem)

lemma signal_from_ok:
  assumes "signal_from w company event severity a r n = (Inr (Some g), n')"
    "r \<in> set (pw_relations w)" "sr_leader r = in_code a \<or> sr_sector r = in_sector a" "severity \<le> - 8"
  shows "signal_ok_for w (in_code a) severity g \<and> n' = Suc n"
proof -
  from assms(1) obtain rate samples b gain where s: "sr_rate r = Some rate" "\<not> rate < MIN_PAIR_RATE" "sr_samples r = Some samples"
    "\<not> samples < MIN_SAMPLE_COUNT" "find (\<lambda>x. in_code x = sr_follower r) (pw_industry w) = Some b" "n' = Suc n"
    "g = signal_of w (Suc n) company event severity a b r rate samples (gain + \<bar>filled 0 (sr_drop r) 0\<bar>)"
    by (auto simp: signal_from_def split: option.splits if_splits)
  have b: "in_code b = sr_follower r" using s(5) by (auto simp: find_Some_iff)
  have g: "ps_rate g = rate" "ps_samples g = samples" "pp_code (ps_short g) = in_code a" "pp_code (ps_long g) = sr_follower r"
    "ps_sector g = in_sector a" by (simp_all add: s(7) signal_of_def pair_position_of_def b)
  show ?thesis using assms(2,3,4) s unfolding signal_ok_for_def g
    by (auto simp: MIN_PAIR_RATE_def MIN_SAMPLE_COUNT_def)
qed

text \<open>
  C39. A signal passes its gates: the news are at least as bad as -8, the statistics it rests on
  are of the stock itself or of its sector, with a rate of at least a half and at least 20
  samples, and it sells the stock of the news and buys the one that gained.
\<close>

theorem pair_signal_gates:
  assumes "generate_pair_signal w e n = (Inr (Some g), n')"
  shows "\<exists>code severity. pe_code e = Some code \<and> pe_severity e = Some (Some severity) \<and> signal_ok_for w code severity g \<and> n' = Suc n"
proof -
  from assms obtain code company event severity a r where x: "filled [] (pe_code e) [] = code" "code \<noteq> []"
    "or_value (pe_severity e) (Some 0) = Some severity" "\<not> MIN_SEVERITY < severity"
    "find (\<lambda>x. in_code x = code) (pw_industry w) = Some a" "pair_relation w a = Some r"
    "signal_from w company event severity a r n = (Inr (Some g), n')"
    by (auto simp: generate_pair_signal_def Let_def split: option.splits if_splits)
  have a: "in_code a = code" using x(5) by (auto simp: find_Some_iff)
  have code: "pe_code e = Some code" using x(1,2) by (auto simp: filled_def split: option.splits if_splits)
  have sev: "severity \<le> - 8" using x(4) by (simp add: MIN_SEVERITY_def)
  then have "pe_severity e = Some (Some severity)" using x(3) by (auto simp: or_value_def split: option.splits)
  moreover have "signal_ok_for w (in_code a) severity g \<and> n' = Suc n"
    using signal_from_ok [OF x(7)] pair_relation_mem [OF x(6)] sev by blast
  ultimately show ?thesis using code a by blast
qed

section \<open>A pair of one stock\<close>

definition demo_relation :: "string \<Rightarrow> string \<Rightarrow> relation_row" where
  "demo_relation leader follower =
     \<lparr>sr_sector = ''SEMI'', sr_sector_name = [], sr_leader = leader, sr_leader_name = None, sr_follower = follower,
      sr_follower_name = None, sr_rate = Some (6/10), sr_return = Some (2/100), sr_drop = None, sr_samples = Some 50,
      sr_confidence = None, sr_days = None, sr_stop = None, sr_profit = None\<rparr>"

definition demo_pairs :: pair_world where
  "demo_pairs =
     \<lparr>pw_industry = [demo_industry ''A'', demo_industry ''B''], pw_relations = [demo_relation ''A'' ''B''], pw_events = [],
      pw_now = 0, pw_date = [], pw_number = (\<lambda>n. [])\<rparr>"

definition bad_event :: "string \<Rightarrow> pair_event" where
  "bad_event code =
     \<lparr>pe_company = Some code, pe_code = Some code, pe_type = Some security_incident, pe_severity = Some (Some (- 15))\<rparr>"

lemma incident_named: "security_incident \<noteq> []"
  by (simp add: security_incident_def)

lemma demo_pairs_simps:
  "find (\<lambda>x. in_code x = ''A'') (pw_industry demo_pairs) = Some (demo_industry ''A'')"
  "find (\<lambda>x. in_code x = ''B'') (pw_industry demo_pairs) = Some (demo_industry ''B'')"
  "pair_relation demo_pairs (demo_industry ''A'') = Some (demo_relation ''A'' ''B'')"
  "sr_rate (demo_relation l f) = Some (6/10)" "sr_samples (demo_relation l f) = Some 50" "sr_follower (demo_relation l f) = f"
  "sr_return (demo_relation l f) = Some (2/100)" "sr_drop (demo_relation l f) = None" "in_code (demo_industry c) = c"
  by (simp_all add: demo_pairs_def pair_relation_def best_relation_def demo_industry_def demo_relation_def)

theorem pair_signal_gates_witness:
  "\<exists>g. generate_pair_signal demo_pairs (bad_event ''A'') 0 = (Inr (Some g), 1) \<and> signal_ok_for demo_pairs ''A'' (- 15) g \<and>
     pp_code (ps_long g) = ''B''"
proof -
  let ?g = "signal_of demo_pairs 1 ''A'' security_incident (- 15) (demo_industry ''A'') (demo_industry ''B'')
    (demo_relation ''A'' ''B'') (6/10) 50 (2/100)"
  have g: "generate_pair_signal demo_pairs (bad_event ''A'') 0 = (Inr (Some ?g), 1)"
    by (simp add: generate_pair_signal_def Let_def bad_event_def filled_def or_value_def signal_from_def MIN_SEVERITY_def MIN_PAIR_RATE_def
        MIN_SAMPLE_COUNT_def demo_pairs_simps incident_named)
  have "pp_code (ps_long ?g) = ''B''" by (simp add: signal_of_def pair_position_of_def demo_pairs_simps)
  with pair_signal_gates [OF g] g show ?thesis by (intro exI [of _ ?g]) (simp add: bad_event_def)
qed

text \<open>
  News about a stock that leads no pair use the statistics of its sector, whose gainer may be
  that stock: the signal then buys and sells the same one.
\<close>

theorem follower_traded_against_itself:
  assumes "in_code b = f" "find (\<lambda>x. in_code x = f) (pw_industry w) = Some b" "f \<noteq> []" "company \<noteq> []" "event \<noteq> []" "severity \<le> - 8"
    "pw_relations w = [r]" "sr_sector r = in_sector b" "sr_leader r \<noteq> f" "sr_follower r = f"
    "sr_rate r = Some rate" "1/2 \<le> rate" "sr_samples r = Some samples" "20 \<le> samples" "sr_return r = Some gain"
  shows "\<exists>g. analyze_pair_opportunity w f event severity = (if in_name b = [] then Inr None else Inr (Some g)) \<and>
    pp_code (ps_long g) = f \<and> pp_code (ps_short g) = f"
proof -
  let ?g = "signal_of w 1 (in_name b) event severity b b r rate samples (gain + \<bar>filled 0 (sr_drop r) 0\<bar>)"
  have r: "pair_relation w b = Some r" using assms(1,7,8,9) by (simp add: pair_relation_def best_relation_def)
  have "analyze_pair_opportunity w f event severity = (if in_name b = [] then Inr None else Inr (Some ?g))"
    using assms r
    by (simp add: analyze_pair_opportunity_def generate_pair_signal_def Let_def filled_def or_value_def MIN_SEVERITY_def signal_from_def
        MIN_PAIR_RATE_def MIN_SAMPLE_COUNT_def)
  then show ?thesis using assms(1) by (intro exI [of _ ?g]) (simp add: signal_of_def pair_position_of_def)
qed

theorem follower_traded_against_itself_witness:
  "\<exists>g. analyze_pair_opportunity demo_pairs ''B'' security_incident (- 15) = Inr (Some g) \<and> pp_code (ps_long g) = ''B'' \<and>
     pp_code (ps_short g) = ''B''"
  using follower_traded_against_itself [of "demo_industry ''B''" "''B''" demo_pairs "''B''" security_incident "- 15"
      "demo_relation ''A'' ''B''" "6/10" 50 "2/100"]
  by (simp add: demo_pairs_def demo_industry_def demo_relation_def security_incident_def)

end
