(* ===== verification/Monitor_Service.thy ===== *)
theory Monitor_Service
  imports Price_Monitor Scheduler
begin

text \<open>
  \<open>services/price-monitor/main.py\<close> and the loops of \<open>monitor.py\<close> around the parts of
  \<open>Price_Monitor\<close>: the service as a state machine. Requests, jobs of the scheduler, the steps of
  the monitoring threads and the ticks of the WebSocket are events in any order; a thread is
  where it is in its loop, with the seconds it still sleeps, and the passing of time is an event.
  Starting and stopping hold a lock: the event of a request or a job is the moment it gets the lock.
  A stop keeps the lock while it waits for the thread (\<open>monitor_thread.join(timeout=30)\<close>):
  until the thread has ended or 30 seconds have passed no other request or job comes in, while threads
  and prices go on. One pass over the holdings is a step, and steps take no time of their
  own. The alerts (of \<open>Price_Monitor\<close>) and the texts of answers are left out.
\<close>

section \<open>The state\<close>

datatype monitor_mode = WebSocketMode | PollingMode

text \<open>
  Before the question about the market, at the head of the loop of the WebSocket mode and of the
  polling mode (with its interval), and in the inner loop while the WebSocket is connected;
  each with the seconds the thread still sleeps before it looks at \<open>stop_event\<close> again.
\<close>

datatype thread_phase = Begin | SocketHead rat | PollHead int rat | Watch rat

text \<open>A stop that waits: for which thread, how long still, and the report of its job.\<close>

record thread_join =
  jn_thread :: nat
  jn_left :: rat
  jn_report :: "(string \<times> string) list"

record monitor_service =
  mv_flag :: bool
  mv_stop :: bool
  mv_thread :: "nat option"
  mv_alive :: "(nat \<times> thread_phase) list"
  mv_next :: nat
  mv_connected :: bool
  mv_monitor :: monitor_state
  mv_reports :: "(string \<times> string) list"
  mv_join :: "thread_join option"

text \<open>
  The environment: whether \<open>initialize_service\<close> succeeded, whether a thread can be started, the
  mode, the world of the checks, the identifier and the scope of the job, the text of a value
  in a URL.
\<close>

record service_env =
  se_ready :: bool
  se_starts :: bool
  se_dry_run :: bool
  se_mode :: monitor_mode
  se_world :: monitor_world
  se_job_id :: string
  se_scope :: string
  se_show :: "jval \<Rightarrow> string"

datatype service_answer = AlreadyRunning | MonitorStarted bool | NotRunning | MonitorStopped

section \<open>Starting and stopping\<close>

text \<open>A thread that cannot be started raises when the flag is already set.\<close>

definition start_monitor_thread :: "service_env \<Rightarrow> monitor_service \<Rightarrow> service_answer res \<times> monitor_service" where
  "start_monitor_thread e s =
     (if \<not> se_ready e then (Inl RuntimeError, s)
      else if mv_flag s then (Inr AlreadyRunning, s)
      else let s1 = s\<lparr>mv_stop := False, mv_thread := Some (mv_next s), mv_flag := True\<rparr>
           in if \<not> se_starts e then (Inl RuntimeError, s1)
              else (Inr (MonitorStarted (se_dry_run e)),
                    s1\<lparr>mv_alive := mv_alive s @ [(mv_next s, Begin)], mv_next := Suc (mv_next s)\<rparr>))"

text \<open>
  A thread that could not be started cannot be joined either: that raises, and the variable
  keeps the thread. A thread that has ended is joined at once.
\<close>

definition stop_monitor_thread :: "monitor_service \<Rightarrow> service_answer res \<times> monitor_service" where
  "stop_monitor_thread s =
     (if \<not> mv_flag s then (Inr NotRunning, s)
      else let s1 = s\<lparr>mv_flag := False, mv_stop := True\<rparr>
           in case mv_thread s of
                None \<Rightarrow> (Inr MonitorStopped, s1)
              | Some n \<Rightarrow>
                  if mv_next s \<le> n then (Inl RuntimeError, s1)
                  else if map_of (mv_alive s) n = None then (Inr MonitorStopped, s1\<lparr>mv_thread := None\<rparr>)
                  else (Inr MonitorStopped, s1\<lparr>mv_join := Some \<lparr>jn_thread = n, jn_left = 30, jn_report = []\<rparr>\<rparr>))"

text \<open>The wait is over when the thread has ended or the time is up.\<close>

definition settle_join :: "monitor_service \<Rightarrow> monitor_service" where
  "settle_join s =
     (case mv_join s of
        None \<Rightarrow> s
      | Some j \<Rightarrow>
          if map_of (mv_alive s) (jn_thread j) = None \<or> jn_left j \<le> 0
          then s\<lparr>mv_join := None, mv_thread := None, mv_reports := mv_reports s @ jn_report j\<rparr>
          else s)"

section \<open>Jobs of the scheduler\<close>

text \<open>\<open>(params or {}).get("action", "start")\<close>: parameters that are no object raise.\<close>

definition job_action :: "job_msg \<Rightarrow> jval res" where
  "job_action m =
     (if \<not> jtruth (jm_params m) then Inr (JStr ''start'')
      else case jm_params m of JObj d \<Rightarrow> Inr (field ''action'' (JStr ''start'') d) | _ \<Rightarrow> Inl AttributeError)"

definition effective_job_id :: "service_env \<Rightarrow> job_msg \<Rightarrow> string" where
  "effective_job_id e m =
     (if jtruth (jm_job_id m) \<and> jm_job_id m \<noteq> JStr ''unknown''
      then (case jm_job_id m of JStr t \<Rightarrow> t | v \<Rightarrow> se_show e v) else se_job_id e)"

definition report_scope :: "service_env \<Rightarrow> job_msg \<Rightarrow> string" where
  "report_scope e m =
     (if jtruth (jm_scope m) then (case jm_scope m of JStr t \<Rightarrow> t | v \<Rightarrow> se_show e v) else se_scope e)"

definition run_action :: "service_env \<Rightarrow> jval \<Rightarrow> monitor_service \<Rightarrow> monitor_service" where
  "run_action e a s =
     (if a = JStr ''start'' then snd (start_monitor_thread e s)
      else if a = JStr ''stop'' then snd (stop_monitor_thread s)
      else if a = JStr ''pulse'' then (if \<not> mv_flag s then snd (start_monitor_thread e s) else s)
      else s)"

text \<open>
  What the action raises is logged; the run is reported to the scheduler in any case, after a
  stop has waited for its thread.
\<close>

definition report_run :: "string \<times> string \<Rightarrow> monitor_service \<Rightarrow> monitor_service" where
  "report_run p s =
     (case mv_join s of
        None \<Rightarrow> s\<lparr>mv_reports := mv_reports s @ [p]\<rparr>
      | Some j \<Rightarrow> s\<lparr>mv_join := Some (j\<lparr>jn_report := jn_report j @ [p]\<rparr>)\<rparr>)"

definition handle_scheduler_job :: "service_env \<Rightarrow> string \<Rightarrow> jval \<Rightarrow> monitor_service \<Rightarrow> unit res \<times> monitor_service" where
  "handle_scheduler_job e new_id payload s =
     (case rbind (parse_job_message new_id payload) (\<lambda>m. rbind (job_action m) (\<lambda>a. Inr (m, a))) of
        Inl x \<Rightarrow> (Inl x, s)
      | Inr (m, a) \<Rightarrow>
          let s1 = run_action e a s; i = effective_job_id e m
          in (Inr (), if i = [] then s1 else report_run (i, report_scope e m) s1))"

text \<open>The message a service sends itself when it starts.\<close>

definition startup_payload :: "service_env \<Rightarrow> string \<Rightarrow> rat \<Rightarrow> (string \<times> jval) list" where
  "startup_payload e run_id tm =
     [(''job_id'', JStr (se_job_id e)), (''scope'', JStr (se_scope e)), (''run_id'', JStr run_id),
      (''trigger_source'', JStr ''startup_oneshot''), (''params'', JObj [(''action'', JStr ''start'')]),
      (''timeout_sec'', JNum 180), (''retry_limit'', JNum 1), (''queued_at'', JTime tm)]"

section \<open>The monitoring thread\<close>

text \<open>
  What a thread meets: the answer about the market, the active portfolio with whether the
  WebSocket connects within 15 seconds, or nothing but the end of its sleep.
\<close>

datatype thread_input = MarketSays "bool res" | PortfolioRead "position list res" bool | Looks

text \<open>
  A closed market, or one that cannot be asked for, ends the thread at once. In an open one the mode
  decides about the loop; that of the polling mode reads its interval once.
\<close>

definition begin_step :: "service_env \<Rightarrow> bool res \<Rightarrow> monitor_service \<Rightarrow> thread_phase option \<times> monitor_service" where
  "begin_step e m s =
     (if m \<noteq> Inr True then (None, s)
      else if se_mode e = WebSocketMode then (Some (SocketHead 0), s)
      else case get_int (mw_cfg (se_world e)) ''PRICE_MONITOR_INTERVAL_SECONDS'' (Some 10) (ms_config (mv_monitor s)) of
             (n, c) \<Rightarrow> (Some (PollHead n 0), s\<lparr>mv_monitor := (mv_monitor s)\<lparr>ms_config := c\<rparr>\<rparr>))"

text \<open>
  The loop of the WebSocket mode sleeps a minute without holdings and after an exception, five
  seconds after a failed connection.
\<close>

definition websocket_head :: "position list res \<Rightarrow> bool \<Rightarrow> monitor_service \<Rightarrow> thread_phase option \<times> monitor_service" where
  "websocket_head r connects s =
     (if mv_stop s then (None, s\<lparr>mv_connected := False\<rparr>)
      else case r of
             Inl _ \<Rightarrow> (Some (SocketHead 60), s)
           | Inr [] \<Rightarrow> (Some (SocketHead 60), s)
           | Inr (p # ps) \<Rightarrow>
               (Some (if connects then Watch 0 else SocketHead 5),
                s\<lparr>mv_monitor := (mv_monitor s)\<lparr>ms_cache := load_cache (p # ps)\<rparr>, mv_connected := connects\<rparr>))"

text \<open>A negative interval makes \<open>sleep\<close> raise, in the handler again: the thread ends.\<close>

definition polling_head :: "service_env \<Rightarrow> int \<Rightarrow> position list res \<Rightarrow> monitor_service \<Rightarrow> thread_phase option \<times> monitor_service" where
  "polling_head e n r s =
     (if mv_stop s then (None, s)
      else (if n < 0 then None else Some (PollHead n (of_int n)),
            case r of
              Inl _ \<Rightarrow> s
            | Inr ps \<Rightarrow> s\<lparr>mv_monitor := poll_holdings (se_world e) ps (mv_monitor s)\<rparr>))"

definition watch_step :: "monitor_service \<Rightarrow> thread_phase option \<times> monitor_service" where
  "watch_step s =
     (if mv_stop s then (None, s\<lparr>mv_connected := False\<rparr>)
      else (Some (if mv_connected s then Watch 1 else SocketHead 0), s))"

text \<open>A thread that sleeps meets nothing.\<close>

fun thread_step ::
  "service_env \<Rightarrow> thread_input \<Rightarrow> thread_phase \<Rightarrow> monitor_service \<Rightarrow> thread_phase option \<times> monitor_service" where
  "thread_step e (MarketSays m) Begin s = begin_step e m s"
| "thread_step e (PortfolioRead r c) (SocketHead left) s =
     (if 0 < left then (Some (SocketHead left), s) else websocket_head r c s)"
| "thread_step e (PortfolioRead r c) (PollHead n left) s =
     (if 0 < left then (Some (PollHead n left), s) else polling_head e n r s)"
| "thread_step e Looks (Watch left) s = (if 0 < left then (Some (Watch left), s) else watch_step s)"
| "thread_step e i ph s = (Some ph, s)"

definition run_thread :: "service_env \<Rightarrow> nat \<Rightarrow> thread_input \<Rightarrow> monitor_service \<Rightarrow> monitor_service" where
  "run_thread e n i s =
     (case map_of (mv_alive s) n of
        None \<Rightarrow> s
      | Some ph \<Rightarrow>
          (case thread_step e i ph s of
             (None, s') \<Rightarrow> settle_join (s'\<lparr>mv_alive := AList.delete n (mv_alive s')\<rparr>)
           | (Some ph', s') \<Rightarrow> s'\<lparr>mv_alive := AList.update n ph' (mv_alive s')\<rparr>))"

text \<open>Time passes: sleeps get shorter, and so does the wait of a stop.\<close>

fun sleep_on :: "rat \<Rightarrow> thread_phase \<Rightarrow> thread_phase" where
  "sleep_on d Begin = Begin"
| "sleep_on d (SocketHead left) = SocketHead (left - d)"
| "sleep_on d (PollHead n left) = PollHead n (left - d)"
| "sleep_on d (Watch left) = Watch (left - d)"

definition pass_time :: "rat \<Rightarrow> monitor_service \<Rightarrow> monitor_service" where
  "pass_time d s =
     (if d < 0 then s
      else settle_join (s\<lparr>mv_alive := map (\<lambda>(n, ph). (n, sleep_on d ph)) (mv_alive s),
                          mv_join := map_option (\<lambda>j. j\<lparr>jn_left := jn_left j - d\<rparr>) (mv_join s)\<rparr>))"

section \<open>The service\<close>

datatype service_event =
    HttpStart
  | HttpStop
  | Job string jval
  | ThreadRuns nat thread_input
  | Passes rat
  | Tick string rat
  | ConnectionLost

fun asks_lock :: "service_event \<Rightarrow> bool" where
  "asks_lock HttpStart = True"
| "asks_lock HttpStop = True"
| "asks_lock (Job n p) = True"
| "asks_lock _ = False"

fun free_step :: "service_env \<Rightarrow> service_event \<Rightarrow> monitor_service \<Rightarrow> monitor_service" where
  "free_step e HttpStart s = snd (start_monitor_thread e s)"
| "free_step e HttpStop s = snd (stop_monitor_thread s)"
| "free_step e (Job new_id p) s = snd (handle_scheduler_job e new_id p s)"
| "free_step e (ThreadRuns n i) s = run_thread e n i s"
| "free_step e (Passes d) s = pass_time d s"
| "free_step e (Tick code price) s =
     (if mv_connected s then s\<lparr>mv_monitor := on_price_update (se_world e) code price (mv_monitor s)\<rparr> else s)"
| "free_step e ConnectionLost s = s\<lparr>mv_connected := False\<rparr>"

text \<open>While a stop waits, no request gets the lock.\<close>

definition service_step :: "service_env \<Rightarrow> service_event \<Rightarrow> monitor_service \<Rightarrow> monitor_service" where
  "service_step e ev s = (if mv_join s \<noteq> None \<and> asks_lock ev then s else free_step e ev s)"

definition service_run :: "service_env \<Rightarrow> service_event list \<Rightarrow> monitor_service \<Rightarrow> monitor_service" where
  "service_run e evs s = fold (service_step e) evs s"

definition new_service :: "monitor_state \<Rightarrow> monitor_service" where
  "new_service m =
     \<lparr>mv_flag = False, mv_stop = False, mv_thread = None, mv_alive = [], mv_next = 0, mv_connected = False, mv_monitor = m,
      mv_reports = [], mv_join = None\<rparr>"

text \<open>The events by which somebody stops the monitor.\<close>

definition asks_stop :: "service_event \<Rightarrow> bool" where
  "asks_stop ev =
     (case ev of
        HttpStop \<Rightarrow> True
      | Job n p \<Rightarrow> rbind (parse_job_message n p) job_action = Inr (JStr ''stop'')
      | _ \<Rightarrow> False)"

section \<open>Lemmas\<close>

definition dead_monitor :: "monitor_service \<Rightarrow> bool" where
  "dead_monitor s \<longleftrightarrow> mv_flag s \<and> mv_alive s = [] \<and> \<not> mv_connected s \<and> mv_join s = None"

lemma start_dead: "dead_monitor s \<Longrightarrow> snd (start_monitor_thread e s) = s"
  by (simp add: dead_monitor_def start_monitor_thread_def)

lemma run_action_dead: "dead_monitor s \<Longrightarrow> a \<noteq> JStr ''stop'' \<Longrightarrow> run_action e a s = s"
  by (simp add: run_action_def start_dead)

lemma job_dead:
  assumes "dead_monitor s" "\<not> asks_stop (Job n p)"
  shows "dead_monitor (snd (handle_scheduler_job e n p s)) \<and> mv_monitor (snd (handle_scheduler_job e n p s)) = mv_monitor s"
proof (cases "rbind (parse_job_message n p) (\<lambda>m. rbind (job_action m) (\<lambda>a. Inr (m, a)))")
  case (Inl x)
  with assms(1) show ?thesis by (simp add: handle_scheduler_job_def)
next
  case (Inr ma)
  then obtain m a where ma: "ma = (m, a)" "parse_job_message n p = Inr m" "job_action m = Inr a"
    by (auto simp: rbind_eq_Inr_iff)
  with assms(2) have "a \<noteq> JStr ''stop''" by (simp add: asks_stop_def rbind_def)
  from run_action_dead [OF assms(1) this] assms(1) Inr ma(1) show ?thesis
    by (simp add: handle_scheduler_job_def report_run_def Let_def dead_monitor_def)
qed

lemma step_dead:
  assumes "dead_monitor s" "\<not> asks_stop ev"
  shows "dead_monitor (service_step e ev s) \<and> mv_monitor (service_step e ev s) = mv_monitor s"
proof -
  have step: "service_step e ev s = free_step e ev s" using assms(1) by (simp add: service_step_def dead_monitor_def)
  show ?thesis unfolding step
  proof (cases ev)
    case (Job n p)
    with assms job_dead show "dead_monitor (free_step e ev s) \<and> mv_monitor (free_step e ev s) = mv_monitor s" by simp
  next
    case HttpStop
    with assms(2) show "dead_monitor (free_step e ev s) \<and> mv_monitor (free_step e ev s) = mv_monitor s"
      by (simp add: asks_stop_def)
  qed (use assms(1) in \<open>simp_all add: start_dead\<close>,
    simp_all add: dead_monitor_def run_thread_def pass_time_def settle_join_def)
qed

lemma run_dead:
  "dead_monitor s \<Longrightarrow> \<forall>ev \<in> set evs. \<not> asks_stop ev \<Longrightarrow>
     dead_monitor (service_run e evs s) \<and> mv_monitor (service_run e evs s) = mv_monitor s"
proof (induction evs arbitrary: s)
  case (Cons ev evs)
  then show ?case using step_dead [of s ev e] by (simp add: service_run_def)
qed (simp add: service_run_def)

lemma startup_starts:
  assumes "se_ready e" "se_starts e" "\<not> mv_flag s" "mv_join s = None"
  shows "let s' = service_step e (Job n (JObj (startup_payload e run_id tm))) s
    in mv_flag s' \<and> mv_alive s' = mv_alive s @ [(mv_next s, Begin)] \<and> mv_connected s' = mv_connected s \<and>
       mv_monitor s' = mv_monitor s \<and> mv_join s' = None"
  using assms
  by (simp add: Let_def service_step_def handle_scheduler_job_def parse_job_message_def startup_payload_def field_def rbind_def
      job_action_def run_action_def start_monitor_thread_def report_run_def)

text \<open>
  C4. A service that starts while the market is closed never monitors, until somebody stops
  it: the thread ends at once, but the flag stays set, so that no later start or pulse starts another
  one, and no order to sell is published whatever the prices do.
\<close>

theorem closed_market_start_is_final:
  assumes "se_ready e" "se_starts e" "m \<noteq> Inr True" "\<forall>ev \<in> set evs. \<not> asks_stop ev"
  shows "let s = service_run e (Job n (JObj (startup_payload e run_id tm)) # ThreadRuns 0 (MarketSays m) # evs) (new_service st)
    in mv_flag s \<and> mv_alive s = [] \<and> mv_monitor s = st"
proof -
  let ?s1 = "service_step e (Job n (JObj (startup_payload e run_id tm))) (new_service st)"
  have s1: "mv_flag ?s1" "mv_alive ?s1 = [(0, Begin)]" "\<not> mv_connected ?s1" "mv_monitor ?s1 = st" "mv_join ?s1 = None"
    using startup_starts [OF assms(1,2), of "new_service st" n run_id tm] by (simp_all add: new_service_def Let_def)
  let ?s2 = "service_step e (ThreadRuns 0 (MarketSays m)) ?s1"
  have s2: "dead_monitor ?s2" "mv_monitor ?s2 = st"
    using s1 assms(3)
    by (simp_all add: service_step_def [of e "ThreadRuns 0 (MarketSays m)"] run_thread_def begin_step_def settle_join_def dead_monitor_def)
  from run_dead [OF s2(1) assms(4), of e] s2(2) show ?thesis
    by (simp add: service_run_def dead_monitor_def Let_def)
qed

text \<open>A stop sees the thread it started, and a start after the stop begins a new one.\<close>

definition running :: "nat \<Rightarrow> thread_phase \<Rightarrow> monitor_service \<Rightarrow> bool" where
  "running i ph s \<longleftrightarrow>
     mv_flag s \<and> mv_join s = None \<and> mv_thread s = Some i \<and> map_of (mv_alive s) i = Some ph \<and>
     fst ` set (mv_alive s) \<subseteq> {..<mv_next s}"

lemma running_stop:
  assumes "running i ph s"
  shows "service_step e HttpStop s =
    s\<lparr>mv_flag := False, mv_stop := True, mv_join := Some \<lparr>jn_thread = i, jn_left = 30, jn_report = []\<rparr>\<rparr>"
proof -
  have "i < mv_next s" using assms map_of_SomeD [of "mv_alive s" i ph] by (force simp: running_def)
  with assms show ?thesis by (simp add: running_def service_step_def stop_monitor_thread_def Let_def)
qed

lemma map_sleep: "map_of (map (\<lambda>(n, ph). (n, sleep_on d ph)) al) i = map_option (sleep_on d) (map_of al i)"
  by (induction al) auto

lemma running_start:
  assumes "se_ready e" "se_starts e" "\<not> mv_flag s" "mv_join s = None"
  shows "service_step e HttpStart s = s\<lparr>mv_stop := False, mv_thread := Some (mv_next s), mv_flag := True,
    mv_alive := mv_alive s @ [(mv_next s, Begin)], mv_next := Suc (mv_next s)\<rparr>"
  using assms by (simp add: service_step_def start_monitor_thread_def Let_def)

text \<open>A stop ends every thread at its next look at it, unless a start comes first.\<close>

lemma stop_ends_thread:
  assumes "mv_stop s" "left \<le> 0"
  shows "fst (thread_step e (PortfolioRead r c) (SocketHead left) s) = None"
    "fst (thread_step e (PortfolioRead r c) (PollHead n left) s) = None" "fst (thread_step e Looks (Watch left) s) = None"
  using assms by (simp_all add: websocket_head_def polling_head_def watch_step_def)

text \<open>A stop that waits in vain, followed by a start.\<close>

lemma late_restart:
  assumes "running i ph s" "se_ready e" "se_starts e"
  shows "service_run e [HttpStop, Passes 30, HttpStart] s = s\<lparr>mv_flag := True, mv_stop := False, mv_thread := Some (mv_next s),
    mv_alive := map (\<lambda>(n, ph). (n, sleep_on 30 ph)) (mv_alive s) @ [(mv_next s, Begin)], mv_next := Suc (mv_next s), mv_join := None\<rparr>"
  by (simp add: service_run_def running_stop [OF assms(1)])
    (simp add: service_step_def pass_time_def settle_join_def start_monitor_thread_def assms(2,3) Let_def)

text \<open>A stop whose thread ends while it waits.\<close>

lemma timely_stop:
  assumes "running i ph s" "0 \<le> d" "d < 30" "ph = SocketHead d \<or> ph = PollHead n d"
  shows "let s' = service_run e [HttpStop, Passes d, ThreadRuns i (PortfolioRead r c)] s
    in map_of (mv_alive s') i = None \<and> \<not> mv_flag s' \<and> mv_join s' = None \<and> mv_next s' = mv_next s \<and>
       fst ` set (mv_alive s') \<subseteq> {..<mv_next s}"
proof -
  let ?al = "map (\<lambda>(n, ph). (n, sleep_on d ph)) (mv_alive s)"
  let ?s1 = "s\<lparr>mv_flag := False, mv_stop := True, mv_alive := ?al,
    mv_join := Some \<lparr>jn_thread = i, jn_left = 30 - d, jn_report = []\<rparr>\<rparr>"
  have alive: "map_of (mv_alive s) i = Some ph" and names: "fst ` set ?al \<subseteq> {..<mv_next s}"
    using assms(1) by (force simp: running_def)+
  have s1: "service_step e (Passes d) (service_step e HttpStop s) = ?s1"
    using assms(2,3) alive
    by (simp add: running_stop [OF assms(1)]) (simp add: service_step_def pass_time_def settle_join_def map_sleep)
  have "\<exists>k. thread_step e (PortfolioRead r c) (sleep_on d ph) ?s1 = (None, ?s1\<lparr>mv_connected := k\<rparr>)"
    using assms(4) by (auto simp: websocket_head_def polling_head_def intro: exI [of _ "mv_connected s"])
  then obtain k where k: "thread_step e (PortfolioRead r c) (sleep_on d ph) ?s1 = (None, ?s1\<lparr>mv_connected := k\<rparr>)" by blast
  have "service_step e (ThreadRuns i (PortfolioRead r c)) ?s1 =
      settle_join (?s1\<lparr>mv_connected := k, mv_alive := AList.delete i ?al\<rparr>)"
    using alive k by (simp add: service_step_def run_thread_def map_sleep)
  also have "\<dots> = ?s1\<lparr>mv_connected := k, mv_alive := AList.delete i ?al, mv_join := None, mv_thread := None\<rparr>"
    by (simp add: settle_join_def delete_conv')
  finally have "service_run e [HttpStop, Passes d, ThreadRuns i (PortfolioRead r c)] s =
      ?s1\<lparr>mv_connected := k, mv_alive := AList.delete i ?al, mv_join := None, mv_thread := None\<rparr>"
    by (simp add: service_run_def s1)
  moreover have "fst ` set (AList.delete i ?al) \<subseteq> {..<mv_next s}"
    using names dom_delete_subset [of i ?al] by blast
  ultimately show ?thesis by (simp add: Let_def delete_conv')
qed

text \<open>
  C22. A stop followed by a start replaces the monitoring thread only if the thread looks at the
  stop in time. One that sleeps longer than the 30 seconds the stop waits (60 without holdings
  in the WebSocket mode and after an exception, the interval of the polling mode when it is longer
  than that) is overtaken by the start, which takes the stop back: the service goes on with two
  threads. One that wakes up while the stop waits (the polling mode with its default of ten
  seconds) is gone when the start comes, and only the new thread remains of the two.
\<close>

theorem restart_doubles_monitor:
  assumes "se_ready e" "se_starts e" "running i ph s" "ph = SocketHead left \<or> ph = PollHead n left" "0 \<le> n" "0 \<le> left"
  shows "(30 < left \<longrightarrow>
      (let s' = service_run e [HttpStop, Passes 30, HttpStart, Passes (left - 30), ThreadRuns i (PortfolioRead (Inr []) c)] s
        in \<not> mv_stop s' \<and> map_of (mv_alive s') i \<noteq> None \<and> map_of (mv_alive s') (mv_next s) = Some Begin \<and> i \<noteq> mv_next s)) \<and>
    (left < 30 \<longrightarrow>
      (let s' = service_run e [HttpStop, Passes left, ThreadRuns i (PortfolioRead r c), HttpStart] s
        in \<not> mv_stop s' \<and> map_of (mv_alive s') i = None \<and> map_of (mv_alive s') (mv_next s) = Some Begin))"
proof (intro conjI impI)
  have alive: "map_of (mv_alive s) i = Some ph" and names: "fst ` set (mv_alive s) \<subseteq> {..<mv_next s}"
    using assms(3) by (simp_all add: running_def)
  have new: "i \<noteq> mv_next s" using names map_of_SomeD [OF alive] by force
  have none: "map_of (mv_alive s) (mv_next s) = None" using names by (auto simp: map_of_eq_None_iff)
  assume long: "30 < left"
  let ?s3 = "service_run e [HttpStop, Passes 30, HttpStart] s"
  let ?s4 = "service_step e (Passes (left - 30)) ?s3"
  have s3: "map_of (mv_alive ?s3) i = Some (sleep_on 30 ph)" "map_of (mv_alive ?s3) (mv_next s) = Some Begin"
    "\<not> mv_stop ?s3" "mv_join ?s3 = None"
    using alive none new by (simp_all add: late_restart [OF assms(3,1,2)] map_add_def map_sleep)
  then have s4: "map_of (mv_alive ?s4) i = Some (sleep_on (left - 30) (sleep_on 30 ph))" "map_of (mv_alive ?s4) (mv_next s) = Some Begin"
    "\<not> mv_stop ?s4" "mv_join ?s4 = None"
    using long by (simp_all add: service_step_def [of e "Passes (left - 30)"] pass_time_def settle_join_def map_sleep)
  obtain ph' where "thread_step e (PortfolioRead (Inr []) c) (sleep_on (left - 30) (sleep_on 30 ph)) ?s4 = (Some ph', ?s4)"
    using assms(4,5) s4(3) by (auto simp: websocket_head_def polling_head_def)
  with s4 have "service_step e (ThreadRuns i (PortfolioRead (Inr []) c)) ?s4 = ?s4\<lparr>mv_alive := AList.update i ph' (mv_alive ?s4)\<rparr>"
    by (simp add: service_step_def [of e "ThreadRuns i (PortfolioRead (Inr []) c)"] run_thread_def)
  moreover have "service_run e [HttpStop, Passes 30, HttpStart, Passes (left - 30), ThreadRuns i (PortfolioRead (Inr []) c)] s =
      service_step e (ThreadRuns i (PortfolioRead (Inr []) c)) ?s4"
    by (simp add: service_run_def)
  ultimately show "let s' = service_run e [HttpStop, Passes 30, HttpStart, Passes (left - 30), ThreadRuns i (PortfolioRead (Inr []) c)] s
        in \<not> mv_stop s' \<and> map_of (mv_alive s') i \<noteq> None \<and> map_of (mv_alive s') (mv_next s) = Some Begin \<and> i \<noteq> mv_next s"
    using s4 new by (simp add: Let_def update_conv')
next
  assume short: "left < 30"
  let ?s3 = "service_run e [HttpStop, Passes left, ThreadRuns i (PortfolioRead r c)] s"
  have s3: "map_of (mv_alive ?s3) i = None" "\<not> mv_flag ?s3" "mv_join ?s3 = None" "mv_next ?s3 = mv_next s"
    "fst ` set (mv_alive ?s3) \<subseteq> {..<mv_next s}"
    using timely_stop [OF assms(3,6) short assms(4), of e r c] by (simp_all add: Let_def)
  have none: "map_of (mv_alive ?s3) (mv_next s) = None" using s3(5) by (auto simp: map_of_eq_None_iff)
  have "i \<noteq> mv_next s" using assms(3) map_of_SomeD [of "mv_alive s" i ph] by (force simp: running_def)
  moreover have "service_run e [HttpStop, Passes left, ThreadRuns i (PortfolioRead r c), HttpStart] s = service_step e HttpStart ?s3"
    by (simp add: service_run_def)
  ultimately show "let s' = service_run e [HttpStop, Passes left, ThreadRuns i (PortfolioRead r c), HttpStart] s
        in \<not> mv_stop s' \<and> map_of (mv_alive s') i = None \<and> map_of (mv_alive s') (mv_next s) = Some Begin"
    using s3 none by (simp add: Let_def running_start [OF assms(1,2) s3(2,3)] map_add_def)
qed

section \<open>Examples\<close>

definition demo_env :: service_env where
  "demo_env =
     \<lparr>se_ready = True, se_starts = True, se_dry_run = True, se_mode = WebSocketMode, se_world = demo_monitor,
      se_job_id = ''price-monitor-start'', se_scope = ''real'', se_show = (\<lambda>v. [])\<rparr>"

definition quiet_monitor :: monitor_state where
  "quiet_monitor = \<lparr>ms_config = stop_config, ms_cache = [], ms_published = []\<rparr>"

definition pulse :: service_event where
  "pulse = Job ''p'' (JObj [(''params'', JObj [(''action'', JStr ''pulse'')])])"

theorem closed_market_start_is_final_witness:
  "mv_monitor (service_run demo_env
     (Job ''n'' (JObj (startup_payload demo_env ''r'' 0)) # ThreadRuns 0 (MarketSays (Inr False)) # [pulse, HttpStart, Tick ''A'' 1])
     (new_service quiet_monitor)) = quiet_monitor"
proof -
  have "\<forall>ev \<in> set [pulse, HttpStart, Tick ''A'' 1]. \<not> asks_stop ev"
    by (simp add: pulse_def asks_stop_def parse_job_message_def field_def rbind_def job_action_def)
  moreover have "se_ready demo_env" "se_starts demo_env" by (simp_all add: demo_env_def)
  ultimately show ?thesis
    using closed_market_start_is_final [of demo_env "Inr False" "[pulse, HttpStart, Tick ''A'' 1]" "''n''" "''r''" 0 quiet_monitor]
    unfolding Let_def by blast
qed

text \<open>The monitor of somebody without holdings, asleep for a minute.\<close>

definition sleeping_monitor :: monitor_service where
  "sleeping_monitor = (new_service quiet_monitor)\<lparr>mv_flag := True, mv_thread := Some 0, mv_alive := [(0, SocketHead 60)], mv_next := 1\<rparr>"

lemma sleeping_runs: "running 0 (SocketHead 60) sleeping_monitor"
  by (simp add: running_def sleeping_monitor_def new_service_def)

theorem restart_doubles_monitor_witness:
  "let s' = service_run demo_env [HttpStop, Passes 30, HttpStart, Passes 30, ThreadRuns 0 (PortfolioRead (Inr []) True)] sleeping_monitor
    in map_of (mv_alive s') 0 \<noteq> None \<and> map_of (mv_alive s') 1 = Some Begin"
proof -
  have "se_ready demo_env" "se_starts demo_env" "mv_next sleeping_monitor = 1"
    by (simp_all add: demo_env_def sleeping_monitor_def)
  with restart_doubles_monitor [OF _ _ sleeping_runs, of demo_env 60 0 True "Inr []"] show ?thesis
    by (simp add: Let_def)
qed

end
