(* ===== verification/Briefing.thy ===== *)
theory Briefing
  imports Llm_Brain
begin

text \<open>
  \<open>services/daily-briefing/reporter.py\<close>: the numbers of the daily report and its sending. The
  broker, the tables and the bot are parameters; so are the texts the numbers are put into. Three
  of its lookups do not work as written, see \<open>as_written\<close>.
\<close>

section \<open>Data\<close>

record briefing_row =
  bq_code :: string
  bq_name :: string
  bq_qty :: int
  bq_avg :: rat

record position_line =
  bl_name :: string
  bl_code :: string
  bl_qty :: int
  bl_avg :: rat
  bl_price :: rat
  bl_value :: rat
  bl_pct :: rat
  bl_profit :: rat

text \<open>A trade is a dict; a missing key is None.\<close>

record day_trade =
  dt_action :: "string option"
  dt_amount :: "rat option"
  dt_profit :: "rat option"
  dt_name :: "string option"
  dt_qty :: "int option"
  dt_price :: "rat option"
  dt_reason :: "string option"

record trade_detail =
  td_action :: string
  td_name :: string
  td_qty :: int
  td_price :: rat
  td_amount :: rat
  td_reason :: string

record trade_summary =
  tz_buys :: nat
  tz_sells :: nat
  tz_bought :: rat
  tz_sold :: rat
  tz_profit :: rat
  tz_details :: "trade_detail list"

record news_line =
  nl_code :: string
  nl_name :: string
  nl_score :: rat
  nl_headline :: string

record briefing_report =
  bp_date :: string
  bp_total :: rat
  bp_cash :: rat
  bp_valuation :: rat
  bp_cash_ratio :: rat
  bp_portfolio :: "position_line list"
  bp_trades :: trade_summary
  bp_news :: "news_line list"
  bp_change :: rat
  bp_yesterday :: rat

text \<open>
  What the reporter relies on. A snapshot may be missing, and so may its price. News are the rows
  of the last day, None when the query fails; the value of the row for yesterday is a number or
  missing.
\<close>

record briefing_world =
  bw_date :: string
  bw_cash :: "rat res"
  bw_portfolio :: "briefing_row list res"
  bw_snapshot :: "string \<Rightarrow> rat option option res"
  bw_trades :: "day_trade list res"
  bw_news :: "(string \<times> string \<times> rat \<times> string option) list option"
  bw_yesterday :: "rat option"
  bw_brain :: "llm_world option"
  bw_market_text :: "briefing_report \<Rightarrow> string"
  bw_log_text :: "briefing_report \<Rightarrow> string"
  bw_prompt :: "string \<Rightarrow> string \<Rightarrow> string"
  bw_basic_text :: "briefing_report \<Rightarrow> string"
  bw_send :: "string \<Rightarrow> bool res"

section \<open>The numbers\<close>

definition position_line_of :: "briefing_world \<Rightarrow> briefing_row \<Rightarrow> position_line res" where
  "position_line_of w r =
     rbind (bw_snapshot w (bq_code r)) (\<lambda>snap.
       let price = (case snap of Some (Some x) \<Rightarrow> x | _ \<Rightarrow> bq_avg r)
       in if bq_avg r = 0 then Inl ZeroDivisionError
          else Inr \<lparr>bl_name = bq_name r, bl_code = bq_code r, bl_qty = bq_qty r, bl_avg = bq_avg r, bl_price = price,
                    bl_value = price * of_int (bq_qty r), bl_pct = (price - bq_avg r) / bq_avg r * 100,
                    bl_profit = (price - bq_avg r) * of_int (bq_qty r)\<rparr>)"

fun position_lines :: "briefing_world \<Rightarrow> briefing_row list \<Rightarrow> position_line list res" where
  "position_lines w [] = Inr []"
| "position_lines w (r # rs) = rbind (position_line_of w r) (\<lambda>l. rbind (position_lines w rs) (\<lambda>ls. Inr (l # ls)))"

definition or_default :: "'a option \<Rightarrow> 'a \<Rightarrow> 'a" where
  "or_default x d = (case x of None \<Rightarrow> d | Some v \<Rightarrow> v)"

definition detail_of :: "day_trade \<Rightarrow> trade_detail" where
  "detail_of t =
     \<lparr>td_action = or_default (dt_action t) [], td_name = or_default (dt_name t) ''N/A'', td_qty = or_default (dt_qty t) 0,
      td_price = or_default (dt_price t) 0, td_amount = or_default (dt_amount t) 0,
      td_reason = (case or_default (dt_reason t) [] of [] \<Rightarrow> ''N/A'' | c # cs \<Rightarrow> take 50 (c # cs))\<rparr>"

definition add_trade :: "day_trade \<Rightarrow> trade_summary \<Rightarrow> trade_summary" where
  "add_trade t z =
     (let amount = or_default (dt_amount t) 0;
          z1 = (if dt_action t = Some ''BUY'' then z\<lparr>tz_buys := Suc (tz_buys z), tz_bought := tz_bought z + amount\<rparr>
                else if dt_action t = Some ''SELL''
                then z\<lparr>tz_sells := Suc (tz_sells z), tz_sold := tz_sold z + amount,
                       tz_profit := tz_profit z + or_default (dt_profit t) 0\<rparr>
                else z)
      in z1\<lparr>tz_details := tz_details z1 @ [detail_of t]\<rparr>)"

definition no_trades :: trade_summary where
  "no_trades = \<lparr>tz_buys = 0, tz_sells = 0, tz_bought = 0, tz_sold = 0, tz_profit = 0, tz_details = []\<rparr>"

definition summarize_trades :: "day_trade list \<Rightarrow> trade_summary" where
  "summarize_trades ts = (let z = fold add_trade ts no_trades in z\<lparr>tz_details := take 10 (tz_details z)\<rparr>)"

definition recent_news :: "briefing_world \<Rightarrow> news_line list" where
  "recent_news w =
     map (\<lambda>(code, name, score, headline).
            \<lparr>nl_code = code, nl_name = name, nl_score = score,
             nl_headline = (case or_default headline [] of [] \<Rightarrow> ''N/A'' | c # cs \<Rightarrow> take 50 (c # cs))\<rparr>)
       (or_default (bw_news w) [])"

definition yesterday_aum :: "briefing_world \<Rightarrow> rat" where
  "yesterday_aum w = or_default (bw_yesterday w) 0"

definition report_of :: "briefing_world \<Rightarrow> rat \<Rightarrow> position_line list \<Rightarrow> day_trade list \<Rightarrow> briefing_report" where
  "report_of w cash ls ts =
     (let valuation = sum_list (map bl_value ls); aum = cash + valuation; before = yesterday_aum w
      in \<lparr>bp_date = bw_date w, bp_total = aum, bp_cash = cash, bp_valuation = valuation,
          bp_cash_ratio = (if 0 < aum then cash / aum * 100 else 0), bp_portfolio = ls, bp_trades = summarize_trades ts,
          bp_news = recent_news w, bp_change = (if 0 < before then (aum - before) / before * 100 else 0),
          bp_yesterday = before\<rparr>)"

text \<open>The watchlist is collected too, but nothing shows it.\<close>

definition collect_report_data :: "briefing_world \<Rightarrow> briefing_report res" where
  "collect_report_data w =
     rbind (bw_cash w) (\<lambda>cash. rbind (bw_portfolio w) (\<lambda>rows. rbind (position_lines w rows) (\<lambda>ls.
       rbind (bw_trades w) (\<lambda>ts. Inr (report_of w cash ls ts)))))"

section \<open>Sending\<close>

record briefing_state =
  bs_llm :: llm_state
  bs_sent :: "string list"

definition briefing_message :: "briefing_world \<Rightarrow> briefing_report \<Rightarrow> llm_state \<Rightarrow> string \<times> llm_state" where
  "briefing_message w rep l =
     (case bw_brain w of
        None \<Rightarrow> (bw_basic_text w rep, l)
      | Some brain \<Rightarrow> generate_daily_briefing brain (bw_prompt w (bw_market_text w rep) (bw_log_text w rep)) l)"

definition create_and_send_report :: "briefing_world \<Rightarrow> briefing_state \<Rightarrow> bool \<times> briefing_state" where
  "create_and_send_report w s =
     (case collect_report_data w of
        Inl _ \<Rightarrow> (False, s)
      | Inr rep \<Rightarrow>
          (case briefing_message w rep (bs_llm s) of
             (t, l) \<Rightarrow> (case bw_send w t of Inl _ \<Rightarrow> False | Inr ok \<Rightarrow> ok, \<lparr>bs_llm = l, bs_sent = bs_sent s @ [t]\<rparr>)))"

text \<open>
  The lookups as the code has them: in \<open>shared/database\<close> \<open>get_active_portfolio\<close> selects columns that the
  table PORTFOLIO does not have, there is no \<open>get_trade_logs\<close>, and the reporter's own query of the
  news names columns that their table does not have, an error it takes for no news.
\<close>

definition as_written :: "briefing_world \<Rightarrow> briefing_world" where
  "as_written w = w\<lparr>bw_portfolio := Inl DbError, bw_trades := Inl AttributeError, bw_news := None\<rparr>"

text \<open>The function of \<open>shared/db/repository.py\<close> that the reporter could mean: the trades of a day.\<close>

definition repository_trade :: "string \<times> int \<times> rat \<times> rat \<Rightarrow> day_trade" where
  "repository_trade = (\<lambda>(action, qty, price, profit).
     \<lparr>dt_action = Some action, dt_amount = None, dt_profit = Some profit, dt_name = None, dt_qty = Some qty,
      dt_price = Some price, dt_reason = None\<rparr>)"

section \<open>Lemmas\<close>

lemma position_line_profit:
  "position_line_of w r = Inr l \<Longrightarrow>
     bl_value l = bl_avg l * of_int (bl_qty l) + bl_profit l \<and> bl_avg l = bq_avg r \<and> bl_qty l = bq_qty r \<and> bl_avg l \<noteq> 0"
  by (auto simp: position_line_of_def rbind_eq_Inr_iff Let_def algebra_simps split: if_splits)

lemma position_lines_value:
  "position_lines w rs = Inr ls \<Longrightarrow>
     sum_list (map bl_value ls) = sum_list (map (\<lambda>r. bq_avg r * of_int (bq_qty r)) rs) + sum_list (map bl_profit ls)"
proof (induction rs arbitrary: ls)
  case (Cons r rs)
  then obtain l ls' where "position_line_of w r = Inr l" "position_lines w rs = Inr ls'" "ls = l # ls'"
    by (auto simp: rbind_eq_Inr_iff)
  with Cons.IH [of ls'] position_line_profit [of w r l] show ?case by simp
qed simp

lemma fold_add_trade:
  "tz_buys (fold add_trade ts z) = tz_buys z + length (filter (\<lambda>t. dt_action t = Some ''BUY'') ts)"
  "tz_sells (fold add_trade ts z) = tz_sells z + length (filter (\<lambda>t. dt_action t = Some ''SELL'') ts)"
  "tz_profit (fold add_trade ts z) =
     tz_profit z + sum_list (map (\<lambda>t. or_default (dt_profit t) 0) (filter (\<lambda>t. dt_action t = Some ''SELL'') ts))"
  "tz_bought (fold add_trade ts z) =
     tz_bought z + sum_list (map (\<lambda>t. or_default (dt_amount t) 0) (filter (\<lambda>t. dt_action t = Some ''BUY'') ts))"
  by (induction ts arbitrary: z) (simp_all add: add_trade_def Let_def)

lemma summarize_trades_fields:
  "tz_buys (summarize_trades ts) = length (filter (\<lambda>t. dt_action t = Some ''BUY'') ts)"
  "tz_sells (summarize_trades ts) = length (filter (\<lambda>t. dt_action t = Some ''SELL'') ts)"
  "tz_profit (summarize_trades ts) =
     sum_list (map (\<lambda>t. or_default (dt_profit t) 0) (filter (\<lambda>t. dt_action t = Some ''SELL'') ts))"
  "tz_bought (summarize_trades ts) =
     sum_list (map (\<lambda>t. or_default (dt_amount t) 0) (filter (\<lambda>t. dt_action t = Some ''BUY'') ts))"
  by (simp_all add: summarize_trades_def fold_add_trade Let_def) (simp_all add: no_trades_def)

text \<open>
  The daily report is never sent: whatever the broker, the models and the rest of the database answer, its
  data cannot be collected, and the reporter answers with a failure.
\<close>

theorem briefing_never_sent: "create_and_send_report (as_written w) s = (False, s)"
  by (simp add: create_and_send_report_def collect_report_data_def as_written_def rbind_def split: sum.split)

text \<open>
  With lookups that answer, the report's numbers fit together: the assets are the cash and the
  value of the shares, which is what was paid for them and the profit of all lines; buys and
  sales are counted, and the profit is that of the sales.
\<close>

theorem report_adds_up:
  assumes "collect_report_data w = Inr rep" "bw_portfolio w = Inr rows" "bw_trades w = Inr ts"
  shows "bp_total rep = bp_cash rep + bp_valuation rep \<and>
    bp_valuation rep = sum_list (map (\<lambda>r. bq_avg r * of_int (bq_qty r)) rows) + sum_list (map bl_profit (bp_portfolio rep)) \<and>
    tz_buys (bp_trades rep) = length (filter (\<lambda>t. dt_action t = Some ''BUY'') ts) \<and>
    tz_sells (bp_trades rep) = length (filter (\<lambda>t. dt_action t = Some ''SELL'') ts) \<and>
    tz_profit (bp_trades rep) =
      sum_list (map (\<lambda>t. or_default (dt_profit t) 0) (filter (\<lambda>t. dt_action t = Some ''SELL'') ts))"
proof -
  from assms obtain cash ls where r: "position_lines w rows = Inr ls" "rep = report_of w cash ls ts"
    by (auto simp: collect_report_data_def rbind_eq_Inr_iff)
  from position_lines_value [OF r(1)] show ?thesis
    by (simp add: r(2) report_of_def Let_def summarize_trades_fields)
qed

theorem report_adds_up_witness:
  "\<exists>w rep. collect_report_data w = Inr rep \<and> bp_total rep = 130 \<and> tz_sells (bp_trades rep) = 1"
proof -
  let ?row = "\<lparr>bq_code = ''A'', bq_name = ''A'', bq_qty = 2, bq_avg = 10\<rparr>"
  let ?trade = "repository_trade (''SELL'', 1, 15, 5)"
  let ?w = "\<lparr>bw_date = [], bw_cash = Inr 100, bw_portfolio = Inr [?row], bw_snapshot = (\<lambda>c. Inr (Some (Some 15))),
    bw_trades = Inr [?trade], bw_news = None, bw_yesterday = None, bw_brain = None, bw_market_text = (\<lambda>r. []),
    bw_log_text = (\<lambda>r. []), bw_prompt = (\<lambda>a b. []), bw_basic_text = (\<lambda>r. []), bw_send = (\<lambda>t. Inr True)\<rparr>"
  obtain rep where rep: "collect_report_data ?w = Inr rep" "bp_cash rep = 100" "map bl_profit (bp_portfolio rep) = [10]"
    by (simp add: collect_report_data_def rbind_def position_line_of_def report_of_def Let_def)
  from report_adds_up [OF rep(1), of "[?row]" "[?trade]"] rep show ?thesis
    by (intro exI [of _ ?w] exI [of _ rep]) (simp add: repository_trade_def)
qed

text \<open>With the repository's rows, which have no amounts, the sums of the day would stay 0.\<close>

lemma repository_amounts: "tz_bought (summarize_trades (map repository_trade rows)) = 0"
proof -
  have "(\<lambda>t. or_default (dt_amount t) 0) (repository_trade r) = (0 :: rat)" for r
    by (simp add: repository_trade_def or_default_def split: prod.split)
  then show ?thesis by (simp add: summarize_trades_fields filter_map o_def)
qed

end
