(* ===== verification/Spec2Isabelle.thy ===== *)
theory Spec2Isabelle
  imports Buy_Scanner Sell_Executor Price_Monitor Command_Limits Scheduler Kis_Gateway Hybrid_Scoring Commands Scout Optimizer Portfolio_Sync Pair_Trading Monitor_Service Briefing
begin

text \<open>
  A verification library for the trading core of the repository: what it decides to buy and
  sell, how much, and what it records.

  THE PROGRAM. The buy scanner (\<open>services/buy-scanner/scanner.py\<close>) analyses the market, scans
  the watchlist for signals and sends a scan result (candidates with scores, the regime of
  the market) to the buy executor (\<open>services/buy-executor/executor.py\<close>), which applies a strategy preset to the
  run-time configuration, checks daily and portfolio limits, selects a candidate, sizes the
  order, checks the diversification of the portfolio, orders and records the trade. The
  price monitor (\<open>services/price-monitor/monitor.py\<close>) compares every holding with its sell
  rules and publishes sell orders, which the sell executor
  (\<open>services/sell-executor/executor.py\<close>) checks, orders and records. Both executors share the
  trade store (\<open>shared/database/trading.py\<close>, \<open>shared/db/repository.py\<close>), the configuration
  (\<open>shared/config.py\<close>) and Redis (\<open>shared/redis_cache.py\<close>). Services reach the broker through
  the gateway (\<open>services/kis-gateway/main.py\<close> and its client), and are started by the messages
  of the scheduler (\<open>services/scheduler-service/main.py\<close>), which travel through RabbitMQ
  (\<open>shared/rabbitmq.py\<close>). What may be bought at all is chosen by the quantitative scorer and
  the combination of its scores with those of the language model
  (\<open>shared/hybrid_scoring/quant_scorer.py\<close>, \<open>hybrid_scorer.py\<close>).

  THE THEORIES, in the order of their imports:
  \<^item> \<open>Prelude\<close>: Python's results and exceptions (\<open>res\<close>, \<open>py_exc\<close>), division, truncation,
    rounding, dictionaries kept as association lists, the first maximum of a dictionary,
    stable sorting, and handlers as programs that continue, return or raise (\<open>flow\<close>,
    \<open>prog\<close>, \<open>seq\<close>, with \<open>keeps\<close> for what a handler leaves alone).
  \<^item> \<open>Interfaces\<close>: the locales. \<open>expiring_store\<close> (a cache with a lifetime, put and fetch),
    \<open>memo_lookup\<close> (a lookup that may fill a cache without changing later answers),
    \<open>ewm_mean\<close> (a mean that stays between the bounds of its data, pandas' exponential
    one), \<open>step_refinement\<close> (one concrete step does to the abstract state
    what the specification does), \<open>ttl_store\<close> (Redis keys with an expiry), \<open>keyed_rows\<close> (a table with
    one row per key under insert, update and delete). Each has its
    interpretation on the model: the memory cache of the configuration, the sector
    classifier, the pandas mean, both trade implementations, the Redis server.
  \<^item> \<open>Config\<close> (\<open>ConfigManager\<close>): the record \<open>config_manager\<close> is the two caches, \<open>cfg_world\<close> the
    clock, the CONFIG table, the environment and the failures of the database.
  \<^item> \<open>Presets\<close> (\<open>shared/strategy_presets.py\<close> and its JSON file): presets as association lists.
  \<^item> \<open>Position_Sizing\<close> (\<open>PositionSizer\<close>): risk, clamps, value and cash limits, smart skip.
  \<^item> \<open>Sectors\<close> (\<open>shared/sector_classifier.py\<close>, \<open>shared/portfolio_diversification.py\<close>).
  \<^item> \<open>Indicators\<close> (\<open>shared/strategy.py\<close> and the Rust functions of \<open>shared/strategy_core\<close>).
  \<^item> \<open>Market_Regime\<close> (\<open>MarketRegimeDetector\<close>): scores, the regime, the risk settings.
  \<^item> \<open>Factor_Scoring\<close> (\<open>shared/factor_scoring.py\<close>): the four factor scores and their weights,
    with numpy's infinities and nan where a zero price can produce them.
  \<^item> \<open>Trade_Store\<close>: the tables PORTFOLIO and TRADELOG as lists of rows with their counters
    (\<open>trade_db\<close>); recording a trade through the ORM and through raw SQL, duplicate checks,
    today's numbers, the portfolio report.
  \<^item> \<open>Buy_Executor\<close>, \<open>Sell_Executor\<close>: \<open>process_buy_signal\<close> and \<open>execute_sell_order\<close> step by
    step; the orders sent and the messages are fields of their states.
  \<^item> \<open>Buy_Scanner\<close> (\<open>services/buy-scanner/scanner.py\<close>, \<open>strategy/bear_strategies.py\<close>): the market
    analysis and its caches, the analysis of one stock, the scan result as the input of
    \<open>Buy_Executor\<close>; the finishing order of the worker threads is arbitrary.
  \<^item> \<open>Price_Monitor\<close>: the five sell rules, publication, one polling pass, the WebSocket
    callback, the price alerts.
  \<^item> \<open>Redis_Cache\<close> (all of \<open>shared/redis_cache.py\<close>) and \<open>Command_Limits\<close>
    (\<open>services/command-handler/limits.py\<close>, with its interleavings as a step relation).
  \<^item> \<open>Message_Queue\<close> (\<open>shared/rabbitmq.py\<close>): the publisher, and the worker with its queue as a
    step function over the events of the connection.
  \<^item> \<open>Scheduler\<close>: the job table as a list of \<open>job\<close> records, one definition per request, the
    cycle, the messages of a job (\<open>shared/scheduler_runtime.py\<close>, \<open>scheduler_client.py\<close>); \<open>sched_step\<close>
    and \<open>sched_run\<close> are sequences of requests and cycles.
  \<^item> \<open>Kis_Gateway\<close>: the handlers with their counters and history (\<open>gateway\<close>), the circuit breaker as
    an argument (\<open>breaker\<close>), the client and what a network may lose between them.
  \<^item> \<open>Quant_Scoring\<close>: the six part scores, the statistics read through three caches
    (\<open>quant_caches\<close>), the two tracks, the filter.
  \<^item> \<open>Hybrid_Scoring\<close>: the safety lock, the corrections
    for thin statistics, the selection, and the pipeline from candidates to the selection.
  \<^item> \<open>Watchlist\<close> (the other half of \<open>shared/database/trading.py\<close> and \<open>repository.py\<close>): the
    tables WATCHLIST, its history and CONFIG (\<open>watch_db\<close>), metadata as JSON, the readers and
    writers of both database layers.
  \<^item> \<open>Telegram_Bot\<close> (\<open>shared/notification.py\<close>): who may command, the queue of updates, the parser.
  \<^item> \<open>Commands\<close> (\<open>services/command-handler/\<close>, the request handler of the sell executor): one
    definition per command over the whole state (\<open>handler_state\<close>), manual trades included.
  \<^item> \<open>Market_Data\<close> (\<open>shared/database/market.py\<close>): prices, stocks, fundamentals, news sentiment.
  \<^item> \<open>Archivist\<close> (\<open>shared/archivist.py\<close>): the three logs of decisions.
  \<^item> \<open>Llm_Brain\<close> (\<open>shared/llm.py\<close> and its providers): choice of the provider, the reading of
    an answer, the analyses of the hunter and the judge with their fallbacks. What a model
    answers is an argument.
  \<^item> \<open>Scout_Cache\<close>, \<open>Scout_Universe\<close>, \<open>Scout_Pipeline\<close>, \<open>Scout\<close> (the modules of
    \<open>services/scout-job/\<close>): what the job remembers between runs, which stocks it looks at,
    the two phases that judge them, and the run from the universe to the saved watchlist.
  \<^item> \<open>Optimizer\<close> (\<open>scout_optimizer.py\<close>, \<open>shared/database/optimization.py\<close>): the daily tuning of
    the configuration, its approval and its history.
  \<^item> \<open>Kis_Client\<close>, \<open>Kis_Trading\<close>, \<open>Kis_Market\<close> (\<open>shared/kis/client.py\<close>, \<open>auth.py\<close>, \<open>request.py\<close>,
    \<open>trading.py\<close>, \<open>market_data.py\<close>): the client behind the gateway, which turns calls into
    requests to the broker and reads its documents (\<open>kval\<close>); the network is an argument.
  \<^item> \<open>Portfolio_Sync\<close> (\<open>utilities/sync_portfolio_from_account.py\<close>): the comparison of the
    recorded portfolio with the broker's account, and its correction.
  \<^item> \<open>News_Classifier\<close> (\<open>shared/news_classifier.py\<close>), \<open>Competitors\<close> (\<open>competitor_analyzer.py\<close>),
    \<open>News_Crawler\<close> (\<open>services/news-crawler/crawler.py\<close>), \<open>Pair_Trading\<close>
    (\<open>shared/strategies/pair_trading.py\<close>): the categories of news, what competitors gain from bad
    ones, the run that rates and registers news (\<open>crawler_state\<close> holds its tables and the vector
    store), and the signals for pairs.
  \<^item> \<open>Monitor_Service\<close> (\<open>services/price-monitor/main.py\<close> and the loops of \<open>monitor.py\<close>): the service
    as a state machine (\<open>monitor_service\<close>) over requests, jobs, steps of its threads, ticks and
    the passing of time, with the sleeps of the threads and the wait of a stop for its thread.
  \<^item> \<open>Briefing\<close> (\<open>services/daily-briefing/reporter.py\<close>): the numbers of the daily report, its sending.
  This theory states what spans components.

  CONVENTIONS. A Python float is an exact rational: rounding errors of the machine are not
  modelled, and a NaN is None where the code can meet one (\<open>Factor_Scoring\<close> has it as a value). \<open>None\<close> is an option, a reason
  text a constructor with its numbers, an exception a value of \<open>py_exc\<close>; what a handler's
  \<open>except\<close> swallows is swallowed in the model. Code outside \<open>src/\<close> (broker, database server,
  Redis, pandas) is a field of a world record or an argument: arbitrary in every theorem
  that does not name a hypothesis on it. A clock counts hours in \<open>Trade_Store\<close>, seconds in
  \<open>Config\<close> and \<open>Redis_Cache\<close>. Logging is left out. Strings are bytes, Korean text UTF-8.

  THE LEMMAS. Each component theory proves, in this order, evaluation and frame lemmas for
  its operations, then inversion lemmas (what a success implies of every step), then its
  properties. The money limits of a purchase, the exact diversification decision, the range
  of indicators and scores; the refinement of the trade store to a ledger and the agreement
  of its two implementations; the guards of both executors and that a recorded sale is not
  repeated; that losses are sold while the daily prices can be read; that the emergency stop, the sentiment scores and the
  daily limit behave as their callers need; that a scan offers only free stocks, and which
  signals a regime leaves; that the scheduler triggers a job at most once per interval and a
  paused one not at all, and its table stays well typed, that the worker handles every document once and in order while its
  acknowledgements arrive, that the gateway's books balance, that an order number means one call
  of the broker client, which sends the order once or twice, that a selected stock is a candidate with enough prices and a passing score. Several properties state where the code falls
  short: \<open>buy_signal_never_succeeds\<close>, \<open>scale_out_loses_shares\<close>, \<open>unrecorded_sale_repeats\<close>,
  \<open>failed_publication_drops_position\<close>, \<open>manual_limit_races\<close>, \<open>breakout_never_fires\<close>,
  \<open>signals_of_regime\<close>, \<open>bear_signal_needs_todays_row\<close>, \<open>tier2_ignores_portfolio\<close>,
  \<open>technical_score_off_scale\<close>, \<open>refused_run_is_lost\<close>, \<open>created_job_runs_twice\<close>, \<open>queue_mode_stops\<close>,
  \<open>garbled_message_blocks\<close>, \<open>lost_ack_handles_twice\<close>, \<open>lost_reply_orders_twice\<close>,
  \<open>silent_failures_never_trip\<close>, \<open>scores_never_saved\<close>, \<open>failed_read_is_remembered\<close>,
  \<open>loss_maker_beats_expensive\<close>, \<open>thin_statistics_erase_quant\<close>, \<open>failed_inquiry_sells_everything\<close>,
  \<open>failed_order_is_sent_again\<close>, \<open>same_incident_registered_twice\<close>, \<open>left_over_is_never_rated\<close>,
  \<open>earnings_shock_is_no_bad_news\<close>, \<open>follower_traded_against_itself\<close>, \<open>closed_market_start_is_final\<close>,
  \<open>restart_doubles_monitor\<close>, \<open>briefing_never_sent\<close>.

  BOUNDS. Every recursion is structural or has a measure, and every function is total. The one
  loop that may not end, the paging of a history (\<open>chart_loop\<close> of \<open>Kis_Market\<close>), takes fuel;
  \<open>history_returns\<close> shows that as many pages as the period has days are enough. The endless loops of the
  services are modelled by one pass, that of the price monitor by the steps of its threads.

  NOT MODELLED. The entry points of the other services (Flask routes, signal handling, start-up of
  threads and clients); the WebSocket client of the broker (\<open>shared/kis/websocket.py\<close>), the
  SDKs of the language models and the feeds, which are input and output; the prompts
  (\<open>shared/llm_prompts.py\<close>), which are text; the dashboard and the texts of the daily briefing, which only
  display; the factor analysis (\<open>factor_analyzer.py\<close>), the backtests and the other offline
  utilities, which report statistics on pandas frames and decide nothing in the running
  system; the backtest of pairs (\<open>competitor_backtest.py\<close>).
\<close>

section \<open>From the price monitor to the sell executor\<close>

text \<open>
  C14. The scale-out loses shares: for an overbought RSI the monitor orders the sale of half
  of a position, and when that order is executed and recorded the position disappears from
  the store as a whole, although fewer shares were sold than it held.
\<close>

theorem scale_out_loses_shares:
  assumes "check_sell_signal mw code buy_price price d c = (Some sig, c')" "sig_reason sig = RsiOverbought r"
    and "db_ok (ss_db s)" "holding_of code (ss_db s) = Some h" "2 \<le> h_qty h"
    and "sq_code q = code" "sq_quantity q = sell_quantity (h_qty h) (sig_pct sig)"
    and "sw_trade_env w = orm_env" "execute_sell_order w q s = (SellSuccess rc, s')" "0 < sl_price rc"
  shows "sq_quantity q < h_qty h \<and> positions (ss_db s) code = Some (h_qty h, h_total h) \<and>
    positions (ss_db s') code = None \<and>
    (\<exists>row. trades (ss_db s') = trades (ss_db s) @ [row] \<and> log_qty row = sq_quantity q)"
proof -
  have "sig_pct sig = 50"
    using check_sell_signal_ok [OF assms(1)] assms(2) by (simp add: signal_ok_def)
  then have "sq_quantity q < h_qty h"
    using sell_quantity_bounds(3) [of "h_qty h" 50] assms(5,7) by simp
  with sale_recorded [OF assms(3,8,9,10)] assms(4,6) show ?thesis
    by (auto simp: positions_def)
qed

text \<open>A position of ten shares bought at 100 with an RSI of 100 at the price 120.\<close>

definition rising_bars :: "bar list" where
  "rising_bars = index_days (map of_nat [101..<116])"

definition rsi_world :: monitor_world where
  "rsi_world = \<lparr>mw_backend = rust_backend, mw_cfg = plain_world, mw_daily = (\<lambda>_. Inr rising_bars),
     mw_price = (\<lambda>_. Inr (Some 109)), mw_publish = (\<lambda>_. True)\<rparr>"

lemma rising_signal: "fst (check_sell_signal rsi_world ''005930'' 100 120 None (config_init 300)) =
   Some \<lparr>sig_reason = RsiOverbought 100, sig_pct = 50\<rparr>"
  by code_simp

definition half_sell :: sell_request where
  "half_sell = demo_sell\<lparr>sq_quantity := 5\<rparr>"

lemma half_sell_success:
  "\<exists>rc s'. execute_sell_order demo_sell_world half_sell demo_sell_state = (SellSuccess rc, s') \<and> sl_price rc = 120"
proof -
  from demo_sell_ready obtain p where "sell_ready demo_sell_world demo_sell (ss_db demo_sell_state) p 120 20 300"
    by (auto simp: demo_sell_state_def)
  then have r: "sell_ready demo_sell_world half_sell (ss_db demo_sell_state) p 120 20 100"
    by (auto simp: sell_ready_def half_sell_def demo_sell_def profit_of_def py_div_def split: if_splits)
  show ?thesis
    unfolding execute_sell_order_def sell_steps_ready [OF r]
    by (simp add: seq_def sell_order_step_def record_sell_step_def next_with_def sell_receipt_of_def
        half_sell_def demo_sell_def demo_sell_world_def Let_def)
qed

theorem scale_out_loses_shares_witness:
  "\<exists>s'. s' = snd (execute_sell_order demo_sell_world half_sell demo_sell_state) \<and>
     positions held_db ''005930'' = Some (10, 1000) \<and> positions (ss_db s') ''005930'' = None \<and>
     (\<exists>row. trades (ss_db s') = trades held_db @ [row] \<and> log_qty row = 5)"
proof -
  let ?sig = "\<lparr>sig_reason = RsiOverbought 100, sig_pct = 50\<rparr>"
  obtain c' where sig: "check_sell_signal rsi_world ''005930'' 100 120 None (config_init 300) = (Some ?sig, c')"
    using rising_signal by (metis prod.collapse)
  have pct: "sig_reason ?sig = RsiOverbought 100" "sig_pct ?sig = 50" by simp_all
  from half_sell_success obtain rc s' where run: "execute_sell_order demo_sell_world half_sell demo_sell_state = (SellSuccess rc, s')"
    and price: "0 < sl_price rc" by (metis zero_less_numeral)
  obtain h where h: "holding_of ''005930'' (ss_db demo_sell_state) = Some h" "h_qty h = 10" "h_total h = 1000"
    by (simp add: demo_sell_state_def holding_of_def held_row active_def)
  have "db_ok (ss_db demo_sell_state)" "sq_code half_sell = ''005930''"
    "sq_quantity half_sell = sell_quantity (h_qty h) (sig_pct ?sig)" "sw_trade_env demo_sell_world = orm_env" "2 \<le> h_qty h"
    by (simp_all add: demo_sell_state_def held_db_ok half_sell_def demo_sell_def demo_sell_world_def sell_quantity_def h pct)
  from scale_out_loses_shares [OF sig pct(1) this(1) h(1) this(5,2,3,4) run price] run h show ?thesis
    by (auto simp: demo_sell_state_def half_sell_def)
qed

section \<open>From the presets to the price monitor\<close>

lemma preset_get_float:
  assumes "k \<notin> snd ` set config_key_map"
  shows "fst (get_float w2 k d (apply_preset_to_config ps w c)) = fst (get_float w2 k d c)"
  using assms by (simp add: get_float_def split_beta apply_preset_cfg_get)

text \<open>
  A strategy preset does not reach the sell rules of the price monitor: whatever preset
  is applied, the ATR stop, the RSI scale-out and the target profit decide as before, because
  the preset sets keys (PROFIT_TARGET_FULL, RSI_THRESHOLD_1 and others) that the monitor does
  not read.
\<close>

theorem preset_misses_sell_rules:
  "fst (atr_stop mw df buy_price price (apply_preset_to_config ps w c)) = fst (atr_stop mw df buy_price price c) \<and>
   fst (rsi_scale_out mw df price (apply_preset_to_config ps w c)) = fst (rsi_scale_out mw df price c) \<and>
   fst (target_profit mw profit_pct (apply_preset_to_config ps w c)) = fst (target_profit mw profit_pct c)"
proof -
  note same = preset_get_float [of _ "mw_cfg mw" _ ps w c]
  have k: "''ATR_MULTIPLIER'' \<notin> snd ` set config_key_map" "''SELL_RSI_OVERBOUGHT_THRESHOLD'' \<notin> snd ` set config_key_map"
    "''SELL_TARGET_PROFIT_PCT'' \<notin> snd ` set config_key_map"
    by (simp_all add: config_key_map_def)
  show ?thesis
    by (simp add: atr_stop_def rsi_scale_out_def target_profit_def split_beta Let_def same k
        split: sum.split option.split)
qed

end
